(* ===== verification/Prelude.thy ===== *)
theory Prelude
  imports Main "HOL-Library.Word"
begin

text \<open>
  Shared vocabulary of the development: the errors the TypeScript code throws, the
  result type of a function that may throw, the sequencing of such functions, and
  generic facts on lists that the components share.

  A JavaScript \<open>bigint\<close> is an \<open>int\<close>; a JavaScript \<open>number\<close> that the code uses as an
  integer is an \<open>int\<close> too. A \<open>Uint8Array\<close> is a list of 8-bit words. A function that
  may throw returns \<open>js_error + 'a\<close>, with \<open>Inl\<close> for the exception; a promise is its
  eventual value (rejection is \<open>Inl\<close>).
\<close>

section \<open>Errors and results\<close>

datatype js_error =
    RangeErr                       \<comment> \<open>DataView, TypedArray.set or BigInt out of range\<close>
  | WebErr                         \<comment> \<open>thrown inside web3.js (Address constructor, PDA search)\<close>
  | SizeErr string nat nat         \<comment> \<open>assertAccount: wrong account size (name, expected, got)\<close>
  | TagErr string int "int option"          \<comment> \<open>assertAccount: wrong account_type tag\<close>
  | NotMetaErr "int option"         \<comment> \<open>decodeOracleMeta: not an OracleMeta account\<close>
  | FixedLenErr nat nat            \<comment> \<open>fixedBytes: expected exactly n bytes\<close>
  | HexOddErr string nat           \<comment> \<open>hexToBytes: odd-length hex\<close>
  | HexDigitErr string             \<comment> \<open>hexToBytes: invalid hex\<close>
  | HexLenErr string nat nat       \<comment> \<open>hexToBytes: wrong byte count\<close>
  | ParityLenErr nat               \<comment> \<open>runner bridge: instruction data length\<close>
  | ParityDiscErr int              \<comment> \<open>runner bridge: discriminant\<close>
  | ParityErr int                  \<comment> \<open>runner bridge: first differing byte\<close>
  | SeedErr string                 \<comment> \<open>runner bridge: PDA seeds name other accounts\<close>
  | ValidationErr string           \<comment> \<open>the app's typed ValidationError (field)\<close>
  | NonceUnresolvedErr int         \<comment> \<open>OracleNonceUnresolvedError (maxNonce)\<close>
  | DecodeErr string               \<comment> \<open>decoders of foreign accounts (reason)\<close>
  | OtherErr string                \<comment> \<open>a plain Error (reason)\<close>

type_synonym 'a res = "js_error + 'a"

fun rbind :: "'a res \<Rightarrow> ('a \<Rightarrow> 'b res) \<Rightarrow> 'b res" where
  "rbind (Inl e) f = Inl e"
| "rbind (Inr x) f = f x"

fun rmap :: "('a \<Rightarrow> 'b) \<Rightarrow> 'a res \<Rightarrow> 'b res" where
  "rmap f (Inl e) = Inl e"
| "rmap f (Inr x) = Inr (f x)"

text \<open>
  The elements of an array literal are evaluated from left to right, and the first one
  that throws ends the evaluation.
\<close>

fun collect :: "'a res list \<Rightarrow> 'a list res" where
  "collect [] = Inr []"
| "collect (r # rs) = rbind r (\<lambda>x. rbind (collect rs) (\<lambda>xs. Inr (x # xs)))"

fun is_ok :: "'a res \<Rightarrow> bool" where
  "is_ok (Inl e) = False"
| "is_ok (Inr x) = True"

lemma rbind_Inr_iff: "rbind r f = Inr y \<longleftrightarrow> (\<exists>x. r = Inr x \<and> f x = Inr y)"
  by (cases r) auto

lemma rbind_Inl_iff:
  "rbind r f = Inl e \<longleftrightarrow> r = Inl e \<or> (\<exists>x. r = Inr x \<and> f x = Inl e)"
  by (cases r) auto

lemma rmap_Inr_iff: "rmap f r = Inr y \<longleftrightarrow> (\<exists>x. r = Inr x \<and> y = f x)"
  by (cases r) auto

lemma is_ok_iff: "is_ok r \<longleftrightarrow> (\<exists>x. r = Inr x)"
  by (cases r) auto

lemma collect_map_Inr [simp]: "collect (map Inr xs) = Inr xs"
  by (induction xs) auto

lemma collect_Inr_iff: "collect rs = Inr xs \<longleftrightarrow> rs = map Inr xs"
proof (induction rs arbitrary: xs)
  case Nil
  then show ?case by auto
next
  case (Cons r rs)
  then show ?case by (cases r; cases xs) (auto simp: rbind_Inr_iff)
qed

lemma collect_append:
  "collect (rs @ ss) = rbind (collect rs) (\<lambda>xs. rbind (collect ss) (\<lambda>ys. Inr (xs @ ys)))"
proof (induction rs)
  case Nil
  then show ?case by (cases "collect ss") auto
next
  case (Cons r rs)
  then show ?case
    by (cases r; cases "collect rs"; cases "collect ss") auto
qed

section \<open>Fact collections\<close>

text \<open>
  \<open>width_simps\<close> collects the lengths of the fixed-width encodings; \<open>read_at\<close> collects
  the rules that a reader at an offset returns the field encoded there;
  \<open>account_defs\<close> the definitions that a proof about one account unfolds.
\<close>

named_theorems width_simps "lengths of fixed-width encodings"
named_theorems read_at "a reader returns the field encoded at its offset"

section \<open>Lists\<close>

lemma take_drop_append_mid:
  "length pre = off \<Longrightarrow> length x = n \<Longrightarrow> take n (drop off (pre @ x @ post)) = x"
  by simp

lemma drop_split:
  assumes "off + n \<le> length xs"
  shows "drop off xs = take n (drop off xs) @ drop (off + n) xs"
  by (metis add.commute append_take_drop_id drop_drop)

lemma sum_list_map_le:
  fixes f g :: "'a \<Rightarrow> int"
  shows "(\<And>x. x \<in> set xs \<Longrightarrow> f x \<le> g x) \<Longrightarrow> sum_list (map f xs) \<le> sum_list (map g xs)"
  by (induction xs) (auto intro: add_mono)

lemma sum_list_const_mult: "sum_list (map (\<lambda>x. c * f x) xs) = c * sum_list (map f xs)"
  for f :: "'a \<Rightarrow> int"
  by (induction xs) (auto simp: algebra_simps)

end
