(* ===== verification/Bytes.thy ===== *)
theory Bytes
  imports Prelude
begin

text \<open>
  The little-endian byte layer of both SDKs: the writers of \<open>bytes.ts\<close> and the readers
  of \<open>accounts/common.ts\<close>, over the \<open>DataView\<close> operations of the JavaScript standard
  library. A \<open>DataView\<close> setter stores its argument modulo the width (two's complement),
  a getter outside the buffer throws a RangeError. The locale \<open>field_codec\<close> states what a
  decoder relies on for one field: the width of the encoding and that reading at the
  offset where a value was written returns the value; it is interpreted on every pair
  of a writer and a reader of the code.
\<close>

type_synonym byte = "8 word"
type_synonym bytes = "byte list"

section \<open>DataView primitives\<close>

fun le_bytes :: "nat \<Rightarrow> int \<Rightarrow> bytes" where
  "le_bytes 0 v = []"
| "le_bytes (Suc n) v = word_of_int v # le_bytes n (v div 256)"

fun le_val :: "bytes \<Rightarrow> int" where
  "le_val [] = 0"
| "le_val (b # bs) = uint b + 256 * le_val bs"

definition get_le :: "bytes \<Rightarrow> nat \<Rightarrow> nat \<Rightarrow> int res" where
  "get_le data off n =
     (if off + n \<le> length data then Inr (le_val (take n (drop off data))) else Inl RangeErr)"

definition to_signed :: "nat \<Rightarrow> int \<Rightarrow> int" where
  "to_signed n v = (if v < 2 ^ (n - 1) then v else v - 2 ^ n)"

text \<open>\<open>TypedArray.prototype.set\<close>: copy \<open>p\<close> into \<open>out\<close> at \<open>off\<close>.\<close>

definition buf_set :: "bytes \<Rightarrow> bytes \<Rightarrow> nat \<Rightarrow> bytes res" where
  "buf_set out p off =
     (if off + length p \<le> length out
      then Inr (take off out @ p @ drop (off + length p) out) else Inl RangeErr)"

text \<open>\<open>Uint8Array.prototype.slice\<close> and \<open>subarray\<close> (non-negative bounds) clamp to the array.\<close>

definition js_slice :: "'a list \<Rightarrow> nat \<Rightarrow> nat \<Rightarrow> 'a list" where
  "js_slice data from til = take (til - from) (drop from data)"

section \<open>Writers (bytes.ts)\<close>

definition u8 :: "int \<Rightarrow> bytes" where
  "u8 value = [word_of_int (take_bit 8 value)]"

definition u16LE :: "int \<Rightarrow> bytes" where
  "u16LE value = le_bytes 2 value"

definition i16LE :: "int \<Rightarrow> bytes" where
  "i16LE value = le_bytes 2 value"

definition u32LE :: "int \<Rightarrow> bytes" where
  "u32LE value = le_bytes 4 value"

definition u64LE :: "int \<Rightarrow> bytes" where
  "u64LE value = le_bytes 8 value"

definition i64LE :: "int \<Rightarrow> bytes" where
  "i64LE value = le_bytes 8 value"

text \<open>Two 64-bit stores: the low half masked, the high half shifted down.\<close>

definition u128LE :: "int \<Rightarrow> bytes" where
  "u128LE value = le_bytes 8 (take_bit 64 value) @ le_bytes 8 (drop_bit 64 value)"

text \<open>The copy loop into a preallocated buffer, with the running offset.\<close>

fun concat_loop :: "bytes \<Rightarrow> nat \<Rightarrow> bytes list \<Rightarrow> bytes res" where
  "concat_loop out off [] = Inr out"
| "concat_loop out off (p # ps) =
     rbind (buf_set out p off) (\<lambda>out'. concat_loop out' (off + length p) ps)"

definition concatBytes :: "bytes list \<Rightarrow> bytes res" where
  "concatBytes parts =
     (let total = fold (\<lambda>p n. n + length p) parts 0
      in concat_loop (replicate total 0) 0 parts)"

section \<open>Readers (accounts/common.ts)\<close>

definition readU8 :: "bytes \<Rightarrow> nat \<Rightarrow> int res" where
  "readU8 data off = get_le data off 1"

definition readU16LE :: "bytes \<Rightarrow> nat \<Rightarrow> int res" where
  "readU16LE data off = get_le data off 2"

definition readU32LE :: "bytes \<Rightarrow> nat \<Rightarrow> int res" where
  "readU32LE data off = get_le data off 4"

definition readU64LE :: "bytes \<Rightarrow> nat \<Rightarrow> int res" where
  "readU64LE data off = get_le data off 8"

definition readI64LE :: "bytes \<Rightarrow> nat \<Rightarrow> int res" where
  "readI64LE data off = rmap (to_signed 64) (get_le data off 8)"

definition readU128LE :: "bytes \<Rightarrow> nat \<Rightarrow> int res" where
  "readU128LE data off =
     rbind (get_le data off 8) (\<lambda>lo. rbind (get_le data (off + 8) 8) (\<lambda>hi.
       Inr (or (push_bit 64 hi) lo)))"

definition readBool :: "bytes \<Rightarrow> nat \<Rightarrow> bool res" where
  "readBool data off = rmap (\<lambda>v. v \<noteq> 0) (get_le data off 1)"

definition readBytes :: "bytes \<Rightarrow> nat \<Rightarrow> nat \<Rightarrow> bytes" where
  "readBytes data off len = js_slice data off (off + len)"

section \<open>Facts on the primitives\<close>

lemma length_le_bytes [simp, width_simps]: "length (le_bytes n v) = n"
  by (induction n arbitrary: v) auto

lemma uint_byte_of_int: "uint (word_of_int v :: byte) = v mod 256"
  by (simp add: uint_word_of_int)

lemma le_val_le_bytes: "le_val (le_bytes n v) = v mod 256 ^ n"
proof (induction n arbitrary: v)
  case 0
  then show ?case by simp
next
  case (Suc n)
  have "v mod (256 * 256 ^ n) = 256 * (v div 256 mod 256 ^ n) + v mod 256"
    by (rule zmod_zmult2_eq) simp
  with Suc show ?case by (simp add: uint_byte_of_int)
qed

lemma uint_byte_bounds: "0 \<le> uint (b :: byte)" "uint (b :: byte) < 256"
  using uint_lt2p [of b] by auto

lemma le_val_bounds: "0 \<le> le_val bs \<and> le_val bs < 256 ^ length bs"
proof (induction bs)
  case Nil
  then show ?case by simp
next
  case (Cons b bs)
  have "uint b + 256 * le_val bs < 256 + 256 * le_val bs"
    using uint_byte_bounds [of b] by simp
  also have "\<dots> \<le> 256 * 256 ^ length bs"
    using Cons by simp
  finally show ?case using Cons uint_byte_bounds [of b] by simp
qed

lemma le_bytes_le_val: "le_bytes (length bs) (le_val bs) = bs"
proof (induction bs)
  case Nil
  then show ?case by simp
next
  case (Cons b bs)
  have "(uint b + 256 * le_val bs) div 256 = le_val bs"
    using uint_byte_bounds [of b] by (simp add: div_add1_eq)
  moreover have "word_of_int (uint b + 256 * le_val bs) = b"
  proof -
    have "uint (word_of_int (uint b + 256 * le_val bs) :: byte) = uint b"
      using uint_byte_bounds [of b] by (simp only: uint_byte_of_int) simp
    then show ?thesis by (simp only: word_uint_eq_iff)
  qed
  ultimately show ?case using Cons by simp
qed

lemma le_bytes_mod: "le_bytes n (v mod 256 ^ n) = le_bytes n v"
  using le_bytes_le_val [of "le_bytes n v"] by (simp add: le_val_le_bytes)

lemma le_bytes_eq_iff: "le_bytes n v = le_bytes n w \<longleftrightarrow> v mod 256 ^ n = w mod 256 ^ n"
  by (metis le_bytes_mod le_val_le_bytes)

lemma le_bytes_append: "le_bytes (m + n) v = le_bytes m v @ le_bytes n (v div 256 ^ m)"
proof (induction m arbitrary: v)
  case 0
  then show ?case by simp
next
  case (Suc m)
  then show ?case by (simp add: zdiv_zmult2_eq)
qed

lemma get_le_at:
  assumes "length pre = off" "length enc = n"
  shows "get_le (pre @ enc @ post) off n = Inr (le_val enc)"
  using assms by (simp add: get_le_def)

lemma get_le_ok_iff: "is_ok (get_le data off n) \<longleftrightarrow> off + n \<le> length data"
  by (simp add: get_le_def)

lemma get_le_range:
  assumes "get_le data off n = Inr v"
  shows "0 \<le> v" "v < 256 ^ n"
proof -
  have "off + n \<le> length data" "v = le_val (take n (drop off data))"
    using assms by (auto simp: get_le_def split: if_splits)
  then show "0 \<le> v" "v < 256 ^ n"
    using le_val_bounds [of "take n (drop off data)"] by auto
qed

lemma to_signed_mod:
  assumes "- (2 ^ (n - 1)) \<le> v" "v < 2 ^ (n - 1)" "0 < n"
  shows "to_signed n (v mod 2 ^ n) = (v :: int)"
proof -
  have two: "(2::int) ^ n = 2 * 2 ^ (n - 1)"
    using \<open>0 < n\<close> by (cases n) auto
  show ?thesis
  proof (cases "0 \<le> v")
    case True
    then have "v mod 2 ^ n = v"
      using assms two by (simp add: mod_pos_pos_trivial)
    then show ?thesis using assms by (simp add: to_signed_def)
  next
    case False
    have "v mod 2 ^ n = (v + 2 ^ n) mod 2 ^ n" by simp
    also have "\<dots> = v + 2 ^ n"
      using False assms two by (intro mod_pos_pos_trivial) auto
    finally show ?thesis using False assms two by (simp add: to_signed_def)
  qed
qed

section \<open>Ranges of the field types\<close>

definition unsigned_range :: "nat \<Rightarrow> int \<Rightarrow> bool" where
  "unsigned_range n v \<longleftrightarrow> 0 \<le> v \<and> v < 2 ^ n"

definition signed_range :: "nat \<Rightarrow> int \<Rightarrow> bool" where
  "signed_range n v \<longleftrightarrow> - (2 ^ (n - 1)) \<le> v \<and> v < 2 ^ (n - 1)"

section \<open>The field codec interface\<close>

text \<open>
  What a fixed-offset decoder needs of a field: the encoding has the declared width,
  a read beyond a prefix is a read of the rest, and reading where the value was written
  returns it.
\<close>

locale field_codec =
  fixes width :: nat
    and enc :: "'v \<Rightarrow> bytes"
    and dec :: "bytes \<Rightarrow> nat \<Rightarrow> 'v res"
    and in_range :: "'v \<Rightarrow> bool"
  assumes enc_length: "in_range v \<Longrightarrow> length (enc v) = width"
    and dec_skip: "length pre \<le> off \<Longrightarrow> dec (pre @ data) off = dec data (off - length pre)"
    and dec_here: "in_range v \<Longrightarrow> dec (enc v @ post) 0 = Inr v"
begin

lemma dec_at: "in_range v \<Longrightarrow> length pre = off \<Longrightarrow> dec (pre @ enc v @ post) off = Inr v"
  by (simp add: dec_skip dec_here)

lemma dec_last: "in_range v \<Longrightarrow> dec (enc v) 0 = Inr v"
  using dec_here [of v "[]"] by simp

lemma enc_inj:
  assumes "in_range v" "in_range w" "enc v = enc w"
  shows "v = w"
  using assms dec_last by (metis sum.inject(2))

text \<open>Two concatenations that start with a field of the same codec agree on it.\<close>

lemma enc_append_inj:
  assumes "in_range v" "in_range w" "enc v @ xs = enc w @ ys"
  shows "v = w \<and> xs = ys"
proof -
  have "enc v = enc w \<and> xs = ys"
    using assms enc_length by (metis append_eq_append_conv)
  then show ?thesis using assms enc_inj by blast
qed

end

text \<open>A reader that throws exactly when the field does not fit in the buffer.\<close>

locale strict_codec = field_codec +
  assumes dec_fits: "is_ok (dec data off) \<longleftrightarrow> off + width \<le> length data"
begin

lemma dec_total:
  assumes "off + width \<le> length data"
  obtains v where "dec data off = Inr v"
  using assms dec_fits by (auto simp: is_ok_iff)

end

text \<open>A reader whose result re-encodes to the bytes that were read.\<close>

locale exact_codec = strict_codec +
  assumes dec_exact: "dec data off = Inr v \<Longrightarrow> in_range v \<and> enc v = take width (drop off data)"
begin

text \<open>Buffers with equal fields have equal bytes in the field's window.\<close>

lemma dec_inj:
  assumes "dec d1 off = Inr v" "dec d2 off = Inr v"
  shows "take width (drop off d1) = take width (drop off d2)"
  using assms dec_exact by metis

lemma dec_range: "dec data off = Inr v \<Longrightarrow> in_range v"
  using dec_exact by blast

end

section \<open>The codecs of the code\<close>

lemma get_le_skip [simp]:
  "length pre \<le> off \<Longrightarrow> get_le (pre @ data) off n = get_le data (off - length pre) n"
  by (auto simp: get_le_def)

lemma get_le_here [simp]: "get_le (le_bytes n v @ post) 0 n = Inr (v mod 256 ^ n)"
  by (simp add: get_le_def le_val_le_bytes)

lemma get_le_exact:
  assumes "get_le data off n = Inr v"
  shows "le_bytes n v = take n (drop off data)"
proof -
  have fits: "off + n \<le> length data" and v: "v = le_val (take n (drop off data))"
    using assms by (auto simp: get_le_def split: if_splits)
  then have "length (take n (drop off data)) = n" by simp
  then show ?thesis using v le_bytes_le_val by metis
qed

lemma u8_le_bytes: "u8 v = le_bytes 1 v"
  by (simp add: u8_def take_bit_eq_mod) (metis uint_byte_of_int word_of_int_uint)

lemma le_codec: "exact_codec n (le_bytes n) (\<lambda>d off. get_le d off n) (unsigned_range (8 * n))"
proof unfold_locales
  fix data :: bytes and off v
  show "get_le data off n = Inr v \<Longrightarrow>
      unsigned_range (8 * n) v \<and> le_bytes n v = take n (drop off data)"
    using get_le_range [of data off n v] get_le_exact [of data off n v]
    by (simp add: unsigned_range_def power_mult)
qed (simp_all add: unsigned_range_def power_mult get_le_ok_iff)

lemma codec_cong:
  assumes "exact_codec n e d r" "e = e'" "d = d'" "r = r'"
  shows "exact_codec n e' d' r'"
  using assms by simp

interpretation c8: exact_codec 1 u8 readU8 "unsigned_range 8"
  by (rule codec_cong [OF le_codec [of 1]]) (auto simp: fun_eq_iff readU8_def u8_le_bytes)

interpretation c16: exact_codec 2 u16LE readU16LE "unsigned_range 16"
  by (rule codec_cong [OF le_codec [of 2]]) (auto simp: fun_eq_iff readU16LE_def u16LE_def)

interpretation c32: exact_codec 4 u32LE readU32LE "unsigned_range 32"
  by (rule codec_cong [OF le_codec [of 4]]) (auto simp: fun_eq_iff readU32LE_def u32LE_def)

interpretation c64: exact_codec 8 u64LE readU64LE "unsigned_range 64"
  by (rule codec_cong [OF le_codec [of 8]]) (auto simp: fun_eq_iff readU64LE_def u64LE_def)

subsection \<open>Signed 64-bit integers\<close>

lemma to_signed_range:
  assumes "0 \<le> v" "v < 2 ^ 64"
  shows "signed_range 64 (to_signed 64 v) \<and> to_signed 64 v mod 2 ^ 64 = v"
proof (cases "v < 2 ^ 63")
  case True
  then show ?thesis using assms by (simp add: to_signed_def signed_range_def)
next
  case False
  have "(v - 2 ^ 64) mod 2 ^ 64 = v mod (2 ^ 64 :: int)"
    by (metis minus_mod_self2)
  then show ?thesis using False assms by (simp add: to_signed_def signed_range_def)
qed

interpretation ci64: exact_codec 8 i64LE readI64LE "signed_range 64"
proof unfold_locales
  fix data :: bytes and off v
  assume "readI64LE data off = Inr v"
  then obtain u where u: "get_le data off 8 = Inr u" and v: "v = to_signed 64 u"
    by (auto simp: readI64LE_def rmap_Inr_iff)
  have "0 \<le> u" "u < 2 ^ 64" using get_le_range [OF u] by auto
  then have "signed_range 64 v \<and> v mod 256 ^ 8 = u mod 256 ^ 8"
    using to_signed_range [of u] v by auto
  then show "signed_range 64 v \<and> i64LE v = take 8 (drop off data)"
    using get_le_exact [OF u] le_bytes_eq_iff [of 8 v u] by (simp add: i64LE_def)
next
  fix v :: int and post
  assume "signed_range 64 v"
  then show "readI64LE (i64LE v @ post) 0 = Inr v"
    using to_signed_mod [of 64 v] by (simp add: readI64LE_def i64LE_def signed_range_def)
next
  fix data :: bytes and off
  show "is_ok (readI64LE data off) \<longleftrightarrow> off + 8 \<le> length data"
    by (simp add: readI64LE_def get_le_def)
qed (simp_all add: readI64LE_def i64LE_def)

subsection \<open>128-bit integers: two halves\<close>

lemma u128LE_le_bytes: "u128LE v = le_bytes 16 v"
proof -
  have "le_bytes 16 v = le_bytes 8 v @ le_bytes 8 (v div 256 ^ 8)"
    using le_bytes_append [of 8 8 v] by simp
  moreover have "le_bytes 8 (take_bit 64 v) = le_bytes 8 v"
    by (simp add: le_bytes_eq_iff take_bit_eq_mod)
  ultimately show ?thesis by (simp add: u128LE_def drop_bit_eq_div)
qed

lemma readU128LE_get_le: "readU128LE data off = get_le data off 16"
proof (cases "off + 16 \<le> length data")
  case True
  let ?w = "take 16 (drop off data)"
  obtain lo where lo: "get_le data off 8 = Inr lo"
    using True by (auto simp: get_le_def)
  obtain hi where hi: "get_le data (off + 8) 8 = Inr hi"
    using True by (auto simp: get_le_def)
  obtain v where v: "get_le data off 16 = Inr v"
    using True by (auto simp: get_le_def)
  have lor: "0 \<le> lo" "lo < 2 ^ 64" using get_le_range [OF lo] by auto
  have hir: "0 \<le> hi" "hi < 2 ^ 64" using get_le_range [OF hi] by auto
  have vr: "0 \<le> v" "v < 256 ^ 16" using get_le_range [OF v] by auto
  have split: "?w = take 8 (drop off data) @ take 8 (drop (off + 8) data)"
    by (simp add: take_add [of 8 8, simplified] add.commute)
  have "le_bytes 16 v = le_bytes 8 lo @ le_bytes 8 hi"
    using split get_le_exact [OF v] get_le_exact [OF lo] get_le_exact [OF hi] by simp
  also have "\<dots> = le_bytes 16 (lo + 2 ^ 64 * hi)"
    using lor le_bytes_append [of 8 8 "lo + 2 ^ 64 * hi"]
      le_bytes_eq_iff [of 8 "lo + 2 ^ 64 * hi" lo] by simp
  finally have "v mod 256 ^ 16 = (lo + 2 ^ 64 * hi) mod 256 ^ 16"
    by (simp only: le_bytes_eq_iff)
  then have "v = lo + 2 ^ 64 * hi"
    using vr lor hir by simp
  moreover have "or (push_bit 64 hi) lo = push_bit 64 hi + lo"
  proof -
    have "take_bit 64 lo = lo" using lor by (simp add: take_bit_int_eq_self)
    then show ?thesis
      using concat_bit_def [of 64 lo hi] concat_bit_eq [of 64 lo hi]
      by (simp add: or.commute add.commute)
  qed
  ultimately show ?thesis
    using lo hi v by (simp add: readU128LE_def push_bit_eq_mult)
next
  case False
  then show ?thesis by (simp add: readU128LE_def get_le_def)
qed

interpretation c128: exact_codec 16 u128LE readU128LE "unsigned_range 128"
  by (rule codec_cong [OF le_codec [of 16]])
    (auto simp: fun_eq_iff readU128LE_get_le u128LE_le_bytes)

subsection \<open>Flags and raw byte ranges\<close>

text \<open>A Rust \<open>bool\<close>-like \<open>u8\<close> flag, as the program writes it.\<close>

definition flag_byte :: "bool \<Rightarrow> bytes" where
  "flag_byte b = u8 (if b then 1 else 0)"

lemma readBool_readU8: "readBool data off = rmap (\<lambda>v. v \<noteq> 0) (readU8 data off)"
  by (simp add: readBool_def readU8_def)

interpretation cbool: strict_codec 1 flag_byte readBool "\<lambda>_. True"
proof unfold_locales
  fix data :: bytes and off
  have "is_ok (readBool data off) = is_ok (readU8 data off)"
    by (auto simp: readBool_readU8 is_ok_iff rmap_Inr_iff)
  then show "is_ok (readBool data off) \<longleftrightarrow> off + 1 \<le> length data"
    by (simp add: c8.dec_fits)
next
  fix v :: bool and post
  have "unsigned_range 8 (if v then 1 else 0)" by (simp add: unsigned_range_def)
  then show "readBool (flag_byte v @ post) 0 = Inr v"
    by (simp add: readBool_readU8 flag_byte_def c8.dec_here)
next
  fix pre data :: bytes and off
  show "length pre \<le> off \<Longrightarrow> readBool (pre @ data) off = readBool data (off - length pre)"
    by (simp add: readBool_readU8 c8.dec_skip)
qed (simp add: flag_byte_def u8_def)

text \<open>\<open>readBytes\<close> never throws: it clamps, so it is a codec but not a strict one.\<close>

interpretation craw: field_codec n "\<lambda>b. b" "\<lambda>data off. Inr (readBytes data off n)" "\<lambda>b. length b = n"
  for n
  by unfold_locales (auto simp: readBytes_def js_slice_def)

text \<open>Zero padding of the \<open>#[repr(C)]\<close> structs.\<close>

definition zero_pad :: "nat \<Rightarrow> bytes" where
  "zero_pad n = replicate n 0"

lemma length_zero_pad [simp, width_simps]: "length (zero_pad n) = n"
  by (simp add: zero_pad_def)

lemma length_writers [simp, width_simps]:
  "length (u8 v) = 1" "length (u16LE v) = 2" "length (i16LE v) = 2" "length (u32LE v) = 4"
  "length (u64LE v) = 8" "length (i64LE v) = 8" "length (u128LE v) = 16"
  "length (flag_byte b) = 1"
  by (simp_all add: u8_def u16LE_def i16LE_def u32LE_def u64LE_def i64LE_def u128LE_def
      flag_byte_def)

lemma readBytes_skip:
  "length pre \<le> off \<Longrightarrow> readBytes (pre @ data) off n = readBytes data (off - length pre) n"
  by (simp add: readBytes_def js_slice_def)

lemma readBytes_here: "length b = n \<Longrightarrow> readBytes (b @ post) 0 n = b"
  by (simp add: readBytes_def js_slice_def)

lemma readBytes_last: "length b = n \<Longrightarrow> readBytes b 0 n = b"
  by (simp add: readBytes_def js_slice_def)

lemmas codec_reads [read_at] =
  c8.dec_skip c8.dec_here c8.dec_last
  c16.dec_skip c16.dec_here c16.dec_last
  c32.dec_skip c32.dec_here c32.dec_last
  c64.dec_skip c64.dec_here c64.dec_last
  ci64.dec_skip ci64.dec_here ci64.dec_last
  c128.dec_skip c128.dec_here c128.dec_last
  cbool.dec_skip cbool.dec_here cbool.dec_last
  readBytes_skip readBytes_here readBytes_last

section \<open>Joining chunks\<close>

lemma fold_total: "fold (\<lambda>p n. n + length p) parts k = k + length (concat parts)"
  by (induction parts arbitrary: k) auto

lemma concat_loop_concat:
  assumes "length pre = off" "length post = length (concat parts)"
  shows "concat_loop (pre @ post) off parts = Inr (pre @ concat parts)"
  using assms
proof (induction parts arbitrary: pre post off)
  case Nil
  then show ?case by simp
next
  case (Cons p ps)
  have "buf_set (pre @ post) p off = Inr ((pre @ p) @ drop (length p) post)"
    using Cons.prems by (simp add: buf_set_def)
  moreover have "concat_loop ((pre @ p) @ drop (length p) post) (off + length p) ps
      = Inr ((pre @ p) @ concat ps)"
    using Cons.prems by (intro Cons.IH) auto
  ultimately show ?case by simp
qed

lemma concatBytes_eq [simp]: "concatBytes parts = Inr (concat parts)"
  using concat_loop_concat [of "[]" 0 "replicate (length (concat parts)) 0" parts]
  by (simp add: concatBytes_def fold_total)

section \<open>Properties\<close>

lemma get_le_mid: "get_le (pre @ le_bytes n v @ post) (length pre) n = Inr (v mod 256 ^ n)"
  by simp

text \<open>
  The integer encodings are the two's-complement little-endian ones, at every width.
  Writing any integer, however large or negative, and reading it back at the same offset of
  any buffer yields its residue modulo the width; the signed reader yields the signed
  representative; and the two-halves 128-bit pair is a single 16-byte integer.
\<close>

theorem wire_integers:
  "readU8 (pre @ u8 v @ post) (length pre) = Inr (v mod 2 ^ 8)
   \<and> readU16LE (pre @ u16LE v @ post) (length pre) = Inr (v mod 2 ^ 16)
   \<and> readU32LE (pre @ u32LE v @ post) (length pre) = Inr (v mod 2 ^ 32)
   \<and> readU64LE (pre @ u64LE v @ post) (length pre) = Inr (v mod 2 ^ 64)
   \<and> readI64LE (pre @ i64LE v @ post) (length pre) = Inr (to_signed 64 (v mod 2 ^ 64))
   \<and> readU128LE (pre @ u128LE v @ post) (length pre) = Inr (v mod 2 ^ 128)
   \<and> (signed_range 64 v \<longrightarrow> to_signed 64 (v mod 2 ^ 64) = v)"
proof (intro conjI impI)
  show "to_signed 64 (v mod 2 ^ 64) = v" if "signed_range 64 v"
    using that by (intro to_signed_mod) (simp_all add: signed_range_def)
  show "readU8 (pre @ u8 v @ post) (length pre) = Inr (v mod 2 ^ 8)"
    using get_le_mid [of pre 1 v post] by (simp only: readU8_def u8_le_bytes) simp
qed (use get_le_mid in \<open>simp_all add: readU16LE_def u16LE_def readU32LE_def u32LE_def
      readU64LE_def u64LE_def readI64LE_def i64LE_def readU128LE_get_le u128LE_le_bytes\<close>)

theorem wire_integers_witness:
  "readI64LE (u8 7 @ i64LE (- 5) @ []) 1 = Inr (- 5)"
proof -
  have "signed_range 64 (- 5)" by (simp add: signed_range_def)
  then show ?thesis using wire_integers [of "u8 7" "- 5" "[]"] by simp
qed

text \<open>
  The chunk joiner is concatenation. The loop that copies each chunk into a
  preallocated buffer at a running offset never writes out of range and leaves exactly the
  chunks one after the other, with no byte of the initial zero fill left.
\<close>

theorem concatBytes_is_concat:
  "concatBytes parts = Inr (concat parts)
   \<and> fold (\<lambda>p n. n + length p) parts 0 = length (concat parts)"
  by (simp add: fold_total)

end
