(* ===== verification/Utf8.thy ===== *)
theory Utf8
  imports Bytes
begin

text \<open>
  The \<open>TextEncoder\<close> and \<open>TextDecoder\<close> of the JavaScript standard library (UTF-8, the
  decoder in its default replacement mode), which the SDKs use for PDA seeds, for the
  metadata payload and for the URI fields. A JavaScript string is the list of its code
  points; an unpaired surrogate is encoded as U+FFFD, as \<open>encode\<close> does. The decoder is
  the state machine of the Encoding standard: it holds a partial code point and the
  bounds of the next continuation byte. By default it drops one leading byte-order mark.
\<close>

type_synonym utext = "int list"

definition codes :: "string \<Rightarrow> utext" where
  "codes s = map of_char s"

section \<open>Encoder\<close>

definition is_surrogate :: "int \<Rightarrow> bool" where
  "is_surrogate c \<longleftrightarrow> 0xD800 \<le> c \<and> c \<le> 0xDFFF"

definition scalar :: "int \<Rightarrow> bool" where
  "scalar c \<longleftrightarrow> 0 \<le> c \<and> c \<le> 0x10FFFF \<and> \<not> is_surrogate c"

definition utf8_scalar :: "int \<Rightarrow> int list" where
  "utf8_scalar c =
     (if c < 0x80 then [c]
      else if c < 0x800 then [0xC0 + c div 64, 0x80 + c mod 64]
      else if c < 0x10000 then [0xE0 + c div 4096, 0x80 + c div 64 mod 64, 0x80 + c mod 64]
      else [0xF0 + c div 262144, 0x80 + c div 4096 mod 64, 0x80 + c div 64 mod 64,
            0x80 + c mod 64])"

definition utf8_code :: "int \<Rightarrow> bytes" where
  "utf8_code c = map word_of_int (utf8_scalar (if is_surrogate c then 0xFFFD else c))"

definition utf8_encode :: "utext \<Rightarrow> bytes" where
  "utf8_encode s = concat (map utf8_code s)"

section \<open>Decoder\<close>

datatype utf8_state = Ready | Partial int nat int int

fun utf8_start :: "int \<Rightarrow> utext \<times> utf8_state" where
  "utf8_start b =
     (if b < 0x80 then ([b], Ready)
      else if 0xC2 \<le> b \<and> b \<le> 0xDF then ([], Partial (b - 0xC0) 1 0x80 0xBF)
      else if 0xE0 \<le> b \<and> b \<le> 0xEF then
        ([], Partial (b - 0xE0) 2 (if b = 0xE0 then 0xA0 else 0x80)
               (if b = 0xED then 0x9F else 0xBF))
      else if 0xF0 \<le> b \<and> b \<le> 0xF4 then
        ([], Partial (b - 0xF0) 3 (if b = 0xF0 then 0x90 else 0x80)
               (if b = 0xF4 then 0x8F else 0xBF))
      else ([0xFFFD], Ready))"

fun utf8_step :: "utf8_state \<Rightarrow> int \<Rightarrow> utext \<times> utf8_state" where
  "utf8_step Ready b = utf8_start b"
| "utf8_step (Partial cp n lo hi) b =
     (if lo \<le> b \<and> b \<le> hi then
        (if n = 1 then ([cp * 64 + (b - 0x80)], Ready)
         else ([], Partial (cp * 64 + (b - 0x80)) (n - 1) 0x80 0xBF))
      else (let (out, st) = utf8_start b in (0xFFFD # out, st)))"

fun utf8_run :: "utf8_state \<Rightarrow> int list \<Rightarrow> utext" where
  "utf8_run Ready [] = []"
| "utf8_run (Partial cp n lo hi) [] = [0xFFFD]"
| "utf8_run st (b # bs) = (let (out, st') = utf8_step st b in out @ utf8_run st' bs)"

definition drop_bom :: "int list \<Rightarrow> int list" where
  "drop_bom bs = (if take 3 bs = [0xEF, 0xBB, 0xBF] then drop 3 bs else bs)"

definition utf8_decode :: "bytes \<Rightarrow> utext" where
  "utf8_decode bs = utf8_run Ready (drop_bom (map uint bs))"

section \<open>Round trip\<close>

lemma utf8_scalar_bytes:
  assumes "0 \<le> c" "c \<le> 0x10FFFF" "b \<in> set (utf8_scalar c)"
  shows "0 \<le> b \<and> b < 256"
  using assms by (auto simp: utf8_scalar_def split: if_splits)

lemma uint_utf8_code:
  assumes "scalar c"
  shows "map uint (utf8_code c) = utf8_scalar c"
proof -
  have "map uint (utf8_code c) = map (\<lambda>b. b mod 256) (utf8_scalar c)"
    using assms by (simp add: utf8_code_def scalar_def uint_byte_of_int)
  also have "\<dots> = utf8_scalar c"
    using assms utf8_scalar_bytes [of c]
    by (intro map_idI mod_pos_pos_trivial) (auto simp: scalar_def)
  finally show ?thesis .
qed

text \<open>The six-bit digits of a code point.\<close>

lemma digits3:
  fixes c :: int
  obtains a b d where "c = 4096 * a + 64 * b + d" "0 \<le> b" "b < 64" "0 \<le> d" "d < 64"
    "c div 4096 = a" "c div 64 mod 64 = b" "c mod 64 = d"
proof -
  have "c div 4096 = c div 64 div 64" by (simp add: zdiv_zmult2_eq [symmetric])
  then have "c = 4096 * (c div 4096) + 64 * (c div 64 mod 64) + c mod 64"
    using div_mult_mod_eq [of c 64] div_mult_mod_eq [of "c div 64" 64] by linarith
  then show thesis by (rule that) simp_all
qed

lemma digits4:
  fixes c :: int
  obtains a b d e where "c = 262144 * a + 4096 * b + 64 * d + e"
    "0 \<le> b" "b < 64" "0 \<le> d" "d < 64" "0 \<le> e" "e < 64"
    "c div 262144 = a" "c div 4096 mod 64 = b" "c div 64 mod 64 = d" "c mod 64 = e"
proof -
  have "c div 262144 = c div 4096 div 64" by (simp add: zdiv_zmult2_eq [symmetric])
  moreover have "c div 4096 = c div 64 div 64" by (simp add: zdiv_zmult2_eq [symmetric])
  ultimately have "c = 262144 * (c div 262144) + 4096 * (c div 4096 mod 64)
      + 64 * (c div 64 mod 64) + c mod 64"
    using div_mult_mod_eq [of c 64] div_mult_mod_eq [of "c div 64" 64]
      div_mult_mod_eq [of "c div 4096" 64] by linarith
  then show thesis by (rule that) simp_all
qed

lemma utf8_run_scalar:
  assumes "scalar c"
  shows "utf8_run Ready (utf8_scalar c @ bs) = c # utf8_run Ready bs"
proof -
  consider "c < 0x80" | "0x80 \<le> c" "c < 0x800" | "0x800 \<le> c" "c < 0x10000" | "0x10000 \<le> c"
    by linarith
  then show ?thesis
  proof cases
    case 1
    then show ?thesis by (simp add: utf8_scalar_def)
  next
    case 2
    then have "2 \<le> c div 64" "c div 64 < 32" by auto
    then show ?thesis using 2 by (simp add: utf8_scalar_def)
  next
    case 3
    obtain a b d where abd: "c = 4096 * a + 64 * b + d" "0 \<le> b" "b < 64" "0 \<le> d" "d < 64"
      "c div 4096 = a" "c div 64 mod 64 = b" "c mod 64 = d" by (rule digits3)
    have "0 \<le> a" "a \<le> 15" "a = 0 \<longrightarrow> 32 \<le> b" "a = 13 \<longrightarrow> b < 32"
      using 3 abd(1-5) assms by (auto simp: scalar_def is_surrogate_def)
    moreover have "utf8_scalar c = [0xE0 + a, 0x80 + b, 0x80 + d]"
      using 3 abd(6-8) by (simp add: utf8_scalar_def)
    ultimately show ?thesis using abd(1-5)
      by (cases "a = 0"; cases "a = 13") simp_all
  next
    case 4
    obtain a b d e where abd: "c = 262144 * a + 4096 * b + 64 * d + e"
      "0 \<le> b" "b < 64" "0 \<le> d" "d < 64" "0 \<le> e" "e < 64"
      "c div 262144 = a" "c div 4096 mod 64 = b" "c div 64 mod 64 = d" "c mod 64 = e"
      by (rule digits4)
    have "0 \<le> a" "a \<le> 4" "a = 0 \<longrightarrow> 16 \<le> b" "a = 4 \<longrightarrow> b < 16"
      using 4 abd(1-7) assms by (auto simp: scalar_def)
    moreover have "utf8_scalar c = [0xF0 + a, 0x80 + b, 0x80 + d, 0x80 + e]"
      using 4 abd(8-11) by (simp add: utf8_scalar_def)
    ultimately show ?thesis using abd(1-7)
      by (cases "a = 0"; cases "a = 4") simp_all
  qed
qed

lemma utf8_run_encode:
  assumes "list_all scalar s"
  shows "utf8_run Ready (map uint (utf8_encode s)) = s"
  using assms
proof (induction s)
  case Nil
  then show ?case by (simp add: utf8_encode_def)
next
  case (Cons c s)
  then have "map uint (utf8_encode (c # s)) = utf8_scalar c @ map uint (utf8_encode s)"
    by (simp add: utf8_encode_def uint_utf8_code)
  then show ?case using Cons by (simp add: utf8_run_scalar)
qed

lemma utf8_scalar_inj_bom:
  assumes "scalar c" "c \<noteq> 0xFEFF"
  shows "take 3 (utf8_scalar c @ bs) \<noteq> [0xEF, 0xBB, 0xBF]"
proof
  assume bom: "take 3 (utf8_scalar c @ bs) = [0xEF, 0xBB, 0xBF]"
  then have "utf8_scalar c @ bs = [0xEF, 0xBB, 0xBF] @ drop 3 (utf8_scalar c @ bs)"
    by (metis append_take_drop_id)
  then have "utf8_run Ready (utf8_scalar c @ bs)
      = utf8_run Ready ([0xEF, 0xBB, 0xBF] @ drop 3 (utf8_scalar c @ bs))"
    by (rule arg_cong)
  moreover have "hd (utf8_run Ready ([0xEF, 0xBB, 0xBF] @ xs)) = 0xFEFF" for xs
    by simp
  ultimately have "hd (utf8_run Ready (utf8_scalar c @ bs)) = 0xFEFF"
    by (simp only:)
  then show False using assms by (simp add: utf8_run_scalar)
qed

text \<open>
  Decoding inverts encoding for well-formed text that does not begin with a byte-order
  mark (the decoder would drop it).
\<close>

lemma utf8_round_trip:
  assumes "list_all scalar s" "s = [] \<or> hd s \<noteq> 0xFEFF"
  shows "utf8_decode (utf8_encode s) = s"
proof (cases s)
  case Nil
  then show ?thesis by (simp add: utf8_decode_def utf8_encode_def drop_bom_def)
next
  case (Cons c s')
  then have "map uint (utf8_encode s) = utf8_scalar c @ map uint (utf8_encode s')"
    using assms by (simp add: utf8_encode_def uint_utf8_code)
  then have "drop_bom (map uint (utf8_encode s)) = map uint (utf8_encode s)"
    using assms Cons utf8_scalar_inj_bom [of c] by (simp add: drop_bom_def)
  then show ?thesis using assms by (simp add: utf8_decode_def utf8_run_encode)
qed

definition plain_text :: "utext \<Rightarrow> bool" where
  "plain_text s \<longleftrightarrow> list_all scalar s \<and> (s = [] \<or> hd s \<noteq> 0xFEFF)"

lemma utf8_round_trip_plain: "plain_text s \<Longrightarrow> utf8_decode (utf8_encode s) = s"
  by (simp add: plain_text_def utf8_round_trip)

section \<open>ASCII literals\<close>

definition ascii :: "string \<Rightarrow> bytes" where
  "ascii s = utf8_encode (codes s)"

lemma ascii_Nil [simp]: "ascii [] = []"
  by (simp add: ascii_def codes_def utf8_encode_def)

lemma ascii_Cons: "(of_char c :: int) < 128 \<Longrightarrow> ascii (c # s) = word_of_int (of_char c) # ascii s"
  by (simp add: ascii_def codes_def utf8_encode_def utf8_code_def utf8_scalar_def is_surrogate_def)

end
