(* ===== verification/Web3.thy ===== *)
theory Web3
  imports Utf8
begin

text \<open>
  What the code uses of \<open>@solana/web3.js\<close>, as a record of functions that every definition
  taking an address receives as its argument, with the documented behaviour of the
  library as the predicate \<open>web3_ok\<close>; and the account-meta and payload helpers that all
  instruction builders share (\<open>instructions/payload.ts\<close>, \<open>instructions/lifecycle/shared.ts\<close>).
\<close>

section \<open>The library as a parameter\<close>

text \<open>
  \<open>w3_of_string\<close> and \<open>w3_of_bytes\<close> are the \<open>Address\<close> constructor on a base58 string and on
  raw bytes (\<open>None\<close> when it throws), \<open>w3_bytes\<close> is \<open>toBytes\<close>, \<open>w3_string\<close> is \<open>toString\<close> and
  \<open>w3_find_pda\<close> is \<open>Address.findProgramAddress\<close> (the address and the bump).
\<close>

record 'a web3 =
  w3_of_string :: "string \<Rightarrow> 'a option"
  w3_of_bytes :: "bytes \<Rightarrow> 'a option"
  w3_bytes :: "'a \<Rightarrow> bytes"
  w3_string :: "'a \<Rightarrow> string"
  w3_find_pda :: "bytes list \<Rightarrow> 'a \<Rightarrow> ('a \<times> nat) option"

text \<open>An \<open>AddressInput\<close>: an \<open>Address\<close> object or a base58 string.\<close>

datatype 'a address_input = Addr 'a | B58 string

definition lift_web :: "'b option \<Rightarrow> 'b res" where
  "lift_web r = (case r of None \<Rightarrow> Inl WebErr | Some x \<Rightarrow> Inr x)"

definition known_ids :: "string list" where
  "known_ids =
     [''KassVxvXUEPr5apSr2MqiGva4VFtJXyYLLDFS3f83nY'', ''11111111111111111111111111111111'',
      ''TokenkegQfeZyiNwAJbNbGKPFXCWuBvf9Ss623VQ5DA'',
      ''ATokenGPvbdGVxr1b2hvZbsiqW5xWH25efTNsLJA8knL'',
      ''VLTX1ishMBbcX3rdBWGssxawAo1Q2X2qxYFYqiGodVg'',
      ''AMMyu265tkBpRW21iGQxKGLaves3gKm2JcMUqfXNSpqD'',
      ''FEGNHWAB7kc7VC9CCwbvVPsv4Jykz2r2WQ758V4xCT9S'',
      ''BPFLoaderUpgradeab1e11111111111111111111111'']"

text \<open>
  An \<open>Address\<close> is 32 bytes, the constructor accepts exactly the 32-byte arrays, printing
  and parsing are inverse, and the program ids of the source parse.
\<close>

definition web3_ok :: "'a web3 \<Rightarrow> bool" where
  "web3_ok W \<longleftrightarrow>
     (\<forall>a. length (w3_bytes W a) = 32) \<and>
     (\<forall>a. w3_of_bytes W (w3_bytes W a) = Some a) \<and>
     (\<forall>b. w3_of_bytes W b \<noteq> None \<longleftrightarrow> length b = 32) \<and>
     (\<forall>b a. w3_of_bytes W b = Some a \<longrightarrow> w3_bytes W a = b) \<and>
     (\<forall>a. w3_of_string W (w3_string W a) = Some a) \<and>
     (\<forall>s\<in>set known_ids. w3_of_string W s \<noteq> None)"

lemma web3_ok_D:
  assumes "web3_ok W"
  shows "length (w3_bytes W a) = 32" "w3_of_bytes W (w3_bytes W a) = Some a"
    "w3_of_bytes W b = Some a \<Longrightarrow> w3_bytes W a = b"
    "w3_of_string W (w3_string W a) = Some a"
    "s \<in> set known_ids \<Longrightarrow> \<exists>a. w3_of_string W s = Some a"
    "length b = 32 \<Longrightarrow> \<exists>a. w3_of_bytes W b = Some a"
    "length b \<noteq> 32 \<Longrightarrow> w3_of_bytes W b = None"
  using assms unfolding web3_ok_def by blast+

lemma web3_bytes_inj:
  assumes "web3_ok W" "w3_bytes W a = w3_bytes W b"
  shows "a = b"
  using web3_ok_D(2) [OF assms(1)] assms(2) by (metis option.inject)

lemma web3_string_inj:
  assumes "web3_ok W" "w3_string W a = w3_string W b"
  shows "a = b"
  using web3_ok_D(4) [OF assms(1)] assms(2) by (metis option.inject)

section \<open>A concrete instance\<close>

text \<open>
  An instance on 256-bit words that satisfies \<open>web3_ok\<close>, on which the witnesses evaluate
  the definitions. It is not the library's base58 or its hash.
\<close>

definition sample_web3 :: "256 word web3" where
  "sample_web3 = \<lparr>
     w3_of_string = (\<lambda>s. Some (word_of_int (le_val (map (\<lambda>c. word_of_int (of_char c)) s)))),
     w3_of_bytes = (\<lambda>b. if length b = 32 then Some (word_of_int (le_val b)) else None),
     w3_bytes = (\<lambda>a. le_bytes 32 (uint a)),
     w3_string = (\<lambda>a. map (\<lambda>b. char_of (uint b)) (le_bytes 32 (uint a))),
     w3_find_pda = (\<lambda>seeds pid. Some (word_of_int (le_val (concat seeds)), 255)) \<rparr>"

lemma sample_bytes:
  fixes a :: "256 word"
  shows "word_of_int (le_val (le_bytes 32 (uint a))) = a"
proof -
  have "uint a < 2 ^ 256" using uint_lt2p [of a] by simp
  then show ?thesis by (simp add: le_val_le_bytes mod_pos_pos_trivial)
qed

lemma sample_web3_ok: "web3_ok sample_web3"
proof -
  have char: "(word_of_int (of_char (char_of (uint b))) :: byte) = b" for b :: byte
    using uint_byte_bounds [of b]
    by (simp add: word_uint_eq_iff uint_byte_of_int take_bit_eq_mod)
  then have "map (\<lambda>c. word_of_int (of_char c)) (map (\<lambda>b. char_of (uint b)) bs) = bs" for bs :: bytes
    by (simp add: o_def)
  moreover have "le_bytes 32 (uint (word_of_int (le_val b) :: 256 word)) = b"
    if "length b = 32" for b
  proof -
    have "uint (word_of_int (le_val b) :: 256 word) = le_val b mod 256 ^ 32"
      by (simp add: uint_word_of_int)
    also have "\<dots> = le_val b" using le_val_bounds [of b] that by (intro mod_pos_pos_trivial) auto
    finally show ?thesis using le_bytes_le_val [of b] that by (simp only:)
  qed
  ultimately show ?thesis
    by (auto simp: web3_ok_def sample_web3_def sample_bytes simp del: map_map split: if_splits)
qed

section \<open>Addresses, account metas and instructions\<close>

record 'a account_meta =
  am_pubkey :: 'a
  am_isSigner :: bool
  am_isWritable :: bool

record 'a tx_instruction =
  ti_programId :: 'a
  ti_keys :: "'a account_meta list"
  ti_data :: bytes

fun addr :: "'a web3 \<Rightarrow> 'a address_input \<Rightarrow> 'a res" where
  "addr W (Addr a) = Inr a"
| "addr W (B58 s) = lift_web (w3_of_string W s)"

definition w :: "'a \<Rightarrow> bool \<Rightarrow> 'a account_meta" where
  "w pubkey isSigner = \<lparr>am_pubkey = pubkey, am_isSigner = isSigner, am_isWritable = True\<rparr>"

definition ro :: "'a \<Rightarrow> bool \<Rightarrow> 'a account_meta" where
  "ro pubkey isSigner = \<lparr>am_pubkey = pubkey, am_isSigner = isSigner, am_isWritable = False\<rparr>"

definition pubkeyBytes :: "'a web3 \<Rightarrow> 'a address_input \<Rightarrow> bytes res" where
  "pubkeyBytes W value = rmap (w3_bytes W) (addr W value)"

definition fixedBytes :: "bytes \<Rightarrow> nat \<Rightarrow> bytes res" where
  "fixedBytes bs len = (if length bs \<noteq> len then Inl (FixedLenErr len (length bs)) else Inr bs)"

definition asBase58 :: "'a web3 \<Rightarrow> 'a address_input \<Rightarrow> string res" where
  "asBase58 W a = rmap (w3_string W) (addr W a)"

definition readPubkey :: "'a web3 \<Rightarrow> bytes \<Rightarrow> nat \<Rightarrow> 'a res" where
  "readPubkey W data off = lift_web (w3_of_bytes W (js_slice data off (off + 32)))"

section \<open>Facts\<close>

lemma lift_web_simps [simp]: "lift_web (Some x) = Inr x" "lift_web None = Inl WebErr"
  by (simp_all add: lift_web_def)

lemma fixedBytes_ok [simp]: "length bs = n \<Longrightarrow> fixedBytes bs n = Inr bs"
  by (simp add: fixedBytes_def)

lemma fixedBytes_iff: "fixedBytes bs n = Inr x \<longleftrightarrow> length bs = n \<and> x = bs"
  by (auto simp: fixedBytes_def)

lemma meta_simps [simp]:
  "am_pubkey (w p s) = p" "am_isSigner (w p s) = s" "am_isWritable (w p s) = True"
  "am_pubkey (ro p s) = p" "am_isSigner (ro p s) = s" "am_isWritable (ro p s) = False"
  by (simp_all add: w_def ro_def)

text \<open>A pubkey field is a strict codec, once the library behaves as documented.\<close>

lemma pubkey_codec:
  assumes "web3_ok W"
  shows "exact_codec 32 (w3_bytes W) (readPubkey W) (\<lambda>_. True)"
proof
  fix data :: bytes and off a
  assume "readPubkey W data off = Inr a"
  then have "w3_of_bytes W (take 32 (drop off data)) = Some a"
    by (auto simp: readPubkey_def js_slice_def lift_web_def split: option.splits)
  then show "True \<and> w3_bytes W a = take 32 (drop off data)"
    using web3_ok_D(3) [OF assms] by blast
next
  fix data :: bytes and off
  have "w3_of_bytes W (take 32 (drop off data)) = None
      \<longleftrightarrow> length (take 32 (drop off data)) \<noteq> 32"
    using web3_ok_D(6,7) [OF assms] by (metis option.distinct(1))
  then show "is_ok (readPubkey W data off) \<longleftrightarrow> off + 32 \<le> length data"
    by (cases "w3_of_bytes W (take 32 (drop off data))")
      (auto simp: readPubkey_def js_slice_def lift_web_def)
qed (simp_all add: readPubkey_def js_slice_def web3_ok_D [OF assms])

lemma readPubkey_simps [read_at]:
  assumes "web3_ok W"
  shows "length pre \<le> off \<Longrightarrow> readPubkey W (pre @ data) off = readPubkey W data (off - length pre)"
    "readPubkey W (w3_bytes W a @ post) 0 = Inr a"
    "readPubkey W (w3_bytes W a) 0 = Inr a"
proof -
  have c: "field_codec 32 (w3_bytes W) (readPubkey W) (\<lambda>_. True)"
    using pubkey_codec [OF assms] by (simp add: exact_codec_def strict_codec_def)
  show "length pre \<le> off \<Longrightarrow> readPubkey W (pre @ data) off = readPubkey W data (off - length pre)"
    "readPubkey W (w3_bytes W a @ post) 0 = Inr a"
    using field_codec.dec_skip [OF c] field_codec.dec_here [OF c TrueI] by auto
  show "readPubkey W (w3_bytes W a) 0 = Inr a"
    by (rule field_codec.dec_last [OF c TrueI])
qed

lemma length_w3_bytes [width_simps]: "web3_ok W \<Longrightarrow> length (w3_bytes W a) = 32"
  by (rule web3_ok_D)

end
