(* ===== verification/Oracle_Constants.thy ===== *)
theory Oracle_Constants
  imports Web3
begin

text \<open>
  The constants of the dispute-core program as \<open>sdks/oracles/ts/src/constants.ts\<close> mirrors
  them: instruction discriminants, account-type tags, phases, account sizes, error codes
  with their messages, and the fixed program ids. A TypeScript numeric enum is a datatype
  with its code; its reverse mapping (\<open>Enum[n]\<close>) is the search in the list of constructors.
\<close>

section \<open>Program ids\<close>

definition known_id :: "'a web3 \<Rightarrow> string \<Rightarrow> 'a" where
  "known_id W s = the (w3_of_string W s)"

definition KASSANDRA_PROGRAM_ID :: "'a web3 \<Rightarrow> 'a" where
  "KASSANDRA_PROGRAM_ID W = known_id W ''KassVxvXUEPr5apSr2MqiGva4VFtJXyYLLDFS3f83nY''"

definition SYSTEM_PROGRAM_ID :: "'a web3 \<Rightarrow> 'a" where
  "SYSTEM_PROGRAM_ID W = known_id W ''11111111111111111111111111111111''"

definition TOKEN_PROGRAM_ID :: "'a web3 \<Rightarrow> 'a" where
  "TOKEN_PROGRAM_ID W = known_id W ''TokenkegQfeZyiNwAJbNbGKPFXCWuBvf9Ss623VQ5DA''"

definition ATA_PROGRAM_ID :: "'a web3 \<Rightarrow> 'a" where
  "ATA_PROGRAM_ID W = known_id W ''ATokenGPvbdGVxr1b2hvZbsiqW5xWH25efTNsLJA8knL''"

definition conditionalVault_id :: "'a web3 \<Rightarrow> 'a" where
  "conditionalVault_id W = known_id W ''VLTX1ishMBbcX3rdBWGssxawAo1Q2X2qxYFYqiGodVg''"

definition ammV04_id :: "'a web3 \<Rightarrow> 'a" where
  "ammV04_id W = known_id W ''AMMyu265tkBpRW21iGQxKGLaves3gKm2JcMUqfXNSpqD''"

section \<open>Instruction discriminants\<close>

datatype Ix =
    Ix_SubmitFact
  | Ix_VoteFact
  | Ix_FinalizeFacts
  | Ix_SubmitAiClaim
  | Ix_OpenChallenge
  | Ix_SettleChallenge
  | Ix_FinalizeOracle
  | Ix_AdvancePhase
  | Ix_FinalizeAiClaims
  | Ix_InitProtocol
  | Ix_CreateOracle
  | Ix_Propose
  | Ix_FinalizeProposals
  | Ix_SetGovernance
  | Ix_SetConfig
  | Ix_ResolveDeadend
  | Ix_KassPrice
  | Ix_ClaimProposer
  | Ix_ClaimFact
  | Ix_ClaimFactVote
  | Ix_CloseAiClaim
  | Ix_CloseMarket
  | Ix_SweepOracle
  | Ix_WriteOracleMeta

fun ix_code :: "Ix \<Rightarrow> int" where
  "ix_code Ix_SubmitFact = 0"
| "ix_code Ix_VoteFact = 1"
| "ix_code Ix_FinalizeFacts = 2"
| "ix_code Ix_SubmitAiClaim = 3"
| "ix_code Ix_OpenChallenge = 4"
| "ix_code Ix_SettleChallenge = 5"
| "ix_code Ix_FinalizeOracle = 6"
| "ix_code Ix_AdvancePhase = 7"
| "ix_code Ix_FinalizeAiClaims = 8"
| "ix_code Ix_InitProtocol = 9"
| "ix_code Ix_CreateOracle = 10"
| "ix_code Ix_Propose = 11"
| "ix_code Ix_FinalizeProposals = 12"
| "ix_code Ix_SetGovernance = 13"
| "ix_code Ix_SetConfig = 14"
| "ix_code Ix_ResolveDeadend = 15"
| "ix_code Ix_KassPrice = 16"
| "ix_code Ix_ClaimProposer = 17"
| "ix_code Ix_ClaimFact = 18"
| "ix_code Ix_ClaimFactVote = 19"
| "ix_code Ix_CloseAiClaim = 20"
| "ix_code Ix_CloseMarket = 21"
| "ix_code Ix_SweepOracle = 22"
| "ix_code Ix_WriteOracleMeta = 23"

definition all_ix :: "Ix list" where
  "all_ix =
     [Ix_SubmitFact, Ix_VoteFact, Ix_FinalizeFacts, Ix_SubmitAiClaim, Ix_OpenChallenge,
     Ix_SettleChallenge, Ix_FinalizeOracle, Ix_AdvancePhase, Ix_FinalizeAiClaims,
     Ix_InitProtocol, Ix_CreateOracle, Ix_Propose, Ix_FinalizeProposals, Ix_SetGovernance,
     Ix_SetConfig, Ix_ResolveDeadend, Ix_KassPrice, Ix_ClaimProposer, Ix_ClaimFact,
     Ix_ClaimFactVote, Ix_CloseAiClaim, Ix_CloseMarket, Ix_SweepOracle,
     Ix_WriteOracleMeta]"

section \<open>Account types and sizes\<close>

datatype AccountType =
    AT_Uninitialized
  | AT_Oracle
  | AT_Proposer
  | AT_Fact
  | AT_FactVote
  | AT_AiClaim
  | AT_Market
  | AT_Protocol
  | AT_OracleMeta

fun type_code :: "AccountType \<Rightarrow> int" where
  "type_code AT_Uninitialized = 0"
| "type_code AT_Oracle = 1"
| "type_code AT_Proposer = 2"
| "type_code AT_Fact = 3"
| "type_code AT_FactVote = 4"
| "type_code AT_AiClaim = 5"
| "type_code AT_Market = 6"
| "type_code AT_Protocol = 7"
| "type_code AT_OracleMeta = 8"

fun ACCOUNT_SIZES :: "AccountType \<Rightarrow> nat option" where
  "ACCOUNT_SIZES AT_Protocol = Some 392"
| "ACCOUNT_SIZES AT_Oracle = Some 368"
| "ACCOUNT_SIZES AT_Proposer = Some 96"
| "ACCOUNT_SIZES AT_Fact = Some 336"
| "ACCOUNT_SIZES AT_FactVote = Some 88"
| "ACCOUNT_SIZES AT_AiClaim = Some 208"
| "ACCOUNT_SIZES AT_Market = Some 416"
| "ACCOUNT_SIZES AT_Uninitialized = None"
| "ACCOUNT_SIZES AT_OracleMeta = None"

section \<open>Phases\<close>

datatype Phase =
    Ph_Created
  | Ph_Proposal
  | Ph_FactProposal
  | Ph_FactVoting
  | Ph_AiClaim
  | Ph_Challenge
  | Ph_FinalRecompute
  | Ph_Resolved
  | Ph_InvalidDeadend

fun phase_code :: "Phase \<Rightarrow> int" where
  "phase_code Ph_Created = 0"
| "phase_code Ph_Proposal = 1"
| "phase_code Ph_FactProposal = 2"
| "phase_code Ph_FactVoting = 3"
| "phase_code Ph_AiClaim = 4"
| "phase_code Ph_Challenge = 5"
| "phase_code Ph_FinalRecompute = 6"
| "phase_code Ph_Resolved = 7"
| "phase_code Ph_InvalidDeadend = 8"

definition all_phases :: "Phase list" where
  "all_phases =
     [Ph_Created, Ph_Proposal, Ph_FactProposal, Ph_FactVoting, Ph_AiClaim, Ph_Challenge,
     Ph_FinalRecompute, Ph_Resolved, Ph_InvalidDeadend]"

text \<open>\<open>raw in Phase ? raw : undefined\<close>: the reverse mapping, when the code is known.\<close>

definition phase_of :: "int \<Rightarrow> Phase option" where
  "phase_of raw = find (\<lambda>p. phase_code p = raw) all_phases"

section \<open>Error codes\<close>

datatype KassandraError =
    KE_NotImplemented
  | KE_WrongPhase
  | KE_WindowClosed
  | KE_WindowNotElapsed
  | KE_Unauthorized
  | KE_InvalidAccount
  | KE_DuplicateFact
  | KE_ZeroStake
  | KE_DuplicateVote
  | KE_IncompleteFactSet
  | KE_AlreadySettled
  | KE_NoDisputeBond
  | KE_DuplicateClaim
  | KE_InvalidOption
  | KE_AlreadyChallenged
  | KE_TwapWindowOpen
  | KE_ChallengesOutstanding
  | KE_AlreadyInitialized
  | KE_InvalidDeadline
  | KE_InvalidOptionsCount
  | KE_DeadlineNotReached
  | KE_ProposalWindowClosed
  | KE_TooManyProposers
  | KE_DuplicateProposer
  | KE_NoProposals
  | KE_GovernanceAlreadySet
  | KE_InvalidConfig
  | KE_VotersOutstanding
  | KE_BadMintAuthority
  | KE_MarketNotSettled
  | KE_EscrowNotEmpty
  | KE_InvalidFutarchyDao
  | KE_DaoAuthorityMismatch
  | KE_SweepGraceNotElapsed
  | KE_GovernanceNotSet
  | KE_InvalidTreasury
  | KE_BelowMinStake

fun error_code :: "KassandraError \<Rightarrow> int" where
  "error_code KE_NotImplemented = 0"
| "error_code KE_WrongPhase = 1"
| "error_code KE_WindowClosed = 2"
| "error_code KE_WindowNotElapsed = 3"
| "error_code KE_Unauthorized = 4"
| "error_code KE_InvalidAccount = 5"
| "error_code KE_DuplicateFact = 6"
| "error_code KE_ZeroStake = 7"
| "error_code KE_DuplicateVote = 8"
| "error_code KE_IncompleteFactSet = 9"
| "error_code KE_AlreadySettled = 10"
| "error_code KE_NoDisputeBond = 11"
| "error_code KE_DuplicateClaim = 12"
| "error_code KE_InvalidOption = 13"
| "error_code KE_AlreadyChallenged = 14"
| "error_code KE_TwapWindowOpen = 15"
| "error_code KE_ChallengesOutstanding = 16"
| "error_code KE_AlreadyInitialized = 17"
| "error_code KE_InvalidDeadline = 18"
| "error_code KE_InvalidOptionsCount = 19"
| "error_code KE_DeadlineNotReached = 20"
| "error_code KE_ProposalWindowClosed = 21"
| "error_code KE_TooManyProposers = 22"
| "error_code KE_DuplicateProposer = 23"
| "error_code KE_NoProposals = 24"
| "error_code KE_GovernanceAlreadySet = 25"
| "error_code KE_InvalidConfig = 26"
| "error_code KE_VotersOutstanding = 27"
| "error_code KE_BadMintAuthority = 28"
| "error_code KE_MarketNotSettled = 29"
| "error_code KE_EscrowNotEmpty = 30"
| "error_code KE_InvalidFutarchyDao = 31"
| "error_code KE_DaoAuthorityMismatch = 32"
| "error_code KE_SweepGraceNotElapsed = 33"
| "error_code KE_GovernanceNotSet = 34"
| "error_code KE_InvalidTreasury = 35"
| "error_code KE_BelowMinStake = 36"

definition all_errors :: "KassandraError list" where
  "all_errors =
     [KE_NotImplemented, KE_WrongPhase, KE_WindowClosed, KE_WindowNotElapsed,
     KE_Unauthorized, KE_InvalidAccount, KE_DuplicateFact, KE_ZeroStake, KE_DuplicateVote,
     KE_IncompleteFactSet, KE_AlreadySettled, KE_NoDisputeBond, KE_DuplicateClaim,
     KE_InvalidOption, KE_AlreadyChallenged, KE_TwapWindowOpen, KE_ChallengesOutstanding,
     KE_AlreadyInitialized, KE_InvalidDeadline, KE_InvalidOptionsCount,
     KE_DeadlineNotReached, KE_ProposalWindowClosed, KE_TooManyProposers,
     KE_DuplicateProposer, KE_NoProposals, KE_GovernanceAlreadySet, KE_InvalidConfig,
     KE_VotersOutstanding, KE_BadMintAuthority, KE_MarketNotSettled, KE_EscrowNotEmpty,
     KE_InvalidFutarchyDao, KE_DaoAuthorityMismatch, KE_SweepGraceNotElapsed,
     KE_GovernanceNotSet, KE_InvalidTreasury, KE_BelowMinStake]"

fun error_name :: "KassandraError \<Rightarrow> string" where
  "error_name KE_NotImplemented = ''NotImplemented''"
| "error_name KE_WrongPhase = ''WrongPhase''"
| "error_name KE_WindowClosed = ''WindowClosed''"
| "error_name KE_WindowNotElapsed = ''WindowNotElapsed''"
| "error_name KE_Unauthorized = ''Unauthorized''"
| "error_name KE_InvalidAccount = ''InvalidAccount''"
| "error_name KE_DuplicateFact = ''DuplicateFact''"
| "error_name KE_ZeroStake = ''ZeroStake''"
| "error_name KE_DuplicateVote = ''DuplicateVote''"
| "error_name KE_IncompleteFactSet = ''IncompleteFactSet''"
| "error_name KE_AlreadySettled = ''AlreadySettled''"
| "error_name KE_NoDisputeBond = ''NoDisputeBond''"
| "error_name KE_DuplicateClaim = ''DuplicateClaim''"
| "error_name KE_InvalidOption = ''InvalidOption''"
| "error_name KE_AlreadyChallenged = ''AlreadyChallenged''"
| "error_name KE_TwapWindowOpen = ''TwapWindowOpen''"
| "error_name KE_ChallengesOutstanding = ''ChallengesOutstanding''"
| "error_name KE_AlreadyInitialized = ''AlreadyInitialized''"
| "error_name KE_InvalidDeadline = ''InvalidDeadline''"
| "error_name KE_InvalidOptionsCount = ''InvalidOptionsCount''"
| "error_name KE_DeadlineNotReached = ''DeadlineNotReached''"
| "error_name KE_ProposalWindowClosed = ''ProposalWindowClosed''"
| "error_name KE_TooManyProposers = ''TooManyProposers''"
| "error_name KE_DuplicateProposer = ''DuplicateProposer''"
| "error_name KE_NoProposals = ''NoProposals''"
| "error_name KE_GovernanceAlreadySet = ''GovernanceAlreadySet''"
| "error_name KE_InvalidConfig = ''InvalidConfig''"
| "error_name KE_VotersOutstanding = ''VotersOutstanding''"
| "error_name KE_BadMintAuthority = ''BadMintAuthority''"
| "error_name KE_MarketNotSettled = ''MarketNotSettled''"
| "error_name KE_EscrowNotEmpty = ''EscrowNotEmpty''"
| "error_name KE_InvalidFutarchyDao = ''InvalidFutarchyDao''"
| "error_name KE_DaoAuthorityMismatch = ''DaoAuthorityMismatch''"
| "error_name KE_SweepGraceNotElapsed = ''SweepGraceNotElapsed''"
| "error_name KE_GovernanceNotSet = ''GovernanceNotSet''"
| "error_name KE_InvalidTreasury = ''InvalidTreasury''"
| "error_name KE_BelowMinStake = ''BelowMinStake''"

fun ERROR_MESSAGES :: "KassandraError \<Rightarrow> string" where
  "ERROR_MESSAGES KE_NotImplemented =
     ''Instruction recognized but its processor is not implemented yet.''"
| "ERROR_MESSAGES KE_WrongPhase =
     ''The oracle is not in the phase this instruction requires.''"
| "ERROR_MESSAGES KE_WindowClosed =
     ''The current phase window has already closed (now >= phase_ends_at).''"
| "ERROR_MESSAGES KE_WindowNotElapsed =
     ''The current phase window has not yet elapsed (now < phase_ends_at).''"
| "ERROR_MESSAGES KE_Unauthorized =
     ''The signer is not authorized to perform this action.''"
| "ERROR_MESSAGES KE_InvalidAccount =
     ''An account passed to the instruction is invalid (wrong owner, address, or contents).''"
| "ERROR_MESSAGES KE_DuplicateFact =
     ''A fact with this content_hash already exists for this oracle.''"
| "ERROR_MESSAGES KE_ZeroStake =
     ''A stake amount of zero was supplied where a positive stake is required.''"
| "ERROR_MESSAGES KE_DuplicateVote =
     ''This voter has already voted on this fact (one vote per voter per fact).''"
| "ERROR_MESSAGES KE_IncompleteFactSet =
     ''finalize_facts was called with an empty account tail (at least one fact/proposer required).''"
| "ERROR_MESSAGES KE_AlreadySettled =
     ''A fact passed to finalize_facts is already settled (or proposer already slashed).''"
| "ERROR_MESSAGES KE_NoDisputeBond =
     ''finalize_facts was invoked on an oracle whose dispute_bond_total is zero.''"
| "ERROR_MESSAGES KE_DuplicateClaim =
     ''An AI claim already exists for this proposer (one claim per proposer).''"
| "ERROR_MESSAGES KE_InvalidOption =
     ''The claimed option is out of range for this oracle (option >= options_count).''"
| "ERROR_MESSAGES KE_AlreadyChallenged =
     ''open_challenge was called against a claim that already has an open market.''"
| "ERROR_MESSAGES KE_TwapWindowOpen =
     ''settle_challenge was called before the market's TWAP window elapsed (now < twap_end).''"
| "ERROR_MESSAGES KE_ChallengesOutstanding =
     ''finalize_oracle was called while one or more challenge markets are still open.''"
| "ERROR_MESSAGES KE_AlreadyInitialized =
     ''init_protocol was called on a protocol PDA that is already initialized.''"
| "ERROR_MESSAGES KE_InvalidDeadline =
     ''create_oracle was called with a deadline in the past (deadline < now).''"
| "ERROR_MESSAGES KE_InvalidOptionsCount =
     ''Options-count / option-index range violation (options_count < 2, or option >= options_count).''"
| "ERROR_MESSAGES KE_DeadlineNotReached =
     ''propose was called before the oracle's deadline (now < deadline).''"
| "ERROR_MESSAGES KE_ProposalWindowClosed =
     ''propose was called after the proposal window closed; finalize_proposals instead.''"
| "ERROR_MESSAGES KE_TooManyProposers =
     ''propose would push proposer_count past MAX_PROPOSERS.''"
| "ERROR_MESSAGES KE_DuplicateProposer =
     ''This authority already registered a proposal on this oracle.''"
| "ERROR_MESSAGES KE_NoProposals =
     ''finalize_proposals was called on an oracle with proposer_count == 0.''"
| "ERROR_MESSAGES KE_GovernanceAlreadySet =
     ''set_governance was called after the DAO linkage was already recorded by a non-DAO signer.''"
| "ERROR_MESSAGES KE_InvalidConfig =
     ''set_config was given an out-of-bounds governable parameter.''"
| "ERROR_MESSAGES KE_VotersOutstanding =
     ''claim_fact was called while the fact still has unclaimed voter stake.''"
| "ERROR_MESSAGES KE_BadMintAuthority =
     ''The KASS mint's authority is not the program's mint-authority PDA.''"
| "ERROR_MESSAGES KE_MarketNotSettled =
     ''close_market was called on a Market that has not been settled yet.''"
| "ERROR_MESSAGES KE_EscrowNotEmpty =
     ''close_market was called while the challenger_usdc_vault escrow still holds USDC.''"
| "ERROR_MESSAGES KE_InvalidFutarchyDao =
     ''set_governance was given a kass_dao that is not a real futarchy Dao (wrong owner or discriminator).''"
| "ERROR_MESSAGES KE_DaoAuthorityMismatch =
     ''set_governance dao_authority is not the Squads v4 vault PDA derived for the kass_dao.''"
| "ERROR_MESSAGES KE_SweepGraceNotElapsed =
     ''sweep_oracle was called before the dust-sweep grace elapsed (now < oracle.phase_ends_at + SWEEP_GRACE).''"
| "ERROR_MESSAGES KE_GovernanceNotSet =
     ''sweep_oracle was called while the Protocol has no DAO linkage (governance_set == 0); the treasury ATA does not exist yet.''"
| "ERROR_MESSAGES KE_InvalidTreasury =
     ''sweep_oracle was given a dao_treasury that is not the canonical KASS ATA(dao_authority, kass_mint).''"
| "ERROR_MESSAGES KE_BelowMinStake =
     ''The stake was below the oracle's activity-scaled min_stake floor (0 at genesis / low activity; grows with creation activity).''"

definition error_of :: "int \<Rightarrow> KassandraError option" where
  "error_of custom = find (\<lambda>e. error_code e = custom) all_errors"

text \<open>
  \<open>decodeError\<close>: the name and the message. The message of an unknown code is a template
  over the code; it is the constructor \<open>UnknownMessage\<close>.
\<close>

datatype error_message = Message string | UnknownMessage int

definition decodeError :: "int \<Rightarrow> string \<times> error_message" where
  "decodeError custom =
     (case error_of custom of
        None \<Rightarrow> (''Unknown'', UnknownMessage custom)
      | Some e \<Rightarrow> (error_name e, Message (ERROR_MESSAGES e)))"

section \<open>Configuration constants\<close>

definition MAX_PROPOSERS :: nat where
  "MAX_PROPOSERS = 60"

definition CLAIM_OPTION_NONE :: int where
  "CLAIM_OPTION_NONE = 0xff"

definition VOTE_APPROVE :: int where
  "VOTE_APPROVE = 0"

definition VOTE_DUPLICATE :: int where
  "VOTE_DUPLICATE = 1"

section \<open>Facts\<close>

lemma all_ix_UNIV: "i \<in> set all_ix"
  by (cases i) (simp_all add: all_ix_def)

lemma all_ix_distinct: "distinct (map ix_code all_ix)"
  by (simp add: all_ix_def)

lemma ix_code_inj: "ix_code i = ix_code j \<longleftrightarrow> i = j"
  using all_ix_distinct all_ix_UNIV [of i] all_ix_UNIV [of j]
  by (auto simp: distinct_map inj_on_def)

lemma ix_code_byte: "unsigned_range 8 (ix_code i)"
  by (cases i) (simp_all add: unsigned_range_def)

lemma type_code_inj: "type_code s = type_code t \<longleftrightarrow> s = t"
  by (cases s; cases t) simp_all

lemma type_code_byte: "unsigned_range 8 (type_code t)"
  by (cases t) (simp_all add: unsigned_range_def)

lemma find_code:
  assumes "\<And>x y. f x = f y \<longleftrightarrow> x = y" "x \<in> set xs"
  shows "find (\<lambda>y. f y = f x) xs = Some x"
  using assms(2) by (induction xs) (auto simp: assms(1))

lemma phase_of_code: "phase_of (phase_code p) = Some p"
  by (cases p) (simp_all add: phase_of_def all_phases_def)

lemma phase_of_Some: "phase_of raw = Some p \<Longrightarrow> phase_code p = raw"
  by (auto simp: phase_of_def find_Some_iff)

lemma all_errors_UNIV: "e \<in> set all_errors"
  by (cases e) (simp_all add: all_errors_def)

lemma error_code_all: "map error_code all_errors = [0..36]"
  by (simp add: all_errors_def upto_rec1)

lemma all_errors_distinct: "distinct (map error_code all_errors)"
  by (simp add: error_code_all)

lemma error_code_inj: "error_code d = error_code e \<longleftrightarrow> d = e"
  using all_errors_distinct all_errors_UNIV [of d] all_errors_UNIV [of e]
  by (auto simp: distinct_map inj_on_def)

lemma error_of_code: "error_of (error_code e) = Some e"
  unfolding error_of_def by (rule find_code) (auto simp: error_code_inj all_errors_UNIV)

lemma error_of_None: "error_of c = None \<longleftrightarrow> c \<notin> {0..36}"
proof -
  have "set (map error_code all_errors) = {0..36}" by (simp only: error_code_all set_upto)
  then have "c \<in> {0..36} \<longleftrightarrow> (\<exists>e\<in>set all_errors. error_code e = c)"
    unfolding set_map by (metis (no_types, lifting) imageE imageI)
  then show ?thesis by (auto simp: error_of_def find_None_iff)
qed

section \<open>Properties\<close>

text \<open>
  Error decoding is exact. Each of the 37 program errors decodes, from its code, to its
  own name and message; every other integer decodes to the name Unknown with the code in
  the message, and no two errors share a code.
\<close>

theorem decode_error_total:
  "decodeError (error_code e) = (error_name e, Message (ERROR_MESSAGES e))
   \<and> (decodeError c = (''Unknown'', UnknownMessage c) \<longleftrightarrow> c \<notin> {0..36})
   \<and> (error_code e = error_code f \<longleftrightarrow> e = f)"
proof (intro conjI)
  show "decodeError c = (''Unknown'', UnknownMessage c) \<longleftrightarrow> c \<notin> {0..36}"
    using error_of_None [of c] by (cases "error_of c") (simp_all add: decodeError_def)
qed (simp_all add: decodeError_def error_of_code error_code_inj)

end
