(* ===== verification/Oracle_Pda.thy ===== *)
theory Oracle_Pda
  imports Oracle_Constants
begin

text \<open>
  Program-derived addresses of the dispute-core program (\<open>sdks/oracles/ts/src/pda.ts\<close>): one
  definition per derivation, over the library's \<open>findProgramAddress\<close>. The abstract view is
  the datatype \<open>entity\<close> of the things that have an address; \<open>pda_seeds\<close> is the seed list of
  an entity, and the lemmas show that what the library hashes (the joined seeds)
  determines the entity, across all the families of the program.
\<close>

record 'a pda =
  pda_address :: 'a
  pda_bump :: nat

definition derive :: "'a web3 \<Rightarrow> bytes list \<Rightarrow> 'a option \<Rightarrow> 'a pda res" where
  "derive W seeds programId =
     (let pid = (case programId of None \<Rightarrow> KASSANDRA_PROGRAM_ID W | Some p \<Rightarrow> p)
      in rmap (\<lambda>(address, bump). \<lparr>pda_address = address, pda_bump = bump\<rparr>)
           (lift_web (w3_find_pda W seeds pid)))"

definition pda_protocol :: "'a web3 \<Rightarrow> 'a option \<Rightarrow> 'a pda res" where
  "pda_protocol W programId = derive W [ascii ''protocol''] programId"

definition pda_mintAuthority :: "'a web3 \<Rightarrow> 'a option \<Rightarrow> 'a pda res" where
  "pda_mintAuthority W programId = derive W [ascii ''mint_authority''] programId"

definition pda_oracle :: "'a web3 \<Rightarrow> int \<Rightarrow> 'a option \<Rightarrow> 'a pda res" where
  "pda_oracle W nonce programId = derive W [ascii ''oracle'', u64LE nonce] programId"

definition pda_stakeVault :: "'a web3 \<Rightarrow> 'a address_input \<Rightarrow> 'a option \<Rightarrow> 'a pda res" where
  "pda_stakeVault W oracleAddr programId =
     rbind (pubkeyBytes W oracleAddr) (\<lambda>o1. derive W [ascii ''vault'', o1] programId)"

definition pda_oracleMeta :: "'a web3 \<Rightarrow> 'a address_input \<Rightarrow> 'a option \<Rightarrow> 'a pda res" where
  "pda_oracleMeta W oracleAddr programId =
     rbind (pubkeyBytes W oracleAddr) (\<lambda>o1. derive W [ascii ''oracle_meta'', o1] programId)"

definition pda_proposer ::
  "'a web3 \<Rightarrow> 'a address_input \<Rightarrow> 'a address_input \<Rightarrow> 'a option \<Rightarrow> 'a pda res" where
  "pda_proposer W oracleAddr authority programId =
     rbind (pubkeyBytes W oracleAddr) (\<lambda>o1. rbind (pubkeyBytes W authority) (\<lambda>a1.
       derive W [ascii ''proposer'', o1, a1] programId))"

definition pda_fact :: "'a web3 \<Rightarrow> 'a address_input \<Rightarrow> bytes \<Rightarrow> 'a option \<Rightarrow> 'a pda res" where
  "pda_fact W oracleAddr contentHash programId =
     rbind (pubkeyBytes W oracleAddr) (\<lambda>o1.
       derive W [ascii ''fact'', o1, contentHash] programId)"

definition pda_factVote ::
  "'a web3 \<Rightarrow> 'a address_input \<Rightarrow> 'a address_input \<Rightarrow> 'a option \<Rightarrow> 'a pda res" where
  "pda_factVote W factAddr voter programId =
     rbind (pubkeyBytes W factAddr) (\<lambda>f1. rbind (pubkeyBytes W voter) (\<lambda>v1.
       derive W [ascii ''vote'', f1, v1] programId))"

definition pda_aiClaim ::
  "'a web3 \<Rightarrow> 'a address_input \<Rightarrow> 'a address_input \<Rightarrow> 'a option \<Rightarrow> 'a pda res" where
  "pda_aiClaim W oracleAddr proposerAddr programId =
     rbind (pubkeyBytes W oracleAddr) (\<lambda>o1. rbind (pubkeyBytes W proposerAddr) (\<lambda>p1.
       derive W [ascii ''claim'', o1, p1] programId))"

definition pda_market :: "'a web3 \<Rightarrow> 'a address_input \<Rightarrow> 'a option \<Rightarrow> 'a pda res" where
  "pda_market W aiClaimAddr programId =
     rbind (pubkeyBytes W aiClaimAddr) (\<lambda>c1. derive W [ascii ''market'', c1] programId)"

definition pda_challengeUsdcVault ::
  "'a web3 \<Rightarrow> 'a address_input \<Rightarrow> 'a option \<Rightarrow> 'a pda res" where
  "pda_challengeUsdcVault W marketAddr programId =
     rbind (pubkeyBytes W marketAddr) (\<lambda>m1. derive W [ascii ''challenge_usdc'', m1] programId)"

definition associatedTokenAccount ::
  "'a web3 \<Rightarrow> 'a address_input \<Rightarrow> 'a address_input \<Rightarrow> 'a pda res" where
  "associatedTokenAccount W owner mint =
     rbind (pubkeyBytes W owner) (\<lambda>o1. rbind (pubkeyBytes W mint) (\<lambda>m1.
       derive W [o1, w3_bytes W (TOKEN_PROGRAM_ID W), m1] (Some (ATA_PROGRAM_ID W))))"

section \<open>The entities of the program\<close>

datatype 'a entity =
    EProtocol
  | EMintAuthority
  | EOracle int
  | EStakeVault 'a
  | EOracleMeta 'a
  | EProposer 'a 'a
  | EFact 'a bytes
  | EFactVote 'a 'a
  | EAiClaim 'a 'a
  | EMarket 'a
  | EChallengeUsdc 'a

fun pda_of :: "'a web3 \<Rightarrow> 'a option \<Rightarrow> 'a entity \<Rightarrow> 'a pda res" where
  "pda_of W p EProtocol = pda_protocol W p"
| "pda_of W p EMintAuthority = pda_mintAuthority W p"
| "pda_of W p (EOracle n) = pda_oracle W n p"
| "pda_of W p (EStakeVault o1) = pda_stakeVault W (Addr o1) p"
| "pda_of W p (EOracleMeta o1) = pda_oracleMeta W (Addr o1) p"
| "pda_of W p (EProposer o1 a) = pda_proposer W (Addr o1) (Addr a) p"
| "pda_of W p (EFact o1 h) = pda_fact W (Addr o1) h p"
| "pda_of W p (EFactVote f v) = pda_factVote W (Addr f) (Addr v) p"
| "pda_of W p (EAiClaim o1 q) = pda_aiClaim W (Addr o1) (Addr q) p"
| "pda_of W p (EMarket c) = pda_market W (Addr c) p"
| "pda_of W p (EChallengeUsdc m) = pda_challengeUsdcVault W (Addr m) p"

fun entity_ok :: "'a entity \<Rightarrow> bool" where
  "entity_ok (EOracle n) = unsigned_range 64 n"
| "entity_ok (EFact o1 h) = (length h = 32)"
| "entity_ok _ = True"

text \<open>The seed lists documented in the header of \<open>pda.ts\<close>: a literal, then raw fields.\<close>

fun seed_label :: "'a entity \<Rightarrow> string" where
  "seed_label EProtocol = ''protocol''"
| "seed_label EMintAuthority = ''mint_authority''"
| "seed_label (EOracle n) = ''oracle''"
| "seed_label (EStakeVault o1) = ''vault''"
| "seed_label (EOracleMeta o1) = ''oracle_meta''"
| "seed_label (EProposer o1 a) = ''proposer''"
| "seed_label (EFact o1 h) = ''fact''"
| "seed_label (EFactVote f v) = ''vote''"
| "seed_label (EAiClaim o1 q) = ''claim''"
| "seed_label (EMarket c) = ''market''"
| "seed_label (EChallengeUsdc m) = ''challenge_usdc''"

fun seed_fields :: "'a web3 \<Rightarrow> 'a entity \<Rightarrow> bytes list" where
  "seed_fields W (EOracle n) = [u64LE n]"
| "seed_fields W (EStakeVault o1) = [w3_bytes W o1]"
| "seed_fields W (EOracleMeta o1) = [w3_bytes W o1]"
| "seed_fields W (EProposer o1 a) = [w3_bytes W o1, w3_bytes W a]"
| "seed_fields W (EFact o1 h) = [w3_bytes W o1, h]"
| "seed_fields W (EFactVote f v) = [w3_bytes W f, w3_bytes W v]"
| "seed_fields W (EAiClaim o1 q) = [w3_bytes W o1, w3_bytes W q]"
| "seed_fields W (EMarket c) = [w3_bytes W c]"
| "seed_fields W (EChallengeUsdc m) = [w3_bytes W m]"
| "seed_fields W _ = []"

definition pda_seeds :: "'a web3 \<Rightarrow> 'a entity \<Rightarrow> bytes list" where
  "pda_seeds W e = ascii (seed_label e) # seed_fields W e"

section \<open>Lemmas\<close>

lemmas pda_defs = pda_protocol_def pda_mintAuthority_def pda_oracle_def pda_stakeVault_def
  pda_oracleMeta_def pda_proposer_def pda_fact_def pda_factVote_def pda_aiClaim_def
  pda_market_def pda_challengeUsdcVault_def

lemma pubkeyBytes_Addr [simp]: "pubkeyBytes W (Addr a) = Inr (w3_bytes W a)"
  by (simp add: pubkeyBytes_def)

lemma pda_of_seeds: "pda_of W p e = derive W (pda_seeds W e) p"
  by (cases e) (simp_all add: pda_defs pda_seeds_def)

text \<open>The literal is determined by the total length and the first byte.\<close>

fun seed_shape :: "'a entity \<Rightarrow> nat \<times> byte" where
  "seed_shape EProtocol = (8, 112)"
| "seed_shape EMintAuthority = (14, 109)"
| "seed_shape (EOracle n) = (14, 111)"
| "seed_shape (EStakeVault o1) = (37, 118)"
| "seed_shape (EOracleMeta o1) = (43, 111)"
| "seed_shape (EProposer o1 a) = (72, 112)"
| "seed_shape (EFact o1 h) = (68, 102)"
| "seed_shape (EFactVote f v) = (68, 118)"
| "seed_shape (EAiClaim o1 q) = (69, 99)"
| "seed_shape (EMarket c) = (38, 109)"
| "seed_shape (EChallengeUsdc m) = (46, 99)"

lemma seed_shape_preimage:
  assumes "web3_ok W" "entity_ok e"
  shows "seed_shape e = (length (concat (pda_seeds W e)), hd (concat (pda_seeds W e)))"
  using assms
  by (cases e) (simp_all add: pda_seeds_def ascii_Cons web3_ok_D(1))

lemma same_label:
  assumes "seed_shape e = seed_shape f"
  shows "seed_label e = seed_label f"
  using assms by (cases e; cases f) simp_all

lemma seed_fields_inj:
  assumes W: "web3_ok W" and ok: "entity_ok e" "entity_ok f"
    and "seed_label e = seed_label f"
    and "concat (seed_fields W e) = concat (seed_fields W f)"
  shows "e = f"
proof -
  have key: "w3_bytes W a @ xs = w3_bytes W b @ ys \<longleftrightarrow> a = b \<and> xs = ys" for a b xs ys
    using web3_bytes_inj [OF W] web3_ok_D(1) [OF W] by (metis append_eq_append_conv)
  have keys: "w3_bytes W a = w3_bytes W b \<longleftrightarrow> a = b" for a b
    using web3_bytes_inj [OF W] by blast
  show ?thesis
    using assms(2-5) by (cases e; cases f) (simp_all add: key keys c64.enc_inj)
qed

lemma preimage_inj:
  assumes "web3_ok W" "entity_ok e" "entity_ok f"
    and "concat (pda_seeds W e) = concat (pda_seeds W f)"
  shows "e = f"
proof -
  have "seed_label e = seed_label f"
    using assms by (intro same_label) (simp add: seed_shape_preimage)
  then show ?thesis
    using assms by (intro seed_fields_inj [of W]) (simp_all add: pda_seeds_def)
qed

lemma seeds_short:
  assumes "web3_ok W" "entity_ok e" "s \<in> set (pda_seeds W e)"
  shows "length s \<le> 32"
  using assms by (cases e) (auto simp: pda_seeds_def ascii_Cons web3_ok_D(1))

section \<open>Properties\<close>

text \<open>
  C24: Address derivation has no collisions by construction. Every derivation of the SDK
  searches under the documented seed list, each seed is within the 32-byte limit of the
  runtime, and the byte string that is hashed determines the entity: two different
  entities, of the same or of different kinds, never share a preimage.
\<close>

theorem pda_collision_free:
  assumes "web3_ok W" "entity_ok e" "entity_ok f"
  shows "pda_of W p e = derive W (pda_seeds W e) p
    \<and> list_all (\<lambda>s. length s \<le> 32) (pda_seeds W e)
    \<and> (concat (pda_seeds W e) = concat (pda_seeds W f) \<longleftrightarrow> e = f)"
  using assms preimage_inj seeds_short by (auto simp: pda_of_seeds list_all_iff)

theorem pda_collision_free_witness:
  "concat (pda_seeds sample_web3 (EFact 5 (replicate 32 7)))
     \<noteq> concat (pda_seeds sample_web3 (EFactVote 5 6))"
  using pda_collision_free [OF sample_web3_ok, of "EFact 5 (replicate 32 7)" "EFactVote 5 6" None]
  by simp

end
