(* ===== verification/Payload.thy ===== *)
theory Payload
  imports Oracle_Pda
begin

text \<open>
  What the instruction builders share: the discriminant prefix (\<open>withDisc\<close> of
  \<open>instructions/payload.ts\<close>), the default program id, the coercing account metas
  (\<open>w(addr(x))\<close>, \<open>ro(addr(x))\<close>), and the reading side of an instruction: which builder its
  first byte names and which accounts sign it.
\<close>

section \<open>Definitions\<close>

definition withDisc :: "Ix \<Rightarrow> bytes list \<Rightarrow> bytes res" where
  "withDisc disc payload = concatBytes (u8 (ix_code disc) # payload)"

text \<open>\<open>args.programId ?? KASSANDRA_PROGRAM_ID\<close>\<close>

definition program_or :: "'a web3 \<Rightarrow> 'a option \<Rightarrow> 'a" where
  "program_or W programId = (case programId of None \<Rightarrow> KASSANDRA_PROGRAM_ID W | Some p \<Rightarrow> p)"

text \<open>\<open>w(addr(x), signer)\<close> and \<open>ro(addr(x), signer)\<close>\<close>

definition w_in :: "'a web3 \<Rightarrow> 'a address_input \<Rightarrow> bool \<Rightarrow> 'a account_meta res" where
  "w_in W x signer = rmap (\<lambda>a. w a signer) (addr W x)"

definition ro_in :: "'a web3 \<Rightarrow> 'a address_input \<Rightarrow> bool \<Rightarrow> 'a account_meta res" where
  "ro_in W x signer = rmap (\<lambda>a. ro a signer) (addr W x)"

text \<open>A fact URI: raw bytes, or a string that is UTF-8 encoded (\<open>dispute.ts\<close>).\<close>

datatype uri_input = UriBytes bytes | UriText utext

fun uriBytes :: "uri_input \<Rightarrow> bytes" where
  "uriBytes (UriBytes b) = b"
| "uriBytes (UriText s) = utf8_encode s"

section \<open>Reading an instruction\<close>

definition ix_of :: "'a tx_instruction \<Rightarrow> Ix option" where
  "ix_of t = (case ti_data t of [] \<Rightarrow> None
     | b # _ \<Rightarrow> find (\<lambda>i. ix_code i = uint b) all_ix)"

definition ix_payload :: "'a tx_instruction \<Rightarrow> bytes" where
  "ix_payload t = tl (ti_data t)"

definition signers :: "'a tx_instruction \<Rightarrow> 'a list" where
  "signers t = map am_pubkey (filter am_isSigner (ti_keys t))"

definition key_addresses :: "'a tx_instruction \<Rightarrow> 'a list" where
  "key_addresses t = map am_pubkey (ti_keys t)"

section \<open>Lemmas\<close>

lemma withDisc_eq [simp]: "withDisc disc payload = Inr (u8 (ix_code disc) @ concat payload)"
  by (simp add: withDisc_def)

lemma find_ix: "find (\<lambda>j. ix_code j = ix_code i) all_ix = Some i"
  by (rule find_code) (simp_all add: ix_code_inj all_ix_UNIV)

lemma uint_ix_byte: "uint (word_of_int (ix_code i) :: byte) = ix_code i"
  using ix_code_byte [of i] by (simp add: uint_byte_of_int unsigned_range_def)

lemma ix_of_disc:
  "ti_data t = u8 (ix_code i) @ xs \<Longrightarrow> ix_of t = Some i"
  by (simp add: ix_of_def u8_le_bytes uint_ix_byte find_ix)

lemma ix_payload_disc: "ti_data t = u8 v @ xs \<Longrightarrow> ix_payload t = xs"
  by (simp add: ix_payload_def u8_def)

lemma w_in_Addr [simp]: "w_in W (Addr a) s = Inr (w a s)"
  by (simp add: w_in_def)

lemma ro_in_Addr [simp]: "ro_in W (Addr a) s = Inr (ro a s)"
  by (simp add: ro_in_def)

lemma w_in_iff: "w_in W x s = Inr m \<longleftrightarrow> (\<exists>a. addr W x = Inr a \<and> m = w a s)"
  by (auto simp: w_in_def rmap_Inr_iff)

lemma ro_in_iff: "ro_in W x s = Inr m \<longleftrightarrow> (\<exists>a. addr W x = Inr a \<and> m = ro a s)"
  by (auto simp: ro_in_def rmap_Inr_iff)

end
