(* ===== verification/Lifecycle.thy ===== *)
theory Lifecycle
  imports Payload
begin

text \<open>
  The protocol and oracle-lifecycle instruction builders
  (\<open>sdks/oracles/ts/src/instructions/lifecycle/\<close>). Each builder has the record of its
  arguments and one definition with the derivations, the account metas and the payload in
  the order of the source: the first step that throws ends the builder.
\<close>

section \<open>Oracle setup (oracle-setup.ts)\<close>

record 'a initProtocol_args =
  ipa_admin :: "'a address_input"
  ipa_kassMint :: "'a address_input"
  ipa_usdcMint :: "'a address_input"
  ipa_programId :: "'a option"

definition initProtocol :: "'a web3 \<Rightarrow> 'a initProtocol_args \<Rightarrow> 'a tx_instruction res" where
  "initProtocol W a =
    (let programId = program_or W (ipa_programId a) in
     rbind (pda_protocol W (Some programId)) (\<lambda>protocol.
     rbind (collect
       [Inr (w (pda_address protocol) False),
        w_in W (ipa_admin a) True,
        ro_in W (ipa_kassMint a) False,
        ro_in W (ipa_usdcMint a) False,
        Inr (ro (SYSTEM_PROGRAM_ID W) False)]) (\<lambda>ks.
     rbind (withDisc Ix_InitProtocol []) (\<lambda>bs.
     Inr \<lparr>ti_programId = programId, ti_keys = ks, ti_data = bs\<rparr>))))"

record 'a createOracle_args =
  coa_nonce :: "int"
  coa_optionsCount :: "int"
  coa_deadline :: "int"
  coa_twapWindow :: "int"
  coa_creator :: "'a address_input"
  coa_creatorKassToken :: "'a address_input"
  coa_kassMint :: "'a address_input"
  coa_usdcMint :: "'a address_input"
  coa_programId :: "'a option"

definition createOracle :: "'a web3 \<Rightarrow> 'a createOracle_args \<Rightarrow> 'a tx_instruction res" where
  "createOracle W a =
    (let programId = program_or W (coa_programId a) in
     rbind (pda_protocol W (Some programId)) (\<lambda>protocol.
     rbind (pda_oracle W (coa_nonce a) (Some programId)) (\<lambda>oracle.
     rbind (pda_stakeVault W (Addr (pda_address oracle)) (Some programId)) (\<lambda>stakeVault.
     rbind (pda_mintAuthority W (Some programId)) (\<lambda>mintAuthority.
     rbind (withDisc Ix_CreateOracle [u64LE (coa_nonce a), u8 (coa_optionsCount a), i64LE
         (coa_deadline a), i64LE (coa_twapWindow a)]) (\<lambda>data.
     rbind (collect
       [Inr (w (pda_address protocol) False),
        Inr (w (pda_address oracle) False),
        Inr (w (pda_address stakeVault) False),
        w_in W (coa_creator a) True,
        w_in W (coa_kassMint a) False,
        ro_in W (coa_usdcMint a) False,
        Inr (ro (TOKEN_PROGRAM_ID W) False),
        Inr (ro (SYSTEM_PROGRAM_ID W) False),
        w_in W (coa_creatorKassToken a) False,
        Inr (ro (pda_address mintAuthority) False)]) (\<lambda>ks.
     Inr \<lparr>ti_programId = programId, ti_keys = ks, ti_data = data\<rparr>)))))))"

record 'a writeOracleMeta_args =
  wma_oracle :: "'a address_input"
  wma_creator :: "'a address_input"
  wma_subject :: "utext"
  wma_options :: "utext list"
  wma_uri :: "utext"
  wma_uriHash :: "bytes"
  wma_programId :: "'a option"

text \<open>The loop that pushes a length and the bytes of each option.\<close>

fun meta_option_parts :: "bytes list \<Rightarrow> utext list \<Rightarrow> bytes list" where
  "meta_option_parts parts [] = parts"
| "meta_option_parts parts (p # ps) =
     (let b = utf8_encode p in meta_option_parts (parts @ [u16LE (int (length b)), b]) ps)"

definition writeOracleMeta :: "'a web3 \<Rightarrow> 'a writeOracleMeta_args \<Rightarrow> 'a tx_instruction res" where
  "writeOracleMeta W a =
    (let programId = program_or W (wma_programId a) in
     rbind (addr W (wma_oracle a)) (\<lambda>oracle'.
     rbind (pda_oracleMeta W (Addr oracle') (Some programId)) (\<lambda>meta.
     let subject = utf8_encode (wma_subject a);
         parts = [u16LE (int (length subject)), subject, u8 (int (length (wma_options a)))];
         parts = meta_option_parts parts (wma_options a);
         uri = utf8_encode (wma_uri a) in
     rbind (fixedBytes (wma_uriHash a) 32) (\<lambda>uriHash.
     let parts = parts @ [u16LE (int (length uri)), uri, uriHash] in
     rbind (collect
       [w_in W (wma_creator a) True,
        ro_in W (wma_oracle a) False,
        Inr (w (pda_address meta) False),
        Inr (ro (SYSTEM_PROGRAM_ID W) False)]) (\<lambda>ks.
     rbind (withDisc Ix_WriteOracleMeta parts) (\<lambda>bs.
     Inr \<lparr>ti_programId = programId, ti_keys = ks, ti_data = bs\<rparr>))))))"

section \<open>Proposals (proposals.ts)\<close>

record 'a propose_args =
  ppa_oracle :: "'a address_input"
  ppa_authority :: "'a address_input"
  ppa_authorityKass :: "'a address_input"
  ppa_option :: "int"
  ppa_bond :: "int"
  ppa_programId :: "'a option"

definition propose :: "'a web3 \<Rightarrow> 'a propose_args \<Rightarrow> 'a tx_instruction res" where
  "propose W a =
    (let programId = program_or W (ppa_programId a) in
     rbind (addr W (ppa_oracle a)) (\<lambda>oracle.
     rbind (addr W (ppa_authority a)) (\<lambda>authority'.
     rbind (pda_proposer W (Addr oracle) (Addr authority') (Some programId)) (\<lambda>proposer.
     rbind (pda_stakeVault W (Addr oracle) (Some programId)) (\<lambda>stakeVault.
     rbind (withDisc Ix_Propose [u8 (ppa_option a), u64LE (ppa_bond a)]) (\<lambda>data.
     rbind (collect
       [Inr (w oracle False),
        Inr (w (pda_address proposer) False),
        w_in W (ppa_authority a) True,
        w_in W (ppa_authorityKass a) False,
        Inr (w (pda_address stakeVault) False),
        Inr (ro (TOKEN_PROGRAM_ID W) False),
        Inr (ro (SYSTEM_PROGRAM_ID W) False)]) (\<lambda>ks.
     Inr \<lparr>ti_programId = programId, ti_keys = ks, ti_data = data\<rparr>)))))))"

record 'a finalizeProposals_args =
  fpa_oracle :: "'a address_input"
  fpa_proposers :: "'a address_input list"
  fpa_programId :: "'a option"

definition finalizeProposals :: "'a web3 \<Rightarrow> 'a finalizeProposals_args \<Rightarrow> 'a tx_instruction res" where
  "finalizeProposals W a =
    (let programId = program_or W (fpa_programId a) in
     rbind (collect (
       [w_in W (fpa_oracle a) False] @ map (\<lambda>k. ro_in W k False) (fpa_proposers a)))
           (\<lambda>ks.
     rbind (withDisc Ix_FinalizeProposals []) (\<lambda>bs.
     Inr \<lparr>ti_programId = programId, ti_keys = ks, ti_data = bs\<rparr>)))"

record 'a advancePhase_args =
  apa_oracle :: "'a address_input"
  apa_programId :: "'a option"

definition advancePhase :: "'a web3 \<Rightarrow> 'a advancePhase_args \<Rightarrow> 'a tx_instruction res" where
  "advancePhase W a =
    (let programId = program_or W (apa_programId a) in
     rbind (collect
       [w_in W (apa_oracle a) False]) (\<lambda>ks.
     rbind (withDisc Ix_AdvancePhase []) (\<lambda>bs.
     Inr \<lparr>ti_programId = programId, ti_keys = ks, ti_data = bs\<rparr>)))"

section \<open>Governable parameters (governance.ts)\<close>

record set_config_params =
  cfg_emissionNum :: "int"
  cfg_emissionDen :: "int"
  cfg_totalSupplyCap :: "int"
  cfg_feeEmaHalflife :: "int"
  cfg_feePerEmaUnit :: "int"
  cfg_feeEmaIncrement :: "int"
  cfg_thresholdNum :: "int"
  cfg_thresholdDen :: "int"
  cfg_marketThresholdNum :: "int"
  cfg_marketThresholdDen :: "int"
  cfg_flipSlashNum :: "int"
  cfg_flipSlashDen :: "int"
  cfg_phaseWindow :: "int"
  cfg_proposalWindow :: "int"
  cfg_factVoteSlashNum :: "int"
  cfg_factVoteSlashDen :: "int"
  cfg_rewardProposerWeight :: "int"
  cfg_rewardFactWeight :: "int"
  cfg_challengeFailUsdcFeeNum :: "int"
  cfg_challengeFailUsdcFeeDen :: "int"
  cfg_challengeSuccessKassFeeNum :: "int"
  cfg_challengeSuccessKassFeeDen :: "int"
  cfg_stakeFloorEmaThreshold :: "int"
  cfg_stakeFloorEmaCap :: "int"
  cfg_stakeFloorMax :: "int"

definition encodeSetConfigParams :: "set_config_params \<Rightarrow> bytes res" where
  "encodeSetConfigParams p =
     concatBytes [
       u64LE (cfg_emissionNum p),
       u64LE (cfg_emissionDen p),
       u64LE (cfg_totalSupplyCap p),
       i64LE (cfg_feeEmaHalflife p),
       u64LE (cfg_feePerEmaUnit p),
       u64LE (cfg_feeEmaIncrement p),
       u64LE (cfg_thresholdNum p),
       u64LE (cfg_thresholdDen p),
       u64LE (cfg_marketThresholdNum p),
       u64LE (cfg_marketThresholdDen p),
       u64LE (cfg_flipSlashNum p),
       u64LE (cfg_flipSlashDen p),
       i64LE (cfg_phaseWindow p),
       i64LE (cfg_proposalWindow p),
       u64LE (cfg_factVoteSlashNum p),
       u64LE (cfg_factVoteSlashDen p),
       u64LE (cfg_rewardProposerWeight p),
       u64LE (cfg_rewardFactWeight p),
       u64LE (cfg_challengeFailUsdcFeeNum p),
       u64LE (cfg_challengeFailUsdcFeeDen p),
       u64LE (cfg_challengeSuccessKassFeeNum p),
       u64LE (cfg_challengeSuccessKassFeeDen p),
       u64LE (cfg_stakeFloorEmaThreshold p),
       u64LE (cfg_stakeFloorEmaCap p),
       u64LE (cfg_stakeFloorMax p)]"

section \<open>Governance (governance.ts)\<close>

record 'a setGovernance_args =
  sga_authority :: "'a address_input"
  sga_daoAuthority :: "'a address_input"
  sga_kassDao :: "'a address_input"
  sga_programId :: "'a option"

definition setGovernance :: "'a web3 \<Rightarrow> 'a setGovernance_args \<Rightarrow> 'a tx_instruction res" where
  "setGovernance W a =
    (let programId = program_or W (sga_programId a) in
     rbind (pda_protocol W (Some programId)) (\<lambda>protocol.
     rbind (rbind (collect [pubkeyBytes W (sga_daoAuthority a), pubkeyBytes W (sga_kassDao
         a)]) (\<lambda>parts. withDisc Ix_SetGovernance parts)) (\<lambda>data.
     rbind (collect
       [Inr (w (pda_address protocol) False),
        ro_in W (sga_authority a) True,
        ro_in W (sga_kassDao a) False]) (\<lambda>ks.
     Inr \<lparr>ti_programId = programId, ti_keys = ks, ti_data = data\<rparr>))))"

record 'a setConfig_args =
  sca_authority :: "'a address_input"
  sca_params :: "set_config_params"
  sca_programId :: "'a option"

definition setConfig :: "'a web3 \<Rightarrow> 'a setConfig_args \<Rightarrow> 'a tx_instruction res" where
  "setConfig W a =
    (let programId = program_or W (sca_programId a) in
     rbind (pda_protocol W (Some programId)) (\<lambda>protocol.
     rbind (rbind (collect [encodeSetConfigParams (sca_params a)]) (\<lambda>parts. withDisc
         Ix_SetConfig parts)) (\<lambda>data.
     rbind (collect
       [Inr (w (pda_address protocol) False),
        ro_in W (sca_authority a) True]) (\<lambda>ks.
     Inr \<lparr>ti_programId = programId, ti_keys = ks, ti_data = data\<rparr>))))"

record 'a resolveDeadend_args =
  rda_oracle :: "'a address_input"
  rda_authority :: "'a address_input"
  rda_option :: "int"
  rda_programId :: "'a option"

definition resolveDeadend :: "'a web3 \<Rightarrow> 'a resolveDeadend_args \<Rightarrow> 'a tx_instruction res" where
  "resolveDeadend W a =
    (let programId = program_or W (rda_programId a) in
     rbind (pda_protocol W (Some programId)) (\<lambda>protocol.
     rbind (collect
       [Inr (ro (pda_address protocol) False),
        w_in W (rda_oracle a) False,
        ro_in W (rda_authority a) True]) (\<lambda>ks.
     rbind (withDisc Ix_ResolveDeadend [u8 (rda_option a)]) (\<lambda>bs.
     Inr \<lparr>ti_programId = programId, ti_keys = ks, ti_data = bs\<rparr>))))"

record 'a kassPrice_args =
  kpa_kassDao :: "'a address_input"
  kpa_programId :: "'a option"

definition kassPrice :: "'a web3 \<Rightarrow> 'a kassPrice_args \<Rightarrow> 'a tx_instruction res" where
  "kassPrice W a =
    (let programId = program_or W (kpa_programId a) in
     rbind (pda_protocol W (Some programId)) (\<lambda>protocol.
     rbind (collect
       [Inr (ro (pda_address protocol) False),
        ro_in W (kpa_kassDao a) False]) (\<lambda>ks.
     rbind (withDisc Ix_KassPrice []) (\<lambda>bs.
     Inr \<lparr>ti_programId = programId, ti_keys = ks, ti_data = bs\<rparr>))))"

end
