(* ===== verification/Dispute.thy ===== *)
theory Dispute
  imports Payload
begin

text \<open>
  The dispute, challenge and settlement instruction builders
  (\<open>sdks/oracles/ts/src/instructions/dispute.ts\<close>, \<open>challenge.ts\<close>, \<open>settlement.ts\<close>), in the form
  of the lifecycle builders: derivations, account metas, payload, in the source's order.
\<close>

section \<open>Dispute (dispute.ts)\<close>

record 'a submitFact_args =
  sfa_oracle :: "'a address_input"
  sfa_submitter :: "'a address_input"
  sfa_submitterKass :: "'a address_input"
  sfa_contentHash :: "bytes"
  sfa_stake :: "int"
  sfa_uri :: "uri_input"
  sfa_programId :: "'a option"

definition submitFact :: "'a web3 \<Rightarrow> 'a submitFact_args \<Rightarrow> 'a tx_instruction res" where
  "submitFact W a =
    (let programId = program_or W (sfa_programId a) in
     rbind (addr W (sfa_oracle a)) (\<lambda>oracle.
     rbind (fixedBytes (sfa_contentHash a) 32) (\<lambda>contentHash32'.
     rbind (pda_fact W (Addr oracle) (contentHash32') (Some programId)) (\<lambda>fact.
     rbind (pda_stakeVault W (Addr oracle) (Some programId)) (\<lambda>stakeVault.
     let uri = uriBytes (sfa_uri a) in
     rbind (rbind (collect [fixedBytes (sfa_contentHash a) 32, Inr (u64LE (sfa_stake a)),
         Inr (u16LE (int (length uri))), Inr (uri)]) (\<lambda>parts. withDisc Ix_SubmitFact
         parts)) (\<lambda>data.
     rbind (collect
       [Inr (w oracle False),
        Inr (w (pda_address fact) False),
        w_in W (sfa_submitter a) True,
        w_in W (sfa_submitterKass a) False,
        Inr (w (pda_address stakeVault) False),
        Inr (ro (TOKEN_PROGRAM_ID W) False),
        Inr (ro (SYSTEM_PROGRAM_ID W) False)]) (\<lambda>ks.
     Inr \<lparr>ti_programId = programId, ti_keys = ks, ti_data = data\<rparr>)))))))"

record 'a voteFact_args =
  vfa_oracle :: "'a address_input"
  vfa_fact :: "'a address_input"
  vfa_voter :: "'a address_input"
  vfa_voterKass :: "'a address_input"
  vfa_kind :: "int"
  vfa_stake :: "int"
  vfa_programId :: "'a option"

definition voteFact :: "'a web3 \<Rightarrow> 'a voteFact_args \<Rightarrow> 'a tx_instruction res" where
  "voteFact W a =
    (let programId = program_or W (vfa_programId a) in
     rbind (addr W (vfa_oracle a)) (\<lambda>oracle.
     rbind (addr W (vfa_fact a)) (\<lambda>fact.
     rbind (addr W (vfa_voter a)) (\<lambda>voter'.
     rbind (pda_factVote W (Addr fact) (Addr voter') (Some programId)) (\<lambda>factVote.
     rbind (pda_stakeVault W (Addr oracle) (Some programId)) (\<lambda>stakeVault.
     rbind (withDisc Ix_VoteFact [u8 (vfa_kind a), u64LE (vfa_stake a)]) (\<lambda>data.
     rbind (collect
       [Inr (w oracle False),
        Inr (w fact False),
        Inr (w (pda_address factVote) False),
        w_in W (vfa_voter a) True,
        w_in W (vfa_voterKass a) False,
        Inr (w (pda_address stakeVault) False),
        Inr (ro (TOKEN_PROGRAM_ID W) False),
        Inr (ro (SYSTEM_PROGRAM_ID W) False)]) (\<lambda>ks.
     Inr \<lparr>ti_programId = programId, ti_keys = ks, ti_data = data\<rparr>))))))))"

record 'a finalizeFacts_args =
  ffa_nonce :: "int"
  ffa_kassMint :: "'a address_input"
  ffa_tail :: "'a address_input list"
  ffa_programId :: "'a option"

definition finalizeFacts :: "'a web3 \<Rightarrow> 'a finalizeFacts_args \<Rightarrow> 'a tx_instruction res" where
  "finalizeFacts W a =
    (let programId = program_or W (ffa_programId a) in
     rbind (pda_oracle W (ffa_nonce a) (Some programId)) (\<lambda>oracle.
     rbind (pda_stakeVault W (Addr (pda_address oracle)) (Some programId)) (\<lambda>stakeVault.
     rbind (collect (
       [Inr (w (pda_address oracle) False),
        w_in W (ffa_kassMint a) False,
        Inr (w (pda_address stakeVault) False),
        Inr (ro (TOKEN_PROGRAM_ID W) False)] @ map (\<lambda>k. w_in W k False) (ffa_tail a))) (\<lambda>ks.
     rbind (withDisc Ix_FinalizeFacts [u64LE (ffa_nonce a)]) (\<lambda>bs.
     Inr \<lparr>ti_programId = programId, ti_keys = ks, ti_data = bs\<rparr>)))))"

record 'a submitAiClaim_args =
  aca_oracle :: "'a address_input"
  aca_proposer :: "'a address_input"
  aca_authority :: "'a address_input"
  aca_modelId :: "bytes"
  aca_paramsHash :: "bytes"
  aca_ioHash :: "bytes"
  aca_option :: "int"
  aca_programId :: "'a option"

definition submitAiClaim :: "'a web3 \<Rightarrow> 'a submitAiClaim_args \<Rightarrow> 'a tx_instruction res" where
  "submitAiClaim W a =
    (let programId = program_or W (aca_programId a) in
     rbind (addr W (aca_oracle a)) (\<lambda>oracle.
     rbind (addr W (aca_proposer a)) (\<lambda>proposer.
     rbind (pda_aiClaim W (Addr oracle) (Addr proposer) (Some programId)) (\<lambda>aiClaim.
     rbind (rbind (collect [fixedBytes (aca_modelId a) 32, fixedBytes (aca_paramsHash a) 32,
         fixedBytes (aca_ioHash a) 32, Inr (u8 (aca_option a))]) (\<lambda>parts. withDisc
         Ix_SubmitAiClaim parts)) (\<lambda>data.
     rbind (collect
       [Inr (w oracle False),
        Inr (w proposer False),
        Inr (w (pda_address aiClaim) False),
        w_in W (aca_authority a) True,
        Inr (ro (SYSTEM_PROGRAM_ID W) False)]) (\<lambda>ks.
     Inr \<lparr>ti_programId = programId, ti_keys = ks, ti_data = data\<rparr>))))))"

record 'a finalizeAiClaims_args =
  faa_oracle :: "'a address_input"
  faa_proposers :: "'a address_input list"
  faa_programId :: "'a option"

definition finalizeAiClaims :: "'a web3 \<Rightarrow> 'a finalizeAiClaims_args \<Rightarrow> 'a tx_instruction res" where
  "finalizeAiClaims W a =
    (let programId = program_or W (faa_programId a) in
     rbind (collect (
       [w_in W (faa_oracle a) False] @ map (\<lambda>k. w_in W k False) (faa_proposers a)))
           (\<lambda>ks.
     rbind (withDisc Ix_FinalizeAiClaims []) (\<lambda>bs.
     Inr \<lparr>ti_programId = programId, ti_keys = ks, ti_data = bs\<rparr>)))"

record 'a finalizeOracle_args =
  foa_nonce :: "int"
  foa_kassMint :: "'a address_input"
  foa_proposers :: "'a address_input list"
  foa_programId :: "'a option"

definition finalizeOracle :: "'a web3 \<Rightarrow> 'a finalizeOracle_args \<Rightarrow> 'a tx_instruction res" where
  "finalizeOracle W a =
    (let programId = program_or W (foa_programId a) in
     rbind (pda_oracle W (foa_nonce a) (Some programId)) (\<lambda>oracle.
     rbind (pda_stakeVault W (Addr (pda_address oracle)) (Some programId)) (\<lambda>stakeVault.
     rbind (collect (
       [Inr (w (pda_address oracle) False),
        w_in W (foa_kassMint a) False,
        Inr (w (pda_address stakeVault) False),
        Inr (ro (TOKEN_PROGRAM_ID W) False)] @ map (\<lambda>k. ro_in W k False) (foa_proposers a))) (\<lambda>ks.
     rbind (withDisc Ix_FinalizeOracle [u64LE (foa_nonce a)]) (\<lambda>bs.
     Inr \<lparr>ti_programId = programId, ti_keys = ks, ti_data = bs\<rparr>)))))"

section \<open>Challenge (challenge.ts)\<close>

record 'a openChallenge_args =
  och_nonce :: "int"
  och_proposer :: "'a address_input"
  och_challenger :: "'a address_input"
  och_question :: "'a address_input"
  och_kassVault :: "'a address_input"
  och_usdcVault :: "'a address_input"
  och_passAmm :: "'a address_input"
  och_failAmm :: "'a address_input"
  och_kassVaultUnderlying :: "'a address_input"
  och_passKassMint :: "'a address_input"
  och_failKassMint :: "'a address_input"
  och_oraclePassKass :: "'a address_input"
  och_oracleFailKass :: "'a address_input"
  och_cvEventAuthority :: "'a address_input"
  och_kassDao :: "'a address_input"
  och_usdcMint :: "'a address_input"
  och_challengerUsdcSrc :: "'a address_input"
  och_programId :: "'a option"

definition openChallenge :: "'a web3 \<Rightarrow> 'a openChallenge_args \<Rightarrow> 'a tx_instruction res" where
  "openChallenge W a =
    (let programId = program_or W (och_programId a) in
     rbind (pda_oracle W (och_nonce a) (Some programId)) (\<lambda>oracle.
     rbind (addr W (och_proposer a)) (\<lambda>proposer.
     rbind (pda_aiClaim W (Addr (pda_address oracle)) (Addr proposer) (Some programId)) (\<lambda>aiClaim.
     rbind (pda_market W (Addr (pda_address aiClaim)) (Some programId)) (\<lambda>market.
     rbind (pda_stakeVault W (Addr (pda_address oracle)) (Some programId)) (\<lambda>stakeVault.
     rbind (pda_protocol W (Some programId)) (\<lambda>protocol.
     rbind (pda_challengeUsdcVault W (Addr (pda_address market)) (Some programId)) (\<lambda>escrowVault.
     rbind (collect
       [Inr (w (pda_address oracle) False),
        Inr (w (pda_address aiClaim) False),
        Inr (w proposer False),
        Inr (w (pda_address market) False),
        w_in W (och_challenger a) True,
        ro_in W (och_question a) False,
        w_in W (och_kassVault a) False,
        ro_in W (och_usdcVault a) False,
        ro_in W (och_passAmm a) False,
        ro_in W (och_failAmm a) False,
        Inr (w (pda_address stakeVault) False),
        w_in W (och_kassVaultUnderlying a) False,
        w_in W (och_passKassMint a) False,
        w_in W (och_failKassMint a) False,
        w_in W (och_oraclePassKass a) False,
        w_in W (och_oracleFailKass a) False,
        Inr (ro (conditionalVault_id W) False),
        Inr (ro (TOKEN_PROGRAM_ID W) False),
        Inr (ro (SYSTEM_PROGRAM_ID W) False),
        ro_in W (och_cvEventAuthority a) False,
        Inr (ro (pda_address protocol) False),
        ro_in W (och_kassDao a) False,
        ro_in W (och_usdcMint a) False,
        w_in W (och_challengerUsdcSrc a) False,
        Inr (w (pda_address escrowVault) False)]) (\<lambda>ks.
     rbind (withDisc Ix_OpenChallenge [u64LE (och_nonce a)]) (\<lambda>bs.
     Inr \<lparr>ti_programId = programId, ti_keys = ks, ti_data = bs\<rparr>))))))))))"

record 'a settleChallenge_args =
  sch_nonce :: "int"
  sch_aiClaim :: "'a address_input"
  sch_proposer :: "'a address_input"
  sch_question :: "'a address_input"
  sch_passAmm :: "'a address_input"
  sch_failAmm :: "'a address_input"
  sch_cvEventAuthority :: "'a address_input"
  sch_kassVault :: "'a address_input"
  sch_kassVaultUnderlying :: "'a address_input"
  sch_passKassMint :: "'a address_input"
  sch_failKassMint :: "'a address_input"
  sch_oraclePassKass :: "'a address_input"
  sch_oracleFailKass :: "'a address_input"
  sch_proposerUsdc :: "'a address_input"
  sch_challengerUsdcDest :: "'a address_input"
  sch_challengerKass :: "'a address_input"
  sch_programId :: "'a option"

definition settleChallenge :: "'a web3 \<Rightarrow> 'a settleChallenge_args \<Rightarrow> 'a tx_instruction res" where
  "settleChallenge W a =
    (let programId = program_or W (sch_programId a) in
     rbind (pda_oracle W (sch_nonce a) (Some programId)) (\<lambda>oracle.
     rbind (addr W (sch_aiClaim a)) (\<lambda>aiClaim.
     rbind (pda_market W (Addr aiClaim) (Some programId)) (\<lambda>market.
     rbind (pda_stakeVault W (Addr (pda_address oracle)) (Some programId)) (\<lambda>stakeVault.
     rbind (pda_challengeUsdcVault W (Addr (pda_address market)) (Some programId)) (\<lambda>escrowVault.
     rbind (collect
       [Inr (w (pda_address oracle) False),
        Inr (w (pda_address market) False),
        Inr (ro aiClaim False),
        w_in W (sch_proposer a) False,
        w_in W (sch_question a) False,
        ro_in W (sch_passAmm a) False,
        ro_in W (sch_failAmm a) False,
        Inr (ro (conditionalVault_id W) False),
        ro_in W (sch_cvEventAuthority a) False,
        Inr (ro (TOKEN_PROGRAM_ID W) False),
        Inr (w (pda_address stakeVault) False),
        w_in W (sch_kassVault a) False,
        w_in W (sch_kassVaultUnderlying a) False,
        w_in W (sch_passKassMint a) False,
        w_in W (sch_failKassMint a) False,
        w_in W (sch_oraclePassKass a) False,
        w_in W (sch_oracleFailKass a) False,
        Inr (w (pda_address escrowVault) False),
        w_in W (sch_proposerUsdc a) False,
        w_in W (sch_challengerUsdcDest a) False,
        w_in W (sch_challengerKass a) False]) (\<lambda>ks.
     rbind (withDisc Ix_SettleChallenge [u64LE (sch_nonce a)]) (\<lambda>bs.
     Inr \<lparr>ti_programId = programId, ti_keys = ks, ti_data = bs\<rparr>))))))))"

section \<open>Settlement (settlement.ts)\<close>

record 'a claimProposer_args =
  cpa_nonce :: "int"
  cpa_proposer :: "'a address_input"
  cpa_destKass :: "'a address_input"
  cpa_rentRecipient :: "'a address_input"
  cpa_programId :: "'a option"

definition claimProposer :: "'a web3 \<Rightarrow> 'a claimProposer_args \<Rightarrow> 'a tx_instruction res" where
  "claimProposer W a =
    (let programId = program_or W (cpa_programId a) in
     rbind (pda_oracle W (cpa_nonce a) (Some programId)) (\<lambda>oracle.
     rbind (pda_stakeVault W (Addr (pda_address oracle)) (Some programId)) (\<lambda>stakeVault.
     rbind (collect
       [Inr (ro (pda_address oracle) False),
        w_in W (cpa_proposer a) False,
        w_in W (cpa_destKass a) False,
        Inr (w (pda_address stakeVault) False),
        w_in W (cpa_rentRecipient a) False,
        Inr (ro (TOKEN_PROGRAM_ID W) False)]) (\<lambda>ks.
     rbind (withDisc Ix_ClaimProposer [u64LE (cpa_nonce a)]) (\<lambda>bs.
     Inr \<lparr>ti_programId = programId, ti_keys = ks, ti_data = bs\<rparr>)))))"

record 'a claimFact_args =
  cfa_nonce :: "int"
  cfa_fact :: "'a address_input"
  cfa_destKass :: "'a address_input"
  cfa_rentRecipient :: "'a address_input"
  cfa_programId :: "'a option"

definition claimFact :: "'a web3 \<Rightarrow> 'a claimFact_args \<Rightarrow> 'a tx_instruction res" where
  "claimFact W a =
    (let programId = program_or W (cfa_programId a) in
     rbind (pda_oracle W (cfa_nonce a) (Some programId)) (\<lambda>oracle.
     rbind (pda_stakeVault W (Addr (pda_address oracle)) (Some programId)) (\<lambda>stakeVault.
     rbind (collect
       [Inr (ro (pda_address oracle) False),
        w_in W (cfa_fact a) False,
        w_in W (cfa_destKass a) False,
        Inr (w (pda_address stakeVault) False),
        w_in W (cfa_rentRecipient a) False,
        Inr (ro (TOKEN_PROGRAM_ID W) False)]) (\<lambda>ks.
     rbind (withDisc Ix_ClaimFact [u64LE (cfa_nonce a)]) (\<lambda>bs.
     Inr \<lparr>ti_programId = programId, ti_keys = ks, ti_data = bs\<rparr>)))))"

record 'a claimFactVote_args =
  cva_nonce :: "int"
  cva_factVote :: "'a address_input"
  cva_fact :: "'a address_input"
  cva_destKass :: "'a address_input"
  cva_rentRecipient :: "'a address_input"
  cva_programId :: "'a option"

definition claimFactVote :: "'a web3 \<Rightarrow> 'a claimFactVote_args \<Rightarrow> 'a tx_instruction res" where
  "claimFactVote W a =
    (let programId = program_or W (cva_programId a) in
     rbind (pda_oracle W (cva_nonce a) (Some programId)) (\<lambda>oracle.
     rbind (pda_stakeVault W (Addr (pda_address oracle)) (Some programId)) (\<lambda>stakeVault.
     rbind (collect
       [Inr (ro (pda_address oracle) False),
        w_in W (cva_factVote a) False,
        w_in W (cva_fact a) False,
        w_in W (cva_destKass a) False,
        Inr (w (pda_address stakeVault) False),
        w_in W (cva_rentRecipient a) False,
        Inr (ro (TOKEN_PROGRAM_ID W) False)]) (\<lambda>ks.
     rbind (withDisc Ix_ClaimFactVote [u64LE (cva_nonce a)]) (\<lambda>bs.
     Inr \<lparr>ti_programId = programId, ti_keys = ks, ti_data = bs\<rparr>)))))"

record 'a closeAiClaim_args =
  clc_oracle :: "'a address_input"
  clc_aiClaim :: "'a address_input"
  clc_rentRecipient :: "'a address_input"
  clc_programId :: "'a option"

definition closeAiClaim :: "'a web3 \<Rightarrow> 'a closeAiClaim_args \<Rightarrow> 'a tx_instruction res" where
  "closeAiClaim W a =
    (let programId = program_or W (clc_programId a) in
     rbind (collect
       [ro_in W (clc_oracle a) False,
        w_in W (clc_aiClaim a) False,
        w_in W (clc_rentRecipient a) False]) (\<lambda>ks.
     rbind (withDisc Ix_CloseAiClaim []) (\<lambda>bs.
     Inr \<lparr>ti_programId = programId, ti_keys = ks, ti_data = bs\<rparr>)))"

record 'a closeMarket_args =
  clm_nonce :: "int"
  clm_market :: "'a address_input"
  clm_rentRecipient :: "'a address_input"
  clm_programId :: "'a option"

definition closeMarket :: "'a web3 \<Rightarrow> 'a closeMarket_args \<Rightarrow> 'a tx_instruction res" where
  "closeMarket W a =
    (let programId = program_or W (clm_programId a) in
     rbind (pda_oracle W (clm_nonce a) (Some programId)) (\<lambda>oracle.
     rbind (addr W (clm_market a)) (\<lambda>market.
     rbind (pda_challengeUsdcVault W (Addr market) (Some programId)) (\<lambda>escrowVault.
     rbind (collect
       [Inr (ro (pda_address oracle) False),
        Inr (w market False),
        Inr (w (pda_address escrowVault) False),
        w_in W (clm_rentRecipient a) False,
        Inr (ro (TOKEN_PROGRAM_ID W) False)]) (\<lambda>ks.
     rbind (withDisc Ix_CloseMarket [u64LE (clm_nonce a)]) (\<lambda>bs.
     Inr \<lparr>ti_programId = programId, ti_keys = ks, ti_data = bs\<rparr>))))))"

record 'a sweepOracle_args =
  swo_nonce :: "int"
  swo_kassMint :: "'a address_input"
  swo_daoAuthority :: "'a address_input"
  swo_creator :: "'a address_input"
  swo_programId :: "'a option"

definition sweepOracle :: "'a web3 \<Rightarrow> 'a sweepOracle_args \<Rightarrow> 'a tx_instruction res" where
  "sweepOracle W a =
    (let programId = program_or W (swo_programId a) in
     rbind (pda_oracle W (swo_nonce a) (Some programId)) (\<lambda>oracle.
     rbind (pda_stakeVault W (Addr (pda_address oracle)) (Some programId)) (\<lambda>stakeVault.
     rbind (pda_protocol W (Some programId)) (\<lambda>protocol.
     rbind (associatedTokenAccount W (swo_daoAuthority a) (swo_kassMint a)) (\<lambda>daoTreasury.
     rbind (collect
       [Inr (w (pda_address oracle) False),
        Inr (w (pda_address stakeVault) False),
        Inr (ro (pda_address protocol) False),
        Inr (w (pda_address daoTreasury) False),
        w_in W (swo_creator a) False,
        Inr (ro (TOKEN_PROGRAM_ID W) False)]) (\<lambda>ks.
     rbind (withDisc Ix_SweepOracle [u64LE (swo_nonce a)]) (\<lambda>bs.
     Inr \<lparr>ti_programId = programId, ti_keys = ks, ti_data = bs\<rparr>)))))))"

end
