(* ===== verification/Oracle_Accounts.thy ===== *)
theory Oracle_Accounts
  imports Oracle_Constants
begin

text \<open>
  The decoders of the dispute accounts \<open>Proposer\<close>, \<open>Fact\<close>, \<open>FactVote\<close>, \<open>AiClaim\<close> and
  \<open>Market\<close> (\<open>sdks/oracles/ts/src/accounts/\<close>). Each record has the fields of the TypeScript
  interface; each decoder checks size and tag and then reads the fields in the order of
  the source, a read that throws ending the decoding. For the round-trip theorems the
  byte image of an account (\<open>pod_\<close>...) follows the field order and the padding of the
  \<open>#[repr(C)]\<close> struct in \<open>programs/oracles/src/state/accounts.rs\<close>.
\<close>

section \<open>Size and tag check (accounts/common.ts)\<close>

definition assertAccount :: "bytes \<Rightarrow> AccountType \<Rightarrow> nat \<Rightarrow> string \<Rightarrow> unit res" where
  "assertAccount data expectedType sz name =
     (if length data \<noteq> sz then Inl (SizeErr name sz (length data))
      else (let tag = (case data of [] \<Rightarrow> None | b # _ \<Rightarrow> Some (uint b)) in
        if tag \<noteq> Some (type_code expectedType)
        then Inl (TagErr name (type_code expectedType) tag)
        else Inr ()))"

section \<open>Accounts and decoders\<close>

definition URI_OFFSET :: nat where
  "URI_OFFSET = 136"

definition URI_CAP :: nat where
  "URI_CAP = 200"

datatype VoteKind = Approve | Duplicate

definition vote_kind :: "int \<Rightarrow> VoteKind option" where
  "vote_kind kindRaw =
     (if kindRaw = VOTE_APPROVE then Some Approve
      else if kindRaw = VOTE_DUPLICATE then Some Duplicate else None)"

subsection \<open>Proposer\<close>

record 'a proposer_account =
  pr_accountType :: "AccountType"
  pr_oracle :: "'a"
  pr_authority :: "'a"
  pr_bond :: "int"
  pr_originalOption :: "int"
  pr_claimOption :: "int"
  pr_disqualified :: "bool"
  pr_slashed :: "bool"
  pr_flipped :: "bool"
  pr_bump :: "int"
  pr_aiFinalized :: "bool"
  pr_slashedAmount :: "int"

definition decodeProposer :: "'a web3 \<Rightarrow> bytes \<Rightarrow> 'a proposer_account res" where
  "decodeProposer W data =
     rbind (assertAccount data AT_Proposer (the (ACCOUNT_SIZES AT_Proposer)) ''Proposer'') (\<lambda>_.
     rbind (readPubkey W data 8) (\<lambda>oracle'.
     rbind (readPubkey W data 40) (\<lambda>authority'.
     rbind (readU64LE data 72) (\<lambda>bond'.
     rbind (readU8 data 80) (\<lambda>originalOption'.
     rbind (readU8 data 81) (\<lambda>claimOption'.
     rbind (readBool data 82) (\<lambda>disqualified'.
     rbind (readBool data 83) (\<lambda>slashed'.
     rbind (readBool data 84) (\<lambda>flipped'.
     rbind (readU8 data 85) (\<lambda>bump'.
     rbind (readBool data 86) (\<lambda>aiFinalized'.
     rbind (readU64LE data 88) (\<lambda>slashedAmount'.
     Inr \<lparr>pr_accountType = AT_Proposer,
       pr_oracle = oracle',
       pr_authority = authority',
       pr_bond = bond',
       pr_originalOption = originalOption',
       pr_claimOption = claimOption',
       pr_disqualified = disqualified',
       pr_slashed = slashed',
       pr_flipped = flipped',
       pr_bump = bump',
       pr_aiFinalized = aiFinalized',
       pr_slashedAmount = slashedAmount'\<rparr>))))))))))))"

definition pod_proposer :: "'a web3 \<Rightarrow> 'a proposer_account \<Rightarrow> bytes" where
  "pod_proposer W x =
     u8 (type_code AT_Proposer) @
     zero_pad 7 @
     w3_bytes W (pr_oracle x) @
     w3_bytes W (pr_authority x) @
     u64LE (pr_bond x) @
     u8 (pr_originalOption x) @
     u8 (pr_claimOption x) @
     flag_byte (pr_disqualified x) @
     flag_byte (pr_slashed x) @
     flag_byte (pr_flipped x) @
     u8 (pr_bump x) @
     flag_byte (pr_aiFinalized x) @
     zero_pad 1 @
     u64LE (pr_slashedAmount x)"

definition proposer_ok :: "'a proposer_account \<Rightarrow> bool" where
  "proposer_ok x \<longleftrightarrow>
     pr_accountType x = AT_Proposer \<and>
     unsigned_range 64 (pr_bond x) \<and>
     unsigned_range 8 (pr_originalOption x) \<and>
     unsigned_range 8 (pr_claimOption x) \<and>
     unsigned_range 8 (pr_bump x) \<and>
     unsigned_range 64 (pr_slashedAmount x)"

subsection \<open>Fact\<close>

record 'a fact_account =
  fa_accountType :: "AccountType"
  fa_oracle :: "'a"
  fa_proposer :: "'a"
  fa_contentHash :: "bytes"
  fa_stake :: "int"
  fa_approveStake :: "int"
  fa_duplicateStake :: "int"
  fa_uriLen :: "int"
  fa_agreed :: "bool"
  fa_duplicate :: "bool"
  fa_settled :: "bool"
  fa_bump :: "int"
  fa_uri :: "utext"
  fa_uriRaw :: "bytes"

definition decodeFact :: "'a web3 \<Rightarrow> bytes \<Rightarrow> 'a fact_account res" where
  "decodeFact W data =
     rbind (assertAccount data AT_Fact (the (ACCOUNT_SIZES AT_Fact)) ''Fact'') (\<lambda>_.
     rbind (readU16LE data 128) (\<lambda>uriLen.
     let uriRaw = readBytes data URI_OFFSET URI_CAP;
         sliceLen = min (nat uriLen) URI_CAP;
         uri = utf8_decode (js_slice uriRaw 0 sliceLen) in
     rbind (readPubkey W data 8) (\<lambda>oracle'.
     rbind (readPubkey W data 40) (\<lambda>proposer'.
     rbind (readU64LE data 104) (\<lambda>stake'.
     rbind (readU64LE data 112) (\<lambda>approveStake'.
     rbind (readU64LE data 120) (\<lambda>duplicateStake'.
     rbind (readBool data 130) (\<lambda>agreed'.
     rbind (readBool data 131) (\<lambda>duplicate'.
     rbind (readBool data 132) (\<lambda>settled'.
     rbind (readU8 data 133) (\<lambda>bump'.
     Inr \<lparr>fa_accountType = AT_Fact,
       fa_oracle = oracle',
       fa_proposer = proposer',
       fa_contentHash = readBytes data 72 32,
       fa_stake = stake',
       fa_approveStake = approveStake',
       fa_duplicateStake = duplicateStake',
       fa_uriLen = uriLen,
       fa_agreed = agreed',
       fa_duplicate = duplicate',
       fa_settled = settled',
       fa_bump = bump',
       fa_uri = uri,
       fa_uriRaw = uriRaw\<rparr>)))))))))))"

definition pod_fact :: "'a web3 \<Rightarrow> 'a fact_account \<Rightarrow> bytes" where
  "pod_fact W x =
     u8 (type_code AT_Fact) @
     zero_pad 7 @
     w3_bytes W (fa_oracle x) @
     w3_bytes W (fa_proposer x) @
     fa_contentHash x @
     u64LE (fa_stake x) @
     u64LE (fa_approveStake x) @
     u64LE (fa_duplicateStake x) @
     u16LE (fa_uriLen x) @
     flag_byte (fa_agreed x) @
     flag_byte (fa_duplicate x) @
     flag_byte (fa_settled x) @
     u8 (fa_bump x) @
     zero_pad 2 @
     fa_uriRaw x"

definition fact_ok :: "'a fact_account \<Rightarrow> bool" where
  "fact_ok x \<longleftrightarrow>
     fa_accountType x = AT_Fact \<and>
     fa_uri x = utf8_decode (take (min (nat (fa_uriLen x)) URI_CAP) (fa_uriRaw x)) \<and>
     length (fa_contentHash x) = 32 \<and>
     unsigned_range 64 (fa_stake x) \<and>
     unsigned_range 64 (fa_approveStake x) \<and>
     unsigned_range 64 (fa_duplicateStake x) \<and>
     unsigned_range 16 (fa_uriLen x) \<and>
     unsigned_range 8 (fa_bump x) \<and>
     length (fa_uriRaw x) = 200"

subsection \<open>FactVote\<close>

record 'a factvote_account =
  fv_accountType :: "AccountType"
  fv_fact :: "'a"
  fv_voter :: "'a"
  fv_stake :: "int"
  fv_kindRaw :: "int"
  fv_kind :: "VoteKind option"
  fv_bump :: "int"

definition decodeFactVote :: "'a web3 \<Rightarrow> bytes \<Rightarrow> 'a factvote_account res" where
  "decodeFactVote W data =
     rbind (assertAccount data AT_FactVote (the (ACCOUNT_SIZES AT_FactVote)) ''FactVote'') (\<lambda>_.
     rbind (readU8 data 80) (\<lambda>kindRaw.
     rbind (readPubkey W data 8) (\<lambda>fact'.
     rbind (readPubkey W data 40) (\<lambda>voter'.
     rbind (readU64LE data 72) (\<lambda>stake'.
     rbind (readU8 data 81) (\<lambda>bump'.
     Inr \<lparr>fv_accountType = AT_FactVote,
       fv_fact = fact',
       fv_voter = voter',
       fv_stake = stake',
       fv_kindRaw = kindRaw,
       fv_kind = vote_kind kindRaw,
       fv_bump = bump'\<rparr>))))))"

definition pod_factvote :: "'a web3 \<Rightarrow> 'a factvote_account \<Rightarrow> bytes" where
  "pod_factvote W x =
     u8 (type_code AT_FactVote) @
     zero_pad 7 @
     w3_bytes W (fv_fact x) @
     w3_bytes W (fv_voter x) @
     u64LE (fv_stake x) @
     u8 (fv_kindRaw x) @
     u8 (fv_bump x) @
     zero_pad 6"

definition factvote_ok :: "'a factvote_account \<Rightarrow> bool" where
  "factvote_ok x \<longleftrightarrow>
     fv_accountType x = AT_FactVote \<and>
     fv_kind x = vote_kind (fv_kindRaw x) \<and>
     unsigned_range 64 (fv_stake x) \<and>
     unsigned_range 8 (fv_kindRaw x) \<and>
     unsigned_range 8 (fv_bump x)"

subsection \<open>AiClaim\<close>

record 'a aiclaim_account =
  ac_accountType :: "AccountType"
  ac_oracle :: "'a"
  ac_proposer :: "'a"
  ac_modelId :: "bytes"
  ac_paramsHash :: "bytes"
  ac_ioHash :: "bytes"
  ac_option :: "int"
  ac_challenged :: "bool"
  ac_bump :: "int"
  ac_authority :: "'a"

definition decodeAiClaim :: "'a web3 \<Rightarrow> bytes \<Rightarrow> 'a aiclaim_account res" where
  "decodeAiClaim W data =
     rbind (assertAccount data AT_AiClaim (the (ACCOUNT_SIZES AT_AiClaim)) ''AiClaim'') (\<lambda>_.
     rbind (readPubkey W data 8) (\<lambda>oracle'.
     rbind (readPubkey W data 40) (\<lambda>proposer'.
     rbind (readU8 data 168) (\<lambda>option'.
     rbind (readBool data 169) (\<lambda>challenged'.
     rbind (readU8 data 170) (\<lambda>bump'.
     rbind (readPubkey W data 176) (\<lambda>authority'.
     Inr \<lparr>ac_accountType = AT_AiClaim,
       ac_oracle = oracle',
       ac_proposer = proposer',
       ac_modelId = readBytes data 72 32,
       ac_paramsHash = readBytes data 104 32,
       ac_ioHash = readBytes data 136 32,
       ac_option = option',
       ac_challenged = challenged',
       ac_bump = bump',
       ac_authority = authority'\<rparr>)))))))"

definition pod_aiclaim :: "'a web3 \<Rightarrow> 'a aiclaim_account \<Rightarrow> bytes" where
  "pod_aiclaim W x =
     u8 (type_code AT_AiClaim) @
     zero_pad 7 @
     w3_bytes W (ac_oracle x) @
     w3_bytes W (ac_proposer x) @
     ac_modelId x @
     ac_paramsHash x @
     ac_ioHash x @
     u8 (ac_option x) @
     flag_byte (ac_challenged x) @
     u8 (ac_bump x) @
     zero_pad 5 @
     w3_bytes W (ac_authority x)"

definition aiclaim_ok :: "'a aiclaim_account \<Rightarrow> bool" where
  "aiclaim_ok x \<longleftrightarrow>
     ac_accountType x = AT_AiClaim \<and>
     length (ac_modelId x) = 32 \<and>
     length (ac_paramsHash x) = 32 \<and>
     length (ac_ioHash x) = 32 \<and>
     unsigned_range 8 (ac_option x) \<and>
     unsigned_range 8 (ac_bump x)"

subsection \<open>Market\<close>

record 'a market_account =
  mk_accountType :: "AccountType"
  mk_oracle :: "'a"
  mk_aiClaim :: "'a"
  mk_proposer :: "'a"
  mk_challenger :: "'a"
  mk_question :: "'a"
  mk_kassVault :: "'a"
  mk_usdcVault :: "'a"
  mk_passAmm :: "'a"
  mk_failAmm :: "'a"
  mk_oraclePassKass :: "'a"
  mk_oracleFailKass :: "'a"
  mk_challengerUsdcVault :: "'a"
  mk_twapEnd :: "int"
  mk_challengerUsdc :: "int"
  mk_settled :: "bool"
  mk_bump :: "int"

definition decodeMarket :: "'a web3 \<Rightarrow> bytes \<Rightarrow> 'a market_account res" where
  "decodeMarket W data =
     rbind (assertAccount data AT_Market (the (ACCOUNT_SIZES AT_Market)) ''Market'') (\<lambda>_.
     rbind (readPubkey W data 8) (\<lambda>oracle'.
     rbind (readPubkey W data 40) (\<lambda>aiClaim'.
     rbind (readPubkey W data 72) (\<lambda>proposer'.
     rbind (readPubkey W data 104) (\<lambda>challenger'.
     rbind (readPubkey W data 136) (\<lambda>question'.
     rbind (readPubkey W data 168) (\<lambda>kassVault'.
     rbind (readPubkey W data 200) (\<lambda>usdcVault'.
     rbind (readPubkey W data 232) (\<lambda>passAmm'.
     rbind (readPubkey W data 264) (\<lambda>failAmm'.
     rbind (readPubkey W data 296) (\<lambda>oraclePassKass'.
     rbind (readPubkey W data 328) (\<lambda>oracleFailKass'.
     rbind (readPubkey W data 360) (\<lambda>challengerUsdcVault'.
     rbind (readI64LE data 392) (\<lambda>twapEnd'.
     rbind (readU64LE data 400) (\<lambda>challengerUsdc'.
     rbind (readBool data 408) (\<lambda>settled'.
     rbind (readU8 data 409) (\<lambda>bump'.
     Inr \<lparr>mk_accountType = AT_Market,
       mk_oracle = oracle',
       mk_aiClaim = aiClaim',
       mk_proposer = proposer',
       mk_challenger = challenger',
       mk_question = question',
       mk_kassVault = kassVault',
       mk_usdcVault = usdcVault',
       mk_passAmm = passAmm',
       mk_failAmm = failAmm',
       mk_oraclePassKass = oraclePassKass',
       mk_oracleFailKass = oracleFailKass',
       mk_challengerUsdcVault = challengerUsdcVault',
       mk_twapEnd = twapEnd',
       mk_challengerUsdc = challengerUsdc',
       mk_settled = settled',
       mk_bump = bump'\<rparr>)))))))))))))))))"

definition pod_market :: "'a web3 \<Rightarrow> 'a market_account \<Rightarrow> bytes" where
  "pod_market W x =
     u8 (type_code AT_Market) @
     zero_pad 7 @
     w3_bytes W (mk_oracle x) @
     w3_bytes W (mk_aiClaim x) @
     w3_bytes W (mk_proposer x) @
     w3_bytes W (mk_challenger x) @
     w3_bytes W (mk_question x) @
     w3_bytes W (mk_kassVault x) @
     w3_bytes W (mk_usdcVault x) @
     w3_bytes W (mk_passAmm x) @
     w3_bytes W (mk_failAmm x) @
     w3_bytes W (mk_oraclePassKass x) @
     w3_bytes W (mk_oracleFailKass x) @
     w3_bytes W (mk_challengerUsdcVault x) @
     i64LE (mk_twapEnd x) @
     u64LE (mk_challengerUsdc x) @
     flag_byte (mk_settled x) @
     u8 (mk_bump x) @
     zero_pad 6"

definition market_ok :: "'a market_account \<Rightarrow> bool" where
  "market_ok x \<longleftrightarrow>
     mk_accountType x = AT_Market \<and>
     signed_range 64 (mk_twapEnd x) \<and>
     unsigned_range 64 (mk_challengerUsdc x) \<and>
     unsigned_range 8 (mk_bump x)"

section \<open>Lemmas\<close>

lemma is_ok_rbind:
  "is_ok r \<Longrightarrow> (\<And>x. r = Inr x \<Longrightarrow> is_ok (f x)) \<Longrightarrow> is_ok (rbind r f)"
  by (cases r) auto

lemma is_ok_Inr [simp]: "is_ok (Inr x)"
  by simp

lemma is_ok_rbind_D: "is_ok (rbind r f) \<Longrightarrow> is_ok r"
  by (cases r) auto

lemma rbind_assoc: "rbind (rbind r f) g = rbind r (\<lambda>x. rbind (f x) g)"
  by (cases r) auto

lemma assertAccount_iff:
  "assertAccount data t n name = Inr u
     \<longleftrightarrow> length data = n \<and> data \<noteq> [] \<and> uint (hd data) = type_code t"
  by (cases data) (auto simp: assertAccount_def Let_def)

lemma tag_byte: "uint (hd (u8 (type_code t) @ xs)) = type_code t"
  by (cases t) (simp_all add: u8_def uint_byte_of_int)

lemma u8_not_Nil [simp]: "u8 v \<noteq> []"
  by (simp add: u8_def)

lemma assertAccount_pod [simp]:
  "type_code t = c \<Longrightarrow> Suc (length xs) = n \<Longrightarrow> assertAccount (u8 c @ xs) t n name = Inr ()"
  using tag_byte [of t xs] by (simp only: assertAccount_iff) simp

lemma fits_reads:
  assumes "web3_ok W"
  shows "off + 32 \<le> length data \<Longrightarrow> is_ok (readPubkey W data off)"
    "off + 1 \<le> length data \<Longrightarrow> is_ok (readU8 data off)"
    "off + 1 \<le> length data \<Longrightarrow> is_ok (readBool data off)"
    "off + 2 \<le> length data \<Longrightarrow> is_ok (readU16LE data off)"
    "off + 8 \<le> length data \<Longrightarrow> is_ok (readU64LE data off)"
    "off + 8 \<le> length data \<Longrightarrow> is_ok (readI64LE data off)"
proof -
  have "strict_codec 32 (w3_bytes W) (readPubkey W) (\<lambda>_. True)"
    using pubkey_codec [OF assms] by (simp add: exact_codec_def)
  then show "off + 32 \<le> length data \<Longrightarrow> is_ok (readPubkey W data off)"
    by (simp add: strict_codec.dec_fits)
qed (simp_all add: c8.dec_fits cbool.dec_fits c16.dec_fits c64.dec_fits ci64.dec_fits
      del: is_ok.simps)

lemma proposer_round_trip:
  assumes "web3_ok W" "proposer_ok x"
  shows "decodeProposer W (pod_proposer W x) = Inr x"
  using assms(2)
  by (cases x) (simp add: decodeProposer_def pod_proposer_def proposer_ok_def read_at width_simps
      readPubkey_simps [OF assms(1)] length_w3_bytes [OF assms(1)] type_code_byte)

lemma proposer_accepts:
  assumes "web3_ok W"
  shows "is_ok (decodeProposer W data)
    \<longleftrightarrow> assertAccount data AT_Proposer (the (ACCOUNT_SIZES AT_Proposer)) ''Proposer'' = Inr ()"
proof
  assume ok: "assertAccount data AT_Proposer (the (ACCOUNT_SIZES AT_Proposer)) ''Proposer'' = Inr ()"
  then have "length data = the (ACCOUNT_SIZES AT_Proposer)" by (simp add: assertAccount_iff)
  then show "is_ok (decodeProposer W data)"
    unfolding decodeProposer_def ok rbind.simps Let_def
    by (intro is_ok_rbind fits_reads [OF assms] is_ok_Inr) simp_all
next
  show "is_ok (decodeProposer W data)
    \<Longrightarrow> assertAccount data AT_Proposer (the (ACCOUNT_SIZES AT_Proposer)) ''Proposer'' = Inr ()"
    unfolding decodeProposer_def by (drule is_ok_rbind_D) (simp add: is_ok_iff)
qed

lemma fact_round_trip:
  assumes "web3_ok W" "fact_ok x"
  shows "decodeFact W (pod_fact W x) = Inr x"
  using assms(2)
  by (cases x) (simp add: decodeFact_def pod_fact_def fact_ok_def read_at width_simps
      readPubkey_simps [OF assms(1)] length_w3_bytes [OF assms(1)] type_code_byte URI_OFFSET_def URI_CAP_def js_slice_def)

lemma fact_accepts:
  assumes "web3_ok W"
  shows "is_ok (decodeFact W data)
    \<longleftrightarrow> assertAccount data AT_Fact (the (ACCOUNT_SIZES AT_Fact)) ''Fact'' = Inr ()"
proof
  assume ok: "assertAccount data AT_Fact (the (ACCOUNT_SIZES AT_Fact)) ''Fact'' = Inr ()"
  then have "length data = the (ACCOUNT_SIZES AT_Fact)" by (simp add: assertAccount_iff)
  then show "is_ok (decodeFact W data)"
    unfolding decodeFact_def ok rbind.simps Let_def
    by (intro is_ok_rbind fits_reads [OF assms] is_ok_Inr) simp_all
next
  show "is_ok (decodeFact W data)
    \<Longrightarrow> assertAccount data AT_Fact (the (ACCOUNT_SIZES AT_Fact)) ''Fact'' = Inr ()"
    unfolding decodeFact_def by (drule is_ok_rbind_D) (simp add: is_ok_iff)
qed

lemma factvote_round_trip:
  assumes "web3_ok W" "factvote_ok x"
  shows "decodeFactVote W (pod_factvote W x) = Inr x"
  using assms(2)
  by (cases x) (simp add: decodeFactVote_def pod_factvote_def factvote_ok_def read_at width_simps
      readPubkey_simps [OF assms(1)] length_w3_bytes [OF assms(1)] type_code_byte)

lemma factvote_accepts:
  assumes "web3_ok W"
  shows "is_ok (decodeFactVote W data)
    \<longleftrightarrow> assertAccount data AT_FactVote (the (ACCOUNT_SIZES AT_FactVote)) ''FactVote'' = Inr ()"
proof
  assume ok: "assertAccount data AT_FactVote (the (ACCOUNT_SIZES AT_FactVote)) ''FactVote'' = Inr ()"
  then have "length data = the (ACCOUNT_SIZES AT_FactVote)" by (simp add: assertAccount_iff)
  then show "is_ok (decodeFactVote W data)"
    unfolding decodeFactVote_def ok rbind.simps Let_def
    by (intro is_ok_rbind fits_reads [OF assms] is_ok_Inr) simp_all
next
  show "is_ok (decodeFactVote W data)
    \<Longrightarrow> assertAccount data AT_FactVote (the (ACCOUNT_SIZES AT_FactVote)) ''FactVote'' = Inr ()"
    unfolding decodeFactVote_def by (drule is_ok_rbind_D) (simp add: is_ok_iff)
qed

lemma aiclaim_round_trip:
  assumes "web3_ok W" "aiclaim_ok x"
  shows "decodeAiClaim W (pod_aiclaim W x) = Inr x"
  using assms(2)
  by (cases x) (simp add: decodeAiClaim_def pod_aiclaim_def aiclaim_ok_def read_at width_simps
      readPubkey_simps [OF assms(1)] length_w3_bytes [OF assms(1)] type_code_byte)

lemma aiclaim_accepts:
  assumes "web3_ok W"
  shows "is_ok (decodeAiClaim W data)
    \<longleftrightarrow> assertAccount data AT_AiClaim (the (ACCOUNT_SIZES AT_AiClaim)) ''AiClaim'' = Inr ()"
proof
  assume ok: "assertAccount data AT_AiClaim (the (ACCOUNT_SIZES AT_AiClaim)) ''AiClaim'' = Inr ()"
  then have "length data = the (ACCOUNT_SIZES AT_AiClaim)" by (simp add: assertAccount_iff)
  then show "is_ok (decodeAiClaim W data)"
    unfolding decodeAiClaim_def ok rbind.simps Let_def
    by (intro is_ok_rbind fits_reads [OF assms] is_ok_Inr) simp_all
next
  show "is_ok (decodeAiClaim W data)
    \<Longrightarrow> assertAccount data AT_AiClaim (the (ACCOUNT_SIZES AT_AiClaim)) ''AiClaim'' = Inr ()"
    unfolding decodeAiClaim_def by (drule is_ok_rbind_D) (simp add: is_ok_iff)
qed

lemma market_round_trip:
  assumes "web3_ok W" "market_ok x"
  shows "decodeMarket W (pod_market W x) = Inr x"
  using assms(2)
  by (cases x) (simp add: decodeMarket_def pod_market_def market_ok_def read_at width_simps
      readPubkey_simps [OF assms(1)] length_w3_bytes [OF assms(1)] type_code_byte)

lemma market_accepts:
  assumes "web3_ok W"
  shows "is_ok (decodeMarket W data)
    \<longleftrightarrow> assertAccount data AT_Market (the (ACCOUNT_SIZES AT_Market)) ''Market'' = Inr ()"
proof
  assume ok: "assertAccount data AT_Market (the (ACCOUNT_SIZES AT_Market)) ''Market'' = Inr ()"
  then have "length data = the (ACCOUNT_SIZES AT_Market)" by (simp add: assertAccount_iff)
  then show "is_ok (decodeMarket W data)"
    unfolding decodeMarket_def ok rbind.simps Let_def
    by (intro is_ok_rbind fits_reads [OF assms] is_ok_Inr) simp_all
next
  show "is_ok (decodeMarket W data)
    \<Longrightarrow> assertAccount data AT_Market (the (ACCOUNT_SIZES AT_Market)) ''Market'' = Inr ()"
    unfolding decodeMarket_def by (drule is_ok_rbind_D) (simp add: is_ok_iff)
qed

end
