(* ===== verification/Oracle_State.thy ===== *)
theory Oracle_State
  imports Oracle_Accounts
begin

text \<open>
  The decoders of the two large accounts: the \<open>Oracle\<close> dispute account
  (\<open>sdks/oracles/ts/src/accounts/oracle.ts\<close>) and the \<open>Protocol\<close> singleton
  (\<open>accounts/protocol.ts\<close>), with the byte images of the \<open>#[repr(C)]\<close> structs of
  \<open>programs/oracles/src/state/oracle.rs\<close> and \<open>state/protocol.rs\<close>.
\<close>

section \<open>Accounts and decoders\<close>

subsection \<open>Oracle\<close>

record 'a oracle_account =
  orc_accountType :: "AccountType"
  orc_creator :: "'a"
  orc_kassMint :: "'a"
  orc_usdcMint :: "'a"
  orc_stakeVault :: "'a"
  orc_deadline :: "int"
  orc_phaseEndsAt :: "int"
  orc_twapWindow :: "int"
  orc_optionsCount :: "int"
  orc_phaseRaw :: "int"
  orc_phase :: "Phase option"
  orc_proposerCount :: "int"
  orc_survivingCount :: "int"
  orc_factCount :: "int"
  orc_totalOracleStake :: "int"
  orc_bondPool :: "int"
  orc_disputeBondTotal :: "int"
  orc_settledCount :: "int"
  orc_aiFinalizedCount :: "int"
  orc_bump :: "int"
  orc_resolvedOption :: "int"
  orc_openChallengeCount :: "int"
  orc_thresholdNum :: "int"
  orc_thresholdDen :: "int"
  orc_marketThresholdNum :: "int"
  orc_marketThresholdDen :: "int"
  orc_flipSlashNum :: "int"
  orc_flipSlashDen :: "int"
  orc_phaseWindow :: "int"
  orc_proposalWindow :: "int"
  orc_factVoteSlashNum :: "int"
  orc_factVoteSlashDen :: "int"
  orc_rewardProposerWeight :: "int"
  orc_rewardFactWeight :: "int"
  orc_challengeFailUsdcFeeNum :: "int"
  orc_challengeFailUsdcFeeDen :: "int"
  orc_challengeSuccessKassFeeNum :: "int"
  orc_challengeSuccessKassFeeDen :: "int"
  orc_totalCorrectProposerStake :: "int"
  orc_totalApprovedFactStake :: "int"
  orc_rewardPool :: "int"
  orc_rewardEmission :: "int"
  orc_minStake :: "int"

definition decodeOracle :: "'a web3 \<Rightarrow> bytes \<Rightarrow> 'a oracle_account res" where
  "decodeOracle W data =
     rbind (assertAccount data AT_Oracle (the (ACCOUNT_SIZES AT_Oracle)) ''Oracle'') (\<lambda>_.
     rbind (readU8 data 161) (\<lambda>phaseRaw.
     rbind (readPubkey W data 8) (\<lambda>creator'.
     rbind (readPubkey W data 40) (\<lambda>kassMint'.
     rbind (readPubkey W data 72) (\<lambda>usdcMint'.
     rbind (readPubkey W data 104) (\<lambda>stakeVault'.
     rbind (readI64LE data 136) (\<lambda>deadline'.
     rbind (readI64LE data 144) (\<lambda>phaseEndsAt'.
     rbind (readI64LE data 152) (\<lambda>twapWindow'.
     rbind (readU8 data 160) (\<lambda>optionsCount'.
     rbind (readU16LE data 162) (\<lambda>proposerCount'.
     rbind (readU16LE data 164) (\<lambda>survivingCount'.
     rbind (readU16LE data 166) (\<lambda>factCount'.
     rbind (readU64LE data 168) (\<lambda>totalOracleStake'.
     rbind (readU64LE data 176) (\<lambda>bondPool'.
     rbind (readU64LE data 184) (\<lambda>disputeBondTotal'.
     rbind (readU16LE data 192) (\<lambda>settledCount'.
     rbind (readU16LE data 194) (\<lambda>aiFinalizedCount'.
     rbind (readU8 data 196) (\<lambda>bump'.
     rbind (readU8 data 197) (\<lambda>resolvedOption'.
     rbind (readU16LE data 198) (\<lambda>openChallengeCount'.
     rbind (readU64LE data 200) (\<lambda>thresholdNum'.
     rbind (readU64LE data 208) (\<lambda>thresholdDen'.
     rbind (readU64LE data 216) (\<lambda>marketThresholdNum'.
     rbind (readU64LE data 224) (\<lambda>marketThresholdDen'.
     rbind (readU64LE data 232) (\<lambda>flipSlashNum'.
     rbind (readU64LE data 240) (\<lambda>flipSlashDen'.
     rbind (readI64LE data 248) (\<lambda>phaseWindow'.
     rbind (readI64LE data 256) (\<lambda>proposalWindow'.
     rbind (readU64LE data 264) (\<lambda>factVoteSlashNum'.
     rbind (readU64LE data 272) (\<lambda>factVoteSlashDen'.
     rbind (readU64LE data 280) (\<lambda>rewardProposerWeight'.
     rbind (readU64LE data 288) (\<lambda>rewardFactWeight'.
     rbind (readU64LE data 296) (\<lambda>challengeFailUsdcFeeNum'.
     rbind (readU64LE data 304) (\<lambda>challengeFailUsdcFeeDen'.
     rbind (readU64LE data 312) (\<lambda>challengeSuccessKassFeeNum'.
     rbind (readU64LE data 320) (\<lambda>challengeSuccessKassFeeDen'.
     rbind (readU64LE data 328) (\<lambda>totalCorrectProposerStake'.
     rbind (readU64LE data 336) (\<lambda>totalApprovedFactStake'.
     rbind (readU64LE data 344) (\<lambda>rewardPool'.
     rbind (readU64LE data 352) (\<lambda>rewardEmission'.
     rbind (readU64LE data 360) (\<lambda>minStake'.
     Inr \<lparr>orc_accountType = AT_Oracle,
       orc_creator = creator',
       orc_kassMint = kassMint',
       orc_usdcMint = usdcMint',
       orc_stakeVault = stakeVault',
       orc_deadline = deadline',
       orc_phaseEndsAt = phaseEndsAt',
       orc_twapWindow = twapWindow',
       orc_optionsCount = optionsCount',
       orc_phaseRaw = phaseRaw,
       orc_phase = phase_of phaseRaw,
       orc_proposerCount = proposerCount',
       orc_survivingCount = survivingCount',
       orc_factCount = factCount',
       orc_totalOracleStake = totalOracleStake',
       orc_bondPool = bondPool',
       orc_disputeBondTotal = disputeBondTotal',
       orc_settledCount = settledCount',
       orc_aiFinalizedCount = aiFinalizedCount',
       orc_bump = bump',
       orc_resolvedOption = resolvedOption',
       orc_openChallengeCount = openChallengeCount',
       orc_thresholdNum = thresholdNum',
       orc_thresholdDen = thresholdDen',
       orc_marketThresholdNum = marketThresholdNum',
       orc_marketThresholdDen = marketThresholdDen',
       orc_flipSlashNum = flipSlashNum',
       orc_flipSlashDen = flipSlashDen',
       orc_phaseWindow = phaseWindow',
       orc_proposalWindow = proposalWindow',
       orc_factVoteSlashNum = factVoteSlashNum',
       orc_factVoteSlashDen = factVoteSlashDen',
       orc_rewardProposerWeight = rewardProposerWeight',
       orc_rewardFactWeight = rewardFactWeight',
       orc_challengeFailUsdcFeeNum = challengeFailUsdcFeeNum',
       orc_challengeFailUsdcFeeDen = challengeFailUsdcFeeDen',
       orc_challengeSuccessKassFeeNum = challengeSuccessKassFeeNum',
       orc_challengeSuccessKassFeeDen = challengeSuccessKassFeeDen',
       orc_totalCorrectProposerStake = totalCorrectProposerStake',
       orc_totalApprovedFactStake = totalApprovedFactStake',
       orc_rewardPool = rewardPool',
       orc_rewardEmission = rewardEmission',
       orc_minStake = minStake'\<rparr>))))))))))))))))))))))))))))))))))))))))))"

definition pod_oracle :: "'a web3 \<Rightarrow> 'a oracle_account \<Rightarrow> bytes" where
  "pod_oracle W x =
     u8 (type_code AT_Oracle) @
     zero_pad 7 @
     w3_bytes W (orc_creator x) @
     w3_bytes W (orc_kassMint x) @
     w3_bytes W (orc_usdcMint x) @
     w3_bytes W (orc_stakeVault x) @
     i64LE (orc_deadline x) @
     i64LE (orc_phaseEndsAt x) @
     i64LE (orc_twapWindow x) @
     u8 (orc_optionsCount x) @
     u8 (orc_phaseRaw x) @
     u16LE (orc_proposerCount x) @
     u16LE (orc_survivingCount x) @
     u16LE (orc_factCount x) @
     u64LE (orc_totalOracleStake x) @
     u64LE (orc_bondPool x) @
     u64LE (orc_disputeBondTotal x) @
     u16LE (orc_settledCount x) @
     u16LE (orc_aiFinalizedCount x) @
     u8 (orc_bump x) @
     u8 (orc_resolvedOption x) @
     u16LE (orc_openChallengeCount x) @
     u64LE (orc_thresholdNum x) @
     u64LE (orc_thresholdDen x) @
     u64LE (orc_marketThresholdNum x) @
     u64LE (orc_marketThresholdDen x) @
     u64LE (orc_flipSlashNum x) @
     u64LE (orc_flipSlashDen x) @
     i64LE (orc_phaseWindow x) @
     i64LE (orc_proposalWindow x) @
     u64LE (orc_factVoteSlashNum x) @
     u64LE (orc_factVoteSlashDen x) @
     u64LE (orc_rewardProposerWeight x) @
     u64LE (orc_rewardFactWeight x) @
     u64LE (orc_challengeFailUsdcFeeNum x) @
     u64LE (orc_challengeFailUsdcFeeDen x) @
     u64LE (orc_challengeSuccessKassFeeNum x) @
     u64LE (orc_challengeSuccessKassFeeDen x) @
     u64LE (orc_totalCorrectProposerStake x) @
     u64LE (orc_totalApprovedFactStake x) @
     u64LE (orc_rewardPool x) @
     u64LE (orc_rewardEmission x) @
     u64LE (orc_minStake x)"

definition oracle_ok :: "'a oracle_account \<Rightarrow> bool" where
  "oracle_ok x \<longleftrightarrow>
     orc_accountType x = AT_Oracle \<and>
     orc_phase x = phase_of (orc_phaseRaw x) \<and>
     signed_range 64 (orc_deadline x) \<and>
     signed_range 64 (orc_phaseEndsAt x) \<and>
     signed_range 64 (orc_twapWindow x) \<and>
     unsigned_range 8 (orc_optionsCount x) \<and>
     unsigned_range 8 (orc_phaseRaw x) \<and>
     unsigned_range 16 (orc_proposerCount x) \<and>
     unsigned_range 16 (orc_survivingCount x) \<and>
     unsigned_range 16 (orc_factCount x) \<and>
     unsigned_range 64 (orc_totalOracleStake x) \<and>
     unsigned_range 64 (orc_bondPool x) \<and>
     unsigned_range 64 (orc_disputeBondTotal x) \<and>
     unsigned_range 16 (orc_settledCount x) \<and>
     unsigned_range 16 (orc_aiFinalizedCount x) \<and>
     unsigned_range 8 (orc_bump x) \<and>
     unsigned_range 8 (orc_resolvedOption x) \<and>
     unsigned_range 16 (orc_openChallengeCount x) \<and>
     unsigned_range 64 (orc_thresholdNum x) \<and>
     unsigned_range 64 (orc_thresholdDen x) \<and>
     unsigned_range 64 (orc_marketThresholdNum x) \<and>
     unsigned_range 64 (orc_marketThresholdDen x) \<and>
     unsigned_range 64 (orc_flipSlashNum x) \<and>
     unsigned_range 64 (orc_flipSlashDen x) \<and>
     signed_range 64 (orc_phaseWindow x) \<and>
     signed_range 64 (orc_proposalWindow x) \<and>
     unsigned_range 64 (orc_factVoteSlashNum x) \<and>
     unsigned_range 64 (orc_factVoteSlashDen x) \<and>
     unsigned_range 64 (orc_rewardProposerWeight x) \<and>
     unsigned_range 64 (orc_rewardFactWeight x) \<and>
     unsigned_range 64 (orc_challengeFailUsdcFeeNum x) \<and>
     unsigned_range 64 (orc_challengeFailUsdcFeeDen x) \<and>
     unsigned_range 64 (orc_challengeSuccessKassFeeNum x) \<and>
     unsigned_range 64 (orc_challengeSuccessKassFeeDen x) \<and>
     unsigned_range 64 (orc_totalCorrectProposerStake x) \<and>
     unsigned_range 64 (orc_totalApprovedFactStake x) \<and>
     unsigned_range 64 (orc_rewardPool x) \<and>
     unsigned_range 64 (orc_rewardEmission x) \<and>
     unsigned_range 64 (orc_minStake x)"

subsection \<open>Protocol\<close>

record 'a protocol_account =
  pc_accountType :: "AccountType"
  pc_admin :: "'a"
  pc_kassMint :: "'a"
  pc_usdcMint :: "'a"
  pc_feeEma :: "int"
  pc_lastCreationUnix :: "int"
  pc_bump :: "int"
  pc_governanceSet :: "bool"
  pc_daoAuthority :: "'a"
  pc_kassDao :: "'a"
  pc_emissionNum :: "int"
  pc_emissionDen :: "int"
  pc_totalSupplyCap :: "int"
  pc_feeEmaHalflife :: "int"
  pc_feePerEmaUnit :: "int"
  pc_feeEmaIncrement :: "int"
  pc_thresholdNum :: "int"
  pc_thresholdDen :: "int"
  pc_marketThresholdNum :: "int"
  pc_marketThresholdDen :: "int"
  pc_flipSlashNum :: "int"
  pc_flipSlashDen :: "int"
  pc_phaseWindow :: "int"
  pc_proposalWindow :: "int"
  pc_factVoteSlashNum :: "int"
  pc_factVoteSlashDen :: "int"
  pc_rewardProposerWeight :: "int"
  pc_rewardFactWeight :: "int"
  pc_challengeFailUsdcFeeNum :: "int"
  pc_challengeFailUsdcFeeDen :: "int"
  pc_challengeSuccessKassFeeNum :: "int"
  pc_challengeSuccessKassFeeDen :: "int"
  pc_stakeFloorEmaThreshold :: "int"
  pc_stakeFloorEmaCap :: "int"
  pc_stakeFloorMax :: "int"

definition decodeProtocol :: "'a web3 \<Rightarrow> bytes \<Rightarrow> 'a protocol_account res" where
  "decodeProtocol W data =
     rbind (assertAccount data AT_Protocol (the (ACCOUNT_SIZES AT_Protocol)) ''Protocol'') (\<lambda>_.
     rbind (readPubkey W data 8) (\<lambda>admin'.
     rbind (readPubkey W data 40) (\<lambda>kassMint'.
     rbind (readPubkey W data 72) (\<lambda>usdcMint'.
     rbind (readU64LE data 104) (\<lambda>feeEma'.
     rbind (readI64LE data 112) (\<lambda>lastCreationUnix'.
     rbind (readU8 data 120) (\<lambda>bump'.
     rbind (readBool data 121) (\<lambda>governanceSet'.
     rbind (readPubkey W data 128) (\<lambda>daoAuthority'.
     rbind (readPubkey W data 160) (\<lambda>kassDao'.
     rbind (readU64LE data 192) (\<lambda>emissionNum'.
     rbind (readU64LE data 200) (\<lambda>emissionDen'.
     rbind (readU64LE data 208) (\<lambda>totalSupplyCap'.
     rbind (readI64LE data 216) (\<lambda>feeEmaHalflife'.
     rbind (readU64LE data 224) (\<lambda>feePerEmaUnit'.
     rbind (readU64LE data 232) (\<lambda>feeEmaIncrement'.
     rbind (readU64LE data 240) (\<lambda>thresholdNum'.
     rbind (readU64LE data 248) (\<lambda>thresholdDen'.
     rbind (readU64LE data 256) (\<lambda>marketThresholdNum'.
     rbind (readU64LE data 264) (\<lambda>marketThresholdDen'.
     rbind (readU64LE data 272) (\<lambda>flipSlashNum'.
     rbind (readU64LE data 280) (\<lambda>flipSlashDen'.
     rbind (readI64LE data 288) (\<lambda>phaseWindow'.
     rbind (readI64LE data 296) (\<lambda>proposalWindow'.
     rbind (readU64LE data 304) (\<lambda>factVoteSlashNum'.
     rbind (readU64LE data 312) (\<lambda>factVoteSlashDen'.
     rbind (readU64LE data 320) (\<lambda>rewardProposerWeight'.
     rbind (readU64LE data 328) (\<lambda>rewardFactWeight'.
     rbind (readU64LE data 336) (\<lambda>challengeFailUsdcFeeNum'.
     rbind (readU64LE data 344) (\<lambda>challengeFailUsdcFeeDen'.
     rbind (readU64LE data 352) (\<lambda>challengeSuccessKassFeeNum'.
     rbind (readU64LE data 360) (\<lambda>challengeSuccessKassFeeDen'.
     rbind (readU64LE data 368) (\<lambda>stakeFloorEmaThreshold'.
     rbind (readU64LE data 376) (\<lambda>stakeFloorEmaCap'.
     rbind (readU64LE data 384) (\<lambda>stakeFloorMax'.
     Inr \<lparr>pc_accountType = AT_Protocol,
       pc_admin = admin',
       pc_kassMint = kassMint',
       pc_usdcMint = usdcMint',
       pc_feeEma = feeEma',
       pc_lastCreationUnix = lastCreationUnix',
       pc_bump = bump',
       pc_governanceSet = governanceSet',
       pc_daoAuthority = daoAuthority',
       pc_kassDao = kassDao',
       pc_emissionNum = emissionNum',
       pc_emissionDen = emissionDen',
       pc_totalSupplyCap = totalSupplyCap',
       pc_feeEmaHalflife = feeEmaHalflife',
       pc_feePerEmaUnit = feePerEmaUnit',
       pc_feeEmaIncrement = feeEmaIncrement',
       pc_thresholdNum = thresholdNum',
       pc_thresholdDen = thresholdDen',
       pc_marketThresholdNum = marketThresholdNum',
       pc_marketThresholdDen = marketThresholdDen',
       pc_flipSlashNum = flipSlashNum',
       pc_flipSlashDen = flipSlashDen',
       pc_phaseWindow = phaseWindow',
       pc_proposalWindow = proposalWindow',
       pc_factVoteSlashNum = factVoteSlashNum',
       pc_factVoteSlashDen = factVoteSlashDen',
       pc_rewardProposerWeight = rewardProposerWeight',
       pc_rewardFactWeight = rewardFactWeight',
       pc_challengeFailUsdcFeeNum = challengeFailUsdcFeeNum',
       pc_challengeFailUsdcFeeDen = challengeFailUsdcFeeDen',
       pc_challengeSuccessKassFeeNum = challengeSuccessKassFeeNum',
       pc_challengeSuccessKassFeeDen = challengeSuccessKassFeeDen',
       pc_stakeFloorEmaThreshold = stakeFloorEmaThreshold',
       pc_stakeFloorEmaCap = stakeFloorEmaCap',
       pc_stakeFloorMax = stakeFloorMax'\<rparr>)))))))))))))))))))))))))))))))))))"

definition pod_protocol :: "'a web3 \<Rightarrow> 'a protocol_account \<Rightarrow> bytes" where
  "pod_protocol W x =
     u8 (type_code AT_Protocol) @
     zero_pad 7 @
     w3_bytes W (pc_admin x) @
     w3_bytes W (pc_kassMint x) @
     w3_bytes W (pc_usdcMint x) @
     u64LE (pc_feeEma x) @
     i64LE (pc_lastCreationUnix x) @
     u8 (pc_bump x) @
     flag_byte (pc_governanceSet x) @
     zero_pad 6 @
     w3_bytes W (pc_daoAuthority x) @
     w3_bytes W (pc_kassDao x) @
     u64LE (pc_emissionNum x) @
     u64LE (pc_emissionDen x) @
     u64LE (pc_totalSupplyCap x) @
     i64LE (pc_feeEmaHalflife x) @
     u64LE (pc_feePerEmaUnit x) @
     u64LE (pc_feeEmaIncrement x) @
     u64LE (pc_thresholdNum x) @
     u64LE (pc_thresholdDen x) @
     u64LE (pc_marketThresholdNum x) @
     u64LE (pc_marketThresholdDen x) @
     u64LE (pc_flipSlashNum x) @
     u64LE (pc_flipSlashDen x) @
     i64LE (pc_phaseWindow x) @
     i64LE (pc_proposalWindow x) @
     u64LE (pc_factVoteSlashNum x) @
     u64LE (pc_factVoteSlashDen x) @
     u64LE (pc_rewardProposerWeight x) @
     u64LE (pc_rewardFactWeight x) @
     u64LE (pc_challengeFailUsdcFeeNum x) @
     u64LE (pc_challengeFailUsdcFeeDen x) @
     u64LE (pc_challengeSuccessKassFeeNum x) @
     u64LE (pc_challengeSuccessKassFeeDen x) @
     u64LE (pc_stakeFloorEmaThreshold x) @
     u64LE (pc_stakeFloorEmaCap x) @
     u64LE (pc_stakeFloorMax x)"

definition protocol_ok :: "'a protocol_account \<Rightarrow> bool" where
  "protocol_ok x \<longleftrightarrow>
     pc_accountType x = AT_Protocol \<and>
     unsigned_range 64 (pc_feeEma x) \<and>
     signed_range 64 (pc_lastCreationUnix x) \<and>
     unsigned_range 8 (pc_bump x) \<and>
     unsigned_range 64 (pc_emissionNum x) \<and>
     unsigned_range 64 (pc_emissionDen x) \<and>
     unsigned_range 64 (pc_totalSupplyCap x) \<and>
     signed_range 64 (pc_feeEmaHalflife x) \<and>
     unsigned_range 64 (pc_feePerEmaUnit x) \<and>
     unsigned_range 64 (pc_feeEmaIncrement x) \<and>
     unsigned_range 64 (pc_thresholdNum x) \<and>
     unsigned_range 64 (pc_thresholdDen x) \<and>
     unsigned_range 64 (pc_marketThresholdNum x) \<and>
     unsigned_range 64 (pc_marketThresholdDen x) \<and>
     unsigned_range 64 (pc_flipSlashNum x) \<and>
     unsigned_range 64 (pc_flipSlashDen x) \<and>
     signed_range 64 (pc_phaseWindow x) \<and>
     signed_range 64 (pc_proposalWindow x) \<and>
     unsigned_range 64 (pc_factVoteSlashNum x) \<and>
     unsigned_range 64 (pc_factVoteSlashDen x) \<and>
     unsigned_range 64 (pc_rewardProposerWeight x) \<and>
     unsigned_range 64 (pc_rewardFactWeight x) \<and>
     unsigned_range 64 (pc_challengeFailUsdcFeeNum x) \<and>
     unsigned_range 64 (pc_challengeFailUsdcFeeDen x) \<and>
     unsigned_range 64 (pc_challengeSuccessKassFeeNum x) \<and>
     unsigned_range 64 (pc_challengeSuccessKassFeeDen x) \<and>
     unsigned_range 64 (pc_stakeFloorEmaThreshold x) \<and>
     unsigned_range 64 (pc_stakeFloorEmaCap x) \<and>
     unsigned_range 64 (pc_stakeFloorMax x)"

section \<open>Lemmas\<close>

lemma oracle_round_trip:
  assumes "web3_ok W" "oracle_ok x"
  shows "decodeOracle W (pod_oracle W x) = Inr x"
  using assms(2)
  by (cases x) (simp add: decodeOracle_def pod_oracle_def oracle_ok_def read_at width_simps
      readPubkey_simps [OF assms(1)] length_w3_bytes [OF assms(1)] type_code_byte)

lemma oracle_accepts:
  assumes "web3_ok W"
  shows "is_ok (decodeOracle W data)
    \<longleftrightarrow> assertAccount data AT_Oracle (the (ACCOUNT_SIZES AT_Oracle)) ''Oracle'' = Inr ()"
proof
  assume ok: "assertAccount data AT_Oracle (the (ACCOUNT_SIZES AT_Oracle)) ''Oracle'' = Inr ()"
  then have "length data = the (ACCOUNT_SIZES AT_Oracle)" by (simp add: assertAccount_iff)
  then show "is_ok (decodeOracle W data)"
    unfolding decodeOracle_def ok rbind.simps Let_def
    by (intro is_ok_rbind fits_reads [OF assms] is_ok_Inr) simp_all
next
  show "is_ok (decodeOracle W data)
    \<Longrightarrow> assertAccount data AT_Oracle (the (ACCOUNT_SIZES AT_Oracle)) ''Oracle'' = Inr ()"
    unfolding decodeOracle_def by (drule is_ok_rbind_D) (simp add: is_ok_iff)
qed

lemma protocol_round_trip:
  assumes "web3_ok W" "protocol_ok x"
  shows "decodeProtocol W (pod_protocol W x) = Inr x"
  using assms(2)
  by (cases x) (simp add: decodeProtocol_def pod_protocol_def protocol_ok_def read_at width_simps
      readPubkey_simps [OF assms(1)] length_w3_bytes [OF assms(1)] type_code_byte)

lemma protocol_accepts:
  assumes "web3_ok W"
  shows "is_ok (decodeProtocol W data)
    \<longleftrightarrow> assertAccount data AT_Protocol (the (ACCOUNT_SIZES AT_Protocol)) ''Protocol'' = Inr ()"
proof
  assume ok: "assertAccount data AT_Protocol (the (ACCOUNT_SIZES AT_Protocol)) ''Protocol'' = Inr ()"
  then have "length data = the (ACCOUNT_SIZES AT_Protocol)" by (simp add: assertAccount_iff)
  then show "is_ok (decodeProtocol W data)"
    unfolding decodeProtocol_def ok rbind.simps Let_def
    by (intro is_ok_rbind fits_reads [OF assms] is_ok_Inr) simp_all
next
  show "is_ok (decodeProtocol W data)
    \<Longrightarrow> assertAccount data AT_Protocol (the (ACCOUNT_SIZES AT_Protocol)) ''Protocol'' = Inr ()"
    unfolding decodeProtocol_def by (drule is_ok_rbind_D) (simp add: is_ok_iff)
qed

section \<open>Which decoder accepts a buffer\<close>

fun decode_accepts :: "'a web3 \<Rightarrow> AccountType \<Rightarrow> bytes \<Rightarrow> bool" where
  "decode_accepts W AT_Proposer data = is_ok (decodeProposer W data)"
| "decode_accepts W AT_Fact data = is_ok (decodeFact W data)"
| "decode_accepts W AT_FactVote data = is_ok (decodeFactVote W data)"
| "decode_accepts W AT_AiClaim data = is_ok (decodeAiClaim W data)"
| "decode_accepts W AT_Market data = is_ok (decodeMarket W data)"
| "decode_accepts W AT_Oracle data = is_ok (decodeOracle W data)"
| "decode_accepts W AT_Protocol data = is_ok (decodeProtocol W data)"
| "decode_accepts W AT_Uninitialized data = False"
| "decode_accepts W AT_OracleMeta data = False"

lemmas accepts = proposer_accepts fact_accepts factvote_accepts aiclaim_accepts market_accepts
  oracle_accepts protocol_accepts

lemma decode_accepts_iff:
  assumes "web3_ok W"
  shows "decode_accepts W t data
    \<longleftrightarrow> ACCOUNT_SIZES t = Some (length data) \<and> data \<noteq> [] \<and> uint (hd data) = type_code t"
  by (cases t) (auto simp: accepts [OF assms] assertAccount_iff)

lemmas round_trips = proposer_round_trip fact_round_trip factvote_round_trip
  aiclaim_round_trip market_round_trip oracle_round_trip protocol_round_trip

lemma pod_lengths:
  assumes "web3_ok W"
  shows "oracle_ok orc \<Longrightarrow> length (pod_oracle W orc) = 368"
    "protocol_ok pc \<Longrightarrow> length (pod_protocol W pc) = 392"
  by (simp_all add: pod_oracle_def pod_protocol_def length_w3_bytes [OF assms])

section \<open>Properties\<close>

text \<open>
  No type confusion. A decoder accepts a buffer exactly when the buffer has the pinned
  size of its account type and starts with its tag, so that it is total on the accounts of
  its type, and no buffer whatever is accepted by the decoders of two different types.
\<close>

theorem no_type_confusion:
  assumes "web3_ok W"
  shows "(decode_accepts W t data \<longleftrightarrow>
      ACCOUNT_SIZES t = Some (length data) \<and> data \<noteq> [] \<and> uint (hd data) = type_code t)
    \<and> (decode_accepts W t data \<and> decode_accepts W u data \<longrightarrow> t = u)"
  by (auto simp: decode_accepts_iff [OF assms] type_code_inj)

theorem no_type_confusion_witness:
  "decode_accepts sample_web3 AT_FactVote (u8 4 @ replicate 87 0)
    \<and> \<not> decode_accepts sample_web3 AT_Proposer (u8 4 @ replicate 87 0)"
proof -
  have "decode_accepts sample_web3 AT_FactVote (u8 4 @ replicate 87 0)"
    using no_type_confusion [OF sample_web3_ok, of AT_FactVote "u8 4 @ replicate 87 0"]
    by (simp add: u8_def uint_byte_of_int)
  then show ?thesis
    using no_type_confusion [OF sample_web3_ok, of AT_FactVote "u8 4 @ replicate 87 0" AT_Proposer]
    by auto
qed

text \<open>
  C3: The dispute state is read as the program wrote it. For every value of the Oracle and
  of the Protocol struct, decoding the bytes of the program's \<open>repr(C)\<close> layout (fields and
  padding in the order of the Rust struct) returns that value, and the image has the pinned
  size.
\<close>

theorem state_accounts_round_trip:
  assumes "web3_ok W" "oracle_ok x" "protocol_ok p"
  shows "decodeOracle W (pod_oracle W x) = Inr x \<and> length (pod_oracle W x) = 368
    \<and> decodeProtocol W (pod_protocol W p) = Inr p \<and> length (pod_protocol W p) = 392"
  using assms by (simp add: round_trips pod_lengths)

definition sample_oracle :: "256 word oracle_account" where
  "sample_oracle = \<lparr>
     orc_accountType = AT_Oracle, orc_creator = 2, orc_kassMint = 3, orc_usdcMint = 4,
     orc_stakeVault = 5, orc_deadline = - 7, orc_phaseEndsAt = 10, orc_twapWindow = 11,
     orc_optionsCount = 12, orc_phaseRaw = 5, orc_phase = Some Ph_Challenge,
     orc_proposerCount = 15, orc_survivingCount = 16, orc_factCount = 17,
     orc_totalOracleStake = 18, orc_bondPool = 19, orc_disputeBondTotal = 20,
     orc_settledCount = 21, orc_aiFinalizedCount = 22, orc_bump = 23, orc_resolvedOption =
     24, orc_openChallengeCount = 25, orc_thresholdNum = 26, orc_thresholdDen = 27,
     orc_marketThresholdNum = 28, orc_marketThresholdDen = 29, orc_flipSlashNum = 30,
     orc_flipSlashDen = 31, orc_phaseWindow = 32, orc_proposalWindow = 33,
     orc_factVoteSlashNum = 34, orc_factVoteSlashDen = 35, orc_rewardProposerWeight = 36,
     orc_rewardFactWeight = 37, orc_challengeFailUsdcFeeNum = 38, orc_challengeFailUsdcFeeDen
     = 39, orc_challengeSuccessKassFeeNum = 40, orc_challengeSuccessKassFeeDen = 41,
     orc_totalCorrectProposerStake = 42, orc_totalApprovedFactStake = 43, orc_rewardPool =
     44, orc_rewardEmission = 45, orc_minStake = 46\<rparr>"

definition sample_protocol :: "256 word protocol_account" where
  "sample_protocol = \<lparr>
     pc_accountType = AT_Protocol, pc_admin = 2, pc_kassMint = 3, pc_usdcMint = 4, pc_feeEma
     = 8, pc_lastCreationUnix = 9, pc_bump = 10, pc_governanceSet = True, pc_daoAuthority =
     9, pc_kassDao = 10, pc_emissionNum = 14, pc_emissionDen = 15, pc_totalSupplyCap = 16,
     pc_feeEmaHalflife = 17, pc_feePerEmaUnit = 18, pc_feeEmaIncrement = 19, pc_thresholdNum
     = 20, pc_thresholdDen = 21, pc_marketThresholdNum = 22, pc_marketThresholdDen = 23,
     pc_flipSlashNum = 24, pc_flipSlashDen = 25, pc_phaseWindow = 26, pc_proposalWindow = 27,
     pc_factVoteSlashNum = 28, pc_factVoteSlashDen = 29, pc_rewardProposerWeight = 30,
     pc_rewardFactWeight = 31, pc_challengeFailUsdcFeeNum = 32, pc_challengeFailUsdcFeeDen =
     33, pc_challengeSuccessKassFeeNum = 34, pc_challengeSuccessKassFeeDen = 35,
     pc_stakeFloorEmaThreshold = 36, pc_stakeFloorEmaCap = 37, pc_stakeFloorMax = 38\<rparr>"

theorem state_accounts_round_trip_witness:
  "rmap orc_deadline (decodeOracle sample_web3 (pod_oracle sample_web3 sample_oracle)) = Inr (- 7)
    \<and> length (pod_protocol sample_web3 sample_protocol) = 392"
proof -
  have "oracle_ok sample_oracle"
    by (simp add: oracle_ok_def sample_oracle_def unsigned_range_def signed_range_def
        phase_of_def all_phases_def)
  moreover have "protocol_ok sample_protocol"
    by (simp add: protocol_ok_def sample_protocol_def unsigned_range_def signed_range_def)
  ultimately show ?thesis
    using state_accounts_round_trip [OF sample_web3_ok, of sample_oracle sample_protocol]
    by (simp add: sample_oracle_def)
qed

text \<open>
  The participants' records are read as the program wrote them: decoding the \<open>repr(C)\<close>
  image of a Proposer, Fact, FactVote, AiClaim or Market returns the record, the fact's URI
  being the decoded prefix of its 200-byte field.
\<close>

theorem participant_accounts_round_trip:
  assumes "web3_ok W" "proposer_ok pr" "fact_ok fa" "factvote_ok fv" "aiclaim_ok ac" "market_ok mk"
  shows "decodeProposer W (pod_proposer W pr) = Inr pr
    \<and> decodeFact W (pod_fact W fa) = Inr fa
    \<and> decodeFactVote W (pod_factvote W fv) = Inr fv
    \<and> decodeAiClaim W (pod_aiclaim W ac) = Inr ac
    \<and> decodeMarket W (pod_market W mk) = Inr mk"
  using assms by (simp add: round_trips)

definition sample_proposer :: "256 word proposer_account" where
  "sample_proposer = \<lparr>
     pr_accountType = AT_Proposer, pr_oracle = 2, pr_authority = 3, pr_bond = 7,
     pr_originalOption = 8, pr_claimOption = 9, pr_disqualified = True, pr_slashed = True,
     pr_flipped = True, pr_bump = 13, pr_aiFinalized = True, pr_slashedAmount = 15\<rparr>"

definition sample_fact :: "256 word fact_account" where
  "sample_fact = \<lparr>
     fa_accountType = AT_Fact, fa_oracle = 2, fa_proposer = 3, fa_contentHash = replicate 32
     4, fa_stake = 8, fa_approveStake = 9, fa_duplicateStake = 10, fa_uriLen = 2, fa_agreed =
     True, fa_duplicate = True, fa_settled = True, fa_bump = 15, fa_uri = codes ''ab'',
     fa_uriRaw = [97, 98] @ replicate 198 0\<rparr>"

definition sample_factvote :: "256 word factvote_account" where
  "sample_factvote = \<lparr>
     fv_accountType = AT_FactVote, fv_fact = 2, fv_voter = 3, fv_stake = 7, fv_kindRaw = 1,
     fv_kind = Some Duplicate, fv_bump = 10\<rparr>"

definition sample_aiclaim :: "256 word aiclaim_account" where
  "sample_aiclaim = \<lparr>
     ac_accountType = AT_AiClaim, ac_oracle = 2, ac_proposer = 3, ac_modelId = replicate 32
     4, ac_paramsHash = replicate 32 5, ac_ioHash = replicate 32 6, ac_option = 10,
     ac_challenged = True, ac_bump = 12, ac_authority = 10\<rparr>"

definition sample_market :: "256 word market_account" where
  "sample_market = \<lparr>
     mk_accountType = AT_Market, mk_oracle = 2, mk_aiClaim = 3, mk_proposer = 4,
     mk_challenger = 5, mk_question = 6, mk_kassVault = 7, mk_usdcVault = 8, mk_passAmm = 9,
     mk_failAmm = 10, mk_oraclePassKass = 11, mk_oracleFailKass = 12, mk_challengerUsdcVault
     = 13, mk_twapEnd = 17, mk_challengerUsdc = 18, mk_settled = True, mk_bump = 20\<rparr>"

theorem participant_accounts_round_trip_witness:
  "rmap fa_uri (decodeFact sample_web3 (pod_fact sample_web3 sample_fact)) = Inr (codes ''ab'')"
proof -
  have "fact_ok sample_fact"
    by (simp add: fact_ok_def sample_fact_def unsigned_range_def codes_def utf8_decode_def
        drop_bom_def URI_CAP_def)
  moreover have "proposer_ok sample_proposer"
    by (simp add: proposer_ok_def sample_proposer_def unsigned_range_def)
  moreover have "factvote_ok sample_factvote"
    by (simp add: factvote_ok_def sample_factvote_def unsigned_range_def vote_kind_def
        VOTE_APPROVE_def VOTE_DUPLICATE_def)
  moreover have "aiclaim_ok sample_aiclaim"
    by (simp add: aiclaim_ok_def sample_aiclaim_def unsigned_range_def)
  moreover have "market_ok sample_market"
    by (simp add: market_ok_def sample_market_def unsigned_range_def signed_range_def)
  ultimately show ?thesis
    using participant_accounts_round_trip [OF sample_web3_ok, of sample_proposer sample_fact
        sample_factvote sample_aiclaim sample_market]
    by (simp add: sample_fact_def)
qed

end
