(* ===== verification/Oracle_Meta.thy ===== *)
theory Oracle_Meta
  imports Lifecycle Oracle_State
begin

text \<open>
  The variable-length \<open>oracle_meta\<close> account: the decoder of
  \<open>sdks/oracles/ts/src/accounts/oracleMeta.ts\<close>, whose cursor \<open>off\<close> is passed along explicitly,
  and the account that the program writes from a \<open>writeOracleMeta\<close> instruction (a 34-byte
  header and the payload verbatim, \<open>programs/oracles/src/processor/write_oracle_meta.rs\<close>).
  The lemmas show that the decoder inverts the builder as long as each length fits its
  prefix, and what happens when one does not.
\<close>

section \<open>Decoder\<close>

record 'a oracle_meta =
  om_accountType :: AccountType
  om_oracle :: 'a
  om_subject :: utext
  om_options :: "utext list"
  om_uri :: utext
  om_uriHash :: bytes

definition meta_u16 :: "bytes \<Rightarrow> nat \<Rightarrow> (int \<times> nat) res" where
  "meta_u16 data off = rmap (\<lambda>v. (v, off + 2)) (readU16LE data off)"

definition meta_str :: "bytes \<Rightarrow> nat \<Rightarrow> int \<Rightarrow> utext \<times> nat" where
  "meta_str data off len = (utf8_decode (js_slice data off (off + nat len)), off + nat len)"

text \<open>\<open>str(u16())\<close>\<close>

definition meta_field :: "bytes \<Rightarrow> nat \<Rightarrow> (utext \<times> nat) res" where
  "meta_field data off = rmap (\<lambda>(len, off). meta_str data off len) (meta_u16 data off)"

fun meta_options :: "bytes \<Rightarrow> nat \<Rightarrow> nat \<Rightarrow> (utext list \<times> nat) res" where
  "meta_options data off 0 = Inr ([], off)"
| "meta_options data off (Suc n) =
     rbind (meta_field data off) (\<lambda>(s, off).
     rbind (meta_options data off n) (\<lambda>(ss, off). Inr (s # ss, off)))"

text \<open>Past the end \<open>data[off]\<close> is \<open>undefined\<close>, and the loop condition is false at once.\<close>

definition meta_count :: "bytes \<Rightarrow> nat \<Rightarrow> nat" where
  "meta_count data off = (if off < length data then nat (uint (data ! off)) else 0)"

definition decodeOracleMeta :: "'a web3 \<Rightarrow> bytes \<Rightarrow> 'a oracle_meta res" where
  "decodeOracleMeta W data =
     (let tag = (case data of [] \<Rightarrow> None | b # _ \<Rightarrow> Some (uint b)) in
      if tag \<noteq> Some (type_code AT_OracleMeta) then Inl (NotMetaErr tag)
      else
       rbind (readPubkey W data 2) (\<lambda>oracle'.
       rbind (meta_field data 34) (\<lambda>(subject, off).
       let optionsCount = meta_count data off; off = off + 1 in
       rbind (meta_options data off optionsCount) (\<lambda>(options, off).
       rbind (meta_field data off) (\<lambda>(uri, off).
       let uriHash = js_slice data off (off + 32) in
       Inr \<lparr>om_accountType = AT_OracleMeta, om_oracle = oracle', om_subject = subject,
         om_options = options, om_uri = uri, om_uriHash = uriHash\<rparr>)))))"

section \<open>The account the program writes\<close>

definition meta_account :: "'a web3 \<Rightarrow> byte \<Rightarrow> 'a \<Rightarrow> bytes \<Rightarrow> bytes" where
  "meta_account W bump oracle' payload =
     u8 (type_code AT_OracleMeta) @ [bump] @ w3_bytes W oracle' @ payload"

text \<open>The length-prefixed body, as one expression.\<close>

definition len_prefixed :: "utext \<Rightarrow> bytes" where
  "len_prefixed s = u16LE (int (length (utf8_encode s))) @ utf8_encode s"

definition meta_body :: "utext \<Rightarrow> utext list \<Rightarrow> utext \<Rightarrow> bytes \<Rightarrow> bytes" where
  "meta_body subject options uri hash =
     len_prefixed subject @ u8 (int (length options)) @ concat (map len_prefixed options) @
     len_prefixed uri @ hash"

text \<open>A text that fits its prefix and survives the decoder.\<close>

definition fits16 :: "utext \<Rightarrow> bool" where
  "fits16 s \<longleftrightarrow> plain_text s \<and> length (utf8_encode s) < 65536"

section \<open>Lemmas\<close>

lemma meta_option_parts_concat:
  "concat (meta_option_parts parts ps) = concat parts @ concat (map len_prefixed ps)"
  by (induction ps arbitrary: parts) (simp_all add: Let_def len_prefixed_def)

lemma writeOracleMeta_data:
  assumes "writeOracleMeta W a = Inr t"
  shows "ti_data t = u8 (ix_code Ix_WriteOracleMeta)
      @ meta_body (wma_subject a) (wma_options a) (wma_uri a) (wma_uriHash a)"
    and "length (wma_uriHash a) = 32"
    and "\<exists>x. addr W (wma_oracle a) = Inr x \<and> am_pubkey (ti_keys t ! 1) = x"
  using assms
  by (auto simp: writeOracleMeta_def Let_def rbind_Inr_iff fixedBytes_iff collect_Inr_iff
      meta_option_parts_concat meta_body_def len_prefixed_def w_in_iff ro_in_iff
      Cons_eq_map_conv)

lemma meta_field_at:
  assumes "fits16 s" "length pre = off"
  shows "meta_field (pre @ len_prefixed s @ post) off
    = Inr (s, off + length (len_prefixed s))"
proof -
  let ?b = "utf8_encode s"
  have r: "unsigned_range 16 (int (length ?b))"
    using assms by (simp add: fits16_def unsigned_range_def)
  have "readU16LE (pre @ len_prefixed s @ post) off = Inr (int (length ?b))"
    using c16.dec_at [OF r assms(2)] by (simp add: len_prefixed_def)
  then show ?thesis
    using assms utf8_round_trip_plain [of s]
    by (simp add: meta_field_def meta_u16_def meta_str_def js_slice_def len_prefixed_def
        fits16_def)
qed

lemma meta_options_at:
  assumes "list_all fits16 ps" "length pre = off"
  shows "meta_options (pre @ concat (map len_prefixed ps) @ post) off (length ps)
    = Inr (ps, off + length (concat (map len_prefixed ps)))"
  using assms
proof (induction ps arbitrary: pre off)
  case Nil
  then show ?case by simp
next
  case (Cons s ps)
  have "meta_options ((pre @ len_prefixed s) @ concat (map len_prefixed ps) @ post)
      (off + length (len_prefixed s)) (length ps)
    = Inr (ps, off + length (len_prefixed s) + length (concat (map len_prefixed ps)))"
    using Cons.prems by (intro Cons.IH) auto
  moreover have "meta_field (pre @ len_prefixed s @ concat (map len_prefixed ps) @ post) off
    = Inr (s, off + length (len_prefixed s))"
    using Cons.prems by (intro meta_field_at) auto
  ultimately show ?case by (simp add: add.assoc)
qed

lemma meta_count_at:
  assumes "length pre = off" "n < 256"
  shows "meta_count (pre @ u8 (int n) @ post) off = n"
proof -
  have "(pre @ u8 (int n) @ post) ! off = word_of_int (int n)"
    using assms(1) by (simp only: u8_le_bytes) (simp add: nth_append)
  moreover have "uint (word_of_int (int n) :: byte) = int n"
    using assms(2) by (simp only: uint_byte_of_int) simp
  ultimately show ?thesis using assms(1) by (simp only: meta_count_def) simp
qed

lemma decode_meta_body:
  assumes W: "web3_ok W"
    and "fits16 subject" "list_all fits16 options" "length options < 256" "fits16 uri"
    and "length hash = 32"
  shows "decodeOracleMeta W (meta_account W bump x (meta_body subject options uri hash))
    = Inr \<lparr>om_accountType = AT_OracleMeta, om_oracle = x, om_subject = subject,
        om_options = options, om_uri = uri, om_uriHash = hash\<rparr>"
proof -
  let ?h = "u8 (type_code AT_OracleMeta) @ [bump] @ w3_bytes W x"
  let ?S = "len_prefixed subject" and ?C = "u8 (int (length options))"
  let ?O = "concat (map len_prefixed options)" and ?U = "len_prefixed uri"
  let ?d = "meta_account W bump x (meta_body subject options uri hash)"
  have d: "?d = ?h @ ?S @ ?C @ ?O @ ?U @ hash"
    by (simp add: meta_account_def meta_body_def)
  have h: "length ?h = 34" by (simp add: length_w3_bytes [OF W])
  have key: "readPubkey W ?d 2 = Inr x"
    by (simp add: meta_account_def readPubkey_simps [OF W] js_slice_def readPubkey_def
        length_w3_bytes [OF W] web3_ok_D(2) [OF W] u8_def)
  have s: "meta_field ?d 34 = Inr (subject, 34 + length ?S)"
    unfolding d using assms h by (intro meta_field_at) auto
  have c: "meta_count ?d (34 + length ?S) = length options"
    using meta_count_at [of "?h @ ?S" "34 + length ?S" "length options" "?O @ ?U @ hash"] assms h
    by (simp add: d)
  have o1: "meta_options ?d (34 + length ?S + 1) (length options)
      = Inr (options, 34 + length ?S + 1 + length ?O)"
    using meta_options_at [of options "?h @ ?S @ ?C" "34 + length ?S + 1" "?U @ hash"] assms h
    by (simp add: d)
  have u: "meta_field ?d (34 + length ?S + 1 + length ?O)
      = Inr (uri, 34 + length ?S + 1 + length ?O + length ?U)"
    using meta_field_at [of uri "?h @ ?S @ ?C @ ?O" "34 + length ?S + 1 + length ?O" hash] assms h
    by (simp add: d)
  have hh: "js_slice ?d (34 + length ?S + 1 + length ?O + length ?U)
      (34 + length ?S + 1 + length ?O + length ?U + 32) = hash"
    using take_drop_append_mid [of "?h @ ?S @ ?C @ ?O @ ?U"
        "34 + length ?S + 1 + length ?O + length ?U" hash 32 "[]"] h assms
    by (simp only: d js_slice_def) simp
  have tag: "(case ?d of [] \<Rightarrow> None | b # _ \<Rightarrow> Some (uint b)) = Some (type_code AT_OracleMeta)"
    by (simp add: meta_account_def u8_def uint_byte_of_int)
  show ?thesis
    by (simp only: decodeOracleMeta_def Let_def tag key s c o1 u hh rbind.simps prod.case
        refl not_True_eq_False if_False simp_thms)
qed

section \<open>Properties\<close>

text \<open>
  C23: Metadata survives the trip through the chain. Whatever subject, options and uri the
  client passes to \<open>writeOracleMeta\<close>, if every text fits its 16-bit length prefix and there
  are fewer than 256 options, then decoding the account that the program writes from the
  built instruction returns exactly the client's arguments.
\<close>

theorem oracle_meta_round_trip:
  assumes "web3_ok W" "writeOracleMeta W a = Inr t" "addr W (wma_oracle a) = Inr x"
    and "fits16 (wma_subject a)" "list_all fits16 (wma_options a)" "fits16 (wma_uri a)"
    and "length (wma_options a) < 256"
  shows "decodeOracleMeta W (meta_account W bump x (ix_payload t))
    = Inr \<lparr>om_accountType = AT_OracleMeta, om_oracle = x, om_subject = wma_subject a,
        om_options = wma_options a, om_uri = wma_uri a, om_uriHash = wma_uriHash a\<rparr>"
proof -
  have "ix_payload t = meta_body (wma_subject a) (wma_options a) (wma_uri a) (wma_uriHash a)"
    using writeOracleMeta_data(1) [OF assms(2)] by (rule ix_payload_disc)
  then show ?thesis
    using decode_meta_body [OF assms(1)] writeOracleMeta_data(2) [OF assms(2)] assms by simp
qed

definition sample_meta_args :: "256 word writeOracleMeta_args" where
  "sample_meta_args = \<lparr>wma_oracle = Addr 7, wma_creator = Addr 8, wma_subject = codes ''Who?'',
     wma_options = [codes ''yes'', codes ''no''], wma_uri = [0xE9, 0x20AC, 0x1F600],
     wma_uriHash = replicate 32 9, wma_programId = None\<rparr>"

lemma sample_meta_texts:
  "fits16 (wma_subject sample_meta_args)" "list_all fits16 (wma_options sample_meta_args)"
  "fits16 (wma_uri sample_meta_args)" "length (wma_options sample_meta_args) < 256"
  by (simp_all add: sample_meta_args_def codes_def fits16_def plain_text_def scalar_def
      is_surrogate_def utf8_encode_def utf8_code_def utf8_scalar_def)

lemma sample_meta_built: "is_ok (writeOracleMeta sample_web3 sample_meta_args)"
  by (simp add: writeOracleMeta_def sample_meta_args_def sample_web3_def Let_def
      pda_oracleMeta_def derive_def program_or_def)

theorem oracle_meta_round_trip_witness:
  "\<exists>t. writeOracleMeta sample_web3 sample_meta_args = Inr t \<and>
     rmap om_uri (decodeOracleMeta sample_web3 (meta_account sample_web3 255 7 (ix_payload t)))
       = Inr [0xE9, 0x20AC, 0x1F600]"
proof -
  obtain t where t: "writeOracleMeta sample_web3 sample_meta_args = Inr t"
    using sample_meta_built by (auto simp: is_ok_iff)
  have "addr sample_web3 (wma_oracle sample_meta_args) = Inr 7"
    by (simp add: sample_meta_args_def)
  from oracle_meta_round_trip [OF sample_web3_ok t this sample_meta_texts(1,2,3,4)] t
  show ?thesis by (auto simp: sample_meta_args_def)
qed

end
