(* ===== verification/Oracle_Calls.thy ===== *)
theory Oracle_Calls
  imports Lifecycle Dispute Oracle_Meta
begin

text \<open>
  The 24 builders of the dispute-core SDK seen together. \<open>call\<close> is the sum of their
  argument records and \<open>build\<close> dispatches to the builder. The specification side states,
  per call, what the program's processors expect of the instruction: the discriminant
  (\<open>programs/oracles/src/instruction.rs\<close>), the only account that must sign, the number of
  accounts and the slots whose address the processor derives again from the other slots,
  and the payload parsers of \<open>programs/oracles/src/processor/\<close>.
\<close>

section \<open>Calls\<close>

datatype 'a call =
    C_initProtocol "'a initProtocol_args"
  | C_createOracle "'a createOracle_args"
  | C_writeOracleMeta "'a writeOracleMeta_args"
  | C_propose "'a propose_args"
  | C_finalizeProposals "'a finalizeProposals_args"
  | C_advancePhase "'a advancePhase_args"
  | C_setGovernance "'a setGovernance_args"
  | C_setConfig "'a setConfig_args"
  | C_resolveDeadend "'a resolveDeadend_args"
  | C_kassPrice "'a kassPrice_args"
  | C_submitFact "'a submitFact_args"
  | C_voteFact "'a voteFact_args"
  | C_finalizeFacts "'a finalizeFacts_args"
  | C_submitAiClaim "'a submitAiClaim_args"
  | C_finalizeAiClaims "'a finalizeAiClaims_args"
  | C_finalizeOracle "'a finalizeOracle_args"
  | C_openChallenge "'a openChallenge_args"
  | C_settleChallenge "'a settleChallenge_args"
  | C_claimProposer "'a claimProposer_args"
  | C_claimFact "'a claimFact_args"
  | C_claimFactVote "'a claimFactVote_args"
  | C_closeAiClaim "'a closeAiClaim_args"
  | C_closeMarket "'a closeMarket_args"
  | C_sweepOracle "'a sweepOracle_args"

fun build :: "'a web3 \<Rightarrow> 'a call \<Rightarrow> 'a tx_instruction res" where
  "build W (C_initProtocol a) = initProtocol W a"
| "build W (C_createOracle a) = createOracle W a"
| "build W (C_writeOracleMeta a) = writeOracleMeta W a"
| "build W (C_propose a) = propose W a"
| "build W (C_finalizeProposals a) = finalizeProposals W a"
| "build W (C_advancePhase a) = advancePhase W a"
| "build W (C_setGovernance a) = setGovernance W a"
| "build W (C_setConfig a) = setConfig W a"
| "build W (C_resolveDeadend a) = resolveDeadend W a"
| "build W (C_kassPrice a) = kassPrice W a"
| "build W (C_submitFact a) = submitFact W a"
| "build W (C_voteFact a) = voteFact W a"
| "build W (C_finalizeFacts a) = finalizeFacts W a"
| "build W (C_submitAiClaim a) = submitAiClaim W a"
| "build W (C_finalizeAiClaims a) = finalizeAiClaims W a"
| "build W (C_finalizeOracle a) = finalizeOracle W a"
| "build W (C_openChallenge a) = openChallenge W a"
| "build W (C_settleChallenge a) = settleChallenge W a"
| "build W (C_claimProposer a) = claimProposer W a"
| "build W (C_claimFact a) = claimFact W a"
| "build W (C_claimFactVote a) = claimFactVote W a"
| "build W (C_closeAiClaim a) = closeAiClaim W a"
| "build W (C_closeMarket a) = closeMarket W a"
| "build W (C_sweepOracle a) = sweepOracle W a"

fun call_ix :: "'a call \<Rightarrow> Ix" where
  "call_ix (C_initProtocol a) = Ix_InitProtocol"
| "call_ix (C_createOracle a) = Ix_CreateOracle"
| "call_ix (C_writeOracleMeta a) = Ix_WriteOracleMeta"
| "call_ix (C_propose a) = Ix_Propose"
| "call_ix (C_finalizeProposals a) = Ix_FinalizeProposals"
| "call_ix (C_advancePhase a) = Ix_AdvancePhase"
| "call_ix (C_setGovernance a) = Ix_SetGovernance"
| "call_ix (C_setConfig a) = Ix_SetConfig"
| "call_ix (C_resolveDeadend a) = Ix_ResolveDeadend"
| "call_ix (C_kassPrice a) = Ix_KassPrice"
| "call_ix (C_submitFact a) = Ix_SubmitFact"
| "call_ix (C_voteFact a) = Ix_VoteFact"
| "call_ix (C_finalizeFacts a) = Ix_FinalizeFacts"
| "call_ix (C_submitAiClaim a) = Ix_SubmitAiClaim"
| "call_ix (C_finalizeAiClaims a) = Ix_FinalizeAiClaims"
| "call_ix (C_finalizeOracle a) = Ix_FinalizeOracle"
| "call_ix (C_openChallenge a) = Ix_OpenChallenge"
| "call_ix (C_settleChallenge a) = Ix_SettleChallenge"
| "call_ix (C_claimProposer a) = Ix_ClaimProposer"
| "call_ix (C_claimFact a) = Ix_ClaimFact"
| "call_ix (C_claimFactVote a) = Ix_ClaimFactVote"
| "call_ix (C_closeAiClaim a) = Ix_CloseAiClaim"
| "call_ix (C_closeMarket a) = Ix_CloseMarket"
| "call_ix (C_sweepOracle a) = Ix_SweepOracle"

fun call_program :: "'a call \<Rightarrow> 'a option" where
  "call_program (C_initProtocol a) = ipa_programId a"
| "call_program (C_createOracle a) = coa_programId a"
| "call_program (C_writeOracleMeta a) = wma_programId a"
| "call_program (C_propose a) = ppa_programId a"
| "call_program (C_finalizeProposals a) = fpa_programId a"
| "call_program (C_advancePhase a) = apa_programId a"
| "call_program (C_setGovernance a) = sga_programId a"
| "call_program (C_setConfig a) = sca_programId a"
| "call_program (C_resolveDeadend a) = rda_programId a"
| "call_program (C_kassPrice a) = kpa_programId a"
| "call_program (C_submitFact a) = sfa_programId a"
| "call_program (C_voteFact a) = vfa_programId a"
| "call_program (C_finalizeFacts a) = ffa_programId a"
| "call_program (C_submitAiClaim a) = aca_programId a"
| "call_program (C_finalizeAiClaims a) = faa_programId a"
| "call_program (C_finalizeOracle a) = foa_programId a"
| "call_program (C_openChallenge a) = och_programId a"
| "call_program (C_settleChallenge a) = sch_programId a"
| "call_program (C_claimProposer a) = cpa_programId a"
| "call_program (C_claimFact a) = cfa_programId a"
| "call_program (C_claimFactVote a) = cva_programId a"
| "call_program (C_closeAiClaim a) = clc_programId a"
| "call_program (C_closeMarket a) = clm_programId a"
| "call_program (C_sweepOracle a) = swo_programId a"

text \<open>The account that must sign: none for the permissionless instructions.\<close>

fun call_signer :: "'a call \<Rightarrow> 'a address_input option" where
  "call_signer (C_initProtocol a) = Some (ipa_admin a)"
| "call_signer (C_createOracle a) = Some (coa_creator a)"
| "call_signer (C_writeOracleMeta a) = Some (wma_creator a)"
| "call_signer (C_propose a) = Some (ppa_authority a)"
| "call_signer (C_finalizeProposals a) = None"
| "call_signer (C_advancePhase a) = None"
| "call_signer (C_setGovernance a) = Some (sga_authority a)"
| "call_signer (C_setConfig a) = Some (sca_authority a)"
| "call_signer (C_resolveDeadend a) = Some (rda_authority a)"
| "call_signer (C_kassPrice a) = None"
| "call_signer (C_submitFact a) = Some (sfa_submitter a)"
| "call_signer (C_voteFact a) = Some (vfa_voter a)"
| "call_signer (C_finalizeFacts a) = None"
| "call_signer (C_submitAiClaim a) = Some (aca_authority a)"
| "call_signer (C_finalizeAiClaims a) = None"
| "call_signer (C_finalizeOracle a) = None"
| "call_signer (C_openChallenge a) = Some (och_challenger a)"
| "call_signer (C_settleChallenge a) = None"
| "call_signer (C_claimProposer a) = None"
| "call_signer (C_claimFact a) = None"
| "call_signer (C_claimFactVote a) = None"
| "call_signer (C_closeAiClaim a) = None"
| "call_signer (C_closeMarket a) = None"
| "call_signer (C_sweepOracle a) = None"

fun call_accounts :: "'a call \<Rightarrow> nat" where
  "call_accounts (C_initProtocol a) = 5"
| "call_accounts (C_createOracle a) = 10"
| "call_accounts (C_writeOracleMeta a) = 4"
| "call_accounts (C_propose a) = 7"
| "call_accounts (C_finalizeProposals a) = 1 + length (fpa_proposers a)"
| "call_accounts (C_advancePhase a) = 1"
| "call_accounts (C_setGovernance a) = 3"
| "call_accounts (C_setConfig a) = 2"
| "call_accounts (C_resolveDeadend a) = 3"
| "call_accounts (C_kassPrice a) = 2"
| "call_accounts (C_submitFact a) = 7"
| "call_accounts (C_voteFact a) = 8"
| "call_accounts (C_finalizeFacts a) = 4 + length (ffa_tail a)"
| "call_accounts (C_submitAiClaim a) = 5"
| "call_accounts (C_finalizeAiClaims a) = 1 + length (faa_proposers a)"
| "call_accounts (C_finalizeOracle a) = 4 + length (foa_proposers a)"
| "call_accounts (C_openChallenge a) = 25"
| "call_accounts (C_settleChallenge a) = 21"
| "call_accounts (C_claimProposer a) = 6"
| "call_accounts (C_claimFact a) = 6"
| "call_accounts (C_claimFactVote a) = 7"
| "call_accounts (C_closeAiClaim a) = 3"
| "call_accounts (C_closeMarket a) = 5"
| "call_accounts (C_sweepOracle a) = 6"

text \<open>The slots that the processor derives again, given the other addresses \<open>k\<close>.\<close>

fun call_slots :: "'a call \<Rightarrow> 'a list \<Rightarrow> (nat \<times> 'a entity) list" where
  "call_slots (C_initProtocol a) k = [(0, EProtocol)]"
| "call_slots (C_createOracle a) k = [(0, EProtocol), (1, EOracle (coa_nonce a)), (2, EStakeVault (k ! 1)), (9, EMintAuthority)]"
| "call_slots (C_writeOracleMeta a) k = [(2, EOracleMeta (k ! 1))]"
| "call_slots (C_propose a) k = [(1, EProposer (k ! 0) (k ! 2)), (4, EStakeVault (k ! 0))]"
| "call_slots (C_finalizeProposals a) k = []"
| "call_slots (C_advancePhase a) k = []"
| "call_slots (C_setGovernance a) k = [(0, EProtocol)]"
| "call_slots (C_setConfig a) k = [(0, EProtocol)]"
| "call_slots (C_resolveDeadend a) k = [(0, EProtocol)]"
| "call_slots (C_kassPrice a) k = [(0, EProtocol)]"
| "call_slots (C_submitFact a) k = [(1, EFact (k ! 0) (sfa_contentHash a)), (4, EStakeVault (k ! 0))]"
| "call_slots (C_voteFact a) k = [(2, EFactVote (k ! 1) (k ! 3)), (5, EStakeVault (k ! 0))]"
| "call_slots (C_finalizeFacts a) k = [(0, EOracle (ffa_nonce a)), (2, EStakeVault (k ! 0))]"
| "call_slots (C_submitAiClaim a) k = [(2, EAiClaim (k ! 0) (k ! 1))]"
| "call_slots (C_finalizeAiClaims a) k = []"
| "call_slots (C_finalizeOracle a) k = [(0, EOracle (foa_nonce a)), (2, EStakeVault (k ! 0))]"
| "call_slots (C_openChallenge a) k = [(0, EOracle (och_nonce a)), (1, EAiClaim (k ! 0) (k ! 2)), (3, EMarket (k ! 1)), (10, EStakeVault (k ! 0)), (20, EProtocol), (24, EChallengeUsdc (k ! 3))]"
| "call_slots (C_settleChallenge a) k = [(0, EOracle (sch_nonce a)), (1, EMarket (k ! 2)), (10, EStakeVault (k ! 0)), (17, EChallengeUsdc (k ! 1))]"
| "call_slots (C_claimProposer a) k = [(0, EOracle (cpa_nonce a)), (3, EStakeVault (k ! 0))]"
| "call_slots (C_claimFact a) k = [(0, EOracle (cfa_nonce a)), (3, EStakeVault (k ! 0))]"
| "call_slots (C_claimFactVote a) k = [(0, EOracle (cva_nonce a)), (4, EStakeVault (k ! 0))]"
| "call_slots (C_closeAiClaim a) k = []"
| "call_slots (C_closeMarket a) k = [(0, EOracle (clm_nonce a)), (2, EChallengeUsdc (k ! 1))]"
| "call_slots (C_sweepOracle a) k = [(0, EOracle (swo_nonce a)), (1, EStakeVault (k ! 0)), (2, EProtocol)]"

definition well_formed_call :: "'a web3 \<Rightarrow> 'a call \<Rightarrow> 'a tx_instruction \<Rightarrow> bool" where
  "well_formed_call W c t \<longleftrightarrow>
     ti_programId t = program_or W (call_program c) \<and>
     ix_of t = Some (call_ix c) \<and>
     length (ti_keys t) = call_accounts c \<and>
     (case call_signer c of None \<Rightarrow> signers t = []
      | Some x \<Rightarrow> (case addr W x of Inl e \<Rightarrow> False | Inr s \<Rightarrow> signers t = [s])) \<and>
     list_all (\<lambda>(i, e). rmap pda_address (pda_of W (Some (ti_programId t)) e)
        = Inr (key_addresses t ! i)) (call_slots c (key_addresses t))"

section \<open>Each builder is well formed\<close>

lemma collect_Cons_iff:
  "collect (r # rs) = Inr xs \<longleftrightarrow> (\<exists>y ys. r = Inr y \<and> collect rs = Inr ys \<and> xs = y # ys)"
  by (auto simp: rbind_Inr_iff)

lemma collect_Nil_iff: "collect [] = Inr xs \<longleftrightarrow> xs = []"
  by auto

lemma collect_w_tail:
  "collect (map (\<lambda>k. w_in W k False) xs) = Inr ks
    \<Longrightarrow> filter am_isSigner ks = [] \<and> length ks = length xs"
  by (induction xs arbitrary: ks) (auto simp: rbind_Inr_iff w_in_iff)

lemma collect_ro_tail:
  "collect (map (\<lambda>k. ro_in W k False) xs) = Inr ks
    \<Longrightarrow> filter am_isSigner ks = [] \<and> length ks = length xs"
  by (induction xs arbitrary: ks) (auto simp: rbind_Inr_iff ro_in_iff)

lemmas call_opens = Let_def rbind_Inr_iff collect_Cons_iff collect_Nil_iff w_in_iff ro_in_iff
  fixedBytes_iff append_Cons append_Nil withDisc_eq

lemmas call_shape = well_formed_call_def ix_of_disc signers_def key_addresses_def


lemma initProtocol_call:
  assumes "initProtocol W a = Inr t"
  shows "well_formed_call W (C_initProtocol a) t"
  using assms
  by (clarsimp simp: initProtocol_def call_opens simp del: collect.simps)
    (simp add: call_shape)

lemma createOracle_call:
  assumes "createOracle W a = Inr t"
  shows "well_formed_call W (C_createOracle a) t"
  using assms
  by (clarsimp simp: createOracle_def call_opens simp del: collect.simps)
    (simp add: call_shape)

lemma writeOracleMeta_call:
  assumes "writeOracleMeta W a = Inr t"
  shows "well_formed_call W (C_writeOracleMeta a) t"
  using assms
  by (clarsimp simp: writeOracleMeta_def call_opens simp del: collect.simps)
    (simp add: call_shape)

lemma propose_call:
  assumes "propose W a = Inr t"
  shows "well_formed_call W (C_propose a) t"
  using assms
  by (clarsimp simp: propose_def call_opens simp del: collect.simps)
    (simp add: call_shape)

lemma finalizeProposals_call:
  assumes "finalizeProposals W a = Inr t"
  shows "well_formed_call W (C_finalizeProposals a) t"
  using assms
  by (clarsimp simp: finalizeProposals_def call_opens simp del: collect.simps)
    (simp add: call_shape collect_w_tail collect_ro_tail)

lemma advancePhase_call:
  assumes "advancePhase W a = Inr t"
  shows "well_formed_call W (C_advancePhase a) t"
  using assms
  by (clarsimp simp: advancePhase_def call_opens simp del: collect.simps)
    (simp add: call_shape)

lemma setGovernance_call:
  assumes "setGovernance W a = Inr t"
  shows "well_formed_call W (C_setGovernance a) t"
  using assms
  by (clarsimp simp: setGovernance_def call_opens simp del: collect.simps)
    (simp add: call_shape)

lemma setConfig_call:
  assumes "setConfig W a = Inr t"
  shows "well_formed_call W (C_setConfig a) t"
  using assms
  by (clarsimp simp: setConfig_def call_opens simp del: collect.simps)
    (simp add: call_shape)

lemma resolveDeadend_call:
  assumes "resolveDeadend W a = Inr t"
  shows "well_formed_call W (C_resolveDeadend a) t"
  using assms
  by (clarsimp simp: resolveDeadend_def call_opens simp del: collect.simps)
    (simp add: call_shape)

lemma kassPrice_call:
  assumes "kassPrice W a = Inr t"
  shows "well_formed_call W (C_kassPrice a) t"
  using assms
  by (clarsimp simp: kassPrice_def call_opens simp del: collect.simps)
    (simp add: call_shape)

lemma submitFact_call:
  assumes "submitFact W a = Inr t"
  shows "well_formed_call W (C_submitFact a) t"
  using assms
  by (clarsimp simp: submitFact_def call_opens simp del: collect.simps)
    (simp add: call_shape)

lemma voteFact_call:
  assumes "voteFact W a = Inr t"
  shows "well_formed_call W (C_voteFact a) t"
  using assms
  by (clarsimp simp: voteFact_def call_opens simp del: collect.simps)
    (simp add: call_shape)

lemma finalizeFacts_call:
  assumes "finalizeFacts W a = Inr t"
  shows "well_formed_call W (C_finalizeFacts a) t"
  using assms
  by (clarsimp simp: finalizeFacts_def call_opens simp del: collect.simps)
    (simp add: call_shape collect_w_tail collect_ro_tail)

lemma submitAiClaim_call:
  assumes "submitAiClaim W a = Inr t"
  shows "well_formed_call W (C_submitAiClaim a) t"
  using assms
  by (clarsimp simp: submitAiClaim_def call_opens simp del: collect.simps)
    (simp add: call_shape)

lemma finalizeAiClaims_call:
  assumes "finalizeAiClaims W a = Inr t"
  shows "well_formed_call W (C_finalizeAiClaims a) t"
  using assms
  by (clarsimp simp: finalizeAiClaims_def call_opens simp del: collect.simps)
    (simp add: call_shape collect_w_tail collect_ro_tail)

lemma finalizeOracle_call:
  assumes "finalizeOracle W a = Inr t"
  shows "well_formed_call W (C_finalizeOracle a) t"
  using assms
  by (clarsimp simp: finalizeOracle_def call_opens simp del: collect.simps)
    (simp add: call_shape collect_w_tail collect_ro_tail)

lemma openChallenge_call:
  assumes "openChallenge W a = Inr t"
  shows "well_formed_call W (C_openChallenge a) t"
  using assms
  by (clarsimp simp: openChallenge_def call_opens simp del: collect.simps)
    (simp add: call_shape)

lemma settleChallenge_call:
  assumes "settleChallenge W a = Inr t"
  shows "well_formed_call W (C_settleChallenge a) t"
  using assms
  by (clarsimp simp: settleChallenge_def call_opens simp del: collect.simps)
    (simp add: call_shape)

lemma claimProposer_call:
  assumes "claimProposer W a = Inr t"
  shows "well_formed_call W (C_claimProposer a) t"
  using assms
  by (clarsimp simp: claimProposer_def call_opens simp del: collect.simps)
    (simp add: call_shape)

lemma claimFact_call:
  assumes "claimFact W a = Inr t"
  shows "well_formed_call W (C_claimFact a) t"
  using assms
  by (clarsimp simp: claimFact_def call_opens simp del: collect.simps)
    (simp add: call_shape)

lemma claimFactVote_call:
  assumes "claimFactVote W a = Inr t"
  shows "well_formed_call W (C_claimFactVote a) t"
  using assms
  by (clarsimp simp: claimFactVote_def call_opens simp del: collect.simps)
    (simp add: call_shape)

lemma closeAiClaim_call:
  assumes "closeAiClaim W a = Inr t"
  shows "well_formed_call W (C_closeAiClaim a) t"
  using assms
  by (clarsimp simp: closeAiClaim_def call_opens simp del: collect.simps)
    (simp add: call_shape)

lemma closeMarket_call:
  assumes "closeMarket W a = Inr t"
  shows "well_formed_call W (C_closeMarket a) t"
  using assms
  by (clarsimp simp: closeMarket_def call_opens simp del: collect.simps)
    (simp add: call_shape)

lemma sweepOracle_call:
  assumes "sweepOracle W a = Inr t"
  shows "well_formed_call W (C_sweepOracle a) t"
  using assms
  by (clarsimp simp: sweepOracle_def call_opens simp del: collect.simps)
    (simp add: call_shape)

lemmas builder_calls =
  initProtocol_call createOracle_call writeOracleMeta_call propose_call
  finalizeProposals_call advancePhase_call setGovernance_call setConfig_call
  resolveDeadend_call kassPrice_call submitFact_call voteFact_call finalizeFacts_call
  submitAiClaim_call finalizeAiClaims_call finalizeOracle_call openChallenge_call
  settleChallenge_call claimProposer_call claimFact_call claimFactVote_call
  closeAiClaim_call closeMarket_call sweepOracle_call

section \<open>Properties\<close>


definition sample_advance :: "256 word advancePhase_args" where
  "sample_advance = \<lparr>apa_oracle = B58 ''A'', apa_programId = Some 9\<rparr>"


text \<open>
  The dust sweep never reclaims the metadata rent. \<open>sweep_oracle\<close> closes the metadata PDA
  only when it is given as a seventh account, and the oracle can be swept once; every
  instruction that the SDK's builder returns has exactly six accounts.
\<close>

theorem sweep_oracle_omits_metadata:
  assumes "sweepOracle W a = Inr t"
  shows "length (ti_keys t) = 6 \<and> drop 6 (key_addresses t) = []"
proof -
  have "length (ti_keys t) = 6"
    using sweepOracle_call [OF assms] by (simp add: well_formed_call_def)
  then show ?thesis by (simp add: key_addresses_def)
qed

definition sample_sweep :: "256 word sweepOracle_args" where
  "sample_sweep = \<lparr>swo_nonce = 1, swo_kassMint = Addr 3, swo_daoAuthority = Addr 4,
     swo_creator = Addr 5, swo_programId = None\<rparr>"

theorem sweep_oracle_omits_metadata_witness:
  "\<exists>t. sweepOracle sample_web3 sample_sweep = Inr t \<and> length (ti_keys t) = 6"
proof -
  have "is_ok (sweepOracle sample_web3 sample_sweep)"
    by (simp add: sweepOracle_def sample_sweep_def sample_web3_def Let_def pda_defs derive_def
        associatedTokenAccount_def pubkeyBytes_def program_or_def)
  then obtain t where t: "sweepOracle sample_web3 sample_sweep = Inr t"
    by (auto simp: is_ok_iff)
  from sweep_oracle_omits_metadata [OF t] t show ?thesis by blast
qed

end
