(* ===== verification/Processor_Payloads.thy ===== *)
theory Processor_Payloads
  imports Oracle_Calls
begin

text \<open>
  The receiving side of an instruction payload: the parsers at the head of the Rust
  processors (\<open>programs/oracles/src/processor/*.rs\<close>), as far as they read the payload, and
  the proof that the TypeScript builders encode what they read. \<open>None\<close> is
  \<open>InvalidInstructionData\<close>. A processor that ignores its payload parses every payload to
  \<open>PNone\<close>.
\<close>

section \<open>Parsers\<close>

datatype parsed =
    PNone
  | PNonce int
  | PCreate int int int int
  | PPropose int int
  | PFact bytes int bytes
  | PVote int int
  | PClaim bytes bytes bytes int
  | PConfig set_config_params
  | PGovernance bytes bytes
  | PDeadend int
  | PMeta nat

text \<open>Reads inside a payload whose length was checked (\<open>unwrap\<close>).\<close>

fun ok_or_none :: "'b res \<Rightarrow> 'b option" where
  "ok_or_none (Inl e) = None"
| "ok_or_none (Inr x) = Some x"

definition parse_nonce :: "bytes \<Rightarrow> parsed option" where
  "parse_nonce p = (if length p \<noteq> 8 then None else ok_or_none (rmap PNonce (readU64LE p 0)))"

definition parse_create_oracle :: "bytes \<Rightarrow> parsed option" where
  "parse_create_oracle p =
     (if length p \<noteq> 25 then None
      else ok_or_none (rbind (readU64LE p 0) (\<lambda>nonce. rbind (readU8 p 8) (\<lambda>options_count.
        rbind (readI64LE p 9) (\<lambda>deadline. rbind (readI64LE p 17) (\<lambda>twap_window.
        Inr (PCreate nonce options_count deadline twap_window)))))))"

definition parse_propose :: "bytes \<Rightarrow> parsed option" where
  "parse_propose p =
     (if length p \<noteq> 9 then None
      else ok_or_none (rbind (readU8 p 0) (\<lambda>opt. rbind (readU64LE p 1) (\<lambda>bond.
        Inr (PPropose opt bond)))))"

definition parse_submit_fact :: "bytes \<Rightarrow> parsed option" where
  "parse_submit_fact p =
     (if length p < 42 then None
      else (case (readU64LE p 32, readU16LE p 40) of
        (Inr stake, Inr uri_len) \<Rightarrow>
          if uri_len > 200 then None
          else if length p < 42 + nat uri_len then None
          else if length p \<noteq> 42 + nat uri_len then None
          else Some (PFact (readBytes p 0 32) stake (readBytes p 42 (nat uri_len)))
      | _ \<Rightarrow> None))"

definition parse_vote_fact :: "bytes \<Rightarrow> parsed option" where
  "parse_vote_fact p =
     (if length p \<noteq> 9 then None
      else ok_or_none (rbind (readU8 p 0) (\<lambda>kind.
        if kind \<noteq> VOTE_APPROVE \<and> kind \<noteq> VOTE_DUPLICATE then Inl (OtherErr ''kind'')
        else rbind (readU64LE p 1) (\<lambda>stake. Inr (PVote kind stake)))))"

definition parse_submit_ai_claim :: "bytes \<Rightarrow> parsed option" where
  "parse_submit_ai_claim p =
     (if length p \<noteq> 97 then None
      else ok_or_none (rmap (PClaim (readBytes p 0 32) (readBytes p 32 32) (readBytes p 64 32))
        (readU8 p 96)))"

definition u64_at :: "bytes \<Rightarrow> nat \<Rightarrow> int res" where
  "u64_at p i = readU64LE p (i * 8)"

definition i64_at :: "bytes \<Rightarrow> nat \<Rightarrow> int res" where
  "i64_at p i = readI64LE p (i * 8)"

definition parse_set_config :: "bytes \<Rightarrow> parsed option" where
  "parse_set_config p =
     (if length p \<noteq> 25 * 8 then None
      else ok_or_none (
        rbind (u64_at p 0) (\<lambda>emission_num.
        rbind (u64_at p 1) (\<lambda>emission_den.
        rbind (u64_at p 2) (\<lambda>total_supply_cap.
        rbind (i64_at p 3) (\<lambda>fee_ema_halflife.
        rbind (u64_at p 4) (\<lambda>fee_per_ema_unit.
        rbind (u64_at p 5) (\<lambda>fee_ema_increment.
        rbind (u64_at p 6) (\<lambda>threshold_num.
        rbind (u64_at p 7) (\<lambda>threshold_den.
        rbind (u64_at p 8) (\<lambda>market_threshold_num.
        rbind (u64_at p 9) (\<lambda>market_threshold_den.
        rbind (u64_at p 10) (\<lambda>flip_slash_num.
        rbind (u64_at p 11) (\<lambda>flip_slash_den.
        rbind (i64_at p 12) (\<lambda>phase_window.
        rbind (i64_at p 13) (\<lambda>proposal_window.
        rbind (u64_at p 14) (\<lambda>fact_vote_slash_num.
        rbind (u64_at p 15) (\<lambda>fact_vote_slash_den.
        rbind (u64_at p 16) (\<lambda>reward_proposer_weight.
        rbind (u64_at p 17) (\<lambda>reward_fact_weight.
        rbind (u64_at p 18) (\<lambda>challenge_fail_usdc_fee_num.
        rbind (u64_at p 19) (\<lambda>challenge_fail_usdc_fee_den.
        rbind (u64_at p 20) (\<lambda>challenge_success_kass_fee_num.
        rbind (u64_at p 21) (\<lambda>challenge_success_kass_fee_den.
        rbind (u64_at p 22) (\<lambda>stake_floor_ema_threshold.
        rbind (u64_at p 23) (\<lambda>stake_floor_ema_cap.
        rbind (u64_at p 24) (\<lambda>stake_floor_max.
        Inr (PConfig \<lparr>cfg_emissionNum = emission_num,
          cfg_emissionDen = emission_den,
          cfg_totalSupplyCap = total_supply_cap,
          cfg_feeEmaHalflife = fee_ema_halflife,
          cfg_feePerEmaUnit = fee_per_ema_unit,
          cfg_feeEmaIncrement = fee_ema_increment,
          cfg_thresholdNum = threshold_num,
          cfg_thresholdDen = threshold_den,
          cfg_marketThresholdNum = market_threshold_num,
          cfg_marketThresholdDen = market_threshold_den,
          cfg_flipSlashNum = flip_slash_num,
          cfg_flipSlashDen = flip_slash_den,
          cfg_phaseWindow = phase_window,
          cfg_proposalWindow = proposal_window,
          cfg_factVoteSlashNum = fact_vote_slash_num,
          cfg_factVoteSlashDen = fact_vote_slash_den,
          cfg_rewardProposerWeight = reward_proposer_weight,
          cfg_rewardFactWeight = reward_fact_weight,
          cfg_challengeFailUsdcFeeNum = challenge_fail_usdc_fee_num,
          cfg_challengeFailUsdcFeeDen = challenge_fail_usdc_fee_den,
          cfg_challengeSuccessKassFeeNum = challenge_success_kass_fee_num,
          cfg_challengeSuccessKassFeeDen = challenge_success_kass_fee_den,
          cfg_stakeFloorEmaThreshold = stake_floor_ema_threshold,
          cfg_stakeFloorEmaCap = stake_floor_ema_cap,
          cfg_stakeFloorMax = stake_floor_max\<rparr>))))))))))))))))))))))))))))"

definition config_in_range :: "set_config_params \<Rightarrow> bool" where
  "config_in_range p \<longleftrightarrow>
     unsigned_range 64 (cfg_emissionNum p) \<and>
     unsigned_range 64 (cfg_emissionDen p) \<and>
     unsigned_range 64 (cfg_totalSupplyCap p) \<and>
     signed_range 64 (cfg_feeEmaHalflife p) \<and>
     unsigned_range 64 (cfg_feePerEmaUnit p) \<and>
     unsigned_range 64 (cfg_feeEmaIncrement p) \<and>
     unsigned_range 64 (cfg_thresholdNum p) \<and>
     unsigned_range 64 (cfg_thresholdDen p) \<and>
     unsigned_range 64 (cfg_marketThresholdNum p) \<and>
     unsigned_range 64 (cfg_marketThresholdDen p) \<and>
     unsigned_range 64 (cfg_flipSlashNum p) \<and>
     unsigned_range 64 (cfg_flipSlashDen p) \<and>
     signed_range 64 (cfg_phaseWindow p) \<and>
     signed_range 64 (cfg_proposalWindow p) \<and>
     unsigned_range 64 (cfg_factVoteSlashNum p) \<and>
     unsigned_range 64 (cfg_factVoteSlashDen p) \<and>
     unsigned_range 64 (cfg_rewardProposerWeight p) \<and>
     unsigned_range 64 (cfg_rewardFactWeight p) \<and>
     unsigned_range 64 (cfg_challengeFailUsdcFeeNum p) \<and>
     unsigned_range 64 (cfg_challengeFailUsdcFeeDen p) \<and>
     unsigned_range 64 (cfg_challengeSuccessKassFeeNum p) \<and>
     unsigned_range 64 (cfg_challengeSuccessKassFeeDen p) \<and>
     unsigned_range 64 (cfg_stakeFloorEmaThreshold p) \<and>
     unsigned_range 64 (cfg_stakeFloorEmaCap p) \<and>
     unsigned_range 64 (cfg_stakeFloorMax p)"

definition parse_set_governance :: "bytes \<Rightarrow> parsed option" where
  "parse_set_governance p =
     (if length p < 64 then None
      else (let dao_authority = readBytes p 0 32; kass_dao = readBytes p 32 32 in
        if dao_authority = zero_pad 32 \<or> kass_dao = zero_pad 32 then None
        else Some (PGovernance dao_authority kass_dao)))"

definition parse_resolve_deadend :: "bytes \<Rightarrow> parsed option" where
  "parse_resolve_deadend p = (case p of [b] \<Rightarrow> Some (PDeadend (uint b)) | _ \<Rightarrow> None)"

subsection \<open>Metadata validation (write_oracle_meta.rs)\<close>

definition meta_read_u16 :: "bytes \<Rightarrow> nat \<Rightarrow> (nat \<times> nat) option" where
  "meta_read_u16 p off = ok_or_none (rmap (\<lambda>v. (nat v, off + 2)) (readU16LE p off))"

definition meta_advance :: "bytes \<Rightarrow> nat \<Rightarrow> nat \<Rightarrow> nat option" where
  "meta_advance p off n = (if off + n > length p then None else Some (off + n))"

definition validate_field :: "bytes \<Rightarrow> nat \<Rightarrow> nat \<Rightarrow> nat \<Rightarrow> nat option" where
  "validate_field p lo hi off =
     (case meta_read_u16 p off of None \<Rightarrow> None
      | Some (len, off) \<Rightarrow> if len < lo \<or> len > hi then None else meta_advance p off len)"

fun validate_options :: "bytes \<Rightarrow> nat \<Rightarrow> nat \<Rightarrow> nat option" where
  "validate_options p 0 off = Some off"
| "validate_options p (Suc n) off =
     (case validate_field p 1 128 off of None \<Rightarrow> None | Some off \<Rightarrow> validate_options p n off)"

definition validate_meta :: "bytes \<Rightarrow> parsed option" where
  "validate_meta p =
     (case validate_field p 1 512 0 of None \<Rightarrow> None | Some off \<Rightarrow>
      (case ok_or_none (readU8 p off) of None \<Rightarrow> None | Some options_count \<Rightarrow>
       if options_count < 2 then None
       else (case validate_options p (nat options_count) (off + 1) of None \<Rightarrow> None | Some off \<Rightarrow>
        (case validate_field p 0 256 off of None \<Rightarrow> None | Some off \<Rightarrow>
         (case meta_advance p off 32 of None \<Rightarrow> None | Some off \<Rightarrow>
          if off \<noteq> length p then None else Some (PMeta (nat options_count)))))))"

fun parse_payload :: "Ix \<Rightarrow> bytes \<Rightarrow> parsed option" where
  "parse_payload Ix_CreateOracle p = parse_create_oracle p"
| "parse_payload Ix_WriteOracleMeta p = validate_meta p"
| "parse_payload Ix_Propose p = parse_propose p"
| "parse_payload Ix_SetGovernance p = parse_set_governance p"
| "parse_payload Ix_SetConfig p = parse_set_config p"
| "parse_payload Ix_ResolveDeadend p = parse_resolve_deadend p"
| "parse_payload Ix_SubmitFact p = parse_submit_fact p"
| "parse_payload Ix_VoteFact p = parse_vote_fact p"
| "parse_payload Ix_SubmitAiClaim p = parse_submit_ai_claim p"
| "parse_payload Ix_CloseAiClaim p = (if p \<noteq> [] then None else Some PNone)"
| "parse_payload Ix_InitProtocol p = Some PNone"
| "parse_payload Ix_FinalizeProposals p = Some PNone"
| "parse_payload Ix_AdvancePhase p = Some PNone"
| "parse_payload Ix_KassPrice p = Some PNone"
| "parse_payload Ix_FinalizeAiClaims p = Some PNone"
| "parse_payload Ix_FinalizeFacts p = parse_nonce p"
| "parse_payload Ix_FinalizeOracle p = parse_nonce p"
| "parse_payload Ix_OpenChallenge p = parse_nonce p"
| "parse_payload Ix_SettleChallenge p = parse_nonce p"
| "parse_payload Ix_ClaimProposer p = parse_nonce p"
| "parse_payload Ix_ClaimFact p = parse_nonce p"
| "parse_payload Ix_ClaimFactVote p = parse_nonce p"
| "parse_payload Ix_CloseMarket p = parse_nonce p"
| "parse_payload Ix_SweepOracle p = parse_nonce p"

section \<open>What the client meant\<close>

definition key_of :: "'a web3 \<Rightarrow> 'a address_input \<Rightarrow> bytes" where
  "key_of W x = (case addr W x of Inl e \<Rightarrow> [] | Inr a \<Rightarrow> w3_bytes W a)"

fun intended :: "'a web3 \<Rightarrow> 'a call \<Rightarrow> parsed" where
  "intended W (C_createOracle a)
     = PCreate (coa_nonce a) (coa_optionsCount a) (coa_deadline a) (coa_twapWindow a)"
| "intended W (C_writeOracleMeta a) = PMeta (length (wma_options a))"
| "intended W (C_propose a) = PPropose (ppa_option a) (ppa_bond a)"
| "intended W (C_setGovernance a)
     = PGovernance (key_of W (sga_daoAuthority a)) (key_of W (sga_kassDao a))"
| "intended W (C_setConfig a) = PConfig (sca_params a)"
| "intended W (C_resolveDeadend a) = PDeadend (rda_option a)"
| "intended W (C_submitFact a)
     = PFact (sfa_contentHash a) (sfa_stake a) (uriBytes (sfa_uri a))"
| "intended W (C_voteFact a) = PVote (vfa_kind a) (vfa_stake a)"
| "intended W (C_submitAiClaim a)
     = PClaim (aca_modelId a) (aca_paramsHash a) (aca_ioHash a) (aca_option a)"
| "intended W (C_finalizeFacts a) = PNonce (ffa_nonce a)"
| "intended W (C_finalizeOracle a) = PNonce (foa_nonce a)"
| "intended W (C_openChallenge a) = PNonce (och_nonce a)"
| "intended W (C_settleChallenge a) = PNonce (sch_nonce a)"
| "intended W (C_claimProposer a) = PNonce (cpa_nonce a)"
| "intended W (C_claimFact a) = PNonce (cfa_nonce a)"
| "intended W (C_claimFactVote a) = PNonce (cva_nonce a)"
| "intended W (C_closeMarket a) = PNonce (clm_nonce a)"
| "intended W (C_sweepOracle a) = PNonce (swo_nonce a)"
| "intended W _ = PNone"

definition len_between :: "nat \<Rightarrow> nat \<Rightarrow> utext \<Rightarrow> bool" where
  "len_between lo hi s \<longleftrightarrow> lo \<le> length (utf8_encode s) \<and> length (utf8_encode s) \<le> hi"

fun payload_in_range :: "'a web3 \<Rightarrow> 'a call \<Rightarrow> bool" where
  "payload_in_range W (C_createOracle a) \<longleftrightarrow>
     unsigned_range 64 (coa_nonce a) \<and> unsigned_range 8 (coa_optionsCount a) \<and>
     signed_range 64 (coa_deadline a) \<and> signed_range 64 (coa_twapWindow a)"
| "payload_in_range W (C_writeOracleMeta a) \<longleftrightarrow>
     len_between 1 512 (wma_subject a) \<and> list_all (len_between 1 128) (wma_options a) \<and>
     2 \<le> length (wma_options a) \<and> length (wma_options a) < 256 \<and> len_between 0 256 (wma_uri a)"
| "payload_in_range W (C_propose a) \<longleftrightarrow>
     unsigned_range 8 (ppa_option a) \<and> unsigned_range 64 (ppa_bond a)"
| "payload_in_range W (C_setGovernance a) \<longleftrightarrow>
     key_of W (sga_daoAuthority a) \<noteq> zero_pad 32 \<and> key_of W (sga_kassDao a) \<noteq> zero_pad 32"
| "payload_in_range W (C_setConfig a) \<longleftrightarrow> config_in_range (sca_params a)"
| "payload_in_range W (C_resolveDeadend a) \<longleftrightarrow> unsigned_range 8 (rda_option a)"
| "payload_in_range W (C_submitFact a) \<longleftrightarrow>
     unsigned_range 64 (sfa_stake a) \<and> length (uriBytes (sfa_uri a)) \<le> 200"
| "payload_in_range W (C_voteFact a) \<longleftrightarrow>
     vfa_kind a \<in> {VOTE_APPROVE, VOTE_DUPLICATE} \<and> unsigned_range 64 (vfa_stake a)"
| "payload_in_range W (C_submitAiClaim a) \<longleftrightarrow> unsigned_range 8 (aca_option a)"
| "payload_in_range W (C_finalizeFacts a) \<longleftrightarrow> unsigned_range 64 (ffa_nonce a)"
| "payload_in_range W (C_finalizeOracle a) \<longleftrightarrow> unsigned_range 64 (foa_nonce a)"
| "payload_in_range W (C_openChallenge a) \<longleftrightarrow> unsigned_range 64 (och_nonce a)"
| "payload_in_range W (C_settleChallenge a) \<longleftrightarrow> unsigned_range 64 (sch_nonce a)"
| "payload_in_range W (C_claimProposer a) \<longleftrightarrow> unsigned_range 64 (cpa_nonce a)"
| "payload_in_range W (C_claimFact a) \<longleftrightarrow> unsigned_range 64 (cfa_nonce a)"
| "payload_in_range W (C_claimFactVote a) \<longleftrightarrow> unsigned_range 64 (cva_nonce a)"
| "payload_in_range W (C_closeMarket a) \<longleftrightarrow> unsigned_range 64 (clm_nonce a)"
| "payload_in_range W (C_sweepOracle a) \<longleftrightarrow> unsigned_range 64 (swo_nonce a)"
| "payload_in_range W _ \<longleftrightarrow> True"

section \<open>Payload images\<close>

text \<open>The bytes after the discriminant, for each builder.\<close>

definition config_parts :: "set_config_params \<Rightarrow> bytes list" where
  "config_parts p = [
     u64LE (cfg_emissionNum p),
     u64LE (cfg_emissionDen p),
     u64LE (cfg_totalSupplyCap p),
     i64LE (cfg_feeEmaHalflife p),
     u64LE (cfg_feePerEmaUnit p),
     u64LE (cfg_feeEmaIncrement p),
     u64LE (cfg_thresholdNum p),
     u64LE (cfg_thresholdDen p),
     u64LE (cfg_marketThresholdNum p),
     u64LE (cfg_marketThresholdDen p),
     u64LE (cfg_flipSlashNum p),
     u64LE (cfg_flipSlashDen p),
     i64LE (cfg_phaseWindow p),
     i64LE (cfg_proposalWindow p),
     u64LE (cfg_factVoteSlashNum p),
     u64LE (cfg_factVoteSlashDen p),
     u64LE (cfg_rewardProposerWeight p),
     u64LE (cfg_rewardFactWeight p),
     u64LE (cfg_challengeFailUsdcFeeNum p),
     u64LE (cfg_challengeFailUsdcFeeDen p),
     u64LE (cfg_challengeSuccessKassFeeNum p),
     u64LE (cfg_challengeSuccessKassFeeDen p),
     u64LE (cfg_stakeFloorEmaThreshold p),
     u64LE (cfg_stakeFloorEmaCap p),
     u64LE (cfg_stakeFloorMax p)]"

lemma initProtocol_payload:
  assumes "initProtocol W a = Inr t"
  shows "ix_payload t = []"
  using assms
  by (clarsimp simp: initProtocol_def call_opens simp del: collect.simps)
    (simp add: ix_payload_disc)

lemma createOracle_payload:
  assumes "createOracle W a = Inr t"
  shows "ix_payload t = u64LE (coa_nonce a) @ u8 (coa_optionsCount a) @ i64LE (coa_deadline a) @ i64LE (coa_twapWindow a)"
  using assms
  by (clarsimp simp: createOracle_def call_opens simp del: collect.simps)
    (simp add: ix_payload_disc)

lemma propose_payload:
  assumes "propose W a = Inr t"
  shows "ix_payload t = u8 (ppa_option a) @ u64LE (ppa_bond a)"
  using assms
  by (clarsimp simp: propose_def call_opens simp del: collect.simps)
    (simp add: ix_payload_disc)

lemma finalizeProposals_payload:
  assumes "finalizeProposals W a = Inr t"
  shows "ix_payload t = []"
  using assms
  by (clarsimp simp: finalizeProposals_def call_opens simp del: collect.simps)
    (simp add: ix_payload_disc)

lemma advancePhase_payload:
  assumes "advancePhase W a = Inr t"
  shows "ix_payload t = []"
  using assms
  by (clarsimp simp: advancePhase_def call_opens simp del: collect.simps)
    (simp add: ix_payload_disc)

lemma setGovernance_payload:
  assumes "setGovernance W a = Inr t"
  shows "ix_payload t = key_of W (sga_daoAuthority a) @ key_of W (sga_kassDao a)"
  using assms
  by (clarsimp simp: setGovernance_def call_opens key_of_def pubkeyBytes_def rmap_Inr_iff simp del: collect.simps)
    (simp add: ix_payload_disc key_of_def pubkeyBytes_def rmap_Inr_iff)

lemma setConfig_payload:
  assumes "setConfig W a = Inr t"
  shows "ix_payload t = concat (config_parts (sca_params a))"
  using assms
  by (clarsimp simp: setConfig_def call_opens encodeSetConfigParams_def config_parts_def concatBytes_eq simp del: collect.simps)
    (simp add: ix_payload_disc encodeSetConfigParams_def config_parts_def concatBytes_eq)

lemma resolveDeadend_payload:
  assumes "resolveDeadend W a = Inr t"
  shows "ix_payload t = u8 (rda_option a)"
  using assms
  by (clarsimp simp: resolveDeadend_def call_opens simp del: collect.simps)
    (simp add: ix_payload_disc)

lemma kassPrice_payload:
  assumes "kassPrice W a = Inr t"
  shows "ix_payload t = []"
  using assms
  by (clarsimp simp: kassPrice_def call_opens simp del: collect.simps)
    (simp add: ix_payload_disc)

lemma submitFact_payload:
  assumes "submitFact W a = Inr t"
  shows "ix_payload t = sfa_contentHash a @ u64LE (sfa_stake a) @ u16LE (int (length (uriBytes (sfa_uri a)))) @ uriBytes (sfa_uri a)
    \<and> length (sfa_contentHash a) = 32"
  using assms
  by (clarsimp simp: submitFact_def call_opens simp del: collect.simps)
    (simp add: ix_payload_disc)

lemma voteFact_payload:
  assumes "voteFact W a = Inr t"
  shows "ix_payload t = u8 (vfa_kind a) @ u64LE (vfa_stake a)"
  using assms
  by (clarsimp simp: voteFact_def call_opens simp del: collect.simps)
    (simp add: ix_payload_disc)

lemma finalizeFacts_payload:
  assumes "finalizeFacts W a = Inr t"
  shows "ix_payload t = u64LE (ffa_nonce a)"
  using assms
  by (clarsimp simp: finalizeFacts_def call_opens simp del: collect.simps)
    (simp add: ix_payload_disc)

lemma submitAiClaim_payload:
  assumes "submitAiClaim W a = Inr t"
  shows "ix_payload t = aca_modelId a @ aca_paramsHash a @ aca_ioHash a @ u8 (aca_option a)
    \<and> length (aca_modelId a) = 32 \<and> length (aca_paramsHash a) = 32 \<and> length (aca_ioHash a) = 32"
  using assms
  by (clarsimp simp: submitAiClaim_def call_opens simp del: collect.simps)
    (simp add: ix_payload_disc)

lemma finalizeAiClaims_payload:
  assumes "finalizeAiClaims W a = Inr t"
  shows "ix_payload t = []"
  using assms
  by (clarsimp simp: finalizeAiClaims_def call_opens simp del: collect.simps)
    (simp add: ix_payload_disc)

lemma finalizeOracle_payload:
  assumes "finalizeOracle W a = Inr t"
  shows "ix_payload t = u64LE (foa_nonce a)"
  using assms
  by (clarsimp simp: finalizeOracle_def call_opens simp del: collect.simps)
    (simp add: ix_payload_disc)

lemma openChallenge_payload:
  assumes "openChallenge W a = Inr t"
  shows "ix_payload t = u64LE (och_nonce a)"
  using assms
  by (clarsimp simp: openChallenge_def call_opens simp del: collect.simps)
    (simp add: ix_payload_disc)

lemma settleChallenge_payload:
  assumes "settleChallenge W a = Inr t"
  shows "ix_payload t = u64LE (sch_nonce a)"
  using assms
  by (clarsimp simp: settleChallenge_def call_opens simp del: collect.simps)
    (simp add: ix_payload_disc)

lemma claimProposer_payload:
  assumes "claimProposer W a = Inr t"
  shows "ix_payload t = u64LE (cpa_nonce a)"
  using assms
  by (clarsimp simp: claimProposer_def call_opens simp del: collect.simps)
    (simp add: ix_payload_disc)

lemma claimFact_payload:
  assumes "claimFact W a = Inr t"
  shows "ix_payload t = u64LE (cfa_nonce a)"
  using assms
  by (clarsimp simp: claimFact_def call_opens simp del: collect.simps)
    (simp add: ix_payload_disc)

lemma claimFactVote_payload:
  assumes "claimFactVote W a = Inr t"
  shows "ix_payload t = u64LE (cva_nonce a)"
  using assms
  by (clarsimp simp: claimFactVote_def call_opens simp del: collect.simps)
    (simp add: ix_payload_disc)

lemma closeAiClaim_payload:
  assumes "closeAiClaim W a = Inr t"
  shows "ix_payload t = []"
  using assms
  by (clarsimp simp: closeAiClaim_def call_opens simp del: collect.simps)
    (simp add: ix_payload_disc)

lemma closeMarket_payload:
  assumes "closeMarket W a = Inr t"
  shows "ix_payload t = u64LE (clm_nonce a)"
  using assms
  by (clarsimp simp: closeMarket_def call_opens simp del: collect.simps)
    (simp add: ix_payload_disc)

lemma sweepOracle_payload:
  assumes "sweepOracle W a = Inr t"
  shows "ix_payload t = u64LE (swo_nonce a)"
  using assms
  by (clarsimp simp: sweepOracle_def call_opens simp del: collect.simps)
    (simp add: ix_payload_disc)

section \<open>The parsers read them back\<close>

lemma ok_or_none_simps [simp]: "ok_or_none (rbind (Inr x) f) = ok_or_none (f x)"
  by simp

lemma parse_nonce_back: "unsigned_range 64 n \<Longrightarrow> parse_nonce (u64LE n) = Some (PNonce n)"
  by (simp add: parse_nonce_def read_at width_simps)

lemma parse_create_oracle_back:
  assumes "unsigned_range 64 n" "unsigned_range 8 k" "signed_range 64 d" "signed_range 64 v"
  shows "parse_create_oracle (u64LE n @ u8 k @ i64LE d @ i64LE v) = Some (PCreate n k d v)"
  using assms by (simp add: parse_create_oracle_def read_at width_simps)

lemma parse_propose_back:
  assumes "unsigned_range 8 k" "unsigned_range 64 b"
  shows "parse_propose (u8 k @ u64LE b) = Some (PPropose k b)"
  using assms by (simp add: parse_propose_def read_at width_simps)

lemma parse_vote_back:
  assumes "k \<in> {VOTE_APPROVE, VOTE_DUPLICATE}" "unsigned_range 64 b"
  shows "parse_vote_fact (u8 k @ u64LE b) = Some (PVote k b)"
proof -
  have "unsigned_range 8 k"
    using assms(1) by (auto simp: VOTE_APPROVE_def VOTE_DUPLICATE_def unsigned_range_def)
  then show ?thesis using assms by (auto simp: parse_vote_fact_def read_at width_simps)
qed

lemma parse_fact_back:
  assumes "length h = 32" "unsigned_range 64 b" "length u \<le> 200"
  shows "parse_submit_fact (h @ u64LE b @ u16LE (int (length u)) @ u) = Some (PFact h b u)"
proof -
  have "unsigned_range 16 (int (length u))" using assms(3) by (simp add: unsigned_range_def)
  then show ?thesis using assms by (simp add: parse_submit_fact_def read_at width_simps)
qed

lemma parse_claim_back:
  assumes "length m = 32" "length p = 32" "length h = 32" "unsigned_range 8 k"
  shows "parse_submit_ai_claim (m @ p @ h @ u8 k) = Some (PClaim m p h k)"
  using assms by (simp add: parse_submit_ai_claim_def read_at width_simps)

lemma parse_config_back:
  assumes "config_in_range p"
  shows "parse_set_config (concat (config_parts p)) = Some (PConfig p)"
  using assms
  by (cases p) (simp add: parse_set_config_def config_parts_def config_in_range_def u64_at_def
      i64_at_def read_at width_simps)

lemma parse_governance_back:
  assumes "length d = 32" "length k = 32" "d \<noteq> zero_pad 32" "k \<noteq> zero_pad 32"
  shows "parse_set_governance (d @ k) = Some (PGovernance d k)"
  using assms by (simp add: parse_set_governance_def read_at Let_def)

lemma parse_deadend_back:
  assumes "unsigned_range 8 k"
  shows "parse_resolve_deadend (u8 k) = Some (PDeadend k)"
proof -
  have "uint (word_of_int k :: byte) = k"
    using assms by (simp only: uint_byte_of_int) (simp add: unsigned_range_def)
  then show ?thesis by (simp add: parse_resolve_deadend_def u8_le_bytes)
qed

subsection \<open>Metadata\<close>

lemma validate_field_at:
  assumes "len_between lo hi s" "hi < 65536" "length pre = off"
  shows "validate_field (pre @ len_prefixed s @ post) lo hi off
    = Some (off + length (len_prefixed s))"
proof -
  let ?b = "utf8_encode s"
  have r: "unsigned_range 16 (int (length ?b))"
    using assms by (simp add: len_between_def unsigned_range_def)
  have "readU16LE (pre @ len_prefixed s @ post) off = Inr (int (length ?b))"
    using c16.dec_at [OF r assms(3)] by (simp add: len_prefixed_def)
  then have "meta_read_u16 (pre @ len_prefixed s @ post) off = Some (length ?b, off + 2)"
    by (simp add: meta_read_u16_def)
  then show ?thesis using assms
    by (simp add: validate_field_def meta_advance_def len_between_def len_prefixed_def)
qed

lemma validate_options_at:
  assumes "list_all (len_between 1 128) ps" "length pre = off"
  shows "validate_options (pre @ concat (map len_prefixed ps) @ post) (length ps) off
    = Some (off + length (concat (map len_prefixed ps)))"
  using assms
proof (induction ps arbitrary: pre off)
  case Nil
  then show ?case by simp
next
  case (Cons s ps)
  have "validate_options ((pre @ len_prefixed s) @ concat (map len_prefixed ps) @ post)
      (length ps) (off + length (len_prefixed s))
    = Some (off + length (len_prefixed s) + length (concat (map len_prefixed ps)))"
    using Cons.prems by (intro Cons.IH) auto
  moreover have "validate_field (pre @ len_prefixed s @ concat (map len_prefixed ps) @ post)
      1 128 off = Some (off + length (len_prefixed s))"
    using Cons.prems by (intro validate_field_at) auto
  ultimately show ?case by (simp add: add.assoc)
qed

lemma validate_meta_back:
  assumes "len_between 1 512 subject" "list_all (len_between 1 128) options"
    and "2 \<le> length options" "length options < 256" "len_between 0 256 uri" "length hash = 32"
  shows "validate_meta (meta_body subject options uri hash) = Some (PMeta (length options))"
proof -
  let ?S = "len_prefixed subject" and ?C = "u8 (int (length options))"
  let ?O = "concat (map len_prefixed options)" and ?U = "len_prefixed uri"
  let ?d = "meta_body subject options uri hash"
  have d: "?d = ?S @ ?C @ ?O @ ?U @ hash" by (simp add: meta_body_def)
  have s: "validate_field ?d 1 512 0 = Some (length ?S)"
    using validate_field_at [of 1 512 subject "[]" 0 "?C @ ?O @ ?U @ hash"] assms by (simp add: d)
  have "unsigned_range 8 (int (length options))" using assms by (simp add: unsigned_range_def)
  then have c: "readU8 ?d (length ?S) = Inr (int (length options))"
    using c8.dec_at [of "int (length options)" ?S "length ?S" "?O @ ?U @ hash"] by (simp add: d)
  have o1: "validate_options ?d (length options) (length ?S + 1) = Some (length ?S + 1 + length ?O)"
    using validate_options_at [of options "?S @ ?C" "length ?S + 1" "?U @ hash"] assms
    by (simp add: d)
  have u: "validate_field ?d 0 256 (length ?S + 1 + length ?O)
      = Some (length ?S + 1 + length ?O + length ?U)"
    using validate_field_at [of 0 256 uri "?S @ ?C @ ?O" "length ?S + 1 + length ?O" hash] assms
    by (simp add: d)
  show ?thesis
    using assms s c o1 u by (simp add: validate_meta_def meta_advance_def d)
qed

lemma writeOracleMeta_payload:
  assumes "writeOracleMeta W a = Inr t"
  shows "ix_payload t = meta_body (wma_subject a) (wma_options a) (wma_uri a) (wma_uriHash a)"
  using writeOracleMeta_data(1) [OF assms] by (rule ix_payload_disc)

section \<open>Properties\<close>

lemma key_of_length:
  assumes "web3_ok W" "key_of W x \<noteq> []"
  shows "length (key_of W x) = 32"
  using assms by (auto simp: key_of_def web3_ok_D(1) split: sum.splits)

lemma setGovernance_keys:
  assumes "web3_ok W" "setGovernance W a = Inr t"
  shows "length (key_of W (sga_daoAuthority a)) = 32" "length (key_of W (sga_kassDao a)) = 32"
  using assms(2) web3_ok_D(1) [OF assms(1)]
  by (auto simp: setGovernance_def Let_def rbind_Inr_iff pubkeyBytes_def rmap_Inr_iff key_of_def)

lemma nonce_call_back:
  "ix_payload t = u64LE n \<Longrightarrow> unsigned_range 64 n \<Longrightarrow> parse_nonce (ix_payload t) = Some (PNonce n)"
  by (simp add: parse_nonce_back)

lemmas nonce_payloads = finalizeFacts_payload finalizeOracle_payload openChallenge_payload
  settleChallenge_payload claimProposer_payload claimFact_payload claimFactVote_payload
  closeMarket_payload sweepOracle_payload

lemmas empty_payloads = initProtocol_payload finalizeProposals_payload advancePhase_payload
  kassPrice_payload finalizeAiClaims_payload closeAiClaim_payload

text \<open>
  C1: The SDK and the program agree on the wire. For each of the 24 instructions, if the
  arguments are in the ranges of the fields, then the parser at the head of the Rust
  processor selected by the first byte accepts the payload that the TypeScript builder
  encodes, and reads back exactly the client's arguments.
\<close>

theorem payload_wire_agreement:
  assumes "web3_ok W" "build W c = Inr t" "payload_in_range W c"
  shows "parse_payload (call_ix c) (ix_payload t) = Some (intended W c)"
proof (cases c)
  case (C_writeOracleMeta a)
  then show ?thesis
    using assms validate_meta_back writeOracleMeta_payload [of W a t] writeOracleMeta_data(2) [of W a t]
    by simp
next
  case (C_setGovernance a)
  then show ?thesis
    using assms setGovernance_payload [of W a t] setGovernance_keys [of W a t] parse_governance_back
    by simp
next
  case (C_setConfig a)
  then show ?thesis
    using assms setConfig_payload [of W a t] parse_config_back by simp
next
  case (C_submitFact a)
  then show ?thesis
    using assms submitFact_payload [of W a t] parse_fact_back by simp
next
  case (C_submitAiClaim a)
  then show ?thesis
    using assms submitAiClaim_payload [of W a t] parse_claim_back by simp
next
  case (C_createOracle a)
  then show ?thesis
    using assms createOracle_payload [of W a t] parse_create_oracle_back by simp
next
  case (C_propose a)
  then show ?thesis
    using assms propose_payload [of W a t] parse_propose_back by simp
next
  case (C_voteFact a)
  then show ?thesis
    using assms voteFact_payload [of W a t] parse_vote_back by simp
next
  case (C_resolveDeadend a)
  then show ?thesis
    using assms resolveDeadend_payload [of W a t] parse_deadend_back by simp
qed (use assms in \<open>auto dest!: nonce_payloads empty_payloads simp: parse_nonce_back\<close>)

definition sample_propose :: "256 word propose_args" where
  "sample_propose = \<lparr>ppa_oracle = Addr 3, ppa_authority = Addr 4, ppa_authorityKass = Addr 5,
     ppa_option = 2, ppa_bond = 1000000, ppa_programId = None\<rparr>"

lemma sample_propose_built: "is_ok (build sample_web3 (C_propose sample_propose))"
  by (simp add: propose_def sample_propose_def sample_web3_def Let_def pda_proposer_def
      pda_stakeVault_def derive_def program_or_def)

theorem payload_wire_agreement_witness:
  "\<exists>t. build sample_web3 (C_propose sample_propose) = Inr t
     \<and> parse_payload Ix_Propose (ix_payload t) = Some (PPropose 2 1000000)"
proof -
  obtain t where t: "build sample_web3 (C_propose sample_propose) = Inr t"
    using sample_propose_built by (auto simp: is_ok_iff)
  have "payload_in_range sample_web3 (C_propose sample_propose)"
    by (simp add: sample_propose_def unsigned_range_def)
  from payload_wire_agreement [OF sample_web3_ok t this] t
  show ?thesis by (auto simp: sample_propose_def)
qed

end
