(* ===== verification/Runner_Bridge.thy ===== *)
theory Runner_Bridge
  imports Processor_Payloads
begin

text \<open>
  The bridge from the off-chain AI runner to the \<open>submit_ai_claim\<close> instruction
  (\<open>sdks/oracles/ts/src/runner-bridge.ts\<close>): the hex decoder over \<open>Number.parseInt\<close>, the
  byte comparison, and \<open>submitAiClaimFromRunner\<close> with its parity guard and its check of the
  PDA seeds. The runner's output is the parsed JSON object. A hex string is the list of its
  UTF-16 code units, since \<open>length\<close> and \<open>slice\<close> count those.
\<close>

section \<open>Number.parseInt(s, 16)\<close>

type_synonym units = "int list"

definition js_space :: "int \<Rightarrow> bool" where
  "js_space c \<longleftrightarrow> c \<in> {9, 10, 11, 12, 13, 32, 0xA0, 0x1680, 0x2028, 0x2029, 0x202F, 0x205F,
     0x3000, 0xFEFF} \<or> 0x2000 \<le> c \<and> c \<le> 0x200A"

definition hex_digit :: "int \<Rightarrow> int option" where
  "hex_digit c =
     (if 48 \<le> c \<and> c \<le> 57 then Some (c - 48)
      else if 97 \<le> c \<and> c \<le> 102 then Some (c - 87)
      else if 65 \<le> c \<and> c \<le> 70 then Some (c - 55) else None)"

text \<open>The longest prefix of digits; \<open>None\<close> (NaN) when it is empty.\<close>

fun hex_prefix :: "int \<Rightarrow> units \<Rightarrow> int" where
  "hex_prefix acc [] = acc"
| "hex_prefix acc (c # cs) =
     (case hex_digit c of None \<Rightarrow> acc | Some d \<Rightarrow> hex_prefix (16 * acc + d) cs)"

definition strip_0x :: "units \<Rightarrow> units" where
  "strip_0x s = (if take 2 s = [48, 120] \<or> take 2 s = [48, 88] then drop 2 s else s)"

definition parse_digits :: "units \<Rightarrow> int option" where
  "parse_digits s = (case s of [] \<Rightarrow> None
     | c # cs \<Rightarrow> (case hex_digit c of None \<Rightarrow> None | Some d \<Rightarrow> Some (hex_prefix d cs)))"

definition parseInt16 :: "units \<Rightarrow> int option" where
  "parseInt16 s =
     (let s = dropWhile js_space s in
      case s of
        [] \<Rightarrow> None
      | c # r \<Rightarrow>
          if c = 43 then parse_digits (strip_0x r)
          else if c = 45 then map_option uminus (parse_digits (strip_0x r))
          else parse_digits (strip_0x s))"

section \<open>Hex and comparison helpers\<close>

fun hex_loop :: "string \<Rightarrow> units \<Rightarrow> bytes res" where
  "hex_loop field (c # d # s) =
     (case parseInt16 [c, d] of None \<Rightarrow> Inl (HexDigitErr field)
      | Some v \<Rightarrow> rbind (hex_loop field s) (\<lambda>bs. Inr (word_of_int v # bs)))"
| "hex_loop field _ = Inr []"

definition hexToBytes :: "units \<Rightarrow> nat \<Rightarrow> string \<Rightarrow> bytes res" where
  "hexToBytes hex expectedLen field =
     (let s = strip_0x hex in
      if length s mod 2 \<noteq> 0 then Inl (HexOddErr field (length s))
      else rbind (hex_loop field s) (\<lambda>out.
        if length out \<noteq> expectedLen then Inl (HexLenErr field expectedLen (length out))
        else Inr out))"

fun bytes_loop :: "bytes \<Rightarrow> bytes \<Rightarrow> bool" where
  "bytes_loop (a # as) (b # bs) = (if a \<noteq> b then False else bytes_loop as bs)"
| "bytes_loop _ _ = True"

definition bytesEqual :: "bytes \<Rightarrow> bytes \<Rightarrow> bool" where
  "bytesEqual a b = (if length a \<noteq> length b then False else bytes_loop a b)"

fun diff_loop :: "int \<Rightarrow> bytes \<Rightarrow> bytes \<Rightarrow> int option" where
  "diff_loop i (a # as) (b # bs) = (if a \<noteq> b then Some i else diff_loop (i + 1) as bs)"
| "diff_loop i _ _ = None"

definition firstDiff :: "bytes \<Rightarrow> bytes \<Rightarrow> int" where
  "firstDiff a b =
     (case diff_loop 0 a b of Some i \<Rightarrow> i
      | None \<Rightarrow> if length a = length b then -1 else int (min (length a) (length b)))"

section \<open>The bridge\<close>

record runner_seeds =
  rs_seed_prefix :: string
  rs_oracle :: string
  rs_proposer :: string

record runner_output =
  ru_option_index :: int
  ru_model_id_hex :: units
  ru_params_hash_hex :: units
  ru_io_hash_hex :: units
  ru_payload_hex :: units
  ru_resolved_model_id :: utext
  ru_claim_pda_seeds :: "runner_seeds option"

record 'a runner_opts =
  rp_oracle :: "'a address_input"
  rp_proposer :: "'a address_input"
  rp_authority :: "'a address_input"
  rp_programId :: "'a option"

text \<open>The optional cross-check of the PDA seeds.\<close>

definition check_seeds ::
  "'a web3 \<Rightarrow> runner_seeds \<Rightarrow> 'a runner_opts \<Rightarrow> unit res" where
  "check_seeds W seeds opts =
     (if rs_seed_prefix seeds \<noteq> ''claim'' then Inl (SeedErr ''seed_prefix'')
      else
       rbind (asBase58 W (rp_oracle opts)) (\<lambda>passedOracle.
       rbind (asBase58 W (rp_proposer opts)) (\<lambda>passedProposer.
       rbind (asBase58 W (B58 (rs_oracle seeds))) (\<lambda>o1.
       if o1 \<noteq> passedOracle then Inl (SeedErr ''oracle'')
       else
        rbind (asBase58 W (B58 (rs_proposer seeds))) (\<lambda>p1.
        if p1 \<noteq> passedProposer then Inl (SeedErr ''proposer'') else Inr ())))))"

definition submitAiClaimFromRunner ::
  "'a web3 \<Rightarrow> runner_output \<Rightarrow> 'a runner_opts \<Rightarrow> 'a tx_instruction res" where
  "submitAiClaimFromRunner W run opts =
     rbind (hexToBytes (ru_model_id_hex run) 32 ''model_id_hex'') (\<lambda>modelId.
     rbind (hexToBytes (ru_params_hash_hex run) 32 ''params_hash_hex'') (\<lambda>paramsHash.
     rbind (hexToBytes (ru_io_hash_hex run) 32 ''io_hash_hex'') (\<lambda>ioHash.
     let option = ru_option_index run in
     rbind (hexToBytes (ru_payload_hex run) 97 ''submit_ai_claim_payload_hex'') (\<lambda>expectedPayload.
     rbind (submitAiClaim W \<lparr>aca_oracle = rp_oracle opts, aca_proposer = rp_proposer opts,
         aca_authority = rp_authority opts, aca_modelId = modelId, aca_paramsHash = paramsHash,
         aca_ioHash = ioHash, aca_option = option, aca_programId = rp_programId opts\<rparr>)
       (\<lambda>instruction.
     let data = ti_data instruction in
     if length data \<noteq> 98 then Inl (ParityLenErr (length data))
     else if uint (hd data) \<noteq> ix_code Ix_SubmitAiClaim then Inl (ParityDiscErr (uint (hd data)))
     else (let sdkPayload = js_slice data 1 98 in
       if \<not> bytesEqual sdkPayload expectedPayload
       then Inl (ParityErr (firstDiff sdkPayload expectedPayload))
       else rbind (case ru_claim_pda_seeds run of None \<Rightarrow> Inr ()
                   | Some seeds \<Rightarrow> check_seeds W seeds opts) (\<lambda>_. Inr instruction)))))))"

section \<open>Lemmas\<close>

lemma bytesEqual_iff: "bytesEqual a b \<longleftrightarrow> a = b"
proof -
  have "length a = length b \<Longrightarrow> bytes_loop a b \<longleftrightarrow> a = b"
    by (induction a b rule: list_induct2) auto
  then show ?thesis by (auto simp: bytesEqual_def)
qed

lemma diff_loop_Some:
  "diff_loop i a b = Some j \<Longrightarrow>
     i \<le> j \<and> nat (j - i) < min (length a) (length b) \<and> a ! nat (j - i) \<noteq> b ! nat (j - i)
     \<and> take (nat (j - i)) a = take (nat (j - i)) b"
proof (induction i a b rule: diff_loop.induct)
  case (1 i a as b bs)
  show ?case
  proof (cases "a = b")
    case True
    then have "i + 1 \<le> j \<and> nat (j - (i + 1)) < min (length as) (length bs)
        \<and> as ! nat (j - (i + 1)) \<noteq> bs ! nat (j - (i + 1))
        \<and> take (nat (j - (i + 1))) as = take (nat (j - (i + 1))) bs"
      using 1 by simp
    moreover have "i + 1 \<le> j \<Longrightarrow> nat (j - i) = Suc (nat (j - (i + 1)))" by simp
    ultimately show ?thesis using True by simp
  next
    case False
    then show ?thesis using 1 by simp
  qed
qed simp_all

lemma diff_loop_None: "diff_loop i a b = None \<Longrightarrow> length a = length b \<Longrightarrow> a = b"
  by (induction i a b rule: diff_loop.induct) (auto split: if_splits)

lemma hexToBytes_length: "hexToBytes s n f = Inr b \<Longrightarrow> length b = n"
  by (auto simp: hexToBytes_def Let_def rbind_Inr_iff split: if_splits)

lemma submitAiClaim_data:
  assumes "submitAiClaim W a = Inr t"
  shows "ti_data t = u8 3 @ aca_modelId a @ aca_paramsHash a @ aca_ioHash a @ u8 (aca_option a)"
  using assms
  by (clarsimp simp: submitAiClaim_def call_opens simp del: collect.simps)

lemma hd_u8_3: "uint (hd (u8 3 @ xs)) = 3"
  by (simp add: u8_def)

lemma submitAiClaim_guards:
  assumes "submitAiClaim W a = Inr t"
    and "length (aca_modelId a) = 32" "length (aca_paramsHash a) = 32" "length (aca_ioHash a) = 32"
  shows "length (ti_data t) = 98" "uint (hd (ti_data t)) = ix_code Ix_SubmitAiClaim"
    "js_slice (ti_data t) 1 98 = ix_payload t"
proof -
  show l: "length (ti_data t) = 98" using submitAiClaim_data [OF assms(1)] assms by simp
  show "uint (hd (ti_data t)) = ix_code Ix_SubmitAiClaim"
    by (simp only: submitAiClaim_data [OF assms(1)] hd_u8_3) simp
  show "js_slice (ti_data t) 1 98 = ix_payload t"
    using l by (cases "ti_data t") (simp_all add: js_slice_def ix_payload_def)
qed

lemma asBase58_eq:
  assumes "web3_ok W"
  shows "asBase58 W x = Inr s \<and> asBase58 W y = Inr s
    \<longleftrightarrow> (\<exists>a. addr W x = Inr a \<and> addr W y = Inr a \<and> s = w3_string W a)"
  using web3_string_inj [OF assms] by (auto simp: asBase58_def rmap_Inr_iff)

text \<open>The accounts that the runner's seeds name are the ones passed.\<close>

definition seeds_agree :: "'a web3 \<Rightarrow> runner_seeds \<Rightarrow> 'a runner_opts \<Rightarrow> bool" where
  "seeds_agree W seeds opts \<longleftrightarrow>
     rs_seed_prefix seeds = ''claim'' \<and> is_ok (addr W (rp_oracle opts)) \<and>
     addr W (B58 (rs_oracle seeds)) = addr W (rp_oracle opts) \<and>
     is_ok (addr W (rp_proposer opts)) \<and>
     addr W (B58 (rs_proposer seeds)) = addr W (rp_proposer opts)"

lemma check_seeds_iff:
  assumes "web3_ok W"
  shows "check_seeds W seeds opts = Inr u \<longleftrightarrow> seeds_agree W seeds opts"
  using web3_string_inj [OF assms]
  by (cases "addr W (rp_oracle opts)"; cases "addr W (rp_proposer opts)";
      cases "addr W (B58 (rs_oracle seeds))"; cases "addr W (B58 (rs_proposer seeds))")
    (auto simp: check_seeds_def seeds_agree_def asBase58_def simp del: addr.simps)

text \<open>
  The bridge without its two unreachable guards: the builder always returns 98 bytes with
  its discriminant, so only the payload comparison and the seeds can fail.
\<close>

definition bridge_tail ::
  "'a web3 \<Rightarrow> runner_output \<Rightarrow> 'a runner_opts \<Rightarrow> bytes \<Rightarrow> 'a tx_instruction \<Rightarrow> 'a tx_instruction res"
  where
  "bridge_tail W run opts x t =
     (if ix_payload t \<noteq> x then Inl (ParityErr (firstDiff (ix_payload t) x))
      else rbind (case ru_claim_pda_seeds run of None \<Rightarrow> Inr ()
                   | Some seeds \<Rightarrow> check_seeds W seeds opts) (\<lambda>_. Inr t))"

definition bridge_args :: "runner_output \<Rightarrow> 'a runner_opts \<Rightarrow> bytes \<Rightarrow> bytes \<Rightarrow> bytes \<Rightarrow> 'a submitAiClaim_args"
  where
  "bridge_args run opts m p h = \<lparr>aca_oracle = rp_oracle opts, aca_proposer = rp_proposer opts,
     aca_authority = rp_authority opts, aca_modelId = m, aca_paramsHash = p,
     aca_ioHash = h, aca_option = ru_option_index run, aca_programId = rp_programId opts\<rparr>"

lemma bridge_eq:
  assumes "hexToBytes (ru_model_id_hex run) 32 ''model_id_hex'' = Inr m"
    and "hexToBytes (ru_params_hash_hex run) 32 ''params_hash_hex'' = Inr p"
    and "hexToBytes (ru_io_hash_hex run) 32 ''io_hash_hex'' = Inr h"
    and "hexToBytes (ru_payload_hex run) 97 ''submit_ai_claim_payload_hex'' = Inr x"
  shows "submitAiClaimFromRunner W run opts
    = rbind (submitAiClaim W (bridge_args run opts m p h)) (bridge_tail W run opts x)"
proof (cases "submitAiClaim W (bridge_args run opts m p h)")
  case (Inl e)
  then show ?thesis by (simp add: submitAiClaimFromRunner_def assms bridge_args_def Let_def)
next
  case (Inr t)
  have "length m = 32" "length p = 32" "length h = 32" using assms hexToBytes_length by blast+
  then have g: "length (ti_data t) = 98" "uint (hd (ti_data t)) = ix_code Ix_SubmitAiClaim"
    "js_slice (ti_data t) 1 98 = ix_payload t"
    using submitAiClaim_guards [OF Inr] by (simp_all add: bridge_args_def)
  show ?thesis
    using Inr g
    by (simp add: submitAiClaimFromRunner_def assms bridge_args_def Let_def bytesEqual_iff
        bridge_tail_def del: ix_code.simps)
qed

lemma bridge_hex:
  assumes "submitAiClaimFromRunner W run opts = Inr t"
  obtains m p h x where "hexToBytes (ru_model_id_hex run) 32 ''model_id_hex'' = Inr m"
    "hexToBytes (ru_params_hash_hex run) 32 ''params_hash_hex'' = Inr p"
    "hexToBytes (ru_io_hash_hex run) 32 ''io_hash_hex'' = Inr h"
    "hexToBytes (ru_payload_hex run) 97 ''submit_ai_claim_payload_hex'' = Inr x"
  using assms by (auto simp: submitAiClaimFromRunner_def rbind_Inr_iff Let_def)

lemma bridge_tail_iff:
  assumes "web3_ok W"
  shows "bridge_tail W run opts x t = Inr t' \<longleftrightarrow> t' = t \<and> ix_payload t = x
    \<and> (case ru_claim_pda_seeds run of None \<Rightarrow> True | Some s \<Rightarrow> seeds_agree W s opts)"
  using check_seeds_iff [OF assms]
  by (auto simp: bridge_tail_def rbind_Inr_iff split: option.splits)

lemma bridge_payload:
  "submitAiClaim W (bridge_args run opts m p h) = Inr t
    \<Longrightarrow> ix_payload t = m @ p @ h @ u8 (ru_option_index run)"
  by (drule submitAiClaim_payload) (simp add: bridge_args_def)

section \<open>Properties\<close>

text \<open>
  C39: The runner bridge returns an instruction exactly when nothing drifted. It succeeds if
  and only if the four hex fields decode to their widths, the builder accepts them, the
  payload that the program will parse is byte for byte the runner's payload, and the PDA
  seeds, when present, name the passed accounts; and then the instruction is the builder's,
  its payload parsing back to the runner's hashes and option byte.
\<close>

theorem runner_bridge_exact:
  assumes "web3_ok W"
  shows "submitAiClaimFromRunner W run opts = Inr t \<longleftrightarrow>
    (\<exists>m p h x. hexToBytes (ru_model_id_hex run) 32 ''model_id_hex'' = Inr m
      \<and> hexToBytes (ru_params_hash_hex run) 32 ''params_hash_hex'' = Inr p
      \<and> hexToBytes (ru_io_hash_hex run) 32 ''io_hash_hex'' = Inr h
      \<and> hexToBytes (ru_payload_hex run) 97 ''submit_ai_claim_payload_hex'' = Inr x
      \<and> submitAiClaim W (bridge_args run opts m p h) = Inr t
      \<and> ix_payload t = x \<and> x = m @ p @ h @ u8 (ru_option_index run)
      \<and> (case ru_claim_pda_seeds run of None \<Rightarrow> True | Some s \<Rightarrow> seeds_agree W s opts))"
    (is "?L \<longleftrightarrow> ?R")
proof
  assume L: ?L
  then obtain m p h x where x: "hexToBytes (ru_model_id_hex run) 32 ''model_id_hex'' = Inr m"
    "hexToBytes (ru_params_hash_hex run) 32 ''params_hash_hex'' = Inr p"
    "hexToBytes (ru_io_hash_hex run) 32 ''io_hash_hex'' = Inr h"
    "hexToBytes (ru_payload_hex run) 97 ''submit_ai_claim_payload_hex'' = Inr x"
    by (rule bridge_hex)
  with L bridge_eq [OF x, of W opts] show ?R
    using bridge_payload by (fastforce simp: rbind_Inr_iff bridge_tail_iff [OF assms])
next
  assume ?R
  then show ?L
    using bridge_eq [of run _ _ _ _ W opts] by (fastforce simp: bridge_tail_iff [OF assms])
qed

definition sample_hash :: units where
  "sample_hash = concat (replicate 32 [48, 97])"

definition sample_run :: runner_output where
  "sample_run = \<lparr>ru_option_index = 1, ru_model_id_hex = sample_hash,
     ru_params_hash_hex = [48, 120] @ sample_hash, ru_io_hash_hex = sample_hash,
     ru_payload_hex = sample_hash @ sample_hash @ sample_hash @ [48, 49],
     ru_resolved_model_id = [], ru_claim_pda_seeds = None\<rparr>"

definition sample_opts :: "256 word runner_opts" where
  "sample_opts = \<lparr>rp_oracle = Addr 3, rp_proposer = Addr 4, rp_authority = Addr 5,
     rp_programId = None\<rparr>"

lemma sample_hex:
  "hexToBytes sample_hash 32 f = Inr (replicate 32 10)"
  "hexToBytes (48 # 120 # sample_hash) 32 f = Inr (replicate 32 10)"
  "hexToBytes (sample_hash @ sample_hash @ sample_hash @ [48, 49]) 97 f
    = Inr (replicate 96 10 @ [1])"
  by code_simp+

theorem runner_bridge_exact_witness:
  "\<exists>t. submitAiClaimFromRunner sample_web3 sample_run sample_opts = Inr t
     \<and> ix_payload t = replicate 96 10 @ [1]"
proof -
  let ?a = "bridge_args sample_run sample_opts (replicate 32 10) (replicate 32 10) (replicate 32 10)"
  have "is_ok (submitAiClaim sample_web3 ?a)"
    by (simp add: submitAiClaim_def bridge_args_def sample_opts_def sample_web3_def Let_def
        pda_aiClaim_def derive_def program_or_def)
  then obtain t where t: "submitAiClaim sample_web3 ?a = Inr t" by (auto simp: is_ok_iff)
  have p: "ix_payload t = replicate 32 10 @ replicate 32 10 @ replicate 32 10 @ u8 1"
    using bridge_payload [OF t] by (simp add: sample_run_def)
  then have "ix_payload t = replicate 96 10 @ [1]"
    by (simp add: u8_def replicate_add [symmetric] append_assoc [symmetric] del: append_assoc)
  then have "submitAiClaimFromRunner sample_web3 sample_run sample_opts = Inr t"
    using runner_bridge_exact [OF sample_web3_ok, of sample_run sample_opts t] t p
    by (auto simp: sample_run_def sample_hex)
  then show ?thesis using \<open>ix_payload t = replicate 96 10 @ [1]\<close> by blast
qed

text \<open>
  The drift report points at the drift. When the four hex fields decode and the builder
  accepts them but the payloads differ, the bridge throws the parity error with the index of
  the first differing byte: the two payloads agree before that index and differ at it.
\<close>

theorem runner_bridge_reports_first_diff:
  assumes "hexToBytes (ru_model_id_hex run) 32 ''model_id_hex'' = Inr m"
    and "hexToBytes (ru_params_hash_hex run) 32 ''params_hash_hex'' = Inr p"
    and "hexToBytes (ru_io_hash_hex run) 32 ''io_hash_hex'' = Inr h"
    and "hexToBytes (ru_payload_hex run) 97 ''submit_ai_claim_payload_hex'' = Inr x"
    and "submitAiClaim W (bridge_args run opts m p h) = Inr t" "ix_payload t \<noteq> x"
  shows "\<exists>i<97. submitAiClaimFromRunner W run opts = Inl (ParityErr (int i))
    \<and> ix_payload t ! i \<noteq> x ! i \<and> take i (ix_payload t) = take i x"
proof -
  have len: "length (ix_payload t) = length x" "length x = 97"
    using bridge_payload [OF assms(5)] hexToBytes_length [OF assms(1)]
      hexToBytes_length [OF assms(2)] hexToBytes_length [OF assms(3)]
      hexToBytes_length [OF assms(4)] by simp_all
  then obtain j where j: "diff_loop 0 (ix_payload t) x = Some j"
    using diff_loop_None [of 0 "ix_payload t" x] assms(6) by (cases "diff_loop 0 (ix_payload t) x") auto
  have "submitAiClaimFromRunner W run opts = Inl (ParityErr j)"
    using bridge_eq [OF assms(1-4), of W opts] assms(5,6) j by (simp add: bridge_tail_def firstDiff_def)
  then show ?thesis
    using diff_loop_Some [OF j] len by (intro exI [of _ "nat j"]) auto
qed

theorem runner_bridge_reports_first_diff_witness:
  "\<exists>i<97. submitAiClaimFromRunner sample_web3 (sample_run\<lparr>ru_option_index := 2\<rparr>) sample_opts
     = Inl (ParityErr (int i))"
proof -
  let ?r = "sample_run\<lparr>ru_option_index := 2\<rparr>"
  let ?b = "replicate 32 10 :: bytes"
  have "is_ok (submitAiClaim sample_web3 (bridge_args ?r sample_opts ?b ?b ?b))"
    by (simp add: submitAiClaim_def bridge_args_def sample_opts_def sample_web3_def Let_def
        pda_aiClaim_def derive_def program_or_def)
  then obtain t where t: "submitAiClaim sample_web3 (bridge_args ?r sample_opts ?b ?b ?b) = Inr t"
    by (auto simp: is_ok_iff)
  have "last (ix_payload t) = 2" using bridge_payload [OF t] by (simp add: sample_run_def u8_def)
  then have "ix_payload t \<noteq> replicate 96 10 @ [1]" by auto
  then show ?thesis
    using runner_bridge_reports_first_diff [OF _ _ _ _ t, of "replicate 96 10 @ [1]"]
    by (auto simp: sample_run_def sample_hex)
qed

text \<open>
  The hex check lets some non-hex text through. \<open>hexToBytes\<close> is meant to reject every
  character that is not a hex digit, but \<open>Number.parseInt\<close> reads the longest prefix: a digit
  followed by any other character decodes to the digit alone, and a sign before a digit is
  read as the sign.
\<close>

theorem hex_check_accepts_prefix:
  assumes "hex_digit c = Some d" "hex_digit x = None" "x \<noteq> 120" "x \<noteq> 88"
  shows "hexToBytes [c, x] 1 field = Inr [word_of_int d]
    \<and> hexToBytes [45, c] 1 field = Inr [word_of_int (- d)]"
proof -
  have c: "\<not> js_space c" "c \<noteq> 43" "c \<noteq> 45"
    using assms(1) by (auto simp: hex_digit_def js_space_def split: if_splits)
  have "parseInt16 [c, x] = Some d" "parseInt16 [45, c] = Some (- d)"
    using assms c by (simp_all add: parseInt16_def parse_digits_def strip_0x_def js_space_def)
  then show ?thesis using assms by (simp add: hexToBytes_def Let_def strip_0x_def)
qed

theorem hex_check_accepts_prefix_witness:
  "hexToBytes [49, 103] 1 ''proof'' = Inr [1] \<and> hexToBytes [45, 49] 1 ''proof'' = Inr [255]"
  using hex_check_accepts_prefix [of 49 1 103 "''proof''"] by (simp add: hex_digit_def)

end
