(* ===== verification/V0_Alt.thy ===== *)
theory V0_Alt
  imports Payload
begin

text \<open>
  The versioned-transaction path for finalizes with many proposers
  (\<open>sdks/oracles/ts/src/v0.ts\<close>): publishing the addresses in a lookup table by chunks,
  waiting until the table is usable, and sending the finalize over it. The cluster is a
  parameter: \<open>nt_submit\<close> is the outcome of signing and sending the k-th transaction,
  \<open>nt_confirm\<close> the \<open>ConfirmFn\<close> callback, and a polling loop reads a list of observations (the clock, then what the RPC answered);
  \<open>None\<close> is a loop that has not ended when the observations are over. The chunk loop is a
  \<open>partial_function\<close>, because it does not end for a chunk size of zero.
\<close>

section \<open>Polling loops\<close>

text \<open>One poll of \<open>confirmSignature\<close>: the clock at the test, and the signature status.\<close>

datatype sig_status = NoStatus | Failed string | Processed | Confirmed | Finalized

fun confirm_poll :: "int \<Rightarrow> (int \<times> sig_status) list \<Rightarrow> unit res option" where
  "confirm_poll deadline [] = None"
| "confirm_poll deadline ((now, st) # polls) =
     (if \<not> now < deadline then Some (Inl (OtherErr ''not confirmed''))
      else (case st of
          Failed e \<Rightarrow> Some (Inl (OtherErr e))
        | Confirmed \<Rightarrow> Some (Inr ())
        | Finalized \<Rightarrow> Some (Inr ())
        | NoStatus \<Rightarrow> confirm_poll deadline polls
        | Processed \<Rightarrow> confirm_poll deadline polls))"

definition confirmSignature :: "int \<Rightarrow> int \<Rightarrow> (int \<times> sig_status) list \<Rightarrow> unit res option" where
  "confirmSignature start timeoutMs polls = confirm_poll (start + timeoutMs) polls"

text \<open>A lookup-table account as the RPC returns it.\<close>

record 'a lookup_table =
  lt_key :: 'a
  lt_addresses :: "'a list"
  lt_active :: bool
  lt_lastExtendedSlot :: nat

text \<open>One poll of \<open>waitForActiveLookupTable\<close>: the clock, the fetched account, the slot.\<close>

fun wait_poll ::
  "nat \<Rightarrow> int \<Rightarrow> (int \<times> 'a lookup_table option \<times> nat) list \<Rightarrow> 'a lookup_table res option" where
  "wait_poll expectedCount deadline [] = None"
| "wait_poll expectedCount deadline ((now, value, slot) # polls) =
     (if \<not> now < deadline then Some (Inl (OtherErr ''ALT did not become active''))
      else (case value of
          None \<Rightarrow> wait_poll expectedCount deadline polls
        | Some t \<Rightarrow>
            if length (lt_addresses t) \<ge> expectedCount
            then (if lt_active t \<and> slot > lt_lastExtendedSlot t then Some (Inr t)
                  else wait_poll expectedCount deadline polls)
            else wait_poll expectedCount deadline polls))"

definition waitForActiveLookupTable ::
  "nat \<Rightarrow> int \<Rightarrow> int \<Rightarrow> (int \<times> 'a lookup_table option \<times> nat) list \<Rightarrow> 'a lookup_table res option" where
  "waitForActiveLookupTable expectedCount start timeoutMs polls =
     wait_poll expectedCount (start + timeoutMs) polls"

section \<open>Publishing a table\<close>

definition DEFAULT_EXTEND_CHUNK :: nat where
  "DEFAULT_EXTEND_CHUNK = 30"

text \<open>What is signed and sent: the create, an extend with its addresses, the finalize.\<close>

datatype 'a alt_tx =
    CreateTable nat
  | ExtendTable 'a "'a list"
  | Finalize "'a tx_instruction list" "'a lookup_table list"

record 'a network =
  nt_slot :: nat
  nt_table :: "nat \<Rightarrow> 'a"
  nt_submit :: "nat \<Rightarrow> 'a alt_tx \<Rightarrow> string res"
  nt_confirm :: "string \<Rightarrow> unit res"
  nt_start :: int
  nt_polls :: "(int \<times> 'a lookup_table option \<times> nat) list"

text \<open>Send the k-th transaction, then wait for its confirmation.\<close>

definition sendLegacy :: "'a network \<Rightarrow> nat \<Rightarrow> 'a alt_tx \<Rightarrow> string res" where
  "sendLegacy N k tx =
     (case nt_submit N k tx of
        Inl e \<Rightarrow> Inl e
      | Inr sig \<Rightarrow> (case nt_confirm N sig of Inl e \<Rightarrow> Inl e | Inr u \<Rightarrow> Inr sig))"

definition sendV0 ::
  "'a network \<Rightarrow> nat \<Rightarrow> 'a tx_instruction list \<Rightarrow> 'a lookup_table list \<Rightarrow> string res" where
  "sendV0 N k instructions lookupTableAccounts =
     (case nt_submit N k (Finalize instructions lookupTableAccounts) of
        Inl e \<Rightarrow> Inl e
      | Inr sig \<Rightarrow> (case nt_confirm N sig of Inl e \<Rightarrow> Inl e | Inr u \<Rightarrow> Inr sig))"

text \<open>The extend loop: the sent transactions so far and the number of the next one.\<close>

partial_function (option) extend_loop ::
  "'a network \<Rightarrow> 'a \<Rightarrow> 'a list \<Rightarrow> nat \<Rightarrow> nat \<Rightarrow> 'a alt_tx list \<Rightarrow> ('a alt_tx list \<times> unit res) option"
  where
  "extend_loop N table addresses chunk i sent =
     (if \<not> i < length addresses then Some (sent, Inr ())
      else (let tx = ExtendTable table (js_slice addresses i (i + chunk)) in
        case sendLegacy N (length sent) tx of
          Inl e \<Rightarrow> Some (sent @ [tx], Inl e)
        | Inr sig \<Rightarrow> extend_loop N table addresses chunk (i + chunk) (sent @ [tx])))"

definition createProposerAlt ::
  "'a network \<Rightarrow> 'a list \<Rightarrow> nat option \<Rightarrow> int option
    \<Rightarrow> ('a alt_tx list \<times> 'a lookup_table res) option" where
  "createProposerAlt N addresses extendChunkSize activateTimeoutMs =
     (let chunk = (case extendChunkSize of None \<Rightarrow> DEFAULT_EXTEND_CHUNK | Some c \<Rightarrow> c);
          create = CreateTable (nt_slot N);
          table = nt_table N (nt_slot N) in
      case sendLegacy N 0 create of
        Inl e \<Rightarrow> Some ([create], Inl e)
      | Inr sig \<Rightarrow>
          (case extend_loop N table addresses chunk 0 [create] of
             None \<Rightarrow> None
           | Some (sent, Inl e) \<Rightarrow> Some (sent, Inl e)
           | Some (sent, Inr u) \<Rightarrow>
               map_option (Pair sent)
                 (waitForActiveLookupTable (length addresses) (nt_start N)
                   (case activateTimeoutMs of None \<Rightarrow> 30000 | Some t \<Rightarrow> t) (nt_polls N))))"

definition sendFinalizeViaAlt ::
  "'a network \<Rightarrow> 'a tx_instruction \<Rightarrow> 'a list \<Rightarrow> 'a tx_instruction list option \<Rightarrow> nat option
    \<Rightarrow> ('a alt_tx list \<times> (string \<times> 'a lookup_table) res) option" where
  "sendFinalizeViaAlt N instruction lookupAddresses prependInstructions extendChunkSize =
     (case createProposerAlt N lookupAddresses extendChunkSize None of
        None \<Rightarrow> None
      | Some (sent, Inl e) \<Rightarrow> Some (sent, Inl e)
      | Some (sent, Inr table) \<Rightarrow>
          (let ixs = (case prependInstructions of None \<Rightarrow> [] | Some p \<Rightarrow> p) @ [instruction] in
           Some (sent @ [Finalize ixs [table]],
             rmap (\<lambda>sig. (sig, table)) (sendV0 N (length sent) ixs [table]))))"

section \<open>Chunks\<close>

fun extended :: "'a alt_tx \<Rightarrow> 'a list" where
  "extended (ExtendTable t as) = as"
| "extended _ = []"

text \<open>The chunks of a list, the reference definition of the extend loop.\<close>

function chunks :: "nat \<Rightarrow> 'a list \<Rightarrow> 'a list list" where
  "chunks c xs = (if xs = [] \<or> c = 0 then [] else take c xs # chunks c (drop c xs))"
  by auto
termination
  by (relation "measure (\<lambda>(c, xs). length xs)") (auto simp: neq_Nil_conv)

declare chunks.simps [simp del]

lemma concat_chunks: "0 < c \<Longrightarrow> concat (chunks c xs) = xs"
proof (induction c xs rule: chunks.induct)
  case (1 c xs)
  then show ?case by (subst chunks.simps) auto
qed

lemma chunks_bounds: "ch \<in> set (chunks c xs) \<Longrightarrow> ch \<noteq> [] \<and> length ch \<le> c"
proof (induction c xs rule: chunks.induct)
  case (1 c xs)
  show ?case
  proof (cases "xs = [] \<or> c = 0")
    case True
    then show ?thesis using "1.prems" by (simp add: chunks.simps)
  next
    case False
    then have "ch = take c xs \<or> ch \<in> set (chunks c (drop c xs))"
      using "1.prems" by (subst (asm) chunks.simps) auto
    then show ?thesis using "1.IH" False by auto
  qed
qed

lemma length_chunks: "0 < c \<Longrightarrow> length (chunks c xs) = (length xs + c - 1) div c"
proof (induction c xs rule: chunks.induct)
  case (1 c xs)
  show ?case
  proof (cases "xs = []")
    case True
    then show ?thesis using "1.prems" by (simp add: chunks.simps)
  next
    case False
    then have "length (chunks c xs) = Suc ((length xs - c + c - 1) div c)"
      using 1 by (subst chunks.simps) simp
    also have "\<dots> = (length xs + c - 1) div c"
    proof (cases "length xs \<le> c")
      case True
      then have l: "length xs + c - 1 = c + (length xs - 1)" and s: "length xs - 1 < c"
        using \<open>xs \<noteq> []\<close> "1.prems" by (cases xs; simp)+
      have "(length xs + c - 1) div c = Suc ((length xs - 1) div c)"
        unfolding l using "1.prems" by (simp add: div_add_self1)
      moreover have "length xs - c + c - 1 = c - 1" "(c - 1) div c = 0" "(length xs - 1) div c = 0"
        using True s "1.prems" by auto
      ultimately show ?thesis by simp
    next
      case False
      then have "length xs + c - 1 = c + (length xs - c + c - 1)" using 1(2) by simp
      then show ?thesis using 1(2) by (metis add.commute div_add_self2 less_irrefl plus_1_eq_Suc)
    qed
    finally show ?thesis .
  qed
qed

text \<open>With accepted transactions the loop sends the chunks; in general a prefix of them.\<close>

lemma extend_loop_chunks:
  assumes "0 < chunk"
  shows "\<exists>k r. extend_loop N t as chunk i sent
      = Some (sent @ map (ExtendTable t) (take k (chunks chunk (drop i as))), r)
    \<and> (r = Inr () \<longrightarrow> length (chunks chunk (drop i as)) \<le> k)
    \<and> ((\<forall>n tx. is_ok (sendLegacy N n tx)) \<longrightarrow> r = Inr ())"
  using assms
proof (induction "length as - i" arbitrary: i sent rule: less_induct)
  case less
  show ?case
  proof (cases "i < length as")
    case False
    then show ?thesis
      by (subst extend_loop.simps) (auto simp: chunks.simps intro: exI [of _ 0])
  next
    case True
    let ?tx = "ExtendTable t (take chunk (drop i as))"
    have c: "chunks chunk (drop i as) = take chunk (drop i as) # chunks chunk (drop (i + chunk) as)"
      using True less.prems by (subst chunks.simps) (simp add: add.commute)
    have sl: "js_slice as i (i + chunk) = take chunk (drop i as)" by (simp add: js_slice_def)
    show ?thesis
    proof (cases "sendLegacy N (length sent) ?tx")
      case (Inl e)
      then have "extend_loop N t as chunk i sent = Some (sent @ [?tx], Inl e)"
        using True by (subst extend_loop.simps) (simp add: Let_def sl)
      moreover have "\<not> (\<forall>n tx. is_ok (sendLegacy N n tx))"
        using Inl by (metis is_ok.simps(1))
      ultimately show ?thesis
        by (intro exI [of _ 1] exI [of _ "Inl e"]) (simp add: c)
    next
      case (Inr sg)
      then have e: "extend_loop N t as chunk i sent
          = extend_loop N t as chunk (i + chunk) (sent @ [?tx])"
        using True by (subst extend_loop.simps) (simp add: Let_def sl)
      have "length as - (i + chunk) < length as - i" using True less.prems by simp
      from less.hyps [OF this less.prems, of "sent @ [?tx]"] obtain k r where
        "extend_loop N t as chunk (i + chunk) (sent @ [?tx])
          = Some ((sent @ [?tx]) @ map (ExtendTable t) (take k (chunks chunk (drop (i + chunk) as))), r)"
        "r = Inr () \<longrightarrow> length (chunks chunk (drop (i + chunk) as)) \<le> k"
        "(\<forall>n tx. is_ok (sendLegacy N n tx)) \<longrightarrow> r = Inr ()"
        by blast
      then show ?thesis using e
        by (intro exI [of _ "Suc k"] exI [of _ r]) (simp add: c)
    qed
  qed
qed

text \<open>With a chunk size of zero the loop never ends unless a send fails.\<close>

lemma extend_loop_zero:
  assumes "extend_loop N t as chunk i sent = Some y" "chunk = 0" "i < length as"
  shows "\<not> (\<forall>n tx. is_ok (sendLegacy N n tx))"
proof -
  have "chunk = 0 \<longrightarrow> i < length as \<longrightarrow> \<not> (\<forall>n tx. is_ok (sendLegacy N n tx))"
  proof (rule extend_loop.raw_induct [OF _ assms(1), where P = "\<lambda>N t as chunk i sent y.
      chunk = 0 \<longrightarrow> i < length as \<longrightarrow> \<not> (\<forall>n tx. is_ok (sendLegacy N n tx))"], goal_cases)
    case (1 f N t as chunk i sent y)
    show ?case
    proof (intro impI)
      assume z: "chunk = 0" "i < length as"
      show "\<not> (\<forall>n tx. is_ok (sendLegacy N n tx))"
      proof (cases "sendLegacy N (length sent) (ExtendTable t (js_slice as i (i + chunk)))")
        case (Inl e)
        then show ?thesis by (metis is_ok.simps(1))
      next
        case (Inr sg)
        then show ?thesis using 1(2) 1(1) z by (auto simp: Let_def)
      qed
    qed
  qed
  then show ?thesis using assms by blast
qed

text \<open>What a wait returns: a table it observed, complete, active and past its last extend.\<close>

lemma wait_poll_returns:
  assumes "wait_poll n d polls = Some (Inr t)"
  shows "\<exists>now slot. (now, Some t, slot) \<in> set polls \<and> now < d \<and> n \<le> length (lt_addresses t)
    \<and> lt_active t \<and> lt_lastExtendedSlot t < slot"
  using assms
proof (induction n d polls rule: wait_poll.induct)
  case (2 n d now v slot polls)
  then show ?case by (fastforce split: if_splits option.splits)
qed simp

lemma confirm_poll_ok:
  "confirm_poll d polls = Some (Inr ()) \<Longrightarrow>
    \<exists>k now st. k < length polls \<and> polls ! k = (now, st) \<and> now < d \<and> st \<in> {Confirmed, Finalized}
      \<and> (\<forall>j < k. snd (polls ! j) \<in> {NoStatus, Processed})"
proof (induction d polls rule: confirm_poll.induct)
  case (2 d now st polls)
  show ?case
  proof (cases "st \<in> {Confirmed, Finalized}")
    case True
    then show ?thesis using "2.prems"
      by (intro exI [of _ 0] exI [of _ now] exI [of _ st]) (auto split: if_splits)
  next
    case False
    then have st: "st \<in> {NoStatus, Processed}" and now: "now < d"
      and r: "confirm_poll d polls = Some (Inr ())"
      using "2.prems" by (cases st; simp split: if_splits)+
    then obtain k now' st' where k: "k < length polls" "polls ! k = (now', st')" "now' < d"
      "st' \<in> {Confirmed, Finalized}" "\<forall>j < k. snd (polls ! j) \<in> {NoStatus, Processed}"
      using 2 by (cases st) auto
    then show ?thesis using st
      by (intro exI [of _ "Suc k"] exI [of _ now'] exI [of _ st']) (auto simp: nth_Cons split: nat.split)
  qed
qed simp

lemma createProposerAlt_ok:
  assumes "createProposerAlt N as (Some c) tm = Some (sent, Inr table)" "0 < c"
  shows "sent = CreateTable (nt_slot N) # map (ExtendTable (nt_table N (nt_slot N))) (chunks c as)"
    and "\<exists>d. wait_poll (length as) d (nt_polls N) = Some (Inr table)"
proof -
  let ?t = "nt_table N (nt_slot N)"
  obtain k r where e: "extend_loop N ?t as c 0 [CreateTable (nt_slot N)]
      = Some ([CreateTable (nt_slot N)] @ map (ExtendTable ?t) (take k (chunks c (drop 0 as))), r)"
    and k: "r = Inr () \<longrightarrow> length (chunks c (drop 0 as)) \<le> k"
    using extend_loop_chunks [OF assms(2)] by metis
  have r: "r = Inr ()"
    using assms(1) e
    by (cases r) (auto simp: createProposerAlt_def Let_def split: sum.splits)
  then show "sent = CreateTable (nt_slot N) # map (ExtendTable ?t) (chunks c as)"
    and "\<exists>d. wait_poll (length as) d (nt_polls N) = Some (Inr table)"
    using assms(1) e k
    by (auto simp: createProposerAlt_def Let_def waitForActiveLookupTable_def split: sum.splits)
qed

lemma createProposerAlt_default:
  "createProposerAlt N as None tm = createProposerAlt N as (Some DEFAULT_EXTEND_CHUNK) tm"
  by (simp add: createProposerAlt_def)

section \<open>Properties\<close>

text \<open>
  when \<open>createProposerAlt\<close> returns a table with a positive chunk size, it sent one create
  and then the addresses in order, in \<open>\<lceil>n / chunk\<rceil>\<close> non-empty extends of at most \<open>chunk\<close>
  addresses each, all to the created table; and the table was observed active, with at least
  that many addresses, at a slot past its last extend.
\<close>

theorem alt_publishes_addresses:
  assumes "createProposerAlt N addresses extendChunkSize tm = Some (sent, Inr table)"
    and "c = (case extendChunkSize of None \<Rightarrow> 30 | Some c \<Rightarrow> c)" and "0 < c"
  shows "(\<exists>exts. sent = CreateTable (nt_slot N) # map (ExtendTable (nt_table N (nt_slot N))) exts
        \<and> concat exts = addresses
        \<and> list_all (\<lambda>ext. ext \<noteq> [] \<and> length ext \<le> c) exts
        \<and> length exts = (length addresses + c - 1) div c)
    \<and> (\<exists>now slot. (now, Some table, slot) \<in> set (nt_polls N) \<and> lt_active table
        \<and> length addresses \<le> length (lt_addresses table) \<and> lt_lastExtendedSlot table < slot)"
proof -
  have e: "createProposerAlt N addresses (Some c) tm = Some (sent, Inr table)"
    using assms by (cases extendChunkSize) (auto simp: createProposerAlt_default DEFAULT_EXTEND_CHUNK_def)
  have "concat (chunks c addresses) = addresses"
    "list_all (\<lambda>ext. ext \<noteq> [] \<and> length ext \<le> c) (chunks c addresses)"
    using chunks_bounds concat_chunks [OF assms(3)] by (auto simp: list_all_iff)
  then show ?thesis
    using createProposerAlt_ok [OF e assms(3)] wait_poll_returns length_chunks [OF assms(3)] by blast
qed

definition sample_table :: "nat lookup_table" where
  "sample_table = \<lparr>lt_key = 7, lt_addresses = [10, 11, 12], lt_active = True, lt_lastExtendedSlot = 5\<rparr>"

definition sample_network :: "nat network" where
  "sample_network = \<lparr>nt_slot = 3, nt_table = (\<lambda>s. s + 4), nt_submit = (\<lambda>k tx. Inr ''sig''),
     nt_confirm = (\<lambda>sig. Inr ()), nt_start = 0,
     nt_polls = [(0, None, 5), (200, Some sample_table, 5), (400, Some sample_table, 6)]\<rparr>"

lemma sample_alt:
  "createProposerAlt sample_network [10, 11, 12] (Some 2) None
    = Some ([CreateTable 3, ExtendTable 7 [10, 11], ExtendTable 7 [12]], Inr sample_table)"
  by (simp add: createProposerAlt_def sample_network_def sample_table_def sendLegacy_def
      extend_loop.simps js_slice_def waitForActiveLookupTable_def Let_def)

theorem alt_publishes_addresses_witness:
  "\<exists>exts. [CreateTable 3, ExtendTable 7 [10, 11], ExtendTable 7 [12]]
      = CreateTable (nt_slot sample_network)
        # map (ExtendTable (nt_table sample_network (nt_slot sample_network))) exts
      \<and> concat exts = [10, 11, 12]
      \<and> list_all (\<lambda>ext. ext \<noteq> [] \<and> length ext \<le> 2) exts
      \<and> length exts = (length [10, 11, 12::nat] + 2 - 1) div 2"
proof -
  have c: "2 = (case Some 2 of None \<Rightarrow> 30 | Some c \<Rightarrow> c)" "0 < (2::nat)" by simp_all
  show ?thesis by (rule conjunct1 [OF alt_publishes_addresses [OF sample_alt c]])
qed

text \<open>
  \<open>sendFinalizeViaAlt\<close> sends the finalize at most once and last, over exactly the table that
  \<open>createProposerAlt\<close> returned for the lookup addresses; when the publication fails or does not
  end, no finalize is sent and the error is passed on; and it returns a signature only of a
  finalize that was accepted and confirmed, with the prepended instructions before it.
\<close>

theorem finalize_only_over_published_table:
  "(sendFinalizeViaAlt N instruction addresses prepend chunk = None
      \<longleftrightarrow> createProposerAlt N addresses chunk None = None)
   \<and> (\<forall>sent r. sendFinalizeViaAlt N instruction addresses prepend chunk = Some (sent, r) \<longrightarrow>
      (\<exists>e. createProposerAlt N addresses chunk None = Some (sent, Inl e) \<and> r = Inl e)
      \<or> (\<exists>pre table. createProposerAlt N addresses chunk None = Some (pre, Inr table)
          \<and> sent = pre @ [Finalize ((case prepend of None \<Rightarrow> [] | Some p \<Rightarrow> p) @ [instruction]) [table]]
          \<and> (\<forall>sig t. r = Inr (sig, t) \<longrightarrow> t = table \<and> nt_confirm N sig = Inr ()
                \<and> nt_submit N (length pre) (last sent) = Inr sig)))"
proof (cases "createProposerAlt N addresses chunk None")
  case None
  then show ?thesis by (simp add: sendFinalizeViaAlt_def)
next
  case (Some p)
  obtain pre r where p: "p = (pre, r)" by fastforce
  show ?thesis
  proof (cases r)
    case (Inl e)
    then show ?thesis using Some p by (simp add: sendFinalizeViaAlt_def)
  next
    case (Inr table)
    then show ?thesis using Some p
      by (auto simp: sendFinalizeViaAlt_def sendV0_def Let_def split: sum.splits)
  qed
qed

definition sample_finalize :: "nat tx_instruction" where
  "sample_finalize = \<lparr>ti_programId = 1, ti_keys = [], ti_data = []\<rparr>"

theorem finalize_only_over_published_table_witness:
  "last (fst (the (sendFinalizeViaAlt sample_network sample_finalize [10, 11, 12] None (Some 2))))
    = Finalize [sample_finalize] [sample_table]"
proof -
  obtain sent r where s: "sendFinalizeViaAlt sample_network sample_finalize [10, 11, 12] None (Some 2)
      = Some (sent, r)"
    by (simp add: sendFinalizeViaAlt_def sample_alt Let_def)
  show ?thesis
    using conjunct2 [OF finalize_only_over_published_table
        [of sample_network sample_finalize "[10, 11, 12]" None "Some 2"]] s
    by (auto simp: sample_alt)
qed

lemma wait_poll_ends:
  "(\<exists>p \<in> set polls. d \<le> fst p) \<Longrightarrow> wait_poll n d polls \<noteq> None"
  by (induction n d polls rule: wait_poll.induct) (auto split: option.split)

text \<open>
  With polls that pass its deadline and accepted transactions, \<open>createProposerAlt\<close> returns
  for every positive chunk size, the default of 30 included; a chunk size of zero, which nothing
  refuses, makes it extend the table with empty lists for ever unless there is no address.
\<close>

theorem create_alt_termination:
  assumes "c = (case extendChunkSize of None \<Rightarrow> 30 | Some c \<Rightarrow> c)"
    and "tm = (case activateTimeoutMs of None \<Rightarrow> 30000 | Some t \<Rightarrow> t)"
    and "\<exists>p \<in> set (nt_polls N). nt_start N + tm \<le> fst p"
    and "\<forall>k tx. is_ok (sendLegacy N k tx)"
  shows "createProposerAlt N addresses extendChunkSize activateTimeoutMs = None
    \<longleftrightarrow> c = 0 \<and> addresses \<noteq> []"
proof -
  define t where "t = nt_table N (nt_slot N)"
  define s where "s = [CreateTable (nt_slot N) :: 'a alt_tx]"
  have c: "(case extendChunkSize of None \<Rightarrow> DEFAULT_EXTEND_CHUNK | Some c \<Rightarrow> c) = c"
    using assms(1) by (simp add: DEFAULT_EXTEND_CHUNK_def split: option.split)
  obtain sg where create: "sendLegacy N 0 (CreateTable (nt_slot N)) = Inr sg"
    using assms(4) by (metis is_ok.simps(1) old.sum.exhaust)
  have wait: "wait_poll (length addresses) (nt_start N + tm) (nt_polls N) \<noteq> None"
    by (rule wait_poll_ends [OF assms(3)])
  have loop: "createProposerAlt N addresses extendChunkSize activateTimeoutMs = None
      \<longleftrightarrow> extend_loop N t addresses c 0 s = None"
    using create wait assms(2)
    by (auto simp: createProposerAlt_def c Let_def t_def s_def waitForActiveLookupTable_def
        split: option.splits sum.splits)
  have "extend_loop N t addresses c 0 s = None \<longleftrightarrow> c = 0 \<and> addresses \<noteq> []"
  proof (cases "c = 0")
    case True
    show ?thesis
    proof (cases "addresses = []")
      case True
      then show ?thesis by (simp add: extend_loop.simps)
    next
      case False
      then have "extend_loop N t addresses c 0 s = None"
        using extend_loop_zero [of N t addresses c 0 s] assms(4) True
        by (cases "extend_loop N t addresses c 0 s") auto
      then show ?thesis using True False by simp
    qed
  next
    case False
    then show ?thesis using extend_loop_chunks [of c N t addresses 0 s] by auto
  qed
  then show ?thesis using loop by simp
qed

definition sample_late :: "nat network" where
  "sample_late = sample_network\<lparr>nt_polls := [(30000, None, 5)]\<rparr>"

theorem create_alt_termination_witness:
  "createProposerAlt sample_late [10] (Some 0) None = None
    \<and> createProposerAlt sample_late [10] None None \<noteq> None"
proof -
  have p: "\<exists>p \<in> set (nt_polls sample_late). nt_start sample_late + 30000 \<le> fst p"
    "\<forall>k tx. is_ok (sendLegacy sample_late k tx)"
    by (simp_all add: sample_late_def sample_network_def sendLegacy_def)
  show ?thesis
    using create_alt_termination [of 0 "Some 0" 30000 None, OF _ _ p, of "[10]"]
      create_alt_termination [of 30 None 30000 None, OF _ _ p, of "[10]"] by simp
qed

end
