(* ===== verification/JS_Number.thy ===== *)
theory JS_Number
  imports Complex_Main
begin

text \<open>
  JavaScript numbers as the display and quoting code uses them: a \<open>Number\<close> is a real, and
  \<open>fl\<close> rounds an exact result to the nearest binary64 value, ties to even. The magnitudes of
  the modelled code (quotients and roots of u64 and u128 quantities) stay far from overflow
  and from the subnormal range, so the exponent is left unbounded and NaN does not arise.
  \<open>Number(b)\<close> of a bigint is \<open>fl\<close> of the integer. The lemmas are the ones quoting code relies
  on: rounding is monotone, and exact on the integers up to \<open>2^53\<close>.
\<close>

section \<open>Rounding\<close>

definition rne :: "real \<Rightarrow> int" where
  "rne x = (let f = \<lfloor>x\<rfloor>; d = x - of_int f in
     if d < 1/2 then f else if d > 1/2 then f + 1 else if even f then f else f + 1)"

definition ulp :: "real \<Rightarrow> real" where
  "ulp x = 2 powi (\<lfloor>log 2 \<bar>x\<bar>\<rfloor> - 52)"

definition fl :: "real \<Rightarrow> real" where
  "fl x = (if x = 0 then 0 else of_int (rne (x / ulp x)) * ulp x)"

definition Number :: "int \<Rightarrow> real" where
  "Number b = fl (of_int b)"

lemma rne_int [simp]: "rne (of_int n) = n"
  by (simp add: rne_def)

lemma rne_mono:
  assumes "x \<le> y"
  shows "rne x \<le> rne y"
proof (cases "\<lfloor>x\<rfloor> = \<lfloor>y\<rfloor>")
  case True
  then show ?thesis using assms by (simp add: rne_def Let_def)
next
  case False
  then have "\<lfloor>x\<rfloor> + 1 \<le> \<lfloor>y\<rfloor>" using floor_mono [OF assms] by simp
  moreover have "rne x \<le> \<lfloor>x\<rfloor> + 1" "\<lfloor>y\<rfloor> \<le> rne y" by (simp_all add: rne_def Let_def)
  ultimately show ?thesis by simp
qed

lemma rne_bounds: "of_int a \<le> x \<Longrightarrow> x \<le> of_int b \<Longrightarrow> a \<le> rne x \<and> rne x \<le> b"
  using rne_mono [of "of_int a" x] rne_mono [of x "of_int b"] by simp

lemma ulp_pos [simp]: "0 < ulp x"
  by (simp add: ulp_def)

lemma exponent_bounds:
  assumes "0 < x"
  shows "2 powi \<lfloor>log 2 x\<rfloor> \<le> x" and "x < 2 powi (\<lfloor>log 2 x\<rfloor> + 1)"
proof -
  have e: "2 powi k = 2 powr (real_of_int k)" for k :: int by (simp add: powr_real_of_int')
  have "2 powr (of_int \<lfloor>log 2 x\<rfloor>) \<le> 2 powr (log 2 x)" by simp
  then show "2 powi \<lfloor>log 2 x\<rfloor> \<le> x" using assms e by simp
  have "2 powr (log 2 x) < 2 powr (of_int (\<lfloor>log 2 x\<rfloor> + 1))" by (simp add: floor_less_iff [symmetric])
  then show "x < 2 powi (\<lfloor>log 2 x\<rfloor> + 1)" using assms e by simp
qed

lemma ulp_scale: "0 < x \<Longrightarrow> 2 powi \<lfloor>log 2 x\<rfloor> = 2 ^ 52 * ulp x"
  by (simp add: ulp_def power_int_diff)

lemma fl_binade:
  assumes "0 < x"
  shows "2 powi \<lfloor>log 2 x\<rfloor> \<le> fl x" and "fl x \<le> 2 powi (\<lfloor>log 2 x\<rfloor> + 1)"
proof -
  let ?q = "ulp x"
  have s: "2 powi \<lfloor>log 2 x\<rfloor> = 2 ^ 52 * ?q" "2 powi (\<lfloor>log 2 x\<rfloor> + 1) = 2 ^ 53 * ?q"
    using ulp_scale [OF assms] by (simp_all add: power_int_add)
  then have "2 ^ 52 * ?q \<le> x" "x \<le> 2 ^ 53 * ?q"
    using exponent_bounds [OF assms] by simp_all
  then have "2 ^ 52 \<le> x / ?q" "x / ?q \<le> 2 ^ 53"
    by (simp_all add: pos_le_divide_eq pos_divide_le_eq)
  then have "2 ^ 52 \<le> rne (x / ?q)" "rne (x / ?q) \<le> 2 ^ 53"
    using rne_bounds [of "2 ^ 52" "x / ?q" "2 ^ 53"] by simp_all
  then have "real_of_int (2 ^ 52) \<le> of_int (rne (x / ?q))" "real_of_int (rne (x / ?q)) \<le> of_int (2 ^ 53)"
    by (simp_all only: of_int_le_iff)
  then have "2 ^ 52 \<le> real_of_int (rne (x / ?q))" "real_of_int (rne (x / ?q)) \<le> 2 ^ 53"
    by (simp_all only: of_int_power of_int_numeral)
  then show "2 powi \<lfloor>log 2 x\<rfloor> \<le> fl x" "fl x \<le> 2 powi (\<lfloor>log 2 x\<rfloor> + 1)"
    using assms unfolding s fl_def
    by (simp_all only: mult_right_mono less_imp_le [OF ulp_pos] less_imp_neq [THEN not_sym] if_False)
qed

lemma fl_0 [simp]: "fl 0 = 0"
  by (simp add: fl_def)

lemma fl_pos: "0 < x \<Longrightarrow> 0 < fl x"
  using fl_binade(1) [of x] by (smt (verit) zero_less_power_int)

lemma fl_mono_pos:
  assumes "0 < x" "x \<le> y"
  shows "fl x \<le> fl y"
proof -
  have y: "0 < y" using assms by simp
  have le: "\<lfloor>log 2 x\<rfloor> \<le> \<lfloor>log 2 y\<rfloor>" using assms by (simp add: floor_mono)
  show ?thesis
  proof (cases "\<lfloor>log 2 x\<rfloor> = \<lfloor>log 2 y\<rfloor>")
    case True
    then have "ulp x = ulp y" using assms y by (simp add: ulp_def)
    moreover have "rne (x / ulp y) \<le> rne (y / ulp y)"
      using assms(2) by (intro rne_mono) (simp add: divide_right_mono less_imp_le)
    ultimately show ?thesis using assms y by (simp add: fl_def mult_right_mono less_imp_le)
  next
    case False
    then have "\<lfloor>log 2 x\<rfloor> + 1 \<le> \<lfloor>log 2 y\<rfloor>" using le by simp
    then have "(2::real) powi (\<lfloor>log 2 x\<rfloor> + 1) \<le> 2 powi \<lfloor>log 2 y\<rfloor>"
      by (intro power_int_increasing) simp_all
    then show ?thesis using fl_binade(2) [OF assms(1)] fl_binade(1) [OF y] by linarith
  qed
qed

lemma fl_nonneg: "0 \<le> x \<Longrightarrow> 0 \<le> fl x"
  using fl_pos [of x] by (cases "x = 0") auto

lemma fl_mono: "0 \<le> x \<Longrightarrow> x \<le> y \<Longrightarrow> fl x \<le> fl y"
  using fl_mono_pos [of x y] fl_nonneg [of y] by (cases "x = 0") auto

text \<open>A value that is an integer multiple of its last place is exact.\<close>

lemma fl_exact:
  assumes "x / ulp x = of_int n"
  shows "fl x = x"
proof (cases "x = 0")
  case False
  have "x = of_int n * ulp x" using assms ulp_pos [of x] by (simp add: divide_eq_eq del: ulp_pos)
  then show ?thesis using False assms by (simp add: fl_def)
qed simp

lemma fl_int_exact:
  assumes "0 \<le> n" "n \<le> 2 ^ 53"
  shows "fl (of_int n) = of_int n"
proof (cases "n = 0 \<or> n = 2 ^ 53")
  case True
  have "log 2 (2 ^ 53) = 53" using log_of_power_eq [of "2 ^ 53" 2 53] by simp
  then have "(2 ^ 53 :: real) / ulp (2 ^ 53) = of_int (2 ^ 52)" by (simp add: ulp_def)
  then show ?thesis using True fl_exact [of "2 ^ 53" "2 ^ 52"] by auto
next
  case False
  then have n: "0 < real_of_int n" "n < 2 ^ 53" using assms by auto
  have "real_of_int n < of_int (2 ^ 53)" using n(2) by (simp only: of_int_less_iff)
  then have "2 powi \<lfloor>log 2 n\<rfloor> < (2 :: real) powi 53"
    using exponent_bounds(1) [OF n(1)] by simp
  then have e: "\<lfloor>log 2 n\<rfloor> < 53"
    using power_int_increasing [of 53 "\<lfloor>log 2 n\<rfloor>" "2 :: real"] by linarith
  have "real_of_int n / ulp n = n * 2 powi (52 - \<lfloor>log 2 n\<rfloor>)"
    using n(1) by (simp add: ulp_def power_int_diff field_simps)
  also have "\<dots> = of_int (n * 2 ^ nat (52 - \<lfloor>log 2 n\<rfloor>))" using e by (simp add: power_int_def)
  finally show ?thesis by (rule fl_exact)
qed

lemma Number_exact: "0 \<le> n \<Longrightarrow> n \<le> 2 ^ 53 \<Longrightarrow> Number n = of_int n"
  by (simp add: Number_def fl_int_exact)

lemma Number_mono: "0 \<le> a \<Longrightarrow> a \<le> b \<Longrightarrow> Number a \<le> Number b"
  by (simp add: Number_def fl_mono)

lemma Number_pos: "0 < a \<Longrightarrow> 0 < Number a"
  by (simp add: Number_def fl_pos)

lemma Number_nonneg: "0 \<le> a \<Longrightarrow> 0 \<le> Number a"
  by (simp add: Number_def fl_nonneg)

text \<open>A rounded quotient of bigints is on the right side of one.\<close>

lemma ratio_ge_1: "0 < b \<Longrightarrow> b \<le> a \<Longrightarrow> 1 \<le> fl (Number a / Number b)"
proof -
  assume b: "0 < b" "b \<le> a"
  have "1 \<le> Number a / Number b" using b Number_pos Number_mono by (simp add: le_divide_eq)
  then have "fl 1 \<le> fl (Number a / Number b)" by (intro fl_mono) simp_all
  then show ?thesis using fl_int_exact [of 1] by simp
qed

lemma ratio_le_1: "0 < b \<Longrightarrow> 0 \<le> a \<Longrightarrow> a \<le> b \<Longrightarrow> fl (Number a / Number b) \<le> 1"
proof -
  assume b: "0 < b" "0 \<le> a" "a \<le> b"
  have "Number a / Number b \<le> 1" "0 \<le> Number a / Number b"
    using b Number_pos [of b] Number_mono [of a b] Number_nonneg [of a] by (simp_all add: divide_le_eq)
  then have "fl (Number a / Number b) \<le> fl 1" by (intro fl_mono)
  then show ?thesis using fl_int_exact [of 1] by simp
qed

lemma ratio_nonneg: "0 \<le> b \<Longrightarrow> 0 \<le> a \<Longrightarrow> 0 \<le> fl (Number a / Number b)"
  by (intro fl_nonneg divide_nonneg_nonneg Number_nonneg)

end
