(* ===== verification/Challenge_Amm.thy ===== *)
theory Challenge_Amm
  imports Oracle_Constants JS_Number
begin

text \<open>
  The challenge market panel: the decoder of the MetaDAO v0.4 \<open>Amm\<close> account with the TWAP and
  margin helpers (\<open>app/src/data/ammV04.ts\<close>), and the program code they mirror:
  \<open>assert_amm_bound\<close> (\<open>cpi/metadao/layout.rs\<close>), \<open>verify_and_read_twap\<close> and the slash trigger
  (\<open>processor/settle_challenge/\<close>), over integers with the saturation and the checked u128
  products of the Rust code written out.
\<close>

section \<open>The panel (data/ammV04.ts)\<close>

definition AMM_ACCOUNT_DISCRIMINATOR :: bytes where
  "AMM_ACCOUNT_DISCRIMINATOR = [0x8f, 0xf5, 0xc8, 0x11, 0x4a, 0xd6, 0xc4, 0x87]"

definition AMM_MIN_LEN :: nat where
  "AMM_MIN_LEN = 219 + 8"

definition PRICE_SCALE :: int where
  "PRICE_SCALE = 1000000000000"

record 'a AmmV04 =
  av_baseMint :: 'a
  av_quoteMint :: 'a
  av_baseDecimals :: int
  av_quoteDecimals :: int
  av_baseAmount :: int
  av_quoteAmount :: int
  av_createdAtSlot :: int
  av_lastUpdatedSlot :: int
  av_startDelaySlots :: int
  av_aggregator :: int

definition amm_readU128LE :: "bytes \<Rightarrow> nat \<Rightarrow> int res" where
  "amm_readU128LE dv off =
     rbind (get_le dv off 8) (\<lambda>lo. rbind (get_le dv (off + 8) 8) (\<lambda>hi.
       Inr (or lo (push_bit 64 hi))))"

text \<open>The byte-by-byte comparison with the discriminator; a missing byte is \<open>undefined\<close>.\<close>

fun disc_loop :: "bytes \<Rightarrow> bytes \<Rightarrow> unit res" where
  "disc_loop data [] = Inr ()"
| "disc_loop [] (d # ds) = Inl (DecodeErr ''Amm: wrong account discriminator.'')"
| "disc_loop (b # data) (d # ds) =
     (if b \<noteq> d then Inl (DecodeErr ''Amm: wrong account discriminator.'') else disc_loop data ds)"

definition decodeAmmV04 :: "'a web3 \<Rightarrow> bytes \<Rightarrow> 'a AmmV04 res" where
  "decodeAmmV04 W data =
     (if length data < AMM_MIN_LEN then Inl (DecodeErr ''Amm: buffer too short'')
      else rbind (disc_loop data AMM_ACCOUNT_DISCRIMINATOR) (\<lambda>_.
        rbind (readPubkey W data 49) (\<lambda>baseMint.
        rbind (readPubkey W data 81) (\<lambda>quoteMint.
        rbind (get_le data 113 1) (\<lambda>baseDecimals.
        rbind (get_le data 114 1) (\<lambda>quoteDecimals.
        rbind (get_le data 115 8) (\<lambda>baseAmount.
        rbind (get_le data 123 8) (\<lambda>quoteAmount.
        rbind (get_le data 9 8) (\<lambda>createdAtSlot.
        rbind (get_le data 131 8) (\<lambda>lastUpdatedSlot.
        rbind (get_le data 219 8) (\<lambda>startDelaySlots.
        rbind (amm_readU128LE data 171) (\<lambda>aggregator.
          Inr \<lparr>av_baseMint = baseMint, av_quoteMint = quoteMint, av_baseDecimals = baseDecimals,
            av_quoteDecimals = quoteDecimals, av_baseAmount = baseAmount,
            av_quoteAmount = quoteAmount, av_createdAtSlot = createdAtSlot,
            av_lastUpdatedSlot = lastUpdatedSlot, av_startDelaySlots = startDelaySlots,
            av_aggregator = aggregator\<rparr>))))))))))))"

text \<open>A bigint quotient truncates towards zero; both operands are positive here.\<close>

definition twapPrice :: "'a AmmV04 \<Rightarrow> int option" where
  "twapPrice amm =
     (let startSlot = av_createdAtSlot amm + av_startDelaySlots amm;
          slots = av_lastUpdatedSlot amm - startSlot in
      if slots \<le> 0 \<or> av_aggregator amm \<le> 0 then None else Some (av_aggregator amm div slots))"

definition marginProgress :: "int option \<Rightarrow> int option \<Rightarrow> int \<Rightarrow> int \<Rightarrow> real" where
  "marginProgress failTwap passTwap marginNum marginDen =
     (case (failTwap, passTwap) of
        (Some fail, Some pass) \<Rightarrow>
          if pass \<le> 0 then 0
          else if fail \<le> pass then 0
          else (let need = pass * marginNum in
            if need \<le> 0 then 0
            else (let diverge = (fail - pass) * marginDen in fl (Number diverge / Number need)))
      | _ \<Rightarrow> 0)"

definition willDisqualify :: "int option \<Rightarrow> int option \<Rightarrow> int \<Rightarrow> int \<Rightarrow> bool" where
  "willDisqualify failTwap passTwap marginNum marginDen =
     (case (failTwap, passTwap) of
        (Some fail, Some pass) \<Rightarrow>
          if pass \<le> 0 then False else fail * marginDen > pass * (marginDen + marginNum)
      | _ \<Rightarrow> False)"

text \<open>The two fetched accounts of a market; a failed decode gives \<open>null\<close>.\<close>

definition decodeOrNull :: "'a web3 \<Rightarrow> bytes option \<Rightarrow> 'a AmmV04 option" where
  "decodeOrNull W info =
     (case info of
        None \<Rightarrow> None
      | Some data \<Rightarrow>
          if length data = 0 then None
          else (case decodeAmmV04 W data of Inl e \<Rightarrow> None | Inr amm \<Rightarrow> Some amm))"

definition fetchMarketAmms ::
  "'a web3 \<Rightarrow> ('a \<Rightarrow> bytes option) \<Rightarrow> 'a \<Rightarrow> 'a \<Rightarrow> 'a AmmV04 option \<times> 'a AmmV04 option" where
  "fetchMarketAmms W accountInfo passAmm failAmm =
     (decodeOrNull W (accountInfo passAmm), decodeOrNull W (accountInfo failAmm))"

section \<open>The program (settle_challenge)\<close>

datatype fault = InvalidAccount | ArithmeticOverflow

fun fbind :: "fault + 'a \<Rightarrow> ('a \<Rightarrow> fault + 'b) \<Rightarrow> fault + 'b" where
  "fbind (Inl e) f = Inl e"
| "fbind (Inr x) f = f x"

definition read_uint :: "nat \<Rightarrow> bytes \<Rightarrow> nat \<Rightarrow> fault + int" where
  "read_uint n data off =
     (if off + n \<le> length data then Inr (le_val (take n (drop off data))) else Inl InvalidAccount)"

definition read_pubkey :: "bytes \<Rightarrow> nat \<Rightarrow> fault + bytes" where
  "read_pubkey data off =
     (if off + 32 \<le> length data then Inr (take 32 (drop off data)) else Inl InvalidAccount)"

definition assert_amm_bound :: "bool \<Rightarrow> bytes \<Rightarrow> bytes \<Rightarrow> bytes \<Rightarrow> fault + unit" where
  "assert_amm_bound owned_by_amm data expected_base expected_quote =
     (if \<not> owned_by_amm then Inl InvalidAccount
      else if length data < AMM_MIN_LEN \<or> take 8 data \<noteq> AMM_ACCOUNT_DISCRIMINATOR
      then Inl InvalidAccount
      else fbind (read_pubkey data 49) (\<lambda>base_mint. fbind (read_pubkey data 81) (\<lambda>quote_mint.
        if base_mint \<noteq> expected_base \<or> quote_mint \<noteq> expected_quote
        then Inl InvalidAccount else Inr ())))"

definition verify_and_read_twap :: "bool \<Rightarrow> bytes \<Rightarrow> bytes \<Rightarrow> bytes \<Rightarrow> fault + int" where
  "verify_and_read_twap owned_by_amm data expected_base expected_quote =
     fbind (assert_amm_bound owned_by_amm data expected_base expected_quote) (\<lambda>_.
     fbind (read_uint 8 data 9) (\<lambda>created_at.
     fbind (read_uint 8 data 131) (\<lambda>last_updated.
     fbind (read_uint 16 data 171) (\<lambda>aggregator.
     fbind (read_uint 8 data 219) (\<lambda>start_delay.
       (let start_slot = min (created_at + start_delay) (2 ^ 64 - 1);
            slots = max (last_updated - start_slot) 0 in
        if slots = 0 \<or> aggregator = 0 then Inr 0 else Inr (aggregator div slots)))))))"

definition checked_mul128 :: "int \<Rightarrow> int \<Rightarrow> fault + int" where
  "checked_mul128 a b = (if a * b < 2 ^ 128 then Inr (a * b) else Inl ArithmeticOverflow)"

definition slash_trigger :: "int \<Rightarrow> int \<Rightarrow> int \<Rightarrow> int \<Rightarrow> fault + bool" where
  "slash_trigger fail_twap pass_twap threshold_num threshold_den =
     (if pass_twap = 0 then Inr False
      else fbind (checked_mul128 fail_twap threshold_den) (\<lambda>lhs.
        fbind (checked_mul128 pass_twap (threshold_den + threshold_num)) (\<lambda>rhs.
          Inr (lhs > rhs))))"

section \<open>Facts\<close>

lemma fbind_Inr_iff: "fbind r f = Inr y \<longleftrightarrow> (\<exists>x. r = Inr x \<and> f x = Inr y)"
  by (cases r) auto

lemma disc_loop_iff: "disc_loop data ds = Inr () \<longleftrightarrow> take (length ds) data = ds"
  by (induction data ds rule: disc_loop.induct) auto

lemma disc_loop_Inr: "disc_loop data ds = Inr u \<longleftrightarrow> take (length ds) data = ds"
  by (cases u) (simp add: disc_loop_iff)

lemma amm_readU128LE_get_le: "amm_readU128LE data off = get_le data off 16"
  by (simp add: readU128LE_get_le [symmetric] amm_readU128LE_def readU128LE_def or.commute)

lemma length_disc [simp]: "length AMM_ACCOUNT_DISCRIMINATOR = 8"
  by (simp add: AMM_ACCOUNT_DISCRIMINATOR_def)

lemma get_le_field: "off + n \<le> length data \<Longrightarrow> get_le data off n = Inr (le_val (take n (drop off data)))"
  by (simp add: get_le_def)

lemma readPubkey_field:
  assumes "web3_ok W" "off + 32 \<le> length data"
  obtains a where "readPubkey W data off = Inr a" "w3_bytes W a = take 32 (drop off data)"
proof -
  obtain a where a: "w3_of_bytes W (take 32 (drop off data)) = Some a"
    using web3_ok_D(6) [OF assms(1), of "take 32 (drop off data)"] assms(2) by auto
  then show ?thesis
    using that [of a] web3_ok_D(3) [OF assms(1) a]
    by (simp add: readPubkey_def js_slice_def)
qed

definition field :: "bytes \<Rightarrow> nat \<Rightarrow> nat \<Rightarrow> int" where
  "field data off n = le_val (take n (drop off data))"

lemma field_range: "0 \<le> field data off n" "off + n \<le> length data \<Longrightarrow> field data off n < 256 ^ n"
  using le_val_bounds [of "take n (drop off data)"] by (simp_all add: field_def)

lemma decodeAmmV04_eq:
  assumes "web3_ok W" "227 \<le> length data" "take 8 data = AMM_ACCOUNT_DISCRIMINATOR"
  shows "\<exists>base quote. w3_bytes W base = take 32 (drop 49 data)
    \<and> w3_bytes W quote = take 32 (drop 81 data)
    \<and> decodeAmmV04 W data = Inr \<lparr>av_baseMint = base, av_quoteMint = quote,
        av_baseDecimals = field data 113 1, av_quoteDecimals = field data 114 1,
        av_baseAmount = field data 115 8, av_quoteAmount = field data 123 8,
        av_createdAtSlot = field data 9 8, av_lastUpdatedSlot = field data 131 8,
        av_startDelaySlots = field data 219 8, av_aggregator = field data 171 16\<rparr>"
proof -
  obtain base where b: "readPubkey W data 49 = Inr base" "w3_bytes W base = take 32 (drop 49 data)"
    using readPubkey_field [OF assms(1), of 49 data] assms(2) by auto
  obtain quote where q: "readPubkey W data 81 = Inr quote" "w3_bytes W quote = take 32 (drop 81 data)"
    using readPubkey_field [OF assms(1), of 81 data] assms(2) by auto
  have "disc_loop data AMM_ACCOUNT_DISCRIMINATOR = Inr ()" using assms(3) by (simp add: disc_loop_iff)
  then show ?thesis using b q assms(2)
    by (intro exI [of _ base] exI [of _ quote])
      (simp add: decodeAmmV04_def AMM_MIN_LEN_def amm_readU128LE_get_le get_le_field field_def)
qed

lemma decodeAmmV04_ok_iff:
  assumes "web3_ok W"
  shows "is_ok (decodeAmmV04 W data) \<longleftrightarrow> 227 \<le> length data \<and> take 8 data = AMM_ACCOUNT_DISCRIMINATOR"
proof
  assume "is_ok (decodeAmmV04 W data)"
  then show "227 \<le> length data \<and> take 8 data = AMM_ACCOUNT_DISCRIMINATOR"
    by (auto simp: decodeAmmV04_def AMM_MIN_LEN_def is_ok_iff rbind_Inr_iff disc_loop_Inr split: if_splits)
next
  assume "227 \<le> length data \<and> take 8 data = AMM_ACCOUNT_DISCRIMINATOR"
  then show "is_ok (decodeAmmV04 W data)"
    using decodeAmmV04_eq [OF assms, of data] by auto
qed

text \<open>The TWAP that the program reads: zero where the panel has none.\<close>

definition twap_or_0 :: "'a AmmV04 \<Rightarrow> int" where
  "twap_or_0 amm = (case twapPrice amm of None \<Rightarrow> 0 | Some t \<Rightarrow> t)"

lemma saturated_slots:
  fixes c d u :: int
  assumes "u < 2 ^ 64"
  shows "max (u - min (c + d) (2 ^ 64 - 1)) 0 = max (u - (c + d)) 0"
  using assms by (auto simp: max_def min_def)

lemma program_twap:
  assumes "web3_ok W"
  shows "verify_and_read_twap owned data base quote = Inr t \<longleftrightarrow>
    owned \<and> (\<exists>amm. decodeAmmV04 W data = Inr amm \<and> w3_bytes W (av_baseMint amm) = base
      \<and> w3_bytes W (av_quoteMint amm) = quote \<and> t = twap_or_0 amm)"
proof (cases "227 \<le> length data \<and> take 8 data = AMM_ACCOUNT_DISCRIMINATOR")
  case False
  then have "assert_amm_bound owned data base quote = Inl InvalidAccount"
    by (auto simp: assert_amm_bound_def AMM_MIN_LEN_def)
  moreover have "\<not> is_ok (decodeAmmV04 W data)" using False decodeAmmV04_ok_iff [OF assms] by blast
  ultimately show ?thesis by (auto simp: verify_and_read_twap_def)
next
  case True
  then obtain b q where bq: "w3_bytes W b = take 32 (drop 49 data)" "w3_bytes W q = take 32 (drop 81 data)"
    and d: "decodeAmmV04 W data = Inr \<lparr>av_baseMint = b, av_quoteMint = q,
        av_baseDecimals = field data 113 1, av_quoteDecimals = field data 114 1,
        av_baseAmount = field data 115 8, av_quoteAmount = field data 123 8,
        av_createdAtSlot = field data 9 8, av_lastUpdatedSlot = field data 131 8,
        av_startDelaySlots = field data 219 8, av_aggregator = field data 171 16\<rparr>" (is "_ = Inr ?amm")
    using decodeAmmV04_eq [OF assms] by blast
  have u: "field data 131 8 < 2 ^ 64" using field_range(2) [of 131 8 data] True by simp
  have bound: "assert_amm_bound owned data base quote = Inr () \<longleftrightarrow>
      owned \<and> base = w3_bytes W b \<and> quote = w3_bytes W q"
    using True bq by (auto simp: assert_amm_bound_def AMM_MIN_LEN_def read_pubkey_def)
  have "twap_or_0 ?amm =
      (let slots = max (field data 131 8 - min (field data 9 8 + field data 219 8) (2 ^ 64 - 1)) 0 in
       if slots = 0 \<or> field data 171 16 = 0 then 0 else field data 171 16 div slots)"
    unfolding saturated_slots [OF u] using field_range(1) [of data 171 16]
    by (auto simp: twap_or_0_def twapPrice_def Let_def max_def)
  then have "verify_and_read_twap owned data base quote = Inr t \<longleftrightarrow>
      assert_amm_bound owned data base quote = Inr () \<and> t = twap_or_0 ?amm"
    using True by (auto simp: verify_and_read_twap_def fbind_Inr_iff read_uint_def field_def Let_def)
  then show ?thesis using bound d by auto
qed

lemma twapPrice_nonneg: "twapPrice amm = Some t \<Longrightarrow> 0 \<le> t"
  by (auto simp: twapPrice_def Let_def pos_imp_zdiv_nonneg_iff split: if_splits)

lemma willDisqualify_twap:
  assumes "0 \<le> num" "0 < den"
  shows "willDisqualify (twapPrice f) (twapPrice p) num den \<longleftrightarrow>
    twap_or_0 p \<noteq> 0 \<and> twap_or_0 f * den > twap_or_0 p * (den + num)"
proof (cases "twapPrice p")
  case None
  then show ?thesis by (simp add: willDisqualify_def twap_or_0_def split: option.split)
next
  case (Some tp)
  then have tp: "0 \<le> tp" by (rule twapPrice_nonneg)
  then show ?thesis
    using Some assms by (auto simp: willDisqualify_def twap_or_0_def not_less mult_nonneg_nonneg
        split: option.splits)
qed

section \<open>Properties\<close>

text \<open>
  \<open>decodeAmmV04\<close> accepts exactly the buffers of at least 227 bytes that start with the
  \<open>Amm\<close> discriminator, and every field it returns is the encoding found at the documented
  offset; \<open>fetchMarketAmms\<close> never throws, and is \<open>null\<close> exactly for the other accounts.
\<close>

theorem amm_decode_exact:
  assumes "web3_ok W"
  shows "(is_ok (decodeAmmV04 W data) \<longleftrightarrow> 227 \<le> length data \<and> take 8 data = AMM_ACCOUNT_DISCRIMINATOR)
    \<and> (\<forall>amm. decodeAmmV04 W data = Inr amm \<longrightarrow>
        w3_bytes W (av_baseMint amm) = take 32 (drop 49 data)
      \<and> w3_bytes W (av_quoteMint amm) = take 32 (drop 81 data)
      \<and> u8 (av_baseDecimals amm) @ u8 (av_quoteDecimals amm) @ u64LE (av_baseAmount amm)
          @ u64LE (av_quoteAmount amm) @ u64LE (av_lastUpdatedSlot amm) = take 26 (drop 113 data)
      \<and> u64LE (av_createdAtSlot amm) = take 8 (drop 9 data)
      \<and> u128LE (av_aggregator amm) = take 16 (drop 171 data)
      \<and> u64LE (av_startDelaySlots amm) = take 8 (drop 219 data))
    \<and> fetchMarketAmms W info p f = (decodeOrNull W (info p), decodeOrNull W (info f))
    \<and> decodeOrNull W (Some data) = (case decodeAmmV04 W data of Inl e \<Rightarrow> None | Inr amm \<Rightarrow> Some amm)"
proof -
  have fields: "w3_bytes W (av_baseMint amm) = take 32 (drop 49 data)
      \<and> w3_bytes W (av_quoteMint amm) = take 32 (drop 81 data)
      \<and> u8 (av_baseDecimals amm) @ u8 (av_quoteDecimals amm) @ u64LE (av_baseAmount amm)
          @ u64LE (av_quoteAmount amm) @ u64LE (av_lastUpdatedSlot amm) = take 26 (drop 113 data)
      \<and> u64LE (av_createdAtSlot amm) = take 8 (drop 9 data)
      \<and> u128LE (av_aggregator amm) = take 16 (drop 171 data)
      \<and> u64LE (av_startDelaySlots amm) = take 8 (drop 219 data)"
    if d: "decodeAmmV04 W data = Inr amm" for amm
  proof -
    have ok: "227 \<le> length data" "take 8 data = AMM_ACCOUNT_DISCRIMINATOR"
      using d decodeAmmV04_ok_iff [OF assms, of data] by auto
    have enc: "le_bytes n (field data off n) = take n (drop off data)" if "off + n \<le> length data" for off n
      using le_bytes_le_val [of "take n (drop off data)"] that by (simp add: field_def)
    have enc1: "[word_of_int (field data off (Suc 0))] = take (Suc 0) (drop off data)" if "off < length data" for off
      using enc [of off 1] that by simp
    have split: "take 26 (drop 113 data) = take 1 (drop 113 data) @ take 1 (drop 114 data)
        @ take 8 (drop 115 data) @ take 8 (drop 123 data) @ take 8 (drop 131 data)"
      using ok(1) by (simp add: take_add [of 1 25, simplified] take_add [of 1 24, simplified]
          take_add [of 8 16, simplified] take_add [of 8 8, simplified])
    show ?thesis
      using decodeAmmV04_eq [OF assms ok] d ok(1)
      by (auto simp: u8_le_bytes u64LE_def u128LE_le_bytes enc split enc1 [symmetric])
  qed
  have null: "decodeOrNull W (Some data) = (case decodeAmmV04 W data of Inl e \<Rightarrow> None | Inr amm \<Rightarrow> Some amm)"
    by (auto simp: decodeOrNull_def decodeAmmV04_def AMM_MIN_LEN_def)
  show ?thesis
    using decodeAmmV04_ok_iff [OF assms] fields null by (auto simp: fetchMarketAmms_def)
qed

definition sample_amm :: bytes where
  "sample_amm = AMM_ACCOUNT_DISCRIMINATOR @ u8 255 @ u64LE 100 @ replicate 32 0 @ replicate 32 1
     @ replicate 32 2 @ u8 9 @ u8 6 @ u64LE 5000 @ u64LE 7000 @ u64LE 120 @ replicate 32 0
     @ u128LE 30000 @ replicate 32 0 @ u64LE 10"

theorem amm_decode_exact_witness:
  "is_ok (decodeAmmV04 sample_web3 sample_amm)"
  using conjunct1 [OF amm_decode_exact [OF sample_web3_ok, of sample_amm]]
  by (simp add: sample_amm_def width_simps)

text \<open>
  C39: the TWAP the panel shows is the TWAP the program settles on: \<open>verify_and_read_twap\<close>
  accepts an account and returns \<open>t\<close> exactly when the AMM program owns it, the panel decodes
  it, its mints are the expected pair, and \<open>t\<close> is \<open>twapPrice\<close>, with zero for \<open>null\<close> (the
  saturating subtraction of the program and the sign test of the panel agree on every u64).
\<close>

theorem panel_twap_is_program_twap:
  assumes "web3_ok W"
  shows "verify_and_read_twap owned data base quote = Inr t \<longleftrightarrow>
    owned \<and> (\<exists>amm. decodeAmmV04 W data = Inr amm
      \<and> w3_bytes W (av_baseMint amm) = base \<and> w3_bytes W (av_quoteMint amm) = quote
      \<and> t = (case twapPrice amm of None \<Rightarrow> 0 | Some p \<Rightarrow> p))"
  using program_twap [OF assms, of owned data base quote t] by (simp add: twap_or_0_def)

lemma sample_twap: "verify_and_read_twap True sample_amm (replicate 32 1) (replicate 32 2) = Inr 3000"
  by code_simp

theorem panel_twap_is_program_twap_witness:
  "\<exists>amm. decodeAmmV04 sample_web3 sample_amm = Inr amm \<and> twapPrice amm = Some 3000"
  using panel_twap_is_program_twap [OF sample_web3_ok, of True sample_amm "replicate 32 1"
      "replicate 32 2" 3000] sample_twap
  by (auto split: option.splits)

text \<open>
  C9: the verdict of the panel is the verdict of \<open>settle_challenge\<close>. For two accounts the
  program accepts and a positive denominator, the slash trigger is \<open>willDisqualify\<close> of the two
  shown TWAPs, at the boundary, with a missing price on either side and with zero prices,
  unless one of its u128 products overflows, in which case the program fails; a survival shown
  for a missing or zero PASS price never depends on the products.
\<close>

theorem verdict_is_program_verdict:
  assumes "web3_ok W" "decodeAmmV04 W dataF = Inr f" "decodeAmmV04 W dataP = Inr p"
    and "0 \<le> num" "0 < den"
    and "verify_and_read_twap ownedF dataF baseF quoteF = Inr failTwap"
    and "verify_and_read_twap ownedP dataP baseP quoteP = Inr passTwap"
  shows "slash_trigger failTwap passTwap num den =
    (if passTwap \<noteq> 0 \<and> (2 ^ 128 \<le> failTwap * den \<or> 2 ^ 128 \<le> passTwap * (den + num))
     then Inl ArithmeticOverflow
     else Inr (willDisqualify (twapPrice f) (twapPrice p) num den))"
proof -
  have "failTwap = twap_or_0 f" "passTwap = twap_or_0 p"
    using assms(2,3,6,7) program_twap [OF assms(1)] by auto
  then show ?thesis
    by (auto simp: slash_trigger_def checked_mul128_def willDisqualify_twap [OF assms(4,5)])
qed

theorem verdict_is_program_verdict_witness:
  "\<exists>f. decodeAmmV04 sample_web3 sample_amm = Inr f
    \<and> Inr (willDisqualify (twapPrice f) (twapPrice f) 1 10) = slash_trigger 3000 3000 1 10"
proof -
  obtain f where f: "decodeAmmV04 sample_web3 sample_amm = Inr f"
    using sample_twap program_twap [OF sample_web3_ok] by blast
  have "slash_trigger 3000 3000 1 10 = Inr (willDisqualify (twapPrice f) (twapPrice f) 1 10)"
    using verdict_is_program_verdict [OF sample_web3_ok f f _ _ sample_twap sample_twap, of 1 10] by simp
  then show ?thesis using f by auto
qed

lemma marginProgress_some:
  assumes "0 < pass" "0 < num"
  shows "marginProgress (Some fail) (Some pass) num den =
    (if fail \<le> pass then 0 else fl (Number ((fail - pass) * den) / Number (pass * num)))"
proof -
  have "\<not> pass * num \<le> 0" using mult_pos_pos [OF assms] by linarith
  then show ?thesis using assms(1) by (simp add: marginProgress_def Let_def)
qed

lemma marginProgress_nonneg:
  assumes "0 < num" "0 < den"
  shows "0 \<le> marginProgress f p num den"
  using assms
  by (auto simp: marginProgress_def Let_def intro!: ratio_nonneg split: option.splits)

lemma willDisqualify_some:
  fixes pass :: int
  assumes "0 < pass"
  shows "willDisqualify (Some fail) (Some pass) num den \<longleftrightarrow> (fail - pass) * den > pass * num"
  using assms by (auto simp: willDisqualify_def algebra_simps)

lemma margin_verdict:
  assumes "0 < num" "0 < den"
  shows "(willDisqualify f p num den \<longrightarrow> 1 \<le> marginProgress f p num den)
    \<and> (1 < marginProgress f p num den \<longrightarrow> willDisqualify f p num den)"
proof (cases "\<exists>a b. f = Some a \<and> p = Some b \<and> 0 < b")
  case False
  then show ?thesis
    by (auto simp: willDisqualify_def marginProgress_def not_less split: option.splits)
next
  case True
  then obtain a b where ab: "f = Some a" "p = Some b" "0 < b" by blast
  have need: "0 < b * num" using ab assms by simp
  show ?thesis
  proof (cases "a \<le> b")
    case True
    then have "(a - b) * den \<le> 0" using assms by (simp add: mult_nonpos_nonneg)
    then show ?thesis
      using ab need True marginProgress_some [OF ab(3) assms(1)] willDisqualify_some [OF ab(3)] by simp
  next
    case False
    then have d: "0 \<le> (a - b) * den" using assms by simp
    show ?thesis
      using ab need False d marginProgress_some [OF ab(3) assms(1)] willDisqualify_some [OF ab(3)]
        ratio_ge_1 [OF need, of "(a - b) * den"] ratio_le_1 [OF need d] by fastforce
  qed
qed

lemma margin_mono:
  assumes "0 < num" "0 < den" and ab: "a \<le> b"
  shows "marginProgress (Some a) p num den \<le> marginProgress (Some b) p num den"
proof (cases "\<exists>q. p = Some q \<and> 0 < q \<and> q < a")
  case False
  then have "p = None \<or> (\<exists>q. p = Some q \<and> (q \<le> 0 \<or> a \<le> q))" by (cases p) (auto simp: not_less)
  then have "marginProgress (Some a) p num den = 0" by (auto simp: marginProgress_def)
  then show ?thesis using marginProgress_nonneg [OF assms(1,2)] by simp
next
  case True
  then obtain q where q: "p = Some q" "0 < q" "q < a" by blast
  have "0 \<le> (a - q) * den" "(a - q) * den \<le> (b - q) * den"
    using q ab assms(1,2) by (simp_all add: mult_right_mono)
  then have "Number ((a - q) * den) / Number (q * num) \<le> Number ((b - q) * den) / Number (q * num)"
    using q assms by (intro divide_right_mono Number_mono Number_nonneg) simp_all
  then have "fl (Number ((a - q) * den) / Number (q * num)) \<le> fl (Number ((b - q) * den) / Number (q * num))"
    using \<open>0 \<le> (a - q) * den\<close> q assms by (intro fl_mono divide_nonneg_nonneg Number_nonneg) simp_all
  then show ?thesis using q ab by (simp add: marginProgress_some [OF q(2) assms(1)])
qed

text \<open>
  the progress bar agrees with the verdict up to the rounding of its last division: it lies
  at or above one when the proposer would be disqualified, strictly above one only then, it is
  never negative, and it grows with the FAIL price. (At exactly one the bigint verdict decides.)
\<close>

theorem margin_progress_agrees:
  assumes "0 < num" "0 < den"
  shows "(willDisqualify f p num den \<longrightarrow> 1 \<le> marginProgress f p num den)
    \<and> (1 < marginProgress f p num den \<longrightarrow> willDisqualify f p num den)
    \<and> 0 \<le> marginProgress f p num den
    \<and> (\<forall>a b. a \<le> b \<longrightarrow> marginProgress (Some a) p num den \<le> marginProgress (Some b) p num den)"
  using margin_verdict [OF assms] marginProgress_nonneg [OF assms] margin_mono [OF assms] by blast

theorem margin_progress_agrees_witness:
  "1 \<le> marginProgress (Some 3000) (Some 2000) 1 10"
proof -
  have "willDisqualify (Some 3000) (Some 2000) 1 10" by (simp add: willDisqualify_def)
  then show ?thesis using margin_progress_agrees [of 1 10 "Some 3000" "Some 2000"] by simp
qed

end
