(* ===== verification/Market_Constants.thy ===== *)
theory Market_Constants
  imports Oracle_Constants
begin

text \<open>
  The constants of the prediction-market program as \<open>sdks/markets/ts/src/constants.ts\<close>
  mirrors them (discriminants, account tags and sizes, lifecycle status, error codes with
  their messages) and the wire constants of the MetaDAO programs it composes with
  (\<open>metadao/constants.ts\<close>). The ids shared with the oracle SDK are those of Oracle_Constants.
\<close>

section \<open>Program ids\<close>

definition MARKET_PROGRAM_ID :: "'a web3 \<Rightarrow> 'a" where
  "MARKET_PROGRAM_ID W = known_id W ''FEGNHWAB7kc7VC9CCwbvVPsv4Jykz2r2WQ758V4xCT9S''"

definition BPF_UPGRADEABLE_LOADER_ID :: "'a web3 \<Rightarrow> 'a" where
  "BPF_UPGRADEABLE_LOADER_ID W = known_id W ''BPFLoaderUpgradeab1e11111111111111111111111''"

section \<open>Instruction discriminants\<close>

datatype MIx =
    MIx_InitConfig
  | MIx_UpdateConfig
  | MIx_CreateMarket
  | MIx_Contribute
  | MIx_Cancel
  | MIx_Refund
  | MIx_Activate
  | MIx_ClaimLp
  | MIx_ResolveMarket
  | MIx_CollectFee
  | MIx_CloseMarket
  | MIx_AddLiquidity

fun mix_code :: "MIx \<Rightarrow> int" where
  "mix_code MIx_InitConfig = 0"
| "mix_code MIx_UpdateConfig = 1"
| "mix_code MIx_CreateMarket = 2"
| "mix_code MIx_Contribute = 3"
| "mix_code MIx_Cancel = 4"
| "mix_code MIx_Refund = 5"
| "mix_code MIx_Activate = 6"
| "mix_code MIx_ClaimLp = 7"
| "mix_code MIx_ResolveMarket = 8"
| "mix_code MIx_CollectFee = 9"
| "mix_code MIx_CloseMarket = 10"
| "mix_code MIx_AddLiquidity = 11"

definition all_mix :: "MIx list" where
  "all_mix =
     [MIx_InitConfig, MIx_UpdateConfig, MIx_CreateMarket, MIx_Contribute, MIx_Cancel,
     MIx_Refund, MIx_Activate, MIx_ClaimLp, MIx_ResolveMarket, MIx_CollectFee,
     MIx_CloseMarket, MIx_AddLiquidity]"

section \<open>Account types and sizes\<close>

datatype MAccountType =
    MAT_Uninitialized
  | MAT_Config
  | MAT_Market
  | MAT_Contribution

fun mtype_code :: "MAccountType \<Rightarrow> int" where
  "mtype_code MAT_Uninitialized = 0"
| "mtype_code MAT_Config = 1"
| "mtype_code MAT_Market = 2"
| "mtype_code MAT_Contribution = 3"

fun MARKET_ACCOUNT_SIZES :: "MAccountType \<Rightarrow> nat option" where
  "MARKET_ACCOUNT_SIZES MAT_Config = Some 120"
| "MARKET_ACCOUNT_SIZES MAT_Market = Some 424"
| "MARKET_ACCOUNT_SIZES MAT_Contribution = Some 96"
| "MARKET_ACCOUNT_SIZES MAT_Uninitialized = None"

section \<open>Lifecycle status\<close>

datatype MarketStatus =
    MS_Funding
  | MS_Active
  | MS_Resolved
  | MS_Void
  | MS_Cancelled

fun status_code :: "MarketStatus \<Rightarrow> int" where
  "status_code MS_Funding = 0"
| "status_code MS_Active = 1"
| "status_code MS_Resolved = 2"
| "status_code MS_Void = 3"
| "status_code MS_Cancelled = 4"

definition all_statuses :: "MarketStatus list" where
  "all_statuses =
     [MS_Funding, MS_Active, MS_Resolved, MS_Void, MS_Cancelled]"

section \<open>Error codes\<close>

datatype MarketError =
    ME_InvalidAccount
  | ME_Unauthorized
  | ME_AlreadyInitialized
  | ME_InvalidSplit
  | ME_ZeroAmount
  | ME_NotFunding
  | ME_OracleNotTerminal
  | ME_AlreadyFunded
  | ME_AlreadyClaimed
  | ME_NotCancelled
  | ME_OracleResolved
  | ME_NotBinary
  | ME_WrongMint
  | ME_NotFunded
  | ME_PoolNotEmpty
  | ME_NotActive
  | ME_AlreadySettled
  | ME_InvalidFee
  | ME_FeeNotCollected
  | ME_InvalidOutcome
  | ME_ContributionsOpen
  | ME_NotSettled
  | ME_NotUpgradeAuthority

fun market_error_code :: "MarketError \<Rightarrow> int" where
  "market_error_code ME_InvalidAccount = 0"
| "market_error_code ME_Unauthorized = 1"
| "market_error_code ME_AlreadyInitialized = 2"
| "market_error_code ME_InvalidSplit = 3"
| "market_error_code ME_ZeroAmount = 4"
| "market_error_code ME_NotFunding = 5"
| "market_error_code ME_OracleNotTerminal = 6"
| "market_error_code ME_AlreadyFunded = 7"
| "market_error_code ME_AlreadyClaimed = 8"
| "market_error_code ME_NotCancelled = 9"
| "market_error_code ME_OracleResolved = 10"
| "market_error_code ME_NotBinary = 11"
| "market_error_code ME_WrongMint = 12"
| "market_error_code ME_NotFunded = 13"
| "market_error_code ME_PoolNotEmpty = 14"
| "market_error_code ME_NotActive = 15"
| "market_error_code ME_AlreadySettled = 16"
| "market_error_code ME_InvalidFee = 17"
| "market_error_code ME_FeeNotCollected = 18"
| "market_error_code ME_InvalidOutcome = 19"
| "market_error_code ME_ContributionsOpen = 20"
| "market_error_code ME_NotSettled = 21"
| "market_error_code ME_NotUpgradeAuthority = 22"

definition all_market_errors :: "MarketError list" where
  "all_market_errors =
     [ME_InvalidAccount, ME_Unauthorized, ME_AlreadyInitialized, ME_InvalidSplit,
     ME_ZeroAmount, ME_NotFunding, ME_OracleNotTerminal, ME_AlreadyFunded,
     ME_AlreadyClaimed, ME_NotCancelled, ME_OracleResolved, ME_NotBinary, ME_WrongMint,
     ME_NotFunded, ME_PoolNotEmpty, ME_NotActive, ME_AlreadySettled, ME_InvalidFee,
     ME_FeeNotCollected, ME_InvalidOutcome, ME_ContributionsOpen, ME_NotSettled,
     ME_NotUpgradeAuthority]"

fun MARKET_ERROR_MESSAGES :: "MarketError \<Rightarrow> utext" where
  "MARKET_ERROR_MESSAGES ME_InvalidAccount =
     codes ''An account passed to the instruction is invalid (wrong owner, address, or contents).''"
| "MARKET_ERROR_MESSAGES ME_Unauthorized =
     codes ''The signer is not authorized to perform this action.''"
| "MARKET_ERROR_MESSAGES ME_AlreadyInitialized =
     codes ''The target account is already initialized.''"
| "MARKET_ERROR_MESSAGES ME_InvalidSplit =
     codes ''Unused (formerly the open_yes_bps range check; the uneven opening prior was abandoned).''"
| "MARKET_ERROR_MESSAGES ME_ZeroAmount =
     codes ''A zero amount was supplied where a positive amount is required.''"
| "MARKET_ERROR_MESSAGES ME_NotFunding =
     codes ''The market is not in the Funding status this instruction requires.''"
| "MARKET_ERROR_MESSAGES ME_OracleNotTerminal =
     codes ''The oracle has not reached a terminal (resolved/void) phase.''"
| "MARKET_ERROR_MESSAGES ME_AlreadyFunded =
     codes ''The market has already reached its funding target / been funded.''"
| "MARKET_ERROR_MESSAGES ME_AlreadyClaimed =
     codes ''Unused (the Contribution is now closed at claim/refund, so its absence '' @ [0x2014] @ codes '' not this flag '' @ [0x2014] @ codes '' is the idempotency guard).''"
| "MARKET_ERROR_MESSAGES ME_NotCancelled =
     codes ''The market is not in the Cancelled status this instruction requires.''"
| "MARKET_ERROR_MESSAGES ME_OracleResolved =
     codes ''The oracle has already resolved; this action is no longer permitted.''"
| "MARKET_ERROR_MESSAGES ME_NotBinary =
     codes ''The oracle is not a binary (two-option) market.''"
| "MARKET_ERROR_MESSAGES ME_WrongMint =
     codes ''A supplied mint does not match the expected mint.''"
| "MARKET_ERROR_MESSAGES ME_NotFunded =
     codes ''The market has not been funded yet.''"
| "MARKET_ERROR_MESSAGES ME_PoolNotEmpty =
     codes ''The AMM pool / vault is not empty.''"
| "MARKET_ERROR_MESSAGES ME_NotActive =
     codes ''The market is not in the Active status this instruction requires.''"
| "MARKET_ERROR_MESSAGES ME_AlreadySettled =
     codes ''The market has already been settled.''"
| "MARKET_ERROR_MESSAGES ME_InvalidFee =
     codes ''The protocol fee (fee_bps) exceeds the governance maximum.''"
| "MARKET_ERROR_MESSAGES ME_FeeNotCollected =
     codes ''The protocol fee has not been collected yet; run collect_fee before claiming LP.''"
| "MARKET_ERROR_MESSAGES ME_InvalidOutcome =
     codes ''The requested outcome_index is out of range for the oracle (>= options_count).''"
| "MARKET_ERROR_MESSAGES ME_ContributionsOpen =
     codes ''The market still has open contributions (some contributor has not yet claimed/refunded); it cannot be closed until every contribution is exited.''"
| "MARKET_ERROR_MESSAGES ME_NotSettled =
     codes ''The market is not in a terminal (Resolved/Void/Cancelled) status, so it cannot be closed.''"
| "MARKET_ERROR_MESSAGES ME_NotUpgradeAuthority =
     codes ''The signer is not the program's on-chain upgrade authority.''"

text \<open>\<open>decodeError\<close>: the enum value of a known code, else \<open>null\<close>.\<close>

definition decodeMarketError :: "int \<Rightarrow> MarketError option" where
  "decodeMarketError code = find (\<lambda>e. market_error_code e = code) all_market_errors"

section \<open>MetaDAO wire constants (metadao/constants.ts)\<close>

definition DISC_initializeQuestion :: bytes where
  "DISC_initializeQuestion = [0xf5, 0x97, 0x6a, 0xbc, 0x58, 0x2c, 0x41, 0xd4]"

definition DISC_initializeConditionalVault :: bytes where
  "DISC_initializeConditionalVault = [0x25, 0x58, 0xfa, 0xd4, 0x36, 0xda, 0xe3, 0xaf]"

definition DISC_splitTokens :: bytes where
  "DISC_splitTokens = [0x4f, 0xc3, 0x74, 0x00, 0x8c, 0xb0, 0x49, 0xb3]"

definition DISC_mergeTokens :: bytes where
  "DISC_mergeTokens = [0xe2, 0x59, 0xfb, 0x79, 0xe1, 0x82, 0xb4, 0x0e]"

definition DISC_redeemTokens :: bytes where
  "DISC_redeemTokens = [0xf6, 0x62, 0x86, 0x29, 0x98, 0x21, 0x78, 0x45]"

definition DISC_resolveQuestion :: bytes where
  "DISC_resolveQuestion = [0x34, 0x20, 0xe0, 0xb3, 0xb4, 0x08, 0x00, 0xf6]"

definition DISC_createAmm :: bytes where
  "DISC_createAmm = [0xf2, 0x5b, 0x15, 0xaa, 0x05, 0x44, 0x7d, 0x40]"

definition DISC_addLiquidity :: bytes where
  "DISC_addLiquidity = [0xb5, 0x9d, 0x59, 0x43, 0x8f, 0xb6, 0x34, 0x48]"

definition DISC_swap :: bytes where
  "DISC_swap = [0xf8, 0xc6, 0x9e, 0x91, 0xe1, 0x75, 0x87, 0xc8]"

definition DISC_crankThatTwap :: bytes where
  "DISC_crankThatTwap = [0xdc, 0x64, 0x19, 0xf9, 0x00, 0x5c, 0xc3, 0xc1]"

datatype SwapType = Buy | Sell

fun swap_code :: "SwapType \<Rightarrow> int" where
  "swap_code Buy = 0"
| "swap_code Sell = 1"

section \<open>Facts\<close>

lemma all_mix_UNIV: "i \<in> set all_mix"
  by (cases i) (simp_all add: all_mix_def)

lemma mix_code_inj: "mix_code i = mix_code j \<longleftrightarrow> i = j"
  by (cases i; cases j) simp_all

lemma mix_code_byte: "unsigned_range 8 (mix_code i)"
  by (cases i) (simp_all add: unsigned_range_def)

lemma mtype_code_inj: "mtype_code s = mtype_code t \<longleftrightarrow> s = t"
  by (cases s; cases t) simp_all

lemma mtype_code_byte: "unsigned_range 8 (mtype_code t)"
  by (cases t) (simp_all add: unsigned_range_def)

lemma decodeMarketError_code: "decodeMarketError (market_error_code e) = Some e"
  by (cases e) (simp_all add: decodeMarketError_def all_market_errors_def)

lemma length_discs [simp]:
  shows "length DISC_initializeQuestion = 8"
    and "length DISC_initializeConditionalVault = 8"
    and "length DISC_splitTokens = 8"
    and "length DISC_mergeTokens = 8"
    and "length DISC_redeemTokens = 8"
    and "length DISC_resolveQuestion = 8"
    and "length DISC_createAmm = 8"
    and "length DISC_addLiquidity = 8"
    and "length DISC_swap = 8"
    and "length DISC_crankThatTwap = 8"
  by (simp_all add: DISC_initializeQuestion_def DISC_initializeConditionalVault_def DISC_splitTokens_def DISC_mergeTokens_def DISC_redeemTokens_def DISC_resolveQuestion_def DISC_createAmm_def DISC_addLiquidity_def DISC_swap_def DISC_crankThatTwap_def)

end
