(* ===== verification/Market_Pda.thy ===== *)
theory Market_Pda
  imports Market_Constants Oracle_Pda
begin

text \<open>
  Program-derived addresses of the prediction-market SDK: those of the market program
  (\<open>sdks/markets/ts/src/pda.ts\<close>) and those of the MetaDAO programs it composes with
  (\<open>metadao/pda.ts\<close>). As in Oracle_Pda, the datatype \<open>mentity\<close> is the abstract view of the
  things with an address under the market program, and what is hashed determines the entity.
\<close>

section \<open>The market program (pda.ts)\<close>

definition mkt_derive :: "'a web3 \<Rightarrow> bytes list \<Rightarrow> 'a option \<Rightarrow> 'a pda res" where
  "mkt_derive W seeds programId =
     (let pid = (case programId of None \<Rightarrow> MARKET_PROGRAM_ID W | Some p \<Rightarrow> p)
      in rmap (\<lambda>(address, bump). \<lparr>pda_address = address, pda_bump = bump\<rparr>)
           (lift_web (w3_find_pda W seeds pid)))"

definition mkt_config :: "'a web3 \<Rightarrow> 'a option \<Rightarrow> 'a pda res" where
  "mkt_config W programId = mkt_derive W [ascii ''config''] programId"

definition mkt_programData :: "'a web3 \<Rightarrow> 'a option \<Rightarrow> 'a pda res" where
  "mkt_programData W programId =
     (let pid = (case programId of None \<Rightarrow> MARKET_PROGRAM_ID W | Some p \<Rightarrow> p) in
      rbind (pubkeyBytes W (Addr pid)) (\<lambda>p1.
        mkt_derive W [p1] (Some (BPF_UPGRADEABLE_LOADER_ID W))))"

definition mkt_market :: "'a web3 \<Rightarrow> 'a address_input \<Rightarrow> int \<Rightarrow> 'a option \<Rightarrow> 'a pda res" where
  "mkt_market W oracleAddr outcomeIndex programId =
     rbind (pubkeyBytes W oracleAddr) (\<lambda>o1.
       mkt_derive W [ascii ''market'', o1, [word_of_int outcomeIndex]] programId)"

definition mkt_escrow :: "'a web3 \<Rightarrow> 'a address_input \<Rightarrow> 'a option \<Rightarrow> 'a pda res" where
  "mkt_escrow W marketAddr programId =
     rbind (pubkeyBytes W marketAddr) (\<lambda>m1. mkt_derive W [ascii ''escrow'', m1] programId)"

definition mkt_contribution ::
  "'a web3 \<Rightarrow> 'a address_input \<Rightarrow> 'a address_input \<Rightarrow> 'a option \<Rightarrow> 'a pda res" where
  "mkt_contribution W marketAddr contributor programId =
     rbind (pubkeyBytes W marketAddr) (\<lambda>m1. rbind (pubkeyBytes W contributor) (\<lambda>c1.
       mkt_derive W [ascii ''contribution'', m1, c1] programId))"

definition mkt_cyes :: "'a web3 \<Rightarrow> 'a address_input \<Rightarrow> 'a option \<Rightarrow> 'a pda res" where
  "mkt_cyes W marketAddr programId =
     rbind (pubkeyBytes W marketAddr) (\<lambda>m1. mkt_derive W [ascii ''cyes'', m1] programId)"

definition mkt_cno :: "'a web3 \<Rightarrow> 'a address_input \<Rightarrow> 'a option \<Rightarrow> 'a pda res" where
  "mkt_cno W marketAddr programId =
     rbind (pubkeyBytes W marketAddr) (\<lambda>m1. mkt_derive W [ascii ''cno'', m1] programId)"

definition mkt_lpVault :: "'a web3 \<Rightarrow> 'a address_input \<Rightarrow> 'a option \<Rightarrow> 'a pda res" where
  "mkt_lpVault W marketAddr programId =
     rbind (pubkeyBytes W marketAddr) (\<lambda>m1. mkt_derive W [ascii ''lp_vault'', m1] programId)"

definition mkt_ata :: "'a web3 \<Rightarrow> 'a address_input \<Rightarrow> 'a address_input \<Rightarrow> 'a pda res" where
  "mkt_ata W owner mint =
     rbind (pubkeyBytes W owner) (\<lambda>o1. rbind (pubkeyBytes W mint) (\<lambda>m1.
       mkt_derive W [o1, w3_bytes W (TOKEN_PROGRAM_ID W), m1] (Some (ATA_PROGRAM_ID W))))"

section \<open>The MetaDAO programs (metadao/pda.ts)\<close>

definition md_derive :: "'a web3 \<Rightarrow> bytes list \<Rightarrow> 'a \<Rightarrow> 'a pda res" where
  "md_derive W seeds programId =
     rmap (\<lambda>(address, bump). \<lparr>pda_address = address, pda_bump = bump\<rparr>)
       (lift_web (w3_find_pda W seeds programId))"

definition md_question :: "'a web3 \<Rightarrow> bytes \<Rightarrow> 'a address_input \<Rightarrow> int \<Rightarrow> 'a pda res" where
  "md_question W questionId oracleAddr numOutcomes =
     rbind (pubkeyBytes W oracleAddr) (\<lambda>o1.
       md_derive W [ascii ''question'', questionId, o1, u8 numOutcomes] (conditionalVault_id W))"

definition md_conditionalVault ::
  "'a web3 \<Rightarrow> 'a address_input \<Rightarrow> 'a address_input \<Rightarrow> 'a pda res" where
  "md_conditionalVault W question underlyingMint =
     rbind (pubkeyBytes W question) (\<lambda>q1. rbind (pubkeyBytes W underlyingMint) (\<lambda>u1.
       md_derive W [ascii ''conditional_vault'', q1, u1] (conditionalVault_id W)))"

definition md_conditionalTokenMint :: "'a web3 \<Rightarrow> 'a address_input \<Rightarrow> int \<Rightarrow> 'a pda res" where
  "md_conditionalTokenMint W vault index =
     rbind (pubkeyBytes W vault) (\<lambda>v1.
       md_derive W [ascii ''conditional_token'', v1, u8 index] (conditionalVault_id W))"

definition md_vaultEventAuthority :: "'a web3 \<Rightarrow> 'a pda res" where
  "md_vaultEventAuthority W = md_derive W [ascii ''__event_authority''] (conditionalVault_id W)"

definition md_amm :: "'a web3 \<Rightarrow> 'a address_input \<Rightarrow> 'a address_input \<Rightarrow> 'a pda res" where
  "md_amm W baseMint quoteMint =
     rbind (pubkeyBytes W baseMint) (\<lambda>b1. rbind (pubkeyBytes W quoteMint) (\<lambda>q1.
       md_derive W [ascii ''amm__'', b1, q1] (ammV04_id W)))"

definition md_ammLpMint :: "'a web3 \<Rightarrow> 'a address_input \<Rightarrow> 'a pda res" where
  "md_ammLpMint W ammAddr =
     rbind (pubkeyBytes W ammAddr) (\<lambda>a1. md_derive W [ascii ''amm_lp_mint'', a1] (ammV04_id W))"

definition md_ammEventAuthority :: "'a web3 \<Rightarrow> 'a pda res" where
  "md_ammEventAuthority W = md_derive W [ascii ''__event_authority''] (ammV04_id W)"

definition md_eventAuthority :: "'a web3 \<Rightarrow> 'a \<Rightarrow> 'a pda res" where
  "md_eventAuthority W programId = md_derive W [ascii ''__event_authority''] programId"

definition md_ata :: "'a web3 \<Rightarrow> 'a address_input \<Rightarrow> 'a address_input \<Rightarrow> 'a res" where
  "md_ata W owner mint =
     rbind (pubkeyBytes W owner) (\<lambda>o1. rbind (pubkeyBytes W mint) (\<lambda>m1.
       rmap fst (lift_web (w3_find_pda W [o1, w3_bytes W (TOKEN_PROGRAM_ID W), m1]
         (ATA_PROGRAM_ID W)))))"

section \<open>The entities of the market program\<close>

datatype 'a mentity =
    MConfig
  | MMarket 'a int
  | MEscrow 'a
  | MContribution 'a 'a
  | MCyes 'a
  | MCno 'a
  | MLpVault 'a

fun mkt_pda_of :: "'a web3 \<Rightarrow> 'a option \<Rightarrow> 'a mentity \<Rightarrow> 'a pda res" where
  "mkt_pda_of W p MConfig = mkt_config W p"
| "mkt_pda_of W p (MMarket o1 i) = mkt_market W (Addr o1) i p"
| "mkt_pda_of W p (MEscrow m) = mkt_escrow W (Addr m) p"
| "mkt_pda_of W p (MContribution m c) = mkt_contribution W (Addr m) (Addr c) p"
| "mkt_pda_of W p (MCyes m) = mkt_cyes W (Addr m) p"
| "mkt_pda_of W p (MCno m) = mkt_cno W (Addr m) p"
| "mkt_pda_of W p (MLpVault m) = mkt_lpVault W (Addr m) p"

fun mentity_ok :: "'a mentity \<Rightarrow> bool" where
  "mentity_ok (MMarket o1 i) = unsigned_range 8 i"
| "mentity_ok _ = True"

fun mkt_seeds :: "'a web3 \<Rightarrow> 'a mentity \<Rightarrow> bytes list" where
  "mkt_seeds W MConfig = [ascii ''config'']"
| "mkt_seeds W (MMarket o1 i) = [ascii ''market'', w3_bytes W o1, u8 i]"
| "mkt_seeds W (MEscrow m) = [ascii ''escrow'', w3_bytes W m]"
| "mkt_seeds W (MContribution m c) = [ascii ''contribution'', w3_bytes W m, w3_bytes W c]"
| "mkt_seeds W (MCyes m) = [ascii ''cyes'', w3_bytes W m]"
| "mkt_seeds W (MCno m) = [ascii ''cno'', w3_bytes W m]"
| "mkt_seeds W (MLpVault m) = [ascii ''lp_vault'', w3_bytes W m]"

section \<open>Lemmas\<close>

lemmas mkt_pda_defs = mkt_config_def mkt_market_def mkt_escrow_def mkt_contribution_def
  mkt_cyes_def mkt_cno_def mkt_lpVault_def

lemma mkt_pda_of_seeds: "mkt_pda_of W p e = mkt_derive W (mkt_seeds W e) p"
  by (cases e) (simp_all add: mkt_pda_defs u8_le_bytes)

text \<open>The family is determined by the length of the preimage.\<close>

fun mkt_shape :: "'a mentity \<Rightarrow> nat" where
  "mkt_shape MConfig = 6"
| "mkt_shape (MMarket o1 i) = 39"
| "mkt_shape (MEscrow m) = 38"
| "mkt_shape (MContribution m c) = 76"
| "mkt_shape (MCyes m) = 36"
| "mkt_shape (MCno m) = 35"
| "mkt_shape (MLpVault m) = 40"

lemma mkt_shape_preimage:
  "web3_ok W \<Longrightarrow> mkt_shape e = length (concat (mkt_seeds W e))"
  by (cases e) (simp_all add: ascii_Cons web3_ok_D(1))

lemma mkt_preimage_inj:
  assumes W: "web3_ok W" and ok: "mentity_ok e" "mentity_ok f"
    and eq: "concat (mkt_seeds W e) = concat (mkt_seeds W f)"
  shows "e = f"
proof -
  have key: "w3_bytes W a @ xs = w3_bytes W b @ ys \<longleftrightarrow> a = b \<and> xs = ys" for a b xs ys
    using web3_bytes_inj [OF W] web3_ok_D(1) [OF W] by (metis append_eq_append_conv)
  have keys: "w3_bytes W a = w3_bytes W b \<longleftrightarrow> a = b" for a b
    using web3_bytes_inj [OF W] by blast
  have "mkt_shape e = mkt_shape f" using eq by (simp add: mkt_shape_preimage [OF W])
  then show ?thesis
    using ok eq by (cases e; cases f) (simp_all add: key keys c8.enc_inj)
qed

lemma mkt_seeds_short: "web3_ok W \<Longrightarrow> s \<in> set (mkt_seeds W e) \<Longrightarrow> length s \<le> 32"
  by (cases e) (auto simp: ascii_Cons web3_ok_D(1))

section \<open>Properties\<close>

text \<open>
  Market addresses have no collisions by construction. Every derivation under the market
  program searches under the documented seed list, each seed is within the 32-byte limit, and
  the hashed byte string determines the entity: the sub-markets of different oracles or
  outcomes, and the escrow, holders and contributions of different markets, never share a
  preimage.
\<close>

theorem market_pda_collision_free:
  assumes "web3_ok W" "mentity_ok e" "mentity_ok f"
  shows "mkt_pda_of W p e = mkt_derive W (mkt_seeds W e) p
    \<and> list_all (\<lambda>s. length s \<le> 32) (mkt_seeds W e)
    \<and> (concat (mkt_seeds W e) = concat (mkt_seeds W f) \<longleftrightarrow> e = f)"
  using assms mkt_preimage_inj mkt_seeds_short by (auto simp: mkt_pda_of_seeds list_all_iff)

theorem market_pda_collision_free_witness:
  "concat (mkt_seeds sample_web3 (MMarket 5 0)) \<noteq> concat (mkt_seeds sample_web3 (MMarket 5 1))"
  using market_pda_collision_free [OF sample_web3_ok, of "MMarket 5 0" "MMarket 5 1" None]
  by (simp add: unsigned_range_def)

end
