(* ===== verification/Market_Calls.thy ===== *)
theory Market_Calls
  imports Market_Pda Oracle_Calls
begin

text \<open>
  The 12 instruction builders of the prediction-market SDK
  (\<open>sdks/markets/ts/src/instructions/market/\<close>), in the form of the oracle builders, then seen
  together: \<open>mcall\<close> is the sum of their argument records and \<open>mbuild\<close> dispatches. The
  specification side states what the program expects of each: the role of every account as the
  tables of \<open>sdks/markets/rust/src/ix\<close> and of the processors list them, the slots that are derived
  again, and the payload parsers of \<open>programs/markets/src/processor/\<close>.
\<close>

section \<open>Shared helpers (instructions/payload.ts)\<close>

definition withMDisc :: "MIx \<Rightarrow> bytes list \<Rightarrow> bytes res" where
  "withMDisc disc payload = concatBytes (u8 (mix_code disc) # payload)"

text \<open>\<open>args.programId ?? MARKET_PROGRAM_ID\<close> and \<open>args.x ?? DEFAULT\<close>\<close>

definition market_program_or :: "'a web3 \<Rightarrow> 'a option \<Rightarrow> 'a" where
  "market_program_or W programId = (case programId of None \<Rightarrow> MARKET_PROGRAM_ID W | Some p \<Rightarrow> p)"

definition or_input :: "'a address_input option \<Rightarrow> 'a \<Rightarrow> 'a address_input" where
  "or_input x d = (case x of None \<Rightarrow> Addr d | Some i \<Rightarrow> i)"


section \<open>Config (config.ts)\<close>

record 'a initConfig_args =
  mic_payer :: "'a address_input"
  mic_kassMint :: "'a address_input"
  mic_authority :: "'a address_input"
  mic_minLiquidity :: "int"
  mic_feeBps :: "int"
  mic_feeDestination :: "'a address_input"
  mic_programId :: "'a option"

definition initConfig :: "'a web3 \<Rightarrow> 'a initConfig_args \<Rightarrow> 'a tx_instruction res" where
  "initConfig W a =
    (let programId = market_program_or W (mic_programId a) in
     rbind (mkt_config W (Some programId)) (\<lambda>config.
     rbind (mkt_programData W (Some programId)) (\<lambda>programData.
     rbind (collect
       [Inr (w (pda_address config) False),
        w_in W (mic_payer a) True,
        ro_in W (mic_kassMint a) False,
        ro_in W (mic_feeDestination a) False,
        Inr (ro (SYSTEM_PROGRAM_ID W) False),
        Inr (ro (pda_address programData) False)]) (\<lambda>ks.
     rbind (rbind (collect [pubkeyBytes W (mic_authority a), Inr (u64LE (mic_minLiquidity
         a)), Inr (u16LE (mic_feeBps a)), pubkeyBytes W (mic_feeDestination a)])
         (\<lambda>parts. withMDisc MIx_InitConfig parts)) (\<lambda>bs.
     Inr \<lparr>ti_programId = programId, ti_keys = ks, ti_data = bs\<rparr>)))))"

record 'a updateConfig_args =
  muc_authority :: "'a address_input"
  muc_minLiquidity :: "int"
  muc_feeBps :: "int"
  muc_feeDestination :: "'a address_input"
  muc_programId :: "'a option"

definition updateConfig :: "'a web3 \<Rightarrow> 'a updateConfig_args \<Rightarrow> 'a tx_instruction res" where
  "updateConfig W a =
    (let programId = market_program_or W (muc_programId a) in
     rbind (mkt_config W (Some programId)) (\<lambda>config.
     rbind (collect
       [Inr (w (pda_address config) False),
        ro_in W (muc_authority a) True,
        ro_in W (muc_feeDestination a) False]) (\<lambda>ks.
     rbind (rbind (collect [Inr (u64LE (muc_minLiquidity a)), Inr (u16LE (muc_feeBps a)),
         pubkeyBytes W (muc_feeDestination a)]) (\<lambda>parts. withMDisc MIx_UpdateConfig
         parts)) (\<lambda>bs.
     Inr \<lparr>ti_programId = programId, ti_keys = ks, ti_data = bs\<rparr>))))"

section \<open>Funding (funding.ts)\<close>

record 'a createMarket_args =
  mcm_creator :: "'a address_input"
  mcm_oracle :: "'a address_input"
  mcm_kassMint :: "'a address_input"
  mcm_creatorKassAta :: "'a address_input"
  mcm_seedAmount :: "int"
  mcm_outcomeIndex :: "int"
  mcm_programId :: "'a option"

definition createMarket :: "'a web3 \<Rightarrow> 'a createMarket_args \<Rightarrow> 'a tx_instruction res" where
  "createMarket W a =
    (let programId = market_program_or W (mcm_programId a) in
     rbind (mkt_config W (Some programId)) (\<lambda>config.
     rbind (mkt_market W (mcm_oracle a) (mcm_outcomeIndex a) (Some programId)) (\<lambda>market.
     rbind (mkt_escrow W (Addr (pda_address market)) (Some programId)) (\<lambda>escrow.
     rbind (mkt_contribution W (Addr (pda_address market)) (mcm_creator a) (Some programId)) (\<lambda>contribution.
     rbind (collect
       [Inr (ro (pda_address config) False),
        ro_in W (mcm_oracle a) False,
        Inr (w (pda_address market) False),
        Inr (w (pda_address escrow) False),
        ro_in W (mcm_kassMint a) False,
        w_in W (mcm_creator a) True,
        w_in W (mcm_creatorKassAta a) False,
        Inr (w (pda_address contribution) False),
        Inr (ro (TOKEN_PROGRAM_ID W) False),
        Inr (ro (SYSTEM_PROGRAM_ID W) False)]) (\<lambda>ks.
     rbind (withMDisc MIx_CreateMarket [u64LE (mcm_seedAmount a), u8 (mcm_outcomeIndex a)])
         (\<lambda>bs.
     Inr \<lparr>ti_programId = programId, ti_keys = ks, ti_data = bs\<rparr>)))))))"

record 'a contribute_args =
  mco_contributor :: "'a address_input"
  mco_market :: "'a address_input"
  mco_contributorKassAta :: "'a address_input"
  mco_amount :: "int"
  mco_programId :: "'a option"

definition contribute :: "'a web3 \<Rightarrow> 'a contribute_args \<Rightarrow> 'a tx_instruction res" where
  "contribute W a =
    (let programId = market_program_or W (mco_programId a) in
     rbind (mkt_escrow W (mco_market a) (Some programId)) (\<lambda>escrow.
     rbind (mkt_contribution W (mco_market a) (mco_contributor a) (Some programId)) (\<lambda>contribution.
     rbind (collect
       [w_in W (mco_market a) False,
        Inr (w (pda_address escrow) False),
        w_in W (mco_contributor a) True,
        w_in W (mco_contributorKassAta a) False,
        Inr (w (pda_address contribution) False),
        Inr (ro (TOKEN_PROGRAM_ID W) False),
        Inr (ro (SYSTEM_PROGRAM_ID W) False)]) (\<lambda>ks.
     rbind (withMDisc MIx_Contribute [u64LE (mco_amount a)]) (\<lambda>bs.
     Inr \<lparr>ti_programId = programId, ti_keys = ks, ti_data = bs\<rparr>)))))"

record 'a cancel_args =
  mca_market :: "'a address_input"
  mca_oracle :: "'a address_input"
  mca_programId :: "'a option"

definition cancel :: "'a web3 \<Rightarrow> 'a cancel_args \<Rightarrow> 'a tx_instruction res" where
  "cancel W a =
    (let programId = market_program_or W (mca_programId a) in
     rbind (collect
       [w_in W (mca_market a) False,
        ro_in W (mca_oracle a) False]) (\<lambda>ks.
     rbind (withMDisc MIx_Cancel []) (\<lambda>bs.
     Inr \<lparr>ti_programId = programId, ti_keys = ks, ti_data = bs\<rparr>)))"

record 'a refund_args =
  mrf_market :: "'a address_input"
  mrf_contributor :: "'a address_input"
  mrf_contributorKassAta :: "'a address_input"
  mrf_programId :: "'a option"

definition refund :: "'a web3 \<Rightarrow> 'a refund_args \<Rightarrow> 'a tx_instruction res" where
  "refund W a =
    (let programId = market_program_or W (mrf_programId a) in
     rbind (mkt_escrow W (mrf_market a) (Some programId)) (\<lambda>escrow.
     rbind (mkt_contribution W (mrf_market a) (mrf_contributor a) (Some programId)) (\<lambda>contribution.
     rbind (collect
       [w_in W (mrf_market a) False,
        Inr (w (pda_address escrow) False),
        Inr (w (pda_address contribution) False),
        w_in W (mrf_contributorKassAta a) False,
        w_in W (mrf_contributor a) False,
        Inr (ro (TOKEN_PROGRAM_ID W) False)]) (\<lambda>ks.
     rbind (withMDisc MIx_Refund []) (\<lambda>bs.
     Inr \<lparr>ti_programId = programId, ti_keys = ks, ti_data = bs\<rparr>)))))"

section \<open>Lifecycle (lifecycle.ts)\<close>

record 'a activate_args =
  mac_market :: "'a address_input"
  mac_oracle :: "'a address_input"
  mac_payer :: "'a address_input"
  mac_question :: "'a address_input"
  mac_vault :: "'a address_input"
  mac_vaultUnderlyingAta :: "'a address_input"
  mac_yesMint :: "'a address_input"
  mac_noMint :: "'a address_input"
  mac_marketCyes :: "'a address_input"
  mac_marketCno :: "'a address_input"
  mac_amm :: "'a address_input"
  mac_lpMint :: "'a address_input"
  mac_lpVault :: "'a address_input"
  mac_ammVaultBase :: "'a address_input"
  mac_ammVaultQuote :: "'a address_input"
  mac_cvEventAuthority :: "'a address_input"
  mac_ammEventAuthority :: "'a address_input"
  mac_cvProgram :: "('a address_input) option"
  mac_ammProgram :: "('a address_input) option"
  mac_tokenProgram :: "('a address_input) option"
  mac_systemProgram :: "('a address_input) option"
  mac_programId :: "'a option"

definition activate :: "'a web3 \<Rightarrow> 'a activate_args \<Rightarrow> 'a tx_instruction res" where
  "activate W a =
    (let programId = market_program_or W (mac_programId a) in
     rbind (mkt_escrow W (mac_market a) (Some programId)) (\<lambda>escrow.
     rbind (collect
       [w_in W (mac_market a) False,
        ro_in W (mac_oracle a) False,
        w_in W (mac_payer a) True,
        ro_in W (mac_question a) False,
        w_in W (mac_vault a) False,
        w_in W (mac_vaultUnderlyingAta a) False,
        Inr (w (pda_address escrow) False),
        w_in W (mac_yesMint a) False,
        w_in W (mac_noMint a) False,
        w_in W (mac_marketCyes a) False,
        w_in W (mac_marketCno a) False,
        w_in W (mac_amm a) False,
        w_in W (mac_lpMint a) False,
        w_in W (mac_lpVault a) False,
        w_in W (mac_ammVaultBase a) False,
        w_in W (mac_ammVaultQuote a) False,
        ro_in W (mac_cvEventAuthority a) False,
        ro_in W (or_input (mac_cvProgram a) (conditionalVault_id W)) False,
        ro_in W (mac_ammEventAuthority a) False,
        ro_in W (or_input (mac_ammProgram a) (ammV04_id W)) False,
        ro_in W (or_input (mac_tokenProgram a) (TOKEN_PROGRAM_ID W)) False,
        ro_in W (or_input (mac_systemProgram a) (SYSTEM_PROGRAM_ID W)) False]) (\<lambda>ks.
     rbind (withMDisc MIx_Activate []) (\<lambda>bs.
     Inr \<lparr>ti_programId = programId, ti_keys = ks, ti_data = bs\<rparr>))))"

record 'a claimLp_args =
  mcl_market :: "'a address_input"
  mcl_contributor :: "'a address_input"
  mcl_contributorLpAta :: "'a address_input"
  mcl_programId :: "'a option"

definition claimLp :: "'a web3 \<Rightarrow> 'a claimLp_args \<Rightarrow> 'a tx_instruction res" where
  "claimLp W a =
    (let programId = market_program_or W (mcl_programId a) in
     rbind (mkt_lpVault W (mcl_market a) (Some programId)) (\<lambda>lpVault.
     rbind (mkt_contribution W (mcl_market a) (mcl_contributor a) (Some programId)) (\<lambda>contribution.
     rbind (collect
       [w_in W (mcl_market a) False,
        Inr (w (pda_address lpVault) False),
        Inr (w (pda_address contribution) False),
        w_in W (mcl_contributorLpAta a) False,
        w_in W (mcl_contributor a) False,
        Inr (ro (TOKEN_PROGRAM_ID W) False)]) (\<lambda>ks.
     rbind (withMDisc MIx_ClaimLp []) (\<lambda>bs.
     Inr \<lparr>ti_programId = programId, ti_keys = ks, ti_data = bs\<rparr>)))))"

record 'a resolveMarket_args =
  mrm_market :: "'a address_input"
  mrm_oracle :: "'a address_input"
  mrm_question :: "'a address_input"
  mrm_cvEventAuthority :: "'a address_input"
  mrm_cvProgram :: "('a address_input) option"
  mrm_programId :: "'a option"

definition resolveMarket :: "'a web3 \<Rightarrow> 'a resolveMarket_args \<Rightarrow> 'a tx_instruction res" where
  "resolveMarket W a =
    (let programId = market_program_or W (mrm_programId a) in
     rbind (collect
       [w_in W (mrm_market a) False,
        ro_in W (mrm_oracle a) False,
        w_in W (mrm_question a) False,
        ro_in W (mrm_cvEventAuthority a) False,
        ro_in W (or_input (mrm_cvProgram a) (conditionalVault_id W)) False]) (\<lambda>ks.
     rbind (withMDisc MIx_ResolveMarket []) (\<lambda>bs.
     Inr \<lparr>ti_programId = programId, ti_keys = ks, ti_data = bs\<rparr>)))"

record 'a collectFee_args =
  mcf_market :: "'a address_input"
  mcf_feeDestination :: "'a address_input"
  mcf_question :: "'a address_input"
  mcf_vault :: "'a address_input"
  mcf_vaultUnderlyingAta :: "'a address_input"
  mcf_yesMint :: "'a address_input"
  mcf_noMint :: "'a address_input"
  mcf_marketCyes :: "'a address_input"
  mcf_marketCno :: "'a address_input"
  mcf_amm :: "'a address_input"
  mcf_lpMint :: "'a address_input"
  mcf_lpVault :: "'a address_input"
  mcf_ammVaultBase :: "'a address_input"
  mcf_ammVaultQuote :: "'a address_input"
  mcf_cvEventAuthority :: "'a address_input"
  mcf_ammEventAuthority :: "'a address_input"
  mcf_cvProgram :: "('a address_input) option"
  mcf_ammProgram :: "('a address_input) option"
  mcf_tokenProgram :: "('a address_input) option"
  mcf_programId :: "'a option"

definition collectFee :: "'a web3 \<Rightarrow> 'a collectFee_args \<Rightarrow> 'a tx_instruction res" where
  "collectFee W a =
    (let programId = market_program_or W (mcf_programId a) in
     rbind (mkt_config W (Some programId)) (\<lambda>config.
     rbind (mkt_escrow W (mcf_market a) (Some programId)) (\<lambda>escrow.
     rbind (collect
       [w_in W (mcf_market a) False,
        Inr (ro (pda_address config) False),
        w_in W (mcf_feeDestination a) False,
        ro_in W (mcf_question a) False,
        w_in W (mcf_vault a) False,
        w_in W (mcf_vaultUnderlyingAta a) False,
        Inr (w (pda_address escrow) False),
        w_in W (mcf_yesMint a) False,
        w_in W (mcf_noMint a) False,
        w_in W (mcf_marketCyes a) False,
        w_in W (mcf_marketCno a) False,
        w_in W (mcf_amm a) False,
        w_in W (mcf_lpMint a) False,
        w_in W (mcf_lpVault a) False,
        w_in W (mcf_ammVaultBase a) False,
        w_in W (mcf_ammVaultQuote a) False,
        ro_in W (mcf_cvEventAuthority a) False,
        ro_in W (or_input (mcf_cvProgram a) (conditionalVault_id W)) False,
        ro_in W (mcf_ammEventAuthority a) False,
        ro_in W (or_input (mcf_ammProgram a) (ammV04_id W)) False,
        ro_in W (or_input (mcf_tokenProgram a) (TOKEN_PROGRAM_ID W)) False]) (\<lambda>ks.
     rbind (withMDisc MIx_CollectFee []) (\<lambda>bs.
     Inr \<lparr>ti_programId = programId, ti_keys = ks, ti_data = bs\<rparr>)))))"

record 'a marketClose_args =
  mcz_market :: "'a address_input"
  mcz_creator :: "'a address_input"
  mcz_programId :: "'a option"

definition marketClose :: "'a web3 \<Rightarrow> 'a marketClose_args \<Rightarrow> 'a tx_instruction res" where
  "marketClose W a =
    (let programId = market_program_or W (mcz_programId a) in
     rbind (mkt_escrow W (mcz_market a) (Some programId)) (\<lambda>escrow.
     rbind (mkt_cyes W (mcz_market a) (Some programId)) (\<lambda>cyes.
     rbind (mkt_cno W (mcz_market a) (Some programId)) (\<lambda>cno.
     rbind (mkt_lpVault W (mcz_market a) (Some programId)) (\<lambda>lpVault.
     rbind (collect
       [w_in W (mcz_market a) False,
        w_in W (mcz_creator a) False,
        Inr (w (pda_address escrow) False),
        Inr (w (pda_address cyes) False),
        Inr (w (pda_address cno) False),
        Inr (w (pda_address lpVault) False),
        Inr (ro (TOKEN_PROGRAM_ID W) False)]) (\<lambda>ks.
     rbind (withMDisc MIx_CloseMarket []) (\<lambda>bs.
     Inr \<lparr>ti_programId = programId, ti_keys = ks, ti_data = bs\<rparr>)))))))"

record 'a addLiquidity_args =
  mal_market :: "'a address_input"
  mal_oracle :: "'a address_input"
  mal_depositor :: "'a address_input"
  mal_kassMint :: "'a address_input"
  mal_question :: "'a address_input"
  mal_vault :: "'a address_input"
  mal_vaultUnderlyingAta :: "'a address_input"
  mal_yesMint :: "'a address_input"
  mal_noMint :: "'a address_input"
  mal_amm :: "'a address_input"
  mal_lpMint :: "'a address_input"
  mal_ammVaultBase :: "'a address_input"
  mal_ammVaultQuote :: "'a address_input"
  mal_cvEventAuthority :: "'a address_input"
  mal_ammEventAuthority :: "'a address_input"
  mal_amount :: "int"
  mal_quoteAmount :: "int"
  mal_maxBaseAmount :: "int"
  mal_minLpTokens :: "int"
  mal_cvProgram :: "('a address_input) option"
  mal_ammProgram :: "('a address_input) option"
  mal_tokenProgram :: "('a address_input) option"
  mal_systemProgram :: "('a address_input) option"
  mal_programId :: "'a option"

definition addLiquidity :: "'a web3 \<Rightarrow> 'a addLiquidity_args \<Rightarrow> 'a tx_instruction res" where
  "addLiquidity W a =
    (let programId = market_program_or W (mal_programId a) in
     rbind (mkt_escrow W (mal_market a) (Some programId)) (\<lambda>escrow.
     rbind (mkt_cyes W (mal_market a) (Some programId)) (\<lambda>cyes.
     rbind (mkt_cno W (mal_market a) (Some programId)) (\<lambda>cno.
     rbind (mkt_lpVault W (mal_market a) (Some programId)) (\<lambda>lpVault.
     rbind (mkt_contribution W (mal_market a) (mal_depositor a) (Some programId)) (\<lambda>contribution.
     rbind (md_ata W (mal_depositor a) (mal_kassMint a)) (\<lambda>depositorKassAta.
     rbind (md_ata W (mal_depositor a) (mal_yesMint a)) (\<lambda>depositorCyesAta.
     rbind (md_ata W (mal_depositor a) (mal_noMint a)) (\<lambda>depositorCnoAta.
     rbind (collect
       [w_in W (mal_market a) False,
        ro_in W (mal_oracle a) False,
        w_in W (mal_depositor a) True,
        Inr (w depositorKassAta False),
        Inr (w (pda_address escrow) False),
        ro_in W (mal_question a) False,
        w_in W (mal_vault a) False,
        w_in W (mal_vaultUnderlyingAta a) False,
        w_in W (mal_yesMint a) False,
        w_in W (mal_noMint a) False,
        Inr (w (pda_address cyes) False),
        Inr (w (pda_address cno) False),
        Inr (w depositorCyesAta False),
        Inr (w depositorCnoAta False),
        w_in W (mal_amm a) False,
        w_in W (mal_lpMint a) False,
        Inr (w (pda_address lpVault) False),
        w_in W (mal_ammVaultBase a) False,
        w_in W (mal_ammVaultQuote a) False,
        Inr (w (pda_address contribution) False),
        ro_in W (mal_cvEventAuthority a) False,
        ro_in W (or_input (mal_cvProgram a) (conditionalVault_id W)) False,
        ro_in W (mal_ammEventAuthority a) False,
        ro_in W (or_input (mal_ammProgram a) (ammV04_id W)) False,
        ro_in W (or_input (mal_tokenProgram a) (TOKEN_PROGRAM_ID W)) False,
        ro_in W (or_input (mal_systemProgram a) (SYSTEM_PROGRAM_ID W)) False]) (\<lambda>ks.
     rbind (withMDisc MIx_AddLiquidity [u64LE (mal_amount a), u64LE (mal_quoteAmount a),
         u64LE (mal_maxBaseAmount a), u64LE (mal_minLpTokens a)]) (\<lambda>bs.
     Inr \<lparr>ti_programId = programId, ti_keys = ks, ti_data = bs\<rparr>)))))))))))"

section \<open>Calls\<close>

datatype 'a mcall =
    M_initConfig "'a initConfig_args"
  | M_updateConfig "'a updateConfig_args"
  | M_createMarket "'a createMarket_args"
  | M_contribute "'a contribute_args"
  | M_cancel "'a cancel_args"
  | M_refund "'a refund_args"
  | M_activate "'a activate_args"
  | M_claimLp "'a claimLp_args"
  | M_resolveMarket "'a resolveMarket_args"
  | M_collectFee "'a collectFee_args"
  | M_marketClose "'a marketClose_args"
  | M_addLiquidity "'a addLiquidity_args"

fun mbuild :: "'a web3 \<Rightarrow> 'a mcall \<Rightarrow> 'a tx_instruction res" where
  "mbuild W (M_initConfig a) = initConfig W a"
| "mbuild W (M_updateConfig a) = updateConfig W a"
| "mbuild W (M_createMarket a) = createMarket W a"
| "mbuild W (M_contribute a) = contribute W a"
| "mbuild W (M_cancel a) = cancel W a"
| "mbuild W (M_refund a) = refund W a"
| "mbuild W (M_activate a) = activate W a"
| "mbuild W (M_claimLp a) = claimLp W a"
| "mbuild W (M_resolveMarket a) = resolveMarket W a"
| "mbuild W (M_collectFee a) = collectFee W a"
| "mbuild W (M_marketClose a) = marketClose W a"
| "mbuild W (M_addLiquidity a) = addLiquidity W a"

fun mcall_ix :: "'a mcall \<Rightarrow> MIx" where
  "mcall_ix (M_initConfig a) = MIx_InitConfig"
| "mcall_ix (M_updateConfig a) = MIx_UpdateConfig"
| "mcall_ix (M_createMarket a) = MIx_CreateMarket"
| "mcall_ix (M_contribute a) = MIx_Contribute"
| "mcall_ix (M_cancel a) = MIx_Cancel"
| "mcall_ix (M_refund a) = MIx_Refund"
| "mcall_ix (M_activate a) = MIx_Activate"
| "mcall_ix (M_claimLp a) = MIx_ClaimLp"
| "mcall_ix (M_resolveMarket a) = MIx_ResolveMarket"
| "mcall_ix (M_collectFee a) = MIx_CollectFee"
| "mcall_ix (M_marketClose a) = MIx_CloseMarket"
| "mcall_ix (M_addLiquidity a) = MIx_AddLiquidity"

fun mcall_program :: "'a mcall \<Rightarrow> 'a option" where
  "mcall_program (M_initConfig a) = mic_programId a"
| "mcall_program (M_updateConfig a) = muc_programId a"
| "mcall_program (M_createMarket a) = mcm_programId a"
| "mcall_program (M_contribute a) = mco_programId a"
| "mcall_program (M_cancel a) = mca_programId a"
| "mcall_program (M_refund a) = mrf_programId a"
| "mcall_program (M_activate a) = mac_programId a"
| "mcall_program (M_claimLp a) = mcl_programId a"
| "mcall_program (M_resolveMarket a) = mrm_programId a"
| "mcall_program (M_collectFee a) = mcf_programId a"
| "mcall_program (M_marketClose a) = mcz_programId a"
| "mcall_program (M_addLiquidity a) = mal_programId a"

fun mcall_signer :: "'a mcall \<Rightarrow> 'a address_input option" where
  "mcall_signer (M_initConfig a) = Some (mic_payer a)"
| "mcall_signer (M_updateConfig a) = Some (muc_authority a)"
| "mcall_signer (M_createMarket a) = Some (mcm_creator a)"
| "mcall_signer (M_contribute a) = Some (mco_contributor a)"
| "mcall_signer (M_cancel a) = None"
| "mcall_signer (M_refund a) = None"
| "mcall_signer (M_activate a) = Some (mac_payer a)"
| "mcall_signer (M_claimLp a) = None"
| "mcall_signer (M_resolveMarket a) = None"
| "mcall_signer (M_collectFee a) = None"
| "mcall_signer (M_marketClose a) = None"
| "mcall_signer (M_addLiquidity a) = Some (mal_depositor a)"

text \<open>The role of each account: w(ritable), r(ead-only), S(igner, writable), s(igner).\<close>

fun mcall_roles :: "'a mcall \<Rightarrow> string" where
  "mcall_roles (M_initConfig a) = ''wSrrrr''"
| "mcall_roles (M_updateConfig a) = ''wsr''"
| "mcall_roles (M_createMarket a) = ''rrwwrSwwrr''"
| "mcall_roles (M_contribute a) = ''wwSwwrr''"
| "mcall_roles (M_cancel a) = ''wr''"
| "mcall_roles (M_refund a) = ''wwwwwr''"
| "mcall_roles (M_activate a) = ''wrSrwwwwwwwwwwwwrrrrrr''"
| "mcall_roles (M_claimLp a) = ''wwwwwr''"
| "mcall_roles (M_resolveMarket a) = ''wrwrr''"
| "mcall_roles (M_collectFee a) = ''wrwrwwwwwwwwwwwwrrrrr''"
| "mcall_roles (M_marketClose a) = ''wwwwwwr''"
| "mcall_roles (M_addLiquidity a) = ''wrSwwrwwwwwwwwwwwwwwrrrrrr''"

text \<open>The slots that the processor derives again, given the other addresses \<open>k\<close>.\<close>

fun mcall_slots :: "'a mcall \<Rightarrow> 'a list \<Rightarrow> (nat \<times> 'a mentity) list" where
  "mcall_slots (M_initConfig a) k = [(0, MConfig)]"
| "mcall_slots (M_updateConfig a) k = [(0, MConfig)]"
| "mcall_slots (M_createMarket a) k = [(0, MConfig), (2, MMarket (k ! 1) (mcm_outcomeIndex a)), (3, MEscrow (k ! 2)), (7, MContribution (k ! 2) (k ! 5))]"
| "mcall_slots (M_contribute a) k = [(1, MEscrow (k ! 0)), (4, MContribution (k ! 0) (k ! 2))]"
| "mcall_slots (M_cancel a) k = []"
| "mcall_slots (M_refund a) k = [(1, MEscrow (k ! 0)), (2, MContribution (k ! 0) (k ! 4))]"
| "mcall_slots (M_activate a) k = [(6, MEscrow (k ! 0))]"
| "mcall_slots (M_claimLp a) k = [(1, MLpVault (k ! 0)), (2, MContribution (k ! 0) (k ! 4))]"
| "mcall_slots (M_resolveMarket a) k = []"
| "mcall_slots (M_collectFee a) k = [(1, MConfig), (6, MEscrow (k ! 0))]"
| "mcall_slots (M_marketClose a) k = [(2, MEscrow (k ! 0)), (3, MCyes (k ! 0)), (4, MCno (k ! 0)), (5, MLpVault (k ! 0))]"
| "mcall_slots (M_addLiquidity a) k = [(4, MEscrow (k ! 0)), (10, MCyes (k ! 0)), (11, MCno (k ! 0)), (16, MLpVault (k ! 0)), (19, MContribution (k ! 0) (k ! 2))]"

text \<open>The slots that hold an associated token account of two other slots (owner, mint).\<close>

fun mcall_atas :: "'a mcall \<Rightarrow> (nat \<times> nat \<times> nat) list" where
  "mcall_atas (M_addLiquidity a) = [(12, 2, 8), (13, 2, 9)]"
| "mcall_atas _ = []"

definition role_of :: "'a account_meta \<Rightarrow> char" where
  "role_of m = (if am_isSigner m then (if am_isWritable m then CHR ''S'' else CHR ''s'')
     else (if am_isWritable m then CHR ''w'' else CHR ''r''))"

definition well_formed_mcall :: "'a web3 \<Rightarrow> 'a mcall \<Rightarrow> 'a tx_instruction \<Rightarrow> bool" where
  "well_formed_mcall W c t \<longleftrightarrow>
     ti_programId t = market_program_or W (mcall_program c) \<and>
     take 1 (ti_data t) = u8 (mix_code (mcall_ix c)) \<and>
     map role_of (ti_keys t) = mcall_roles c \<and>
     (case mcall_signer c of None \<Rightarrow> signers t = []
      | Some x \<Rightarrow> rmap (\<lambda>a. [a]) (addr W x) = Inr (signers t)) \<and>
     list_all (\<lambda>(i, e). rmap pda_address (mkt_pda_of W (Some (ti_programId t)) e)
        = Inr (key_addresses t ! i)) (mcall_slots c (key_addresses t)) \<and>
     list_all (\<lambda>(i, owner, mint). md_ata W (Addr (key_addresses t ! owner)) (Addr (key_addresses t ! mint))
        = Inr (key_addresses t ! i)) (mcall_atas c)"

section \<open>Each builder is well formed\<close>

lemma withMDisc_eq [simp]: "withMDisc disc payload = Inr (u8 (mix_code disc) @ concat payload)"
  by (simp add: withMDisc_def)

lemma take_disc: "take 1 (u8 v @ xs) = u8 v"
  by (simp add: u8_def)

lemma role_simps [simp]:
  "role_of (w p True) = CHR ''S''" "role_of (w p False) = CHR ''w''"
  "role_of (ro p True) = CHR ''s''" "role_of (ro p False) = CHR ''r''"
  by (simp_all add: role_of_def)

lemma pubkeyBytes_iff:
  "pubkeyBytes W x = Inr b \<longleftrightarrow> (\<exists>a. addr W x = Inr a \<and> b = w3_bytes W a)"
  by (simp add: pubkeyBytes_def rmap_Inr_iff)

lemmas mcall_opens = Let_def rbind_Inr_iff collect_Cons_iff collect_Nil_iff w_in_iff ro_in_iff
  append_Cons append_Nil withMDisc_eq mkt_pda_defs mkt_programData_def md_ata_def pubkeyBytes_iff

lemmas mcall_shape = well_formed_mcall_def signers_def key_addresses_def take_disc mkt_pda_defs
  md_ata_def

lemma initConfig_mcall:
  assumes "initConfig W a = Inr t"
  shows "well_formed_mcall W (M_initConfig a) t"
  using assms
  by (clarsimp simp: initConfig_def mcall_opens simp del: collect.simps)
    (simp add: mcall_shape)

lemma updateConfig_mcall:
  assumes "updateConfig W a = Inr t"
  shows "well_formed_mcall W (M_updateConfig a) t"
  using assms
  by (clarsimp simp: updateConfig_def mcall_opens simp del: collect.simps)
    (simp add: mcall_shape)

lemma createMarket_mcall:
  assumes "createMarket W a = Inr t"
  shows "well_formed_mcall W (M_createMarket a) t"
  using assms
  by (clarsimp simp: createMarket_def mcall_opens simp del: collect.simps)
    (simp add: mcall_shape)

lemma contribute_mcall:
  assumes "contribute W a = Inr t"
  shows "well_formed_mcall W (M_contribute a) t"
  using assms
  by (clarsimp simp: contribute_def mcall_opens simp del: collect.simps)
    (simp add: mcall_shape)

lemma cancel_mcall:
  assumes "cancel W a = Inr t"
  shows "well_formed_mcall W (M_cancel a) t"
  using assms
  by (clarsimp simp: cancel_def mcall_opens simp del: collect.simps)
    (simp add: mcall_shape)

lemma refund_mcall:
  assumes "refund W a = Inr t"
  shows "well_formed_mcall W (M_refund a) t"
  using assms
  by (clarsimp simp: refund_def mcall_opens simp del: collect.simps)
    (simp add: mcall_shape)

lemma activate_mcall:
  assumes "activate W a = Inr t"
  shows "well_formed_mcall W (M_activate a) t"
  using assms
  by (clarsimp simp: activate_def mcall_opens simp del: collect.simps)
    (simp add: mcall_shape)

lemma claimLp_mcall:
  assumes "claimLp W a = Inr t"
  shows "well_formed_mcall W (M_claimLp a) t"
  using assms
  by (clarsimp simp: claimLp_def mcall_opens simp del: collect.simps)
    (simp add: mcall_shape)

lemma resolveMarket_mcall:
  assumes "resolveMarket W a = Inr t"
  shows "well_formed_mcall W (M_resolveMarket a) t"
  using assms
  by (clarsimp simp: resolveMarket_def mcall_opens simp del: collect.simps)
    (simp add: mcall_shape)

lemma collectFee_mcall:
  assumes "collectFee W a = Inr t"
  shows "well_formed_mcall W (M_collectFee a) t"
  using assms
  by (clarsimp simp: collectFee_def mcall_opens simp del: collect.simps)
    (simp add: mcall_shape)

lemma marketClose_mcall:
  assumes "marketClose W a = Inr t"
  shows "well_formed_mcall W (M_marketClose a) t"
  using assms
  by (clarsimp simp: marketClose_def mcall_opens simp del: collect.simps)
    (simp add: mcall_shape)

lemma addLiquidity_mcall:
  assumes "addLiquidity W a = Inr t"
  shows "well_formed_mcall W (M_addLiquidity a) t"
  using assms
  by (clarsimp simp: addLiquidity_def mcall_opens simp del: collect.simps)
    (simp add: mcall_shape)

lemmas mbuilder_calls =
  initConfig_mcall updateConfig_mcall createMarket_mcall contribute_mcall cancel_mcall
  refund_mcall activate_mcall claimLp_mcall resolveMarket_mcall collectFee_mcall
  marketClose_mcall addLiquidity_mcall

section \<open>Payload parsers (programs/markets/src/processor)\<close>

datatype mpayload =
    MPInitConfig bytes int int bytes
  | MPUpdateConfig int int bytes
  | MPCreateMarket int int
  | MPContribute int
  | MPAddLiquidity int int int int
  | MPEmpty

definition uint_at :: "bytes \<Rightarrow> nat \<Rightarrow> nat \<Rightarrow> int" where
  "uint_at payload off n = le_val (take n (drop off payload))"

definition parse_init_config :: "bytes \<Rightarrow> mpayload option" where
  "parse_init_config payload =
     (if length payload \<noteq> 74 then None
      else Some (MPInitConfig (take 32 payload) (uint_at payload 32 8) (uint_at payload 40 2)
        (take 32 (drop 42 payload))))"

definition parse_update_config :: "bytes \<Rightarrow> mpayload option" where
  "parse_update_config payload =
     (if length payload \<noteq> 42 then None
      else Some (MPUpdateConfig (uint_at payload 0 8) (uint_at payload 8 2) (take 32 (drop 10 payload))))"

definition parse_create_market :: "bytes \<Rightarrow> mpayload option" where
  "parse_create_market payload =
     (if length payload \<noteq> 9 then None
      else Some (MPCreateMarket (uint_at payload 0 8) (uint (payload ! 8))))"

definition parse_contribute :: "bytes \<Rightarrow> mpayload option" where
  "parse_contribute payload =
     (if length payload \<noteq> 8 then None else Some (MPContribute (uint_at payload 0 8)))"

definition parse_add_liquidity :: "bytes \<Rightarrow> mpayload option" where
  "parse_add_liquidity payload =
     (if length payload \<noteq> 32 then None
      else (let amount = uint_at payload 0 8 in
        if amount = 0 then None
        else Some (MPAddLiquidity amount (uint_at payload 8 8) (uint_at payload 16 8)
          (uint_at payload 24 8))))"

definition parse_empty :: "bytes \<Rightarrow> mpayload option" where
  "parse_empty payload = (if payload \<noteq> [] then None else Some MPEmpty)"

fun parse_mpayload :: "MIx \<Rightarrow> bytes \<Rightarrow> mpayload option" where
  "parse_mpayload MIx_InitConfig d = parse_init_config d"
| "parse_mpayload MIx_UpdateConfig d = parse_update_config d"
| "parse_mpayload MIx_CreateMarket d = parse_create_market d"
| "parse_mpayload MIx_Contribute d = parse_contribute d"
| "parse_mpayload MIx_AddLiquidity d = parse_add_liquidity d"
| "parse_mpayload _ d = parse_empty d"

text \<open>What the client meant, and the ranges of the fields.\<close>

fun mintended :: "'a web3 \<Rightarrow> 'a mcall \<Rightarrow> mpayload option" where
  "mintended W (M_initConfig a) =
     (case (pubkeyBytes W (mic_authority a), pubkeyBytes W (mic_feeDestination a)) of
        (Inr x, Inr y) \<Rightarrow> Some (MPInitConfig x (mic_minLiquidity a) (mic_feeBps a) y) | _ \<Rightarrow> None)"
| "mintended W (M_updateConfig a) =
     (case pubkeyBytes W (muc_feeDestination a) of
        Inr y \<Rightarrow> Some (MPUpdateConfig (muc_minLiquidity a) (muc_feeBps a) y) | _ \<Rightarrow> None)"
| "mintended W (M_createMarket a) = Some (MPCreateMarket (mcm_seedAmount a) (mcm_outcomeIndex a))"
| "mintended W (M_contribute a) = Some (MPContribute (mco_amount a))"
| "mintended W (M_addLiquidity a) =
     Some (MPAddLiquidity (mal_amount a) (mal_quoteAmount a) (mal_maxBaseAmount a) (mal_minLpTokens a))"
| "mintended W _ = Some MPEmpty"

fun mpayload_in_range :: "'a mcall \<Rightarrow> bool" where
  "mpayload_in_range (M_initConfig a) \<longleftrightarrow>
     unsigned_range 64 (mic_minLiquidity a) \<and> unsigned_range 16 (mic_feeBps a)"
| "mpayload_in_range (M_updateConfig a) \<longleftrightarrow>
     unsigned_range 64 (muc_minLiquidity a) \<and> unsigned_range 16 (muc_feeBps a)"
| "mpayload_in_range (M_createMarket a) \<longleftrightarrow>
     unsigned_range 64 (mcm_seedAmount a) \<and> unsigned_range 8 (mcm_outcomeIndex a)"
| "mpayload_in_range (M_contribute a) \<longleftrightarrow> unsigned_range 64 (mco_amount a)"
| "mpayload_in_range (M_addLiquidity a) \<longleftrightarrow>
     unsigned_range 64 (mal_amount a) \<and> mal_amount a \<noteq> 0 \<and> unsigned_range 64 (mal_quoteAmount a)
     \<and> unsigned_range 64 (mal_maxBaseAmount a) \<and> unsigned_range 64 (mal_minLpTokens a)"
| "mpayload_in_range _ \<longleftrightarrow> True"

lemma uint_at_skip: "length p \<le> off \<Longrightarrow> uint_at (p @ d) off n = uint_at d (off - length p) n"
  by (simp add: uint_at_def)

lemma uint_at_here: "unsigned_range (8 * n) v \<Longrightarrow> uint_at (le_bytes n v @ d) 0 n = v"
  by (simp add: uint_at_def le_val_le_bytes unsigned_range_def power_mult)

lemma uint_at_last: "unsigned_range (8 * n) v \<Longrightarrow> uint_at (le_bytes n v) 0 n = v"
  using uint_at_here [of n v "[]"] by simp

lemma length_pubkeyBytes: "web3_ok W \<Longrightarrow> pubkeyBytes W x = Inr b \<Longrightarrow> length b = 32"
  by (auto simp: pubkeyBytes_def rmap_Inr_iff web3_ok_D(1))

lemmas mparse = parse_init_config_def parse_update_config_def parse_create_market_def
  parse_contribute_def parse_add_liquidity_def parse_empty_def uint_at_skip uint_at_here uint_at_last
  u16LE_def u64LE_def u8_le_bytes

lemma mbuild_data:
  assumes "mbuild W c = Inr t"
  shows "\<exists>p. ti_data t = u8 (mix_code (mcall_ix c)) @ p \<and> p = tl (ti_data t)"
proof -
  have "take 1 (ti_data t) = u8 (mix_code (mcall_ix c))"
    using assms by (cases c) (auto dest: mbuilder_calls simp: well_formed_mcall_def)
  then show ?thesis by (cases "ti_data t") (auto simp: u8_def)
qed

section \<open>Properties\<close>


definition sample_contribute :: "256 word contribute_args" where
  "sample_contribute = \<lparr>mco_contributor = Addr 3, mco_market = B58 ''M'', mco_contributorKassAta = Addr 5,
     mco_amount = 1000000, mco_programId = None\<rparr>"

lemma sample_contribute_built: "is_ok (mbuild sample_web3 (M_contribute sample_contribute))"
  by (simp add: contribute_def sample_contribute_def sample_web3_def Let_def mkt_escrow_def
      mkt_contribution_def mkt_derive_def pubkeyBytes_def w_in_def)


lemma crank_payloads:
  assumes "mbuild W c = Inr t" "mcall_ix c \<notin> {MIx_InitConfig, MIx_UpdateConfig, MIx_CreateMarket, MIx_Contribute, MIx_AddLiquidity}"
  shows "parse_mpayload (mcall_ix c) (tl (ti_data t)) = Some MPEmpty \<and> mintended W c = Some MPEmpty"
  using assms
  by (cases c) (auto simp: cancel_def refund_def activate_def claimLp_def resolveMarket_def
      collectFee_def marketClose_def mcall_opens u8_def parse_empty_def)

text \<open>
  C12: The market SDK and the market program agree on the wire. For each of the 12 instructions,
  if the arguments are in the ranges of the fields (and a deposit is not zero), the parser of
  the Rust processor that the first byte selects accepts the payload of the built instruction
  and reads back exactly the client's arguments.
\<close>

theorem market_wire_agreement:
  assumes "web3_ok W" "mbuild W c = Inr t" "mpayload_in_range c"
  shows "parse_mpayload (mcall_ix c) (tl (ti_data t)) = mintended W c"
proof (cases c)
  case (M_initConfig a)
  obtain x y where xy: "pubkeyBytes W (mic_authority a) = Inr x"
    "pubkeyBytes W (mic_feeDestination a) = Inr y"
    and d: "tl (ti_data t) = x @ u64LE (mic_minLiquidity a) @ u16LE (mic_feeBps a) @ y"
    using assms(2) M_initConfig by (auto simp: initConfig_def mcall_opens u8_def simp del: pubkeyBytes_iff)
  have "length x = 32" "length y = 32" using xy length_pubkeyBytes [OF assms(1)] by auto
  then show ?thesis using assms(3) M_initConfig xy by (simp add: d mparse)
next
  case (M_updateConfig a)
  obtain y where y: "pubkeyBytes W (muc_feeDestination a) = Inr y"
    and d: "tl (ti_data t) = u64LE (muc_minLiquidity a) @ u16LE (muc_feeBps a) @ y"
    using assms(2) M_updateConfig by (auto simp: updateConfig_def mcall_opens u8_def simp del: pubkeyBytes_iff)
  have "length y = 32" using y length_pubkeyBytes [OF assms(1)] by auto
  then show ?thesis using assms(3) M_updateConfig y by (simp add: d mparse)
next
  case (M_createMarket a)
  then have d: "tl (ti_data t) = u64LE (mcm_seedAmount a) @ u8 (mcm_outcomeIndex a)"
    using assms(2) by (auto simp: createMarket_def mcall_opens u8_def)
  show ?thesis using assms(3) M_createMarket
    by (simp add: d mparse nth_append unsigned_range_def uint_byte_of_int)
next
  case (M_contribute a)
  then have d: "tl (ti_data t) = u64LE (mco_amount a)"
    using assms(2) by (auto simp: contribute_def mcall_opens u8_def)
  show ?thesis using assms(3) M_contribute by (simp add: d mparse)
next
  case (M_addLiquidity a)
  then have d: "tl (ti_data t) = u64LE (mal_amount a) @ u64LE (mal_quoteAmount a)
      @ u64LE (mal_maxBaseAmount a) @ u64LE (mal_minLpTokens a)"
    using assms(2) by (auto simp: addLiquidity_def mcall_opens u8_def)
  show ?thesis using assms(3) M_addLiquidity by (simp add: d mparse)
qed (use crank_payloads [OF assms(2)] in simp_all)

theorem market_wire_agreement_witness:
  "\<exists>t. mbuild sample_web3 (M_contribute sample_contribute) = Inr t
     \<and> parse_mpayload MIx_Contribute (tl (ti_data t)) = Some (MPContribute 1000000)"
proof -
  obtain t where t: "mbuild sample_web3 (M_contribute sample_contribute) = Inr t"
    using sample_contribute_built by (auto simp: is_ok_iff)
  have "mpayload_in_range (M_contribute sample_contribute)"
    by (simp add: sample_contribute_def unsigned_range_def)
  from market_wire_agreement [OF sample_web3_ok t this] t show ?thesis
    by (auto simp: sample_contribute_def)
qed

end
