(* ===== verification/Metadao_Ixs.thy ===== *)
theory Metadao_Ixs
  imports Market_Pda Payload
begin

text \<open>
  The instruction builders for the MetaDAO programs that a market composes with:
  \<open>conditional_vault\<close> (\<open>sdks/markets/ts/src/metadao/vault.ts\<close>) and the v0.4 \<open>amm\<close>
  (\<open>metadao/amm.ts\<close>). An optional \<open>bigint | number\<close> argument with default 0 is an \<open>int option\<close>;
  the account metas coerce their address (\<open>metadao/util.ts\<close>), as \<open>w_in\<close> and \<open>ro_in\<close> do.
\<close>

definition or_zero :: "int option \<Rightarrow> int" where
  "or_zero x = (case x of None \<Rightarrow> 0 | Some v \<Rightarrow> v)"

section \<open>amm (amm.ts)\<close>

record 'a createAmm_args =
  cra_payer :: "'a address_input"
  cra_baseMint :: "'a address_input"
  cra_quoteMint :: "'a address_input"
  cra_twapInitialObservation :: int
  cra_twapMaxObservationChangePerUpdate :: int
  cra_twapStartDelaySlots :: "int option"

definition createAmm :: "'a web3 \<Rightarrow> 'a createAmm_args \<Rightarrow> 'a tx_instruction res" where
  "createAmm W a =
     rbind (md_amm W (cra_baseMint a) (cra_quoteMint a)) (\<lambda>ammAddr.
     rbind (md_ammLpMint W (Addr (pda_address ammAddr))) (\<lambda>lpMint.
     rbind (md_ata W (Addr (pda_address ammAddr)) (cra_baseMint a)) (\<lambda>vaultBase.
     rbind (md_ata W (Addr (pda_address ammAddr)) (cra_quoteMint a)) (\<lambda>vaultQuote.
     rbind (md_ammEventAuthority W) (\<lambda>eventAuthority.
     rbind (collect
       [w_in W (cra_payer a) True,
        Inr (w (pda_address ammAddr) False),
        Inr (w (pda_address lpMint) False),
        ro_in W (cra_baseMint a) False,
        ro_in W (cra_quoteMint a) False,
        Inr (w vaultBase False),
        Inr (w vaultQuote False),
        Inr (ro (ATA_PROGRAM_ID W) False),
        Inr (ro (TOKEN_PROGRAM_ID W) False),
        Inr (ro (SYSTEM_PROGRAM_ID W) False),
        Inr (ro (pda_address eventAuthority) False),
        Inr (ro (ammV04_id W) False)]) (\<lambda>ks.
     rbind (concatBytes
       [DISC_createAmm,
        u128LE (cra_twapInitialObservation a),
        u128LE (cra_twapMaxObservationChangePerUpdate a),
        u64LE (or_zero (cra_twapStartDelaySlots a))]) (\<lambda>bs.
     Inr \<lparr>ti_programId = ammV04_id W, ti_keys = ks, ti_data = bs\<rparr>)))))))"

record 'a ammAddLiquidity_args =
  ala_payer :: "'a address_input"
  ala_baseMint :: "'a address_input"
  ala_quoteMint :: "'a address_input"
  ala_quoteAmount :: int
  ala_maxBaseAmount :: int
  ala_minLpTokens :: "int option"

definition ammAddLiquidity :: "'a web3 \<Rightarrow> 'a ammAddLiquidity_args \<Rightarrow> 'a tx_instruction res" where
  "ammAddLiquidity W a =
     rbind (md_amm W (ala_baseMint a) (ala_quoteMint a)) (\<lambda>ammAddr.
     rbind (md_ammLpMint W (Addr (pda_address ammAddr))) (\<lambda>lpMint.
     rbind (md_ata W (ala_payer a) (Addr (pda_address lpMint))) (\<lambda>userLp.
     rbind (md_ata W (ala_payer a) (ala_baseMint a)) (\<lambda>userBase.
     rbind (md_ata W (ala_payer a) (ala_quoteMint a)) (\<lambda>userQuote.
     rbind (md_ata W (Addr (pda_address ammAddr)) (ala_baseMint a)) (\<lambda>vaultBase.
     rbind (md_ata W (Addr (pda_address ammAddr)) (ala_quoteMint a)) (\<lambda>vaultQuote.
     rbind (md_ammEventAuthority W) (\<lambda>eventAuthority.
     rbind (collect
       [w_in W (ala_payer a) True,
        Inr (w (pda_address ammAddr) False),
        Inr (w (pda_address lpMint) False),
        Inr (w userLp False),
        Inr (w userBase False),
        Inr (w userQuote False),
        Inr (w vaultBase False),
        Inr (w vaultQuote False),
        Inr (ro (TOKEN_PROGRAM_ID W) False),
        Inr (ro (pda_address eventAuthority) False),
        Inr (ro (ammV04_id W) False)]) (\<lambda>ks.
     rbind (concatBytes
       [DISC_addLiquidity,
        u64LE (ala_quoteAmount a),
        u64LE (ala_maxBaseAmount a),
        u64LE (or_zero (ala_minLpTokens a))]) (\<lambda>bs.
     Inr \<lparr>ti_programId = ammV04_id W, ti_keys = ks, ti_data = bs\<rparr>))))))))))"

record 'a swap_args =
  swa_payer :: "'a address_input"
  swa_baseMint :: "'a address_input"
  swa_quoteMint :: "'a address_input"
  swa_swapType :: SwapType
  swa_inputAmount :: int
  swa_outputAmountMin :: "int option"
  swa_userBase :: "'a address_input option"
  swa_userQuote :: "'a address_input option"

definition ammSwap :: "'a web3 \<Rightarrow> 'a swap_args \<Rightarrow> 'a tx_instruction res" where
  "ammSwap W a =
     rbind (md_amm W (swa_baseMint a) (swa_quoteMint a)) (\<lambda>ammAddr.
     rbind (case swa_userBase a of Some u \<Rightarrow> addr W u | None \<Rightarrow> md_ata W (swa_payer a) (swa_baseMint a))
       (\<lambda>userBase.
     rbind (case swa_userQuote a of Some u \<Rightarrow> addr W u | None \<Rightarrow> md_ata W (swa_payer a) (swa_quoteMint a))
       (\<lambda>userQuote.
     rbind (md_ata W (Addr (pda_address ammAddr)) (swa_baseMint a)) (\<lambda>vaultBase.
     rbind (md_ata W (Addr (pda_address ammAddr)) (swa_quoteMint a)) (\<lambda>vaultQuote.
     rbind (md_ammEventAuthority W) (\<lambda>eventAuthority.
     rbind (collect
       [w_in W (swa_payer a) True,
        Inr (w (pda_address ammAddr) False),
        Inr (w userBase False),
        Inr (w userQuote False),
        Inr (w vaultBase False),
        Inr (w vaultQuote False),
        Inr (ro (TOKEN_PROGRAM_ID W) False),
        Inr (ro (pda_address eventAuthority) False),
        Inr (ro (ammV04_id W) False)]) (\<lambda>ks.
     rbind (concatBytes
       [DISC_swap,
        u8 (swap_code (swa_swapType a)),
        u64LE (swa_inputAmount a),
        u64LE (or_zero (swa_outputAmountMin a))]) (\<lambda>bs.
     Inr \<lparr>ti_programId = ammV04_id W, ti_keys = ks, ti_data = bs\<rparr>))))))))"

definition crankThatTwap :: "'a web3 \<Rightarrow> 'a address_input \<Rightarrow> 'a tx_instruction res" where
  "crankThatTwap W amm =
     rbind (md_ammEventAuthority W) (\<lambda>eventAuthority.
     rbind (collect
       [w_in W amm False,
        Inr (ro (pda_address eventAuthority) False),
        Inr (ro (ammV04_id W) False)]) (\<lambda>ks.
     Inr \<lparr>ti_programId = ammV04_id W, ti_keys = ks, ti_data = DISC_crankThatTwap\<rparr>))"

section \<open>conditional_vault (vault.ts)\<close>

record 'a initializeQuestion_args =
  iqa_payer :: "'a address_input"
  iqa_questionId :: bytes
  iqa_oracle :: "'a address_input"
  iqa_numOutcomes :: int

definition initializeQuestion :: "'a web3 \<Rightarrow> 'a initializeQuestion_args \<Rightarrow> 'a tx_instruction res" where
  "initializeQuestion W a =
     rbind (md_question W (iqa_questionId a) (iqa_oracle a) (iqa_numOutcomes a)) (\<lambda>question.
     rbind (md_vaultEventAuthority W) (\<lambda>eventAuthority.
     rbind (collect
       [Inr (w (pda_address question) False),
        w_in W (iqa_payer a) True,
        Inr (ro (SYSTEM_PROGRAM_ID W) False),
        Inr (ro (pda_address eventAuthority) False),
        Inr (ro (conditionalVault_id W) False)]) (\<lambda>ks.
     rbind (addr W (iqa_oracle a)) (\<lambda>o1.
     rbind (concatBytes
       [DISC_initializeQuestion, iqa_questionId a, w3_bytes W o1, u8 (iqa_numOutcomes a)]) (\<lambda>bs.
     Inr \<lparr>ti_programId = conditionalVault_id W, ti_keys = ks, ti_data = bs\<rparr>)))))"

record 'a initializeConditionalVault_args =
  iva_payer :: "'a address_input"
  iva_question :: "'a address_input"
  iva_underlyingMint :: "'a address_input"
  iva_numOutcomes :: "nat option"

text \<open>The loop that pushes the conditional mints of the outcomes \<open>i, i + 1, ..., n - 1\<close>.\<close>

fun cond_mints :: "'a web3 \<Rightarrow> 'a \<Rightarrow> nat \<Rightarrow> nat \<Rightarrow> 'a account_meta list \<Rightarrow> 'a account_meta list res" where
  "cond_mints W vault i 0 acc = Inr acc"
| "cond_mints W vault i (Suc k) acc =
     rbind (md_conditionalTokenMint W (Addr vault) (int i)) (\<lambda>m.
       cond_mints W vault (Suc i) k (acc @ [w (pda_address m) False]))"

definition initializeConditionalVault ::
  "'a web3 \<Rightarrow> 'a initializeConditionalVault_args \<Rightarrow> 'a tx_instruction res" where
  "initializeConditionalVault W a =
     (let n = (case iva_numOutcomes a of None \<Rightarrow> 2 | Some n \<Rightarrow> n) in
     rbind (md_conditionalVault W (iva_question a) (iva_underlyingMint a)) (\<lambda>vault.
     rbind (md_ata W (Addr (pda_address vault)) (iva_underlyingMint a)) (\<lambda>vaultUnderlying.
     rbind (md_vaultEventAuthority W) (\<lambda>eventAuthority.
     rbind (cond_mints W (pda_address vault) 0 n []) (\<lambda>condMints.
     rbind (collect
       [Inr (w (pda_address vault) False),
        ro_in W (iva_question a) False,
        ro_in W (iva_underlyingMint a) False,
        Inr (w vaultUnderlying False),
        w_in W (iva_payer a) True,
        Inr (ro (TOKEN_PROGRAM_ID W) False),
        Inr (ro (ATA_PROGRAM_ID W) False),
        Inr (ro (SYSTEM_PROGRAM_ID W) False),
        Inr (ro (pda_address eventAuthority) False),
        Inr (ro (conditionalVault_id W) False)]) (\<lambda>ks.
     Inr \<lparr>ti_programId = conditionalVault_id W, ti_keys = ks @ condMints,
       ti_data = DISC_initializeConditionalVault\<rparr>))))))"

record 'a interactWithVault_args =
  iwv_question :: "'a address_input"
  iwv_vault :: "'a address_input"
  iwv_vaultUnderlyingAta :: "'a address_input"
  iwv_authority :: "'a address_input"
  iwv_userUnderlyingAta :: "'a address_input"
  iwv_conditionalMints :: "'a address_input list"
  iwv_userConditionalAtas :: "'a address_input list"

definition interactWithVault ::
  "'a web3 \<Rightarrow> bytes \<Rightarrow> 'a interactWithVault_args \<Rightarrow> 'a tx_instruction res" where
  "interactWithVault W disc a =
     rbind (md_vaultEventAuthority W) (\<lambda>eventAuthority.
     rbind (collect
       ([ro_in W (iwv_question a) False,
         w_in W (iwv_vault a) False,
         w_in W (iwv_vaultUnderlyingAta a) False,
         ro_in W (iwv_authority a) True,
         w_in W (iwv_userUnderlyingAta a) False,
         Inr (ro (TOKEN_PROGRAM_ID W) False),
         Inr (ro (pda_address eventAuthority) False),
         Inr (ro (conditionalVault_id W) False)]
        @ map (\<lambda>m. w_in W m False) (iwv_conditionalMints a)
        @ map (\<lambda>u. w_in W u False) (iwv_userConditionalAtas a))) (\<lambda>ks.
     Inr \<lparr>ti_programId = conditionalVault_id W, ti_keys = ks, ti_data = disc\<rparr>))"

definition splitTokens :: "'a web3 \<Rightarrow> 'a interactWithVault_args \<Rightarrow> int \<Rightarrow> 'a tx_instruction res" where
  "splitTokens W a amount =
     rbind (concatBytes [DISC_splitTokens, u64LE amount]) (\<lambda>bs. interactWithVault W bs a)"

definition mergeTokens :: "'a web3 \<Rightarrow> 'a interactWithVault_args \<Rightarrow> int \<Rightarrow> 'a tx_instruction res" where
  "mergeTokens W a amount =
     rbind (concatBytes [DISC_mergeTokens, u64LE amount]) (\<lambda>bs. interactWithVault W bs a)"

definition redeemTokens :: "'a web3 \<Rightarrow> 'a interactWithVault_args \<Rightarrow> 'a tx_instruction res" where
  "redeemTokens W a = interactWithVault W DISC_redeemTokens a"

definition resolveQuestion ::
  "'a web3 \<Rightarrow> 'a address_input \<Rightarrow> 'a address_input \<Rightarrow> int \<times> int \<Rightarrow> 'a tx_instruction res" where
  "resolveQuestion W question oracleAddr payoutNumerators =
     rbind (md_vaultEventAuthority W) (\<lambda>eventAuthority.
     rbind (collect
       [w_in W question False,
        ro_in W oracleAddr True,
        Inr (ro (pda_address eventAuthority) False),
        Inr (ro (conditionalVault_id W) False)]) (\<lambda>ks.
     rbind (concatBytes
       [DISC_resolveQuestion, u32LE 2, u32LE (fst payoutNumerators), u32LE (snd payoutNumerators)])
       (\<lambda>bs.
     Inr \<lparr>ti_programId = conditionalVault_id W, ti_keys = ks, ti_data = bs\<rparr>)))"

section \<open>Facts\<close>

lemma cond_mints_eq:
  "cond_mints W vault i k acc = Inr ks \<Longrightarrow>
    \<exists>ms. collect (map (\<lambda>j. rmap pda_address (md_conditionalTokenMint W (Addr vault) (int j))) [i..<i + k]) = Inr ms
      \<and> ks = acc @ map (\<lambda>m. w m False) ms"
proof (induction k arbitrary: i acc)
  case 0
  then show ?case by simp
next
  case (Suc k)
  obtain m where m: "md_conditionalTokenMint W (Addr vault) (int i) = Inr m"
    and r: "cond_mints W vault (Suc i) k (acc @ [w (pda_address m) False]) = Inr ks"
    using Suc.prems by (auto simp: rbind_Inr_iff)
  have "[i..<i + Suc k] = i # [Suc i..<Suc i + k]" by (simp add: upt_rec)
  then show ?case using Suc.IH [OF r] m by auto
qed

lemma length_swap_data: "length (DISC_swap @ u8 c @ u64LE x @ u64LE y) = 25"
  by (simp add: width_simps)

end
