(* ===== verification/Market_State.thy ===== *)
theory Market_State
  imports Market_Constants Oracle_State
begin

text \<open>
  The account decoders of the prediction-market SDK (\<open>sdks/markets/ts/src/accounts/\<close>): the
  \<open>Config\<close>, \<open>Contribution\<close> and \<open>Market\<close> accounts of the market program, with the byte images
  (\<open>pod_\<close>...) of the \<open>#[repr(C)]\<close> structs of \<open>programs/markets/src/state.rs\<close>, and the minimal
  reader of the oracle account, related to the full decoder of the oracle SDK.
\<close>

section \<open>Accounts and decoders\<close>

definition assertMarketAccount :: "bytes \<Rightarrow> MAccountType \<Rightarrow> nat \<Rightarrow> string \<Rightarrow> unit res" where
  "assertMarketAccount data expectedType sz name =
     (if length data \<noteq> sz then Inl (SizeErr name sz (length data))
      else (let tag = (case data of [] \<Rightarrow> None | b # _ \<Rightarrow> Some (uint b)) in
        if tag \<noteq> Some (mtype_code expectedType)
        then Inl (TagErr name (mtype_code expectedType) tag)
        else Inr ()))"

subsection \<open>Config\<close>

record 'a mconfig_account =
  mcc_accountType :: MAccountType
  mcc_authority :: "'a"
  mcc_kassMint :: "'a"
  mcc_minLiquidity :: "int"
  mcc_bump :: "int"
  mcc_feeBps :: "int"
  mcc_feeDestination :: "'a"

definition decodeConfig :: "'a web3 \<Rightarrow> bytes \<Rightarrow> 'a mconfig_account res" where
  "decodeConfig W data =
     rbind (assertMarketAccount data MAT_Config (the (MARKET_ACCOUNT_SIZES MAT_Config)) ''Config'') (\<lambda>_.
     rbind (readPubkey W data 8) (\<lambda>authority'.
     rbind (readPubkey W data 40) (\<lambda>kassMint'.
     rbind (readU64LE data 72) (\<lambda>minLiquidity'.
     rbind (readU8 data 80) (\<lambda>bump'.
     rbind (readU16LE data 82) (\<lambda>feeBps'.
     rbind (readPubkey W data 84) (\<lambda>feeDestination'.
     Inr \<lparr>mcc_accountType = MAT_Config,
       mcc_authority = authority',
       mcc_kassMint = kassMint',
       mcc_minLiquidity = minLiquidity',
       mcc_bump = bump',
       mcc_feeBps = feeBps',
       mcc_feeDestination = feeDestination'\<rparr>)))))))"

definition pod_mconfig :: "'a web3 \<Rightarrow> 'a mconfig_account \<Rightarrow> bytes" where
  "pod_mconfig W x =
     u8 (mtype_code MAT_Config) @
     zero_pad 7 @
     w3_bytes W (mcc_authority x) @
     w3_bytes W (mcc_kassMint x) @
     u64LE (mcc_minLiquidity x) @
     u8 (mcc_bump x) @
     zero_pad 1 @
     u16LE (mcc_feeBps x) @
     w3_bytes W (mcc_feeDestination x) @
     zero_pad 4"

definition mconfig_account_ok :: "'a mconfig_account \<Rightarrow> bool" where
  "mconfig_account_ok x \<longleftrightarrow>
     mcc_accountType x = MAT_Config \<and>
     unsigned_range 64 (mcc_minLiquidity x) \<and>
     unsigned_range 8 (mcc_bump x) \<and>
     unsigned_range 16 (mcc_feeBps x)"

subsection \<open>Contribution\<close>

record 'a mcontribution_account =
  mcn_accountType :: MAccountType
  mcn_market :: "'a"
  mcn_contributor :: "'a"
  mcn_amount :: "int"
  mcn_claimed :: "bool"
  mcn_bump :: "int"
  mcn_lateLp :: "int"

definition decodeContribution :: "'a web3 \<Rightarrow> bytes \<Rightarrow> 'a mcontribution_account res" where
  "decodeContribution W data =
     rbind (assertMarketAccount data MAT_Contribution (the (MARKET_ACCOUNT_SIZES MAT_Contribution)) ''Contribution'') (\<lambda>_.
     rbind (readPubkey W data 8) (\<lambda>market'.
     rbind (readPubkey W data 40) (\<lambda>contributor'.
     rbind (readU64LE data 72) (\<lambda>amount'.
     rbind (readBool data 80) (\<lambda>claimed'.
     rbind (readU8 data 81) (\<lambda>bump'.
     rbind (readU64LE data 88) (\<lambda>lateLp'.
     Inr \<lparr>mcn_accountType = MAT_Contribution,
       mcn_market = market',
       mcn_contributor = contributor',
       mcn_amount = amount',
       mcn_claimed = claimed',
       mcn_bump = bump',
       mcn_lateLp = lateLp'\<rparr>)))))))"

definition pod_mcontribution :: "'a web3 \<Rightarrow> 'a mcontribution_account \<Rightarrow> bytes" where
  "pod_mcontribution W x =
     u8 (mtype_code MAT_Contribution) @
     zero_pad 7 @
     w3_bytes W (mcn_market x) @
     w3_bytes W (mcn_contributor x) @
     u64LE (mcn_amount x) @
     flag_byte (mcn_claimed x) @
     u8 (mcn_bump x) @
     zero_pad 6 @
     u64LE (mcn_lateLp x)"

definition mcontribution_account_ok :: "'a mcontribution_account \<Rightarrow> bool" where
  "mcontribution_account_ok x \<longleftrightarrow>
     mcn_accountType x = MAT_Contribution \<and>
     unsigned_range 64 (mcn_amount x) \<and>
     unsigned_range 8 (mcn_bump x) \<and>
     unsigned_range 64 (mcn_lateLp x)"

subsection \<open>Market\<close>

record 'a mmarket_account =
  mm_accountType :: MAccountType
  mm_oracle :: "'a"
  mm_creator :: "'a"
  mm_kassMint :: "'a"
  mm_escrowVault :: "'a"
  mm_minLiquidity :: "int"
  mm_totalContributed :: "int"
  mm_openContributions :: "int"
  mm_status :: "int"
  mm_bump :: "int"
  mm_escrowBump :: "int"
  mm_question :: "'a"
  mm_vault :: "'a"
  mm_yesMint :: "'a"
  mm_noMint :: "'a"
  mm_amm :: "'a"
  mm_lpMint :: "'a"
  mm_lpVault :: "'a"
  mm_lpTotal :: "int"
  mm_settled :: "bool"
  mm_feeBps :: "int"
  mm_feeCollected :: "bool"
  mm_outcomeIndex :: "int"
  mm_activationLp :: "int"
  mm_activationContributed :: "int"
  mm_grossLpTotal :: "int"

definition decodeMarketAccount :: "'a web3 \<Rightarrow> bytes \<Rightarrow> 'a mmarket_account res" where
  "decodeMarketAccount W data =
     rbind (assertMarketAccount data MAT_Market (the (MARKET_ACCOUNT_SIZES MAT_Market)) ''Market'') (\<lambda>_.
     rbind (readPubkey W data 8) (\<lambda>oracle'.
     rbind (readPubkey W data 40) (\<lambda>creator'.
     rbind (readPubkey W data 72) (\<lambda>kassMint'.
     rbind (readPubkey W data 104) (\<lambda>escrowVault'.
     rbind (readU64LE data 136) (\<lambda>minLiquidity'.
     rbind (readU64LE data 144) (\<lambda>totalContributed'.
     rbind (readU16LE data 152) (\<lambda>openContributions'.
     rbind (readU8 data 154) (\<lambda>status'.
     rbind (readU8 data 155) (\<lambda>bump'.
     rbind (readU8 data 156) (\<lambda>escrowBump'.
     rbind (readPubkey W data 160) (\<lambda>question'.
     rbind (readPubkey W data 192) (\<lambda>vault'.
     rbind (readPubkey W data 224) (\<lambda>yesMint'.
     rbind (readPubkey W data 256) (\<lambda>noMint'.
     rbind (readPubkey W data 288) (\<lambda>amm'.
     rbind (readPubkey W data 320) (\<lambda>lpMint'.
     rbind (readPubkey W data 352) (\<lambda>lpVault'.
     rbind (readU64LE data 384) (\<lambda>lpTotal'.
     rbind (readBool data 392) (\<lambda>settled'.
     rbind (readU16LE data 394) (\<lambda>feeBps'.
     rbind (readBool data 396) (\<lambda>feeCollected'.
     rbind (readU8 data 397) (\<lambda>outcomeIndex'.
     rbind (readU64LE data 400) (\<lambda>activationLp'.
     rbind (readU64LE data 408) (\<lambda>activationContributed'.
     rbind (readU64LE data 416) (\<lambda>grossLpTotal'.
     Inr \<lparr>mm_accountType = MAT_Market,
       mm_oracle = oracle',
       mm_creator = creator',
       mm_kassMint = kassMint',
       mm_escrowVault = escrowVault',
       mm_minLiquidity = minLiquidity',
       mm_totalContributed = totalContributed',
       mm_openContributions = openContributions',
       mm_status = status',
       mm_bump = bump',
       mm_escrowBump = escrowBump',
       mm_question = question',
       mm_vault = vault',
       mm_yesMint = yesMint',
       mm_noMint = noMint',
       mm_amm = amm',
       mm_lpMint = lpMint',
       mm_lpVault = lpVault',
       mm_lpTotal = lpTotal',
       mm_settled = settled',
       mm_feeBps = feeBps',
       mm_feeCollected = feeCollected',
       mm_outcomeIndex = outcomeIndex',
       mm_activationLp = activationLp',
       mm_activationContributed = activationContributed',
       mm_grossLpTotal = grossLpTotal'\<rparr>))))))))))))))))))))))))))"

definition pod_mmarket :: "'a web3 \<Rightarrow> 'a mmarket_account \<Rightarrow> bytes" where
  "pod_mmarket W x =
     u8 (mtype_code MAT_Market) @
     zero_pad 7 @
     w3_bytes W (mm_oracle x) @
     w3_bytes W (mm_creator x) @
     w3_bytes W (mm_kassMint x) @
     w3_bytes W (mm_escrowVault x) @
     u64LE (mm_minLiquidity x) @
     u64LE (mm_totalContributed x) @
     u16LE (mm_openContributions x) @
     u8 (mm_status x) @
     u8 (mm_bump x) @
     u8 (mm_escrowBump x) @
     zero_pad 3 @
     w3_bytes W (mm_question x) @
     w3_bytes W (mm_vault x) @
     w3_bytes W (mm_yesMint x) @
     w3_bytes W (mm_noMint x) @
     w3_bytes W (mm_amm x) @
     w3_bytes W (mm_lpMint x) @
     w3_bytes W (mm_lpVault x) @
     u64LE (mm_lpTotal x) @
     flag_byte (mm_settled x) @
     zero_pad 1 @
     u16LE (mm_feeBps x) @
     flag_byte (mm_feeCollected x) @
     u8 (mm_outcomeIndex x) @
     zero_pad 2 @
     u64LE (mm_activationLp x) @
     u64LE (mm_activationContributed x) @
     u64LE (mm_grossLpTotal x)"

definition mmarket_account_ok :: "'a mmarket_account \<Rightarrow> bool" where
  "mmarket_account_ok x \<longleftrightarrow>
     mm_accountType x = MAT_Market \<and>
     unsigned_range 64 (mm_minLiquidity x) \<and>
     unsigned_range 64 (mm_totalContributed x) \<and>
     unsigned_range 16 (mm_openContributions x) \<and>
     unsigned_range 8 (mm_status x) \<and>
     unsigned_range 8 (mm_bump x) \<and>
     unsigned_range 8 (mm_escrowBump x) \<and>
     unsigned_range 64 (mm_lpTotal x) \<and>
     unsigned_range 16 (mm_feeBps x) \<and>
     unsigned_range 8 (mm_outcomeIndex x) \<and>
     unsigned_range 64 (mm_activationLp x) \<and>
     unsigned_range 64 (mm_activationContributed x) \<and>
     unsigned_range 64 (mm_grossLpTotal x)"

subsection \<open>The oracle, as the market program reads it (accounts/oracle.ts)\<close>

record market_oracle =
  mo_optionsCount :: int
  mo_phase :: int
  mo_resolvedOption :: int

definition decodeMarketOracle :: "bytes \<Rightarrow> market_oracle res" where
  "decodeMarketOracle data =
     (if length data \<le> 197 then Inl (DecodeErr ''Oracle: too short'')
      else rbind (readU8 data 160) (\<lambda>optionsCount. rbind (readU8 data 161) (\<lambda>phase.
        rbind (readU8 data 197) (\<lambda>resolvedOption.
          Inr \<lparr>mo_optionsCount = optionsCount, mo_phase = phase,
            mo_resolvedOption = resolvedOption\<rparr>))))"

definition market_isTerminal :: "int \<Rightarrow> bool" where
  "market_isTerminal phase \<longleftrightarrow> phase = 7 \<or> phase = 8"

definition resolvedOptionOrNull :: "market_oracle \<Rightarrow> int option" where
  "resolvedOptionOrNull orc = (if mo_phase orc = 7 then Some (mo_resolvedOption orc) else None)"

text \<open>The reader of the program (\<open>KassOracle::read\<close> after its length guard), \<open>kass_oracle.rs\<close>.\<close>

definition kass_oracle_read :: "bytes \<Rightarrow> (int \<times> int \<times> int \<times> int) option" where
  "kass_oracle_read data =
     (if length data < 360 then None
      else Some (uint (data ! 0), uint (data ! 160), uint (data ! 161), uint (data ! 197)))"

section \<open>Facts\<close>

lemma assertMarketAccount_iff:
  "assertMarketAccount data t n name = Inr u
     \<longleftrightarrow> length data = n \<and> data \<noteq> [] \<and> uint (hd data) = mtype_code t"
  by (cases data) (auto simp: assertMarketAccount_def Let_def)

lemma assertMarketAccount_pod [simp]:
  "mtype_code t = c \<Longrightarrow> Suc (length xs) = n \<Longrightarrow> assertMarketAccount (u8 c @ xs) t n name = Inr ()"
  by (cases t) (auto simp: assertMarketAccount_iff u8_def uint_byte_of_int)

lemma mconfig_account_round_trip:
  assumes "web3_ok W" "mconfig_account_ok x"
  shows "decodeConfig W (pod_mconfig W x) = Inr x"
  using assms(2)
  by (cases x) (simp add: decodeConfig_def pod_mconfig_def mconfig_account_ok_def read_at width_simps
      readPubkey_simps [OF assms(1)] length_w3_bytes [OF assms(1)] mtype_code_byte)

lemma mconfig_account_accepts:
  assumes "web3_ok W"
  shows "is_ok (decodeConfig W data)
    \<longleftrightarrow> assertMarketAccount data MAT_Config (the (MARKET_ACCOUNT_SIZES MAT_Config)) ''Config'' = Inr ()"
proof
  assume ok: "assertMarketAccount data MAT_Config (the (MARKET_ACCOUNT_SIZES MAT_Config)) ''Config'' = Inr ()"
  then have "length data = the (MARKET_ACCOUNT_SIZES MAT_Config)" by (simp add: assertMarketAccount_iff)
  then show "is_ok (decodeConfig W data)"
    unfolding decodeConfig_def ok rbind.simps
    by (intro is_ok_rbind fits_reads [OF assms] is_ok_Inr) simp_all
next
  show "is_ok (decodeConfig W data)
    \<Longrightarrow> assertMarketAccount data MAT_Config (the (MARKET_ACCOUNT_SIZES MAT_Config)) ''Config'' = Inr ()"
    unfolding decodeConfig_def by (drule is_ok_rbind_D) (simp add: is_ok_iff)
qed

lemma mcontribution_account_round_trip:
  assumes "web3_ok W" "mcontribution_account_ok x"
  shows "decodeContribution W (pod_mcontribution W x) = Inr x"
  using assms(2)
  by (cases x) (simp add: decodeContribution_def pod_mcontribution_def mcontribution_account_ok_def read_at width_simps
      readPubkey_simps [OF assms(1)] length_w3_bytes [OF assms(1)] mtype_code_byte)

lemma mcontribution_account_accepts:
  assumes "web3_ok W"
  shows "is_ok (decodeContribution W data)
    \<longleftrightarrow> assertMarketAccount data MAT_Contribution (the (MARKET_ACCOUNT_SIZES MAT_Contribution)) ''Contribution'' = Inr ()"
proof
  assume ok: "assertMarketAccount data MAT_Contribution (the (MARKET_ACCOUNT_SIZES MAT_Contribution)) ''Contribution'' = Inr ()"
  then have "length data = the (MARKET_ACCOUNT_SIZES MAT_Contribution)" by (simp add: assertMarketAccount_iff)
  then show "is_ok (decodeContribution W data)"
    unfolding decodeContribution_def ok rbind.simps
    by (intro is_ok_rbind fits_reads [OF assms] is_ok_Inr) simp_all
next
  show "is_ok (decodeContribution W data)
    \<Longrightarrow> assertMarketAccount data MAT_Contribution (the (MARKET_ACCOUNT_SIZES MAT_Contribution)) ''Contribution'' = Inr ()"
    unfolding decodeContribution_def by (drule is_ok_rbind_D) (simp add: is_ok_iff)
qed

lemma mmarket_account_round_trip:
  assumes "web3_ok W" "mmarket_account_ok x"
  shows "decodeMarketAccount W (pod_mmarket W x) = Inr x"
  using assms(2)
  by (cases x) (simp add: decodeMarketAccount_def pod_mmarket_def mmarket_account_ok_def read_at width_simps
      readPubkey_simps [OF assms(1)] length_w3_bytes [OF assms(1)] mtype_code_byte)

lemma mmarket_account_accepts:
  assumes "web3_ok W"
  shows "is_ok (decodeMarketAccount W data)
    \<longleftrightarrow> assertMarketAccount data MAT_Market (the (MARKET_ACCOUNT_SIZES MAT_Market)) ''Market'' = Inr ()"
proof
  assume ok: "assertMarketAccount data MAT_Market (the (MARKET_ACCOUNT_SIZES MAT_Market)) ''Market'' = Inr ()"
  then have "length data = the (MARKET_ACCOUNT_SIZES MAT_Market)" by (simp add: assertMarketAccount_iff)
  then show "is_ok (decodeMarketAccount W data)"
    unfolding decodeMarketAccount_def ok rbind.simps
    by (intro is_ok_rbind fits_reads [OF assms] is_ok_Inr) simp_all
next
  show "is_ok (decodeMarketAccount W data)
    \<Longrightarrow> assertMarketAccount data MAT_Market (the (MARKET_ACCOUNT_SIZES MAT_Market)) ''Market'' = Inr ()"
    unfolding decodeMarketAccount_def by (drule is_ok_rbind_D) (simp add: is_ok_iff)
qed

fun mdecode_accepts :: "'a web3 \<Rightarrow> MAccountType \<Rightarrow> bytes \<Rightarrow> bool" where
  "mdecode_accepts W MAT_Config data = is_ok (decodeConfig W data)"
| "mdecode_accepts W MAT_Market data = is_ok (decodeMarketAccount W data)"
| "mdecode_accepts W MAT_Contribution data = is_ok (decodeContribution W data)"
| "mdecode_accepts W MAT_Uninitialized data = False"

lemma mdecode_accepts_iff:
  assumes "web3_ok W"
  shows "mdecode_accepts W t data
    \<longleftrightarrow> MARKET_ACCOUNT_SIZES t = Some (length data) \<and> data \<noteq> [] \<and> uint (hd data) = mtype_code t"
  by (cases t) (auto simp: mconfig_account_accepts [OF assms] mcontribution_account_accepts [OF assms]
      mmarket_account_accepts [OF assms] assertMarketAccount_iff)

lemma mpod_lengths:
  assumes "web3_ok W"
  shows "length (pod_mconfig W c) = 120" "length (pod_mmarket W m) = 424"
    "length (pod_mcontribution W n) = 96"
  by (simp_all add: pod_mconfig_def pod_mmarket_def pod_mcontribution_def length_w3_bytes [OF assms])

lemma oracle_fields:
  assumes "decodeOracle W data = Inr x"
  shows "length data = 368" "readU8 data 0 = Inr 1" "readU8 data 160 = Inr (orc_optionsCount x)"
    "readU8 data 161 = Inr (orc_phaseRaw x)" "readU8 data 197 = Inr (orc_resolvedOption x)"
    "orc_phase x = phase_of (orc_phaseRaw x)"
proof -
  have a: "assertAccount data AT_Oracle (the (ACCOUNT_SIZES AT_Oracle)) ''Oracle'' = Inr ()"
    using assms by (auto simp: decodeOracle_def rbind_Inr_iff)
  then show "length data = 368" by (simp add: assertAccount_iff)
  show "readU8 data 0 = Inr 1"
    using a by (cases data) (auto simp: assertAccount_iff readU8_def get_le_def)
  show "readU8 data 160 = Inr (orc_optionsCount x)" "readU8 data 161 = Inr (orc_phaseRaw x)"
    "readU8 data 197 = Inr (orc_resolvedOption x)" "orc_phase x = phase_of (orc_phaseRaw x)"
    using assms by (auto simp: decodeOracle_def rbind_Inr_iff Let_def)
qed

lemma readU8_nth: "readU8 data off = Inr v \<Longrightarrow> uint (data ! off) = v"
proof -
  assume r: "readU8 data off = Inr v"
  then have "off < length data" by (simp add: readU8_def get_le_def split: if_splits)
  then have "take 1 (drop off data) = [data ! off]" by (simp add: take_Suc hd_drop_conv_nth)
  then show ?thesis using r by (simp add: readU8_def get_le_def split: if_splits)
qed

section \<open>Properties\<close>

text \<open>
  The market program's state is read as the program wrote it. For every value of the
  \<open>Config\<close>, \<open>Market\<close> and \<open>Contribution\<close> structs, decoding the bytes of the \<open>repr(C)\<close> layout
  returns that value, and the image has the pinned size (120, 424 and 96 bytes).
\<close>

theorem market_accounts_round_trip:
  assumes "web3_ok W" "mconfig_account_ok c" "mmarket_account_ok m" "mcontribution_account_ok n"
  shows "decodeConfig W (pod_mconfig W c) = Inr c \<and> length (pod_mconfig W c) = 120
    \<and> decodeMarketAccount W (pod_mmarket W m) = Inr m \<and> length (pod_mmarket W m) = 424
    \<and> decodeContribution W (pod_mcontribution W n) = Inr n \<and> length (pod_mcontribution W n) = 96"
  using assms mconfig_account_round_trip [of W c] mmarket_account_round_trip [of W m]
    mcontribution_account_round_trip [of W n] mpod_lengths [of W] by simp

definition sample_mconfig :: "256 word mconfig_account" where
  "sample_mconfig = \<lparr>mcc_accountType = MAT_Config, mcc_authority = 1, mcc_kassMint = 2,
     mcc_minLiquidity = 3, mcc_bump = 4, mcc_feeBps = 500, mcc_feeDestination = 6\<rparr>"

definition sample_mcontribution :: "256 word mcontribution_account" where
  "sample_mcontribution = \<lparr>mcn_accountType = MAT_Contribution, mcn_market = 1, mcn_contributor = 2,
     mcn_amount = 3, mcn_claimed = True, mcn_bump = 5, mcn_lateLp = 6\<rparr>"

definition sample_mmarket :: "256 word mmarket_account" where
  "sample_mmarket = \<lparr>mm_accountType = MAT_Market, mm_oracle = 1, mm_creator = 2, mm_kassMint = 3,
     mm_escrowVault = 4, mm_minLiquidity = 5, mm_totalContributed = 6, mm_openContributions = 7,
     mm_status = 1, mm_bump = 9, mm_escrowBump = 10, mm_question = 11, mm_vault = 12,
     mm_yesMint = 13, mm_noMint = 14, mm_amm = 15, mm_lpMint = 16, mm_lpVault = 17, mm_lpTotal = 18,
     mm_settled = False, mm_feeBps = 300, mm_feeCollected = True, mm_outcomeIndex = 2,
     mm_activationLp = 23, mm_activationContributed = 24, mm_grossLpTotal = 25\<rparr>"

theorem market_accounts_round_trip_witness:
  "decodeMarketAccount sample_web3 (pod_mmarket sample_web3 sample_mmarket) = Inr sample_mmarket"
proof -
  have "mconfig_account_ok sample_mconfig" "mmarket_account_ok sample_mmarket"
    "mcontribution_account_ok sample_mcontribution"
    by (simp_all add: mconfig_account_ok_def sample_mconfig_def mmarket_account_ok_def sample_mmarket_def
        mcontribution_account_ok_def sample_mcontribution_def unsigned_range_def)
  then show ?thesis using market_accounts_round_trip [OF sample_web3_ok] by blast
qed

text \<open>
  No type confusion across the two programs. A market decoder accepts a buffer exactly when
  it has the pinned size of its type and its tag; no buffer is accepted by two of the market
  decoders, nor by a market decoder and a decoder of the oracle SDK, although the two programs
  number their account types from the same codes.
\<close>

theorem cross_program_no_confusion:
  assumes "web3_ok W"
  shows "(mdecode_accepts W t data \<longleftrightarrow>
      MARKET_ACCOUNT_SIZES t = Some (length data) \<and> data \<noteq> [] \<and> uint (hd data) = mtype_code t)
    \<and> (mdecode_accepts W t data \<and> mdecode_accepts W u data \<longrightarrow> t = u)
    \<and> \<not> (mdecode_accepts W t data \<and> decode_accepts W v data)"
proof -
  have "\<not> (mdecode_accepts W t data \<and> decode_accepts W v data)"
    unfolding mdecode_accepts_iff [OF assms] decode_accepts_iff [OF assms]
    by (cases t; cases v) simp_all
  then show ?thesis by (auto simp: mdecode_accepts_iff [OF assms] mtype_code_inj)
qed

theorem cross_program_no_confusion_witness:
  "mdecode_accepts sample_web3 MAT_Contribution (u8 3 @ replicate 95 0)
    \<and> \<not> decode_accepts sample_web3 AT_Proposer (u8 3 @ replicate 95 0)"
proof -
  have "mdecode_accepts sample_web3 MAT_Contribution (u8 3 @ replicate 95 0)"
    using cross_program_no_confusion [OF sample_web3_ok, of MAT_Contribution "u8 3 @ replicate 95 0"]
    by (simp add: u8_def uint_byte_of_int)
  then show ?thesis
    using cross_program_no_confusion [OF sample_web3_ok, of MAT_Contribution "u8 3 @ replicate 95 0" _ AT_Proposer]
    by auto
qed

text \<open>
  The three readers of an oracle account agree. On every buffer that the oracle SDK decodes,
  the market SDK's minimal reader and the market program's reader return its option count, phase
  and resolved option (and the tag of an oracle); the market SDK calls the oracle terminal
  exactly in the phases \<open>Resolved\<close> and \<open>InvalidDeadend\<close>, and shows a winning option exactly in
  \<open>Resolved\<close>.
\<close>

theorem market_reads_oracle:
  assumes "decodeOracle W data = Inr x"
  shows "decodeMarketOracle data = Inr \<lparr>mo_optionsCount = orc_optionsCount x,
        mo_phase = orc_phaseRaw x, mo_resolvedOption = orc_resolvedOption x\<rparr>
    \<and> kass_oracle_read data = Some (type_code AT_Oracle, orc_optionsCount x, orc_phaseRaw x, orc_resolvedOption x)
    \<and> (market_isTerminal (orc_phaseRaw x) \<longleftrightarrow> orc_phase x \<in> {Some Ph_Resolved, Some Ph_InvalidDeadend})
    \<and> rmap resolvedOptionOrNull (decodeMarketOracle data) =
        Inr (if orc_phase x = Some Ph_Resolved then Some (orc_resolvedOption x) else None)"
proof -
  note f = oracle_fields [OF assms]
  have reader: "decodeMarketOracle data = Inr \<lparr>mo_optionsCount = orc_optionsCount x,
      mo_phase = orc_phaseRaw x, mo_resolvedOption = orc_resolvedOption x\<rparr>"
    using f by (simp add: decodeMarketOracle_def)
  have ph: "phase_of r = Some p \<longleftrightarrow> phase_code p = r" for r p
    using phase_of_Some phase_of_code by metis
  have "phase_of r = Some Ph_Resolved \<longleftrightarrow> r = 7" "phase_of r = Some Ph_InvalidDeadend \<longleftrightarrow> r = 8" for r
    using ph by auto
  then show ?thesis
    using f readU8_nth [OF f(2)] readU8_nth [OF f(3)] readU8_nth [OF f(4)] readU8_nth [OF f(5)]
    by (auto simp: reader kass_oracle_read_def market_isTerminal_def resolvedOptionOrNull_def)
qed

definition sample_resolved :: "256 word oracle_account" where
  "sample_resolved = sample_oracle\<lparr>orc_phaseRaw := 7, orc_phase := Some Ph_Resolved\<rparr>"

theorem market_reads_oracle_witness:
  "rmap resolvedOptionOrNull (decodeMarketOracle (pod_oracle sample_web3 sample_resolved)) = Inr (Some 24)"
proof -
  have "oracle_ok sample_resolved"
    by (simp add: oracle_ok_def sample_resolved_def sample_oracle_def unsigned_range_def
        signed_range_def phase_of_def all_phases_def)
  then have d: "decodeOracle sample_web3 (pod_oracle sample_web3 sample_resolved) = Inr sample_resolved"
    by (rule oracle_round_trip [OF sample_web3_ok])
  have p: "orc_phase sample_resolved = Some Ph_Resolved" "orc_resolvedOption sample_resolved = 24"
    by (simp_all add: sample_resolved_def sample_oracle_def)
  show ?thesis
    using conjunct2 [OF conjunct2 [OF conjunct2 [OF market_reads_oracle [OF d]]]]
    by (simp only: p simp_thms if_True)
qed

end
