(* ===== verification/Packing.thy ===== *)
theory Packing
  imports Payload
begin

text \<open>
  The packing of an ordered step list into few transactions
  (\<open>app/src/market/data/actions/packTx.ts\<close>) and the uniform split of a deposit
  (\<open>bulkLiquidity.ts\<close>). The ComputeBudget helpers and the transaction compiler of web3.js are
  the record \<open>tx_lib\<close>; sizing a message may throw. The abstract contract of the packer is
  \<open>packing\<close>: nothing lost or reordered, every batch within the limits or a single step, and
  no two neighbours that could have been merged.
\<close>

section \<open>web3.js, as a parameter\<close>

text \<open>
  \<open>tl_type\<close> is \<open>decodeInstructionType\<close> (\<open>None\<close> when it throws), \<open>tl_units\<close> is
  \<open>decodeSetComputeUnitLimit(ix).units\<close>, \<open>tl_limit\<close> is \<open>setComputeUnitLimit\<close>, \<open>tl_message\<close> the
  number of required signatures and the length of the serialized message.
\<close>

record 'a tx_lib =
  tl_budget_id :: 'a
  tl_type :: "'a tx_instruction \<Rightarrow> string option"
  tl_units :: "'a tx_instruction \<Rightarrow> nat"
  tl_limit :: "nat \<Rightarrow> 'a tx_instruction"
  tl_message :: "'a \<Rightarrow> 'a tx_instruction list \<Rightarrow> (nat \<times> nat) res"

definition tx_lib_ok :: "'a web3 \<Rightarrow> 'a tx_lib \<Rightarrow> bool" where
  "tx_lib_ok W T \<longleftrightarrow>
     (\<forall>n. ti_programId (tl_limit T n) = tl_budget_id T \<and>
          tl_type T (tl_limit T n) = Some ''SetComputeUnitLimit'' \<and> tl_units T (tl_limit T n) = n)"

section \<open>Steps (activate.ts)\<close>

record 'a activate_step =
  as_label :: utext
  as_computeUnits :: "nat option"
  as_ixs :: "'a tx_instruction list"
  as_checkAccount :: 'a
  as_skipIfLanded :: "bool option"

section \<open>Packing (packTx.ts)\<close>

definition MAX_TX_COMPUTE_UNITS :: nat where
  "MAX_TX_COMPUTE_UNITS = 1400000"

definition DEFAULT_TX_COMPUTE_UNITS :: nat where
  "DEFAULT_TX_COMPUTE_UNITS = 200000"

definition PACKET_DATA_SIZE :: nat where
  "PACKET_DATA_SIZE = 1232"

record 'a packed_tx =
  pt_steps :: "'a activate_step list"
  pt_ixs :: "'a tx_instruction list"

definition isComputeUnitLimitIx :: "'a web3 \<Rightarrow> 'a tx_lib \<Rightarrow> 'a tx_instruction \<Rightarrow> bool" where
  "isComputeUnitLimitIx W T ix =
     (if w3_string W (ti_programId ix) \<noteq> w3_string W (tl_budget_id T) then False
      else (case tl_type T ix of None \<Rightarrow> False | Some t \<Rightarrow> t = ''SetComputeUnitLimit''))"

text \<open>The loop of \<open>normalizeStep\<close>: \<open>declared\<close> and \<open>body\<close> are its two accumulators.\<close>

fun normalize_loop ::
  "'a web3 \<Rightarrow> 'a tx_lib \<Rightarrow> nat option \<Rightarrow> 'a tx_instruction list \<Rightarrow> 'a tx_instruction list
    \<Rightarrow> nat option \<times> 'a tx_instruction list" where
  "normalize_loop W T declared body [] = (declared, body)"
| "normalize_loop W T declared body (ix # ixs) =
     (if isComputeUnitLimitIx W T ix
      then normalize_loop W T
        (Some ((case declared of None \<Rightarrow> 0 | Some d \<Rightarrow> d) + tl_units T ix)) body ixs
      else normalize_loop W T declared (body @ [ix]) ixs)"

definition normalizeStep ::
  "'a web3 \<Rightarrow> 'a tx_lib \<Rightarrow> 'a activate_step \<Rightarrow> nat \<times> 'a tx_instruction list" where
  "normalizeStep W T step =
     (let (declared, body) = normalize_loop W T (as_computeUnits step) [] (as_ixs step)
      in (case declared of None \<Rightarrow> DEFAULT_TX_COMPUTE_UNITS | Some d \<Rightarrow> d, body))"

definition totalComputeUnits :: "'a web3 \<Rightarrow> 'a tx_lib \<Rightarrow> 'a activate_step list \<Rightarrow> nat" where
  "totalComputeUnits W T steps = fold (\<lambda>s sum. sum + fst (normalizeStep W T s)) steps 0"

definition combinedIxs ::
  "'a web3 \<Rightarrow> 'a tx_lib \<Rightarrow> 'a activate_step list \<Rightarrow> 'a tx_instruction list" where
  "combinedIxs W T steps =
     (let normalized = map (normalizeStep W T) steps;
          units = fold (\<lambda>n sum. sum + fst n) normalized 0;
          body = concat (map snd normalized)
      in if units > DEFAULT_TX_COMPUTE_UNITS then tl_limit T units # body else body)"

definition wireSize :: "'a tx_lib \<Rightarrow> 'a \<Rightarrow> 'a tx_instruction list \<Rightarrow> nat res" where
  "wireSize T feePayer ixs =
     rmap (\<lambda>(numRequiredSignatures, len). 1 + numRequiredSignatures * 64 + len)
       (tl_message T feePayer ixs)"

text \<open>The condition of the \<open>if\<close>; the size is only computed when the units fit.\<close>

definition must_split ::
  "'a web3 \<Rightarrow> 'a tx_lib \<Rightarrow> 'a \<Rightarrow> 'a activate_step list \<Rightarrow> 'a activate_step list \<Rightarrow> bool res" where
  "must_split W T feePayer current attempt =
     (if \<not> length current > 0 then Inr False
      else if totalComputeUnits W T attempt > MAX_TX_COMPUTE_UNITS then Inr True
      else rmap (\<lambda>n. n > PACKET_DATA_SIZE) (wireSize T feePayer (combinedIxs W T attempt)))"

definition batch_of :: "'a web3 \<Rightarrow> 'a tx_lib \<Rightarrow> 'a activate_step list \<Rightarrow> 'a packed_tx" where
  "batch_of W T steps = \<lparr>pt_steps = steps, pt_ixs = combinedIxs W T steps\<rparr>"

fun pack_loop ::
  "'a web3 \<Rightarrow> 'a tx_lib \<Rightarrow> 'a \<Rightarrow> 'a packed_tx list \<Rightarrow> 'a activate_step list \<Rightarrow>
   'a activate_step list \<Rightarrow> 'a packed_tx list res" where
  "pack_loop W T feePayer batches current [] =
     Inr (if length current > 0 then batches @ [batch_of W T current] else batches)"
| "pack_loop W T feePayer batches current (step # steps) =
     (let attempt = current @ [step] in
      rbind (must_split W T feePayer current attempt) (\<lambda>split.
        if split then pack_loop W T feePayer (batches @ [batch_of W T current]) [step] steps
        else pack_loop W T feePayer batches attempt steps))"

definition packSteps ::
  "'a web3 \<Rightarrow> 'a tx_lib \<Rightarrow> 'a \<Rightarrow> 'a activate_step list \<Rightarrow> 'a packed_tx list res" where
  "packSteps W T feePayer steps = pack_loop W T feePayer [] [] steps"

section \<open>Uniform split (bulkLiquidity.ts)\<close>

fun split_loop :: "int \<Rightarrow> int \<Rightarrow> nat \<Rightarrow> int list" where
  "split_loop base remainder 0 = []"
| "split_loop base remainder (Suc k) =
     (let extra = (if remainder > 0 then 1 else 0)
      in (base + extra) # split_loop base (remainder - extra) k)"

text \<open>BigInt division truncates; here both operands are non-negative.\<close>

definition uniformSplit :: "int \<Rightarrow> int \<Rightarrow> int list res" where
  "uniformSplit amount n =
     (if n \<le> 0 then Inr []
      else if amount < 0 then Inl (ValidationErr ''Amount must be zero or greater.'')
      else (let base = amount div n; remainder = amount - base * n
            in Inr (split_loop base remainder (nat n))))"

section \<open>The contract of the packer\<close>

definition fits :: "'a web3 \<Rightarrow> 'a tx_lib \<Rightarrow> 'a \<Rightarrow> 'a activate_step list \<Rightarrow> bool" where
  "fits W T feePayer steps \<longleftrightarrow>
     totalComputeUnits W T steps \<le> MAX_TX_COMPUTE_UNITS \<and>
     (\<exists>n. wireSize T feePayer (combinedIxs W T steps) = Inr n \<and> n \<le> PACKET_DATA_SIZE)"

text \<open>Two neighbours that could not be merged further.\<close>

fun tight :: "'a web3 \<Rightarrow> 'a tx_lib \<Rightarrow> 'a \<Rightarrow> 'a packed_tx list \<Rightarrow> bool" where
  "tight W T feePayer (b # c # bs) \<longleftrightarrow>
     \<not> fits W T feePayer (pt_steps b @ [hd (pt_steps c)]) \<and> tight W T feePayer (c # bs)"
| "tight W T feePayer _ \<longleftrightarrow> True"

definition packing ::
  "'a web3 \<Rightarrow> 'a tx_lib \<Rightarrow> 'a \<Rightarrow> 'a activate_step list \<Rightarrow> 'a packed_tx list \<Rightarrow> bool" where
  "packing W T feePayer steps bs \<longleftrightarrow>
     concat (map pt_steps bs) = steps \<and>
     list_all (\<lambda>b. pt_steps b \<noteq> [] \<and> pt_ixs b = combinedIxs W T (pt_steps b) \<and>
        (length (pt_steps b) = 1 \<or> fits W T feePayer (pt_steps b))) bs \<and>
     tight W T feePayer bs"

section \<open>Lemmas\<close>

lemma must_split_False:
  "must_split W T p cur (cur @ [s]) = Inr False \<Longrightarrow> cur = [] \<or> fits W T p (cur @ [s])"
  by (auto simp: must_split_def fits_def rmap_Inr_iff split: if_splits)

lemma must_split_True:
  "must_split W T p cur (cur @ [s]) = Inr True \<Longrightarrow> cur \<noteq> [] \<and> \<not> fits W T p (cur @ [s])"
  by (auto simp: must_split_def fits_def rmap_Inr_iff split: if_splits)

lemma tight_snoc:
  "tight W T p (bs @ [b, c]) \<longleftrightarrow>
     tight W T p (bs @ [b]) \<and> \<not> fits W T p (pt_steps b @ [hd (pt_steps c)])"
  by (induction bs rule: induct_list012) auto

text \<open>The last batch may still grow: tightness only looks at its first step.\<close>

lemma tight_grow:
  "hd (pt_steps c) = hd (pt_steps d) \<Longrightarrow> tight W T p (bs @ [c]) = tight W T p (bs @ [d])"
  by (induction bs rule: induct_list012) auto

definition batch_good :: "'a web3 \<Rightarrow> 'a tx_lib \<Rightarrow> 'a \<Rightarrow> 'a packed_tx \<Rightarrow> bool" where
  "batch_good W T p b \<longleftrightarrow> pt_steps b \<noteq> [] \<and> pt_ixs b = combinedIxs W T (pt_steps b) \<and>
     (length (pt_steps b) = 1 \<or> fits W T p (pt_steps b))"

lemma batch_of_simps [simp]:
  "pt_steps (batch_of W T s) = s" "pt_ixs (batch_of W T s) = combinedIxs W T s"
  by (simp_all add: batch_of_def)

lemma pack_loop_packing:
  assumes "pack_loop W T p bs cur steps = Inr out"
    and "list_all (batch_good W T p) bs"
    and "cur = [] \<Longrightarrow> bs = []"
    and "cur \<noteq> [] \<Longrightarrow> batch_good W T p (batch_of W T cur) \<and> tight W T p (bs @ [batch_of W T cur])"
  shows "concat (map pt_steps out) = concat (map pt_steps bs) @ cur @ steps
    \<and> list_all (batch_good W T p) out \<and> tight W T p out"
  using assms
proof (induction W T p bs cur steps arbitrary: out rule: pack_loop.induct)
  case (1 W T p bs cur)
  then show ?case by (cases "cur = []") auto
next
  case (2 W T p bs cur step steps)
  obtain sp where sp: "must_split W T p cur (cur @ [step]) = Inr sp"
    using "2.prems"(1) by (auto simp: Let_def rbind_Inr_iff)
  show ?case
  proof (cases sp)
    case True
    then have ms: "cur \<noteq> [] \<and> \<not> fits W T p (cur @ [step])"
      using sp must_split_True [of W T p cur step] by simp
    have "pack_loop W T p (bs @ [batch_of W T cur]) [step] steps = Inr out"
      using "2.prems"(1) sp True by (simp add: Let_def)
    moreover have "batch_good W T p (batch_of W T [step])" by (simp add: batch_good_def)
    moreover have "tight W T p ((bs @ [batch_of W T cur]) @ [batch_of W T [step]])"
      using ms "2.prems"(4) by (simp add: tight_snoc)
    moreover have "list_all (batch_good W T p) (bs @ [batch_of W T cur])"
      using ms "2.prems"(2,4) by simp
    ultimately have "concat (map pt_steps out)
        = concat (map pt_steps (bs @ [batch_of W T cur])) @ [step] @ steps
      \<and> list_all (batch_good W T p) out \<and> tight W T p out"
      using sp True by (intro "2.IH"(1) [of "cur @ [step]" sp]) auto
    then show ?thesis by simp
  next
    case False
    then have ms: "cur = [] \<or> fits W T p (cur @ [step])"
      using sp must_split_False by simp
    have l: "pack_loop W T p bs (cur @ [step]) steps = Inr out"
      using "2.prems"(1) sp False by (simp add: Let_def)
    have g: "batch_good W T p (batch_of W T (cur @ [step]))"
      using ms by (auto simp: batch_good_def)
    have t: "tight W T p (bs @ [batch_of W T (cur @ [step])])"
    proof (cases "cur = []")
      case True
      then show ?thesis using "2.prems"(3) by simp
    next
      case False
      then show ?thesis
        using "2.prems"(4) tight_grow [of "batch_of W T cur" "batch_of W T (cur @ [step])"] by simp
    qed
    have "concat (map pt_steps out) = concat (map pt_steps bs) @ (cur @ [step]) @ steps
      \<and> list_all (batch_good W T p) out \<and> tight W T p out"
      using sp False l g t "2.prems"(2) by (intro "2.IH"(2) [of "cur @ [step]" sp]) auto
    then show ?thesis by simp
  qed
qed

lemma normalize_loop_body:
  "snd (normalize_loop W T d body ixs) = body @ filter (\<lambda>ix. \<not> isComputeUnitLimitIx W T ix) ixs"
  by (induction W T d body ixs rule: normalize_loop.induct) auto

lemma normalizeStep_body:
  "snd (normalizeStep W T s) = filter (\<lambda>ix. \<not> isComputeUnitLimitIx W T ix) (as_ixs s)"
  using normalize_loop_body [of W T "as_computeUnits s" "[]" "as_ixs s"]
  by (simp add: normalizeStep_def split_def)

lemma limit_is_limit:
  "tx_lib_ok W T \<Longrightarrow> isComputeUnitLimitIx W T (tl_limit T n)"
  by (simp add: tx_lib_ok_def isComputeUnitLimitIx_def)

lemma split_loop_sum:
  assumes "0 \<le> r" "r \<le> int k"
  shows "sum_list (split_loop base r k) = base * int k + r"
  using assms by (induction base r k rule: split_loop.induct) (auto simp: Let_def algebra_simps)

lemma split_loop_length [simp]: "length (split_loop base r k) = k"
  by (induction base r k rule: split_loop.induct) (auto simp: Let_def)

lemma split_loop_shares: "s \<in> set (split_loop base r k) \<Longrightarrow> s = base \<or> s = base + 1"
  by (induction base r k rule: split_loop.induct) (auto simp: Let_def split: if_splits)

lemma split_loop_sorted: "sorted_wrt (\<ge>) (split_loop base r k)"
proof (induction base r k rule: split_loop.induct)
  case (2 base r k)
  have z: "s \<in> set (split_loop base r' k) \<Longrightarrow> r' \<le> 0 \<Longrightarrow> s = base" for s r'
    by (induction base r' k rule: split_loop.induct) (auto simp: Let_def)
  show ?case
  proof (cases "0 < r")
    case True
    then show ?thesis using 2 split_loop_shares [of _ base "r - 1" k] by (fastforce simp: Let_def)
  next
    case False
    then show ?thesis using 2 z [of _ r] by (fastforce simp: Let_def)
  qed
qed simp

section \<open>Properties\<close>

text \<open>
  C37: Packing is lossless, within the limits and greedy. Whenever \<open>packSteps\<close> returns, its
  batches are non-empty and joined give the steps in their order; each carries the combined
  instructions of its steps and, unless it is one step, fits the compute limit and the
  packet size; and no batch could have taken the first step of the next one.
\<close>

theorem pack_steps_contract:
  assumes "packSteps W T feePayer steps = Inr batches"
  shows "packing W T feePayer steps batches"
  using pack_loop_packing [of W T feePayer "[]" "[]" steps batches] assms
  by (simp add: packSteps_def packing_def batch_good_def [abs_def])

definition sample_ix :: "256 word tx_instruction" where
  "sample_ix = \<lparr>ti_programId = 1, ti_keys = [], ti_data = []\<rparr>"

definition sample_lib :: "256 word tx_lib" where
  "sample_lib = \<lparr>tl_budget_id = 2,
     tl_type = (\<lambda>ix. if ti_programId ix = 2 then Some ''SetComputeUnitLimit'' else None),
     tl_units = (\<lambda>ix. nat (le_val (ti_data ix))),
     tl_limit = (\<lambda>n. \<lparr>ti_programId = 2, ti_keys = [], ti_data = le_bytes (Suc n) (int n)\<rparr>),
     tl_message = (\<lambda>p ixs. Inr (1, 500 * length ixs))\<rparr>"

definition sample_step :: "nat \<Rightarrow> 256 word activate_step" where
  "sample_step units = \<lparr>as_label = [], as_computeUnits = Some units, as_ixs = [sample_ix],
     as_checkAccount = 0, as_skipIfLanded = None\<rparr>"

lemma sample_pack:
  "rmap (map (\<lambda>b. map as_computeUnits (pt_steps b)))
     (packSteps sample_web3 sample_lib 0 [sample_step 100000, sample_step 50000, sample_step 1400000])
   = Inr [[Some 100000, Some 50000], [Some 1400000]]"
  by (simp add: packSteps_def must_split_def Let_def totalComputeUnits_def normalizeStep_def
      sample_step_def sample_ix_def isComputeUnitLimitIx_def sample_lib_def wireSize_def
      combinedIxs_def MAX_TX_COMPUTE_UNITS_def DEFAULT_TX_COMPUTE_UNITS_def PACKET_DATA_SIZE_def
      sample_web3_def)

theorem pack_steps_contract_witness:
  "\<exists>bs. packSteps sample_web3 sample_lib 0
       [sample_step 100000, sample_step 50000, sample_step 1400000] = Inr bs
     \<and> concat (map pt_steps bs) = [sample_step 100000, sample_step 50000, sample_step 1400000]
     \<and> length bs = 2"
proof -
  obtain bs where bs: "packSteps sample_web3 sample_lib 0
       [sample_step 100000, sample_step 50000, sample_step 1400000] = Inr bs"
    and "map (\<lambda>b. map as_computeUnits (pt_steps b)) bs = [[Some 100000, Some 50000], [Some 1400000]]"
    using sample_pack by (auto simp: rmap_Inr_iff)
  then have "length bs = 2" using arg_cong [of _ _ length] by fastforce
  then show ?thesis using bs pack_steps_contract [OF bs] by (auto simp: packing_def)
qed

text \<open>
  A packed transaction carries at most one compute-limit instruction, which states the
  total of its steps, and otherwise exactly the steps' own instructions in order; none of
  the limits embedded in the steps is left in the body.
\<close>

theorem combined_ixs_one_limit:
  assumes "tx_lib_ok W T"
  shows "filter (\<lambda>ix. \<not> isComputeUnitLimitIx W T ix) (combinedIxs W T steps)
      = concat (map (\<lambda>s. filter (\<lambda>ix. \<not> isComputeUnitLimitIx W T ix) (as_ixs s)) steps)
    \<and> filter (isComputeUnitLimitIx W T) (combinedIxs W T steps)
      = (if totalComputeUnits W T steps > DEFAULT_TX_COMPUTE_UNITS
         then [tl_limit T (totalComputeUnits W T steps)] else [])"
proof -
  let ?body = "concat (map (\<lambda>s. filter (\<lambda>ix. \<not> isComputeUnitLimitIx W T ix) (as_ixs s)) steps)"
  have units: "fold (\<lambda>n sum. sum + fst n) (map (normalizeStep W T) steps) k
      = fold (\<lambda>s sum. sum + fst (normalizeStep W T s)) steps k" for k
    by (induction steps arbitrary: k) auto
  have body: "concat (map snd (map (normalizeStep W T) steps)) = ?body"
    by (simp add: normalizeStep_body o_def)
  have "filter (\<lambda>ix. \<not> isComputeUnitLimitIx W T ix) ?body = ?body"
    "filter (isComputeUnitLimitIx W T) ?body = []"
    by (auto simp: filter_concat o_def)
  then show ?thesis
    using body units limit_is_limit [OF assms]
    by (simp add: combinedIxs_def Let_def totalComputeUnits_def)
qed

lemma sample_lib_ok: "tx_lib_ok sample_web3 sample_lib"
proof -
  have "n < 256 ^ Suc n" for n :: nat
    by (rule less_le_trans [OF power_gt_expt [of 256 n]]) simp_all
  then have "nat (int n mod 256 ^ Suc n) = n" for n
    by (metis nat_int of_nat_mod of_nat_numeral of_nat_power mod_less)
  then show ?thesis by (simp add: tx_lib_ok_def sample_lib_def le_val_le_bytes del: le_bytes.simps)
qed

theorem combined_ixs_one_limit_witness:
  "length (filter (isComputeUnitLimitIx sample_web3 sample_lib)
     (combinedIxs sample_web3 sample_lib [sample_step 150000, sample_step 60000])) = 1"
  using combined_ixs_one_limit [OF sample_lib_ok, of "[sample_step 150000, sample_step 60000]"]
  by (simp add: totalComputeUnits_def normalizeStep_def Let_def sample_step_def sample_ix_def
      isComputeUnitLimitIx_def sample_lib_def DEFAULT_TX_COMPUTE_UNITS_def sample_web3_def
      split: if_splits)

text \<open>
  The uniform split creates and loses no dust. A negative total is refused, no outcome
  gives no share, and otherwise there are exactly \<open>n\<close> shares, they sum to the total, they
  differ by at most one base unit with the larger ones first, and none is negative.
\<close>

theorem uniform_split_exact:
  "(n \<le> 0 \<longrightarrow> uniformSplit amount n = Inr [])
   \<and> (0 < n \<and> amount < 0 \<longrightarrow> \<not> is_ok (uniformSplit amount n))
   \<and> (0 < n \<and> 0 \<le> amount \<longrightarrow> (\<exists>shares. uniformSplit amount n = Inr shares
       \<and> length shares = nat n \<and> sum_list shares = amount \<and> sorted_wrt (\<ge>) shares
       \<and> (\<forall>s\<in>set shares. s = amount div n \<or> s = amount div n + 1) \<and> (\<forall>s\<in>set shares. 0 \<le> s)))"
proof (intro conjI impI)
  assume "0 < n \<and> 0 \<le> amount"
  then have n: "0 < n" and t: "0 \<le> amount" by auto
  let ?b = "amount div n" and ?r = "amount - amount div n * n"
  have r: "?r = amount mod n" by (simp add: minus_div_mult_eq_mod)
  have "0 \<le> ?r" "?r \<le> int (nat n)"
    unfolding r using n pos_mod_bound [OF n, of amount] pos_mod_sign [OF n, of amount] by auto
  then have "sum_list (split_loop ?b ?r (nat n)) = amount"
    using n by (simp add: split_loop_sum)
  moreover have "0 \<le> ?b" using n t by (simp add: pos_imp_zdiv_nonneg_iff)
  ultimately show "\<exists>shares. uniformSplit amount n = Inr shares \<and> length shares = nat n
      \<and> sum_list shares = amount \<and> sorted_wrt (\<ge>) shares
      \<and> (\<forall>s\<in>set shares. s = ?b \<or> s = ?b + 1) \<and> (\<forall>s\<in>set shares. 0 \<le> s)"
    using n t split_loop_shares split_loop_sorted
    by (intro exI [of _ "split_loop ?b ?r (nat n)"]) (fastforce simp: uniformSplit_def Let_def)
qed (auto simp: uniformSplit_def)

theorem uniform_split_exact_witness:
  "uniformSplit 10 3 = Inr [4, 3, 3] \<and> sum_list [4, 3, 3 :: int] = 10
   \<and> \<not> is_ok (uniformSplit (- 1) 3)"
proof -
  have "uniformSplit 10 3 = Inr [4, 3, 3]"
    by (simp add: uniformSplit_def Let_def eval_nat_numeral)
  then show ?thesis using uniform_split_exact [of 3 10] uniform_split_exact [of 3 "- 1"] by simp
qed

end
