(* ===== verification/Market_Flows.thy ===== *)
theory Market_Flows
  imports Market_Calls Metadao_Ixs Market_State Packing
begin

text \<open>
  The high-level flows of the prediction-market SDK (\<open>sdks/markets/ts/src/flows/\<close>): composing the
  MetaDAO scaffolding of a market and activating it, rebuilding the references of a live market
  from its account, creating the token accounts of a wallet, buying, selling and redeeming, and
  creating the sub-markets of a categorical oracle; and the app's staged bring-up
  (\<open>app/src/market/data/actions/activate.ts\<close>). Promises are awaited in the order of the source.
\<close>

section \<open>References (compose.ts)\<close>

record 'a market_refs =
  rf_market :: 'a
  rf_oracle :: 'a
  rf_kassMint :: 'a
  rf_question :: 'a
  rf_vault :: 'a
  rf_vaultUnderlyingAta :: 'a
  rf_yesMint :: 'a
  rf_noMint :: 'a
  rf_amm :: 'a
  rf_lpMint :: 'a
  rf_ammVaultBase :: 'a
  rf_ammVaultQuote :: 'a
  rf_cvEventAuthority :: 'a
  rf_ammEventAuthority :: 'a
  rf_marketCyes :: 'a
  rf_marketCno :: 'a
  rf_lpVault :: 'a
  rf_escrow :: 'a

definition marketRefsFromAccount ::
  "'a web3 \<Rightarrow> 'a address_input \<Rightarrow> 'a mmarket_account \<Rightarrow> 'a market_refs res" where
  "marketRefsFromAccount W marketIn d =
     rbind (addr W marketIn) (\<lambda>mkt.
     rbind (md_ata W (Addr (mm_vault d)) (Addr (mm_kassMint d))) (\<lambda>vaultUnderlyingAta.
     rbind (md_ata W (Addr (mm_amm d)) (Addr (mm_yesMint d))) (\<lambda>ammVaultBase.
     rbind (md_ata W (Addr (mm_amm d)) (Addr (mm_noMint d))) (\<lambda>ammVaultQuote.
     rbind (md_vaultEventAuthority W) (\<lambda>cvEventAuthority.
     rbind (md_ammEventAuthority W) (\<lambda>ammEventAuthority.
     rbind (mkt_cyes W (Addr mkt) None) (\<lambda>marketCyes.
     rbind (mkt_cno W (Addr mkt) None) (\<lambda>marketCno.
     Inr \<lparr>rf_market = mkt, rf_oracle = mm_oracle d, rf_kassMint = mm_kassMint d,
       rf_question = mm_question d, rf_vault = mm_vault d,
       rf_vaultUnderlyingAta = vaultUnderlyingAta, rf_yesMint = mm_yesMint d,
       rf_noMint = mm_noMint d, rf_amm = mm_amm d, rf_lpMint = mm_lpMint d,
       rf_ammVaultBase = ammVaultBase, rf_ammVaultQuote = ammVaultQuote,
       rf_cvEventAuthority = pda_address cvEventAuthority,
       rf_ammEventAuthority = pda_address ammEventAuthority,
       rf_marketCyes = pda_address marketCyes, rf_marketCno = pda_address marketCno,
       rf_lpVault = mm_lpVault d, rf_escrow = mm_escrowVault d\<rparr>))))))))"

section \<open>Compose and activate (compose.ts)\<close>

definition TWAP_INITIAL_OBSERVATION :: int where
  "TWAP_INITIAL_OBSERVATION = 1000000000000"

definition TWAP_MAX_OBSERVATION_CHANGE_PER_UPDATE :: int where
  "TWAP_MAX_OBSERVATION_CHANGE_PER_UPDATE = (2 ^ 64 - 1) * 1000000000000"

definition TWAP_START_DELAY_SLOTS :: int where
  "TWAP_START_DELAY_SLOTS = 0"

record 'a compose_params =
  cmp_market :: "'a address_input"
  cmp_oracle :: "'a address_input"
  cmp_kassMint :: "'a address_input"
  cmp_payer :: "'a address_input"

text \<open>The derived addresses, in the order of the source.\<close>

definition compose_refs :: "'a web3 \<Rightarrow> 'a \<Rightarrow> 'a \<Rightarrow> 'a \<Rightarrow> 'a market_refs res" where
  "compose_refs W mkt orc kassMint =
     (let questionId = w3_bytes W orc in
     rbind (md_question W questionId (Addr mkt) 2) (\<lambda>question.
     rbind (md_conditionalVault W (Addr (pda_address question)) (Addr kassMint)) (\<lambda>vault.
     rbind (md_ata W (Addr (pda_address vault)) (Addr kassMint)) (\<lambda>vaultUnderlyingAta.
     rbind (md_conditionalTokenMint W (Addr (pda_address vault)) 0) (\<lambda>yesMint.
     rbind (md_conditionalTokenMint W (Addr (pda_address vault)) 1) (\<lambda>noMint.
     rbind (md_amm W (Addr (pda_address yesMint)) (Addr (pda_address noMint))) (\<lambda>amm.
     rbind (md_ammLpMint W (Addr (pda_address amm))) (\<lambda>lpMint.
     rbind (md_ata W (Addr (pda_address amm)) (Addr (pda_address yesMint))) (\<lambda>ammVaultBase.
     rbind (md_ata W (Addr (pda_address amm)) (Addr (pda_address noMint))) (\<lambda>ammVaultQuote.
     rbind (md_vaultEventAuthority W) (\<lambda>cvEventAuthority.
     rbind (md_ammEventAuthority W) (\<lambda>ammEventAuthority.
     rbind (mkt_cyes W (Addr mkt) None) (\<lambda>marketCyes.
     rbind (mkt_cno W (Addr mkt) None) (\<lambda>marketCno.
     rbind (mkt_lpVault W (Addr mkt) None) (\<lambda>lpVault.
     rbind (mkt_escrow W (Addr mkt) None) (\<lambda>escrow.
     Inr \<lparr>rf_market = mkt, rf_oracle = orc, rf_kassMint = kassMint,
       rf_question = pda_address question, rf_vault = pda_address vault,
       rf_vaultUnderlyingAta = vaultUnderlyingAta, rf_yesMint = pda_address yesMint,
       rf_noMint = pda_address noMint, rf_amm = pda_address amm, rf_lpMint = pda_address lpMint,
       rf_ammVaultBase = ammVaultBase, rf_ammVaultQuote = ammVaultQuote,
       rf_cvEventAuthority = pda_address cvEventAuthority,
       rf_ammEventAuthority = pda_address ammEventAuthority,
       rf_marketCyes = pda_address marketCyes, rf_marketCno = pda_address marketCno,
       rf_lpVault = pda_address lpVault, rf_escrow = pda_address escrow\<rparr>))))))))))))))))"

definition composeMarketInstructions ::
  "'a web3 \<Rightarrow> 'a compose_params \<Rightarrow> ('a tx_instruction list \<times> 'a market_refs) res" where
  "composeMarketInstructions W p =
     rbind (addr W (cmp_market p)) (\<lambda>mkt.
     rbind (addr W (cmp_oracle p)) (\<lambda>orc.
     rbind (addr W (cmp_kassMint p)) (\<lambda>kassMint.
     rbind (addr W (cmp_payer p)) (\<lambda>payer.
     rbind (compose_refs W mkt orc kassMint) (\<lambda>refs.
     rbind (initializeQuestion W \<lparr>iqa_payer = Addr payer, iqa_questionId = w3_bytes W orc,
       iqa_oracle = Addr mkt, iqa_numOutcomes = 2\<rparr>) (\<lambda>ixQuestion.
     rbind (initializeConditionalVault W \<lparr>iva_payer = Addr payer,
       iva_question = Addr (rf_question refs), iva_underlyingMint = Addr kassMint,
       iva_numOutcomes = Some 2\<rparr>) (\<lambda>ixVault.
     rbind (createAmm W \<lparr>cra_payer = Addr payer, cra_baseMint = Addr (rf_yesMint refs),
       cra_quoteMint = Addr (rf_noMint refs),
       cra_twapInitialObservation = TWAP_INITIAL_OBSERVATION,
       cra_twapMaxObservationChangePerUpdate = TWAP_MAX_OBSERVATION_CHANGE_PER_UPDATE,
       cra_twapStartDelaySlots = Some TWAP_START_DELAY_SLOTS\<rparr>) (\<lambda>ixAmm.
     Inr ([ixQuestion, ixVault, ixAmm], refs)))))))))"

definition activateInstruction ::
  "'a web3 \<Rightarrow> 'a market_refs \<Rightarrow> 'a address_input \<Rightarrow> 'a tx_instruction res" where
  "activateInstruction W refs payer =
     activate W \<lparr>mac_market = Addr (rf_market refs), mac_oracle = Addr (rf_oracle refs),
       mac_payer = payer, mac_question = Addr (rf_question refs), mac_vault = Addr (rf_vault refs),
       mac_vaultUnderlyingAta = Addr (rf_vaultUnderlyingAta refs),
       mac_yesMint = Addr (rf_yesMint refs), mac_noMint = Addr (rf_noMint refs),
       mac_marketCyes = Addr (rf_marketCyes refs), mac_marketCno = Addr (rf_marketCno refs),
       mac_amm = Addr (rf_amm refs), mac_lpMint = Addr (rf_lpMint refs),
       mac_lpVault = Addr (rf_lpVault refs), mac_ammVaultBase = Addr (rf_ammVaultBase refs),
       mac_ammVaultQuote = Addr (rf_ammVaultQuote refs),
       mac_cvEventAuthority = Addr (rf_cvEventAuthority refs),
       mac_ammEventAuthority = Addr (rf_ammEventAuthority refs),
       mac_cvProgram = Some (Addr (conditionalVault_id W)),
       mac_ammProgram = Some (Addr (ammV04_id W)),
       mac_tokenProgram = None, mac_systemProgram = None, mac_programId = None\<rparr>"

definition collectFeeInstruction ::
  "'a web3 \<Rightarrow> 'a market_refs \<Rightarrow> 'a address_input \<Rightarrow> 'a tx_instruction res" where
  "collectFeeInstruction W refs feeDestination =
     collectFee W \<lparr>mcf_market = Addr (rf_market refs), mcf_feeDestination = feeDestination,
       mcf_question = Addr (rf_question refs), mcf_vault = Addr (rf_vault refs),
       mcf_vaultUnderlyingAta = Addr (rf_vaultUnderlyingAta refs),
       mcf_yesMint = Addr (rf_yesMint refs), mcf_noMint = Addr (rf_noMint refs),
       mcf_marketCyes = Addr (rf_marketCyes refs), mcf_marketCno = Addr (rf_marketCno refs),
       mcf_amm = Addr (rf_amm refs), mcf_lpMint = Addr (rf_lpMint refs),
       mcf_lpVault = Addr (rf_lpVault refs), mcf_ammVaultBase = Addr (rf_ammVaultBase refs),
       mcf_ammVaultQuote = Addr (rf_ammVaultQuote refs),
       mcf_cvEventAuthority = Addr (rf_cvEventAuthority refs),
       mcf_ammEventAuthority = Addr (rf_ammEventAuthority refs),
       mcf_cvProgram = Some (Addr (conditionalVault_id W)),
       mcf_ammProgram = Some (Addr (ammV04_id W)), mcf_tokenProgram = None, mcf_programId = None\<rparr>"

definition closeMarketInstruction ::
  "'a web3 \<Rightarrow> 'a address_input \<Rightarrow> 'a address_input \<Rightarrow> 'a tx_instruction res" where
  "closeMarketInstruction W mkt creator =
     marketClose W \<lparr>mcz_market = mkt, mcz_creator = creator, mcz_programId = None\<rparr>"

section \<open>Token accounts of a wallet (atas.ts)\<close>

definition createAtaIdempotentInstruction :: "'a web3 \<Rightarrow> 'a \<Rightarrow> 'a \<Rightarrow> 'a \<Rightarrow> 'a \<Rightarrow> 'a tx_instruction" where
  "createAtaIdempotentInstruction W payer ata owner mint =
     \<lparr>ti_programId = ATA_PROGRAM_ID W,
       ti_keys = [w payer True, w ata False, ro owner False, ro mint False,
         ro (SYSTEM_PROGRAM_ID W) False, ro (TOKEN_PROGRAM_ID W) False],
       ti_data = [1]\<rparr>"

definition createIdempotentAta :: "'a web3 \<Rightarrow> 'a \<Rightarrow> 'a \<Rightarrow> 'a \<Rightarrow> ('a tx_instruction \<times> 'a) res" where
  "createIdempotentAta W payer owner mint =
     rbind (mkt_ata W (Addr owner) (Addr mint)) (\<lambda>ata.
       Inr (createAtaIdempotentInstruction W payer (pda_address ata) owner mint, pda_address ata))"

record 'a ensured_atas =
  ea_instructions :: "'a tx_instruction list"
  ea_userYesAta :: 'a
  ea_userNoAta :: 'a
  ea_userKassAta :: "'a option"

definition ensureConditionalAtasInstructions ::
  "'a web3 \<Rightarrow> 'a market_refs \<Rightarrow> 'a address_input \<Rightarrow> 'a address_input option \<Rightarrow> bool
    \<Rightarrow> 'a ensured_atas res" where
  "ensureConditionalAtasInstructions W refs user payerIn includeKass =
     rbind (addr W user) (\<lambda>owner.
     rbind (case payerIn of Some p \<Rightarrow> addr W p | None \<Rightarrow> Inr owner) (\<lambda>payer.
     rbind (createIdempotentAta W payer owner (rf_yesMint refs)) (\<lambda>yes.
     rbind (createIdempotentAta W payer owner (rf_noMint refs)) (\<lambda>no.
     if includeKass
     then rbind (createIdempotentAta W payer owner (rf_kassMint refs)) (\<lambda>kass.
       Inr \<lparr>ea_instructions = [fst yes, fst no] @ [fst kass], ea_userYesAta = snd yes,
         ea_userNoAta = snd no, ea_userKassAta = Some (snd kass)\<rparr>)
     else Inr \<lparr>ea_instructions = [fst yes, fst no], ea_userYesAta = snd yes,
         ea_userNoAta = snd no, ea_userKassAta = None\<rparr>))))"

section \<open>Buy, sell and redeem (trade.ts, redeem.ts)\<close>

datatype outcome = OYes | ONo

definition userConditionalAtas ::
  "'a web3 \<Rightarrow> 'a market_refs \<Rightarrow> 'a address_input \<Rightarrow> 'a address_input option \<Rightarrow> 'a address_input option
    \<Rightarrow> ('a \<times> 'a) res" where
  "userConditionalAtas W refs user userYesAta userNoAta =
     rbind (case userYesAta of Some y \<Rightarrow> addr W y | None \<Rightarrow> md_ata W user (Addr (rf_yesMint refs))) (\<lambda>yes.
     rbind (case userNoAta of Some n \<Rightarrow> addr W n | None \<Rightarrow> md_ata W user (Addr (rf_noMint refs))) (\<lambda>no.
       Inr (yes, no)))"

record 'a trade_params =
  tp_refs :: "'a market_refs"
  tp_user :: "'a address_input"
  tp_outcome :: outcome
  tp_userKassAta :: "'a address_input"
  tp_userYesAta :: "'a address_input option"
  tp_userNoAta :: "'a address_input option"
  tp_outputAmountMin :: "int option"

text \<open>The vault arguments that \<open>split\<close>, \<open>merge\<close> and \<open>redeem\<close> get.\<close>

definition vault_args ::
  "'a market_refs \<Rightarrow> 'a address_input \<Rightarrow> 'a address_input \<Rightarrow> 'a \<Rightarrow> 'a \<Rightarrow> 'a interactWithVault_args" where
  "vault_args refs user userKassAta yes no =
     \<lparr>iwv_question = Addr (rf_question refs), iwv_vault = Addr (rf_vault refs),
       iwv_vaultUnderlyingAta = Addr (rf_vaultUnderlyingAta refs), iwv_authority = user,
       iwv_userUnderlyingAta = userKassAta,
       iwv_conditionalMints = [Addr (rf_yesMint refs), Addr (rf_noMint refs)],
       iwv_userConditionalAtas = [Addr yes, Addr no]\<rparr>"

definition buyInstructions ::
  "'a web3 \<Rightarrow> 'a trade_params \<Rightarrow> int \<Rightarrow> ('a tx_instruction list \<times> 'a \<times> 'a) res" where
  "buyInstructions W p kassAmount =
     (let refs = tp_refs p; user = tp_user p; yesOutcome = (tp_outcome p = OYes) in
     rbind (userConditionalAtas W refs user (tp_userYesAta p) (tp_userNoAta p)) (\<lambda>(yes, no).
     rbind (splitTokens W (vault_args refs user (tp_userKassAta p) yes no) kassAmount) (\<lambda>split.
     rbind (ammSwap W \<lparr>swa_payer = user, swa_baseMint = Addr (rf_yesMint refs),
       swa_quoteMint = Addr (rf_noMint refs),
       swa_swapType = (if yesOutcome then Buy else Sell),
       swa_inputAmount = kassAmount,
       swa_outputAmountMin = Some (or_zero (tp_outputAmountMin p)),
       swa_userBase = Some (Addr yes), swa_userQuote = Some (Addr no)\<rparr>) (\<lambda>swap.
     Inr ([split, swap], yes, no)))))"

definition sellInstructions ::
  "'a web3 \<Rightarrow> 'a trade_params \<Rightarrow> int \<Rightarrow> int \<Rightarrow> ('a tx_instruction list \<times> 'a \<times> 'a) res" where
  "sellInstructions W p swapAmount mergeAmount =
     (let refs = tp_refs p; user = tp_user p; yesOutcome = (tp_outcome p = OYes) in
     rbind (userConditionalAtas W refs user (tp_userYesAta p) (tp_userNoAta p)) (\<lambda>(yes, no).
     rbind (ammSwap W \<lparr>swa_payer = user, swa_baseMint = Addr (rf_yesMint refs),
       swa_quoteMint = Addr (rf_noMint refs),
       swa_swapType = (if yesOutcome then Sell else Buy),
       swa_inputAmount = swapAmount,
       swa_outputAmountMin = Some (or_zero (tp_outputAmountMin p)),
       swa_userBase = Some (Addr yes), swa_userQuote = Some (Addr no)\<rparr>) (\<lambda>swap.
     rbind (mergeTokens W (vault_args refs user (tp_userKassAta p) yes no) mergeAmount) (\<lambda>merge.
     Inr ([swap, merge], yes, no)))))"

definition redeemInstructions ::
  "'a web3 \<Rightarrow> 'a trade_params \<Rightarrow> ('a tx_instruction list \<times> 'a \<times> 'a) res" where
  "redeemInstructions W p =
     (let refs = tp_refs p; user = tp_user p in
     rbind (userConditionalAtas W refs user (tp_userYesAta p) (tp_userNoAta p)) (\<lambda>(yes, no).
     rbind (redeemTokens W (vault_args refs user (tp_userKassAta p) yes no)) (\<lambda>redeem.
     Inr ([redeem], yes, no))))"

section \<open>All the sub-markets of an oracle (createAll.ts)\<close>

record 'a create_all_params =
  cap_oracle :: "'a address_input"
  cap_optionsCount :: int
  cap_creator :: "'a address_input"
  cap_kassMint :: "'a address_input"
  cap_creatorKassAta :: "'a address_input"
  cap_seedAmount :: int
  cap_programId :: "'a option"

record 'a create_all_step =
  cas_outcomeIndex :: int
  cas_market :: 'a
  cas_instruction :: "'a tx_instruction"

definition create_step :: "'a web3 \<Rightarrow> 'a create_all_params \<Rightarrow> int \<Rightarrow> 'a create_all_step res" where
  "create_step W p outcomeIndex =
     rbind (mkt_market W (cap_oracle p) outcomeIndex (cap_programId p)) (\<lambda>m.
     rbind (createMarket W \<lparr>mcm_creator = cap_creator p, mcm_oracle = cap_oracle p,
       mcm_kassMint = cap_kassMint p, mcm_creatorKassAta = cap_creatorKassAta p,
       mcm_seedAmount = cap_seedAmount p, mcm_outcomeIndex = outcomeIndex,
       mcm_programId = cap_programId p\<rparr>) (\<lambda>ix.
     Inr \<lparr>cas_outcomeIndex = outcomeIndex, cas_market = pda_address m, cas_instruction = ix\<rparr>))"

definition createAllOutcomeMarkets ::
  "'a web3 \<Rightarrow> 'a create_all_params \<Rightarrow> 'a create_all_step list res" where
  "createAllOutcomeMarkets W p =
     (if cap_optionsCount p < 1 then Inl (OtherErr ''optionsCount must be a positive integer'')
      else collect (map (\<lambda>i. create_step W p (int i)) [0..<nat (cap_optionsCount p)]))"

definition composeWithEntry :: "'a tx_instruction \<Rightarrow> 'a tx_instruction list \<Rightarrow> 'a tx_instruction list" where
  "composeWithEntry jupiterSwapIx marketInstructions = jupiterSwapIx # marketInstructions"

section \<open>The staged bring-up of the app (activate.ts)\<close>

definition toAddress :: "'a web3 \<Rightarrow> string \<Rightarrow> 'a address_input \<Rightarrow> 'a res" where
  "toAddress W field a =
     (case a of Addr x \<Rightarrow> Inr x
      | B58 s \<Rightarrow> (case w3_of_string W s of Some x \<Rightarrow> Inr x | None \<Rightarrow> Inl (ValidationErr field)))"

definition COMPOSE_COMPUTE_UNITS :: nat where
  "COMPOSE_COMPUTE_UNITS = 400000"

definition ACTIVATE_COMPUTE_UNITS :: nat where
  "ACTIVATE_COMPUTE_UNITS = 1400000"

definition buildActivateSequence :: "'a web3 \<Rightarrow> 'a compose_params \<Rightarrow> 'a activate_step list res" where
  "buildActivateSequence W p =
     rbind (toAddress W ''Market'' (cmp_market p)) (\<lambda>mkt.
     rbind (toAddress W ''Oracle'' (cmp_oracle p)) (\<lambda>orc.
     rbind (toAddress W ''KASS mint'' (cmp_kassMint p)) (\<lambda>kassMint.
     rbind (toAddress W ''Payer'' (cmp_payer p)) (\<lambda>payer.
     rbind (composeMarketInstructions W \<lparr>cmp_market = Addr mkt, cmp_oracle = Addr orc,
       cmp_kassMint = Addr kassMint, cmp_payer = Addr payer\<rparr>) (\<lambda>(instructions, refs).
     rbind (activateInstruction W refs (Addr payer)) (\<lambda>activateIx.
     Inr [
       \<lparr>as_label = codes ''Initialize question'', as_computeUnits = Some COMPOSE_COMPUTE_UNITS,
         as_ixs = [instructions ! 0], as_checkAccount = rf_question refs, as_skipIfLanded = None\<rparr>,
       \<lparr>as_label = codes ''Initialize conditional vault'', as_computeUnits = Some COMPOSE_COMPUTE_UNITS,
         as_ixs = [instructions ! 1], as_checkAccount = rf_vault refs, as_skipIfLanded = None\<rparr>,
       \<lparr>as_label = codes ''Create AMM pool'', as_computeUnits = Some COMPOSE_COMPUTE_UNITS,
         as_ixs = [instructions ! 2], as_checkAccount = rf_amm refs, as_skipIfLanded = None\<rparr>,
       \<lparr>as_label = codes ''Activate market'', as_computeUnits = Some ACTIVATE_COMPUTE_UNITS,
         as_ixs = [activateIx], as_checkAccount = rf_marketCyes refs, as_skipIfLanded = None\<rparr>]))))))"

text \<open>The probe: an RPC failure is not a landed step.\<close>

definition stepAlreadyLanded :: "('a \<Rightarrow> bytes option res) \<Rightarrow> 'a activate_step \<Rightarrow> bool" where
  "stepAlreadyLanded getAccount step =
     (case getAccount (as_checkAccount step) of Inl e \<Rightarrow> False | Inr info \<Rightarrow> info \<noteq> None)"

section \<open>Facts\<close>

lemma market_program_default [simp]: "market_program_or W None = MARKET_PROGRAM_ID W"
  by (simp add: market_program_or_def)

lemma mkt_derive_default: "mkt_derive W seeds (Some (MARKET_PROGRAM_ID W)) = mkt_derive W seeds None"
  by (simp add: mkt_derive_def)

lemmas flow_opens = Let_def rbind_Inr_iff collect_Cons_iff collect_Nil_iff w_in_iff ro_in_iff
  append_Cons append_Nil pubkeyBytes_iff case_prod_beta

lemma addr_Addr_iff: "addr W (Addr a) = Inr b \<longleftrightarrow> b = a"
  by auto

section \<open>When the flows return\<close>

text \<open>
  The flows only throw on an address that does not parse or when no bump gives an off-curve
  address; the seeds are all within the limits.
\<close>

definition pda_total :: "'a web3 \<Rightarrow> bool" where
  "pda_total W \<longleftrightarrow> (\<forall>seeds p. w3_find_pda W seeds p \<noteq> None)"

lemma is_ok_bindI [intro]: "is_ok r \<Longrightarrow> (\<And>x. r = Inr x \<Longrightarrow> is_ok (f x)) \<Longrightarrow> is_ok (rbind r f)"
  by (cases r) auto

lemma is_ok_rmap [simp]: "is_ok (rmap f r) = is_ok r"
  by (cases r) auto

lemma is_ok_collect [simp]: "is_ok (collect rs) = list_all is_ok rs"
proof (induction rs)
  case (Cons r rs)
  then show ?case by (cases r; cases "collect rs") auto
qed simp

lemma is_ok_pubkeyBytes [simp]: "is_ok (pubkeyBytes W x) = is_ok (addr W x)"
  by (simp add: pubkeyBytes_def)

lemma is_ok_metas [simp]: "is_ok (w_in W x s) = is_ok (addr W x)" "is_ok (ro_in W x s) = is_ok (addr W x)"
  by (simp_all add: w_in_def ro_in_def)

lemma is_ok_find: "pda_total W \<Longrightarrow> is_ok (lift_web (w3_find_pda W seeds p))"
proof -
  assume "pda_total W"
  then obtain x where "w3_find_pda W seeds p = Some x" unfolding pda_total_def by blast
  then show ?thesis by simp
qed

lemma is_ok_derive [simp]:
  "pda_total W \<Longrightarrow> is_ok (md_derive W seeds pid)"
  "pda_total W \<Longrightarrow> is_ok (mkt_derive W seeds pid2)"
  by (simp_all add: md_derive_def mkt_derive_def is_ok_find)

lemma is_ok_pdas:
  assumes "pda_total W"
  shows "is_ok (addr W x) \<Longrightarrow> is_ok (md_question W qid x n)"
    "is_ok (addr W x) \<Longrightarrow> is_ok (addr W y) \<Longrightarrow> is_ok (md_conditionalVault W x y)"
    "is_ok (addr W x) \<Longrightarrow> is_ok (md_conditionalTokenMint W x i)"
    "is_ok (addr W x) \<Longrightarrow> is_ok (addr W y) \<Longrightarrow> is_ok (md_amm W x y)"
    "is_ok (addr W x) \<Longrightarrow> is_ok (md_ammLpMint W x)"
    "is_ok (addr W x) \<Longrightarrow> is_ok (addr W y) \<Longrightarrow> is_ok (md_ata W x y)"
    "is_ok (addr W x) \<Longrightarrow> is_ok (addr W y) \<Longrightarrow> is_ok (mkt_ata W x y)"
    "is_ok (md_vaultEventAuthority W)" "is_ok (md_ammEventAuthority W)"
    "is_ok (mkt_config W p)"
    "is_ok (addr W x) \<Longrightarrow> is_ok (mkt_market W x i p)"
    "is_ok (addr W x) \<Longrightarrow> is_ok (mkt_escrow W x p)"
    "is_ok (addr W x) \<Longrightarrow> is_ok (mkt_cyes W x p)"
    "is_ok (addr W x) \<Longrightarrow> is_ok (mkt_cno W x p)"
    "is_ok (addr W x) \<Longrightarrow> is_ok (mkt_lpVault W x p)"
    "is_ok (addr W x) \<Longrightarrow> is_ok (addr W y) \<Longrightarrow> is_ok (mkt_contribution W x y p)"
  using assms is_ok_find [OF assms]
  by (auto simp: md_question_def md_conditionalVault_def md_conditionalTokenMint_def md_amm_def
      md_ammLpMint_def md_ata_def mkt_ata_def md_vaultEventAuthority_def md_ammEventAuthority_def mkt_pda_defs
      intro!: is_ok_bindI)

lemma sample_pda_total: "pda_total sample_web3"
  by (simp add: pda_total_def sample_web3_def)

lemma sample_addr: "is_ok (addr sample_web3 x)"
  by (cases x) (simp_all add: sample_web3_def)

lemma is_ok_cond_mints: "pda_total W \<Longrightarrow> is_ok (cond_mints W v i k acc)"
  by (induction k arbitrary: i acc) (auto intro!: is_ok_pdas)

lemma is_ok_compose_refs: "pda_total W \<Longrightarrow> is_ok (compose_refs W m o1 k)"
  unfolding compose_refs_def Let_def by (intro is_ok_bindI is_ok_pdas is_ok.simps) simp_all

lemma compose_returns:
  assumes "pda_total W" "is_ok (addr W (cmp_market p))" "is_ok (addr W (cmp_oracle p))"
    "is_ok (addr W (cmp_kassMint p))" "is_ok (addr W (cmp_payer p))"
  shows "is_ok (composeMarketInstructions W p)"
  unfolding composeMarketInstructions_def initializeQuestion_def initializeConditionalVault_def
    createAmm_def Let_def
  using assms
  by (intro is_ok_bindI is_ok_pdas is_ok_compose_refs is_ok_cond_mints is_ok.simps) simp_all


lemma toAddress_addr: "is_ok (addr W x) \<Longrightarrow> toAddress W f x = addr W x"
  by (cases x) (auto simp: toAddress_def lift_web_def split: option.splits)

lemma is_ok_activateInstruction:
  "pda_total W \<Longrightarrow> is_ok (addr W payer) \<Longrightarrow> is_ok (activateInstruction W refs payer)"
  unfolding activateInstruction_def activate_def Let_def
  by (intro is_ok_bindI is_ok_pdas) (simp_all add: or_input_def del: collect.simps)

lemma is_ok_case_prod: "(\<And>a b. r = (a, b) \<Longrightarrow> is_ok (f a b)) \<Longrightarrow> is_ok (case r of (a, b) \<Rightarrow> f a b)"
  by (cases r) auto

lemma activate_sequence_returns:
  assumes "pda_total W" "is_ok (addr W (cmp_market p))" "is_ok (addr W (cmp_oracle p))"
    "is_ok (addr W (cmp_kassMint p))" "is_ok (addr W (cmp_payer p))"
  shows "is_ok (buildActivateSequence W p)"
  unfolding buildActivateSequence_def
  using assms
  by (intro is_ok_bindI is_ok_case_prod compose_returns is_ok_activateInstruction)
    (simp_all add: toAddress_addr)

lemma is_ok_createIdempotentAta: "pda_total W \<Longrightarrow> is_ok (createIdempotentAta W p o1 m)"
  unfolding createIdempotentAta_def by (intro is_ok_bindI is_ok_pdas) simp_all

lemma is_ok_ensure:
  assumes "pda_total W" "is_ok (addr W user)"
    "\<forall>p. payer = Some p \<longrightarrow> is_ok (addr W p)"
  shows "is_ok (ensureConditionalAtasInstructions W refs user payer inc)"
  unfolding ensureConditionalAtasInstructions_def
  using assms by (intro is_ok_bindI is_ok_createIdempotentAta)
    (auto split: option.splits intro!: is_ok_bindI is_ok_createIdempotentAta)

lemma is_ok_userConditionalAtas:
  assumes "pda_total W" "is_ok (addr W user)"
    "\<forall>a. y = Some a \<or> n = Some a \<longrightarrow> is_ok (addr W a)"
  shows "is_ok (userConditionalAtas W refs user y n)"
  unfolding userConditionalAtas_def
  using assms by (intro is_ok_bindI) (auto split: option.splits intro: is_ok_pdas)

lemma is_ok_interactWithVault:
  assumes "pda_total W" "is_ok (addr W user)" "is_ok (addr W kassAta)"
  shows "is_ok (interactWithVault W disc (vault_args refs user kassAta y n))"
  unfolding interactWithVault_def vault_args_def
  using assms by (intro is_ok_bindI is_ok_pdas) (simp_all del: collect.simps)

lemma is_ok_ammSwap:
  assumes "pda_total W" "is_ok (addr W (swa_payer a))" "is_ok (addr W (swa_baseMint a))"
    "is_ok (addr W (swa_quoteMint a))" "swa_userBase a = Some (Addr y)" "swa_userQuote a = Some (Addr n)"
  shows "is_ok (ammSwap W a)"
  unfolding ammSwap_def using assms by (intro is_ok_bindI is_ok_pdas) (simp_all del: collect.simps)

definition trade_addresses_parse :: "'a web3 \<Rightarrow> 'a trade_params \<Rightarrow> bool" where
  "trade_addresses_parse W p \<longleftrightarrow> is_ok (addr W (tp_user p)) \<and> is_ok (addr W (tp_userKassAta p))
     \<and> (\<forall>a. tp_userYesAta p = Some a \<or> tp_userNoAta p = Some a \<longrightarrow> is_ok (addr W a))"

lemma trade_returns:
  assumes "pda_total W" "trade_addresses_parse W p"
  shows "is_ok (buyInstructions W p x) \<and> is_ok (sellInstructions W p y z) \<and> is_ok (redeemInstructions W p)"
  unfolding buyInstructions_def sellInstructions_def redeemInstructions_def Let_def
    splitTokens_def mergeTokens_def redeemTokens_def
  using assms unfolding trade_addresses_parse_def
  by (intro conjI is_ok_bindI is_ok_case_prod is_ok_userConditionalAtas is_ok_interactWithVault is_ok_ammSwap)
    (simp_all del: collect.simps)

lemma create_all_returns:
  assumes "pda_total W" "is_ok (addr W (cap_oracle p))" "is_ok (addr W (cap_creator p))"
    "is_ok (addr W (cap_kassMint p))" "is_ok (addr W (cap_creatorKassAta p))" "1 \<le> cap_optionsCount p"
  shows "is_ok (createAllOutcomeMarkets W p)"
proof -
  have "is_ok (create_step W p i)" for i
    unfolding create_step_def createMarket_def Let_def
    using assms by (intro is_ok_bindI is_ok_pdas) (simp_all del: collect.simps)
  then show ?thesis using assms(6) by (simp add: createAllOutcomeMarkets_def list_all_iff)
qed

section \<open>Sample inputs\<close>

definition sample_compose :: "256 word compose_params" where
  "sample_compose = \<lparr>cmp_market = Addr 3, cmp_oracle = B58 ''O'', cmp_kassMint = Addr 5, cmp_payer = Addr 7\<rparr>"

definition sample_create_all :: "256 word create_all_params" where
  "sample_create_all = \<lparr>cap_oracle = Addr 4, cap_optionsCount = 3, cap_creator = Addr 7,
     cap_kassMint = Addr 5, cap_creatorKassAta = Addr 6, cap_seedAmount = 1000, cap_programId = None\<rparr>"

definition sample_refs :: "256 word market_refs" where
  "sample_refs = snd (projr (composeMarketInstructions sample_web3 sample_compose))"

definition sample_trade :: "256 word trade_params" where
  "sample_trade = \<lparr>tp_refs = sample_refs, tp_user = Addr 7, tp_outcome = OYes, tp_userKassAta = Addr 8,
     tp_userYesAta = None, tp_userNoAta = None, tp_outputAmountMin = Some 9\<rparr>"


lemma sample_composed: "\<exists>ixs. composeMarketInstructions sample_web3 sample_compose = Inr (ixs, sample_refs)"
  using compose_returns [OF sample_pda_total, of sample_compose] sample_addr
  by (auto simp: is_ok_iff sample_refs_def)

section \<open>Properties\<close>

text \<open>The bindings that the program writes into a market account when it activates it.\<close>

definition records_refs :: "'a mmarket_account \<Rightarrow> 'a market_refs \<Rightarrow> bool" where
  "records_refs d refs \<longleftrightarrow>
     mm_oracle d = rf_oracle refs \<and> mm_kassMint d = rf_kassMint refs \<and>
     mm_question d = rf_question refs \<and> mm_vault d = rf_vault refs \<and>
     mm_yesMint d = rf_yesMint refs \<and> mm_noMint d = rf_noMint refs \<and>
     mm_amm d = rf_amm refs \<and> mm_lpMint d = rf_lpMint refs \<and>
     mm_lpVault d = rf_lpVault refs \<and> mm_escrowVault d = rf_escrow refs"

text \<open>
  A market's references survive the chain. When the account of a live market records the
  addresses that \<open>composeMarketInstructions\<close> derived for it, \<open>marketRefsFromAccount\<close> rebuilds
  exactly those references, all eighteen of them: whoever opens the market later trades,
  collects the fee and redeems against the accounts that its creator composed.
\<close>

theorem refs_survive_the_account:
  assumes "composeMarketInstructions W p = Inr (ixs, refs)" "records_refs d refs"
  shows "marketRefsFromAccount W (cmp_market p) d = Inr refs"
  using assms
  by (clarsimp simp: composeMarketInstructions_def compose_refs_def records_refs_def flow_opens)
    (simp add: marketRefsFromAccount_def)

lemma initializeQuestion_shape:
  assumes "initializeQuestion W a = Inr t"
  shows "\<exists>q p o1 e. addr W (iqa_payer a) = Inr p \<and> addr W (iqa_oracle a) = Inr o1
    \<and> md_question W (iqa_questionId a) (iqa_oracle a) (iqa_numOutcomes a) = Inr q
    \<and> md_vaultEventAuthority W = Inr e
    \<and> key_addresses t = [pda_address q, p, SYSTEM_PROGRAM_ID W, pda_address e, conditionalVault_id W]
    \<and> signers t = [p]
    \<and> ti_data t = DISC_initializeQuestion @ iqa_questionId a @ w3_bytes W o1 @ u8 (iqa_numOutcomes a)"
  using assms
  by (clarsimp simp: initializeQuestion_def flow_opens signers_def key_addresses_def)

lemma initializeConditionalVault_shape:
  assumes "initializeConditionalVault W a = Inr t" "iva_numOutcomes a = Some 2"
  shows "\<exists>v q m u p e y n. addr W (iva_payer a) = Inr p \<and> addr W (iva_question a) = Inr q
    \<and> addr W (iva_underlyingMint a) = Inr m
    \<and> md_conditionalVault W (iva_question a) (iva_underlyingMint a) = Inr v
    \<and> md_ata W (Addr (pda_address v)) (iva_underlyingMint a) = Inr u
    \<and> md_vaultEventAuthority W = Inr e
    \<and> md_conditionalTokenMint W (Addr (pda_address v)) 0 = Inr y
    \<and> md_conditionalTokenMint W (Addr (pda_address v)) 1 = Inr n
    \<and> key_addresses t = [pda_address v, q, m, u, p, TOKEN_PROGRAM_ID W, ATA_PROGRAM_ID W,
        SYSTEM_PROGRAM_ID W, pda_address e, conditionalVault_id W, pda_address y, pda_address n]
    \<and> signers t = [p]"
  using assms
  by (clarsimp simp: initializeConditionalVault_def flow_opens signers_def key_addresses_def
      numeral_2_eq_2)

lemma createAmm_shape:
  assumes "createAmm W a = Inr t"
  shows "\<exists>m l b q vb vq p e. addr W (cra_payer a) = Inr p \<and> addr W (cra_baseMint a) = Inr b
    \<and> addr W (cra_quoteMint a) = Inr q
    \<and> md_amm W (cra_baseMint a) (cra_quoteMint a) = Inr m
    \<and> md_ammLpMint W (Addr (pda_address m)) = Inr l
    \<and> md_ata W (Addr (pda_address m)) (cra_baseMint a) = Inr vb
    \<and> md_ata W (Addr (pda_address m)) (cra_quoteMint a) = Inr vq
    \<and> md_ammEventAuthority W = Inr e
    \<and> key_addresses t = [p, pda_address m, pda_address l, b, q, vb, vq, ATA_PROGRAM_ID W,
        TOKEN_PROGRAM_ID W, SYSTEM_PROGRAM_ID W, pda_address e, ammV04_id W]
    \<and> signers t = [p]"
  using assms
  by (clarsimp simp: createAmm_def flow_opens signers_def key_addresses_def)

lemma activateInstruction_shape:
  assumes "activateInstruction W refs payer = Inr t"
  shows "\<exists>p esc. addr W payer = Inr p \<and> mkt_escrow W (Addr (rf_market refs)) None = Inr esc
    \<and> key_addresses t = [rf_market refs, rf_oracle refs, p, rf_question refs, rf_vault refs,
        rf_vaultUnderlyingAta refs, pda_address esc, rf_yesMint refs, rf_noMint refs,
        rf_marketCyes refs, rf_marketCno refs, rf_amm refs, rf_lpMint refs, rf_lpVault refs,
        rf_ammVaultBase refs, rf_ammVaultQuote refs, rf_cvEventAuthority refs,
        conditionalVault_id W, rf_ammEventAuthority refs, ammV04_id W, TOKEN_PROGRAM_ID W,
        SYSTEM_PROGRAM_ID W]
    \<and> signers t = [p] \<and> ti_data t = u8 (mix_code MIx_Activate)"
  using assms
  by (clarsimp simp: activateInstruction_def activate_def flow_opens signers_def key_addresses_def
      or_input_def mkt_escrow_def mkt_derive_default)

lemma compose_refs_D:
  assumes "compose_refs W m o1 k = Inr r"
  shows "\<exists>q v y n a l e1 e2. md_question W (w3_bytes W o1) (Addr m) 2 = Inr q
    \<and> md_conditionalVault W (Addr (rf_question r)) (Addr k) = Inr v
    \<and> md_ata W (Addr (rf_vault r)) (Addr k) = Inr (rf_vaultUnderlyingAta r)
    \<and> md_conditionalTokenMint W (Addr (rf_vault r)) 0 = Inr y
    \<and> md_conditionalTokenMint W (Addr (rf_vault r)) 1 = Inr n
    \<and> md_amm W (Addr (rf_yesMint r)) (Addr (rf_noMint r)) = Inr a
    \<and> md_ammLpMint W (Addr (rf_amm r)) = Inr l
    \<and> md_ata W (Addr (rf_amm r)) (Addr (rf_yesMint r)) = Inr (rf_ammVaultBase r)
    \<and> md_ata W (Addr (rf_amm r)) (Addr (rf_noMint r)) = Inr (rf_ammVaultQuote r)
    \<and> md_vaultEventAuthority W = Inr e1 \<and> md_ammEventAuthority W = Inr e2
    \<and> rf_market r = m \<and> rf_oracle r = o1 \<and> rf_kassMint r = k
    \<and> rf_question r = pda_address q \<and> rf_vault r = pda_address v
    \<and> rf_yesMint r = pda_address y \<and> rf_noMint r = pda_address n
    \<and> rf_amm r = pda_address a \<and> rf_lpMint r = pda_address l
    \<and> rf_cvEventAuthority r = pda_address e1 \<and> rf_ammEventAuthority r = pda_address e2"
  using assms by (clarsimp simp: compose_refs_def flow_opens)

theorem refs_survive_the_account_witness:
  "\<exists>d. records_refs d sample_refs \<and> marketRefsFromAccount sample_web3 (Addr 3) d = Inr sample_refs"
proof -
  define d where "d = sample_mmarket\<lparr>mm_oracle := rf_oracle sample_refs, mm_kassMint := rf_kassMint sample_refs,
     mm_question := rf_question sample_refs, mm_vault := rf_vault sample_refs,
     mm_yesMint := rf_yesMint sample_refs, mm_noMint := rf_noMint sample_refs,
     mm_amm := rf_amm sample_refs, mm_lpMint := rf_lpMint sample_refs,
     mm_lpVault := rf_lpVault sample_refs, mm_escrowVault := rf_escrow sample_refs\<rparr>"
  have r: "records_refs d sample_refs" by (simp add: d_def records_refs_def)
  obtain ixs where "composeMarketInstructions sample_web3 sample_compose = Inr (ixs, sample_refs)"
    using sample_composed by blast
  from refs_survive_the_account [OF this r] r show ?thesis
    by (auto simp: sample_compose_def)
qed

text \<open>
  The staged bring-up of a market is consistent. The four steps carry one instruction each;
  the account that the resume probe of a step looks at is the one that its instruction
  creates; the vault step names the question of the first step, the pool step trades the two
  conditional mints of the vault step, and the activation names the accounts of all three
  (question, vault and its token account, mints, pool, its LP mint and reserves, event
  authorities and programs). The question is identified by the oracle's address and resolved
  by the market's, with two outcomes, and all four are paid by the same signer.
\<close>

theorem activate_sequence_consistent:
  assumes "buildActivateSequence W p = Inr steps"
  shows "\<exists>q v a act payer orc.
    map as_ixs steps = [[q], [v], [a], [act]]
    \<and> map as_checkAccount steps = [key_addresses q ! 0, key_addresses v ! 0, key_addresses a ! 1,
        key_addresses act ! 9]
    \<and> ti_data q = DISC_initializeQuestion @ w3_bytes W orc
        @ w3_bytes W (key_addresses act ! 0) @ u8 2
    \<and> key_addresses v ! 1 = key_addresses q ! 0
    \<and> drop 10 (key_addresses v) = [key_addresses a ! 3, key_addresses a ! 4]
    \<and> key_addresses act ! 1 = orc
    \<and> map ((!) (key_addresses act)) [3, 4, 5, 7, 8, 16, 17]
        = map ((!) (key_addresses v)) [1, 0, 3, 10, 11, 8, 9]
    \<and> map ((!) (key_addresses act)) [11, 12, 14, 15, 18, 19]
        = map ((!) (key_addresses a)) [1, 2, 5, 6, 10, 11]
    \<and> map signers [q, v, a, act] = [[payer], [payer], [payer], [payer]]"
proof -
  from assms obtain mkt orc kassMint payer ixs refs act where
    addrs: "toAddress W ''Market'' (cmp_market p) = Inr mkt"
      "toAddress W ''Payer'' (cmp_payer p) = Inr payer"
    and c: "composeMarketInstructions W \<lparr>cmp_market = Addr mkt, cmp_oracle = Addr orc,
       cmp_kassMint = Addr kassMint, cmp_payer = Addr payer\<rparr> = Inr (ixs, refs)"
    and act: "activateInstruction W refs (Addr payer) = Inr act"
    and st: "map as_ixs steps = [[ixs ! 0], [ixs ! 1], [ixs ! 2], [act]]"
      "map as_checkAccount steps = [rf_question refs, rf_vault refs, rf_amm refs, rf_marketCyes refs]"
    by (auto simp: buildActivateSequence_def flow_opens)
  from c obtain q v a where ixs: "ixs = [q, v, a]"
    and r: "compose_refs W mkt orc kassMint = Inr refs"
    and q: "initializeQuestion W \<lparr>iqa_payer = Addr payer, iqa_questionId = w3_bytes W orc,
       iqa_oracle = Addr mkt, iqa_numOutcomes = 2\<rparr> = Inr q"
    and v: "initializeConditionalVault W \<lparr>iva_payer = Addr payer,
       iva_question = Addr (rf_question refs), iva_underlyingMint = Addr kassMint,
       iva_numOutcomes = Some 2\<rparr> = Inr v"
    and a: "createAmm W \<lparr>cra_payer = Addr payer, cra_baseMint = Addr (rf_yesMint refs),
       cra_quoteMint = Addr (rf_noMint refs),
       cra_twapInitialObservation = TWAP_INITIAL_OBSERVATION,
       cra_twapMaxObservationChangePerUpdate = TWAP_MAX_OBSERVATION_CHANGE_PER_UPDATE,
       cra_twapStartDelaySlots = Some TWAP_START_DELAY_SLOTS\<rparr> = Inr a"
    by (auto simp: composeMarketInstructions_def flow_opens)
  note shapes = compose_refs_D [OF r] initializeQuestion_shape [OF q] initializeConditionalVault_shape [OF v]
    createAmm_shape [OF a] activateInstruction_shape [OF act]
  show ?thesis
    apply (rule exI [of _ q], rule exI [of _ v], rule exI [of _ a], rule exI [of _ act],
        rule exI [of _ payer], rule exI [of _ orc])
    using shapes st ixs by (clarsimp simp: addr_Addr_iff)
qed


theorem activate_sequence_consistent_witness:
  "\<exists>steps. buildActivateSequence sample_web3 sample_compose = Inr steps
     \<and> as_checkAccount (steps ! 0) = key_addresses (hd (as_ixs (steps ! 1))) ! 1"
proof -
  obtain steps where s: "buildActivateSequence sample_web3 sample_compose = Inr steps"
    using activate_sequence_returns [OF sample_pda_total] sample_addr by (auto simp: is_ok_iff)
  then show ?thesis
    using activate_sequence_consistent [OF s] by (auto simp: map_eq_Cons_conv)
qed

text \<open>The token accounts of the wallet, and the shapes of the instructions that use them.\<close>

lemma mkt_ata_md_ata: "mkt_ata W o1 m = Inr x \<Longrightarrow> md_ata W o1 m = Inr (pda_address x)"
  by (auto simp: mkt_ata_def md_ata_def mkt_derive_def rbind_Inr_iff rmap_Inr_iff)

lemma interactWithVault_shape:
  assumes "interactWithVault W disc (vault_args refs user kassAta y n) = Inr t"
  shows "\<exists>u k e. addr W user = Inr u \<and> addr W kassAta = Inr k
    \<and> key_addresses t = [rf_question refs, rf_vault refs, rf_vaultUnderlyingAta refs, u, k,
        TOKEN_PROGRAM_ID W, e, conditionalVault_id W, rf_yesMint refs, rf_noMint refs, y, n]
    \<and> signers t = [u] \<and> ti_programId t = conditionalVault_id W \<and> ti_data t = disc"
  using assms
  by (clarsimp simp: interactWithVault_def vault_args_def flow_opens signers_def key_addresses_def)

lemma ammSwap_shape:
  assumes "ammSwap W a = Inr t" "swa_userBase a = Some (Addr y)" "swa_userQuote a = Some (Addr n)"
  shows "\<exists>u m vb vq e. addr W (swa_payer a) = Inr u
    \<and> md_amm W (swa_baseMint a) (swa_quoteMint a) = Inr m
    \<and> md_ata W (Addr (pda_address m)) (swa_baseMint a) = Inr vb
    \<and> md_ata W (Addr (pda_address m)) (swa_quoteMint a) = Inr vq
    \<and> key_addresses t = [u, pda_address m, y, n, vb, vq, TOKEN_PROGRAM_ID W, e, ammV04_id W]
    \<and> signers t = [u] \<and> ti_programId t = ammV04_id W
    \<and> ti_data t = DISC_swap @ u8 (swap_code (swa_swapType a)) @ u64LE (swa_inputAmount a)
        @ u64LE (or_zero (swa_outputAmountMin a))"
  using assms
  by (clarsimp simp: ammSwap_def flow_opens signers_def key_addresses_def)

lemma createIdempotentAta_shape:
  assumes "createIdempotentAta W payer owner mint = Inr x"
  shows "md_ata W (Addr owner) (Addr mint) = Inr (snd x)
    \<and> key_addresses (fst x) ! 1 = snd x \<and> key_addresses (fst x) ! 2 = owner
    \<and> key_addresses (fst x) ! 3 = mint \<and> ti_data (fst x) = [1]"
  using assms mkt_ata_md_ata
  by (auto simp: createIdempotentAta_def rbind_Inr_iff createAtaIdempotentInstruction_def key_addresses_def)

lemma ensure_shape:
  assumes "ensureConditionalAtasInstructions W refs user payer inc = Inr e"
  shows "\<exists>u. addr W user = Inr u
    \<and> md_ata W (Addr u) (Addr (rf_yesMint refs)) = Inr (ea_userYesAta e)
    \<and> md_ata W (Addr u) (Addr (rf_noMint refs)) = Inr (ea_userNoAta e)
    \<and> map (\<lambda>t. (key_addresses t ! 1, key_addresses t ! 2, key_addresses t ! 3))
        (take 2 (ea_instructions e))
      = [(ea_userYesAta e, u, rf_yesMint refs), (ea_userNoAta e, u, rf_noMint refs)]
    \<and> (\<forall>t\<in>set (ea_instructions e). ti_data t = [1])"
proof -
  from assms obtain u p y n where u: "addr W user = Inr u"
    and y: "createIdempotentAta W p u (rf_yesMint refs) = Inr y"
    and n: "createIdempotentAta W p u (rf_noMint refs) = Inr n"
    and r: "(if inc then rbind (createIdempotentAta W p u (rf_kassMint refs)) (\<lambda>k.
        Inr \<lparr>ea_instructions = [fst y, fst n] @ [fst k], ea_userYesAta = snd y,
          ea_userNoAta = snd n, ea_userKassAta = Some (snd k)\<rparr>)
      else Inr \<lparr>ea_instructions = [fst y, fst n], ea_userYesAta = snd y,
          ea_userNoAta = snd n, ea_userKassAta = None\<rparr>) = Inr e"
    unfolding ensureConditionalAtasInstructions_def rbind_Inr_iff by blast
  have e: "ea_userYesAta e = snd y \<and> ea_userNoAta e = snd n"
    using r by (cases inc) (auto simp: rbind_Inr_iff)
  have "ea_instructions e = [fst y, fst n] \<or> (\<exists>k. createIdempotentAta W p u (rf_kassMint refs) = Inr k
      \<and> ea_instructions e = [fst y, fst n, fst k])"
    using r by (cases inc) (auto simp: rbind_Inr_iff)
  then have i: "\<forall>t\<in>set (ea_instructions e). ti_data t = [1]"
    "take 2 (ea_instructions e) = [fst y, fst n]"
    using createIdempotentAta_shape [OF y] createIdempotentAta_shape [OF n]
    by (auto dest: createIdempotentAta_shape)
  show ?thesis
    by (rule exI [of _ u])
      (use u e i createIdempotentAta_shape [OF y] createIdempotentAta_shape [OF n] in simp)
qed

lemma md_ata_addr: "addr W x = Inr a \<Longrightarrow> md_ata W (Addr a) m = md_ata W x m"
  by (simp add: md_ata_def pubkeyBytes_def)

lemma default_atas:
  assumes "ensureConditionalAtasInstructions W refs user payer inc = Inr e"
    "userConditionalAtas W refs user None None = Inr (y, n)"
  shows "y = ea_userYesAta e \<and> n = ea_userNoAta e"
proof -
  obtain u where u: "addr W user = Inr u"
    "md_ata W (Addr u) (Addr (rf_yesMint refs)) = Inr (ea_userYesAta e)"
    "md_ata W (Addr u) (Addr (rf_noMint refs)) = Inr (ea_userNoAta e)"
    using ensure_shape [OF assms(1)] by blast
  then show ?thesis
    using assms(2) unfolding md_ata_addr [OF u(1)]
    by (simp add: userConditionalAtas_def rbind_Inr_iff)
qed

lemma or_zero_Some [simp]: "or_zero (Some v) = v"
  by (simp add: or_zero_def)

text \<open>The payloads and the accounts of a trade whose token accounts are the default ones.\<close>

definition vault_leg :: "'a web3 \<Rightarrow> 'a trade_params \<Rightarrow> 'a ensured_atas \<Rightarrow> 'a tx_instruction \<Rightarrow> bool" where
  "vault_leg W p e t \<longleftrightarrow> ti_programId t = conditionalVault_id W
     \<and> rmap (\<lambda>u. [u]) (addr W (tp_user p)) = Inr (signers t)
     \<and> take 3 (key_addresses t) = [rf_question (tp_refs p), rf_vault (tp_refs p), rf_vaultUnderlyingAta (tp_refs p)]
     \<and> addr W (tp_userKassAta p) = Inr (key_addresses t ! 4)
     \<and> drop 8 (key_addresses t) = [rf_yesMint (tp_refs p), rf_noMint (tp_refs p), ea_userYesAta e, ea_userNoAta e]"

definition swap_leg :: "'a web3 \<Rightarrow> 'a trade_params \<Rightarrow> 'a ensured_atas \<Rightarrow> 'a tx_instruction \<Rightarrow> bool" where
  "swap_leg W p e t \<longleftrightarrow> ti_programId t = ammV04_id W
     \<and> rmap (\<lambda>u. [u]) (addr W (tp_user p)) = Inr (signers t)
     \<and> rmap pda_address (md_amm W (Addr (rf_yesMint (tp_refs p))) (Addr (rf_noMint (tp_refs p))))
         = Inr (key_addresses t ! 1)
     \<and> take 2 (drop 2 (key_addresses t)) = [ea_userYesAta e, ea_userNoAta e]"

lemma vault_leg_here:
  assumes "interactWithVault W disc (vault_args (tp_refs p) (tp_user p) (tp_userKassAta p)
      (ea_userYesAta e) (ea_userNoAta e)) = Inr t"
  shows "vault_leg W p e t \<and> ti_data t = disc"
  using interactWithVault_shape [OF assms] by (auto simp: vault_leg_def)

lemma splitTokens_leg:
  assumes "splitTokens W (vault_args (tp_refs p) (tp_user p) (tp_userKassAta p)
      (ea_userYesAta e) (ea_userNoAta e)) amount = Inr t"
  shows "vault_leg W p e t \<and> ti_data t = DISC_splitTokens @ u64LE amount"
  using assms vault_leg_here by (simp add: splitTokens_def)

lemma mergeTokens_leg:
  assumes "mergeTokens W (vault_args (tp_refs p) (tp_user p) (tp_userKassAta p)
      (ea_userYesAta e) (ea_userNoAta e)) amount = Inr t"
  shows "vault_leg W p e t \<and> ti_data t = DISC_mergeTokens @ u64LE amount"
  using assms vault_leg_here by (simp add: mergeTokens_def)

lemma ammSwap_leg:
  assumes "ammSwap W \<lparr>swa_payer = tp_user p, swa_baseMint = Addr (rf_yesMint (tp_refs p)),
      swa_quoteMint = Addr (rf_noMint (tp_refs p)), swa_swapType = dir, swa_inputAmount = x,
      swa_outputAmountMin = Some m, swa_userBase = Some (Addr (ea_userYesAta e)),
      swa_userQuote = Some (Addr (ea_userNoAta e))\<rparr> = Inr t"
  shows "swap_leg W p e t \<and> ti_data t = DISC_swap @ u8 (swap_code dir) @ u64LE x @ u64LE m"
  using ammSwap_shape [OF assms, where y = "ea_userYesAta e" and n = "ea_userNoAta e"]
  by (auto simp: swap_leg_def or_zero_def)

lemma trade_atas:
  assumes "tp_userYesAta p = None" "tp_userNoAta p = None"
    "ensureConditionalAtasInstructions W (tp_refs p) (tp_user p) payer inc = Inr e"
    "userConditionalAtas W (tp_refs p) (tp_user p) (tp_userYesAta p) (tp_userNoAta p) = Inr yn"
  shows "yn = (ea_userYesAta e, ea_userNoAta e)"
  using default_atas assms by (metis prod.collapse)

text \<open>
  Buying, selling and redeeming use the same accounts, in the right direction. With the
  default token accounts, the flows return the accounts that
  \<open>ensureConditionalAtasInstructions\<close> creates. A buy splits the whole KASS amount into the two
  conditional tokens and swaps the same amount of the unwanted one for the wanted one; a sell
  swaps in the opposite direction and then merges pairs back; a redeem sends one vault
  instruction. Every leg names the market's own accounts and only the trader signs.
\<close>

theorem trade_flows_agree:
  assumes "tp_userYesAta p = None" "tp_userNoAta p = None"
    and "ensureConditionalAtasInstructions W (tp_refs p) (tp_user p) payer inc = Inr e"
    and "buyInstructions W p kassAmount = Inr (buy, yn1)"
    and "sellInstructions W p swapAmount mergeAmount = Inr (sell, yn2)"
    and "redeemInstructions W p = Inr (red, yn3)"
  shows "{yn1, yn2, yn3} = {(ea_userYesAta e, ea_userNoAta e)}
    \<and> map ti_data buy = [DISC_splitTokens @ u64LE kassAmount,
        DISC_swap @ u8 (swap_code (if tp_outcome p = OYes then Buy else Sell))
          @ u64LE kassAmount @ u64LE (or_zero (tp_outputAmountMin p))]
    \<and> map ti_data sell = [DISC_swap @ u8 (swap_code (if tp_outcome p = OYes then Sell else Buy))
          @ u64LE swapAmount @ u64LE (or_zero (tp_outputAmountMin p)),
        DISC_mergeTokens @ u64LE mergeAmount]
    \<and> map ti_data red = [DISC_redeemTokens]
    \<and> list_all (vault_leg W p e) [buy ! 0, sell ! 1, red ! 0]
    \<and> list_all (swap_leg W p e) [buy ! 1, sell ! 0]"
proof -
  note atas = trade_atas [OF assms(1-3)]
  from assms(4) obtain split swap where b: "buy = [split, swap]" "yn1 = (ea_userYesAta e, ea_userNoAta e)"
    "vault_leg W p e split \<and> ti_data split = DISC_splitTokens @ u64LE kassAmount"
    "swap_leg W p e swap \<and> ti_data swap = DISC_swap @ u8 (swap_code (if tp_outcome p = OYes then Buy else Sell))
      @ u64LE kassAmount @ u64LE (or_zero (tp_outputAmountMin p))"
    by (auto simp: buyInstructions_def Let_def rbind_Inr_iff dest!: atas splitTokens_leg ammSwap_leg)
  from assms(5) obtain swap2 merge where s: "sell = [swap2, merge]" "yn2 = (ea_userYesAta e, ea_userNoAta e)"
    "vault_leg W p e merge \<and> ti_data merge = DISC_mergeTokens @ u64LE mergeAmount"
    "swap_leg W p e swap2 \<and> ti_data swap2 = DISC_swap @ u8 (swap_code (if tp_outcome p = OYes then Sell else Buy))
      @ u64LE swapAmount @ u64LE (or_zero (tp_outputAmountMin p))"
    by (auto simp: sellInstructions_def Let_def rbind_Inr_iff dest!: atas mergeTokens_leg ammSwap_leg)
  from assms(6) obtain redeem where r: "red = [redeem]" "yn3 = (ea_userYesAta e, ea_userNoAta e)"
    "vault_leg W p e redeem \<and> ti_data redeem = DISC_redeemTokens"
    by (auto simp: redeemInstructions_def Let_def rbind_Inr_iff redeemTokens_def
        dest!: atas vault_leg_here)
  show ?thesis using b s r by simp
qed


theorem trade_flows_agree_witness:
  "\<exists>buy y n. buyInstructions sample_web3 sample_trade 1000 = Inr (buy, y, n)
     \<and> ti_data (buy ! 1) = DISC_swap @ u8 0 @ u64LE 1000 @ u64LE 9"
proof -
  have ok: "trade_addresses_parse sample_web3 sample_trade"
    by (simp add: trade_addresses_parse_def sample_addr)
  obtain e where e: "ensureConditionalAtasInstructions sample_web3 (tp_refs sample_trade) (tp_user sample_trade) None True = Inr e"
    using is_ok_ensure [OF sample_pda_total sample_addr, of None "tp_refs sample_trade" "tp_user sample_trade" True]
    by (auto simp: is_ok_iff)
  obtain b y n s yn2 r yn3 where t: "buyInstructions sample_web3 sample_trade 1000 = Inr (b, y, n)"
    "sellInstructions sample_web3 sample_trade 300 200 = Inr (s, yn2)"
    "redeemInstructions sample_web3 sample_trade = Inr (r, yn3)"
    using trade_returns [OF sample_pda_total ok] by (simp add: is_ok_iff) (metis surj_pair)
  have n: "tp_userYesAta sample_trade = None" "tp_userNoAta sample_trade = None"
    by (simp_all add: sample_trade_def)
  show ?thesis
    using trade_flows_agree [OF n e t] t(1)
    by (auto simp: sample_trade_def or_zero_def map_eq_Cons_conv)
qed

lemma create_step_D:
  assumes "create_step W p i = Inr s"
  shows "cas_outcomeIndex s = i
    \<and> rmap pda_address (mkt_market W (cap_oracle p) i (cap_programId p)) = Inr (cas_market s)
    \<and> (\<exists>a. createMarket W a = Inr (cas_instruction s) \<and> mcm_outcomeIndex a = i
        \<and> mcm_seedAmount a = cap_seedAmount p \<and> mcm_oracle a = cap_oracle p
        \<and> mcm_programId a = cap_programId p \<and> mcm_creator a = cap_creator p)"
  using assms
  by (clarsimp simp: create_step_def rbind_Inr_iff)
    (rule exI, rule conjI, assumption, simp)

lemma mkt_derive_some: "mkt_derive W seeds (Some (market_program_or W p)) = mkt_derive W seeds p"
  by (cases p) (simp_all add: mkt_derive_def market_program_or_def)

lemma createMarket_shape:
  assumes "createMarket W a = Inr t"
  shows "\<exists>o1 m. addr W (mcm_oracle a) = Inr o1
    \<and> mkt_market W (mcm_oracle a) (mcm_outcomeIndex a) (mcm_programId a) = Inr m
    \<and> take 3 (drop 1 (key_addresses t)) = [o1, pda_address m] @ take 1 (drop 3 (key_addresses t))
    \<and> ti_data t = u8 (mix_code MIx_CreateMarket) @ u64LE (mcm_seedAmount a) @ u8 (mcm_outcomeIndex a)"
  using assms
  by (clarsimp simp: createMarket_def flow_opens key_addresses_def mkt_market_def mkt_derive_some)


lemma create_step_shape:
  assumes o1: "addr W (cap_oracle p) = Inr orc" and s: "create_step W p (int i) = Inr s"
  shows "cas_outcomeIndex s = int i
      \<and> rmap pda_address (mkt_pda_of W (cap_programId p) (MMarket orc (int i))) = Inr (cas_market s)
      \<and> take 2 (drop 1 (key_addresses (cas_instruction s))) = [orc, cas_market s]
      \<and> ti_data (cas_instruction s) = u8 (mix_code MIx_CreateMarket) @ u64LE (cap_seedAmount p) @ u8 (int i)"
proof -
  obtain a where a: "createMarket W a = Inr (cas_instruction s)" "mcm_outcomeIndex a = int i"
    "mcm_seedAmount a = cap_seedAmount p" "mcm_oracle a = cap_oracle p" "mcm_programId a = cap_programId p"
    using create_step_D [OF s] by blast
  obtain o2 m where m: "addr W (cap_oracle p) = Inr o2"
    "mkt_market W (cap_oracle p) (int i) (cap_programId p) = Inr m"
    "take 3 (drop 1 (key_addresses (cas_instruction s)))
      = [o2, pda_address m] @ take 1 (drop 3 (key_addresses (cas_instruction s)))"
    "ti_data (cas_instruction s) = u8 (mix_code MIx_CreateMarket) @ u64LE (cap_seedAmount p) @ u8 (int i)"
    using createMarket_shape [OF a(1)] unfolding a by blast
  have "take 2 (take 3 (drop 1 (key_addresses (cas_instruction s)))) = [o2, pda_address m]"
    using m(3) by simp
  then have "take 2 (drop 1 (key_addresses (cas_instruction s))) = [o2, pda_address m]" by simp
  then show ?thesis
    using create_step_D [OF s] m o1 by (simp add: mkt_market_def pubkeyBytes_def)
qed

lemma create_all_steps:
  assumes "createAllOutcomeMarkets W p = Inr steps"
  shows "int (length steps) = cap_optionsCount p
    \<and> (\<forall>i<length steps. create_step W p (int i) = Inr (steps ! i))"
proof -
  have False: "\<not> cap_optionsCount p < 1"
    using assms by (auto simp: createAllOutcomeMarkets_def)
  have m: "map (\<lambda>i. create_step W p (int i)) [0..<nat (cap_optionsCount p)] = map Inr steps"
    using assms False by (simp add: createAllOutcomeMarkets_def collect_Inr_iff)
  then have l: "length steps = nat (cap_optionsCount p)" by (metis length_map length_upt minus_nat.diff_0)
  have "create_step W p (int i) = Inr (steps ! i)" if "i < length steps" for i
    using arg_cong [OF m, of "\<lambda>xs. xs ! i"] that l by simp
  then show ?thesis using l False by simp
qed

lemma create_all_distinct:
  assumes W: "web3_ok W" and o1: "addr W (cap_oracle p) = Inr orc"
    and r: "createAllOutcomeMarkets W p = Inr steps" and c: "cap_optionsCount p \<le> 256"
  shows "distinct (map (\<lambda>s. concat (mkt_seeds W (MMarket orc (cas_outcomeIndex s)))) steps)"
proof -
  note ok = create_all_steps [OF r]
  have idx: "cas_outcomeIndex (steps ! i) = int i" if "i < length steps" for i
    using ok create_step_shape [OF o1] that by blast
  have "i = j" if ij: "i < length steps" "j < length steps"
    and eq: "concat (mkt_seeds W (MMarket orc (int i))) = concat (mkt_seeds W (MMarket orc (int j)))" for i j
  proof -
    have "unsigned_range 8 (int i)" "unsigned_range 8 (int j)"
      using ij ok c by (auto simp: unsigned_range_def)
    then show "i = j" using mkt_preimage_inj [OF W _ _ eq] by simp
  qed
  then show ?thesis by (auto simp: distinct_conv_nth idx)
qed

text \<open>
  One market per outcome. \<open>createAllOutcomeMarkets\<close> refuses an oracle without options, and
  otherwise returns as many steps as there are options, in order: step \<open>i\<close> is a well-formed
  \<open>create_market\<close> of outcome \<open>i\<close> under the given oracle, with the given seed stake, its market
  is the account that the instruction creates, and (an oracle has at most 255 options) no two
  steps hash the same seeds.
\<close>

theorem create_all_covers_every_outcome:
  assumes W: "web3_ok W" and o1: "addr W (cap_oracle p) = Inr orc"
    and r: "createAllOutcomeMarkets W p = rs"
  shows "(cap_optionsCount p < 1 \<longrightarrow> \<not> is_ok rs)
    \<and> (\<forall>steps. rs = Inr steps \<longrightarrow> int (length steps) = cap_optionsCount p
      \<and> (\<forall>i<length steps. cas_outcomeIndex (steps ! i) = int i
          \<and> rmap pda_address (mkt_pda_of W (cap_programId p) (MMarket orc (int i))) = Inr (cas_market (steps ! i))
          \<and> take 2 (drop 1 (key_addresses (cas_instruction (steps ! i)))) = [orc, cas_market (steps ! i)]
          \<and> ti_data (cas_instruction (steps ! i))
              = u8 (mix_code MIx_CreateMarket) @ u64LE (cap_seedAmount p) @ u8 (int i))
      \<and> (cap_optionsCount p \<le> 256 \<longrightarrow>
          distinct (map (\<lambda>s. concat (mkt_seeds W (MMarket orc (cas_outcomeIndex s)))) steps)))"
proof -
  have "\<not> is_ok rs" if "cap_optionsCount p < 1" using r that by (auto simp: createAllOutcomeMarkets_def)
  moreover have "createAllOutcomeMarkets W p = Inr steps" if "rs = Inr steps" for steps using r that by simp
  ultimately show ?thesis
    using create_all_steps create_step_shape [OF o1] create_all_distinct [OF W o1] by blast
qed

theorem create_all_covers_every_outcome_witness:
  "\<exists>steps. createAllOutcomeMarkets sample_web3 sample_create_all = Inr steps
     \<and> map cas_outcomeIndex steps = [0, 1, 2]"
proof -
  obtain steps where s: "createAllOutcomeMarkets sample_web3 sample_create_all = Inr steps"
    using create_all_returns [OF sample_pda_total sample_addr sample_addr sample_addr sample_addr, of sample_create_all]
    by (auto simp: is_ok_iff sample_create_all_def)
  have l: "length steps = 3" and i: "\<forall>i<length steps. cas_outcomeIndex (steps ! i) = int i"
    using create_all_covers_every_outcome [OF sample_web3_ok _ s, of 4]
    by (simp_all add: sample_create_all_def)
  have "map cas_outcomeIndex steps = map int [0..<3]"
    by (rule nth_equalityI) (use l i in simp_all)
  then show ?thesis using s by (simp add: upt_rec)
qed

text \<open>
  The flows return. When every address given to them parses and a bump is found for each
  derivation, composing a market, its staged bring-up, the token accounts of a wallet, the
  three trades and the per-outcome creation all return: no path of theirs throws for another
  reason.
\<close>

theorem market_flows_return:
  assumes "pda_total W"
    and "is_ok (addr W (cmp_market c))" "is_ok (addr W (cmp_oracle c))"
      "is_ok (addr W (cmp_kassMint c))" "is_ok (addr W (cmp_payer c))"
    and "trade_addresses_parse W t" "\<forall>q. payer = Some q \<longrightarrow> is_ok (addr W q)"
    and "is_ok (addr W (cap_oracle a))" "is_ok (addr W (cap_creator a))"
      "is_ok (addr W (cap_kassMint a))" "is_ok (addr W (cap_creatorKassAta a))" "1 \<le> cap_optionsCount a"
  shows "is_ok (composeMarketInstructions W c) \<and> is_ok (buildActivateSequence W c)
    \<and> is_ok (ensureConditionalAtasInstructions W (tp_refs t) (tp_user t) payer inc)
    \<and> is_ok (buyInstructions W t x) \<and> is_ok (sellInstructions W t y z) \<and> is_ok (redeemInstructions W t)
    \<and> is_ok (createAllOutcomeMarkets W a)"
proof (intro conjI)
  have "is_ok (addr W (tp_user t))" using assms(6) by (simp add: trade_addresses_parse_def)
  then show "is_ok (ensureConditionalAtasInstructions W (tp_refs t) (tp_user t) payer inc)"
    using is_ok_ensure [OF assms(1)] assms(7) by blast
  show "is_ok (composeMarketInstructions W c)" by (rule compose_returns [OF assms(1-5)])
  show "is_ok (buildActivateSequence W c)" by (rule activate_sequence_returns [OF assms(1-5)])
  show "is_ok (createAllOutcomeMarkets W a)" by (rule create_all_returns [OF assms(1,8-12)])
qed (use trade_returns [OF assms(1,6)] in blast)+

theorem market_flows_return_witness:
  "is_ok (buildActivateSequence sample_web3 sample_compose)
    \<and> is_ok (createAllOutcomeMarkets sample_web3 sample_create_all)"
  using market_flows_return [OF sample_pda_total sample_addr sample_addr sample_addr sample_addr,
      of sample_trade None sample_create_all sample_compose]
  by (simp add: trade_addresses_parse_def sample_addr sample_create_all_def)

end
