(* ===== verification/Market_Trading.thy ===== *)
theory Market_Trading
  imports Market_Flows Challenge_Amm "HOL-Library.Signed_Division"
begin

text \<open>
  Quoting and trading on a market's pool: the reserves decoder of the SDK
  (\<open>sdks/markets/ts/src/metadao/accounts.ts\<close>), the app's trade actions
  (\<open>app/src/market/data/actions/trade.ts\<close>) and the add-liquidity flow
  (\<open>flows/addLiquidity.ts\<close>, \<open>actions/addLiquidity.ts\<close>). A bigint quotient is \<open>sdiv\<close> where an
  operand may be negative; the float arithmetic rounds after each operation (JS_Number).
\<close>

section \<open>Reserves (metadao/accounts.ts)\<close>

record amm_reserves =
  ar_base :: int
  ar_quote :: int

definition decodeAmmReserves :: "bytes \<Rightarrow> amm_reserves option res" where
  "decodeAmmReserves data =
     (if length data < 123 + 8 then Inr None
      else (case disc_loop data AMM_ACCOUNT_DISCRIMINATOR of
          Inl e \<Rightarrow> Inr None
        | Inr _ \<Rightarrow>
            rbind (get_le data 115 8) (\<lambda>base.
            rbind (get_le data 123 8) (\<lambda>quote.
              Inr (Some \<lparr>ar_base = base, ar_quote = quote\<rparr>)))))"

section \<open>Quotes (trade.ts)\<close>

definition TRADE_COMPUTE_UNITS :: nat where
  "TRADE_COMPUTE_UNITS = 400000"

definition AMM_FEE_BPS :: int where
  "AMM_FEE_BPS = 100"

definition DEFAULT_SLIPPAGE_BPS :: real where
  "DEFAULT_SLIPPAGE_BPS = 100"

definition constantProductOut :: "int \<Rightarrow> int \<Rightarrow> int \<Rightarrow> int" where
  "constantProductOut amountIn inReserve outReserve =
     (if amountIn \<le> 0 \<or> inReserve \<le> 0 \<or> outReserve \<le> 0 then 0
      else amountIn * outReserve div (inReserve + amountIn))"

definition ammSwapOut :: "int \<Rightarrow> int \<Rightarrow> int \<Rightarrow> int" where
  "ammSwapOut amountIn inReserve outReserve =
     (if amountIn \<le> 0 \<or> inReserve \<le> 0 \<or> outReserve \<le> 0 then 0
      else (let inAfterFee = amountIn * (10000 - AMM_FEE_BPS) div 10000 in
        constantProductOut inAfterFee inReserve outReserve))"

definition js_trunc :: "real \<Rightarrow> int" where
  "js_trunc x = (if 0 \<le> x then \<lfloor>x\<rfloor> else \<lceil>x\<rceil>)"

definition minOutFromSlippage :: "int \<Rightarrow> real \<Rightarrow> int" where
  "minOutFromSlippage estimateOut slippageBps =
     (if estimateOut \<le> 0 then 0
      else (let bps = min (max (js_trunc slippageBps) 0) 10000 in
        estimateOut * (10000 - bps) div 10000))"

definition reservePair :: "amm_reserves \<Rightarrow> bool \<Rightarrow> int \<times> int" where
  "reservePair reserves inputIsQuote =
     (if inputIsQuote then (ar_quote reserves, ar_base reserves)
      else (ar_base reserves, ar_quote reserves))"

definition previewBuy :: "amm_reserves option \<Rightarrow> outcome \<Rightarrow> int \<Rightarrow> real \<Rightarrow> int \<times> int" where
  "previewBuy reserves oc kassAmount slippageBps =
     (case reserves of
        None \<Rightarrow> (kassAmount, 0)
      | Some r \<Rightarrow>
          if kassAmount \<le> 0 then (kassAmount, 0)
          else (let (inReserve, outReserve) = reservePair r (oc = OYes);
                    swapOut = ammSwapOut kassAmount inReserve outReserve
                in (kassAmount + swapOut, minOutFromSlippage swapOut slippageBps)))"

text \<open>\<open>BigInt(x)\<close> of a number throws unless it is an integer.\<close>

definition bigInt :: "real \<Rightarrow> int res" where
  "bigInt x = (if x = of_int \<lfloor>x\<rfloor> then Inr \<lfloor>x\<rfloor> else Inl RangeErr)"

definition optimalUnwindSwap :: "int \<Rightarrow> int \<Rightarrow> int \<Rightarrow> int res" where
  "optimalUnwindSwap held inReserve outReserve =
     (if held \<le> 1 then Inr 0
      else if inReserve \<le> 0 \<or> outReserve \<le> 0 then Inr (held div 2)
      else (let h = Number held;
                linear = fl (fl (Number inReserve + Number outReserve) - h);
                disc = fl (fl (linear * linear) + fl (fl (4 * h) * Number inReserve));
                s = fl (fl (- linear + fl (sqrt (max disc 0))) / 2);
                clamped = min (max (of_int \<lfloor>s\<rfloor>) 1) (fl (h - 1))
            in bigInt clamped))"

text \<open>The clamped curve impact of a swap, shared by the buy and the sell preview.\<close>

definition curve_impact :: "int \<Rightarrow> int \<Rightarrow> int \<Rightarrow> real" where
  "curve_impact amount inReserve outReserve =
     (let noFeeOut = constantProductOut amount inReserve outReserve in
      if noFeeOut \<le> 0 then 0
      else (let spot = fl (Number outReserve / Number inReserve);
                effective = fl (Number noFeeOut / Number amount)
            in if spot > 0 then min (max (fl (1 - fl (effective / spot))) 0) 1 else 0))"

definition buyPriceImpact :: "amm_reserves option \<Rightarrow> outcome \<Rightarrow> int \<Rightarrow> real" where
  "buyPriceImpact reserves oc kassAmount =
     (case reserves of
        None \<Rightarrow> 0
      | Some r \<Rightarrow>
          if kassAmount \<le> 0 then 0
          else (let (inReserve, outReserve) = reservePair r (oc = OYes) in
            if inReserve \<le> 0 \<or> outReserve \<le> 0 then 0
            else curve_impact kassAmount inReserve outReserve))"

definition sellPriceImpact :: "amm_reserves option \<Rightarrow> outcome \<Rightarrow> int \<Rightarrow> real res" where
  "sellPriceImpact reserves oc positionAmount =
     (case reserves of
        None \<Rightarrow> Inr 0
      | Some r \<Rightarrow>
          if positionAmount \<le> 1 then Inr 0
          else (let (inReserve, outReserve) = reservePair r (\<not> oc = OYes) in
            if inReserve \<le> 0 \<or> outReserve \<le> 0 then Inr 0
            else rbind (optimalUnwindSwap positionAmount inReserve outReserve) (\<lambda>swapAmount.
              if swapAmount \<le> 0 then Inr 0
              else Inr (curve_impact swapAmount inReserve outReserve))))"

section \<open>Trade actions (trade.ts)\<close>

record 'a trade_common =
  tc_refs :: "'a market_refs"
  tc_user :: "'a address_input"
  tc_outcome :: outcome
  tc_userKassAta :: "'a address_input"
  tc_reserves :: "amm_reserves option"
  tc_slippageBps :: "real option"

definition slippage_or :: "real option \<Rightarrow> real" where
  "slippage_or s = (case s of None \<Rightarrow> DEFAULT_SLIPPAGE_BPS | Some b \<Rightarrow> b)"

text \<open>The parameters that both actions hand to the SDK flow: the ensured accounts are threaded.\<close>

definition flow_params ::
  "'a trade_common \<Rightarrow> 'a \<Rightarrow> 'a \<Rightarrow> 'a ensured_atas \<Rightarrow> int \<Rightarrow> 'a trade_params" where
  "flow_params p user kassAta e outputAmountMin =
     \<lparr>tp_refs = tc_refs p, tp_user = Addr user, tp_outcome = tc_outcome p,
       tp_userKassAta = Addr kassAta, tp_userYesAta = Some (Addr (ea_userYesAta e)),
       tp_userNoAta = Some (Addr (ea_userNoAta e)), tp_outputAmountMin = Some outputAmountMin\<rparr>"

definition buildBuyIxs ::
  "'a web3 \<Rightarrow> 'a tx_lib \<Rightarrow> 'a trade_common \<Rightarrow> int \<Rightarrow> 'a tx_instruction list res" where
  "buildBuyIxs W T p kassAmount =
     rbind (toAddress W ''Trader'' (tc_user p)) (\<lambda>user.
     if kassAmount \<le> 0 then Inl (ValidationErr ''Amount must be greater than zero.'')
     else (let outputAmountMin = snd (previewBuy (tc_reserves p) (tc_outcome p) kassAmount
              (slippage_or (tc_slippageBps p))) in
     rbind (ensureConditionalAtasInstructions W (tc_refs p) (Addr user) None False) (\<lambda>ensure.
     rbind (toAddress W ''KASS ATA'' (tc_userKassAta p)) (\<lambda>kassAta.
     rbind (buyInstructions W (flow_params p user kassAta ensure outputAmountMin) kassAmount)
       (\<lambda>(instructions, yes, no).
     Inr (tl_limit T TRADE_COMPUTE_UNITS # ea_instructions ensure @ instructions))))))"

text \<open>The amounts of a sell: what is swapped, what is merged and the floor of the swap.\<close>

definition sell_amounts :: "'a trade_common \<Rightarrow> int \<Rightarrow> (int \<times> int \<times> int) res" where
  "sell_amounts p positionAmount =
     (if positionAmount \<le> 0 then Inl (ValidationErr ''Amount must be greater than zero.'')
      else case tc_reserves p of
        None \<Rightarrow> Inl (ValidationErr ''Live pool reserves are required to sell'')
      | Some r \<Rightarrow>
          (let (inReserve, outReserve) = reservePair r (\<not> tc_outcome p = OYes) in
           rbind (optimalUnwindSwap positionAmount inReserve outReserve) (\<lambda>swapAmount.
           if swapAmount \<le> 0 then Inl (ValidationErr ''Position is too small to unwind.'')
           else (let estOut = ammSwapOut swapAmount inReserve outReserve;
                     outputAmountMin = minOutFromSlippage estOut (slippage_or (tc_slippageBps p));
                     remainder = positionAmount - swapAmount;
                     mergeAmount = (if remainder < outputAmountMin then remainder else outputAmountMin)
             in if mergeAmount \<le> 0 then Inl (ValidationErr ''Position is too small to unwind.'')
                else Inr (swapAmount, mergeAmount, outputAmountMin)))))"

definition buildSellIxs ::
  "'a web3 \<Rightarrow> 'a tx_lib \<Rightarrow> 'a trade_common \<Rightarrow> int \<Rightarrow> 'a tx_instruction list res" where
  "buildSellIxs W T p positionAmount =
     rbind (toAddress W ''Trader'' (tc_user p)) (\<lambda>user.
     rbind (sell_amounts p positionAmount) (\<lambda>(swapAmount, mergeAmount, outputAmountMin).
     rbind (ensureConditionalAtasInstructions W (tc_refs p) (Addr user) None False) (\<lambda>ensure.
     rbind (toAddress W ''KASS ATA'' (tc_userKassAta p)) (\<lambda>kassAta.
     rbind (sellInstructions W (flow_params p user kassAta ensure outputAmountMin) swapAmount mergeAmount)
       (\<lambda>(instructions, yes, no).
     Inr (tl_limit T TRADE_COMPUTE_UNITS # ea_instructions ensure @ instructions))))))"

section \<open>Adding liquidity (flows/addLiquidity.ts, actions/addLiquidity.ts)\<close>

record liquidity_hints =
  lh_quoteAmount :: int
  lh_maxBaseAmount :: int
  lh_minLpTokens :: int
  lh_expectedLp :: int

definition liquidity_hints_of :: "int \<Rightarrow> int \<Rightarrow> int \<Rightarrow> int \<Rightarrow> int option \<Rightarrow> liquidity_hints" where
  "liquidity_hints_of amount baseReserve quoteReserve lpSupply slippage =
     (let slippageBps = (case slippage of None \<Rightarrow> 100 | Some s \<Rightarrow> s);
          q = (if baseReserve = 0 then amount
               else min amount (amount * quoteReserve sdiv baseReserve) - 2);
          quoteAmount = (if q < 0 then 0 else q);
          expectedLp = (if quoteReserve > 0 then quoteAmount * lpSupply sdiv quoteReserve else 0);
          floor = expectedLp * (10000 - slippageBps) sdiv 10000;
          minLpTokens = (if floor > 0 then floor else 1)
      in \<lparr>lh_quoteAmount = quoteAmount, lh_maxBaseAmount = amount, lh_minLpTokens = minLpTokens,
          lh_expectedLp = expectedLp\<rparr>)"

definition addLiquidityInstructions ::
  "'a web3 \<Rightarrow> 'a market_refs \<Rightarrow> 'a address_input \<Rightarrow> int \<Rightarrow> int \<Rightarrow> int \<Rightarrow> int \<Rightarrow> int option
    \<Rightarrow> ('a tx_instruction list \<times> liquidity_hints) res" where
  "addLiquidityInstructions W refs depositor amount baseReserve quoteReserve lpSupply slippageBps =
     (let h = liquidity_hints_of amount baseReserve quoteReserve lpSupply slippageBps in
     rbind (ensureConditionalAtasInstructions W refs depositor None True) (\<lambda>atas.
     rbind (addLiquidity W \<lparr>mal_market = Addr (rf_market refs), mal_oracle = Addr (rf_oracle refs),
       mal_depositor = depositor, mal_kassMint = Addr (rf_kassMint refs),
       mal_question = Addr (rf_question refs), mal_vault = Addr (rf_vault refs),
       mal_vaultUnderlyingAta = Addr (rf_vaultUnderlyingAta refs),
       mal_yesMint = Addr (rf_yesMint refs), mal_noMint = Addr (rf_noMint refs),
       mal_amm = Addr (rf_amm refs), mal_lpMint = Addr (rf_lpMint refs),
       mal_ammVaultBase = Addr (rf_ammVaultBase refs), mal_ammVaultQuote = Addr (rf_ammVaultQuote refs),
       mal_cvEventAuthority = Addr (rf_cvEventAuthority refs),
       mal_ammEventAuthority = Addr (rf_ammEventAuthority refs),
       mal_amount = amount, mal_quoteAmount = lh_quoteAmount h,
       mal_maxBaseAmount = lh_maxBaseAmount h, mal_minLpTokens = lh_minLpTokens h,
       mal_cvProgram = Some (Addr (conditionalVault_id W)), mal_ammProgram = Some (Addr (ammV04_id W)),
       mal_tokenProgram = None, mal_systemProgram = None, mal_programId = None\<rparr>) (\<lambda>ix.
     Inr (ea_instructions atas @ [ix], h))))"

definition ADD_LIQUIDITY_COMPUTE_UNITS :: nat where
  "ADD_LIQUIDITY_COMPUTE_UNITS = 600000"

definition buildAddLiquidityIxs ::
  "'a web3 \<Rightarrow> 'a tx_lib \<Rightarrow> 'a address_input \<Rightarrow> 'a mmarket_account \<Rightarrow> amm_reserves
    \<Rightarrow> 'a address_input \<Rightarrow> int \<Rightarrow> int option \<Rightarrow> ('a tx_instruction list \<times> liquidity_hints) res" where
  "buildAddLiquidityIxs W T marketIn marketAccount reserves contributor amount slippageBps =
     (if amount \<le> 0 then Inl (ValidationErr ''Amount must be greater than zero.'')
      else rbind (toAddress W ''Market'' marketIn) (\<lambda>mkt.
      rbind (marketRefsFromAccount W (Addr mkt) marketAccount) (\<lambda>refs.
      rbind (toAddress W ''Depositor'' contributor) (\<lambda>depositor.
      rbind (addLiquidityInstructions W refs (Addr depositor) amount (ar_base reserves)
        (ar_quote reserves) (mm_lpTotal marketAccount) slippageBps) (\<lambda>(ixs, h).
      Inr (tl_limit T ADD_LIQUIDITY_COMPUTE_UNITS # ixs, h))))))"

section \<open>Facts: quotes\<close>

lemma div_mono_cross:
  fixes a b c d :: int
  assumes "0 < b" "0 < d" "a * d \<le> c * b"
  shows "a div b \<le> c div d"
proof -
  have "b * d * (a div b) \<le> d * a" using assms(1,2) by (simp add: mult.commute mult.left_commute)
      (metis div_mult_mod_eq le_add_same_cancel1 mult.commute mult_left_mono order_less_imp_le pos_mod_sign)
  then have "b * (d * (a div b)) \<le> b * c" using assms(3) by (simp add: mult.commute mult.left_commute)
  then have "d * (a div b) \<le> c" using assms(1) by simp
  then have "d * (a div b) div d \<le> c div d" using assms(2) by (rule zdiv_mono1)
  then show ?thesis using assms(2) by simp
qed

lemma constantProductOut_bounds:
  assumes "0 < y"
  shows "0 \<le> constantProductOut a x y" "constantProductOut a x y < y"
    "x * y \<le> (x + max a 0) * (y - constantProductOut a x y)"
proof -
  have main: "0 \<le> q \<and> q < y \<and> x * y \<le> (x + a) * (y - q)" if "0 < a" "0 < x" "q = a * y div (x + a)" for q
  proof -
    have d: "(x + a) * q \<le> a * y" using that by (simp add: that(3))
      (metis div_mult_mod_eq add_pos_pos le_add_same_cancel1 mult.commute pos_mod_sign)
    have "(x + a) * q < (x + a) * y" using d that assms by (smt (verit) mult_strict_right_mono)
    then have "q < y" using that by simp
    moreover have "0 \<le> q" using that assms by (simp add: pos_imp_zdiv_nonneg_iff)
    moreover have "x * y \<le> (x + a) * (y - q)" using d by (simp add: algebra_simps)
    ultimately show ?thesis by blast
  qed
  show "0 \<le> constantProductOut a x y" "constantProductOut a x y < y"
    "x * y \<le> (x + max a 0) * (y - constantProductOut a x y)"
    using main [of "constantProductOut a x y"] assms
    by (auto simp: constantProductOut_def max_def mult_nonneg_nonneg)
qed

lemma constantProductOut_mono:
  assumes "a \<le> b"
  shows "constantProductOut a x y \<le> constantProductOut b x y"
proof (cases "0 < a \<and> 0 < x \<and> 0 < y")
  case True
  have "a * y * (x + b) \<le> b * y * (x + a)"
    using True assms by (simp add: algebra_simps)
  then have "a * y div (x + a) \<le> b * y div (x + b)" using True assms by (intro div_mono_cross) auto
  then show ?thesis using True assms by (simp add: constantProductOut_def)
next
  case False
  then have "constantProductOut a x y = 0" by (auto simp: constantProductOut_def)
  moreover have "0 \<le> constantProductOut b x y"
    using constantProductOut_bounds(1) [of y b x] by (cases "0 < y") (auto simp: constantProductOut_def)
  ultimately show ?thesis by simp
qed

definition after_fee :: "int \<Rightarrow> int" where
  "after_fee a = (if 0 < a then a * (10000 - AMM_FEE_BPS) div 10000 else 0)"

lemma after_fee_bounds:
  assumes "0 \<le> a"
  shows "0 \<le> after_fee a" "10000 * after_fee a \<le> 9900 * a"
proof -
  have k: "10000 * (k div 10000) \<le> k" "0 \<le> k \<Longrightarrow> 0 \<le> k div 10000" for k :: int
    using pos_mod_sign [of 10000 k] mult_div_mod_eq [of 10000 k]
    by (simp_all only: pos_imp_zdiv_nonneg_iff zero_less_numeral)
  define k where "k = a * 9900"
  have e: "after_fee a = (if 0 < a then k div 10000 else 0)"
    by (simp only: after_fee_def AMM_FEE_BPS_def k_def) simp
  have "0 \<le> k" using assms by (simp only: k_def mult_nonneg_nonneg)
  then show "0 \<le> after_fee a" unfolding e using k(2) by simp
  show "10000 * after_fee a \<le> 9900 * a"
  proof (cases "0 < a")
    case True
    then have "10000 * after_fee a \<le> k" unfolding e using k(1) by simp
    then show ?thesis by (simp only: k_def mult.commute)
  next
    case False
    then show ?thesis unfolding e using assms by simp
  qed
qed

lemma after_fee_mono: "a \<le> b \<Longrightarrow> after_fee a \<le> after_fee b"
  using after_fee_bounds(1) [of b]
  by (auto simp: after_fee_def AMM_FEE_BPS_def intro!: zdiv_mono1)

lemma ammSwapOut_eq: "ammSwapOut a x y = constantProductOut (after_fee a) x y"
  by (simp add: ammSwapOut_def after_fee_def constantProductOut_def Let_def)

lemma ammSwapOut_exact:
  assumes "0 < a" "0 < x" "0 < y"
  shows "ammSwapOut a x y * (10000 * x + 9900 * a) \<le> 9900 * a * y"
proof -
  define f where "f = after_fee a"
  define out where "out = ammSwapOut a x y"
  have f: "0 \<le> f" "10000 * f \<le> 9900 * a" using after_fee_bounds assms(1) by (simp_all add: f_def)
  have o: "out = constantProductOut f x y" by (simp add: out_def f_def ammSwapOut_eq)
  have "out * (x + f) \<le> f * y"
  proof (cases "f = 0")
    case True
    then show ?thesis by (simp add: o constantProductOut_def)
  next
    case False
    then have p: "out = f * y div (x + f)" "0 < x + f"
      using assms f by (simp_all add: o constantProductOut_def)
    then show ?thesis
      by (metis div_mult_mod_eq le_add_same_cancel1 pos_mod_sign)
  qed
  then have e: "out * x \<le> f * (y - out)" by (simp add: algebra_simps)
  have "0 \<le> y - out"
    using constantProductOut_bounds(2) [OF assms(3), of f x] by (simp add: o)
  then have "10000 * f * (y - out) \<le> 9900 * a * (y - out)" by (rule mult_right_mono [OF f(2)])
  moreover have "10000 * (out * x) \<le> 10000 * f * (y - out)"
    using mult_left_mono [OF e, of 10000] by (simp add: mult.assoc)
  ultimately have "10000 * (out * x) \<le> 9900 * a * (y - out)" by (rule order_trans [rotated])
  then show ?thesis by (simp add: out_def algebra_simps)
qed

lemma minOut_bounds:
  assumes "0 \<le> est"
  shows "0 \<le> minOutFromSlippage est s" "minOutFromSlippage est s \<le> est"
proof -
  define b where "b = min (max (js_trunc s) 0) 10000"
  have b: "0 \<le> b" "b \<le> 10000" by (auto simp: b_def)
  have "est * (10000 - b) \<le> est * 10000" using b assms by (intro mult_left_mono) auto
  then have "est * (10000 - b) div 10000 \<le> est * 10000 div 10000" by (rule zdiv_mono1) simp
  moreover have "0 \<le> est * (10000 - b) div 10000" using b assms by (simp add: pos_imp_zdiv_nonneg_iff)
  moreover have "minOutFromSlippage est s = (if est \<le> 0 then 0 else est * (10000 - b) div 10000)"
    by (simp only: minOutFromSlippage_def b_def Let_def)
  ultimately show "0 \<le> minOutFromSlippage est s" "minOutFromSlippage est s \<le> est"
    using assms by simp_all
qed

section \<open>Facts: the unwind swap\<close>

text \<open>Rounding an integer gives an integer, so \<open>BigInt\<close> of a clamped value never throws.\<close>

lemma fl_of_int_int: "0 \<le> n \<Longrightarrow> fl (of_int n) \<in> \<int>"
proof (cases "n \<le> 2 ^ 53")
  case True
  then show "0 \<le> n \<Longrightarrow> ?thesis" by (simp add: fl_int_exact)
next
  case False
  then have "real_of_int (2 ^ 53) < real_of_int n" by (simp only: of_int_less_iff)
  then have "log 2 (2 ^ 53) \<le> log 2 n" by (intro log_mono) simp_all
  moreover have "log 2 (2 ^ 53) = 53" using log_of_power_eq [of "2 ^ 53" 2 53] by simp
  ultimately have "53 \<le> log 2 (real_of_int n)" by linarith
  then have "53 \<le> \<lfloor>log 2 (real_of_int n)\<rfloor>" by (simp add: le_floor_iff)
  then have "2 powi (\<lfloor>log 2 (real_of_int n)\<rfloor> - 52) = (of_int (2 ^ nat (\<lfloor>log 2 (real_of_int n)\<rfloor> - 52)) :: real)"
    by (simp add: power_int_def)
  moreover have "0 < n" using False by simp
  ultimately have "fl (of_int n) = of_int (rne (of_int n / ulp (of_int n)) * 2 ^ nat (\<lfloor>log 2 (real_of_int n)\<rfloor> - 52))"
    by (simp add: fl_def ulp_def)
  then show ?thesis by (metis Ints_of_int)
qed

lemma bigInt_of_int [simp]: "bigInt (of_int n) = Inr n"
  by (simp add: bigInt_def)

lemma Number_le_fl_pred: "2 \<le> held \<Longrightarrow> 1 \<le> fl (Number held - 1) \<and> fl (Number held - 1) \<in> \<int>"
proof -
  assume h: "2 \<le> held"
  then have "Number 2 \<le> Number held" by (intro Number_mono) simp_all
  then have n: "2 \<le> Number held" by (simp add: Number_exact)
  have "Number held \<in> \<int>" using h fl_of_int_int by (simp add: Number_def)
  then obtain m where m: "Number held = of_int m" by (auto elim: Ints_cases)
  have "fl 1 \<le> fl (Number held - 1)" using n by (intro fl_mono) simp_all
  moreover have "fl (of_int (m - 1)) \<in> \<int>" using n m by (intro fl_of_int_int) simp
  ultimately show ?thesis using fl_int_exact [of 1] m by simp
qed

lemma optimalUnwindSwap_ok:
  assumes "2 \<le> held"
  shows "\<exists>s. optimalUnwindSwap held x y = Inr s \<and> 1 \<le> s \<and> real_of_int s \<le> max (held / 2) (fl (Number held - 1))"
proof (cases "x \<le> 0 \<or> y \<le> 0")
  case True
  then show ?thesis using assms by (auto simp: optimalUnwindSwap_def le_max_iff_disj)
next
  case False
  obtain m where m: "fl (Number held - 1) = real_of_int m" "1 \<le> m"
    using Number_le_fl_pred [OF assms] by (auto elim!: Ints_cases)
  obtain z where z: "optimalUnwindSwap held x y = bigInt (min (max (of_int z) 1) (of_int m))"
    using False assms m by (simp add: optimalUnwindSwap_def Let_def)
  have "min (max (of_int z) 1) (of_int m) = real_of_int (min (max z 1) m)" by simp
  then have "optimalUnwindSwap held x y = Inr (min (max z 1) m)" using z by (simp only: bigInt_of_int)
  then show ?thesis using m by auto
qed

lemma optimalUnwindSwap_range:
  assumes "2 \<le> held" "held \<le> 2 ^ 53"
  shows "\<exists>s. optimalUnwindSwap held x y = Inr s \<and> 1 \<le> s \<and> s \<le> held - 1"
proof -
  have "Number held - 1 = of_int (held - 1)" using assms by (simp add: Number_exact)
  then have "fl (Number held - 1) = of_int (held - 1)" using assms fl_int_exact [of "held - 1"] by simp
  moreover obtain s where "optimalUnwindSwap held x y = Inr s" "1 \<le> s"
    "real_of_int s \<le> max (held / 2) (fl (Number held - 1))"
    using optimalUnwindSwap_ok [OF assms(1)] by blast
  moreover have "real_of_int held / 2 \<le> of_int (held - 1)" using assms(1) by simp
  ultimately show ?thesis by (intro exI [of _ s]) auto
qed


lemma sell_amounts_D:
  assumes "sell_amounts p position = Inr (sw, mg, mn)"
  shows "\<exists>r. tc_reserves p = Some r \<and> 0 < position
    \<and> optimalUnwindSwap position (fst (reservePair r (\<not> tc_outcome p = OYes)))
        (snd (reservePair r (\<not> tc_outcome p = OYes))) = Inr sw
    \<and> mn = minOutFromSlippage (ammSwapOut sw (fst (reservePair r (\<not> tc_outcome p = OYes)))
        (snd (reservePair r (\<not> tc_outcome p = OYes)))) (slippage_or (tc_slippageBps p))
    \<and> mg = min (position - sw) mn \<and> 0 < sw \<and> 0 < mg"
  using assms
  by (auto simp: sell_amounts_def rbind_Inr_iff Let_def case_prod_beta min_def not_le
      split: option.splits if_splits)

text \<open>A buy splits and swaps the same amount, with the floor of the preview.\<close>

lemma buildBuyIxs_legs:
  assumes "buildBuyIxs W T p amount = Inr ixs"
  shows "\<exists>user k e split swap. 0 < amount \<and> addr W (tc_user p) = Inr user
    \<and> ensureConditionalAtasInstructions W (tc_refs p) (Addr user) None False = Inr e
    \<and> ixs = tl_limit T 400000 # ea_instructions e @ [split, swap]
    \<and> vault_leg W (flow_params p user k e (snd (previewBuy (tc_reserves p) (tc_outcome p) amount
        (slippage_or (tc_slippageBps p))))) e split
    \<and> ti_data split = DISC_splitTokens @ u64LE amount
    \<and> ti_data swap = DISC_swap @ u8 (swap_code (if tc_outcome p = OYes then Buy else Sell))
        @ u64LE amount @ u64LE (snd (previewBuy (tc_reserves p) (tc_outcome p) amount
        (slippage_or (tc_slippageBps p))))"
proof -
  define m where "m = snd (previewBuy (tc_reserves p) (tc_outcome p) amount (slippage_or (tc_slippageBps p)))"
  from assms obtain user e k ins y n where
    u: "toAddress W ''Trader'' (tc_user p) = Inr user" and a: "0 < amount"
    and e: "ensureConditionalAtasInstructions W (tc_refs p) (Addr user) None False = Inr e"
    and f: "buyInstructions W (flow_params p user k e m) amount = Inr (ins, y, n)"
    and ixs: "ixs = tl_limit T 400000 # ea_instructions e @ ins"
    by (auto simp: buildBuyIxs_def Let_def rbind_Inr_iff TRADE_COMPUTE_UNITS_def m_def split: if_splits)
  have "addr W (tc_user p) = Inr user"
    using u by (cases "tc_user p") (auto simp: toAddress_def lift_web_def split: option.splits)
  let ?q = "flow_params p user k e m"
  from f obtain split swap where ins: "ins = [split, swap]"
    and sl: "swap_leg W ?q e swap \<and> ti_data swap = DISC_swap
        @ u8 (swap_code (if tc_outcome p = OYes then Buy else Sell)) @ u64LE amount @ u64LE m"
    and ml: "vault_leg W ?q e split \<and> ti_data split = DISC_splitTokens @ u64LE amount"
    using ammSwap_leg [of W ?q "if tc_outcome p = OYes then Buy else Sell" amount m e]
      splitTokens_leg [of W ?q e amount]
    by (auto simp: buyInstructions_def Let_def rbind_Inr_iff userConditionalAtas_def flow_params_def)
  then show ?thesis
    using \<open>addr W (tc_user p) = Inr user\<close> a e ixs unfolding m_def by blast
qed

text \<open>The SDK's reserves decoder and the app's pool decoder read the same reserves.\<close>

lemma reserves_of_pool:
  assumes "decodeAmmV04 W data = Inr a"
  shows "decodeAmmReserves data = Inr (Some \<lparr>ar_base = av_baseAmount a, ar_quote = av_quoteAmount a\<rparr>)"
proof -
  have l: "AMM_MIN_LEN \<le> length data" "disc_loop data AMM_ACCOUNT_DISCRIMINATOR = Inr ()"
    "get_le data 115 8 = Inr (av_baseAmount a)" "get_le data 123 8 = Inr (av_quoteAmount a)"
    using assms by (auto simp: decodeAmmV04_def rbind_Inr_iff split: if_splits)
  then show ?thesis by (simp add: decodeAmmReserves_def AMM_MIN_LEN_def)
qed

section \<open>Properties\<close>

text \<open>
  The quoted swap is one the pool can pay. For positive amounts and reserves the output the
  app quotes is non-negative and less than the output reserve, never decreases the product of
  the reserves, grows with the input, and is at most the exact output of a swap whose input
  pays the 1% fee (compared by cross-multiplication); the slippage floor sent with the
  transaction never exceeds the quote, whatever tolerance is given.
\<close>

theorem swap_quote_bounds:
  assumes "0 < amount" "0 < inRes" "0 < outRes"
  shows "0 \<le> ammSwapOut amount inRes outRes \<and> ammSwapOut amount inRes outRes < outRes
    \<and> inRes * outRes \<le> (inRes + amount) * (outRes - ammSwapOut amount inRes outRes)
    \<and> ammSwapOut amount inRes outRes * (10000 * inRes + 9900 * amount) \<le> 9900 * amount * outRes
    \<and> (\<forall>b\<ge>amount. ammSwapOut amount inRes outRes \<le> ammSwapOut b inRes outRes)
    \<and> ammSwapOut amount inRes outRes \<le> constantProductOut amount inRes outRes
    \<and> (\<forall>s. 0 \<le> minOutFromSlippage (ammSwapOut amount inRes outRes) s
        \<and> minOutFromSlippage (ammSwapOut amount inRes outRes) s \<le> ammSwapOut amount inRes outRes)"
proof -
  let ?f = "after_fee amount"
  note b = constantProductOut_bounds [OF assms(3), where a = ?f and x = inRes]
  have f: "0 \<le> ?f" "?f \<le> amount" using after_fee_bounds [of amount] assms(1) by simp_all
  have "max ?f 0 = ?f" using f by simp
  then have p: "inRes * outRes \<le> (inRes + ?f) * (outRes - ammSwapOut amount inRes outRes)"
    using b(3) by (simp add: ammSwapOut_eq)
  have "(inRes + ?f) * (outRes - ammSwapOut amount inRes outRes)
      \<le> (inRes + amount) * (outRes - ammSwapOut amount inRes outRes)"
    using f b(2) by (intro mult_right_mono) (simp_all add: ammSwapOut_eq)
  with p have "inRes * outRes \<le> (inRes + amount) * (outRes - ammSwapOut amount inRes outRes)" by simp
  moreover have "0 \<le> ammSwapOut amount inRes outRes" using b(1) by (simp add: ammSwapOut_eq)
  ultimately show ?thesis
    using b(2) ammSwapOut_exact [OF assms] minOut_bounds f(2) constantProductOut_mono after_fee_mono
    by (simp add: ammSwapOut_eq)
qed

theorem swap_quote_bounds_witness:
  "ammSwapOut 1000 50000 50000 = 970
    \<and> minOutFromSlippage (ammSwapOut 1000 50000 50000) 100 \<le> 970"
proof -
  have q: "ammSwapOut 1000 50000 50000 = 970"
    by (simp add: ammSwapOut_def constantProductOut_def AMM_FEE_BPS_def)
  have "\<forall>s. minOutFromSlippage (ammSwapOut 1000 50000 50000) s \<le> ammSwapOut 1000 50000 50000"
    using swap_quote_bounds [of 1000 50000 50000] by simp
  then have "minOutFromSlippage (ammSwapOut 1000 50000 50000) 100 \<le> ammSwapOut 1000 50000 50000" ..
  then show ?thesis using q by simp
qed

text \<open>
  C11: a sell never spends more than the position. When \<open>buildSellIxs\<close> returns, its last two
  instructions are a swap and a merge in that order, with amounts such that the swapped part is
  positive, the merged part is positive, together they are at most the position (also where the
  float arithmetic of the unwind is inexact), and the merge never asks for more than the swap's
  own floor; it opens with the compute budget and the token accounts, uses exactly those
  accounts, and only the trader signs the two legs.
\<close>

theorem sell_never_overspends:
  assumes "buildSellIxs W T p position = Inr ixs"
  shows "\<exists>user e sw mg mn swap merge.
    addr W (tc_user p) = Inr user
    \<and> ensureConditionalAtasInstructions W (tc_refs p) (Addr user) None False = Inr e
    \<and> ixs = tl_limit T 400000 # ea_instructions e @ [swap, merge]
    \<and> 0 < sw \<and> 0 < mg \<and> sw + mg \<le> position \<and> mg \<le> mn
    \<and> swap_leg W (flow_params p user user e mn) e swap
    \<and> ti_data swap = DISC_swap @ u8 (swap_code (if tc_outcome p = OYes then Sell else Buy))
        @ u64LE sw @ u64LE mn
    \<and> signers merge = [user] \<and> ti_data merge = DISC_mergeTokens @ u64LE mg
    \<and> drop 10 (key_addresses merge) = [ea_userYesAta e, ea_userNoAta e]"
proof -
  from assms obtain user sw mg mn e k ins y n where
    u: "toAddress W ''Trader'' (tc_user p) = Inr user"
    and s: "sell_amounts p position = Inr (sw, mg, mn)"
    and e: "ensureConditionalAtasInstructions W (tc_refs p) (Addr user) None False = Inr e"
    and f: "sellInstructions W (flow_params p user k e mn) sw mg = Inr (ins, y, n)"
    and ixs: "ixs = tl_limit T 400000 # ea_instructions e @ ins"
    by (auto simp: buildSellIxs_def rbind_Inr_iff TRADE_COMPUTE_UNITS_def)
  have a: "addr W (tc_user p) = Inr user"
    using u by (cases "tc_user p") (auto simp: toAddress_def lift_web_def split: option.splits)
  let ?q = "flow_params p user k e mn"
  from f obtain swap merge where ins: "ins = [swap, merge]"
    and sl: "swap_leg W ?q e swap \<and> ti_data swap = DISC_swap
        @ u8 (swap_code (if tc_outcome p = OYes then Sell else Buy)) @ u64LE sw @ u64LE mn"
    and ml: "vault_leg W ?q e merge \<and> ti_data merge = DISC_mergeTokens @ u64LE mg"
    using ammSwap_leg [of W ?q "if tc_outcome p = OYes then Sell else Buy" sw mn e]
      mergeTokens_leg [of W ?q e mg]
    by (auto simp: sellInstructions_def Let_def rbind_Inr_iff userConditionalAtas_def flow_params_def)
  have "drop 2 (drop 8 (key_addresses merge)) = [ea_userYesAta e, ea_userNoAta e]"
    using ml by (simp add: vault_leg_def)
  then have d: "drop 10 (key_addresses merge) = [ea_userYesAta e, ea_userNoAta e]" by simp
  have "swap_leg W (flow_params p user user e mn) e swap" "signers merge = [user]"
    using sl ml by (simp_all add: swap_leg_def vault_leg_def flow_params_def)
  moreover have "0 < sw \<and> 0 < mg \<and> sw + mg \<le> position \<and> mg \<le> mn"
    using sell_amounts_D [OF s] by auto
  moreover have "ixs = tl_limit T 400000 # ea_instructions e @ [swap, merge]"
    using ixs ins by simp
  ultimately show ?thesis using a e sl ml d by blast
qed


lemma fl_numeral: "numeral n \<le> (2 ^ 53 :: int) \<Longrightarrow> fl (numeral n) = numeral n"
  using fl_int_exact [of "numeral n"] by simp

definition sample_sell :: "256 word trade_common" where
  "sample_sell = \<lparr>tc_refs = sample_refs, tc_user = Addr 7, tc_outcome = OYes, tc_userKassAta = Addr 8,
     tc_reserves = Some \<lparr>ar_base = 1000, ar_quote = 1000\<rparr>, tc_slippageBps = None\<rparr>"

lemma sample_sell_fields: "tc_user sample_sell = Addr 7" "tc_userKassAta sample_sell = Addr 8"
  by (simp_all add: sample_sell_def)

lemma sample_unwind: "optimalUnwindSwap 1500 1000 1000 = Inr 1000"
proof -
  have "sqrt 6250000 = (2500 :: real)" using real_sqrt_abs [of 2500] by simp
  then show ?thesis
    by (simp add: optimalUnwindSwap_def Number_def fl_numeral Let_def bigInt_def)
qed

lemma sample_sell_amounts: "sell_amounts sample_sell 1500 = Inr (1000, 492, 492)"
  by (simp add: sell_amounts_def sample_sell_def reservePair_def sample_unwind ammSwapOut_def
      constantProductOut_def AMM_FEE_BPS_def minOutFromSlippage_def slippage_or_def
      DEFAULT_SLIPPAGE_BPS_def js_trunc_def)

theorem sell_never_overspends_witness:
  "\<exists>ixs sw mg. buildSellIxs sample_web3 sample_lib sample_sell 1500 = Inr ixs
     \<and> ti_data (last ixs) = DISC_mergeTokens @ u64LE mg \<and> 0 < mg \<and> sw + mg \<le> 1500 \<and> 0 < sw"
proof -
  obtain user e where u: "toAddress sample_web3 ''Trader'' (tc_user sample_sell) = Inr user"
    "ensureConditionalAtasInstructions sample_web3 (tc_refs sample_sell) (Addr user) None False = Inr e"
    using is_ok_ensure [OF sample_pda_total sample_addr, of None "tc_refs sample_sell" "Addr 7" False]
    by (auto simp: is_ok_iff sample_sell_def toAddress_def)
  have "trade_addresses_parse sample_web3 (flow_params sample_sell user 8 e 492)"
    by (simp add: trade_addresses_parse_def sample_addr)
  then have "is_ok (sellInstructions sample_web3 (flow_params sample_sell user 8 e 492) 1000 492)"
    using trade_returns [OF sample_pda_total] by blast
  then obtain ixs where b: "buildSellIxs sample_web3 sample_lib sample_sell 1500 = Inr ixs"
    using u by (auto simp: buildSellIxs_def sample_sell_amounts sample_sell_fields is_ok_iff toAddress_def)
  from sell_never_overspends [OF b] b show ?thesis by fastforce
qed


lemma sdiv_div: "0 \<le> a \<Longrightarrow> 0 < b \<Longrightarrow> a sdiv b = a div b" for a b :: int
  by (simp add: signed_divide_int_def sgn_if)

lemma quote_hint:
  assumes "0 \<le> amount" "0 < x" "0 < y" "0 \<le> lp"
  shows "lh_quoteAmount (liquidity_hints_of amount x y lp s) = max 0 (min amount (amount * y div x) - 2)"
    "lh_expectedLp (liquidity_hints_of amount x y lp s)
      = lh_quoteAmount (liquidity_hints_of amount x y lp s) * lp div y"
proof -
  have d: "amount * y sdiv x = amount * y div x" using assms by (intro sdiv_div) simp_all
  show q: "lh_quoteAmount (liquidity_hints_of amount x y lp s) = max 0 (min amount (amount * y div x) - 2)"
    using assms(2) by (auto simp: liquidity_hints_of_def Let_def d max_def)
  have "0 \<le> lh_quoteAmount (liquidity_hints_of amount x y lp s)" by (simp add: q)
  then have "lh_quoteAmount (liquidity_hints_of amount x y lp s) * lp sdiv y
      = lh_quoteAmount (liquidity_hints_of amount x y lp s) * lp div y"
    using assms by (intro sdiv_div) simp_all
  then show "lh_expectedLp (liquidity_hints_of amount x y lp s)
      = lh_quoteAmount (liquidity_hints_of amount x y lp s) * lp div y"
    using assms(3) by (simp add: liquidity_hints_of_def Let_def)
qed

lemma base_headroom:
  fixes q :: int
  assumes "0 < x" "0 < y" "0 \<le> q" "q + 2 \<le> amount * y div x"
  shows "q * x div y + 1 \<le> amount"
proof -
  have "(q + 2) * x \<le> amount * y div x * x" using assms by (intro mult_right_mono) simp_all
  also have "\<dots> \<le> amount * y" using assms(1) by (metis div_mult_mod_eq le_add_same_cancel1 pos_mod_sign)
  finally have "q * x < amount * y" using assms(1) by (simp add: algebra_simps)
  show ?thesis
  proof (rule ccontr)
    assume "\<not> ?thesis"
    then have "amount \<le> q * x div y" by simp
    then have "amount * y \<le> q * x div y * y" using assms(2) by (intro mult_right_mono) simp_all
    also have "\<dots> \<le> q * x" using assms(2) by (metis div_mult_mod_eq le_add_same_cancel1 pos_mod_sign)
    finally show False using \<open>q * x < amount * y\<close> by simp
  qed
qed

lemma lp_floor:
  fixes e :: int
  assumes "0 \<le> e" "0 \<le> b" "b \<le> 10000"
  shows "e * (10000 - b) sdiv 10000 \<le> e"
proof -
  have "e * (10000 - b) \<le> e * 10000" using assms by (intro mult_left_mono) simp_all
  then have "e * (10000 - b) div 10000 \<le> e * 10000 div 10000" by (rule zdiv_mono1) simp
  moreover have "e * (10000 - b) sdiv 10000 = e * (10000 - b) div 10000"
    using assms by (intro sdiv_div) simp_all
  ultimately show ?thesis by simp
qed

text \<open>
  adding liquidity never offers more than is deposited. With positive reserves and a
  non-negative LP supply the computed hints satisfy: the quote part is non-negative and at most the deposit, the base that the pool takes
  for it (rounded down, plus the pool's unit of rounding) stays within the cap, which is the
  deposit; the LP floor is at least one and, when it is not one, at most the estimated LP for a
  tolerance of 0 to 10000 bps; the quote part grows with the deposit.
\<close>

theorem liquidity_hints_bounds:
  assumes "0 \<le> amount" "0 < baseRes" "0 < quoteRes" "0 \<le> lpSupply"
    and "\<forall>b. slippage = Some b \<longrightarrow> 0 \<le> b \<and> b \<le> 10000"
    and "h = liquidity_hints_of amount baseRes quoteRes lpSupply slippage"
  shows "0 \<le> lh_quoteAmount h \<and> lh_quoteAmount h \<le> amount \<and> lh_maxBaseAmount h = amount
    \<and> (0 < lh_quoteAmount h \<longrightarrow> lh_quoteAmount h * baseRes div quoteRes + 1 \<le> lh_maxBaseAmount h)
    \<and> 1 \<le> lh_minLpTokens h \<and> lh_minLpTokens h \<le> max 1 (lh_expectedLp h)
    \<and> lh_expectedLp h * quoteRes \<le> lh_quoteAmount h * lpSupply
    \<and> (\<forall>more\<ge>amount. lh_quoteAmount h
        \<le> lh_quoteAmount (liquidity_hints_of more baseRes quoteRes lpSupply slippage))"
proof -
  let ?b = "case slippage of None \<Rightarrow> 100 | Some s \<Rightarrow> s"
  note q = quote_hint [OF assms(1-4), of slippage, folded assms(6)]
  have b: "0 \<le> ?b" "?b \<le> 10000" using assms(5) by (auto split: option.splits)
  have q0: "0 \<le> lh_quoteAmount h" by (simp add: q(1))
  have qa: "lh_quoteAmount h \<le> amount" using assms(1) by (simp add: q(1))
  have cap: "lh_maxBaseAmount h = amount" by (simp add: assms(6) liquidity_hints_of_def Let_def)
  have "lh_quoteAmount h * baseRes div quoteRes + 1 \<le> amount" if "0 < lh_quoteAmount h"
    using that q0 by (intro base_headroom assms) (auto simp: q(1) max_def min_def split: if_splits)
  moreover have e0: "0 \<le> lh_expectedLp h"
    unfolding q(2) using q0 assms(3,4) by (simp add: pos_imp_zdiv_nonneg_iff)
  moreover have "lh_minLpTokens h
      = (if lh_expectedLp h * (10000 - ?b) sdiv 10000 > 0 then lh_expectedLp h * (10000 - ?b) sdiv 10000 else 1)"
    by (simp add: assms(6) liquidity_hints_of_def Let_def)
  moreover have "lh_expectedLp h * quoteRes \<le> lh_quoteAmount h * lpSupply"
    using assms(3) by (simp add: q(2)) (metis div_mult_mod_eq le_add_same_cancel1 pos_mod_sign)
  moreover have "lh_quoteAmount h \<le> lh_quoteAmount (liquidity_hints_of more baseRes quoteRes lpSupply slippage)"
    if "amount \<le> more" for more
  proof -
    have "amount * quoteRes div baseRes \<le> more * quoteRes div baseRes"
      using that assms by (intro zdiv_mono1 mult_right_mono) simp_all
    moreover have "lh_quoteAmount (liquidity_hints_of more baseRes quoteRes lpSupply slippage)
        = max 0 (min more (more * quoteRes div baseRes) - 2)"
      using that assms(1) by (intro quote_hint(1) assms) simp
    ultimately show ?thesis unfolding q(1) using that by auto
  qed
  ultimately show ?thesis using q0 qa cap lp_floor [OF e0 b] by auto
qed

theorem liquidity_hints_bounds_witness:
  "lh_quoteAmount (liquidity_hints_of 1000 4000 2000 8000 None) = 498
    \<and> lh_minLpTokens (liquidity_hints_of 1000 4000 2000 8000 None) \<le> 1992"
proof -
  have h: "lh_quoteAmount (liquidity_hints_of 1000 4000 2000 8000 None) = 498"
    "lh_expectedLp (liquidity_hints_of 1000 4000 2000 8000 None) = 1992"
    by (simp_all add: liquidity_hints_of_def)
  have "lh_minLpTokens (liquidity_hints_of 1000 4000 2000 8000 None)
      \<le> max 1 (lh_expectedLp (liquidity_hints_of 1000 4000 2000 8000 None))"
    using liquidity_hints_bounds [of 1000 4000 2000 8000 None] by simp
  then show ?thesis using h by simp
qed

end
