(* ===== verification/Market_View.thy ===== *)
theory Market_View
  imports Market_Trading Runner_Bridge
begin

text \<open>
  Amounts and presentation of markets: parsing and printing KASS amounts
  (\<open>app/src/market/data/amount.ts\<close>, \<open>lib/marketView.ts\<close>), the funding gates and the LP basis the
  pages show, and beside them the gates of \<open>cancel\<close> and \<open>activate\<close> and the share of \<open>claim_lp\<close>
  of the market program (\<open>programs/markets/src/processor\<close>). A JavaScript string is a list of
  code units.
\<close>

section \<open>Decimal text\<close>

definition is_digit :: "int \<Rightarrow> bool" where
  "is_digit c \<longleftrightarrow> 48 \<le> c \<and> c \<le> 57"

text \<open>\<open>toString\<close> of a non-negative bigint and \<open>BigInt\<close> of a string of digits.\<close>

fun dec_nat :: "nat \<Rightarrow> utext" where
  "dec_nat n = (if n < 10 then [48 + int n] else dec_nat (n div 10) @ [48 + int (n mod 10)])"

declare dec_nat.simps [simp del]

definition dec_value :: "utext \<Rightarrow> int" where
  "dec_value ds = foldl (\<lambda>acc c. 10 * acc + (c - 48)) 0 ds"

definition js_trim :: "utext \<Rightarrow> utext" where
  "js_trim s = rev (dropWhile js_space (rev (dropWhile js_space s)))"

section \<open>Amounts (amount.ts)\<close>

definition KASS_DECIMALS :: nat where
  "KASS_DECIMALS = 9"

definition KASS_SCALE :: int where
  "KASS_SCALE = 10 ^ KASS_DECIMALS"

text \<open>The match of the regular expression: the whole part and the part after the point.\<close>

definition decimal_match :: "utext \<Rightarrow> (utext \<times> utext option) option" where
  "decimal_match t =
     (let whole = takeWhile is_digit t; tl_part = dropWhile is_digit t in
      case tl_part of
        [] \<Rightarrow> Some (whole, None)
      | c # fr \<Rightarrow> if c = 46 \<and> list_all is_digit fr then Some (whole, Some fr) else None)"

definition padEnd :: "utext \<Rightarrow> nat \<Rightarrow> int \<Rightarrow> utext" where
  "padEnd s n c = s @ replicate (n - length s) c"

definition parseKassAmount :: "utext \<Rightarrow> string + int" where
  "parseKassAmount raw =
     (let t = js_trim raw in
      if t = [] then Inl ''Enter a KASS amount.''
      else case decimal_match t of
        None \<Rightarrow> Inl ''Amount must be a number, e.g. 1.5.''
      | Some (m1, m2) \<Rightarrow>
          (let fr = (case m2 of None \<Rightarrow> [] | Some f \<Rightarrow> f) in
           if m1 = [] \<and> fr = [] then Inl ''Amount must be a number, e.g. 1.5.''
           else (let whole = (if m1 = [] then [48] else m1) in
             if KASS_DECIMALS < length fr then Inl ''KASS supports at most 9 decimal places.''
             else (let value = dec_value whole * KASS_SCALE + dec_value (padEnd fr KASS_DECIMALS 48)
               in if value \<le> 0 then Inl ''Amount must be greater than zero.'' else Inr value))))"

definition balanceGateError :: "int option \<Rightarrow> int option \<Rightarrow> utext \<Rightarrow> utext option" where
  "balanceGateError amount balance asset =
     (case balance of
        None \<Rightarrow> None
      | Some b \<Rightarrow>
          if b = 0 then Some (codes ''You have no '' @ asset @ codes '' '' @ [8212]
            @ codes '' you need '' @ asset @ codes '' to participate.'')
          else (case amount of
              Some a \<Rightarrow> if a > b then Some (codes ''Amount exceeds your '' @ asset @ codes '' balance.'') else None
            | None \<Rightarrow> None))"

section \<open>Printing (marketView.ts)\<close>

text \<open>A comma before every position that has a positive multiple of three digits after it.\<close>

fun group_digits :: "utext \<Rightarrow> utext" where
  "group_digits [] = []"
| "group_digits (d # ds) =
     (if ds \<noteq> [] \<and> length ds mod 3 = 0 then d # 44 # group_digits ds else d # group_digits ds)"

definition padStart :: "utext \<Rightarrow> nat \<Rightarrow> int \<Rightarrow> utext" where
  "padStart s n c = replicate (n - length s) c @ s"

definition strip_zeros :: "utext \<Rightarrow> utext" where
  "strip_zeros s = rev (dropWhile (\<lambda>c. c = 48) (rev s))"

definition formatKass :: "int \<Rightarrow> utext" where
  "formatKass amount =
     (let neg = amount < 0;
          ab = (if neg then - amount else amount);
          scale = 10 ^ KASS_DECIMALS;
          whole = ab div scale;
          fr = ab mod scale;
          wholeStr = group_digits (dec_nat (nat whole));
          out = (if fr > 0
                 then wholeStr @ [46] @ strip_zeros (padStart (dec_nat (nat fr)) KASS_DECIMALS 48)
                 else wholeStr)
      in if neg then 45 # out else out)"

definition formatProbability :: "real option \<Rightarrow> utext" where
  "formatProbability p =
     (case p of
        None \<Rightarrow> [8212]
      | Some p \<Rightarrow>
          (let r = \<lfloor>fl (p * 100) + 1 / 2\<rfloor> in
           (if r < 0 then 45 # dec_nat (nat (- r)) else dec_nat (nat r)) @ codes ''%''))"

definition truncateMiddle :: "utext \<Rightarrow> nat \<Rightarrow> nat \<Rightarrow> utext" where
  "truncateMiddle value hd_len tl_len =
     (if length value \<le> hd_len + tl_len + 1 then value
      else take hd_len value @ [8230] @ (if tl_len = 0 then value else drop (length value - tl_len) value))"

section \<open>Status, funding and outcomes (marketView.ts)\<close>

datatype chip_tone = Neutral | Info | Ember | Confirmed_Tone | Muted

definition market_status_of :: "int \<Rightarrow> MarketStatus option" where
  "market_status_of n = find (\<lambda>s. status_code s = n) all_statuses"

definition statusLabel :: "int \<Rightarrow> string" where
  "statusLabel st =
     (case market_status_of st of
        Some MS_Funding \<Rightarrow> ''Funding'' | Some MS_Active \<Rightarrow> ''Active'' | Some MS_Resolved \<Rightarrow> ''Resolved''
      | Some MS_Void \<Rightarrow> ''Void'' | Some MS_Cancelled \<Rightarrow> ''Cancelled'' | None \<Rightarrow> ''Unknown'')"

definition statusTone :: "int \<Rightarrow> chip_tone" where
  "statusTone st =
     (case market_status_of st of
        Some MS_Active \<Rightarrow> Ember | Some MS_Resolved \<Rightarrow> Confirmed_Tone
      | Some MS_Void \<Rightarrow> Muted | Some MS_Cancelled \<Rightarrow> Muted | Some MS_Funding \<Rightarrow> Info | None \<Rightarrow> Neutral)"

record funding_actions =
  fa_canActivate :: bool
  fa_canCancel :: bool

definition fundingActions :: "bool \<Rightarrow> bool \<Rightarrow> funding_actions" where
  "fundingActions funded oracleTerminal =
     \<lparr>fa_canActivate = (funded \<and> \<not> oracleTerminal), fa_canCancel = oracleTerminal\<rparr>"

definition fundingProgress :: "int \<Rightarrow> int \<Rightarrow> real \<times> bool" where
  "fundingProgress totalContributed minLiquidity =
     (if minLiquidity \<le> 0 then (1, True)
      else if totalContributed \<ge> minLiquidity then (1, True)
      else (max 0 (min 1 (fl (Number totalContributed / Number minLiquidity))), False))"

definition impliedYesProbability :: "amm_reserves option \<Rightarrow> real option" where
  "impliedYesProbability reserves =
     (case reserves of
        None \<Rightarrow> None
      | Some r \<Rightarrow>
          (let tot = ar_base r + ar_quote r in
           if tot \<le> 0 then None else Some (fl (Number (ar_quote r) / Number tot))))"

definition poolValueKass :: "amm_reserves option \<Rightarrow> int option" where
  "poolValueKass reserves =
     (case reserves of
        None \<Rightarrow> None
      | Some r \<Rightarrow>
          (let s = ar_base r + ar_quote r in
           if s \<le> 0 then None else Some (2 * ar_base r * ar_quote r sdiv s)))"

definition contributorLp :: "'a mcontribution_account \<Rightarrow> 'b mmarket_account \<Rightarrow> int" where
  "contributorLp c m =
     (let fundingLp = (if mm_activationContributed m > 0
          then mcn_amount c * mm_activationLp m sdiv mm_activationContributed m else 0)
      in fundingLp + mcn_lateLp c)"

definition market_phaseLabel :: "int \<Rightarrow> string" where
  "market_phaseLabel phase =
     (case phase_of phase of
        Some Ph_Created \<Rightarrow> ''Created'' | Some Ph_Proposal \<Rightarrow> ''Proposal''
      | Some Ph_FactProposal \<Rightarrow> ''Fact proposal'' | Some Ph_FactVoting \<Rightarrow> ''Fact voting''
      | Some Ph_AiClaim \<Rightarrow> ''AI claim'' | Some Ph_Challenge \<Rightarrow> ''Challenged''
      | Some Ph_FinalRecompute \<Rightarrow> ''Final recompute'' | Some Ph_Resolved \<Rightarrow> ''Resolved''
      | Some Ph_InvalidDeadend \<Rightarrow> ''Dead end'' | None \<Rightarrow> ''Unknown'')"

definition resolutionText :: "market_oracle option \<Rightarrow> string" where
  "resolutionText orc =
     (case orc of
        None \<Rightarrow> ''Oracle unavailable''
      | Some x \<Rightarrow>
          if mo_phase x = 7 then
            (if mo_resolvedOption x = 0 then ''YES won''
             else if mo_resolvedOption x = 1 then ''NO won'' else ''Resolved'')
          else if mo_phase x = 8 then ''Voided''
          else market_phaseLabel (mo_phase x))"

definition outcomeResolutionText :: "market_oracle option \<Rightarrow> int \<Rightarrow> string" where
  "outcomeResolutionText orc outcomeIndex =
     (case orc of
        None \<Rightarrow> ''Oracle unavailable''
      | Some x \<Rightarrow>
          if mo_phase x = 7 then (if mo_resolvedOption x = outcomeIndex then ''YES won'' else ''NO won'')
          else if mo_phase x = 8 then ''Voided''
          else market_phaseLabel (mo_phase x))"

definition outcomeLabel :: "nat \<Rightarrow> utext option \<Rightarrow> utext" where
  "outcomeLabel index label =
     (case map_option js_trim label of
        Some t \<Rightarrow> if t \<noteq> [] then t else codes ''Outcome '' @ dec_nat index
      | None \<Rightarrow> codes ''Outcome '' @ dec_nat index)"

datatype detail_view = DvLoading | DvError | DvReady | DvEmpty

definition detailView :: "string option \<Rightarrow> string option \<Rightarrow> bool \<Rightarrow> bool \<Rightarrow> detail_view" where
  "detailView pubkey dataPubkey loading err =
     (if dataPubkey \<noteq> None \<and> dataPubkey = pubkey then DvReady
      else if loading then DvLoading
      else if err then DvError
      else DvEmpty)"

section \<open>The program (cancel.rs, activate.rs, claim_lp.rs)\<close>

definition kass_terminal :: "int \<Rightarrow> bool" where
  "kass_terminal phase \<longleftrightarrow> phase = 7 \<or> phase = 8"

definition cancel_gate :: "int \<Rightarrow> int \<Rightarrow> MarketError + unit" where
  "cancel_gate st phase =
     (if st \<noteq> status_code MS_Funding then Inl ME_NotFunding
      else if \<not> kass_terminal phase then Inl ME_OracleNotTerminal
      else Inr ())"

definition activate_gate :: "int \<Rightarrow> int \<Rightarrow> int \<Rightarrow> int \<Rightarrow> MarketError + unit" where
  "activate_gate st total_contributed min_liquidity phase =
     (if st \<noteq> status_code MS_Funding then Inl ME_NotFunding
      else if total_contributed < min_liquidity then Inl ME_NotFunded
      else if kass_terminal phase then Inl ME_OracleResolved
      else Inr ())"

text \<open>\<open>checked_mul\<close> of u64 operands in u128, and the checks of the share arithmetic.\<close>

definition u128_of :: "int \<Rightarrow> fault + int" where
  "u128_of x = (if x < 2 ^ 128 then Inr x else Inl ArithmeticOverflow)"

definition u64_of :: "int \<Rightarrow> fault + int" where
  "u64_of x = (if x < 2 ^ 64 then Inr x else Inl ArithmeticOverflow)"

definition pro_rata_share :: "int \<Rightarrow> int \<Rightarrow> int \<Rightarrow> fault + int" where
  "pro_rata_share lp_total amount total_contributed =
     (if total_contributed = 0 then Inl InvalidAccount
      else fbind (u128_of (lp_total * amount)) (\<lambda>scaled. u64_of (scaled div total_contributed)))"

definition gross_lp_share :: "'b mmarket_account \<Rightarrow> 'a mcontribution_account \<Rightarrow> fault + int" where
  "gross_lp_share m c =
     fbind (if mm_activationContributed m = 0 then Inr 0
            else fbind (u128_of (mm_activationLp m * mcn_amount c))
              (\<lambda>x. Inr (x div mm_activationContributed m))) (\<lambda>activation.
     fbind (u128_of (activation + mcn_lateLp c)) (\<lambda>gross.
     if mm_grossLpTotal m = 0 then Inl InvalidAccount
     else fbind (u128_of (mm_lpTotal m * gross)) (\<lambda>x. u64_of (x div mm_grossLpTotal m))))"

definition claim_share :: "'b mmarket_account \<Rightarrow> 'a mcontribution_account \<Rightarrow> int \<Rightarrow> fault + int" where
  "claim_share m c vault_amount =
     (if mm_openContributions m = 1 then Inr vault_amount
      else if mm_grossLpTotal m = mm_activationLp m
      then pro_rata_share (mm_lpTotal m) (mcn_amount c) (mm_totalContributed m)
      else gross_lp_share m c)"

section \<open>Decimal text and amounts\<close>

lemma dec_value_append: "dec_value (xs @ ys) = dec_value xs * 10 ^ length ys + dec_value ys"
proof (induction ys rule: rev_induct)
  case Nil
  then show ?case by (simp add: dec_value_def)
next
  case (snoc y ys)
  have "dec_value (zs @ [y]) = 10 * dec_value zs + (y - 48)" for zs by (simp add: dec_value_def)
  from this [of "xs @ ys"] this [of ys] snoc show ?case by (simp add: algebra_simps)
qed

lemma dec_value_Nil [simp]: "dec_value [] = 0"
  by (simp add: dec_value_def)

lemma dec_value_single [simp]: "dec_value [c] = c - 48"
  by (simp add: dec_value_def)

lemma dec_value_zeros [simp]: "dec_value (replicate k 48) = 0"
proof (induction k)
  case (Suc k)
  then show ?case using dec_value_append [of "[48]" "replicate k 48"] by simp
qed simp

lemma dec_nat_small: "n < 10 \<Longrightarrow> dec_nat n = [48 + int n]"
  by (subst dec_nat.simps) simp

lemma dec_nat_step: "\<not> n < 10 \<Longrightarrow> dec_nat n = dec_nat (n div 10) @ [48 + int (n mod 10)]"
  by (subst dec_nat.simps) simp

lemma dec_value_dec_nat [simp]: "dec_value (dec_nat n) = int n"
proof (induction n rule: dec_nat.induct)
  case (1 n)
  show ?case
  proof (cases "n < 10")
    case False
    have "int n = int (n div 10) * 10 + int (n mod 10)"
      by (metis of_nat_add of_nat_mult of_nat_numeral div_mult_mod_eq)
    then show ?thesis unfolding dec_nat_step [OF False] dec_value_append 1 [OF False] by simp
  qed (simp add: dec_nat_small)
qed

lemma digit_char: "n < 10 \<Longrightarrow> is_digit (48 + int n)"
  by (simp add: is_digit_def)

lemma dec_nat_digits: "list_all is_digit (dec_nat n)"
proof (induction n rule: dec_nat.induct)
  case (1 n)
  show ?case
  proof (cases "n < 10")
    case False
    then show ?thesis using 1 digit_char [of "n mod 10"] by (simp add: dec_nat_step)
  qed (simp add: dec_nat_small digit_char)
qed

lemma dec_nat_ne [simp]: "dec_nat n \<noteq> []"
  by (subst dec_nat.simps) simp

lemma length_dec_nat: "0 < k \<Longrightarrow> length (dec_nat n) \<le> k \<longleftrightarrow> n < 10 ^ k"
proof (induction n arbitrary: k rule: dec_nat.induct)
  case (1 n)
  obtain j where k: "k = Suc j" using 1(2) by (cases k) auto
  show ?case
  proof (cases "n < 10")
    case True
    have "(10::nat) \<le> 10 ^ k" by (simp add: k)
    then show ?thesis using True 1(2) by (subst dec_nat.simps) auto
  next
    case False
    have "n div 10 < 10 ^ j \<longleftrightarrow> n < 10 ^ k" by (simp add: k div_less_iff_less_mult mult.commute)
    moreover have "length (dec_nat (n div 10)) \<le> j \<longleftrightarrow> n div 10 < 10 ^ j"
      using 1(1) [OF False, of j] False by (cases "j = 0") auto
    ultimately show ?thesis using False by (subst dec_nat.simps) (simp add: k)
  qed
qed

lemma digits_no_comma: "list_all is_digit ds \<Longrightarrow> filter (\<lambda>c. c \<noteq> 44) ds = ds"
  by (induction ds) (auto simp: is_digit_def)

lemma group_digits_filter: "list_all is_digit ds \<Longrightarrow> filter (\<lambda>c. c \<noteq> 44) (group_digits ds) = ds"
  by (induction ds) (auto simp: is_digit_def)

lemma group_digits_short: "length ds \<le> 3 \<Longrightarrow> group_digits ds = ds"
proof (induction ds)
  case (Cons d ds)
  then have "ds \<noteq> [] \<Longrightarrow> length ds mod 3 \<noteq> 0" by (cases "length ds") auto
  then show ?case using Cons by auto
qed simp

lemma group_digits_long: "3 < length ds \<Longrightarrow> 44 \<in> set (group_digits ds)"
proof (induction ds)
  case (Cons d ds)
  show ?case
  proof (cases "length ds = 3")
    case True
    then show ?thesis by auto
  next
    case False
    then show ?thesis using Cons by auto
  qed
qed simp

lemma strip_padEnd: "padEnd (strip_zeros s) (length s) 48 = s"
proof -
  have "s = strip_zeros s @ rev (takeWhile (\<lambda>c. c = 48) (rev s))"
    by (simp add: strip_zeros_def flip: rev_append)
  moreover have "rev (takeWhile (\<lambda>c. c = 48) (rev s)) = replicate (length s - length (strip_zeros s)) 48"
  proof (rule replicate_eqI)
    show "length (rev (takeWhile (\<lambda>c. c = 48) (rev s))) = length s - length (strip_zeros s)"
      using calculation by (metis diff_add_inverse length_append)
    show "y = 48" if "y \<in> set (rev (takeWhile (\<lambda>c. c = 48) (rev s)))" for y
      using that by (auto dest: set_takeWhileD)
  qed
  ultimately show ?thesis by (simp add: padEnd_def)
qed

lemma strip_zeros_subset: "set (strip_zeros s) \<subseteq> set s"
  by (auto simp: strip_zeros_def dest: set_dropWhileD)

lemma digit_not_space: "is_digit c \<Longrightarrow> \<not> js_space c"
  by (auto simp: is_digit_def js_space_def)

lemma js_trim_id:
  assumes "s \<noteq> []" "\<not> js_space (hd s)" "\<not> js_space (last s)"
  shows "js_trim s = s"
proof -
  have "dropWhile js_space s = s" using assms by (cases s) auto
  moreover have "dropWhile js_space (rev s) = rev s" using assms by (cases "rev s") (auto simp: last_rev hd_rev)
  ultimately show ?thesis by (simp add: js_trim_def)
qed

lemma decimal_match_plain:
  "list_all is_digit wh \<Longrightarrow> decimal_match wh = Some (wh, None)"
proof -
  assume "list_all is_digit wh"
  then have e: "takeWhile is_digit wh = wh" "dropWhile is_digit wh = []"
    by (auto simp: takeWhile_eq_all_conv list_all_iff)
  show ?thesis unfolding decimal_match_def Let_def e by simp
qed

lemma decimal_match_point:
  assumes "list_all is_digit wh" "list_all is_digit f"
  shows "decimal_match (wh @ 46 # f) = Some (wh, Some f)"
proof -
  have "\<not> is_digit 46" by (simp add: is_digit_def)
  then have "takeWhile is_digit (wh @ 46 # f) = wh" "dropWhile is_digit (wh @ 46 # f) = 46 # f"
    using assms(1) by (auto simp: list_all_iff takeWhile_append dropWhile_append)
  then show ?thesis using assms(2) by (simp add: decimal_match_def Let_def)
qed

lemma decimal_match_chars:
  assumes "decimal_match t = Some m"
  shows "\<forall>c\<in>set t. is_digit c \<or> c = 46"
proof -
  have "set t = set (takeWhile is_digit t) \<union> set (dropWhile is_digit t)"
    by (metis set_append takeWhile_dropWhile_id)
  moreover have "\<forall>c\<in>set (takeWhile is_digit t). is_digit c" by (auto dest: set_takeWhileD)
  moreover have "\<forall>c\<in>set (dropWhile is_digit t). is_digit c \<or> c = 46"
  proof (cases "dropWhile is_digit t")
    case (Cons c fr)
    then have "c = 46" "list_all is_digit fr"
      using assms by (auto simp: decimal_match_def Let_def split: if_splits)
    then show ?thesis unfolding Cons by (auto simp: list_all_iff)
  qed (simp only: list.set, simp)
  ultimately show ?thesis by blast
qed

lemma comma_not_space: "\<not> js_space 44"
  by (simp add: js_space_def)

lemma separated_refused:
  assumes "44 \<in> set s"
  shows "parseKassAmount s = Inl ''Amount must be a number, e.g. 1.5.''"
proof -
  have "44 \<in> set (dropWhile js_space s)"
    using assms takeWhile_dropWhile_id [of js_space s] set_takeWhileD [of 44 js_space s]
    by (metis Un_iff set_append comma_not_space)
  then have "44 \<in> set (dropWhile js_space (rev (dropWhile js_space s)))"
    using takeWhile_dropWhile_id [of js_space "rev (dropWhile js_space s)"]
      set_takeWhileD [of 44 js_space "rev (dropWhile js_space s)"]
    by (metis Un_iff set_append set_rev comma_not_space)
  then have m: "44 \<in> set (js_trim s)" by (simp add: js_trim_def)
  have "decimal_match (js_trim s) = None"
    using decimal_match_chars [of "js_trim s"] m by (cases "decimal_match (js_trim s)") (auto simp: is_digit_def)
  moreover have "js_trim s \<noteq> []" using m by auto
  ultimately show ?thesis by (simp add: parseKassAmount_def Let_def)
qed

text \<open>The two parts of a printed amount.\<close>

lemma fraction_text:
  assumes "0 < f" "f < 10 ^ 9"
  defines "s \<equiv> padStart (dec_nat f) 9 48"
  shows "length s = 9" "list_all is_digit s" "dec_value s = int f" "strip_zeros s \<noteq> []"
    "is_digit (last (strip_zeros s))" "list_all is_digit (strip_zeros s)"
    "length (strip_zeros s) \<le> 9"
proof -
  have l: "length (dec_nat f) \<le> 9" using length_dec_nat [of 9 f] assms(2) by simp
  then show len: "length s = 9" by (simp add: s_def padStart_def)
  show dig: "list_all is_digit s"
    using dec_nat_digits [of f] by (auto simp: s_def padStart_def list_all_iff is_digit_def)
  show val: "dec_value s = int f" by (simp add: s_def padStart_def dec_value_append)
  show ne: "strip_zeros s \<noteq> []"
  proof
    assume "strip_zeros s = []"
    then have "s = replicate 9 48" using strip_padEnd [of s] len by (simp add: padEnd_def)
    then have "dec_value s = 0" by (simp only: dec_value_zeros)
    then show False using val assms(1) by simp
  qed
  show "list_all is_digit (strip_zeros s)"
    using dig strip_zeros_subset [of s] by (auto simp: list_all_iff)
  then show "is_digit (last (strip_zeros s))" using ne by (simp add: list_all_iff)
  show "length (strip_zeros s) \<le> 9"
    using length_dropWhile_le [of "\<lambda>c. c = 48" "rev s"] len by (simp add: strip_zeros_def)
qed

lemma parse_plain:
  assumes "0 < n"
  shows "parseKassAmount (dec_nat n) = Inr (int n * KASS_SCALE)"
proof -
  have "js_trim (dec_nat n) = dec_nat n"
    using dec_nat_digits [of n] by (intro js_trim_id) (auto simp: list_all_iff digit_not_space)
  then show ?thesis
    using assms decimal_match_plain [OF dec_nat_digits [of n]]
    by (simp add: parseKassAmount_def padEnd_def KASS_DECIMALS_def KASS_SCALE_def Let_def)
qed

lemma parse_point:
  assumes "0 < f" "f < 10 ^ 9"
  shows "parseKassAmount (dec_nat n @ 46 # strip_zeros (padStart (dec_nat f) 9 48))
    = Inr (int n * KASS_SCALE + int f)"
proof -
  note s = fraction_text [OF assms]
  let ?z = "strip_zeros (padStart (dec_nat f) 9 48)"
  have "js_trim (dec_nat n @ 46 # ?z) = dec_nat n @ 46 # ?z"
    using dec_nat_digits [of n] s(4,5) by (intro js_trim_id) (auto simp: list_all_iff digit_not_space)
  moreover have "padEnd ?z 9 48 = padStart (dec_nat f) 9 48" using strip_padEnd s(1) by metis
  moreover have "0 < int n * KASS_SCALE + int f" using assms(1) by (simp add: KASS_SCALE_def add_nonneg_pos)
  ultimately show ?thesis
    using s(3,7) decimal_match_point [OF dec_nat_digits [of n] s(6)]
    by (simp add: parseKassAmount_def KASS_DECIMALS_def Let_def)
qed

lemma formatKass_pos:
  assumes "0 < a"
  shows "\<exists>n f. a = int n * KASS_SCALE + int f \<and> f < 10 ^ 9
    \<and> formatKass a = group_digits (dec_nat n)
        @ (if f = 0 then [] else 46 # strip_zeros (padStart (dec_nat f) 9 48))"
proof (intro exI conjI)
  let ?n = "nat (a div KASS_SCALE)" and ?f = "nat (a mod KASS_SCALE)"
  have p: "0 < KASS_SCALE" "KASS_SCALE = 10 ^ 9" by (simp_all add: KASS_SCALE_def KASS_DECIMALS_def)
  have i: "int ?n = a div KASS_SCALE" "int ?f = a mod KASS_SCALE"
    using assms p(1) by (simp_all add: pos_imp_zdiv_nonneg_iff)
  show "a = int ?n * KASS_SCALE + int ?f" unfolding i by simp
  have "a mod KASS_SCALE < 10 ^ 9" using p by (metis pos_mod_bound)
  then show "?f < 10 ^ 9" by (simp add: nat_less_iff)
  have "(0 < a mod KASS_SCALE) = (?f \<noteq> 0)" by linarith
  then show "formatKass a = group_digits (dec_nat ?n)
        @ (if ?f = 0 then [] else 46 # strip_zeros (padStart (dec_nat ?f) 9 48))"
    using assms by (simp add: formatKass_def Let_def KASS_DECIMALS_def p(2))
qed

lemma parse_positive: "parseKassAmount s = Inr v \<Longrightarrow> 0 < v"
  by (auto simp: parseKassAmount_def Let_def split: if_splits option.splits)

text \<open>
  Amounts round trip through the form. For every positive amount the text the app prints,
  without its thousands separators, parses back to exactly that amount, fraction included; with
  them it parses back exactly when the amount is below 1000 KASS and is refused otherwise; and
  whatever text the form accepts is a positive amount.
\<close>

theorem kass_amount_round_trip:
  assumes "0 < a"
  shows "parseKassAmount (filter (\<lambda>c. c \<noteq> 44) (formatKass a)) = Inr a
    \<and> (parseKassAmount (formatKass a) = Inr a \<longleftrightarrow> a < 1000 * KASS_SCALE)
    \<and> (1000 * KASS_SCALE \<le> a
        \<longrightarrow> parseKassAmount (formatKass a) = Inl ''Amount must be a number, e.g. 1.5.'')
    \<and> (\<forall>s v. parseKassAmount s = Inr v \<longrightarrow> 0 < v)"
proof -
  obtain n f where a: "a = int n * KASS_SCALE + int f" and f: "f < 10 ^ 9"
    and t: "formatKass a = group_digits (dec_nat n)
        @ (if f = 0 then [] else 46 # strip_zeros (padStart (dec_nat f) 9 48))"
    using formatKass_pos [OF assms] by blast
  have p: "KASS_SCALE = 10 ^ 9" by (simp add: KASS_SCALE_def KASS_DECIMALS_def)
  have plain: "parseKassAmount (dec_nat n
      @ (if f = 0 then [] else 46 # strip_zeros (padStart (dec_nat f) 9 48))) = Inr a"
    using parse_plain [of n] parse_point [of f n] f assms by (cases "f = 0") (auto simp: a p)
  have "filter (\<lambda>c. c \<noteq> 44) (strip_zeros (padStart (dec_nat f) 9 48))
      = strip_zeros (padStart (dec_nat f) 9 48)" if "f \<noteq> 0"
    using that f by (intro digits_no_comma fraction_text(6)) simp_all
  then have "filter (\<lambda>c. c \<noteq> 44) (formatKass a) = dec_nat n
      @ (if f = 0 then [] else 46 # strip_zeros (padStart (dec_nat f) 9 48))"
    by (simp add: t group_digits_filter dec_nat_digits)
  then have strip: "parseKassAmount (filter (\<lambda>c. c \<noteq> 44) (formatKass a)) = Inr a"
    using plain by simp
  have small: "a < 1000 * KASS_SCALE \<longleftrightarrow> n < 1000" using f by (auto simp: a p)
  have short: "parseKassAmount (formatKass a) = Inr a" if "n < 1000"
    using that plain length_dec_nat [of 3 n] by (simp add: t group_digits_short)
  have long: "parseKassAmount (formatKass a) = Inl ''Amount must be a number, e.g. 1.5.''" if "\<not> n < 1000"
    using that length_dec_nat [of 3 n] separated_refused [of "formatKass a"] group_digits_long [of "dec_nat n"]
    by (simp add: t)
  show ?thesis using strip small short long parse_positive by (cases "n < 1000") auto
qed

theorem kass_amount_round_trip_witness:
  "parseKassAmount (codes ''1234.5'') = Inr 1234500000000"
proof -
  have "dec_nat 1234 = [49, 50, 51, 52]" "dec_nat 500000000 = [53, 48, 48, 48, 48, 48, 48, 48, 48]"
    by (simp_all add: dec_nat_step dec_nat_small)
  then have "filter (\<lambda>c. c \<noteq> 44) (formatKass 1234500000000) = codes ''1234.5''"
    by (simp add: formatKass_def KASS_DECIMALS_def strip_zeros_def padStart_def codes_def)
  then show ?thesis using kass_amount_round_trip [of 1234500000000] by simp
qed

section \<open>Funding gates\<close>

lemma fundingProgress_funded:
  "0 \<le> tot \<Longrightarrow> snd (fundingProgress tot minl) \<longleftrightarrow> minl \<le> tot"
  by (simp add: fundingProgress_def)



section \<open>The LP basis\<close>

lemma sum_floor_le:
  fixes f :: "'x \<Rightarrow> int"
  assumes "0 < d"
  shows "(\<Sum>x\<leftarrow>xs. f x div d) * d \<le> sum_list (map f xs)"
proof (induction xs)
  case (Cons x xs)
  have "f x div d * d \<le> f x" using assms by (metis div_mult_mod_eq le_add_same_cancel1 pos_mod_sign)
  then show ?case using Cons by (simp add: distrib_right)
qed simp

lemma floor_share_le:
  fixes f :: "'x \<Rightarrow> int"
  assumes "0 < d" "0 \<le> p" "sum_list (map f xs) \<le> d"
  shows "(\<Sum>x\<leftarrow>xs. p * f x div d) \<le> p"
proof -
  have "(\<Sum>x\<leftarrow>xs. p * f x div d) * d \<le> (\<Sum>x\<leftarrow>xs. p * f x)" using assms(1) by (rule sum_floor_le)
  also have "\<dots> = p * sum_list (map f xs)" by (simp add: sum_list_const_mult)
  also have "\<dots> \<le> p * d" using assms by (intro mult_left_mono) simp_all
  finally show ?thesis using assms(1) by simp
qed

lemma contributorLp_div:
  assumes "0 \<le> mcn_amount c" "0 \<le> mm_activationLp m"
  shows "contributorLp c m = (if mm_activationContributed m > 0
      then mm_activationLp m * mcn_amount c div mm_activationContributed m else 0) + mcn_lateLp c"
  using assms by (simp add: contributorLp_def Let_def sdiv_div mult.commute)

lemma gross_lp_share_is:
  assumes "gross_lp_share m c = Inr x" "0 \<le> mcn_amount c" "0 \<le> mm_activationLp m"
    and "0 \<le> mm_activationContributed m"
  shows "x = mm_lpTotal m * contributorLp c m div mm_grossLpTotal m" "mm_grossLpTotal m \<noteq> 0"
proof -
  have "fbind e f = Inr x \<longleftrightarrow> (\<exists>y. e = Inr y \<and> f y = Inr x)" for e and f :: "int \<Rightarrow> fault + int"
    by (cases e) auto
  then show "x = mm_lpTotal m * contributorLp c m div mm_grossLpTotal m" "mm_grossLpTotal m \<noteq> 0"
    using assms by (auto simp: gross_lp_share_def contributorLp_div u128_of_def u64_of_def split: if_splits)
qed

lemma pro_rata_share_is:
  "pro_rata_share l a t = Inr x \<Longrightarrow> x = l * a div t \<and> t \<noteq> 0"
  by (auto simp: pro_rata_share_def fbind_Inr_iff u128_of_def u64_of_def split: if_splits)

lemma floor_shares_le:
  fixes f :: "'x \<Rightarrow> int"
  assumes "\<forall>c\<in>set cs. 0 \<le> f c \<and> share c = p * f c div d \<and> d \<noteq> 0" "0 \<le> p" "sum_list (map f cs) \<le> d"
  shows "sum_list (map share cs) \<le> p"
proof (cases cs)
  case (Cons c cs')
  have "0 \<le> sum_list (map f cs)" using assms(1) by (intro sum_list_nonneg) auto
  then have "0 < d" using assms(1,3) Cons by auto
  then have "(\<Sum>c\<leftarrow>cs. p * f c div d) \<le> p" by (rule floor_share_le [OF _ assms(2,3)])
  moreover have e: "map share cs = map (\<lambda>c. p * f c div d) cs" using assms(1) by (intro map_cong) auto
  ultimately show ?thesis by (simp only: e)
qed (simp add: assms(2))

lemma contributorLp_nonneg:
  "0 \<le> mcn_amount c \<Longrightarrow> 0 \<le> mcn_lateLp c \<Longrightarrow> 0 \<le> mm_activationLp m \<Longrightarrow> 0 \<le> contributorLp c m"
  by (simp add: contributorLp_div pos_imp_zdiv_nonneg_iff)

lemma contributorLp_sum:
  assumes "\<forall>c\<in>set cs. 0 \<le> mcn_amount c" "0 \<le> mm_activationLp m"
    and "(\<Sum>c\<leftarrow>cs. mcn_amount c) \<le> mm_activationContributed m"
  shows "(\<Sum>c\<leftarrow>cs. contributorLp c m) \<le> mm_activationLp m + (\<Sum>c\<leftarrow>cs. mcn_lateLp c)"
proof (cases "mm_activationContributed m > 0")
  case True
  have e: "map (\<lambda>c. contributorLp c m) cs
      = map (\<lambda>c. mm_activationLp m * mcn_amount c div mm_activationContributed m + mcn_lateLp c) cs"
    using True assms(1,2) by (intro map_cong) (auto simp: contributorLp_div)
  show ?thesis unfolding e using floor_share_le [OF True assms(2,3)] by (simp add: sum_list_addf)
next
  case False
  then have e: "map (\<lambda>c. contributorLp c m) cs = map mcn_lateLp cs"
    by (intro map_cong) (simp_all add: contributorLp_def)
  show ?thesis unfolding e using assms(2) by simp
qed

text \<open>
  C28: the LP position the pages show is the one \<open>claim_lp\<close> pays on, and the claims never exceed
  the pool. With the contributed amounts within the activation total and the late LP within what
  was added since activation (the bookkeeping of \<open>contribute\<close>, \<open>activate\<close> and \<open>add_liquidity\<close>):
  the displayed positions of all contributors sum to at most the gross supply; whenever the
  program computes a share of a mixed cohort it is \<open>lpTotal\<close> times the displayed position over
  \<open>grossLpTotal\<close>, rounded down; and the shares of all claimers but the sweeping last one sum
  to at most \<open>lpTotal\<close>, in both of the program's formulas.
\<close>

theorem lp_claims_within_supply:
  assumes "\<forall>c\<in>set cs. claim_share m c v = Inr (share c)" "mm_openContributions m \<noteq> 1"
    and "\<forall>c\<in>set cs. 0 \<le> mcn_amount c \<and> 0 \<le> mcn_lateLp c"
    and "0 \<le> mm_activationLp m" "0 \<le> mm_activationContributed m" "0 \<le> mm_lpTotal m"
    and "mm_activationContributed m \<le> mm_totalContributed m"
    and "(\<Sum>c\<leftarrow>cs. mcn_amount c) \<le> mm_activationContributed m"
    and "(\<Sum>c\<leftarrow>cs. mcn_lateLp c) \<le> mm_grossLpTotal m - mm_activationLp m"
  shows "(\<Sum>c\<leftarrow>cs. contributorLp c m) \<le> mm_grossLpTotal m
    \<and> (mm_grossLpTotal m \<noteq> mm_activationLp m
        \<longrightarrow> (\<forall>c\<in>set cs. share c = mm_lpTotal m * contributorLp c m div mm_grossLpTotal m))
    \<and> (\<Sum>c\<leftarrow>cs. share c) \<le> mm_lpTotal m"
proof -
  let ?d = "mm_activationContributed m" and ?g = "mm_grossLpTotal m"
  have tot: "(\<Sum>c\<leftarrow>cs. contributorLp c m) \<le> ?g"
    using contributorLp_sum [of cs m] assms(3,4,8,9) by auto
  have mixed: "\<forall>c\<in>set cs. 0 \<le> contributorLp c m \<and> share c = mm_lpTotal m * contributorLp c m div ?g
      \<and> ?g \<noteq> 0" if "?g \<noteq> mm_activationLp m"
  proof
    fix c assume c: "c \<in> set cs"
    then have g: "gross_lp_share m c = Inr (share c)"
      using that assms(1,2) by (simp add: claim_share_def)
    show "0 \<le> contributorLp c m \<and> share c = mm_lpTotal m * contributorLp c m div ?g \<and> ?g \<noteq> 0"
      using c assms(3,4,5) gross_lp_share_is [OF g] contributorLp_nonneg [of c m] by blast
  qed
  have "(\<Sum>c\<leftarrow>cs. share c) \<le> mm_lpTotal m"
  proof (cases "?g = mm_activationLp m")
    case True
    then have "\<forall>c\<in>set cs. pro_rata_share (mm_lpTotal m) (mcn_amount c) (mm_totalContributed m) = Inr (share c)"
      using assms(1,2) by (simp add: claim_share_def)
    then have "\<forall>c\<in>set cs. 0 \<le> mcn_amount c \<and> share c = mm_lpTotal m * mcn_amount c div mm_totalContributed m
        \<and> mm_totalContributed m \<noteq> 0"
      using assms(3) by (auto dest!: pro_rata_share_is)
    then show ?thesis by (rule floor_shares_le [OF _ assms(6)]) (use assms(7,8) in linarith)
  next
    case False
    show ?thesis by (rule floor_shares_le [OF mixed [OF False] assms(6) tot])
  qed
  then show ?thesis using tot mixed by blast
qed

text \<open>The sample market with the bookkeeping of two contributors, one of them late.\<close>

definition sample_claimed :: "256 word mmarket_account" where
  "sample_claimed = sample_mmarket\<lparr>mm_openContributions := 2, mm_lpTotal := 90, mm_activationLp := 60,
     mm_activationContributed := 30, mm_totalContributed := 50, mm_grossLpTotal := 100\<rparr>"

theorem lp_claims_within_supply_witness:
  "\<exists>s. map (\<lambda>c. claim_share sample_claimed c 7)
        [sample_mcontribution\<lparr>mcn_amount := 30, mcn_lateLp := 10\<rparr>, sample_mcontribution\<lparr>mcn_amount := 0, mcn_lateLp := 30\<rparr>]
      = map Inr s \<and> sum_list s \<le> 90"
proof -
  let ?a = "sample_mcontribution\<lparr>mcn_amount := 30, mcn_lateLp := 10\<rparr>"
  let ?b = "sample_mcontribution\<lparr>mcn_amount := 0, mcn_lateLp := 30\<rparr>"
  let ?s = "\<lambda>c. case claim_share sample_claimed c 7 of Inr x \<Rightarrow> x | Inl _ \<Rightarrow> 0"
  have s: "claim_share sample_claimed ?a 7 = Inr 63" "claim_share sample_claimed ?b 7 = Inr 27"
    by (simp_all add: claim_share_def gross_lp_share_def sample_claimed_def u128_of_def u64_of_def)
  have "(\<Sum>c\<leftarrow>[?a, ?b]. ?s c) \<le> mm_lpTotal sample_claimed"
    using lp_claims_within_supply [of "[?a, ?b]" sample_claimed 7 ?s] s
    by (simp add: sample_claimed_def)
  then show ?thesis using s by (intro exI [of _ "[63, 27]"]) (simp add: sample_claimed_def)
qed

section \<open>The implied probability\<close>

lemma impliedYes_bounds:
  assumes "impliedYesProbability (Some r) = Some p" "0 \<le> ar_base r" "0 \<le> ar_quote r"
  shows "0 \<le> p \<and> p \<le> 1"
  using assms ratio_le_1 [of "ar_base r + ar_quote r" "ar_quote r"] ratio_nonneg
  by (auto simp: impliedYesProbability_def Let_def split: if_splits)

lemma poolValue_bounds:
  assumes "poolValueKass (Some r) = Some v" "0 \<le> ar_base r" "0 \<le> ar_quote r"
  shows "0 \<le> v \<and> v * (ar_base r + ar_quote r) \<le> 2 * ar_base r * ar_quote r"
proof -
  have s: "0 < ar_base r + ar_quote r" "v = 2 * ar_base r * ar_quote r div (ar_base r + ar_quote r)"
    using assms by (auto simp: poolValueKass_def Let_def sdiv_div split: if_splits)
  then show ?thesis using assms(2,3) sum_floor_le [OF s(1), of "\<lambda>_. 2 * ar_base r * ar_quote r" "[()]"]
    by (simp add: pos_imp_zdiv_nonneg_iff)
qed

end
