(* ===== verification/Action_Sequence.thy ===== *)
theory Action_Sequence
  imports Packing
begin

text \<open>
  The runner of a multi-transaction sequence (\<open>app/src/market/hooks/useActionSequence.ts\<close>):
  the status array with its resume rule (\<open>initialRunState\<close>), the probe that skips landed
  steps, and the sending of the packed transactions until the first failure. The outside
  world is the record \<open>run_env\<close>: the probe of each step's account, the wallet, and the
  outcome of the k-th transaction that is relayed. A run returns the final statuses, the
  trace of what it relayed, and whether it reached \<open>onDone\<close>. Retrying is the relation
  \<open>retries\<close>, over any number of runs in any environments.
\<close>

section \<open>State\<close>

datatype step_status = StPending | StRunning | StDone string | StError js_error

fun is_done :: "step_status \<Rightarrow> bool" where
  "is_done (StDone s) = True"
| "is_done _ = False"

fun is_error :: "step_status \<Rightarrow> bool" where
  "is_error (StError e) = True"
| "is_error _ = False"

definition isRunning :: "step_status list \<Rightarrow> bool" where
  "isRunning statuses = list_ex (\<lambda>s. s = StRunning) statuses"

text \<open>\<open>findIndex(s => s.kind !== "done")\<close>, with the length for -1.\<close>

fun first_open :: "step_status list \<Rightarrow> nat" where
  "first_open [] = 0"
| "first_open (s # ss) = (if \<not> is_done s then 0 else Suc (first_open ss))"

definition initialRunState ::
  "nat \<Rightarrow> step_status list \<Rightarrow> nat option \<Rightarrow> step_status list \<times> nat" where
  "initialRunState stepsLength prevStatuses startIndex =
     (let fresh = replicate stepsLength StPending;
          statusArr = (if startIndex = None \<and> length prevStatuses = stepsLength
                       then prevStatuses else fresh);
          begin_at = (case startIndex of Some i \<Rightarrow> i | None \<Rightarrow> first_open statusArr);
          cleared = map (\<lambda>(i, s). if i \<ge> begin_at \<and> is_error s then StPending else s)
                      (zip [0..<length statusArr] statusArr)
      in (cleared, begin_at))"

section \<open>The world\<close>

record 'a run_env =
  re_wallet :: bool
  re_signAll :: bool
  re_landed :: "nat \<Rightarrow> bool"
  re_signing :: "js_error option"
  re_send :: "nat \<Rightarrow> 'a tx_instruction list \<Rightarrow> string res"

record 'a run_result =
  rr_statuses :: "step_status list"
  rr_relayed :: "(nat list \<times> 'a tx_instruction list) list"
  rr_finished :: bool

definition set_all :: "nat list \<Rightarrow> step_status \<Rightarrow> step_status list \<Rightarrow> step_status list" where
  "set_all idxs x st = foldl (\<lambda>st i. st[i := x]) st idxs"

section \<open>Probing\<close>

definition skippable :: "'a activate_step \<Rightarrow> bool" where
  "skippable step \<longleftrightarrow> as_skipIfLanded step \<noteq> Some False"

text \<open>The loop from \<open>begin\<close>: landed steps become done, the others are pending.\<close>

fun probe_loop ::
  "'a run_env \<Rightarrow> 'a activate_step list \<Rightarrow> nat list \<Rightarrow> step_status list \<times> nat list
    \<Rightarrow> step_status list \<times> nat list" where
  "probe_loop env steps [] (st, pending) = (st, pending)"
| "probe_loop env steps (i # is) (st, pending) =
     (if skippable (steps ! i) \<and> re_landed env i
      then probe_loop env steps is (st[i := StDone ''already-landed''], pending)
      else probe_loop env steps is (st, pending @ [i]))"

section \<open>Sending\<close>

fun send_batches ::
  "'a run_env \<Rightarrow> nat \<Rightarrow> nat list \<Rightarrow> 'a packed_tx list \<Rightarrow> step_status list
    \<Rightarrow> (nat list \<times> 'a tx_instruction list) list \<Rightarrow> 'a run_result" where
  "send_batches env k pend [] st tr = \<lparr>rr_statuses = st, rr_relayed = tr, rr_finished = True\<rparr>"
| "send_batches env k pend (b # bs) st tr =
     (let idxs = take (length (pt_steps b)) pend;
          rest = drop (length (pt_steps b)) pend;
          st1 = set_all idxs StRunning st;
          tr1 = tr @ [(idxs, pt_ixs b)]
      in case re_send env k (pt_ixs b) of
           Inr signature \<Rightarrow>
             send_batches env (Suc k) rest bs (set_all idxs (StDone signature) st1) tr1
         | Inl err \<Rightarrow> \<lparr>rr_statuses = set_all idxs (StError err) st1, rr_relayed = tr1,
                        rr_finished = False\<rparr>)"

definition run_sequence ::
  "'a web3 \<Rightarrow> 'a tx_lib \<Rightarrow> 'a \<Rightarrow> 'a run_env \<Rightarrow> step_status list \<Rightarrow> 'a activate_step list
    \<Rightarrow> nat option \<Rightarrow> 'a run_result" where
  "run_sequence W T feePayer env statuses steps startIndex =
     (if isRunning statuses
      then \<lparr>rr_statuses = statuses, rr_relayed = [], rr_finished = False\<rparr>
      else if \<not> re_wallet env
      then \<lparr>rr_statuses = map (\<lambda>_. StPending) steps, rr_relayed = [], rr_finished = False\<rparr>
      else
        (let (statusArr, begin_at) = initialRunState (length steps) statuses startIndex;
             (st, pending) = probe_loop env steps [begin_at..<length steps] (statusArr, [])
         in if pending = []
            then \<lparr>rr_statuses = st, rr_relayed = [], rr_finished = True\<rparr>
            else (case packSteps W T feePayer (map (\<lambda>i. steps ! i) pending) of
              Inl e \<Rightarrow> \<lparr>rr_statuses = st, rr_relayed = [], rr_finished = False\<rparr>
            | Inr batches \<Rightarrow>
                if length batches \<le> 1 \<or> \<not> re_signAll env
                then send_batches env 0 pending batches st []
                else (case re_signing env of
                    Some err \<Rightarrow> \<lparr>rr_statuses = set_all pending (StError err) st, rr_relayed = [],
                                  rr_finished = False\<rparr>
                  | None \<Rightarrow> send_batches env 0 pending batches st []))))"

section \<open>Lemmas on the status array\<close>

lemma length_set_all [simp]: "length (set_all idxs x st) = length st"
  by (induction idxs arbitrary: st) (auto simp: set_all_def)

lemma set_all_Nil [simp]: "set_all [] x st = st"
  by (simp add: set_all_def)

lemma set_all_Cons: "set_all (i # is) x st = set_all is x (st[i := x])"
  by (simp add: set_all_def)

lemma nth_set_all:
  "i < length st \<Longrightarrow> set_all idxs x st ! i = (if i \<in> set idxs then x else st ! i)"
  by (induction idxs arbitrary: st) (auto simp: set_all_Cons nth_list_update)

lemma first_open_le: "first_open st \<le> length st"
  by (induction st) auto

lemma first_open_done: "i < first_open st \<Longrightarrow> is_done (st ! i)"
  by (induction st arbitrary: i) (auto simp: nth_Cons split: nat.splits if_splits)

lemma first_open_stop: "first_open st < length st \<Longrightarrow> \<not> is_done (st ! first_open st)"
  by (induction st) auto

lemma initialRunState_nth:
  assumes "initialRunState n prev start = (st, b)"
  shows "length st = n"
    and "i < n \<Longrightarrow> st ! i = (let s = (if start = None \<and> length prev = n then prev ! i else StPending)
        in if b \<le> i \<and> is_error s then StPending else s)"
    and "b = (case start of Some i \<Rightarrow> i
        | None \<Rightarrow> if length prev = n then first_open prev else first_open (replicate n StPending))"
  using assms by (auto simp: initialRunState_def Let_def split: if_splits option.splits)

lemma initialRunState_auto:
  assumes "initialRunState n prev None = (st, b)"
  shows "b \<le> n" "i < b \<Longrightarrow> is_done (st ! i)"
    "i < n \<Longrightarrow> is_done (st ! i) \<Longrightarrow> length prev = n \<and> st ! i = prev ! i"
    "i < n \<Longrightarrow> st ! i = StRunning \<Longrightarrow> StRunning \<in> set prev"
proof -
  note s = initialRunState_nth [OF assms]
  show b: "b \<le> n" using s(3) first_open_le [of prev] first_open_le [of "replicate n StPending"]
    by (auto split: if_splits)
  show "is_done (st ! i)" if "i < b"
    using s(2) [of i] s(3) that b first_open_done [of i prev]
      first_open_done [of i "replicate n StPending"]
    by (cases "length prev = n") (auto simp: Let_def)
  show "length prev = n \<and> st ! i = prev ! i" if "i < n" "is_done (st ! i)"
    using s(2) [of i] that by (auto simp: Let_def split: if_splits)
  show "StRunning \<in> set prev" if "i < n" "st ! i = StRunning"
  proof -
    have "length prev = n \<and> prev ! i = StRunning"
      using s(2) [of i] that by (auto simp: Let_def split: if_splits)
    then show ?thesis using nth_mem [of i prev] that(1) by simp
  qed
qed

section \<open>Lemmas on the probe\<close>

lemma probe_loop_spec:
  assumes "probe_loop env steps is (st, p) = (st', p')" "distinct is" "\<forall>i\<in>set is. i < length st"
  shows "length st' = length st
    \<and> p' = p @ filter (\<lambda>i. \<not> (skippable (steps ! i) \<and> re_landed env i)) is
    \<and> (\<forall>i<length st. st' ! i = (if i \<in> set is \<and> skippable (steps ! i) \<and> re_landed env i
         then StDone ''already-landed'' else st ! i))"
  using assms
proof (induction "is" arbitrary: st p)
  case Nil
  then show ?case by simp
next
  case (Cons j js)
  show ?case
  proof (cases "skippable (steps ! j) \<and> re_landed env j")
    case True
    then show ?thesis
      using Cons.IH [of "st[j := StDone ''already-landed'']" p] Cons.prems
      by (auto simp: nth_list_update)
  next
    case False
    then show ?thesis using Cons.IH [of st "p @ [j]"] Cons.prems by auto
  qed
qed

section \<open>Lemmas on sending\<close>

text \<open>
  A sending splits the pending indices into a confirmed prefix \<open>d\<close>, the failed transaction
  \<open>f\<close> (empty when there is none) and the untouched rest \<open>r\<close>.
\<close>

definition sent_split ::
  "nat list \<Rightarrow> step_status list \<Rightarrow> 'a run_result \<Rightarrow> nat list \<Rightarrow> nat list \<Rightarrow> nat list \<Rightarrow> bool" where
  "sent_split pend st res d f r \<longleftrightarrow>
     pend = d @ f @ r \<and> length (rr_statuses res) = length st \<and>
     (rr_finished res \<longleftrightarrow> f = []) \<and> (f = [] \<longrightarrow> r = []) \<and>
     (\<forall>i<length st. i \<notin> set d \<and> i \<notin> set f \<longrightarrow> rr_statuses res ! i = st ! i) \<and>
     (\<forall>i\<in>set d. i < length st \<longrightarrow> is_done (rr_statuses res ! i)) \<and>
     (\<forall>i\<in>set f. i < length st \<longrightarrow> is_error (rr_statuses res ! i))"

lemma send_batches_split:
  assumes "length (concat (map pt_steps bs)) = length pend"
    and "\<forall>b\<in>set bs. pt_steps b \<noteq> []" "distinct pend"
  shows "\<exists>d f r. sent_split pend st (send_batches env k pend bs st tr) d f r
    \<and> concat (map fst (rr_relayed (send_batches env k pend bs st tr)))
      = concat (map fst tr) @ d @ f"
  using assms
proof (induction bs arbitrary: k pend st tr)
  case Nil
  then show ?case by (intro exI [of _ "[]"]) (simp add: sent_split_def)
next
  case (Cons b bs)
  let ?n = "length (pt_steps b)"
  let ?i = "take ?n pend" and ?p = "drop ?n pend"
  let ?s1 = "set_all ?i StRunning st"
  have n: "0 < ?n" "?n \<le> length pend" "length (concat (map pt_steps bs)) = length ?p"
    using Cons.prems by auto
  have ni: "?i \<noteq> []" using n by auto
  have ip: "pend = ?i @ ?p" "distinct ?p" "set ?i \<inter> set ?p = {}"
    using Cons.prems(3) by (simp_all add: set_take_disj_set_drop_if_distinct)
  show ?case
  proof (cases "re_send env k (pt_ixs b)")
    case (Inl e)
    have "sent_split pend st (send_batches env k pend (b # bs) st tr) [] ?i ?p"
      using Inl ip(1) ni by (auto simp: sent_split_def Let_def nth_set_all)
    then show ?thesis using Inl
      by (intro exI [of _ "[]"] exI [of _ ?i] exI [of _ ?p]) (simp add: Let_def)
  next
    case (Inr sg)
    let ?s2 = "set_all ?i (StDone sg) ?s1"
    define R where "R = send_batches env (Suc k) ?p bs ?s2 (tr @ [(?i, pt_ixs b)])"
    obtain d f r where ih: "sent_split ?p ?s2 R d f r"
      "concat (map fst (rr_relayed R)) = concat (map fst (tr @ [(?i, pt_ixs b)])) @ d @ f"
      using Cons.IH [OF n(3) _ ip(2)] Cons.prems(2) unfolding R_def by (meson list.set_intros(2))
    have "sent_split pend st R (?i @ d) f r"
      unfolding sent_split_def
    proof (intro conjI)
      have "?p = d @ f @ r" using ih(1) by (simp only: sent_split_def)
      then show "pend = (?i @ d) @ f @ r"
        using append_take_drop_id [of ?n pend] by simp
      show "\<forall>i\<in>set (?i @ d). i < length st \<longrightarrow> is_done (rr_statuses R ! i)"
      proof (intro ballI impI)
        fix i assume i: "i \<in> set (?i @ d)" "i < length st"
        show "is_done (rr_statuses R ! i)"
        proof (cases "i \<in> set d")
          case True
          then show ?thesis using ih(1) i(2) by (simp add: sent_split_def)
        next
          case False
          then have "i \<in> set ?i" "i \<notin> set ?p" using i(1) ip(3) by auto
          then have "rr_statuses R ! i = ?s2 ! i"
            using ih(1) i(2) by (auto simp: sent_split_def)
          then show ?thesis using \<open>i \<in> set ?i\<close> i(2) by (simp add: nth_set_all)
        qed
      qed
      show "\<forall>i<length st. i \<notin> set (?i @ d) \<and> i \<notin> set f \<longrightarrow> rr_statuses R ! i = st ! i"
      proof (intro allI impI)
        fix i assume i: "i < length st" "i \<notin> set (?i @ d) \<and> i \<notin> set f"
        then have "rr_statuses R ! i = ?s2 ! i" using ih(1) by (auto simp: sent_split_def)
        then show "rr_statuses R ! i = st ! i" using i by (simp add: nth_set_all)
      qed
      show "length (rr_statuses R) = length st" using ih(1) by (simp add: sent_split_def)
      show "rr_finished R \<longleftrightarrow> f = []" using ih(1) by (simp add: sent_split_def)
      show "f = [] \<longrightarrow> r = []" using ih(1) by (simp add: sent_split_def)
      show "\<forall>i\<in>set f. i < length st \<longrightarrow> is_error (rr_statuses R ! i)"
        using ih(1) by (simp add: sent_split_def)
    qed
    moreover have "send_batches env k pend (b # bs) st tr = R" using Inr by (simp add: Let_def R_def)
    ultimately show ?thesis using ih(2)
      by (intro exI [of _ "?i @ d"] exI [of _ f] exI [of _ r]) simp
  qed
qed

section \<open>One run\<close>

definition confirmed :: "'a run_result \<Rightarrow> nat list" where
  "confirmed res =
     filter (\<lambda>i. is_done (rr_statuses res ! i)) (concat (map fst (rr_relayed res)))"

text \<open>
  What one run does, from the status array \<open>st2\<close> and the pending indices after the probe.
\<close>

definition run_split ::
  "nat list \<Rightarrow> step_status list \<Rightarrow> 'a run_result \<Rightarrow> nat list \<Rightarrow> nat list \<Rightarrow> nat list \<Rightarrow> bool" where
  "run_split pend st res d f r \<longleftrightarrow>
     pend = d @ f @ r \<and> length (rr_statuses res) = length st \<and>
     (rr_finished res \<longrightarrow> f = [] \<and> r = []) \<and>
     (\<forall>i<length st. i \<notin> set d \<and> i \<notin> set f \<longrightarrow> rr_statuses res ! i = st ! i) \<and>
     (\<forall>i\<in>set d. is_done (rr_statuses res ! i)) \<and>
     (\<forall>i\<in>set f. is_error (rr_statuses res ! i)) \<and> confirmed res = d \<and>
     (concat (map fst (rr_relayed res)) = d @ f \<or> rr_relayed res = [])"

lemma not_done_error: "is_error s \<Longrightarrow> \<not> is_done s"
  by (cases s) auto

lemma sent_split_run_split:
  assumes "sent_split pend st res d f r" "concat (map fst (rr_relayed res)) = d @ f"
    and "\<forall>i\<in>set pend. i < length st"
  shows "run_split pend st res d f r"
proof -
  have p: "pend = d @ f @ r" and dd: "\<forall>i\<in>set d. i < length st \<longrightarrow> is_done (rr_statuses res ! i)"
    and ff: "\<forall>i\<in>set f. i < length st \<longrightarrow> is_error (rr_statuses res ! i)"
    using assms(1) by (auto simp: sent_split_def)
  then have d: "\<forall>i\<in>set d. is_done (rr_statuses res ! i)"
    and f: "\<forall>i\<in>set f. is_error (rr_statuses res ! i)"
    using assms(3) by auto
  then have "confirmed res = d"
    using assms(2) not_done_error by (auto simp: confirmed_def filter_id_conv filter_empty_conv)
  then show ?thesis using assms(1,2) d f by (auto simp: sent_split_def run_split_def)
qed

definition probed ::
  "'a run_env \<Rightarrow> 'a activate_step list \<Rightarrow> step_status list \<Rightarrow> nat option
    \<Rightarrow> step_status list \<times> nat list" where
  "probed env steps statuses start =
     (let (st, b) = initialRunState (length steps) statuses start
      in probe_loop env steps [b..<length steps] (st, []))"

lemma run_sequence_split:
  assumes "\<not> isRunning statuses" "re_wallet env"
    and pr: "probed env steps statuses start = (st, pend)"
    and lt: "\<forall>i\<in>set pend. i < length st" and dist: "distinct pend"
  shows "\<exists>d f r. run_split pend st (run_sequence W T p env statuses steps start) d f r"
proof -
  obtain st1 b where i: "initialRunState (length steps) statuses start = (st1, b)"
    by (cases "initialRunState (length steps) statuses start")
  have q: "probe_loop env steps [b..<length steps] (st1, []) = (st, pend)"
    using pr i by (simp add: probed_def)
  let ?R = "run_sequence W T p env statuses steps start"
  have R: "?R = (if pend = [] then \<lparr>rr_statuses = st, rr_relayed = [], rr_finished = True\<rparr>
      else (case packSteps W T p (map ((!) steps) pend) of
          Inl e \<Rightarrow> \<lparr>rr_statuses = st, rr_relayed = [], rr_finished = False\<rparr>
        | Inr bs \<Rightarrow> if length bs \<le> 1 \<or> \<not> re_signAll env then send_batches env 0 pend bs st []
            else (case re_signing env of
                Some err \<Rightarrow> \<lparr>rr_statuses = set_all pend (StError err) st, rr_relayed = [],
                              rr_finished = False\<rparr>
              | None \<Rightarrow> send_batches env 0 pend bs st [])))"
    using assms(1,2) i q by (simp add: run_sequence_def)
  have send: "\<exists>d f r. run_split pend st (send_batches env 0 pend bs st []) d f r"
    if bs: "packSteps W T p (map ((!) steps) pend) = Inr bs" for bs
  proof -
    have pk: "packing W T p (map ((!) steps) pend) bs"
      using pack_loop_packing [of W T p "[]" "[]" "map ((!) steps) pend" bs] bs
      by (simp add: packSteps_def packing_def batch_good_def [abs_def])
    then have "length (concat (map pt_steps bs)) = length pend" "\<forall>b\<in>set bs. pt_steps b \<noteq> []"
      by (auto simp: packing_def list_all_iff)
    from send_batches_split [OF this dist, of st env 0 "[]"] show ?thesis
      using sent_split_run_split [OF _ _ lt] by fastforce
  qed
  have none: "run_split pend st \<lparr>rr_statuses = st, rr_relayed = [], rr_finished = False\<rparr> [] [] pend"
    by (simp add: run_split_def confirmed_def)
  have nil: "pend = [] \<Longrightarrow>
      run_split pend st \<lparr>rr_statuses = st, rr_relayed = [], rr_finished = True\<rparr> [] [] []"
    by (simp add: run_split_def confirmed_def)
  have sign: "run_split pend st \<lparr>rr_statuses = set_all pend (StError e) st, rr_relayed = [],
      rr_finished = False\<rparr> [] pend []" for e
    using lt by (auto simp: run_split_def confirmed_def nth_set_all)
  show ?thesis
    using R send none nil sign by (cases "packSteps W T p (map ((!) steps) pend)")
      (auto split: option.splits if_splits)
qed

text \<open>The status array and the pending indices that the probe leaves.\<close>

lemma probed_spec:
  assumes "probed env steps prev None = (st, pend)"
  shows "length st = length steps" "sorted_wrt (<) pend" "\<forall>i\<in>set pend. i < length steps"
    and "i < length steps \<Longrightarrow> i \<notin> set pend \<Longrightarrow> is_done (st ! i)"
    and "i \<in> set pend \<Longrightarrow> is_done (st ! i)
      \<Longrightarrow> length prev = length steps \<and> is_done (prev ! i) \<and> first_open prev \<le> i"
    and "i < length steps \<Longrightarrow> \<not> skippable (steps ! i) \<Longrightarrow> is_done (st ! i)
      \<Longrightarrow> length prev = length steps \<and> is_done (prev ! i)"
    and "i < length steps \<Longrightarrow> st ! i = StRunning \<Longrightarrow> StRunning \<in> set prev"
    and "i \<in> set pend \<Longrightarrow> \<not> (skippable (steps ! i) \<and> re_landed env i)
      \<and> (length prev = length steps \<longrightarrow> first_open prev \<le> i)"
proof -
  obtain st1 b where i: "initialRunState (length steps) prev None = (st1, b)"
    by (cases "initialRunState (length steps) prev None")
  note a = initialRunState_auto [OF i] and n = initialRunState_nth [OF i]
  have q: "probe_loop env steps [b..<length steps] (st1, []) = (st, pend)"
    using assms i by (simp add: probed_def)
  have "\<forall>i\<in>set [b..<length steps]. i < length st1" using n(1) by simp
  note ps = probe_loop_spec [OF q distinct_upt this]
  have P: "pend = filter (\<lambda>i. \<not> (skippable (steps ! i) \<and> re_landed env i)) [b..<length steps]"
    using ps by simp
  have S: "st ! i = (if b \<le> i \<and> skippable (steps ! i) \<and> re_landed env i
      then StDone ''already-landed'' else st1 ! i)" if "i < length steps" for i
    using ps that n(1) by auto
  have bb: "b = (if length prev = length steps then first_open prev else 0)"
    using n(3) by (cases "length steps") auto
  show "length st = length steps" using ps n(1) by simp
  show "sorted_wrt (<) pend" unfolding P by (intro sorted_wrt_filter) simp
  show "\<forall>i\<in>set pend. i < length steps" unfolding P by simp
  show "is_done (st ! i)" if "i < length steps" "i \<notin> set pend" for i
    using that S [of i] a(2) [of i] unfolding P by (auto split: if_splits)
  show "length prev = length steps \<and> is_done (prev ! i) \<and> first_open prev \<le> i"
    if "i \<in> set pend" "is_done (st ! i)" for i
    using that S [of i] a(3) [of i] bb unfolding P by (auto split: if_splits)
  show "length prev = length steps \<and> is_done (prev ! i)"
    if "i < length steps" "\<not> skippable (steps ! i)" "is_done (st ! i)" for i
    using that S [of i] a(3) [of i] by auto
  show "StRunning \<in> set prev" if "i < length steps" "st ! i = StRunning" for i
    using that S [of i] a(4) [of i] by (auto split: if_splits)
  show "\<not> (skippable (steps ! i) \<and> re_landed env i)
      \<and> (length prev = length steps \<longrightarrow> first_open prev \<le> i)" if "i \<in> set pend" for i
    using that bb unfolding P by auto
qed

section \<open>Retrying\<close>

text \<open>
  The hook starts with no statuses; the user runs the same step list again and again with
  the automatic resume, each time in an arbitrary environment with a wallet. \<open>sent\<close> is the
  history of the indices whose transaction was confirmed.
\<close>

inductive retries ::
  "'a web3 \<Rightarrow> 'a tx_lib \<Rightarrow> 'a \<Rightarrow> 'a activate_step list \<Rightarrow> step_status list \<Rightarrow> nat list \<Rightarrow> bool"
  for W T p steps where
  retries_start: "retries W T p steps [] []"
| retries_run: "retries W T p steps st sent \<Longrightarrow> re_wallet env
    \<Longrightarrow> res = run_sequence W T p env st steps None
    \<Longrightarrow> retries W T p steps (rr_statuses res) (sent @ confirmed res)"

inductive_simps retries_start_simp: "retries W T p steps [] []"

definition one_shot :: "'a activate_step list \<Rightarrow> nat \<Rightarrow> bool" where
  "one_shot steps i \<longleftrightarrow> \<not> skippable (steps ! i)"

definition retry_inv :: "'a activate_step list \<Rightarrow> step_status list \<Rightarrow> nat list \<Rightarrow> bool" where
  "retry_inv steps st sent \<longleftrightarrow>
     (st = [] \<or> length st = length steps) \<and> StRunning \<notin> set st \<and>
     (\<forall>i j. i < j \<and> j < length st \<and> is_done (st ! j) \<and> one_shot steps j \<longrightarrow> is_done (st ! i)) \<and>
     (\<forall>j\<in>set sent. one_shot steps j \<longrightarrow> j < length st \<and> is_done (st ! j)) \<and>
     distinct (filter (one_shot steps) sent)"

lemma done_before_open:
  assumes "retry_inv steps st sent" "j < length st" "is_done (st ! j)" "one_shot steps j"
  shows "j < first_open st"
proof (rule ccontr)
  assume "\<not> j < first_open st"
  then have "first_open st = j \<or> first_open st < j" by auto
  then show False
    using assms first_open_stop [of st] by (auto simp: retry_inv_def)
qed

lemma sorted_prefix:
  assumes "sorted_wrt (<) (d @ x)" "i \<in> set (d @ x)" "j \<in> set d" "i < (j :: nat)"
  shows "i \<in> set d"
proof (rule ccontr)
  assume "i \<notin> set d"
  then have "i \<in> set x" using assms(2) by simp
  then have "j < i" using assms(1,3) by (simp add: sorted_wrt_append)
  then show False using assms(4) by simp
qed

lemma retry_inv_run:
  assumes inv: "retry_inv steps prev sent" and w: "re_wallet env"
  shows "retry_inv steps (rr_statuses (run_sequence W T p env prev steps None))
    (sent @ confirmed (run_sequence W T p env prev steps None))"
proof -
  let ?R = "run_sequence W T p env prev steps None"
  have nr: "\<not> isRunning prev" using inv by (auto simp: retry_inv_def isRunning_def list_ex_iff)
  obtain st pend where pr: "probed env steps prev None = (st, pend)" by fastforce
  note ps = probed_spec [OF pr]
  have dist: "distinct pend" using ps(2) by (simp add: strict_sorted_iff)
  have lt: "\<forall>i\<in>set pend. i < length st" using ps(1,3) by simp
  obtain d f r where rs: "run_split pend st ?R d f r"
    using run_sequence_split [OF nr w pr lt dist] by blast
  then have pend: "pend = d @ f @ r" and len: "length (rr_statuses ?R) = length steps"
    and same: "\<And>i. i < length steps \<Longrightarrow> i \<notin> set d \<Longrightarrow> i \<notin> set f \<Longrightarrow> rr_statuses ?R ! i = st ! i"
    and dd: "\<And>i. i \<in> set d \<Longrightarrow> is_done (rr_statuses ?R ! i)"
    and ff: "\<And>i. i \<in> set f \<Longrightarrow> is_error (rr_statuses ?R ! i)" and conf: "confirmed ?R = d"
    using ps(1) by (auto simp: run_split_def)
  have off: "is_done (rr_statuses ?R ! i)" if "i < length steps" "i \<notin> set pend" for i
    using that same [of i] ps(4) [of i] pend by auto
  have old: "i \<notin> set pend \<and> j \<notin> set pend"
    if "j < length prev" "is_done (prev ! j)" "one_shot steps j" "i \<le> j" "length prev = length steps"
    for i j
    using done_before_open [OF inv that(1-3)] that(4,5) ps(8) by fastforce
  have run: "rr_statuses ?R ! i \<noteq> StRunning" if i: "i < length steps" for i
  proof -
    have "st ! i \<noteq> StRunning" using ps(7) [OF i] inv by (auto simp: retry_inv_def)
    then show ?thesis using dd [of i] ff [of i] same [OF i] by (cases "i \<in> set d"; cases "i \<in> set f") auto
  qed
  have ord: "is_done (rr_statuses ?R ! i)"
    if ij: "i < j" "j < length steps" "is_done (rr_statuses ?R ! j)" "one_shot steps j" for i j
  proof (cases "j \<in> set d")
    case True
    show ?thesis
    proof (cases "i \<in> set pend")
      case i: True
      then have "i \<in> set d" using sorted_prefix [of d "f @ r" i j] ps(2) pend True ij(1) by simp
      then show ?thesis by (rule dd)
    next
      case False
      then show ?thesis using off ij by auto
    qed
  next
    case False
    then have "rr_statuses ?R ! j = st ! j"
      using same [of j] ff [of j] not_done_error ij by blast
    then have "length prev = length steps \<and> is_done (prev ! j)"
      using ps(6) [of j] ij by (simp add: one_shot_def)
    then show ?thesis using old [of j i] off [of i] ij by simp
  qed
  have kept: "j < length steps \<and> is_done (rr_statuses ?R ! j) \<and> j \<notin> set pend"
    if "j \<in> set sent" "one_shot steps j" for j
  proof -
    have j: "j < length prev" "is_done (prev ! j)" "length prev = length steps"
      using inv that by (auto simp: retry_inv_def)
    then show ?thesis using old [of j j] off [of j] that by auto
  qed
  have "distinct (filter (one_shot steps) (sent @ d))"
    using inv kept dist pend by (auto simp: retry_inv_def)
  moreover have "\<forall>j\<in>set (sent @ d). one_shot steps j \<longrightarrow>
      j < length (rr_statuses ?R) \<and> is_done (rr_statuses ?R ! j)"
    using kept dd lt pend len ps(1) by auto
  ultimately show ?thesis
    using run ord len conf by (auto simp: retry_inv_def in_set_conv_nth)
qed

lemma retries_inv: "retries W T p steps st sent \<Longrightarrow> retry_inv steps st sent"
proof (induction rule: retries.induct)
  case retries_start
  then show ?case by (simp add: retry_inv_def)
next
  case (retries_run st sent env res)
  then show ?case by (simp add: retry_inv_run)
qed

section \<open>Success\<close>

lemma pack_loop_ok:
  assumes "\<And>q ixs. is_ok (tl_message T q ixs)"
  shows "is_ok (pack_loop W T p bs cur steps)"
  using assms
proof (induction W T p bs cur steps rule: pack_loop.induct)
  case (1 W T p bs cur)
  then show ?case by simp
next
  case (2 W T p bs cur step steps)
  obtain x where "tl_message T p (combinedIxs W T (cur @ [step])) = Inr x"
    using "2.prems" [of p "combinedIxs W T (cur @ [step])"]
    by (cases "tl_message T p (combinedIxs W T (cur @ [step]))") auto
  then have "is_ok (must_split W T p cur (cur @ [step]))"
    by (simp add: must_split_def wireSize_def)
  then obtain sp where sp: "must_split W T p cur (cur @ [step]) = Inr sp" by (auto simp: is_ok_iff)
  then show ?case using 2 by (cases sp) (simp_all add: Let_def)
qed

lemma send_batches_ok:
  assumes "\<And>k ixs. is_ok (re_send env k ixs)"
  shows "rr_finished (send_batches env k pend bs st tr)"
proof (induction bs arbitrary: k pend st tr)
  case Nil
  then show ?case by simp
next
  case (Cons b bs)
  obtain sg where "re_send env k (pt_ixs b) = Inr sg"
    using assms [of k "pt_ixs b"] by (auto simp: is_ok_iff)
  then show ?case using Cons by (simp add: Let_def)
qed

lemma run_sequence_ok:
  assumes "\<not> isRunning statuses" "re_wallet env" "re_signing env = None"
    and "\<And>k ixs. is_ok (re_send env k ixs)" "\<And>q ixs. is_ok (tl_message T q ixs)"
  shows "rr_finished (run_sequence W T p env statuses steps start)"
proof -
  have "is_ok (packSteps W T p q)" for q
    using pack_loop_ok [OF assms(5)] by (simp add: packSteps_def)
  then have pk: "\<exists>bs. packSteps W T p q = Inr bs" for q by (simp add: is_ok_iff)
  obtain st1 b where i: "initialRunState (length steps) statuses start = (st1, b)" by fastforce
  obtain st pend where q: "probe_loop env steps [b..<length steps] (st1, []) = (st, pend)"
    by fastforce
  obtain bs where "packSteps W T p (map ((!) steps) pend) = Inr bs" using pk by blast
  then show ?thesis
    using assms(1-3) send_batches_ok [OF assms(4)] i q by (simp add: run_sequence_def)
qed

section \<open>Properties\<close>


definition sample_deposit :: "256 word activate_step" where
  "sample_deposit = \<lparr>as_label = [], as_computeUnits = None, as_ixs = [sample_ix],
     as_checkAccount = 0, as_skipIfLanded = Some False\<rparr>"

definition sample_env :: "256 word run_env" where
  "sample_env = \<lparr>re_wallet = True, re_signAll = False, re_landed = (\<lambda>_. False),
     re_signing = None, re_send = (\<lambda>k ixs. Inr ''sig'')\<rparr>"




text \<open>
  The resume point. The initial run state always has one status per step; with an
  explicit start index it ignores the previous statuses altogether (a fresh run cannot be
  confused with an older one of the same length); without one it keeps the statuses of a
  list of the same length, clears the errors, and begins at the first step that is not done.
\<close>

theorem initial_run_state_resume:
  assumes "initialRunState n prev start = (st, b)"
  shows "length st = n
    \<and> (\<forall>i. start = Some i \<longrightarrow> b = i \<and> st = replicate n StPending)
    \<and> (start = None \<and> length prev \<noteq> n \<longrightarrow> b = 0 \<and> st = replicate n StPending)
    \<and> (start = None \<and> length prev = n \<longrightarrow>
         (\<forall>i<b. st ! i = prev ! i \<and> is_done (st ! i)) \<and> b \<le> n \<and> (b < n \<longrightarrow> \<not> is_done (prev ! b))
         \<and> (\<forall>i. b \<le> i \<and> i < n \<longrightarrow> st ! i = (if is_error (prev ! i) then StPending else prev ! i)))"
proof -
  note n = initialRunState_nth [OF assms]
  have fo: "first_open (replicate n StPending) = 0" by (cases n) auto
  have fresh: "st = replicate n StPending" if "\<not> (start = None \<and> length prev = n)"
    using n(1,2) that by (intro nth_equalityI) (auto simp: Let_def)
  moreover have "(\<forall>i<b. st ! i = prev ! i \<and> is_done (st ! i)) \<and> b \<le> n
      \<and> (b < n \<longrightarrow> \<not> is_done (prev ! b))
      \<and> (\<forall>i. b \<le> i \<and> i < n \<longrightarrow> st ! i = (if is_error (prev ! i) then StPending else prev ! i))"
    if a: "start = None" "length prev = n"
  proof -
    have b: "b = first_open prev" using n(3) a by simp
    have "i < b \<Longrightarrow> st ! i = prev ! i \<and> is_done (st ! i)" for i
      using n(2) [of i] a b first_open_le [of prev] first_open_done [of i prev] by (simp add: Let_def)
    then show ?thesis
      using b a n(2) first_open_le [of prev] first_open_stop [of prev] by (auto simp: Let_def)
  qed
  moreover have "start = None \<and> length prev \<noteq> n \<longrightarrow> b = 0" "\<forall>i. start = Some i \<longrightarrow> b = i"
    using n(3) fo by auto
  ultimately show ?thesis
    using n(1) by (cases "start = None \<and> length prev = n") (simp_all only: simp_thms, auto)
qed

theorem initial_run_state_resume_witness:
  "initialRunState 2 [StDone ''x'', StError RangeErr] None = ([StDone ''x'', StPending], 1)
   \<and> snd (initialRunState 2 [StDone ''x'', StDone ''y''] (Some 0)) = 0"
proof -
  have "initialRunState 2 [StDone ''x'', StError RangeErr] None = ([StDone ''x'', StPending], 1)"
    by (simp add: initialRunState_def upt_rec)
  moreover obtain st b where i: "initialRunState 2 [StDone ''x'', StDone ''y''] (Some 0) = (st, b)"
    by fastforce
  ultimately show ?thesis using initial_run_state_resume [OF i] by simp
qed

text \<open>
  A run without a wallet forgets what was done. When the wallet is disconnected, \<open>run\<close>
  resets the status of every step to pending, also of steps that are done, so that the next
  automatic resume starts again from the first step.
\<close>

theorem disconnected_run_forgets:
  assumes "\<not> re_wallet env" "\<not> isRunning statuses"
    and "res = run_sequence W T p env statuses steps None"
  shows "rr_statuses res = replicate (length steps) StPending
    \<and> snd (initialRunState (length steps) (rr_statuses res) None) = 0"
proof -
  have "rr_statuses res = replicate (length steps) StPending"
    using assms by (simp add: run_sequence_def map_replicate_const)
  moreover have "first_open (replicate n StPending) = 0" for n by (cases n) auto
  ultimately show ?thesis by (simp add: initialRunState_def Let_def)
qed

theorem disconnected_run_forgets_witness:
  "rr_statuses (run_sequence sample_web3 sample_lib 0 (sample_env\<lparr>re_wallet := False\<rparr>)
     [StDone ''a''] [sample_deposit] None) = [StPending]"
  using disconnected_run_forgets [of "sample_env\<lparr>re_wallet := False\<rparr>" "[StDone ''a'']" _
      sample_web3 sample_lib 0 "[sample_deposit]"]
  by (simp add: isRunning_def)

end
