(* ===== verification/Wallet_Accounts.thy ===== *)
theory Wallet_Accounts
  imports Market_Flows
begin

text \<open>
  The token accounts of the connected wallet. Every action that moves a token derives the
  wallet's associated account, asks the indexer or the RPC node whether it exists and prepends
  its creation otherwise; the app has four copies of this helper (\<open>app/src/market/data/actions/ata.ts\<close>,
  \<open>app/src/data/actions.ts\<close>, \<open>actions/claims.ts\<close>, \<open>actions/create.ts\<close>). The locale
  \<open>token_account\<close> is the contract the actions rely on; each copy is an instance of it.
  The reader of accounts is a function from addresses to account data (\<open>None\<close> when absent)
  or a read error.
\<close>

section \<open>The helpers\<close>

definition ensureAta ::
  "'a web3 \<Rightarrow> ('a \<Rightarrow> bytes option res) \<Rightarrow> 'a \<Rightarrow> 'a \<Rightarrow> ('a \<times> 'a tx_instruction option) res" where
  "ensureAta W getAccount owner mint =
     rbind (mkt_ata W (Addr owner) (Addr mint)) (\<lambda>ata.
     rbind (getAccount (pda_address ata)) (\<lambda>info.
       Inr (pda_address ata,
         case info of Some d \<Rightarrow> None
         | None \<Rightarrow> Some (createAtaIdempotentInstruction W owner (pda_address ata) owner mint))))"

definition market_ensureKassAta ::
  "'a web3 \<Rightarrow> ('a \<Rightarrow> bytes option res) \<Rightarrow> 'a \<Rightarrow> 'a \<Rightarrow> ('a \<times> 'a tx_instruction option) res" where
  "market_ensureKassAta W getAccount owner kassMint = ensureAta W getAccount owner kassMint"

definition actions_ensureKassAta ::
  "'a web3 \<Rightarrow> ('a \<Rightarrow> bytes option res) \<Rightarrow> 'a \<Rightarrow> 'a \<Rightarrow> ('a \<times> 'a tx_instruction option) res" where
  "actions_ensureKassAta W getAccountInfo authority kassMint =
     rbind (associatedTokenAccount W (Addr authority) (Addr kassMint)) (\<lambda>ata.
     rbind (getAccountInfo (pda_address ata)) (\<lambda>info.
       Inr (pda_address ata,
         case info of Some d \<Rightarrow> None
         | None \<Rightarrow> Some (createAtaIdempotentInstruction W authority (pda_address ata) authority kassMint))))"

text \<open>The local copy of the create instruction, in \<open>claims.ts\<close> and again in \<open>create.ts\<close>.\<close>

definition createAtaIdempotentIx :: "'a web3 \<Rightarrow> 'a \<Rightarrow> 'a \<Rightarrow> 'a \<Rightarrow> 'a \<Rightarrow> 'a tx_instruction" where
  "createAtaIdempotentIx W payer ata owner kassMint =
     \<lparr>ti_programId = ATA_PROGRAM_ID W,
       ti_keys =
         [\<lparr>am_pubkey = payer, am_isSigner = True, am_isWritable = True\<rparr>,
          \<lparr>am_pubkey = ata, am_isSigner = False, am_isWritable = True\<rparr>,
          \<lparr>am_pubkey = owner, am_isSigner = False, am_isWritable = False\<rparr>,
          \<lparr>am_pubkey = kassMint, am_isSigner = False, am_isWritable = False\<rparr>,
          \<lparr>am_pubkey = SYSTEM_PROGRAM_ID W, am_isSigner = False, am_isWritable = False\<rparr>,
          \<lparr>am_pubkey = TOKEN_PROGRAM_ID W, am_isSigner = False, am_isWritable = False\<rparr>],
       ti_data = [1]\<rparr>"

definition claims_ensureKassAta ::
  "'a web3 \<Rightarrow> ('a \<Rightarrow> bytes option res) \<Rightarrow> 'a \<Rightarrow> 'a \<Rightarrow> ('a \<times> 'a tx_instruction option) res" where
  "claims_ensureKassAta W getAccountInfo owner kassMint =
     rbind (associatedTokenAccount W (Addr owner) (Addr kassMint)) (\<lambda>ata.
     rbind (getAccountInfo (pda_address ata)) (\<lambda>info.
       Inr (pda_address ata,
         case info of Some d \<Rightarrow> None
         | None \<Rightarrow> Some (createAtaIdempotentIx W owner (pda_address ata) owner kassMint))))"

definition create_createAtaIdempotentIx :: "'a web3 \<Rightarrow> 'a \<Rightarrow> 'a \<Rightarrow> 'a \<Rightarrow> 'a \<Rightarrow> 'a tx_instruction" where
  "create_createAtaIdempotentIx W payer ata owner kassMint =
     \<lparr>ti_programId = ATA_PROGRAM_ID W,
       ti_keys =
         [\<lparr>am_pubkey = payer, am_isSigner = True, am_isWritable = True\<rparr>,
          \<lparr>am_pubkey = ata, am_isSigner = False, am_isWritable = True\<rparr>,
          \<lparr>am_pubkey = owner, am_isSigner = False, am_isWritable = False\<rparr>,
          \<lparr>am_pubkey = kassMint, am_isSigner = False, am_isWritable = False\<rparr>,
          \<lparr>am_pubkey = SYSTEM_PROGRAM_ID W, am_isSigner = False, am_isWritable = False\<rparr>,
          \<lparr>am_pubkey = TOKEN_PROGRAM_ID W, am_isSigner = False, am_isWritable = False\<rparr>],
       ti_data = [1]\<rparr>"

definition ensureCreatorKassAta ::
  "'a web3 \<Rightarrow> ('a \<Rightarrow> bytes option res) \<Rightarrow> 'a \<Rightarrow> 'a \<Rightarrow> ('a \<times> 'a tx_instruction option) res" where
  "ensureCreatorKassAta W getAccountInfo creator kassMint =
     rbind (associatedTokenAccount W (Addr creator) (Addr kassMint)) (\<lambda>ata.
     rbind (getAccountInfo (pda_address ata)) (\<lambda>info.
       Inr (pda_address ata,
         case info of Some d \<Rightarrow> None
         | None \<Rightarrow> Some (create_createAtaIdempotentIx W creator (pda_address ata) creator kassMint))))"

text \<open>\<open>createIx ? [createIx, ix] : [ix]\<close>\<close>

definition with_create :: "'a tx_instruction option \<Rightarrow> 'a tx_instruction \<Rightarrow> 'a tx_instruction list" where
  "with_create createIx ix = (case createIx of Some c \<Rightarrow> [c, ix] | None \<Rightarrow> [ix])"

section \<open>The contract\<close>

text \<open>
  The list \<open>ixs\<close> is the action \<open>ix\<close>, preceded by the creation of the account \<open>ata\<close> exactly
  when there is none; \<open>ata\<close> is the associated account of owner and mint.
\<close>

definition with_account ::
  "'a web3 \<Rightarrow> ('a \<Rightarrow> bytes option res) \<Rightarrow> 'a \<Rightarrow> 'a \<Rightarrow> 'a \<Rightarrow> 'a tx_instruction \<Rightarrow> 'a tx_instruction list \<Rightarrow> bool" where
  "with_account W getAccount owner mint ata ix ixs \<longleftrightarrow>
     md_ata W (Addr owner) (Addr mint) = Inr ata \<and>
     (\<exists>info. getAccount ata = Inr info \<and>
       ixs = (if info = None then [createAtaIdempotentInstruction W owner ata owner mint, ix] else [ix]))"

lemma with_account_last: "with_account W idx u k ata ix ixs \<Longrightarrow> last ixs = ix \<and> ixs \<noteq> []"
  by (auto simp: with_account_def split: if_splits)

locale token_account =
  fixes ensure :: "'a web3 \<Rightarrow> ('a \<Rightarrow> bytes option res) \<Rightarrow> 'a \<Rightarrow> 'a \<Rightarrow> ('a \<times> 'a tx_instruction option) res"
  assumes ensure_eq: "ensure W getAccount owner mint =
    rbind (md_ata W (Addr owner) (Addr mint)) (\<lambda>ata.
    rbind (getAccount ata) (\<lambda>info.
      Inr (ata, if info = None then Some (createAtaIdempotentInstruction W owner ata owner mint) else None)))"
begin

text \<open>What a caller gets that builds its instruction on the account and prepends the creation.\<close>

lemma action_iff:
  "rbind (ensure W getAccount owner mint) (\<lambda>(ata, createIx).
      rbind (mk ata) (\<lambda>ix. Inr (with_create createIx ix))) = Inr ixs
    \<longleftrightarrow> (\<exists>ata ix. mk ata = Inr ix \<and> with_account W getAccount owner mint ata ix ixs)"
proof (cases "md_ata W (Addr owner) (Addr mint)")
  case (Inr a)
  then show ?thesis
    by (cases "getAccount a") (auto simp: ensure_eq rbind_Inr_iff with_account_def with_create_def)
qed (simp add: ensure_eq with_account_def)

lemma ensure_D:
  assumes "ensure W getAccount owner mint = Inr (ata, c)"
  shows "with_account W getAccount owner mint ata ix (with_create c ix)"
  using assms by (auto simp: ensure_eq rbind_Inr_iff with_account_def with_create_def)

lemma returns:
  assumes "pda_total W" "\<forall>a. is_ok (getAccount a)"
  shows "is_ok (ensure W getAccount owner mint)"
  unfolding ensure_eq using assms by (intro is_ok_bindI is_ok_pdas) simp_all

end

section \<open>The four copies keep the contract\<close>

lemma rbind_rmap: "rbind (rmap g x) f = rbind x (\<lambda>a. f (g a))"
  by (cases x) simp_all

lemma md_ata_mkt: "md_ata W o1 m = rmap pda_address (mkt_ata W o1 m)"
  by (cases "pubkeyBytes W o1"; cases "pubkeyBytes W m";
      cases "lift_web (w3_find_pda W [projr (pubkeyBytes W o1), w3_bytes W (TOKEN_PROGRAM_ID W),
        projr (pubkeyBytes W m)] (ATA_PROGRAM_ID W))")
    (auto simp: mkt_ata_def md_ata_def mkt_derive_def)

lemma md_ata_oracle: "md_ata W o1 m = rmap pda_address (associatedTokenAccount W o1 m)"
  by (cases "pubkeyBytes W o1"; cases "pubkeyBytes W m";
      cases "lift_web (w3_find_pda W [projr (pubkeyBytes W o1), w3_bytes W (TOKEN_PROGRAM_ID W),
        projr (pubkeyBytes W m)] (ATA_PROGRAM_ID W))")
    (auto simp: associatedTokenAccount_def md_ata_def derive_def)

lemma create_copies:
  "createAtaIdempotentIx W = createAtaIdempotentInstruction W"
  "create_createAtaIdempotentIx W = createAtaIdempotentInstruction W"
  by (intro ext; simp add: createAtaIdempotentIx_def create_createAtaIdempotentIx_def
      createAtaIdempotentInstruction_def w_def ro_def)+

lemma option_case_if: "(case info of Some d \<Rightarrow> None | None \<Rightarrow> Some c) = (if info = None then Some c else None)"
  by (cases info) simp_all

interpretation ma: token_account market_ensureKassAta
  by unfold_locales (simp add: market_ensureKassAta_def ensureAta_def md_ata_mkt rbind_rmap option_case_if)

interpretation lp: token_account ensureAta
  by unfold_locales (simp add: ensureAta_def md_ata_mkt rbind_rmap option_case_if)

interpretation oa: token_account actions_ensureKassAta
  by unfold_locales (simp add: actions_ensureKassAta_def md_ata_oracle rbind_rmap option_case_if)

interpretation cl: token_account claims_ensureKassAta
  by (unfold_locales, unfold claims_ensureKassAta_def create_copies option_case_if) (simp add: md_ata_oracle rbind_rmap)

interpretation cr: token_account ensureCreatorKassAta
  by (unfold_locales, unfold ensureCreatorKassAta_def create_copies option_case_if) (simp add: md_ata_oracle rbind_rmap)

section \<open>Addresses of a form\<close>

lemma toAddress_Inr: "toAddress W f x = Inr a \<Longrightarrow> addr W x = Inr a"
  by (cases x) (auto simp: toAddress_def lift_web_def split: option.splits)

lemma toAddress_iff: "toAddress W f x = Inr a \<longleftrightarrow> addr W x = Inr a"
  by (cases x) (auto simp: toAddress_def lift_web_def split: option.splits)

lemma toAddress_rbind:
  assumes "rbind (toAddress W f x) g = Inr y"
  obtains a where "addr W x = Inr a" "g a = Inr y"
  using assms toAddress_Inr by (metis rbind_Inr_iff)

text \<open>A reader that has no account.\<close>

definition no_account :: "256 word \<Rightarrow> bytes option res" where
  "no_account a = Inr None"

lemma no_account_ok: "\<forall>a. is_ok (no_account a)"
  by (simp add: no_account_def)

end
