(* ===== verification/Market_Actions.thy ===== *)
theory Market_Actions
  imports Market_View Action_Sequence Wallet_Accounts
begin

text \<open>
  The app's market actions (\<open>app/src/market/data/actions/\<close>): the instruction lists of creating,
  contributing, cancelling, refunding, claiming, resolving, collecting the fee, redeeming and
  closing, and the step sequences of the bulk forms. The indexer is a function from addresses to
  account data or a read error. \<open>Promise.all\<close> is \<open>collect\<close>: the first failing entry in list
  order stands for the rejection.
\<close>

section \<open>Funding (create.ts, contribute.ts, cancel.ts, refund.ts)\<close>

definition is_integer :: "real \<Rightarrow> bool" where
  "is_integer x \<longleftrightarrow> x = of_int \<lfloor>x\<rfloor>"

record 'a build_create_args =
  bcm_oracle :: "'a address_input"
  bcm_kassMint :: "'a address_input"
  bcm_creator :: "'a address_input"
  bcm_seedAmount :: int
  bcm_outcomeIndex :: "real option"

definition buildCreateMarketIxs ::
  "'a web3 \<Rightarrow> ('a \<Rightarrow> bytes option res) \<Rightarrow> 'a build_create_args \<Rightarrow> 'a tx_instruction list res" where
  "buildCreateMarketIxs W getAccount a =
     rbind (toAddress W ''Oracle'' (bcm_oracle a)) (\<lambda>orc.
     rbind (toAddress W ''KASS mint'' (bcm_kassMint a)) (\<lambda>kassMint.
     rbind (toAddress W ''Creator'' (bcm_creator a)) (\<lambda>creator.
     if bcm_seedAmount a \<le> 0 then Inl (ValidationErr ''Seed amount must be greater than zero.'')
     else (let outcomeIndex = (case bcm_outcomeIndex a of None \<Rightarrow> 0 | Some i \<Rightarrow> i) in
       if \<not> is_integer outcomeIndex \<or> outcomeIndex < 0
       then Inl (ValidationErr ''Outcome index must be a non-negative whole number.'')
       else rbind (market_ensureKassAta W getAccount creator kassMint) (\<lambda>(ata, createIx).
         rbind (createMarket W \<lparr>mcm_creator = Addr creator, mcm_oracle = Addr orc,
           mcm_kassMint = Addr kassMint, mcm_creatorKassAta = Addr ata,
           mcm_seedAmount = bcm_seedAmount a, mcm_outcomeIndex = \<lfloor>outcomeIndex\<rfloor>,
           mcm_programId = None\<rparr>) (\<lambda>ix.
         Inr (with_create createIx ix)))))))"

definition buildContributeIxs ::
  "'a web3 \<Rightarrow> ('a \<Rightarrow> bytes option res) \<Rightarrow> 'a address_input \<Rightarrow> 'a address_input \<Rightarrow> 'a address_input
    \<Rightarrow> int \<Rightarrow> 'a tx_instruction list res" where
  "buildContributeIxs W getAccount marketIn kassMintIn contributorIn amount =
     rbind (toAddress W ''Market'' marketIn) (\<lambda>mkt.
     rbind (toAddress W ''KASS mint'' kassMintIn) (\<lambda>kassMint.
     rbind (toAddress W ''Contributor'' contributorIn) (\<lambda>contributor.
     if amount \<le> 0 then Inl (ValidationErr ''Amount must be greater than zero.'')
     else rbind (market_ensureKassAta W getAccount contributor kassMint) (\<lambda>(ata, createIx).
       rbind (contribute W \<lparr>mco_contributor = Addr contributor, mco_market = Addr mkt,
         mco_contributorKassAta = Addr ata, mco_amount = amount, mco_programId = None\<rparr>) (\<lambda>ix.
       Inr (with_create createIx ix))))))"

definition buildCancelIxs ::
  "'a web3 \<Rightarrow> 'a address_input \<Rightarrow> 'a address_input \<Rightarrow> 'a tx_instruction list res" where
  "buildCancelIxs W marketIn oracleIn =
     rbind (toAddress W ''Market'' marketIn) (\<lambda>mkt.
     rbind (toAddress W ''Oracle'' oracleIn) (\<lambda>orc.
     rbind (cancel W \<lparr>mca_market = Addr mkt, mca_oracle = Addr orc, mca_programId = None\<rparr>) (\<lambda>ix.
     Inr [ix])))"

definition buildRefundIxs ::
  "'a web3 \<Rightarrow> ('a \<Rightarrow> bytes option res) \<Rightarrow> 'a address_input \<Rightarrow> 'a address_input \<Rightarrow> 'a address_input
    \<Rightarrow> 'a tx_instruction list res" where
  "buildRefundIxs W getAccount marketIn kassMintIn contributorIn =
     rbind (toAddress W ''Market'' marketIn) (\<lambda>mkt.
     rbind (toAddress W ''KASS mint'' kassMintIn) (\<lambda>kassMint.
     rbind (toAddress W ''Contributor'' contributorIn) (\<lambda>contributor.
     rbind (market_ensureKassAta W getAccount contributor kassMint) (\<lambda>(ata, createIx).
     rbind (refund W \<lparr>mrf_market = Addr mkt, mrf_contributor = Addr contributor,
       mrf_contributorKassAta = Addr ata, mrf_programId = None\<rparr>) (\<lambda>ix.
     Inr (with_create createIx ix))))))"

section \<open>After activation (claimLp.ts, resolve.ts, collectFee.ts, redeem.ts, closeMarket.ts)\<close>

definition buildClaimLpIxs ::
  "'a web3 \<Rightarrow> ('a \<Rightarrow> bytes option res) \<Rightarrow> 'a address_input \<Rightarrow> 'a address_input \<Rightarrow> 'a address_input
    \<Rightarrow> 'a tx_instruction list res" where
  "buildClaimLpIxs W getAccount marketIn contributorIn lpMintIn =
     rbind (toAddress W ''Market'' marketIn) (\<lambda>mkt.
     rbind (toAddress W ''Contributor'' contributorIn) (\<lambda>contributor.
     rbind (toAddress W ''LP mint'' lpMintIn) (\<lambda>lpMint.
     rbind (ensureAta W getAccount contributor lpMint) (\<lambda>(ata, createIx).
     rbind (claimLp W \<lparr>mcl_market = Addr mkt, mcl_contributor = Addr contributor,
       mcl_contributorLpAta = Addr ata, mcl_programId = None\<rparr>) (\<lambda>ix.
     Inr (with_create createIx ix))))))"

definition buildResolveIxs ::
  "'a web3 \<Rightarrow> 'a address_input \<Rightarrow> 'a address_input \<Rightarrow> 'a address_input \<Rightarrow> 'a tx_instruction list res" where
  "buildResolveIxs W marketIn oracleIn questionIn =
     rbind (toAddress W ''Market'' marketIn) (\<lambda>mkt.
     rbind (toAddress W ''Oracle'' oracleIn) (\<lambda>orc.
     rbind (toAddress W ''Question'' questionIn) (\<lambda>question.
     rbind (md_vaultEventAuthority W) (\<lambda>cvEventAuthority.
     rbind (resolveMarket W \<lparr>mrm_market = Addr mkt, mrm_oracle = Addr orc,
       mrm_question = Addr question, mrm_cvEventAuthority = Addr (pda_address cvEventAuthority),
       mrm_cvProgram = None, mrm_programId = None\<rparr>) (\<lambda>ix.
     Inr [ix])))))"

definition app_marketRefs :: "'a web3 \<Rightarrow> 'a address_input \<Rightarrow> 'a mmarket_account \<Rightarrow> 'a market_refs res" where
  "app_marketRefs W marketPubkey market =
     rbind (toAddress W ''Market'' marketPubkey) (\<lambda>mkt. marketRefsFromAccount W (Addr mkt) market)"

definition COLLECT_FEE_COMPUTE_UNITS :: nat where
  "COLLECT_FEE_COMPUTE_UNITS = 800000"

definition buildCollectFeeIxs ::
  "'a web3 \<Rightarrow> 'a tx_lib \<Rightarrow> 'a address_input \<Rightarrow> 'a mmarket_account \<Rightarrow> 'a mconfig_account
    \<Rightarrow> 'a tx_instruction list res" where
  "buildCollectFeeIxs W T marketIn marketAccount config =
     rbind (app_marketRefs W marketIn marketAccount) (\<lambda>refs.
     rbind (collectFeeInstruction W refs (Addr (mcc_feeDestination config))) (\<lambda>ix.
     Inr [tl_limit T COLLECT_FEE_COMPUTE_UNITS, ix]))"

definition REDEEM_COMPUTE_UNITS :: nat where
  "REDEEM_COMPUTE_UNITS = 300000"

text \<open>\<open>userKassAta!\<close> is set because the flow is asked to include the KASS account.\<close>

definition buildRedeemIxs ::
  "'a web3 \<Rightarrow> 'a tx_lib \<Rightarrow> 'a market_refs \<Rightarrow> 'a address_input \<Rightarrow> 'a tx_instruction list res" where
  "buildRedeemIxs W T refs userIn =
     rbind (toAddress W ''Holder'' userIn) (\<lambda>user.
     rbind (ensureConditionalAtasInstructions W refs (Addr user) None True) (\<lambda>ensure.
     rbind (redeemInstructions W \<lparr>tp_refs = refs, tp_user = Addr user, tp_outcome = OYes,
         tp_userKassAta = Addr (the (ea_userKassAta ensure)),
         tp_userYesAta = Some (Addr (ea_userYesAta ensure)),
         tp_userNoAta = Some (Addr (ea_userNoAta ensure)), tp_outputAmountMin = None\<rparr>)
       (\<lambda>(instructions, yes, no).
     Inr ((tl_limit T REDEEM_COMPUTE_UNITS # ea_instructions ensure) @ instructions))))"

definition CLOSE_MARKET_COMPUTE_UNITS :: nat where
  "CLOSE_MARKET_COMPUTE_UNITS = 400000"

definition buildCloseMarketIxs ::
  "'a web3 \<Rightarrow> 'a tx_lib \<Rightarrow> 'a address_input \<Rightarrow> 'a address_input \<Rightarrow> 'a tx_instruction list res" where
  "buildCloseMarketIxs W T marketIn creatorIn =
     rbind (toAddress W ''Market'' marketIn) (\<lambda>mkt.
     rbind (toAddress W ''Creator'' creatorIn) (\<lambda>creator.
     rbind (closeMarketInstruction W (Addr mkt) (Addr creator)) (\<lambda>ix.
     Inr [tl_limit T CLOSE_MARKET_COMPUTE_UNITS, ix])))"

section \<open>All outcomes (createAll.ts)\<close>

record 'a build_create_all_args =
  bca_oracle :: "'a address_input"
  bca_optionsCount :: real
  bca_creator :: "'a address_input"
  bca_kassMint :: "'a address_input"
  bca_seedAmount :: int

definition create_all_step_of ::
  "'a tx_instruction option \<Rightarrow> nat \<Rightarrow> 'a create_all_step \<Rightarrow> 'a activate_step" where
  "create_all_step_of createIx i step =
     \<lparr>as_label = codes ''Outcome '' @ dec_nat (nat (cas_outcomeIndex step)),
       as_computeUnits = None,
       as_ixs = (if i = 0 then with_create createIx (cas_instruction step) else [cas_instruction step]),
       as_checkAccount = cas_market step, as_skipIfLanded = None\<rparr>"

definition buildCreateAllSteps ::
  "'a web3 \<Rightarrow> ('a \<Rightarrow> bytes option res) \<Rightarrow> 'a build_create_all_args \<Rightarrow> 'a activate_step list res" where
  "buildCreateAllSteps W getAccount a =
     rbind (toAddress W ''Oracle'' (bca_oracle a)) (\<lambda>orc.
     rbind (toAddress W ''KASS mint'' (bca_kassMint a)) (\<lambda>kassMint.
     rbind (toAddress W ''Creator'' (bca_creator a)) (\<lambda>creator.
     if \<not> is_integer (bca_optionsCount a) \<or> bca_optionsCount a < 1
     then Inl (ValidationErr ''Oracle must have at least one outcome.'')
     else if bca_seedAmount a \<le> 0 then Inl (ValidationErr ''Seed amount must be greater than zero.'')
     else rbind (market_ensureKassAta W getAccount creator kassMint) (\<lambda>(ata, createIx).
       rbind (createAllOutcomeMarkets W \<lparr>cap_oracle = Addr orc,
         cap_optionsCount = \<lfloor>bca_optionsCount a\<rfloor>, cap_creator = Addr creator,
         cap_kassMint = Addr kassMint, cap_creatorKassAta = Addr ata,
         cap_seedAmount = bca_seedAmount a, cap_programId = None\<rparr>) (\<lambda>steps.
       Inr (map (\<lambda>(i, step). create_all_step_of createIx i step) (zip [0..<length steps] steps)))))))"

section \<open>Bulk forms (bulkLiquidity.ts)\<close>

record 'a bulk_contribute_entry =
  bce_market :: "'a address_input"
  bce_label :: utext
  bce_amount :: int

text \<open>A step of a bulk form, once its instructions are built: it may never be skipped.\<close>

definition bulk_step ::
  "'a web3 \<Rightarrow> utext \<Rightarrow> 'a address_input \<Rightarrow> 'a tx_instruction list res \<Rightarrow> 'a activate_step res" where
  "bulk_step W label marketIn ixs =
     rbind ixs (\<lambda>ixs. rbind (toAddress W ''Market'' marketIn) (\<lambda>mkt.
       Inr \<lparr>as_label = label, as_computeUnits = None, as_ixs = ixs, as_checkAccount = mkt,
         as_skipIfLanded = Some False\<rparr>))"

definition buildBulkContributeSteps ::
  "'a web3 \<Rightarrow> ('a \<Rightarrow> bytes option res) \<Rightarrow> 'a address_input \<Rightarrow> 'a address_input
    \<Rightarrow> 'a bulk_contribute_entry list \<Rightarrow> 'a activate_step list res" where
  "buildBulkContributeSteps W getAccount kassMint contributor entries =
     (let funded = filter (\<lambda>e. bce_amount e > 0) entries in
      if length funded = 0 then Inl (ValidationErr ''Enter an amount to deposit.'')
      else collect (map (\<lambda>e. bulk_step W (bce_label e) (bce_market e)
        (buildContributeIxs W getAccount (bce_market e) kassMint contributor (bce_amount e))) funded))"

record 'a bulk_funding_entry =
  bfe_market :: "'a address_input"
  bfe_oracle :: "'a address_input"
  bfe_label :: utext
  bfe_totalContributed :: int
  bfe_minLiquidity :: int
  bfe_amount :: int

definition outcomesReadyToActivate ::
  "'a bulk_funding_entry list \<Rightarrow> bool \<Rightarrow> 'a bulk_funding_entry list" where
  "outcomesReadyToActivate entries oracleTerminal =
     (if oracleTerminal then []
      else filter (\<lambda>e. snd (fundingProgress (bfe_totalContributed e + bfe_amount e) (bfe_minLiquidity e)))
        entries)"

definition buildBulkActivateSteps ::
  "'a web3 \<Rightarrow> 'a address_input \<Rightarrow> 'a address_input \<Rightarrow> 'a bulk_funding_entry list
    \<Rightarrow> 'a activate_step list res" where
  "buildBulkActivateSteps W kassMint payer entries =
     rmap concat (collect (map (\<lambda>e.
       rmap (map (\<lambda>s. s\<lparr>as_label := bfe_label e @ codes '' '' @ [183] @ codes '' '' @ as_label s\<rparr>))
         (buildActivateSequence W \<lparr>cmp_market = bfe_market e, cmp_oracle = bfe_oracle e,
           cmp_kassMint = kassMint, cmp_payer = payer\<rparr>)) entries))"

record 'a bulk_add_entry =
  bae_market :: "'a address_input"
  bae_label :: utext
  bae_amount :: int
  bae_marketAccount :: "'a mmarket_account"
  bae_reserves :: amm_reserves

definition buildBulkAddLiquiditySteps ::
  "'a web3 \<Rightarrow> 'a tx_lib \<Rightarrow> 'a address_input \<Rightarrow> 'a bulk_add_entry list \<Rightarrow> int option
    \<Rightarrow> 'a activate_step list res" where
  "buildBulkAddLiquiditySteps W T contributor entries slippageBps =
     (let funded = filter (\<lambda>e. bae_amount e > 0) entries in
      if length funded = 0 then Inl (ValidationErr ''Enter an amount to deposit.'')
      else collect (map (\<lambda>e. bulk_step W (bae_label e) (bae_market e)
        (rmap fst (buildAddLiquidityIxs W T (bae_market e) (bae_marketAccount e) (bae_reserves e)
          contributor (bae_amount e) slippageBps))) funded))"

record 'a bulk_claim_entry =
  ble_market :: "'a address_input"
  ble_label :: utext
  ble_lpMint :: "'a address_input"

definition buildBulkClaimLpSteps ::
  "'a web3 \<Rightarrow> ('a \<Rightarrow> bytes option res) \<Rightarrow> 'a address_input \<Rightarrow> 'a bulk_claim_entry list
    \<Rightarrow> 'a activate_step list res" where
  "buildBulkClaimLpSteps W getAccount contributor entries =
     (if length entries = 0 then Inl (ValidationErr ''Nothing to withdraw.'')
      else collect (map (\<lambda>e. bulk_step W (ble_label e) (ble_market e)
        (buildClaimLpIxs W getAccount (ble_market e) contributor (ble_lpMint e))) entries))"

section \<open>What the builders of one action return\<close>

lemma contribute_shape:
  "contribute W \<lparr>mco_contributor = Addr u, mco_market = Addr m, mco_contributorKassAta = Addr k,
      mco_amount = x, mco_programId = p\<rparr> = Inr t
    \<Longrightarrow> signers t = [u] \<and> key_addresses t ! 0 = m \<and> key_addresses t ! 3 = k
      \<and> ti_data t = u8 (mix_code MIx_Contribute) @ u64LE x"
  by (auto simp: contribute_def flow_opens key_addresses_def signers_def)

lemma refund_shape:
  "refund W \<lparr>mrf_market = Addr m, mrf_contributor = Addr u, mrf_contributorKassAta = Addr k,
      mrf_programId = p\<rparr> = Inr t
    \<Longrightarrow> signers t = [] \<and> key_addresses t ! 0 = m \<and> key_addresses t ! 3 = k \<and> key_addresses t ! 4 = u"
  by (auto simp: refund_def flow_opens key_addresses_def signers_def)

lemma claimLp_shape:
  "claimLp W \<lparr>mcl_market = Addr m, mcl_contributor = Addr u, mcl_contributorLpAta = Addr k,
      mcl_programId = p\<rparr> = Inr t
    \<Longrightarrow> signers t = [] \<and> key_addresses t ! 0 = m \<and> key_addresses t ! 3 = k \<and> key_addresses t ! 4 = u"
  by (auto simp: claimLp_def flow_opens key_addresses_def signers_def)

lemma createMarket_keys:
  "createMarket W \<lparr>mcm_creator = Addr u, mcm_oracle = o1, mcm_kassMint = Addr m,
      mcm_creatorKassAta = Addr k, mcm_seedAmount = x, mcm_outcomeIndex = i, mcm_programId = p\<rparr> = Inr t
    \<Longrightarrow> signers t = [u] \<and> key_addresses t ! 4 = m \<and> key_addresses t ! 6 = k
      \<and> ti_data t = u8 (mix_code MIx_CreateMarket) @ u64LE x @ u8 i"
  by (auto simp: createMarket_def flow_opens key_addresses_def signers_def)

lemma buildContributeIxs_shape:
  assumes "buildContributeIxs W idx mktIn mintIn userIn amount = Inr ixs"
  shows "\<exists>m k u ata ix. addr W mktIn = Inr m \<and> addr W mintIn = Inr k \<and> addr W userIn = Inr u
    \<and> 0 < amount \<and> with_account W idx u k ata ix ixs \<and> signers ix = [u]
    \<and> key_addresses ix ! 0 = m \<and> key_addresses ix ! 3 = ata
    \<and> ti_data ix = u8 (mix_code MIx_Contribute) @ u64LE amount"
  using assms unfolding buildContributeIxs_def
  by (auto elim!: toAddress_rbind split: if_splits simp: ma.action_iff dest!: contribute_shape) blast

lemma buildRefundIxs_shape:
  assumes "buildRefundIxs W idx mktIn mintIn userIn = Inr ixs"
  shows "\<exists>m k u ata ix. addr W mktIn = Inr m \<and> addr W mintIn = Inr k \<and> addr W userIn = Inr u
    \<and> with_account W idx u k ata ix ixs \<and> signers ix = []
    \<and> key_addresses ix ! 0 = m \<and> key_addresses ix ! 3 = ata \<and> key_addresses ix ! 4 = u"
  using assms unfolding buildRefundIxs_def
  by (auto elim!: toAddress_rbind simp: ma.action_iff dest!: refund_shape)

lemma buildClaimLpIxs_shape:
  assumes "buildClaimLpIxs W idx mktIn userIn mintIn = Inr ixs"
  shows "\<exists>m k u ata ix. addr W mktIn = Inr m \<and> addr W mintIn = Inr k \<and> addr W userIn = Inr u
    \<and> with_account W idx u k ata ix ixs \<and> signers ix = []
    \<and> key_addresses ix ! 0 = m \<and> key_addresses ix ! 3 = ata \<and> key_addresses ix ! 4 = u"
  using assms unfolding buildClaimLpIxs_def
  by (auto elim!: toAddress_rbind simp: lp.action_iff dest!: claimLp_shape)

lemma buildCreateMarketIxs_shape:
  assumes "buildCreateMarketIxs W idx a = Inr ixs"
  shows "\<exists>k u ata ix i. addr W (bcm_kassMint a) = Inr k \<and> addr W (bcm_creator a) = Inr u
    \<and> 0 < bcm_seedAmount a \<and> 0 \<le> i \<and> of_int i = (case bcm_outcomeIndex a of None \<Rightarrow> 0 | Some x \<Rightarrow> x)
    \<and> with_account W idx u k ata ix ixs \<and> signers ix = [u]
    \<and> key_addresses ix ! 4 = k \<and> key_addresses ix ! 6 = ata
    \<and> ti_data ix = u8 (mix_code MIx_CreateMarket) @ u64LE (bcm_seedAmount a) @ u8 i"
proof -
  let ?x = "case bcm_outcomeIndex a of None \<Rightarrow> 0 | Some x \<Rightarrow> x"
  from assms obtain o1 k u ata ix where a: "addr W (bcm_kassMint a) = Inr k" "addr W (bcm_creator a) = Inr u"
    and p: "0 < bcm_seedAmount a" "is_integer ?x" "0 \<le> ?x"
    and ix: "createMarket W \<lparr>mcm_creator = Addr u, mcm_oracle = Addr o1, mcm_kassMint = Addr k,
         mcm_creatorKassAta = Addr ata, mcm_seedAmount = bcm_seedAmount a, mcm_outcomeIndex = \<lfloor>?x\<rfloor>,
         mcm_programId = None\<rparr> = Inr ix"
    and ixs: "with_account W idx u k ata ix ixs"
    unfolding buildCreateMarketIxs_def Let_def ma.action_iff
    by (auto elim!: toAddress_rbind split: if_splits simp: ma.action_iff)
  have "of_int \<lfloor>?x\<rfloor> = ?x" "0 \<le> \<lfloor>?x\<rfloor>" using p unfolding is_integer_def by (metis, simp)
  then show ?thesis
    using a p(1) ixs createMarket_keys [OF ix]
    by (intro exI [of _ k] exI [of _ u] exI [of _ ata] exI [of _ ix] exI [of _ "\<lfloor>?x\<rfloor>"]) simp
qed

section \<open>Steps of the bulk forms\<close>

lemma bulk_step_iff:
  "bulk_step W l m r = Inr s \<longleftrightarrow> (\<exists>ixs a. r = Inr ixs \<and> toAddress W ''Market'' m = Inr a
     \<and> s = \<lparr>as_label = l, as_computeUnits = None, as_ixs = ixs, as_checkAccount = a,
         as_skipIfLanded = Some False\<rparr>)"
  by (auto simp: bulk_step_def rbind_Inr_iff)

lemma collect_map_nth:
  assumes "collect (map f xs) = Inr ys"
  shows "length ys = length xs" "i < length xs \<Longrightarrow> f (xs ! i) = Inr (ys ! i)"
proof -
  have m: "map f xs = map Inr ys" using assms by (simp add: collect_Inr_iff)
  then show l: "length ys = length xs" by (metis length_map)
  show "f (xs ! i) = Inr (ys ! i)" if "i < length xs"
    using arg_cong [OF m, of "\<lambda>zs. zs ! i"] that l by simp
qed

text \<open>What the split promises (\<open>uniform_split_exact\<close>), as rules.\<close>

lemma uniform_split_spec:
  assumes "uniformSplit tot (int n) = Inr shares" "0 < n"
  shows "length shares = n" "sum_list shares = tot" "\<forall>x\<in>set shares. 0 \<le> x"
proof -
  have "0 \<le> tot" using assms by (auto simp: uniformSplit_def split: if_splits)
  then show "length shares = n" "sum_list shares = tot" "\<forall>x\<in>set shares. 0 \<le> x"
    using uniform_split_exact [of "int n" tot] assms by auto
qed

lemma contribute_step:
  assumes "bulk_step W (bce_label e) (bce_market e)
      (buildContributeIxs W idx (bce_market e) kassMint user (bce_amount e)) = Inr s"
    and "addr W user = Inr u"
  shows "as_skipIfLanded s = Some False \<and> as_label s = bce_label e
    \<and> addr W (bce_market e) = Inr (as_checkAccount s)
    \<and> key_addresses (last (as_ixs s)) ! 0 = as_checkAccount s
    \<and> signers (last (as_ixs s)) = [u]
    \<and> ti_data (last (as_ixs s)) = u8 (mix_code MIx_Contribute) @ u64LE (bce_amount e)"
proof -
  obtain ixs a where b: "buildContributeIxs W idx (bce_market e) kassMint user (bce_amount e) = Inr ixs"
    "toAddress W ''Market'' (bce_market e) = Inr a"
    and s: "s = \<lparr>as_label = bce_label e, as_computeUnits = None, as_ixs = ixs, as_checkAccount = a,
         as_skipIfLanded = Some False\<rparr>"
    using assms(1) unfolding bulk_step_iff by blast
  obtain k ata ix where "addr W (bce_market e) = Inr (key_addresses ix ! 0)"
    "with_account W idx u k ata ix ixs" "signers ix = [u]"
    "ti_data ix = u8 (mix_code MIx_Contribute) @ u64LE (bce_amount e)"
    using buildContributeIxs_shape [OF b(1)] assms(2) by auto
  then show ?thesis using s toAddress_Inr [OF b(2)] with_account_last by fastforce
qed

lemma filter_pos_sum: "\<forall>x\<in>set xs. 0 \<le> x \<Longrightarrow> sum_list (filter (\<lambda>x. 0 < x) xs) = sum_list xs"
  for xs :: "int list"
  by (induction xs) auto

text \<open>The entries of the form: one row per sub-market, with its share of the total.\<close>

definition deposit_entries ::
  "('a address_input \<times> utext) list \<Rightarrow> int list \<Rightarrow> 'a bulk_contribute_entry list" where
  "deposit_entries rows shares =
     map (\<lambda>((m, l), x). \<lparr>bce_market = m, bce_label = l, bce_amount = x\<rparr>) (zip rows shares)"

lemma deposit_row: "e \<in> set (deposit_entries rows shares) \<Longrightarrow> (bce_market e, bce_label e) \<in> set rows"
  unfolding deposit_entries_def by (auto dest: set_zip_leftD)

lemma funded_amounts:
  assumes "length rows = length shares"
  shows "map bce_amount (filter (\<lambda>e. bce_amount e > 0) (deposit_entries rows shares)) = filter (\<lambda>x. 0 < x) shares"
proof -
  have "map bce_amount (deposit_entries rows shares) = shares"
    using assms by (simp add: deposit_entries_def case_prod_beta comp_def)
  moreover have "map bce_amount (filter (\<lambda>e. bce_amount e > 0) es) = filter (\<lambda>x. 0 < x) (map bce_amount es)"
    for es :: "'a bulk_contribute_entry list" by (induction es) auto
  ultimately show ?thesis by metis
qed


lemma contribute_returns:
  assumes "pda_total W" "\<forall>a. is_ok (idx a)" "0 < x"
    "is_ok (addr W m)" "is_ok (addr W k)" "is_ok (addr W u)"
  shows "is_ok (buildContributeIxs W idx m k u x)"
  unfolding buildContributeIxs_def contribute_def Let_def
  using assms by (auto intro!: is_ok_bindI is_ok_case_prod ma.returns lp.returns is_ok_pdas
      simp: toAddress_addr simp del: collect.simps)


section \<open>The handoff to activation\<close>

lemma buildActivateSequence_length: "buildActivateSequence W p = Inr g \<Longrightarrow> length g = 4"
  by (auto simp: buildActivateSequence_def rbind_Inr_iff)

lemma concat_block:
  assumes "\<forall>b\<in>set bs. length b = n" "i < length bs"
  shows "take n (drop (n * i) (concat bs)) = bs ! i"
  using assms
proof (induction bs arbitrary: i)
  case (Cons b bs)
  then show ?case by (cases i) (simp_all add: drop_append)
qed simp

lemma concat_blocks_length: "\<forall>b\<in>set bs. length b = n \<Longrightarrow> length (concat bs) = n * length bs"
  by (induction bs) auto

text \<open>
  C33: the deposit that funds a market also brings it up. The outcomes whose activation the bulk
  form appends are exactly those that the program's gate would let through once the deposit has
  landed (Funding status, floor reached, oracle not terminal), in row order; the steps appended
  are four per outcome, each block the outcome's own compose and activate sequence with the same
  instructions, probe accounts and compute limits, relabelled with the outcome's name in front.
\<close>

theorem bulk_handoff_matches_gate:
  assumes "\<forall>e\<in>set entries. 0 \<le> bfe_totalContributed e + bfe_amount e"
    and "ready = outcomesReadyToActivate entries (kass_terminal phase)"
    and "buildBulkActivateSteps W kassMint payer ready = Inr steps"
  shows "ready = filter (\<lambda>e. activate_gate 0 (bfe_totalContributed e + bfe_amount e) (bfe_minLiquidity e) phase
        = Inr ()) entries
    \<and> length steps = 4 * length ready
    \<and> (\<forall>i<length ready. \<exists>g. buildActivateSequence W \<lparr>cmp_market = bfe_market (ready ! i),
          cmp_oracle = bfe_oracle (ready ! i), cmp_kassMint = kassMint, cmp_payer = payer\<rparr> = Inr g
        \<and> take 4 (drop (4 * i) steps)
            = map (\<lambda>s. s\<lparr>as_label := bfe_label (ready ! i) @ codes '' '' @ [183] @ codes '' '' @ as_label s\<rparr>) g)"
proof -
  let ?p = "\<lambda>e. \<lparr>cmp_market = bfe_market e, cmp_oracle = bfe_oracle e, cmp_kassMint = kassMint, cmp_payer = payer\<rparr>"
  let ?r = "\<lambda>e s. s\<lparr>as_label := bfe_label e @ codes '' '' @ [183] @ codes '' '' @ as_label s\<rparr>"
  let ?f = "\<lambda>e. rmap (map (?r e)) (buildActivateSequence W (?p e))"
  have g: "activate_gate 0 t m phase = Inr () \<longleftrightarrow> m \<le> t \<and> \<not> kass_terminal phase" for t m
    by (simp add: activate_gate_def)
  have ready: "ready = filter (\<lambda>e. activate_gate 0 (bfe_totalContributed e + bfe_amount e)
      (bfe_minLiquidity e) phase = Inr ()) entries"
    unfolding assms(2) outcomesReadyToActivate_def g using assms(1)
    by (auto simp: fundingProgress_funded intro!: filter_cong)
  obtain bs where c: "collect (map ?f ready) = Inr bs" and s: "steps = concat bs"
    using assms(3) by (auto simp: buildBulkActivateSteps_def rmap_Inr_iff)
  note n = collect_map_nth [OF c]
  have blk: "\<exists>g. buildActivateSequence W (?p (ready ! i)) = Inr g \<and> bs ! i = map (?r (ready ! i)) g \<and> length g = 4"
    if "i < length ready" for i
    using n(2) [OF that] buildActivateSequence_length unfolding rmap_Inr_iff by blast
  have "\<forall>b\<in>set bs. length b = 4"
    using blk n(1) by (metis (no_types, lifting) in_set_conv_nth length_map)
  then have "length steps = 4 * length ready" "\<And>i. i < length ready \<Longrightarrow> take 4 (drop (4 * i) steps) = bs ! i"
    unfolding s using concat_block [of bs 4] concat_blocks_length [of bs 4] n(1) by simp_all
  then show ?thesis using ready blk by auto
qed

definition sample_funding :: "int \<Rightarrow> int \<Rightarrow> 256 word bulk_funding_entry" where
  "sample_funding t x = \<lparr>bfe_market = Addr 3, bfe_oracle = Addr 4, bfe_label = codes ''A'',
     bfe_totalContributed = t, bfe_minLiquidity = 100, bfe_amount = x\<rparr>"

theorem bulk_handoff_matches_gate_witness:
  "\<exists>steps. buildBulkActivateSteps sample_web3 (Addr 5) (Addr 7)
      (outcomesReadyToActivate [sample_funding 60 40, sample_funding 60 39] (kass_terminal 1)) = Inr steps
    \<and> length steps = 4"
proof -
  let ?es = "[sample_funding 60 40, sample_funding 60 39]"
  have r: "outcomesReadyToActivate ?es (kass_terminal 1) = [sample_funding 60 40]"
    by (simp add: outcomesReadyToActivate_def kass_terminal_def fundingProgress_def sample_funding_def)
  have "is_ok (buildBulkActivateSteps sample_web3 (Addr 5) (Addr 7) [sample_funding 60 40])"
    unfolding buildBulkActivateSteps_def
    using activate_sequence_returns [OF sample_pda_total] by (simp add: sample_addr del: collect.simps)
  then obtain steps where s: "buildBulkActivateSteps sample_web3 (Addr 5) (Addr 7)
      (outcomesReadyToActivate ?es (kass_terminal 1)) = Inr steps" unfolding r by (auto simp: is_ok_iff)
  have "\<forall>e\<in>set ?es. 0 \<le> bfe_totalContributed e + bfe_amount e" by (simp add: sample_funding_def)
  then have "length steps = 4 * length (outcomesReadyToActivate ?es (kass_terminal 1))"
    using bulk_handoff_matches_gate [OF _ refl s] by blast
  then show ?thesis using s r by simp
qed

section \<open>Actions on a wallet's accounts, cranks, and the batch of outcomes\<close>

text \<open>
  An action never names a token account that will not exist. Whatever \<open>create\<close>,
  \<open>contribute\<close>, \<open>refund\<close> and \<open>claim_lp\<close> action the app builds, it is one instruction, preceded
  by the creation of one token account exactly when the indexer has none there; that account is
  the associated account of the acting wallet for the mint at hand, it is the one the instruction
  names as source or destination, and it is the wallet that pays for it. The stakes are positive;
  refund and claim carry no signer of their own and pay to the contributor they name.
\<close>

theorem actions_use_ready_accounts:
  assumes "buildCreateMarketIxs W idx c = Inr ixs1" "buildContributeIxs W idx mktIn mintIn userIn x = Inr ixs2"
    and "buildRefundIxs W idx mktIn mintIn userIn = Inr ixs3"
    and "buildClaimLpIxs W idx mktIn userIn lpIn = Inr ixs4"
  shows "(\<exists>k u ata ix. addr W (bcm_kassMint c) = Inr k \<and> addr W (bcm_creator c) = Inr u
      \<and> with_account W idx u k ata ix ixs1 \<and> signers ix = [u] \<and> key_addresses ix ! 6 = ata
      \<and> 0 < bcm_seedAmount c)
    \<and> (\<exists>m k u. addr W mktIn = Inr m \<and> addr W mintIn = Inr k \<and> addr W userIn = Inr u \<and> 0 < x
      \<and> (\<exists>ata ix. with_account W idx u k ata ix ixs2 \<and> signers ix = [u]
          \<and> key_addresses ix ! 0 = m \<and> key_addresses ix ! 3 = ata)
      \<and> (\<exists>ata ix. with_account W idx u k ata ix ixs3 \<and> signers ix = []
          \<and> key_addresses ix ! 0 = m \<and> key_addresses ix ! 3 = ata \<and> key_addresses ix ! 4 = u))
    \<and> (\<exists>m k u ata ix. addr W mktIn = Inr m \<and> addr W lpIn = Inr k \<and> addr W userIn = Inr u
      \<and> with_account W idx u k ata ix ixs4 \<and> signers ix = []
      \<and> key_addresses ix ! 0 = m \<and> key_addresses ix ! 3 = ata \<and> key_addresses ix ! 4 = u)"
proof -
  note r = buildRefundIxs_shape [OF assms(3)] and k = buildContributeIxs_shape [OF assms(2)]
  obtain m k u where a: "addr W mktIn = Inr m" "addr W mintIn = Inr k" "addr W userIn = Inr u" "0 < x"
    "\<exists>ata ix. with_account W idx u k ata ix ixs2 \<and> signers ix = [u]
          \<and> key_addresses ix ! 0 = m \<and> key_addresses ix ! 3 = ata" using k by blast
  have "\<exists>ata ix. with_account W idx u k ata ix ixs3 \<and> signers ix = []
          \<and> key_addresses ix ! 0 = m \<and> key_addresses ix ! 3 = ata \<and> key_addresses ix ! 4 = u"
    using r a(1-3) by auto
  then show ?thesis
    using a buildCreateMarketIxs_shape [OF assms(1)] buildClaimLpIxs_shape [OF assms(4)] by blast
qed

lemma action_returns:
  assumes "pda_total W" "\<forall>a. is_ok (idx a)" "is_ok (addr W m)" "is_ok (addr W k)" "is_ok (addr W u)"
  shows "is_ok (buildRefundIxs W idx m k u)" "is_ok (buildClaimLpIxs W idx m u k)"
  unfolding buildRefundIxs_def refund_def buildClaimLpIxs_def claimLp_def Let_def
  using assms by (auto intro!: is_ok_bindI is_ok_case_prod ma.returns lp.returns is_ok_pdas
      simp: toAddress_addr simp del: collect.simps)

lemma create_returns:
  assumes "pda_total W" "\<forall>a. is_ok (idx a)" "is_ok (addr W (bcm_oracle c))"
    "is_ok (addr W (bcm_kassMint c))" "is_ok (addr W (bcm_creator c))" "0 < bcm_seedAmount c"
    "bcm_outcomeIndex c = None"
  shows "is_ok (buildCreateMarketIxs W idx c)"
  unfolding buildCreateMarketIxs_def createMarket_def Let_def
  using assms by (auto intro!: is_ok_bindI is_ok_case_prod ma.returns lp.returns is_ok_pdas
      simp: toAddress_addr is_integer_def simp del: collect.simps)

definition sample_new_market :: "256 word build_create_args" where
  "sample_new_market = \<lparr>bcm_oracle = Addr 4, bcm_kassMint = Addr 5, bcm_creator = Addr 7,
     bcm_seedAmount = 10, bcm_outcomeIndex = None\<rparr>"

theorem actions_use_ready_accounts_witness:
  "\<exists>ixs ata. buildContributeIxs sample_web3 no_account (Addr 3) (Addr 5) (Addr 7) 10 = Inr ixs
     \<and> length ixs = 2 \<and> key_addresses (ixs ! 0) ! 1 = ata \<and> key_addresses (ixs ! 1) ! 3 = ata"
proof -
  have "is_ok (buildCreateMarketIxs sample_web3 no_account sample_new_market)"
    by (rule create_returns [OF sample_pda_total no_account_ok sample_addr sample_addr sample_addr])
      (simp_all add: sample_new_market_def)
  moreover have "is_ok (buildContributeIxs sample_web3 no_account (Addr 3) (Addr 5) (Addr 7) 10)"
    by (rule contribute_returns [OF sample_pda_total no_account_ok]) (simp_all add: sample_addr)
  moreover have "is_ok (buildRefundIxs sample_web3 no_account (Addr 3) (Addr 5) (Addr 7))"
    "is_ok (buildClaimLpIxs sample_web3 no_account (Addr 3) (Addr 7) (Addr 5))"
    by (rule action_returns [OF sample_pda_total no_account_ok sample_addr sample_addr sample_addr])+
  ultimately obtain a b c d where *: "buildCreateMarketIxs sample_web3 no_account sample_new_market = Inr a"
    "buildContributeIxs sample_web3 no_account (Addr 3) (Addr 5) (Addr 7) 10 = Inr b"
    "buildRefundIxs sample_web3 no_account (Addr 3) (Addr 5) (Addr 7) = Inr c"
    "buildClaimLpIxs sample_web3 no_account (Addr 3) (Addr 7) (Addr 5) = Inr d"
    by (auto simp: is_ok_iff)
  obtain u k ata ix where "with_account sample_web3 no_account u k ata ix b" "key_addresses ix ! 3 = ata"
    using actions_use_ready_accounts [OF *] by blast
  then show ?thesis using *(2)
    by (auto simp: with_account_def no_account_def createAtaIdempotentInstruction_def key_addresses_def)
qed

text \<open>The cranks: no signer, and the accounts that the market or the configuration records.\<close>

lemma cranks_need_no_signer:
  shows "buildCancelIxs W m o1 = Inr ixs \<Longrightarrow> \<exists>ix. ixs = [ix] \<and> signers ix = []"
    "buildResolveIxs W m o1 q = Inr ixs \<Longrightarrow> \<exists>ix. ixs = [ix] \<and> signers ix = []"
    "buildCloseMarketIxs W T m c = Inr ixs
      \<Longrightarrow> \<exists>ix. ixs = [tl_limit T 400000, ix] \<and> signers ix = [] \<and> addr W c = Inr (key_addresses ix ! 1)"
    "buildCollectFeeIxs W T m d cfg = Inr ixs
      \<Longrightarrow> \<exists>ix. ixs = [tl_limit T 800000, ix] \<and> signers ix = [] \<and> mcc_feeDestination cfg \<in> set (key_addresses ix)"
  by (auto simp: buildCancelIxs_def cancel_def buildResolveIxs_def resolveMarket_def buildCloseMarketIxs_def
      closeMarketInstruction_def marketClose_def buildCollectFeeIxs_def collectFeeInstruction_def collectFee_def
      CLOSE_MARKET_COMPUTE_UNITS_def COLLECT_FEE_COMPUTE_UNITS_def flow_opens signers_def key_addresses_def
      dest!: toAddress_Inr)

lemma create_all_ata_in_step_0_only:
  assumes "buildCreateAllSteps W idx a = Inr steps"
  shows "\<exists>u k ata ixs. addr W (bca_creator a) = Inr u \<and> addr W (bca_kassMint a) = Inr k
    \<and> real (length steps) = bca_optionsCount a \<and> length ixs = length steps
    \<and> with_account W idx u k ata (ixs ! 0) (as_ixs (steps ! 0))
    \<and> (\<forall>i<length steps. 0 < i \<longrightarrow> as_ixs (steps ! i) = [ixs ! i])
    \<and> (\<forall>i<length steps. skippable (steps ! i) \<and> as_label (steps ! i) = codes ''Outcome '' @ dec_nat i)"
proof -
  from assms obtain o1 k u where a: "addr W (bca_kassMint a) = Inr k" "addr W (bca_creator a) = Inr u"
    and p: "is_integer (bca_optionsCount a)" "1 \<le> bca_optionsCount a"
    and r: "rbind (market_ensureKassAta W idx u k) (\<lambda>(ata, createIx).
       rbind (createAllOutcomeMarkets W \<lparr>cap_oracle = Addr o1,
         cap_optionsCount = \<lfloor>bca_optionsCount a\<rfloor>, cap_creator = Addr u,
         cap_kassMint = Addr k, cap_creatorKassAta = Addr ata,
         cap_seedAmount = bca_seedAmount a, cap_programId = None\<rparr>) (\<lambda>steps.
       Inr (map (\<lambda>(i, step). create_all_step_of createIx i step) (zip [0..<length steps] steps)))) = Inr steps"
    unfolding buildCreateAllSteps_def by (auto elim!: toAddress_rbind split: if_splits)
  from r obtain ata c ss where e: "market_ensureKassAta W idx u k = Inr (ata, c)"
    and ss: "createAllOutcomeMarkets W \<lparr>cap_oracle = Addr o1,
         cap_optionsCount = \<lfloor>bca_optionsCount a\<rfloor>, cap_creator = Addr u,
         cap_kassMint = Addr k, cap_creatorKassAta = Addr ata,
         cap_seedAmount = bca_seedAmount a, cap_programId = None\<rparr> = Inr ss"
    and st: "steps = map (\<lambda>(i, step). create_all_step_of c i step) (zip [0..<length ss] ss)"
    by (auto simp: rbind_Inr_iff)
  note n = create_all_steps [OF ss]
  have idx: "cas_outcomeIndex (ss ! i) = int i" if "i < length ss" for i
    using n create_step_D that by blast
  have l: "length steps = length ss" by (simp add: st)
  have nth: "steps ! i = create_all_step_of c i (ss ! i)" if "i < length ss" for i using that by (simp add: st)
  have "bca_optionsCount a = of_int \<lfloor>bca_optionsCount a\<rfloor>" using p(1) unfolding is_integer_def .
  also have "\<lfloor>bca_optionsCount a\<rfloor> = int (length ss)" using n by simp
  finally have c: "bca_optionsCount a = real (length ss)" by simp
  then have z: "0 < length ss" using p(2) by linarith
  show ?thesis
    using a ma.ensure_D [OF e, of "cas_instruction (ss ! 0)"] z c idx
    by (intro exI [of _ u] exI [of _ k] exI [of _ ata] exI [of _ "map cas_instruction ss"])
      (auto simp: l nth create_all_step_of_def skippable_def)
qed

end
