(* ===== verification/Oracle_Actions.thy ===== *)
theory Oracle_Actions
  imports Wallet_Accounts Oracle_Calls Oracle_State JS_Number
begin

text \<open>
  The app's oracle actions (\<open>app/src/data/actions.ts\<close>, \<open>actions/claims.ts\<close>,
  \<open>actions/challenge.ts\<close>): the validation of the form's inputs, the wallet's KASS account and
  the SDK instruction. The connection is a function from addresses to account data or a read
  error; a \<open>ValidationError\<close> carries the name of the field.
\<close>

section \<open>Numbers of a form\<close>

text \<open>
  A \<open>bigint | number\<close>: a bigint, a finite number, or one of \<open>NaN\<close> and the infinities. \<open>toBigInt\<close>
  is \<open>BigInt(x)\<close>, \<open>js_trunc\<close> is \<open>Math.trunc\<close>.
\<close>

datatype num_input = NBig int | NNum real | NNonFinite

definition js_trunc :: "real \<Rightarrow> int" where
  "js_trunc x = (if x < 0 then - \<lfloor>- x\<rfloor> else \<lfloor>x\<rfloor>)"

definition whole :: "real \<Rightarrow> bool" where
  "whole x \<longleftrightarrow> x = of_int \<lfloor>x\<rfloor>"

fun toBigInt :: "num_input \<Rightarrow> int res" where
  "toBigInt (NBig v) = Inr v"
| "toBigInt (NNum x) = (if whole x then Inr \<lfloor>x\<rfloor> else Inl RangeErr)"
| "toBigInt NNonFinite = Inl RangeErr"

fun truncToBigInt :: "num_input \<Rightarrow> int res" where
  "truncToBigInt (NBig v) = Inr v"
| "truncToBigInt (NNum x) = Inr (js_trunc x)"
| "truncToBigInt NNonFinite = Inl RangeErr"

text \<open>
  An SDK builder converts its amount while it encodes the payload, after its derivations: an
  amount that does not convert is reported only when those succeed.
\<close>

definition with_amount :: "num_input \<Rightarrow> (int \<Rightarrow> 'a res) \<Rightarrow> 'a res" where
  "with_amount n f = (case toBigInt n of Inr v \<Rightarrow> f v | Inl e \<Rightarrow> rbind (f 0) (\<lambda>_. Inl e))"

section \<open>Validation (actions.ts)\<close>

definition requirePositiveAmount :: "string \<Rightarrow> num_input \<Rightarrow> unit res" where
  "requirePositiveAmount field amount =
     rbind (truncToBigInt amount) (\<lambda>v. if v \<le> 0 then Inl (ValidationErr field) else Inr ())"

definition requireOption :: "real \<Rightarrow> int option \<Rightarrow> unit res" where
  "requireOption option optionsCount =
     (if \<not> whole option \<or> option < 0 then Inl (ValidationErr ''option'')
      else (case optionsCount of
          Some c \<Rightarrow> if option \<ge> of_int c then Inl (ValidationErr ''option'') else Inr ()
        | None \<Rightarrow> Inr ()))"

definition requireUri :: "uri_input \<Rightarrow> unit res" where
  "requireUri uri = (if length (uriBytes uri) > 200 then Inl (ValidationErr ''uri'') else Inr ())"

definition requireVoteKind :: "real \<Rightarrow> unit res" where
  "requireVoteKind kind =
     (if kind \<noteq> of_int VOTE_APPROVE \<and> kind \<noteq> of_int VOTE_DUPLICATE then Inl (ValidationErr ''kind'')
      else Inr ())"

text \<open>The digest of the platform is a parameter.\<close>

definition hashToContentHash :: "(bytes \<Rightarrow> bytes) \<Rightarrow> uri_input \<Rightarrow> bytes" where
  "hashToContentHash sha256 input = sha256 (uriBytes input)"

section \<open>Staking actions (actions.ts)\<close>

record 'a build_propose_args =
  bpr_oracle :: "'a address_input"
  bpr_kassMint :: "'a address_input"
  bpr_authority :: "'a address_input"
  bpr_option :: real
  bpr_bond :: num_input
  bpr_optionsCount :: "int option"
  bpr_programId :: "'a option"

definition buildProposeIxs ::
  "'a web3 \<Rightarrow> ('a \<Rightarrow> bytes option res) \<Rightarrow> 'a build_propose_args \<Rightarrow> 'a tx_instruction list res" where
  "buildProposeIxs W getAccountInfo a =
     rbind (requirePositiveAmount ''bond'' (bpr_bond a)) (\<lambda>_.
     rbind (requireOption (bpr_option a) (bpr_optionsCount a)) (\<lambda>_.
     rbind (addr W (bpr_authority a)) (\<lambda>authority.
     rbind (addr W (bpr_kassMint a)) (\<lambda>kassMint.
     rbind (actions_ensureKassAta W getAccountInfo authority kassMint) (\<lambda>(ata, createIx).
     rbind (with_amount (bpr_bond a) (\<lambda>bond.
       propose W \<lparr>ppa_oracle = bpr_oracle a, ppa_authority = Addr authority,
         ppa_authorityKass = Addr ata, ppa_option = \<lfloor>bpr_option a\<rfloor>, ppa_bond = bond,
         ppa_programId = bpr_programId a\<rparr>)) (\<lambda>ix.
     Inr (with_create createIx ix)))))))"

record 'a build_submit_fact_args =
  bsf_oracle :: "'a address_input"
  bsf_kassMint :: "'a address_input"
  bsf_submitter :: "'a address_input"
  bsf_contentHash :: bytes
  bsf_stake :: num_input
  bsf_uri :: uri_input
  bsf_programId :: "'a option"

definition buildSubmitFactIxs ::
  "'a web3 \<Rightarrow> ('a \<Rightarrow> bytes option res) \<Rightarrow> 'a build_submit_fact_args \<Rightarrow> 'a tx_instruction list res" where
  "buildSubmitFactIxs W getAccountInfo a =
     rbind (requirePositiveAmount ''stake'' (bsf_stake a)) (\<lambda>_.
     rbind (requireUri (bsf_uri a)) (\<lambda>_.
     rbind (addr W (bsf_submitter a)) (\<lambda>submitter.
     rbind (addr W (bsf_kassMint a)) (\<lambda>kassMint.
     rbind (actions_ensureKassAta W getAccountInfo submitter kassMint) (\<lambda>(ata, createIx).
     rbind (with_amount (bsf_stake a) (\<lambda>stake.
       submitFact W \<lparr>sfa_oracle = bsf_oracle a, sfa_submitter = Addr submitter,
         sfa_submitterKass = Addr ata, sfa_contentHash = bsf_contentHash a, sfa_stake = stake,
         sfa_uri = bsf_uri a, sfa_programId = bsf_programId a\<rparr>)) (\<lambda>ix.
     Inr (with_create createIx ix)))))))"

record 'a build_vote_fact_args =
  bvf_oracle :: "'a address_input"
  bvf_kassMint :: "'a address_input"
  bvf_fact :: "'a address_input"
  bvf_voter :: "'a address_input"
  bvf_kind :: real
  bvf_stake :: num_input
  bvf_programId :: "'a option"

definition buildVoteFactIxs ::
  "'a web3 \<Rightarrow> ('a \<Rightarrow> bytes option res) \<Rightarrow> 'a build_vote_fact_args \<Rightarrow> 'a tx_instruction list res" where
  "buildVoteFactIxs W getAccountInfo a =
     rbind (requirePositiveAmount ''stake'' (bvf_stake a)) (\<lambda>_.
     rbind (requireVoteKind (bvf_kind a)) (\<lambda>_.
     rbind (addr W (bvf_voter a)) (\<lambda>voter.
     rbind (addr W (bvf_kassMint a)) (\<lambda>kassMint.
     rbind (actions_ensureKassAta W getAccountInfo voter kassMint) (\<lambda>(ata, createIx).
     rbind (with_amount (bvf_stake a) (\<lambda>stake.
       voteFact W \<lparr>vfa_oracle = bvf_oracle a, vfa_fact = bvf_fact a, vfa_voter = Addr voter,
         vfa_voterKass = Addr ata, vfa_kind = \<lfloor>bvf_kind a\<rfloor>, vfa_stake = stake,
         vfa_programId = bvf_programId a\<rparr>)) (\<lambda>ix.
     Inr (with_create createIx ix)))))))"

section \<open>Settlement actions (claims.ts)\<close>

text \<open>The coercion of \<open>claims.ts\<close>, \<open>challenge.ts\<close> and \<open>admin.ts\<close>: a failure names the field.\<close>

definition field_addr :: "'a web3 \<Rightarrow> string \<Rightarrow> 'a address_input \<Rightarrow> 'a res" where
  "field_addr W field a =
     (case a of Addr x \<Rightarrow> Inr x
      | B58 s \<Rightarrow> (case w3_of_string W s of Some x \<Rightarrow> Inr x | None \<Rightarrow> Inl (ValidationErr field)))"

definition requireNonce :: "num_input option \<Rightarrow> int res" where
  "requireNonce nonce =
     (case nonce of None \<Rightarrow> Inl (ValidationErr ''oracleNonce'')
      | Some n \<Rightarrow> (case truncToBigInt n of
            Inl e \<Rightarrow> Inl (ValidationErr ''oracleNonce'')
          | Inr v \<Rightarrow> if v < 0 then Inl (ValidationErr ''oracleNonce'') else Inr v))"

record 'a build_claim_proposer_args =
  bcp_oracleNonce :: "num_input option"
  bcp_proposer :: "'a address_input"
  bcp_authority :: "'a address_input"
  bcp_kassMint :: "'a address_input"
  bcp_programId :: "'a option"

definition buildClaimProposerIxs ::
  "'a web3 \<Rightarrow> ('a \<Rightarrow> bytes option res) \<Rightarrow> 'a build_claim_proposer_args \<Rightarrow> 'a tx_instruction list res" where
  "buildClaimProposerIxs W getAccountInfo a =
     rbind (requireNonce (bcp_oracleNonce a)) (\<lambda>nonce.
     rbind (field_addr W ''authority'' (bcp_authority a)) (\<lambda>authority.
     rbind (field_addr W ''kassMint'' (bcp_kassMint a)) (\<lambda>kassMint.
     rbind (claims_ensureKassAta W getAccountInfo authority kassMint) (\<lambda>(ata, createIx).
     rbind (claimProposer W \<lparr>cpa_nonce = nonce, cpa_proposer = bcp_proposer a, cpa_destKass = Addr ata,
       cpa_rentRecipient = Addr authority, cpa_programId = bcp_programId a\<rparr>) (\<lambda>ix.
     Inr (with_create createIx ix))))))"

record 'a build_claim_fact_args =
  bcf_oracleNonce :: "num_input option"
  bcf_fact :: "'a address_input"
  bcf_authority :: "'a address_input"
  bcf_kassMint :: "'a address_input"
  bcf_programId :: "'a option"

definition buildClaimFactIxs ::
  "'a web3 \<Rightarrow> ('a \<Rightarrow> bytes option res) \<Rightarrow> 'a build_claim_fact_args \<Rightarrow> 'a tx_instruction list res" where
  "buildClaimFactIxs W getAccountInfo a =
     rbind (requireNonce (bcf_oracleNonce a)) (\<lambda>nonce.
     rbind (field_addr W ''authority'' (bcf_authority a)) (\<lambda>authority.
     rbind (field_addr W ''kassMint'' (bcf_kassMint a)) (\<lambda>kassMint.
     rbind (claims_ensureKassAta W getAccountInfo authority kassMint) (\<lambda>(ata, createIx).
     rbind (claimFact W \<lparr>cfa_nonce = nonce, cfa_fact = bcf_fact a, cfa_destKass = Addr ata,
       cfa_rentRecipient = Addr authority, cfa_programId = bcf_programId a\<rparr>) (\<lambda>ix.
     Inr (with_create createIx ix))))))"

record 'a build_claim_fact_vote_args =
  bcv_oracleNonce :: "num_input option"
  bcv_factVote :: "'a address_input"
  bcv_fact :: "'a address_input"
  bcv_voter :: "'a address_input"
  bcv_kassMint :: "'a address_input"
  bcv_programId :: "'a option"

definition buildClaimFactVoteIxs ::
  "'a web3 \<Rightarrow> ('a \<Rightarrow> bytes option res) \<Rightarrow> 'a build_claim_fact_vote_args \<Rightarrow> 'a tx_instruction list res" where
  "buildClaimFactVoteIxs W getAccountInfo a =
     rbind (requireNonce (bcv_oracleNonce a)) (\<lambda>nonce.
     rbind (field_addr W ''voter'' (bcv_voter a)) (\<lambda>voter.
     rbind (field_addr W ''kassMint'' (bcv_kassMint a)) (\<lambda>kassMint.
     rbind (claims_ensureKassAta W getAccountInfo voter kassMint) (\<lambda>(ata, createIx).
     rbind (claimFactVote W \<lparr>cva_nonce = nonce, cva_factVote = bcv_factVote a, cva_fact = bcv_fact a,
       cva_destKass = Addr ata, cva_rentRecipient = Addr voter, cva_programId = bcv_programId a\<rparr>) (\<lambda>ix.
     Inr (with_create createIx ix))))))"

definition buildCloseAiClaimIxs :: "'a web3 \<Rightarrow> 'a closeAiClaim_args \<Rightarrow> 'a tx_instruction list res" where
  "buildCloseAiClaimIxs W a = rbind (closeAiClaim W a) (\<lambda>ix. Inr [ix])"

record 'a build_close_market_args =
  bcl_oracleNonce :: "num_input option"
  bcl_market :: "'a address_input"
  bcl_rentRecipient :: "'a address_input"
  bcl_programId :: "'a option"

definition buildCloseMarketIxs_oracle ::
  "'a web3 \<Rightarrow> 'a build_close_market_args \<Rightarrow> 'a tx_instruction list res" where
  "buildCloseMarketIxs_oracle W a =
     rbind (requireNonce (bcl_oracleNonce a)) (\<lambda>nonce.
     rbind (closeMarket W \<lparr>clm_nonce = nonce, clm_market = bcl_market a,
       clm_rentRecipient = bcl_rentRecipient a, clm_programId = bcl_programId a\<rparr>) (\<lambda>ix. Inr [ix]))"

definition resolveDaoAuthority :: "'a web3 \<Rightarrow> ('a \<Rightarrow> bytes option res) \<Rightarrow> 'a res" where
  "resolveDaoAuthority W getAccountInfo =
     rbind (pda_protocol W None) (\<lambda>protocolPda.
     rbind (getAccountInfo (pda_address protocolPda)) (\<lambda>info.
     if info = None \<or> info = Some [] then Inl (OtherErr ''Protocol account not found'')
     else rbind (decodeProtocol W (the info)) (\<lambda>protocol.
       if \<not> pc_governanceSet protocol then Inl (OtherErr ''Governance is not set yet'')
       else Inr (pc_daoAuthority protocol))))"

record 'a build_sweep_args =
  bsw_oracleNonce :: "num_input option"
  bsw_kassMint :: "'a address_input"
  bsw_daoAuthority :: "'a address_input"
  bsw_creator :: "'a address_input"
  bsw_programId :: "'a option"

definition buildSweepOracleIxs :: "'a web3 \<Rightarrow> 'a build_sweep_args \<Rightarrow> 'a tx_instruction list res" where
  "buildSweepOracleIxs W a =
     rbind (requireNonce (bsw_oracleNonce a)) (\<lambda>nonce.
     rbind (sweepOracle W \<lparr>swo_nonce = nonce, swo_kassMint = bsw_kassMint a,
       swo_daoAuthority = bsw_daoAuthority a, swo_creator = bsw_creator a,
       swo_programId = bsw_programId a\<rparr>) (\<lambda>ix. Inr [ix]))"

section \<open>Challenge actions (challenge.ts)\<close>

definition requireBytes32 :: "string \<Rightarrow> bytes \<Rightarrow> bytes res" where
  "requireBytes32 field bs = (if length bs \<noteq> 32 then Inl (ValidationErr field) else Inr bs)"

definition challenge_requireOption :: "real \<Rightarrow> int option \<Rightarrow> real res" where
  "challenge_requireOption option optionsCount =
     (if \<not> whole option \<or> option < 0 then Inl (ValidationErr ''option'')
      else (case optionsCount of
          Some c \<Rightarrow> if option \<ge> of_int c then Inl (ValidationErr ''option'') else Inr option
        | None \<Rightarrow> Inr option))"

record 'a build_open_challenge_args =
  bch_oracleNonce :: "num_input option"
  bch_proposer :: "'a address_input"
  bch_challenger :: "'a address_input"
  bch_question :: "'a address_input"
  bch_kassVault :: "'a address_input"
  bch_usdcVault :: "'a address_input"
  bch_passAmm :: "'a address_input"
  bch_failAmm :: "'a address_input"
  bch_kassVaultUnderlying :: "'a address_input"
  bch_passKassMint :: "'a address_input"
  bch_failKassMint :: "'a address_input"
  bch_oraclePassKass :: "'a address_input"
  bch_oracleFailKass :: "'a address_input"
  bch_cvEventAuthority :: "'a address_input"
  bch_kassDao :: "'a address_input"
  bch_usdcMint :: "'a address_input"
  bch_challengerUsdcSrc :: "'a address_input"
  bch_programId :: "'a option"

definition buildOpenChallengeIxs :: "'a web3 \<Rightarrow> 'a build_open_challenge_args \<Rightarrow> 'a tx_instruction list res" where
  "buildOpenChallengeIxs W a =
     rbind (requireNonce (bch_oracleNonce a)) (\<lambda>nonce.
     rbind (field_addr W ''proposer'' (bch_proposer a)) (\<lambda>proposer.
     rbind (field_addr W ''challenger'' (bch_challenger a)) (\<lambda>challenger.
     rbind (field_addr W ''question'' (bch_question a)) (\<lambda>question.
     rbind (field_addr W ''kassVault'' (bch_kassVault a)) (\<lambda>kassVault.
     rbind (field_addr W ''usdcVault'' (bch_usdcVault a)) (\<lambda>usdcVault.
     rbind (field_addr W ''passAmm'' (bch_passAmm a)) (\<lambda>passAmm.
     rbind (field_addr W ''failAmm'' (bch_failAmm a)) (\<lambda>failAmm.
     rbind (field_addr W ''kassVaultUnderlying'' (bch_kassVaultUnderlying a)) (\<lambda>kassVaultUnderlying.
     rbind (field_addr W ''passKassMint'' (bch_passKassMint a)) (\<lambda>passKassMint.
     rbind (field_addr W ''failKassMint'' (bch_failKassMint a)) (\<lambda>failKassMint.
     rbind (field_addr W ''oraclePassKass'' (bch_oraclePassKass a)) (\<lambda>oraclePassKass.
     rbind (field_addr W ''oracleFailKass'' (bch_oracleFailKass a)) (\<lambda>oracleFailKass.
     rbind (field_addr W ''cvEventAuthority'' (bch_cvEventAuthority a)) (\<lambda>cvEventAuthority.
     rbind (field_addr W ''kassDao'' (bch_kassDao a)) (\<lambda>kassDao.
     rbind (field_addr W ''usdcMint'' (bch_usdcMint a)) (\<lambda>usdcMint.
     rbind (field_addr W ''challengerUsdcSrc'' (bch_challengerUsdcSrc a)) (\<lambda>challengerUsdcSrc.
     rbind (openChallenge W \<lparr>och_nonce = nonce,
       och_proposer = Addr proposer, och_challenger = Addr challenger,
       och_question = Addr question, och_kassVault = Addr kassVault,
       och_usdcVault = Addr usdcVault, och_passAmm = Addr passAmm, och_failAmm = Addr failAmm,
       och_kassVaultUnderlying = Addr kassVaultUnderlying, och_passKassMint = Addr passKassMint,
       och_failKassMint = Addr failKassMint, och_oraclePassKass = Addr oraclePassKass,
       och_oracleFailKass = Addr oracleFailKass, och_cvEventAuthority = Addr cvEventAuthority,
       och_kassDao = Addr kassDao, och_usdcMint = Addr usdcMint,
       och_challengerUsdcSrc = Addr challengerUsdcSrc, och_programId = bch_programId a\<rparr>) (\<lambda>ix. Inr [ix]))))))))))))))))))"

record 'a build_settle_challenge_args =
  bst_oracleNonce :: "num_input option"
  bst_aiClaim :: "'a address_input"
  bst_proposer :: "'a address_input"
  bst_question :: "'a address_input"
  bst_passAmm :: "'a address_input"
  bst_failAmm :: "'a address_input"
  bst_cvEventAuthority :: "'a address_input"
  bst_kassVault :: "'a address_input"
  bst_kassVaultUnderlying :: "'a address_input"
  bst_passKassMint :: "'a address_input"
  bst_failKassMint :: "'a address_input"
  bst_oraclePassKass :: "'a address_input"
  bst_oracleFailKass :: "'a address_input"
  bst_proposerUsdc :: "'a address_input"
  bst_challengerUsdcDest :: "'a address_input"
  bst_challengerKass :: "'a address_input"
  bst_programId :: "'a option"

definition buildSettleChallengeIxs :: "'a web3 \<Rightarrow> 'a build_settle_challenge_args \<Rightarrow> 'a tx_instruction list res" where
  "buildSettleChallengeIxs W a =
     rbind (requireNonce (bst_oracleNonce a)) (\<lambda>nonce.
     rbind (field_addr W ''aiClaim'' (bst_aiClaim a)) (\<lambda>aiClaim.
     rbind (field_addr W ''proposer'' (bst_proposer a)) (\<lambda>proposer.
     rbind (field_addr W ''question'' (bst_question a)) (\<lambda>question.
     rbind (field_addr W ''passAmm'' (bst_passAmm a)) (\<lambda>passAmm.
     rbind (field_addr W ''failAmm'' (bst_failAmm a)) (\<lambda>failAmm.
     rbind (field_addr W ''cvEventAuthority'' (bst_cvEventAuthority a)) (\<lambda>cvEventAuthority.
     rbind (field_addr W ''kassVault'' (bst_kassVault a)) (\<lambda>kassVault.
     rbind (field_addr W ''kassVaultUnderlying'' (bst_kassVaultUnderlying a)) (\<lambda>kassVaultUnderlying.
     rbind (field_addr W ''passKassMint'' (bst_passKassMint a)) (\<lambda>passKassMint.
     rbind (field_addr W ''failKassMint'' (bst_failKassMint a)) (\<lambda>failKassMint.
     rbind (field_addr W ''oraclePassKass'' (bst_oraclePassKass a)) (\<lambda>oraclePassKass.
     rbind (field_addr W ''oracleFailKass'' (bst_oracleFailKass a)) (\<lambda>oracleFailKass.
     rbind (field_addr W ''proposerUsdc'' (bst_proposerUsdc a)) (\<lambda>proposerUsdc.
     rbind (field_addr W ''challengerUsdcDest'' (bst_challengerUsdcDest a)) (\<lambda>challengerUsdcDest.
     rbind (field_addr W ''challengerKass'' (bst_challengerKass a)) (\<lambda>challengerKass.
     rbind (settleChallenge W \<lparr>sch_nonce = nonce,
       sch_aiClaim = Addr aiClaim, sch_proposer = Addr proposer, sch_question = Addr question,
       sch_passAmm = Addr passAmm, sch_failAmm = Addr failAmm,
       sch_cvEventAuthority = Addr cvEventAuthority, sch_kassVault = Addr kassVault,
       sch_kassVaultUnderlying = Addr kassVaultUnderlying, sch_passKassMint = Addr passKassMint,
       sch_failKassMint = Addr failKassMint, sch_oraclePassKass = Addr oraclePassKass,
       sch_oracleFailKass = Addr oracleFailKass, sch_proposerUsdc = Addr proposerUsdc,
       sch_challengerUsdcDest = Addr challengerUsdcDest, sch_challengerKass = Addr challengerKass,
       sch_programId = bst_programId a\<rparr>) (\<lambda>ix. Inr [ix])))))))))))))))))"

record 'a build_submit_ai_claim_args =
  bai_oracle :: "'a address_input"
  bai_proposer :: "'a address_input option"
  bai_submitter :: "'a address_input"
  bai_modelId :: bytes
  bai_paramsHash :: bytes
  bai_ioHash :: bytes
  bai_option :: real
  bai_optionsCount :: "int option"
  bai_programId :: "'a option"

text \<open>The empty string is not a proposer: \<open>args.proposer ? \<dots> : \<dots>\<close> derives the default then.\<close>

definition default_proposer :: "'a web3 \<Rightarrow> 'a address_input option \<Rightarrow> 'a \<Rightarrow> 'a \<Rightarrow> 'a res" where
  "default_proposer W given orc submitter =
     (if given = None \<or> given = Some (B58 [])
      then rmap pda_address (pda_proposer W (Addr orc) (Addr submitter) None)
      else field_addr W ''proposer'' (the given))"

definition buildSubmitAiClaimIxs ::
  "'a web3 \<Rightarrow> 'a build_submit_ai_claim_args \<Rightarrow> 'a tx_instruction list res" where
  "buildSubmitAiClaimIxs W a =
     rbind (requireBytes32 ''modelId'' (bai_modelId a)) (\<lambda>modelId.
     rbind (requireBytes32 ''paramsHash'' (bai_paramsHash a)) (\<lambda>paramsHash.
     rbind (requireBytes32 ''ioHash'' (bai_ioHash a)) (\<lambda>ioHash.
     rbind (challenge_requireOption (bai_option a) (bai_optionsCount a)) (\<lambda>option.
     rbind (field_addr W ''oracle'' (bai_oracle a)) (\<lambda>orc.
     rbind (field_addr W ''submitter'' (bai_submitter a)) (\<lambda>submitter.
     rbind (default_proposer W (bai_proposer a) orc submitter) (\<lambda>proposer.
     rbind (submitAiClaim W \<lparr>aca_oracle = Addr orc, aca_proposer = Addr proposer,
       aca_authority = Addr submitter, aca_modelId = modelId, aca_paramsHash = paramsHash,
       aca_ioHash = ioHash, aca_option = \<lfloor>option\<rfloor>, aca_programId = bai_programId a\<rparr>) (\<lambda>ix.
     Inr [ix]))))))))"

section \<open>The actions that move the wallet's KASS\<close>

text \<open>
  The six actions as one sum: whose wallet, which mint, the number the form gives (the stake, or
  the nonce of a claim) and the SDK call the action stands for, given the wallet, its KASS
  account and that number as an integer.
\<close>

datatype 'a kass_action =
    KPropose "'a build_propose_args"
  | KSubmitFact "'a build_submit_fact_args"
  | KVoteFact "'a build_vote_fact_args"
  | KClaimProposer "'a build_claim_proposer_args"
  | KClaimFact "'a build_claim_fact_args"
  | KClaimFactVote "'a build_claim_fact_vote_args"

fun action_build ::
  "'a web3 \<Rightarrow> ('a \<Rightarrow> bytes option res) \<Rightarrow> 'a kass_action \<Rightarrow> 'a tx_instruction list res" where
  "action_build W getAcc (KPropose a) = buildProposeIxs W getAcc a"
| "action_build W getAcc (KSubmitFact a) = buildSubmitFactIxs W getAcc a"
| "action_build W getAcc (KVoteFact a) = buildVoteFactIxs W getAcc a"
| "action_build W getAcc (KClaimProposer a) = buildClaimProposerIxs W getAcc a"
| "action_build W getAcc (KClaimFact a) = buildClaimFactIxs W getAcc a"
| "action_build W getAcc (KClaimFactVote a) = buildClaimFactVoteIxs W getAcc a"

fun action_wallet :: "'a kass_action \<Rightarrow> 'a address_input" where
  "action_wallet (KPropose a) = bpr_authority a"
| "action_wallet (KSubmitFact a) = bsf_submitter a"
| "action_wallet (KVoteFact a) = bvf_voter a"
| "action_wallet (KClaimProposer a) = bcp_authority a"
| "action_wallet (KClaimFact a) = bcf_authority a"
| "action_wallet (KClaimFactVote a) = bcv_voter a"

fun action_mint :: "'a kass_action \<Rightarrow> 'a address_input" where
  "action_mint (KPropose a) = bpr_kassMint a"
| "action_mint (KSubmitFact a) = bsf_kassMint a"
| "action_mint (KVoteFact a) = bvf_kassMint a"
| "action_mint (KClaimProposer a) = bcp_kassMint a"
| "action_mint (KClaimFact a) = bcf_kassMint a"
| "action_mint (KClaimFactVote a) = bcv_kassMint a"

fun action_number :: "'a kass_action \<Rightarrow> int res" where
  "action_number (KPropose a) = toBigInt (bpr_bond a)"
| "action_number (KSubmitFact a) = toBigInt (bsf_stake a)"
| "action_number (KVoteFact a) = toBigInt (bvf_stake a)"
| "action_number (KClaimProposer a) = requireNonce (bcp_oracleNonce a)"
| "action_number (KClaimFact a) = requireNonce (bcf_oracleNonce a)"
| "action_number (KClaimFactVote a) = requireNonce (bcv_oracleNonce a)"

fun is_stake :: "'a kass_action \<Rightarrow> bool" where
  "is_stake (KPropose a) = True"
| "is_stake (KSubmitFact a) = True"
| "is_stake (KVoteFact a) = True"
| "is_stake (KClaimProposer a) = False"
| "is_stake (KClaimFact a) = False"
| "is_stake (KClaimFactVote a) = False"

text \<open>The place of the wallet's KASS account, and in a claim of the rent recipient.\<close>

fun kass_slot :: "'a kass_action \<Rightarrow> nat" where
  "kass_slot (KPropose a) = 3"
| "kass_slot (KSubmitFact a) = 3"
| "kass_slot (KVoteFact a) = 4"
| "kass_slot (KClaimProposer a) = 2"
| "kass_slot (KClaimFact a) = 2"
| "kass_slot (KClaimFactVote a) = 3"

fun action_call :: "'a kass_action \<Rightarrow> 'a \<Rightarrow> 'a \<Rightarrow> int \<Rightarrow> 'a call" where
  "action_call (KPropose a) u ata n = C_propose \<lparr>ppa_oracle = bpr_oracle a, ppa_authority = Addr u,
     ppa_authorityKass = Addr ata, ppa_option = \<lfloor>bpr_option a\<rfloor>, ppa_bond = n,
     ppa_programId = bpr_programId a\<rparr>"
| "action_call (KSubmitFact a) u ata n = C_submitFact \<lparr>sfa_oracle = bsf_oracle a,
     sfa_submitter = Addr u, sfa_submitterKass = Addr ata, sfa_contentHash = bsf_contentHash a,
     sfa_stake = n, sfa_uri = bsf_uri a, sfa_programId = bsf_programId a\<rparr>"
| "action_call (KVoteFact a) u ata n = C_voteFact \<lparr>vfa_oracle = bvf_oracle a, vfa_fact = bvf_fact a,
     vfa_voter = Addr u, vfa_voterKass = Addr ata, vfa_kind = \<lfloor>bvf_kind a\<rfloor>, vfa_stake = n,
     vfa_programId = bvf_programId a\<rparr>"
| "action_call (KClaimProposer a) u ata n = C_claimProposer \<lparr>cpa_nonce = n,
     cpa_proposer = bcp_proposer a, cpa_destKass = Addr ata, cpa_rentRecipient = Addr u,
     cpa_programId = bcp_programId a\<rparr>"
| "action_call (KClaimFact a) u ata n = C_claimFact \<lparr>cfa_nonce = n, cfa_fact = bcf_fact a,
     cfa_destKass = Addr ata, cfa_rentRecipient = Addr u, cfa_programId = bcf_programId a\<rparr>"
| "action_call (KClaimFactVote a) u ata n = C_claimFactVote \<lparr>cva_nonce = n,
     cva_factVote = bcv_factVote a, cva_fact = bcv_fact a, cva_destKass = Addr ata,
     cva_rentRecipient = Addr u, cva_programId = bcv_programId a\<rparr>"

section \<open>What the validations accept\<close>

lemma with_amount_iff: "with_amount n f = Inr y \<longleftrightarrow> (\<exists>v. toBigInt n = Inr v \<and> f v = Inr y)"
  by (auto simp: with_amount_def rbind_Inr_iff split: sum.splits)

lemma whole_floor: "whole x \<Longrightarrow> of_int \<lfloor>x\<rfloor> = x"
  unfolding whole_def by simp

lemma js_trunc_whole: "whole x \<Longrightarrow> js_trunc x = \<lfloor>x\<rfloor>"
  unfolding whole_def js_trunc_def by (metis floor_of_int minus_minus of_int_minus)

lemma trunc_exact: "toBigInt n = Inr v \<Longrightarrow> truncToBigInt n = Inr v"
  by (cases n) (auto simp: js_trunc_whole split: if_splits)

lemma positive_iff:
  "toBigInt n = Inr v \<Longrightarrow> requirePositiveAmount f n = Inr () \<longleftrightarrow> 0 < v"
  using trunc_exact [of n v] by (auto simp: requirePositiveAmount_def)

lemma requireOption_iff:
  "requireOption x c = Inr () \<longleftrightarrow> (\<exists>i\<ge>0. x = of_int i \<and> (\<forall>k. c = Some k \<longrightarrow> i < k))"
proof -
  have "whole x \<and> 0 \<le> x \<longleftrightarrow> (\<exists>i\<ge>0. x = of_int i)"
    by (metis of_int_0_le_iff whole_def floor_of_int)
  then show ?thesis by (auto simp: requireOption_def split: option.splits)
qed

lemma challenge_requireOption_iff:
  "challenge_requireOption x c = Inr y \<longleftrightarrow> y = x \<and> requireOption x c = Inr ()"
  by (auto simp: challenge_requireOption_def requireOption_def split: option.splits)

lemma field_addr_iff: "field_addr W f x = Inr a \<longleftrightarrow> addr W x = Inr a"
  by (cases x) (auto simp: field_addr_def lift_web_def split: option.splits)

lemma requireNonce_nonneg: "requireNonce n = Inr v \<Longrightarrow> 0 \<le> v"
  by (auto simp: requireNonce_def split: option.splits sum.splits if_splits)


section \<open>The actions stand for one call on a ready account\<close>

text \<open>The instruction of an action and its account, from the builder's shape.\<close>

lemma stake_actions_shape:
  "buildProposeIxs W g a = Inr ixs \<Longrightarrow> \<exists>u k ata v ix. addr W (bpr_authority a) = Inr u
    \<and> addr W (bpr_kassMint a) = Inr k \<and> toBigInt (bpr_bond a) = Inr v \<and> 0 < v
    \<and> with_account W g u k ata ix ixs \<and> build W (action_call (KPropose a) u ata v) = Inr ix"
  "buildSubmitFactIxs W g b = Inr ixs \<Longrightarrow> \<exists>u k ata v ix. addr W (bsf_submitter b) = Inr u
    \<and> addr W (bsf_kassMint b) = Inr k \<and> toBigInt (bsf_stake b) = Inr v \<and> 0 < v
    \<and> with_account W g u k ata ix ixs \<and> build W (action_call (KSubmitFact b) u ata v) = Inr ix"
  "buildVoteFactIxs W g c = Inr ixs \<Longrightarrow> \<exists>u k ata v ix. addr W (bvf_voter c) = Inr u
    \<and> addr W (bvf_kassMint c) = Inr k \<and> toBigInt (bvf_stake c) = Inr v \<and> 0 < v
    \<and> with_account W g u k ata ix ixs \<and> build W (action_call (KVoteFact c) u ata v) = Inr ix"
  by (clarsimp simp: buildProposeIxs_def buildSubmitFactIxs_def buildVoteFactIxs_def rbind_Inr_iff
      with_amount_iff, frule positive_iff, blast intro: oa.ensure_D)+

lemma claim_actions_shape:
  "buildClaimProposerIxs W g a = Inr ixs \<Longrightarrow> \<exists>u k ata v ix. addr W (bcp_authority a) = Inr u
    \<and> addr W (bcp_kassMint a) = Inr k \<and> requireNonce (bcp_oracleNonce a) = Inr v
    \<and> with_account W g u k ata ix ixs \<and> build W (action_call (KClaimProposer a) u ata v) = Inr ix"
  "buildClaimFactIxs W g b = Inr ixs \<Longrightarrow> \<exists>u k ata v ix. addr W (bcf_authority b) = Inr u
    \<and> addr W (bcf_kassMint b) = Inr k \<and> requireNonce (bcf_oracleNonce b) = Inr v
    \<and> with_account W g u k ata ix ixs \<and> build W (action_call (KClaimFact b) u ata v) = Inr ix"
  "buildClaimFactVoteIxs W g c = Inr ixs \<Longrightarrow> \<exists>u k ata v ix. addr W (bcv_voter c) = Inr u
    \<and> addr W (bcv_kassMint c) = Inr k \<and> requireNonce (bcv_oracleNonce c) = Inr v
    \<and> with_account W g u k ata ix ixs \<and> build W (action_call (KClaimFactVote c) u ata v) = Inr ix"
  by (clarsimp simp: buildClaimProposerIxs_def buildClaimFactIxs_def buildClaimFactVoteIxs_def
      rbind_Inr_iff field_addr_iff, blast intro: cl.ensure_D)+

lemmas action_parts = action_build.simps action_wallet.simps action_mint.simps action_number.simps
  is_stake.simps simp_thms

lemma action_shape:
  assumes "action_build W g act = Inr ixs"
  shows "\<exists>u k ata v ix. addr W (action_wallet act) = Inr u \<and> addr W (action_mint act) = Inr k
    \<and> action_number act = Inr v \<and> with_account W g u k ata ix ixs
    \<and> build W (action_call act u ata v) = Inr ix \<and> 0 \<le> v \<and> (is_stake act \<longrightarrow> 0 < v)"
proof (cases act)
  case (KPropose a)
  with assms stake_actions_shape(1) [of W g a ixs] show ?thesis
    by (simp only: action_parts) (blast intro: less_imp_le requireNonce_nonneg)
next
  case (KSubmitFact a)
  with assms stake_actions_shape(2) [of W g a ixs] show ?thesis
    by (simp only: action_parts) (blast intro: less_imp_le requireNonce_nonneg)
next
  case (KVoteFact a)
  with assms stake_actions_shape(3) [of W g a ixs] show ?thesis
    by (simp only: action_parts) (blast intro: less_imp_le requireNonce_nonneg)
next
  case (KClaimProposer a)
  with assms claim_actions_shape(1) [of W g a ixs] show ?thesis
    by (simp only: action_parts) (blast intro: less_imp_le requireNonce_nonneg)
next
  case (KClaimFact a)
  with assms claim_actions_shape(2) [of W g a ixs] show ?thesis
    by (simp only: action_parts) (blast intro: less_imp_le requireNonce_nonneg)
next
  case (KClaimFactVote a)
  with assms claim_actions_shape(3) [of W g a ixs] show ?thesis
    by (simp only: action_parts) (blast intro: less_imp_le requireNonce_nonneg)
qed

text \<open>Where the call puts the account and the wallet, and what it signs and carries.\<close>

lemma action_call_slots:
  assumes "build W (action_call act u ata n) = Inr ix"
  shows "key_addresses ix ! kass_slot act = ata"
    "is_stake act \<Longrightarrow> signers ix = [u]"
    "\<not> is_stake act \<Longrightarrow> signers ix = [] \<and> key_addresses ix ! (kass_slot act + 2) = u
      \<and> ix_payload ix = u64LE n"
  using assms
  by (cases act; clarsimp simp: propose_def submitFact_def voteFact_def claimProposer_def claimFact_def
      claimFactVote_def call_opens signers_def key_addresses_def ix_payload_def u8_def simp del: collect.simps)+

text \<open>
  C8: every KASS-moving action of the oracle app stands for exactly one SDK call, on an account
  that will exist. Proposing, submitting and voting on a fact, and the three claims: the list is
  the one instruction of the call, preceded by the creation of the wallet's KASS account exactly
  when the node has none; the call names that account as the source of the stake or the
  destination of the payout; it satisfies the program's contract (\<open>well_formed_call\<close>). A stake is a
  positive integer and only the wallet signs; a claim needs no signature, refunds the rent to the
  same wallet and carries the nonce.
\<close>

theorem kass_actions_exact:
  assumes "action_build W g act = Inr ixs"
  shows "\<exists>u k ata n ix. addr W (action_wallet act) = Inr u \<and> addr W (action_mint act) = Inr k
    \<and> action_number act = Inr n \<and> with_account W g u k ata ix ixs
    \<and> build W (action_call act u ata n) = Inr ix \<and> well_formed_call W (action_call act u ata n) ix
    \<and> key_addresses ix ! kass_slot act = ata
    \<and> (if is_stake act then 0 < n \<and> signers ix = [u]
       else 0 \<le> n \<and> signers ix = [] \<and> key_addresses ix ! (kass_slot act + 2) = u \<and> ix_payload ix = u64LE n)"
proof -
  obtain u k ata n ix where s: "addr W (action_wallet act) = Inr u" "addr W (action_mint act) = Inr k"
    "action_number act = Inr n" "with_account W g u k ata ix ixs"
    and c: "build W (action_call act u ata n) = Inr ix" and n: "0 \<le> n" "is_stake act \<longrightarrow> 0 < n"
    using action_shape [OF assms] by blast
  have "well_formed_call W (action_call act u ata n) ix"
    using c by (cases act) (simp_all add: builder_calls)
  with s c n show ?thesis using action_call_slots [OF c] by (intro exI conjI) (assumption | simp)+
qed


lemma is_ok_oracle_pdas:
  assumes "pda_total W"
  shows "is_ok (derive W seeds p)" "is_ok (pda_protocol W p)" "is_ok (pda_oracle W n p)"
    "is_ok (addr W x) \<Longrightarrow> is_ok (pda_stakeVault W x p)"
    "is_ok (addr W x) \<Longrightarrow> is_ok (addr W y) \<Longrightarrow> is_ok (pda_proposer W x y p)"
    "is_ok (addr W x) \<Longrightarrow> is_ok (pda_fact W x h p)"
    "is_ok (addr W x) \<Longrightarrow> is_ok (addr W y) \<Longrightarrow> is_ok (pda_factVote W x y p)"
    "is_ok (addr W x) \<Longrightarrow> is_ok (addr W y) \<Longrightarrow> is_ok (pda_aiClaim W x y p)"
    "is_ok (addr W x) \<Longrightarrow> is_ok (pda_market W x p)"
    "is_ok (addr W x) \<Longrightarrow> is_ok (pda_challengeUsdcVault W x p)"
    "is_ok (addr W x) \<Longrightarrow> is_ok (addr W y) \<Longrightarrow> is_ok (associatedTokenAccount W x y)"
proof -
  show d: "is_ok (derive W seeds p)" for seeds p
    using assms by (auto simp: derive_def pda_total_def lift_web_def is_ok_iff rmap_Inr_iff split: option.splits)
  then show "is_ok (pda_protocol W p)" "is_ok (pda_oracle W n p)"
    "is_ok (addr W x) \<Longrightarrow> is_ok (pda_stakeVault W x p)"
    "is_ok (addr W x) \<Longrightarrow> is_ok (addr W y) \<Longrightarrow> is_ok (pda_proposer W x y p)"
    "is_ok (addr W x) \<Longrightarrow> is_ok (pda_fact W x h p)"
    "is_ok (addr W x) \<Longrightarrow> is_ok (addr W y) \<Longrightarrow> is_ok (pda_factVote W x y p)"
    "is_ok (addr W x) \<Longrightarrow> is_ok (addr W y) \<Longrightarrow> is_ok (pda_aiClaim W x y p)"
    "is_ok (addr W x) \<Longrightarrow> is_ok (pda_market W x p)"
    "is_ok (addr W x) \<Longrightarrow> is_ok (pda_challengeUsdcVault W x p)"
    "is_ok (addr W x) \<Longrightarrow> is_ok (addr W y) \<Longrightarrow> is_ok (associatedTokenAccount W x y)"
    by (auto simp: pda_defs associatedTokenAccount_def pubkeyBytes_def intro!: is_ok_bindI)
qed


section \<open>Exactly which forms are accepted\<close>

lemma requireVoteKind_iff: "requireVoteKind k = Inr () \<longleftrightarrow> k = 0 \<or> k = 1"
  by (simp add: requireVoteKind_def VOTE_APPROVE_def VOTE_DUPLICATE_def)

lemma requireUri_iff: "requireUri u = Inr () \<longleftrightarrow> length (uriBytes u) \<le> 200"
  by (simp add: requireUri_def)

lemma is_ok_rbind_iff: "is_ok (rbind r f) \<longleftrightarrow> (\<exists>x. r = Inr x \<and> is_ok (f x))"
  by (cases r) auto

lemma is_ok_with_amount: "is_ok (with_amount n f) \<longleftrightarrow> (\<exists>v. toBigInt n = Inr v \<and> is_ok (f v))"
  by (auto simp: with_amount_def is_ok_iff rbind_Inr_iff split: sum.splits)

lemma is_ok_stake_calls:
  assumes "pda_total W" "is_ok (addr W orc)" "is_ok (addr W fct)"
  shows "is_ok (propose W \<lparr>ppa_oracle = orc, ppa_authority = Addr u, ppa_authorityKass = Addr ata,
      ppa_option = i, ppa_bond = v, ppa_programId = p\<rparr>)"
    "is_ok (submitFact W \<lparr>sfa_oracle = orc, sfa_submitter = Addr u, sfa_submitterKass = Addr ata,
      sfa_contentHash = h, sfa_stake = v, sfa_uri = uri, sfa_programId = p\<rparr>) \<longleftrightarrow> length h = 32"
    "is_ok (voteFact W \<lparr>vfa_oracle = orc, vfa_fact = fct, vfa_voter = Addr u, vfa_voterKass = Addr ata,
      vfa_kind = i, vfa_stake = v, vfa_programId = p\<rparr>)"
proof -
  obtain o1 where o1: "addr W orc = Inr o1" using assms(2) by (auto simp: is_ok_iff)
  show "is_ok (propose W \<lparr>ppa_oracle = orc, ppa_authority = Addr u, ppa_authorityKass = Addr ata,
      ppa_option = i, ppa_bond = v, ppa_programId = p\<rparr>)"
    "is_ok (voteFact W \<lparr>vfa_oracle = orc, vfa_fact = fct, vfa_voter = Addr u, vfa_voterKass = Addr ata,
      vfa_kind = i, vfa_stake = v, vfa_programId = p\<rparr>)"
    unfolding propose_def voteFact_def Let_def using assms
    by (auto intro!: is_ok_bindI is_ok_oracle_pdas simp del: collect.simps)
  show "is_ok (submitFact W \<lparr>sfa_oracle = orc, sfa_submitter = Addr u, sfa_submitterKass = Addr ata,
      sfa_contentHash = h, sfa_stake = v, sfa_uri = uri, sfa_programId = p\<rparr>) \<longleftrightarrow> length h = 32"
  proof (cases "length h = 32")
    case True
    then show ?thesis unfolding submitFact_def Let_def using assms
      by (auto intro!: is_ok_bindI is_ok_oracle_pdas simp del: collect.simps)
  next
    case False
    then show ?thesis using o1 by (simp add: submitFact_def Let_def fixedBytes_def)
  qed
qed

text \<open>The rest of an action, once its inputs are valid: nothing else fails on an ideal network.\<close>

context token_account begin

lemma accepts:
  assumes "pda_total W" "\<forall>a. is_ok (g a)" "\<And>ata. is_ok (mk ata) \<longleftrightarrow> valid"
  shows "is_ok (rbind (ensure W g u k) (\<lambda>(ata, c). rbind (mk ata) (\<lambda>ix. Inr (with_create c ix)))) \<longleftrightarrow> valid"
proof -
  have "is_ok (ensure W g u k)" by (rule returns [OF assms(1,2)])
  then obtain ata c where "ensure W g u k = Inr (ata, c)" by (auto simp: is_ok_iff)
  then show ?thesis using assms(3) [of ata] by (cases "mk ata") simp_all
qed

end

lemma is_ok_rbind_ok: "is_ok r \<Longrightarrow> is_ok (rbind r f) \<longleftrightarrow> is_ok (f (projr r))"
  by (cases r) simp_all

lemma is_ok_unit: "(\<exists>x. r = Inr x \<and> P) \<longleftrightarrow> r = Inr () \<and> P" for r :: "unit res"
  by auto

text \<open>
  The forms of the staking actions accept exactly the inputs that make sense, when the
  network answers and the addresses parse. A stake is accepted iff it is a positive integer (a
  number with a fraction, \<open>NaN\<close> and the infinities are not); an option iff it is a whole number
  from zero and, where the count is known, below it; a fact iff its URI has at most 200 bytes in
  UTF-8 and its content hash 32; a vote iff its kind is one of the two.
\<close>

theorem stake_actions_accept:
  assumes "pda_total W" "\<forall>x. is_ok (g x)"
    and "\<forall>x\<in>{bpr_oracle a, bpr_kassMint a, bpr_authority a, bsf_oracle b, bsf_kassMint b,
      bsf_submitter b, bvf_oracle c, bvf_kassMint c, bvf_fact c, bvf_voter c}. is_ok (addr W x)"
  shows "(is_ok (buildProposeIxs W g a) \<longleftrightarrow> (\<exists>v>0. toBigInt (bpr_bond a) = Inr v) \<and>
      (\<exists>i\<ge>0. bpr_option a = of_int i \<and> (\<forall>k. bpr_optionsCount a = Some k \<longrightarrow> i < k)))
    \<and> (is_ok (buildSubmitFactIxs W g b) \<longleftrightarrow> (\<exists>v>0. toBigInt (bsf_stake b) = Inr v) \<and>
      length (uriBytes (bsf_uri b)) \<le> 200 \<and> length (bsf_contentHash b) = 32)
    \<and> (is_ok (buildVoteFactIxs W g c) \<longleftrightarrow> (\<exists>v>0. toBigInt (bvf_stake c) = Inr v) \<and>
      (bvf_kind c = 0 \<or> bvf_kind c = 1))"
proof -
  have ad: "is_ok (addr W (bpr_oracle a))" "is_ok (addr W (bpr_kassMint a))" "is_ok (addr W (bpr_authority a))"
    "is_ok (addr W (bsf_oracle b))" "is_ok (addr W (bsf_kassMint b))" "is_ok (addr W (bsf_submitter b))"
    "is_ok (addr W (bvf_oracle c))" "is_ok (addr W (bvf_kassMint c))" "is_ok (addr W (bvf_fact c))"
    "is_ok (addr W (bvf_voter c))" using assms(3) by simp_all
  note calls = is_ok_stake_calls [OF assms(1)] and acc = oa.accepts [OF assms(1,2)]
  have pos: "requirePositiveAmount f n = Inr () \<and> P \<and> (\<exists>v. toBigInt n = Inr v \<and> Q)
      \<longleftrightarrow> (\<exists>v>0. toBigInt n = Inr v) \<and> P \<and> Q" for f n P Q
    by (cases "toBigInt n") (auto simp: positive_iff)
  have "is_ok (buildProposeIxs W g a) \<longleftrightarrow> requirePositiveAmount ''bond'' (bpr_bond a) = Inr () \<and>
      requireOption (bpr_option a) (bpr_optionsCount a) = Inr () \<and> (\<exists>v. toBigInt (bpr_bond a) = Inr v \<and> True)"
    unfolding buildProposeIxs_def is_ok_rbind_iff [of "requirePositiveAmount _ _"]
      is_ok_rbind_iff [of "requireOption _ _"] is_ok_rbind_ok [OF ad(2)] is_ok_rbind_ok [OF ad(3)]
    by (subst acc [where valid = "\<exists>v. toBigInt (bpr_bond a) = Inr v"])
      (simp_all add: is_ok_with_amount calls(1) [OF ad(1) ad(1)] is_ok_unit)
  moreover have "is_ok (buildSubmitFactIxs W g b) \<longleftrightarrow> requirePositiveAmount ''stake'' (bsf_stake b) = Inr () \<and>
      requireUri (bsf_uri b) = Inr () \<and> (\<exists>v. toBigInt (bsf_stake b) = Inr v \<and> length (bsf_contentHash b) = 32)"
    unfolding buildSubmitFactIxs_def is_ok_rbind_iff [of "requirePositiveAmount _ _"]
      is_ok_rbind_iff [of "requireUri _"] is_ok_rbind_ok [OF ad(5)] is_ok_rbind_ok [OF ad(6)]
    by (subst acc [where valid = "\<exists>v. toBigInt (bsf_stake b) = Inr v \<and> length (bsf_contentHash b) = 32"])
      (simp_all add: is_ok_with_amount calls(2) [OF ad(4) ad(4)] is_ok_unit)
  moreover have "is_ok (buildVoteFactIxs W g c) \<longleftrightarrow> requirePositiveAmount ''stake'' (bvf_stake c) = Inr () \<and>
      requireVoteKind (bvf_kind c) = Inr () \<and> (\<exists>v. toBigInt (bvf_stake c) = Inr v \<and> True)"
    unfolding buildVoteFactIxs_def is_ok_rbind_iff [of "requirePositiveAmount _ _"]
      is_ok_rbind_iff [of "requireVoteKind _"] is_ok_rbind_ok [OF ad(8)] is_ok_rbind_ok [OF ad(10)]
    by (subst acc [where valid = "\<exists>v. toBigInt (bvf_stake c) = Inr v"])
      (simp_all add: is_ok_with_amount calls(3) [OF ad(7) ad(9)] is_ok_unit)
  ultimately show ?thesis unfolding pos requireOption_iff requireUri_iff requireVoteKind_iff by simp
qed


definition sample_propose :: "256 word build_propose_args" where
  "sample_propose = \<lparr>bpr_oracle = Addr 3, bpr_kassMint = Addr 5, bpr_authority = B58 ''W'', bpr_option = 2,
     bpr_bond = NNum 10, bpr_optionsCount = Some 3, bpr_programId = None\<rparr>"

definition sample_submit_fact :: "256 word build_submit_fact_args" where
  "sample_submit_fact = \<lparr>bsf_oracle = Addr 3, bsf_kassMint = Addr 5, bsf_submitter = Addr 7,
     bsf_contentHash = replicate 31 0, bsf_stake = NBig 10, bsf_uri = UriText (codes ''https://x''),
     bsf_programId = None\<rparr>"

definition sample_vote_fact :: "256 word build_vote_fact_args" where
  "sample_vote_fact = \<lparr>bvf_oracle = Addr 3, bvf_kassMint = Addr 5, bvf_fact = Addr 8, bvf_voter = Addr 7,
     bvf_kind = 1, bvf_stake = NNum (5 / 2), bvf_programId = None\<rparr>"

text \<open>A proposal that is accepted, a fact with a short hash and a vote with a fractional stake.\<close>

theorem stake_actions_accept_witness:
  "is_ok (buildProposeIxs sample_web3 no_account sample_propose)
    \<and> \<not> is_ok (buildSubmitFactIxs sample_web3 no_account sample_submit_fact)
    \<and> \<not> is_ok (buildVoteFactIxs sample_web3 no_account sample_vote_fact)"
proof -
  have "whole 10" by (simp add: whole_def)
  moreover have "\<not> whole (5 / 2)" by (simp add: whole_def)
  moreover have "\<exists>i\<ge>0::int. (2::real) = of_int i \<and> i < 3" by (rule exI [of _ 2]) simp
  ultimately show ?thesis
    using stake_actions_accept [OF sample_pda_total no_account_ok, of sample_propose sample_submit_fact
      sample_vote_fact] sample_addr
    by (simp add: sample_propose_def sample_submit_fact_def sample_vote_fact_def)
qed

theorem kass_actions_exact_witness:
  "\<exists>ixs. action_build sample_web3 no_account (KPropose sample_propose) = Inr ixs
    \<and> signers (last ixs) = [projr (addr sample_web3 (B58 ''W''))]"
proof -
  have "whole 10" by (simp add: whole_def)
  then have "is_ok (action_build sample_web3 no_account (KPropose sample_propose))"
    unfolding action_build.simps buildProposeIxs_def
    by (intro is_ok_bindI is_ok_case_prod oa.returns sample_pda_total no_account_ok)
      (simp_all add: sample_propose_def sample_addr requirePositiveAmount_def requireOption_def js_trunc_def
        sample_addr [of "B58 x" for x, simplified]
        whole_def with_amount_def is_ok_stake_calls [OF sample_pda_total])
  then obtain ixs where ixs: "action_build sample_web3 no_account (KPropose sample_propose) = Inr ixs"
    by (auto simp: is_ok_iff)
  obtain u k ata ix where "addr sample_web3 (B58 ''W'') = Inr u" "signers ix = [u]"
    "with_account sample_web3 no_account u k ata ix ixs"
    using kass_actions_exact [OF ixs] by (auto simp: sample_propose_def)
  then show ?thesis using ixs with_account_last by fastforce
qed

section \<open>The claim of an AI run\<close>

text \<open>
  C21: an AI claim carries what the runner produced. The action is one instruction, signed by the
  submitter alone, whose payload is the three 32-byte hashes and the option; the claim account is
  the one of the oracle and the proposer named, under the program the instruction goes to. When
  the form names no proposer it is derived from oracle and submitter, always under the default
  program: with another program id the instruction names a proposer account that this program
  does not own.
\<close>

theorem ai_claim_exact:
  assumes "buildSubmitAiClaimIxs W a = Inr ixs"
  shows "\<exists>ix orc sub i. ixs = [ix] \<and> addr W (bai_oracle a) = Inr orc \<and> addr W (bai_submitter a) = Inr sub
    \<and> 0 \<le> i \<and> bai_option a = of_int i \<and> (\<forall>k. bai_optionsCount a = Some k \<longrightarrow> i < k)
    \<and> length (bai_modelId a) = 32 \<and> length (bai_paramsHash a) = 32 \<and> length (bai_ioHash a) = 32
    \<and> ix_payload ix = bai_modelId a @ bai_paramsHash a @ bai_ioHash a @ u8 i
    \<and> signers ix = [sub] \<and> ti_programId ix = program_or W (bai_programId a)
    \<and> key_addresses ix ! 0 = orc
    \<and> rmap pda_address (pda_aiClaim W (Addr orc) (Addr (key_addresses ix ! 1)) (Some (ti_programId ix)))
        = Inr (key_addresses ix ! 2)
    \<and> (bai_proposer a = None \<longrightarrow>
        rmap pda_address (pda_proposer W (Addr orc) (Addr sub) None) = Inr (key_addresses ix ! 1))
    \<and> (\<forall>x. bai_proposer a = Some x \<and> x \<noteq> B58 [] \<longrightarrow> addr W x = Inr (key_addresses ix ! 1))"
proof -
  obtain orc sub prp ix where l: "length (bai_modelId a) = 32" "length (bai_paramsHash a) = 32"
      "length (bai_ioHash a) = 32"
    and op: "requireOption (bai_option a) (bai_optionsCount a) = Inr ()"
    and o1: "addr W (bai_oracle a) = Inr orc" and u: "addr W (bai_submitter a) = Inr sub"
    and p: "default_proposer W (bai_proposer a) orc sub = Inr prp"
    and ix: "submitAiClaim W \<lparr>aca_oracle = Addr orc, aca_proposer = Addr prp, aca_authority = Addr sub,
       aca_modelId = bai_modelId a, aca_paramsHash = bai_paramsHash a, aca_ioHash = bai_ioHash a,
       aca_option = \<lfloor>bai_option a\<rfloor>, aca_programId = bai_programId a\<rparr> = Inr ix" "ixs = [ix]"
    using assms by (auto simp: buildSubmitAiClaimIxs_def rbind_Inr_iff requireBytes32_def field_addr_iff
        challenge_requireOption_iff split: if_splits)
  obtain i where i: "0 \<le> i" "bai_option a = of_int i" "\<forall>k. bai_optionsCount a = Some k \<longrightarrow> i < k"
    using op by (auto simp: requireOption_iff)
  have k: "ix_payload ix = bai_modelId a @ bai_paramsHash a @ bai_ioHash a @ u8 i" "signers ix = [sub]"
    "ti_programId ix = program_or W (bai_programId a)" "key_addresses ix ! 0 = orc" "key_addresses ix ! 1 = prp"
    "rmap pda_address (pda_aiClaim W (Addr orc) (Addr prp) (Some (program_or W (bai_programId a))))
      = Inr (key_addresses ix ! 2)"
    using ix(1) l i(2) by (auto simp: submitAiClaim_def call_opens signers_def key_addresses_def
        ix_payload_def u8_def rmap_Inr_iff simp del: collect.simps)
  have "bai_proposer a = None \<longrightarrow> rmap pda_address (pda_proposer W (Addr orc) (Addr sub) None) = Inr prp"
    "\<forall>x. bai_proposer a = Some x \<and> x \<noteq> B58 [] \<longrightarrow> addr W x = Inr prp"
    using p by (auto simp: default_proposer_def field_addr_iff)
  then show ?thesis using ix(2) o1 u l i k
    by (intro exI [of _ ix] exI [of _ orc] exI [of _ sub] exI [of _ i]) simp
qed

definition sample_ai_claim :: "256 word build_submit_ai_claim_args" where
  "sample_ai_claim = \<lparr>bai_oracle = Addr 3, bai_proposer = None, bai_submitter = Addr 7,
     bai_modelId = replicate 32 1, bai_paramsHash = replicate 32 2, bai_ioHash = replicate 32 3,
     bai_option = 2, bai_optionsCount = Some 3, bai_programId = Some 9\<rparr>"

theorem ai_claim_exact_witness:
  "\<exists>ix. buildSubmitAiClaimIxs sample_web3 sample_ai_claim = Inr [ix] \<and> signers ix = [7]
    \<and> ti_programId ix = 9"
proof -
  have "is_ok (pda_proposer sample_web3 (Addr 3) (Addr 7) None)"
    by (intro is_ok_oracle_pdas sample_pda_total) simp_all
  then have "is_ok (buildSubmitAiClaimIxs sample_web3 sample_ai_claim)"
    unfolding buildSubmitAiClaimIxs_def submitAiClaim_def Let_def
    by (intro is_ok_bindI is_ok_oracle_pdas sample_pda_total)
      (auto simp: sample_ai_claim_def requireBytes32_def field_addr_def challenge_requireOption_def whole_def
        default_proposer_def is_ok_iff rmap_Inr_iff)
  then obtain ixs where ixs: "buildSubmitAiClaimIxs sample_web3 sample_ai_claim = Inr ixs"
    by (auto simp: is_ok_iff)
  then show ?thesis using ai_claim_exact [OF ixs] by (auto simp: sample_ai_claim_def program_or_def)
qed


section \<open>The nonce\<close>

lemma u64LE_mod: "u64LE (n mod 18446744073709551616) = u64LE n"
  using le_bytes_mod [of 8 n] by (simp add: u64LE_def)

text \<open>
  The nonce of a settlement is validated as an integer from zero, not as a \<open>u64\<close>: what the
  instruction carries and derives is the nonce modulo $2^{64}$, and a fraction is cut off. Two
  inputs that the form tells apart can therefore settle the same oracle.
\<close>

lemma requireNonce_values:
  "0 \<le> n \<Longrightarrow> requireNonce (Some (NBig n)) = Inr n"
  "requireNonce (Some (NNum (7 / 2))) = requireNonce (Some (NBig 3))"
  by (simp_all add: requireNonce_def js_trunc_def)

theorem claim_nonce_wraps:
  assumes "0 \<le> n"
  shows "buildClaimProposerIxs W g (a\<lparr>bcp_oracleNonce := Some (NBig n)\<rparr>)
    = buildClaimProposerIxs W g (a\<lparr>bcp_oracleNonce := Some (NBig (n mod 2 ^ 64))\<rparr>)"
proof -
  have "claimProposer W \<lparr>cpa_nonce = n, cpa_proposer = x, cpa_destKass = y, cpa_rentRecipient = z, cpa_programId = p\<rparr>
      = claimProposer W \<lparr>cpa_nonce = n mod 2 ^ 64, cpa_proposer = x, cpa_destKass = y, cpa_rentRecipient = z,
          cpa_programId = p\<rparr>" for x y z p
    by (simp add: claimProposer_def pda_oracle_def u64LE_mod del: collect.simps)
  then show ?thesis using assms by (simp add: buildClaimProposerIxs_def requireNonce_values)
qed

end
