(* ===== verification/Send_Confirm.thy ===== *)
theory Send_Confirm
  imports Market_View V0_Alt
begin

text \<open>
  The send-and-confirm seam of both apps and the write-action state machine on top of it
  (\<open>app/src/data/send.ts\<close>, \<open>app/src/market/data/send.ts\<close>, \<open>app/src/data/writeAction.ts\<close>,
  \<open>app/src/market/data/writeAction.ts\<close>). The wallet, the relay and the node are parameters: an
  outcome is either a thrown error object or a value. Texts are lists of UTF-16 code units.
\<close>

section \<open>Thrown errors\<close>

text \<open>What the code reads of a thrown value: the numeric code, the name, the message, the logs.\<close>

record js_exn =
  ex_code :: "int option"
  ex_name :: utext
  ex_message :: utext
  ex_logs :: "utext list option"

record send_error =
  se_message :: utext
  se_signature :: "utext option"
  se_logs :: "utext list option"
  se_cause :: js_exn

datatype write_error = WValidation utext | WSend send_error | WOther js_exn

section \<open>Matching\<close>

text \<open>
  The value of the first position at which \<open>m\<close> matches, as \<open>RegExp.exec\<close> searches; the two
  patterns of the source with their captured group; \<open>contains\<close> is \<open>String.includes\<close>.
\<close>

fun first_match :: "(utext \<Rightarrow> 'b option) \<Rightarrow> utext \<Rightarrow> 'b option" where
  "first_match m [] = m []"
| "first_match m (c # s) = (case m (c # s) of Some v \<Rightarrow> Some v | None \<Rightarrow> first_match m s)"

fun contains :: "utext \<Rightarrow> utext \<Rightarrow> bool" where
  "contains sub [] = (sub = [])"
| "contains sub (c # s) = (take (length sub) (c # s) = sub \<or> contains sub s)"

definition ascii_lower :: "int \<Rightarrow> int" where
  "ascii_lower c = (if 65 \<le> c \<and> c \<le> 90 then c + 32 else c)"

definition is_hex :: "int \<Rightarrow> bool" where
  "is_hex c \<longleftrightarrow> hex_digit c \<noteq> None"

definition hex_value :: "utext \<Rightarrow> int" where
  "hex_value ds = foldl (\<lambda>acc c. 16 * acc + the (hex_digit c)) 0 ds"

text \<open>\<open>/custom program error:\s*0x([0-9a-fA-F]+)/i\<close> and \<open>/"Custom"\s*:\s*(\d+)/\<close> at a position.\<close>

definition program_error_at :: "utext \<Rightarrow> utext option" where
  "program_error_at s =
     (if map ascii_lower (take 21 s) = codes ''custom program error:''
      then (case dropWhile js_space (drop 21 s) of
          z # x # t \<Rightarrow>
            if z = 48 \<and> (x = 120 \<or> x = 88) \<and> takeWhile is_hex t \<noteq> [] then Some (takeWhile is_hex t) else None
        | _ \<Rightarrow> None)
      else None)"

definition custom_at :: "utext \<Rightarrow> utext option" where
  "custom_at s =
     (if take 8 s = [34] @ codes ''Custom'' @ [34]
      then (case dropWhile js_space (drop 8 s) of
          c # t \<Rightarrow>
            (let ds = takeWhile is_digit (dropWhile js_space t) in
             if c = 58 \<and> ds \<noteq> [] then Some ds else None)
        | [] \<Rightarrow> None)
      else None)"

section \<open>Program errors in words\<close>

text \<open>
  \<open>parseInt(h, 16)\<close> and \<open>Number(d)\<close> round above $2^{53}$, where no code is known; the model keeps
  the exact integer.
\<close>

definition humanizeProgramError :: "'a web3 \<Rightarrow> utext \<Rightarrow> utext list option \<Rightarrow> utext option" where
  "humanizeProgramError W txt logs =
     (let program = codes (w3_string W (KASSANDRA_PROGRAM_ID W));
          scoped = find (\<lambda>l. contains program l \<and> first_match program_error_at l \<noteq> None)
            (case logs of None \<Rightarrow> [] | Some ls \<Rightarrow> ls);
          code = (case scoped of Some l \<Rightarrow> map_option hex_value (first_match program_error_at l) | None \<Rightarrow> None);
          code = (case code of Some c \<Rightarrow> Some c | None \<Rightarrow> map_option dec_value (first_match custom_at txt)) in
      case code of None \<Rightarrow> None
      | Some c \<Rightarrow> (case decodeError c of (n, m) \<Rightarrow>
          if n = ''Unknown'' then None
          else (case m of Message t \<Rightarrow> Some (codes t) | UnknownMessage _ \<Rightarrow> None)))"

definition market_humanizeProgramError :: "'a web3 \<Rightarrow> utext \<Rightarrow> utext list option \<Rightarrow> utext option" where
  "market_humanizeProgramError W txt logs =
     (let mkt = codes (w3_string W (MARKET_PROGRAM_ID W));
          scoped = find (\<lambda>l. contains mkt l \<and> first_match program_error_at l \<noteq> None)
            (case logs of None \<Rightarrow> [] | Some ls \<Rightarrow> ls);
          code = (case scoped of Some l \<Rightarrow> map_option hex_value (first_match program_error_at l) | None \<Rightarrow> None);
          code = (case code of Some c \<Rightarrow> Some c | None \<Rightarrow> map_option dec_value (first_match custom_at txt)) in
      case code of None \<Rightarrow> None
      | Some c \<Rightarrow> map_option MARKET_ERROR_MESSAGES (decodeMarketError c))"

section \<open>Send and confirm (send.ts of the oracle app)\<close>

text \<open>The sender signs and submits; \<open>confirm\<close> is the outcome of the SDK's \<open>confirmSignature\<close>.\<close>

definition sendAndConfirm ::
  "'a web3 \<Rightarrow> ('i \<Rightarrow> js_exn + utext) \<Rightarrow> (utext \<Rightarrow> js_exn + unit) \<Rightarrow> 'i \<Rightarrow> send_error + utext" where
  "sendAndConfirm W sender confirm ixs =
     (case sender ixs of
        Inl e \<Rightarrow> Inl \<lparr>se_message = (case humanizeProgramError W (ex_message e) (ex_logs e) of
              Some human \<Rightarrow> codes ''Transaction failed: '' @ human
            | None \<Rightarrow> codes ''Transaction send failed: '' @ ex_message e),
            se_signature = None, se_logs = ex_logs e, se_cause = e\<rparr>
      | Inr signature \<Rightarrow>
          (case confirm signature of
             Inl e \<Rightarrow> Inl \<lparr>se_message = (case humanizeProgramError W (ex_message e) (ex_logs e) of
                   Some human \<Rightarrow> codes ''Transaction '' @ signature @ codes '' failed: '' @ human
                 | None \<Rightarrow> codes ''Transaction '' @ signature @ codes '' failed to confirm: '' @ ex_message e),
                 se_signature = Some signature, se_logs = ex_logs e, se_cause = e\<rparr>
           | Inr u \<Rightarrow> Inr signature))"

section \<open>Relay and confirm (send.ts of the market app)\<close>

datatype relay_status = RsPending | RsFailed | RsConfirmed | RsFinalized

definition plain_error :: "utext \<Rightarrow> js_exn" where
  "plain_error m = \<lparr>ex_code = None, ex_name = codes ''Error'', ex_message = m, ex_logs = None\<rparr>"

text \<open>
  One poll of the indexer: the clock at the loop test, then the answer (a read error, or status
  and error text). \<open>None\<close> is a loop that has not ended when the observations are over.
\<close>

fun market_confirm_poll ::
  "'a web3 \<Rightarrow> utext \<Rightarrow> nat \<Rightarrow> int \<Rightarrow> (int \<times> (js_exn + relay_status \<times> utext option)) list
    \<Rightarrow> (js_exn + unit) option" where
  "market_confirm_poll W sig timeoutMs deadline [] = None"
| "market_confirm_poll W sig timeoutMs deadline ((now, answer) # polls) =
     (if \<not> now < deadline
      then Some (Inl (plain_error (codes ''tx '' @ sig @ codes '' not confirmed within '' @ dec_nat timeoutMs @ codes ''ms'')))
      else (case answer of
          Inl e \<Rightarrow> Some (Inl e)
        | Inr (status, err) \<Rightarrow>
            if status = RsFailed \<or> (err \<noteq> None \<and> err \<noteq> Some [])
            then (let raw = (case err of Some t \<Rightarrow> t | None \<Rightarrow> codes ''unknown error'') in
              Some (Inl (plain_error (codes ''tx '' @ sig @ codes '' failed: '' @
                (case market_humanizeProgramError W raw None of Some human \<Rightarrow> human | None \<Rightarrow> raw)))))
            else if status = RsConfirmed \<or> status = RsFinalized then Some (Inr ())
            else market_confirm_poll W sig timeoutMs deadline polls))"

definition market_confirmSignature ::
  "'a web3 \<Rightarrow> utext \<Rightarrow> nat \<Rightarrow> int \<Rightarrow> (int \<times> (js_exn + relay_status \<times> utext option)) list
    \<Rightarrow> (js_exn + unit) option" where
  "market_confirmSignature W sig timeoutMs start polls =
     market_confirm_poll W sig timeoutMs (start + int timeoutMs) polls"

definition relayAndConfirm ::
  "'a web3 \<Rightarrow> js_exn + utext \<Rightarrow> (utext \<Rightarrow> (js_exn + unit) option) \<Rightarrow> (send_error + utext) option" where
  "relayAndConfirm W relay confirm =
     (case relay of
        Inl e \<Rightarrow> Some (Inl \<lparr>se_message = (case market_humanizeProgramError W (ex_message e) (ex_logs e) of
              Some human \<Rightarrow> codes ''Transaction failed: '' @ human
            | None \<Rightarrow> codes ''Transaction send failed: '' @ ex_message e),
            se_signature = None, se_logs = ex_logs e, se_cause = e\<rparr>)
      | Inr signature \<Rightarrow>
          map_option (\<lambda>r. case r of
              Inl e \<Rightarrow> Inl \<lparr>se_message = codes ''Transaction '' @ signature @ codes '' failed to confirm: '' @ ex_message e,
                 se_signature = Some signature, se_logs = ex_logs e, se_cause = e\<rparr>
            | Inr u \<Rightarrow> Inr signature) (confirm signature))"

text \<open>A transaction: fee payer, blockhash and instructions; the wallet signs it, the indexer relays it.\<close>

record 'a unsigned_tx =
  tx_instructions :: "'a tx_instruction list"
  tx_feePayer :: 'a
  tx_recentBlockhash :: string

definition buildUnsignedTx :: "'a \<Rightarrow> string \<Rightarrow> 'a tx_instruction list \<Rightarrow> 'a unsigned_tx" where
  "buildUnsignedTx feePayer blockhash ixs =
     \<lparr>tx_instructions = ixs, tx_feePayer = feePayer, tx_recentBlockhash = blockhash\<rparr>"

definition signAndRelay ::
  "js_exn + string \<Rightarrow> ('s \<Rightarrow> js_exn + utext) \<Rightarrow> 'a \<Rightarrow> ('a unsigned_tx \<Rightarrow> js_exn + 's)
    \<Rightarrow> 'a tx_instruction list \<Rightarrow> js_exn + utext" where
  "signAndRelay blockhash relay feePayer signTransaction ixs =
     (case blockhash of Inl e \<Rightarrow> Inl e
      | Inr bh \<Rightarrow> (case signTransaction (buildUnsignedTx feePayer bh ixs) of
            Inl e \<Rightarrow> Inl e
          | Inr tx \<Rightarrow> relay tx))"

definition market_sendAndConfirm ::
  "'a web3 \<Rightarrow> ('a tx_instruction list \<Rightarrow> js_exn + utext) \<Rightarrow> (utext \<Rightarrow> (js_exn + unit) option)
    \<Rightarrow> 'a tx_instruction list \<Rightarrow> (send_error + utext) option" where
  "market_sendAndConfirm W sender confirm ixs = relayAndConfirm W (sender ixs) confirm"

definition sendSignedAndConfirm ::
  "'a web3 \<Rightarrow> ('s \<Rightarrow> js_exn + utext) \<Rightarrow> (utext \<Rightarrow> (js_exn + unit) option) \<Rightarrow> 's \<Rightarrow> (send_error + utext) option" where
  "sendSignedAndConfirm W relay confirm tx = relayAndConfirm W (relay tx) confirm"

section \<open>The write action (writeAction.ts)\<close>

datatype write_status =
    WIdle | WBuilding | WSigning | WConfirming | WSuccess utext | WError utext "utext list option"

fun isBusy :: "write_status \<Rightarrow> bool" where
  "isBusy WBuilding = True"
| "isBusy WSigning = True"
| "isBusy WConfirming = True"
| "isBusy WIdle = False"
| "isBusy (WSuccess s) = False"
| "isBusy (WError m l) = False"

text \<open>The error object that the rejection test looks at: the cause of a send error.\<close>

fun inspected :: "write_error \<Rightarrow> js_exn" where
  "inspected (WSend e) = se_cause e"
| "inspected (WOther e) = e"
| "inspected (WValidation m) = \<lparr>ex_code = None, ex_name = codes ''ValidationError'', ex_message = m, ex_logs = None\<rparr>"

text \<open>
  \<open>toLowerCase\<close> as far as an ASCII pattern can tell: the two characters outside ASCII whose lower
  case contains ASCII letters are the Kelvin sign and the capital I with dot.
\<close>

definition js_lower :: "utext \<Rightarrow> utext" where
  "js_lower s = concat (map (\<lambda>c. if c = 0x212A then [107] else if c = 0x130 then [105, 0x307]
     else [ascii_lower c]) s)"

definition isUserRejection :: "write_error \<Rightarrow> bool" where
  "isUserRejection err =
     (let e = inspected err in
      if ex_code e = Some 4001 then True
      else (let msg = js_lower (ex_message e) in
        if contains (codes ''reject'') msg \<or> contains (codes ''declined'') msg
          \<or> contains (codes ''denied'') msg \<or> contains (codes ''cancel'') msg then True
        else ex_name e = codes ''WalletSignTransactionError'' \<or> ex_name e = codes ''WalletSendTransactionError''))"

text \<open>\<open>/\bphrase\b/\<close>: an occurrence whose neighbours are not word characters.\<close>

definition word_char :: "int \<Rightarrow> bool" where
  "word_char c \<longleftrightarrow> is_digit c \<or> 65 \<le> c \<and> c \<le> 90 \<or> 97 \<le> c \<and> c \<le> 122 \<or> c = 95"

fun phrase_in :: "utext \<Rightarrow> bool \<Rightarrow> utext \<Rightarrow> bool" where
  "phrase_in phrase after_word [] = False"
| "phrase_in phrase after_word (c # s) =
     (\<not> after_word \<and> take (length phrase) (c # s) = phrase
        \<and> (case drop (length phrase) (c # s) of d # _ \<Rightarrow> \<not> word_char d | [] \<Rightarrow> True)
      \<or> phrase_in phrase (word_char c) s)"

definition rejection_phrases :: "utext list" where
  "rejection_phrases =
     map (\<lambda>v. codes ''user '' @ codes v) [''rejected'', ''declined'', ''denied'', ''cancelled'', ''canceled'']
     @ map (\<lambda>v. codes v @ codes '' the request'') [''rejected'', ''declined'']
     @ map (\<lambda>v. codes ''request '' @ codes v) [''rejected'', ''declined'', ''denied'']
     @ map (\<lambda>v. codes ''request was '' @ codes v) [''rejected'', ''declined'', ''denied'']"

definition market_isUserRejection :: "write_error \<Rightarrow> bool" where
  "market_isUserRejection err =
     (let e = inspected err in
      if ex_code e = Some 4001 then True
      else if ex_name e = codes ''WalletSignTransactionError'' \<or> ex_name e = codes ''WalletSendTransactionError''
      then True
      else list_ex (\<lambda>p. phrase_in p False (js_lower (ex_message e))) rejection_phrases)"

fun mapWriteError :: "(write_error \<Rightarrow> bool) \<Rightarrow> write_error \<Rightarrow> utext \<times> utext list option" where
  "mapWriteError rejected (WValidation m) = (m, None)"
| "mapWriteError rejected (WSend e) =
     (if rejected (WSend e) then (codes ''Transaction rejected in wallet.'', None) else (se_message e, se_logs e))"
| "mapWriteError rejected (WOther e) =
     (if rejected (WOther e) then (codes ''Transaction rejected in wallet.'', None) else (ex_message e, None))"

text \<open>
  One write. The statuses that are pushed, in order, and the one returned: \<open>build\<close> assembles the
  instructions, \<open>sender\<close> is the wallet, \<open>confirm\<close> the rest of the send, and \<open>onSuccess\<close> the
  callback of the form, which may throw. The two apps differ only in \<open>rejected\<close>.
\<close>

definition runWriteAction ::
  "(write_error \<Rightarrow> bool) \<Rightarrow> write_error + 'i \<Rightarrow> ('i \<Rightarrow> (js_exn + utext)) \<Rightarrow> (js_exn + utext \<Rightarrow> send_error + utext)
    \<Rightarrow> (utext \<Rightarrow> js_exn + unit) \<Rightarrow> write_status list \<times> write_status" where
  "runWriteAction rejected ixs walletSender rest onSuccess =
     (let failed = (\<lambda>err. case mapWriteError rejected err of (m, l) \<Rightarrow> WError m l) in
      case ixs of
        Inl err \<Rightarrow> ([WBuilding, failed err], failed err)
      | Inr i \<Rightarrow>
         (let sent = walletSender i;
              seen = [WBuilding, WSigning] @ (case sent of Inr sig \<Rightarrow> [WConfirming] | Inl e \<Rightarrow> []) in
          case rest sent of
            Inl err \<Rightarrow> (seen @ [failed (WSend err)], failed (WSend err))
          | Inr signature \<Rightarrow>
             (case onSuccess signature of
                Inr u \<Rightarrow> (seen @ [WSuccess signature], WSuccess signature)
              | Inl e \<Rightarrow> (seen @ [WSuccess signature, failed (WOther e)], failed (WOther e)))))"

text \<open>\<open>sendAndConfirm(connection, wrapped, ixs)\<close> after the wallet's answer.\<close>

definition oracle_write ::
  "'a web3 \<Rightarrow> write_error + 'i \<Rightarrow> ('i \<Rightarrow> js_exn + utext) \<Rightarrow> (utext \<Rightarrow> js_exn + unit) \<Rightarrow> (utext \<Rightarrow> js_exn + unit)
    \<Rightarrow> write_status list \<times> write_status" where
  "oracle_write W ixs walletSender confirm onSuccess =
     runWriteAction isUserRejection ixs walletSender
       (\<lambda>sent. sendAndConfirm W (\<lambda>u. sent) confirm ()) onSuccess"


definition market_write ::
  "'a web3 \<Rightarrow> write_error + 'i \<Rightarrow> ('i \<Rightarrow> js_exn + utext) \<Rightarrow> (utext \<Rightarrow> (js_exn + unit) option)
    \<Rightarrow> (utext \<Rightarrow> js_exn + unit) \<Rightarrow> (write_status list \<times> write_status) option" where
  "market_write W ixs walletSender confirm onSuccess =
     (case ixs of
        Inl err \<Rightarrow> Some (runWriteAction market_isUserRejection (Inl err) walletSender (\<lambda>_. Inr []) onSuccess)
      | Inr i \<Rightarrow> map_option (\<lambda>r. runWriteAction market_isUserRejection ixs walletSender (\<lambda>_. r) onSuccess)
          (relayAndConfirm W (walletSender i) confirm))"

section \<open>Texts\<close>

lemma contains_iff: "contains sub s \<longleftrightarrow> (\<exists>pre post. s = pre @ sub @ post)"
proof (induction s)
  case (Cons c s)
  show ?case
  proof
    assume "contains sub (c # s)"
    then show "\<exists>pre post. c # s = pre @ sub @ post"
    proof (cases "take (length sub) (c # s) = sub")
      case True
      then have "c # s = [] @ sub @ drop (length sub) (c # s)" by (metis append_Nil append_take_drop_id)
      then show ?thesis by blast
    next
      case False
      then obtain pre post where "s = pre @ sub @ post" using \<open>contains sub (c # s)\<close> Cons by auto
      then show ?thesis by (intro exI [of _ "c # pre"] exI [of _ post]) simp
    qed
  next
    assume "\<exists>pre post. c # s = pre @ sub @ post"
    then obtain pre post where p: "c # s = pre @ sub @ post" by blast
    then show "contains sub (c # s)"
    proof (cases pre)
      case Nil
      with p have "take (length sub) (c # s) = sub" by simp
      then show ?thesis by simp
    next
      case (Cons d ds)
      with p have "s = ds @ sub @ post" by simp
      with Cons.IH show ?thesis by auto
    qed
  qed
qed auto

lemma contains_trans: "contains a b \<Longrightarrow> contains b c \<Longrightarrow> contains a c"
  unfolding contains_iff by (metis append.assoc)

lemma phrase_contains: "phrase_in p a s \<Longrightarrow> contains p s"
  by (induction s arbitrary: a) auto

lemma first_match_iff:
  "first_match m s = Some v \<Longrightarrow> \<exists>pre post. s = pre @ post \<and> m post = Some v"
proof (induction s)
  case (Cons c s)
  show ?case
  proof (cases "m (c # s)")
    case None
    with Cons obtain pre post where "s = pre @ post" "m post = Some v" by auto
    then show ?thesis by (intro exI [of _ "c # pre"] exI [of _ post]) simp
  next
    case (Some x)
    with Cons.prems show ?thesis by (intro exI [of _ "[]"] exI [of _ "c # s"]) simp
  qed
qed auto

section \<open>Program errors are attributed to their program\<close>

text \<open>The code that each copy decodes: the scoped log line first, then the status error.\<close>

definition error_code_of :: "utext \<Rightarrow> utext \<Rightarrow> utext list option \<Rightarrow> int option" where
  "error_code_of program txt logs =
     (case find (\<lambda>l. contains program l \<and> first_match program_error_at l \<noteq> None)
        (case logs of None \<Rightarrow> [] | Some ls \<Rightarrow> ls) of
       Some l \<Rightarrow> map_option hex_value (first_match program_error_at l)
     | None \<Rightarrow> map_option dec_value (first_match custom_at txt))"

lemma error_name_known: "error_name e \<noteq> ''Unknown''"
  by (cases e) simp_all

lemma scoped_code:
  "(case (case find (\<lambda>l. Q l \<and> g l \<noteq> None) ls of Some l \<Rightarrow> map_option h (g l) | None \<Rightarrow> None) of
      Some c \<Rightarrow> Some c | None \<Rightarrow> d)
    = (case find (\<lambda>l. Q l \<and> g l \<noteq> None) ls of Some l \<Rightarrow> map_option h (g l) | None \<Rightarrow> d)"
proof (cases "find (\<lambda>l. Q l \<and> g l \<noteq> None) ls")
  case (Some l)
  then have "g l \<noteq> None" by (metis (mono_tags, lifting) find_Some_iff)
  then show ?thesis unfolding Some by auto
qed simp

lemma humanize_code:
  "humanizeProgramError W txt logs =
     (case error_code_of (codes (w3_string W (KASSANDRA_PROGRAM_ID W))) txt logs of None \<Rightarrow> None
      | Some c \<Rightarrow> map_option (\<lambda>e. codes (ERROR_MESSAGES e)) (error_of c))"
  "market_humanizeProgramError W txt logs =
     (case error_code_of (codes (w3_string W (MARKET_PROGRAM_ID W))) txt logs of None \<Rightarrow> None
      | Some c \<Rightarrow> map_option MARKET_ERROR_MESSAGES (decodeMarketError c))"
proof -
  have d: "(case decodeError c of (n, m) \<Rightarrow> if n = ''Unknown'' then None
      else (case m of Message t \<Rightarrow> Some (codes t) | UnknownMessage x \<Rightarrow> None))
    = map_option (\<lambda>e. codes (ERROR_MESSAGES e)) (error_of c)" for c
    by (cases "error_of c") (simp_all add: decodeError_def error_name_known)
  show "humanizeProgramError W txt logs =
     (case error_code_of (codes (w3_string W (KASSANDRA_PROGRAM_ID W))) txt logs of None \<Rightarrow> None
      | Some c \<Rightarrow> map_option (\<lambda>e. codes (ERROR_MESSAGES e)) (error_of c))"
    unfolding humanizeProgramError_def Let_def scoped_code d error_code_of_def ..
  show "market_humanizeProgramError W txt logs =
     (case error_code_of (codes (w3_string W (MARKET_PROGRAM_ID W))) txt logs of None \<Rightarrow> None
      | Some c \<Rightarrow> map_option MARKET_ERROR_MESSAGES (decodeMarketError c))"
    unfolding market_humanizeProgramError_def Let_def scoped_code error_code_of_def ..
qed

definition log_lines :: "utext list option \<Rightarrow> utext list" where
  "log_lines logs = (case logs of None \<Rightarrow> [] | Some ls \<Rightarrow> ls)"

definition carries_code :: "utext \<Rightarrow> utext \<Rightarrow> utext list option \<Rightarrow> int \<Rightarrow> bool" where
  "carries_code program txt logs c \<longleftrightarrow>
     (\<exists>l\<in>set (log_lines logs). contains program l
        \<and> (\<exists>pre post ds. l = pre @ post \<and> program_error_at post = Some ds \<and> hex_value ds = c))
     \<or> (\<forall>l\<in>set (log_lines logs). contains program l \<longrightarrow> first_match program_error_at l = None)
        \<and> (\<exists>pre post ds. txt = pre @ post \<and> custom_at post = Some ds \<and> dec_value ds = c)"

lemma error_code_source:
  assumes "error_code_of program txt logs = Some c"
  shows "carries_code program txt logs c"
proof (cases "find (\<lambda>l. contains program l \<and> first_match program_error_at l \<noteq> None) (log_lines logs)")
  case None
  then obtain ds where "first_match custom_at txt = Some ds" "dec_value ds = c"
    using assms by (auto simp: error_code_of_def log_lines_def)
  then show ?thesis using None first_match_iff [of custom_at _ ds]
    by (fastforce simp: carries_code_def find_None_iff)
next
  case (Some l)
  then obtain ds where "first_match program_error_at l = Some ds" "hex_value ds = c"
    using assms by (auto simp: error_code_of_def log_lines_def)
  moreover have "l \<in> set (log_lines logs)" "contains program l"
    using Some by (auto simp: find_Some_iff)
  ultimately show ?thesis using first_match_iff [of program_error_at l ds]
    unfolding carries_code_def by blast
qed

text \<open>
  A program error is put into words only when it is the program's own. If the text that the
  user sees is the message of an error of this program, then either a log line that names this
  program carries its code in hexadecimal, or no log line of this program carries a code and the
  status error carries it in decimal; a log line of another program never counts. This holds of
  both apps, each with its own program and error table.
\<close>

theorem humanized_errors_are_ours:
  "(humanizeProgramError W txt logs = Some m \<longrightarrow> (\<exists>e. m = codes (ERROR_MESSAGES e)
      \<and> carries_code (codes (w3_string W (KASSANDRA_PROGRAM_ID W))) txt logs (error_code e)))
   \<and> (market_humanizeProgramError W txt logs = Some m \<longrightarrow> (\<exists>e. m = MARKET_ERROR_MESSAGES e
      \<and> carries_code (codes (w3_string W (MARKET_PROGRAM_ID W))) txt logs (market_error_code e)))"
proof -
  have e1: "error_code e = c" if "error_of c = Some e" for e c
    using that by (auto simp: error_of_def find_Some_iff)
  have e2: "market_error_code e = c" if "decodeMarketError c = Some e" for e c
    using that by (auto simp: decodeMarketError_def find_Some_iff)
  show ?thesis unfolding humanize_code
    by (auto split: option.splits dest!: error_code_source dest: e1 e2)
qed

theorem humanized_errors_are_ours_witness:
  "\<exists>e. humanizeProgramError sample_web3 ([34] @ codes ''Custom'' @ [34] @ codes '': 1'') None
      = Some (codes (ERROR_MESSAGES e)) \<and> error_code e = 1"
proof -
  let ?t = "[34] @ codes ''Custom'' @ [34] @ codes '': 1'' :: utext"
  have m: "first_match custom_at ?t = Some [49]" by code_simp
  have "error_of 1 = Some KE_WrongPhase" by (simp add: error_of_def all_errors_def)
  then have h: "humanizeProgramError sample_web3 ?t None = Some (codes (ERROR_MESSAGES KE_WrongPhase))"
    unfolding humanize_code error_code_of_def m by (simp add: dec_value_def)
  obtain e where e: "codes (ERROR_MESSAGES KE_WrongPhase) = codes (ERROR_MESSAGES e)"
    "carries_code (codes (w3_string sample_web3 (KASSANDRA_PROGRAM_ID sample_web3))) ?t None (error_code e)"
    using humanized_errors_are_ours [of sample_web3 ?t None "codes (ERROR_MESSAGES KE_WrongPhase)"] h by blast
  have "e = KE_WrongPhase" using e(1) by (cases e) (simp_all add: codes_def)
  with h show ?thesis by (intro exI [of _ KE_WrongPhase]) simp
qed

section \<open>Rejections\<close>

lemma market_rejection_narrower: "market_isUserRejection e \<Longrightarrow> isUserRejection e"
proof -
  have "\<exists>v\<in>{codes ''reject'', codes ''declined'', codes ''denied'', codes ''cancel''}. contains v p"
    if "p \<in> set rejection_phrases" for p
    using that by (auto simp: rejection_phrases_def codes_def)
  then have "contains (codes ''reject'') m \<or> contains (codes ''declined'') m \<or> contains (codes ''denied'') m
      \<or> contains (codes ''cancel'') m" if "phrase_in p False m" "p \<in> set rejection_phrases" for p m
    using that phrase_contains contains_trans by blast
  then show "market_isUserRejection e \<Longrightarrow> isUserRejection e"
    by (auto simp: market_isUserRejection_def isUserRejection_def Let_def list_ex_iff split: if_splits)
qed

text \<open>What an RPC provider answers to a request it refuses to serve.\<close>

definition provider_refusal :: write_error where
  "provider_refusal = WSend \<lparr>se_message = codes ''Transaction send failed: 403 Forbidden: access denied'',
     se_signature = None, se_logs = None,
     se_cause = plain_error (codes ''403 Forbidden: access denied'')\<rparr>"

text \<open>
  The two apps disagree on what a wallet rejection is. Whatever the market app reports as
  rejected in the wallet the oracle app reports so too; but the oracle app looks for the bare words
  anywhere in the error, so that a node or provider that refuses a transaction the user has
  approved (\<open>403 Forbidden: access denied\<close>) is reported as \<open>Transaction rejected in wallet.\<close>, and
  the error text is lost; the market app shows the error.
\<close>

theorem rejection_tests_differ:
  "(market_isUserRejection e \<longrightarrow> isUserRejection e)
   \<and> mapWriteError isUserRejection provider_refusal = (codes ''Transaction rejected in wallet.'', None)
   \<and> mapWriteError market_isUserRejection provider_refusal
       = (codes ''Transaction send failed: 403 Forbidden: access denied'', None)"
proof (intro conjI impI)
  show "isUserRejection e" if "market_isUserRejection e" using that by (rule market_rejection_narrower)
  have "isUserRejection provider_refusal = True" by code_simp
  then show "mapWriteError isUserRejection provider_refusal = (codes ''Transaction rejected in wallet.'', None)"
    by (simp add: provider_refusal_def)
  have "market_isUserRejection provider_refusal = False" by code_simp
  then show "mapWriteError market_isUserRejection provider_refusal
       = (codes ''Transaction send failed: 403 Forbidden: access denied'', None)"
    by (simp add: provider_refusal_def)
qed

theorem rejection_tests_differ_witness:
  "isUserRejection (WOther (plain_error (codes ''User rejected the request.'')))
    \<and> mapWriteError isUserRejection provider_refusal = (codes ''Transaction rejected in wallet.'', None)"
proof -
  have "market_isUserRejection (WOther (plain_error (codes ''User rejected the request.''))) = True"
    by code_simp
  with rejection_tests_differ [of "WOther (plain_error (codes ''User rejected the request.''))"]
  show ?thesis by simp
qed


section \<open>The life of a write\<close>

inductive write_step :: "write_status \<Rightarrow> write_status \<Rightarrow> bool" where
  "write_step WIdle WBuilding"
| "write_step WBuilding WSigning"
| "write_step WBuilding (WError m l)"
| "write_step WSigning WConfirming"
| "write_step WSigning (WError m l)"
| "write_step WConfirming (WSuccess sig)"
| "write_step WConfirming (WError m l)"
| "write_step (WSuccess sig) (WError m l)"

inductive_simps write_step_simps [simp]:
  "write_step WIdle s" "write_step WBuilding s" "write_step WSigning s" "write_step WConfirming s"
  "write_step (WSuccess sig) s" "write_step (WError m l) s"

text \<open>What a status list of one write must be, given what the wallet, the node and the form did.\<close>

fun returned :: "'e + 'b \<Rightarrow> bool" where
  "returned (Inl e) = False"
| "returned (Inr x) = True"

definition faithful_trace ::
  "write_error + 'i \<Rightarrow> ('i \<Rightarrow> js_exn + utext) \<Rightarrow> (utext \<Rightarrow> bool) \<Rightarrow> (utext \<Rightarrow> bool)
    \<Rightarrow> write_status list \<Rightarrow> write_status \<Rightarrow> bool" where
  "faithful_trace ixs sender confirmed callback_ok trace final \<longleftrightarrow>
     successively write_step (WIdle # trace) \<and> trace \<noteq> [] \<and> last trace = final \<and> \<not> isBusy final
     \<and> (WConfirming \<in> set trace \<longleftrightarrow> (\<exists>i sig. ixs = Inr i \<and> sender i = Inr sig))
     \<and> (\<forall>sig. WSuccess sig \<in> set trace \<longleftrightarrow> (\<exists>i. ixs = Inr i \<and> sender i = Inr sig \<and> confirmed sig))
     \<and> (\<forall>sig. final = WSuccess sig \<longleftrightarrow> WSuccess sig \<in> set trace \<and> callback_ok sig)"

lemma run_faithful:
  assumes "\<And>i sig. ixs = Inr i \<Longrightarrow> rest (sender i) = Inr sig \<longleftrightarrow> sender i = Inr sig \<and> confirmed sig"
    and "runWriteAction rejected ixs sender rest onSuccess = (trace, final)"
  shows "faithful_trace ixs sender confirmed (\<lambda>sig. returned (onSuccess sig)) trace final"
proof (cases ixs)
  case (Inl e)
  then show ?thesis using assms(2)
    by (auto simp: runWriteAction_def faithful_trace_def split: prod.splits)
next
  case (Inr i)
  note r = assms(1) [OF Inr]
  show ?thesis
  proof (cases "rest (sender i)")
    case (Inl e)
    then have "\<not> (sender i = Inr sig \<and> confirmed sig)" for sig using r [of sig] by simp
    with Inl show ?thesis using assms(2) Inr
      by (cases "sender i") (auto simp: runWriteAction_def faithful_trace_def split: prod.splits)
  next
    case s: (Inr sig)
    then have "sender i = Inr sig" "confirmed sig" using r [of sig] by simp_all
    with s show ?thesis using assms(2) Inr
      by (cases "onSuccess sig") (auto simp: runWriteAction_def faithful_trace_def split: prod.splits)
  qed
qed

lemma sendAndConfirm_iff:
  "sendAndConfirm W sender confirm ixs = Inr sig \<longleftrightarrow> sender ixs = Inr sig \<and> returned (confirm sig)"
  by (auto simp: sendAndConfirm_def split: sum.splits)

lemma relayAndConfirm_iff:
  "relayAndConfirm W relay confirm = Some (Inr sig) \<longleftrightarrow> relay = Inr sig \<and> confirm sig = Some (Inr ())"
proof (cases relay)
  case (Inr s)
  then show ?thesis by (cases "confirm s") (auto simp: relayAndConfirm_def split: sum.splits)
qed (simp add: relayAndConfirm_def)

text \<open>
  C34: the status the form shows is true. In both apps the statuses of one write form a path of the
  state machine (idle, building, signing, confirming, then success or an error), end in a status
  that is not busy and that is the one returned; \<open>confirming\<close> is shown exactly when the wallet has
  returned a signature, and \<open>success\<close> with a signature exactly when the wallet returned that
  signature and it was confirmed. Only a callback that throws turns a success into an error.
\<close>

theorem write_action_trace:
  "(oracle_write W ixs sender confirm onSuccess = (trace, final) \<longrightarrow>
      faithful_trace ixs sender (\<lambda>sig. returned (confirm sig)) (\<lambda>sig. returned (onSuccess sig)) trace final)
   \<and> (market_write W ixs sender poll onSuccess = Some (trace, final) \<longrightarrow>
      faithful_trace ixs sender (\<lambda>sig. poll sig = Some (Inr ())) (\<lambda>sig. returned (onSuccess sig)) trace final)"
proof (intro conjI impI)
  assume "oracle_write W ixs sender confirm onSuccess = (trace, final)"
  then show "faithful_trace ixs sender (\<lambda>sig. returned (confirm sig)) (\<lambda>sig. returned (onSuccess sig)) trace final"
    unfolding oracle_write_def by (rule run_faithful [rotated]) (simp add: sendAndConfirm_iff)
next
  assume m: "market_write W ixs sender poll onSuccess = Some (trace, final)"
  show "faithful_trace ixs sender (\<lambda>sig. poll sig = Some (Inr ())) (\<lambda>sig. returned (onSuccess sig)) trace final"
  proof (cases ixs)
    case (Inl e)
    with m have "runWriteAction market_isUserRejection ixs sender (\<lambda>_. Inr []) onSuccess = (trace, final)"
      by (simp add: market_write_def)
    then show ?thesis by (rule run_faithful [rotated]) (simp add: Inl)
  next
    case (Inr i)
    with m obtain r where r: "relayAndConfirm W (sender i) poll = Some r"
      and t: "runWriteAction market_isUserRejection ixs sender (\<lambda>_. r) onSuccess = (trace, final)"
      by (auto simp: market_write_def)
    have "r = Inr sig \<longleftrightarrow> sender i = Inr sig \<and> poll sig = Some (Inr ())" for sig
      using relayAndConfirm_iff [of W "sender i" poll sig] r by simp
    then show ?thesis by (intro run_faithful [OF _ t]) (simp add: Inr)
  qed
qed

text \<open>A write that the wallet signs and the node confirms, with a form whose refetch throws.\<close>

theorem write_action_trace_witness:
  "\<exists>trace final. oracle_write sample_web3 (Inr ()) (\<lambda>u. Inr (codes ''sig'')) (\<lambda>s. Inr ())
      (\<lambda>s. Inl (plain_error (codes ''refetch''))) = (trace, final)
    \<and> WSuccess (codes ''sig'') \<in> set trace \<and> final \<noteq> WSuccess (codes ''sig'')"
proof -
  obtain trace final where t: "oracle_write sample_web3 (Inr ()) (\<lambda>u. Inr (codes ''sig'')) (\<lambda>s. Inr ())
      (\<lambda>s. Inl (plain_error (codes ''refetch''))) = (trace, final)" by force
  then have "faithful_trace (Inr ()) (\<lambda>u. Inr (codes ''sig'')) (\<lambda>s. returned (Inr () :: js_exn + unit))
      (\<lambda>s. returned (Inl (plain_error (codes ''refetch'')) :: js_exn + unit)) trace final"
    using write_action_trace [of sample_web3 "Inr ()" "\<lambda>u. Inr (codes ''sig'')" "\<lambda>s. Inr ()"
      "\<lambda>s. Inl (plain_error (codes ''refetch''))" trace final "\<lambda>s. None"] by blast
  with t show ?thesis by (auto simp: faithful_trace_def)
qed

section \<open>Where a failed send leaves its signature\<close>

definition still_pending :: "int \<Rightarrow> int \<times> (js_exn + relay_status \<times> utext option) \<Rightarrow> bool" where
  "still_pending d p \<longleftrightarrow> fst p < d \<and> (\<exists>err. snd p = Inr (RsPending, err) \<and> (err = None \<or> err = Some []))"

definition landed :: "int \<Rightarrow> int \<times> (js_exn + relay_status \<times> utext option) \<Rightarrow> bool" where
  "landed d p \<longleftrightarrow> fst p < d \<and> (\<exists>st err. snd p = Inr (st, err) \<and> (st = RsConfirmed \<or> st = RsFinalized)
     \<and> (err = None \<or> err = Some []))"

lemma confirm_poll_step:
  "still_pending d p \<Longrightarrow> market_confirm_poll W sig t d (p # ps) = market_confirm_poll W sig t d ps"
  "landed d p \<Longrightarrow> market_confirm_poll W sig t d (p # ps) = Some (Inr ())"
  "\<not> still_pending d p \<Longrightarrow> \<not> landed d p \<Longrightarrow> \<exists>e. market_confirm_poll W sig t d (p # ps) = Some (Inl e)"
proof -
  obtain now a where p: "p = (now, a)" by (cases p)
  show "still_pending d p \<Longrightarrow> market_confirm_poll W sig t d (p # ps) = market_confirm_poll W sig t d ps"
    "landed d p \<Longrightarrow> market_confirm_poll W sig t d (p # ps) = Some (Inr ())"
    by (auto simp: p still_pending_def landed_def)
  show "\<exists>e. market_confirm_poll W sig t d (p # ps) = Some (Inl e)" if "\<not> still_pending d p" "\<not> landed d p"
  proof (cases a)
    case (Inl e)
    then show ?thesis by (simp add: p)
  next
    case (Inr r)
    obtain st err where r: "r = (st, err)" by (cases r)
    show ?thesis using that unfolding still_pending_def landed_def p Inr r by (cases st) (auto simp: Let_def)
  qed
qed

lemma landed_not_pending: "landed d p \<Longrightarrow> \<not> still_pending d p"
  by (auto simp: landed_def still_pending_def)

lemma confirm_poll_spec:
  "market_confirm_poll W sig t d polls = None \<longleftrightarrow> list_all (still_pending d) polls"
  "market_confirm_poll W sig t d polls = Some (Inr ()) \<longleftrightarrow>
     (\<exists>pre p post. polls = pre @ p # post \<and> list_all (still_pending d) pre \<and> landed d p)"
proof (induction polls)
  case (Cons p ps)
  have step: "(\<exists>pre q post. p # ps = pre @ q # post \<and> list_all (still_pending d) pre \<and> landed d q)
      \<longleftrightarrow> landed d p \<or> still_pending d p \<and>
        (\<exists>pre q post. ps = pre @ q # post \<and> list_all (still_pending d) pre \<and> landed d q)"
  proof (intro iffI)
    assume "\<exists>pre q post. p # ps = pre @ q # post \<and> list_all (still_pending d) pre \<and> landed d q"
    then obtain pre q post where q: "p # ps = pre @ q # post" "list_all (still_pending d) pre" "landed d q"
      by blast
    then show "landed d p \<or> still_pending d p \<and>
        (\<exists>pre q post. ps = pre @ q # post \<and> list_all (still_pending d) pre \<and> landed d q)"
    proof (cases pre)
      case (Cons x xs)
      with q have "ps = xs @ q # post" "list_all (still_pending d) xs" "still_pending d p" by auto
      with q(3) show ?thesis by blast
    qed simp
  next
    assume "landed d p \<or> still_pending d p \<and>
        (\<exists>pre q post. ps = pre @ q # post \<and> list_all (still_pending d) pre \<and> landed d q)"
    then show "\<exists>pre q post. p # ps = pre @ q # post \<and> list_all (still_pending d) pre \<and> landed d q"
    proof (elim disjE conjE exE)
      assume "landed d p"
      then show ?thesis by (intro exI [of _ "[]"] exI [of _ p] exI [of _ ps]) simp
    next
      fix pre q post
      assume "still_pending d p" "ps = pre @ q # post" "list_all (still_pending d) pre" "landed d q"
      then show ?thesis by (intro exI [of _ "p # pre"] exI [of _ q] exI [of _ post]) simp
    qed
  qed
  consider "still_pending d p" | "landed d p" | "\<not> still_pending d p" "\<not> landed d p" by blast
  then show "market_confirm_poll W sig t d (p # ps) = None \<longleftrightarrow> list_all (still_pending d) (p # ps)"
    "market_confirm_poll W sig t d (p # ps) = Some (Inr ()) \<longleftrightarrow>
      (\<exists>pre q post. p # ps = pre @ q # post \<and> list_all (still_pending d) pre \<and> landed d q)"
    unfolding step
    by (cases; use Cons confirm_poll_step [of d p W sig t ps] landed_not_pending [of d p] in auto)+
qed auto

text \<open>
  C35: a confirmation succeeds exactly on a confirmed transaction, and it ends. The market app's
  confirmation returns iff some poll before the deadline sees the transaction confirmed or finalized
  without an error, and every earlier poll saw it pending; with the timeout of 30 seconds it has
  ended once a poll is due at or after the deadline; and a send that fails carries the signature
  exactly when the wallet returned one, so that the user can look the transaction up.
\<close>

theorem confirmation_ends_truthfully:
  "(market_confirmSignature W sig t start polls = Some (Inr ()) \<longleftrightarrow>
      (\<exists>pre p post. polls = pre @ p # post \<and> list_all (still_pending (start + int t)) pre
        \<and> landed (start + int t) p))
   \<and> ((\<exists>p\<in>set polls. start + int t \<le> fst p) \<longrightarrow> market_confirmSignature W sig t start polls \<noteq> None)
   \<and> (relayAndConfirm W relay confirm = Some (Inl err) \<longrightarrow>
       se_signature err = (case relay of Inr s \<Rightarrow> Some s | Inl e \<Rightarrow> None))"
proof (intro conjI impI)
  show "market_confirmSignature W sig t start polls = Some (Inr ()) \<longleftrightarrow>
      (\<exists>pre p post. polls = pre @ p # post \<and> list_all (still_pending (start + int t)) pre
        \<and> landed (start + int t) p)"
    unfolding market_confirmSignature_def by (rule confirm_poll_spec)
  show "market_confirmSignature W sig t start polls \<noteq> None" if "\<exists>p\<in>set polls. start + int t \<le> fst p"
    using that unfolding market_confirmSignature_def confirm_poll_spec
    by (fastforce simp: list_all_iff still_pending_def)
  show "se_signature err = (case relay of Inr s \<Rightarrow> Some s | Inl e \<Rightarrow> None)"
    if f: "relayAndConfirm W relay confirm = Some (Inl err)"
  proof (cases relay)
    case (Inr s)
    then obtain r where "confirm s = Some r" using f by (auto simp: relayAndConfirm_def)
    then show ?thesis using f Inr by (cases r) (auto simp: relayAndConfirm_def)
  qed (use f in \<open>auto simp: relayAndConfirm_def\<close>)
qed

theorem confirmation_ends_truthfully_witness:
  "market_confirmSignature sample_web3 (codes ''s'') 30000 0 [(0, Inr (RsPending, None)), (150, Inr (RsConfirmed, None))]
      = Some (Inr ())
    \<and> market_confirmSignature sample_web3 (codes ''s'') 30000 0 [(29900, Inr (RsPending, None)), (30050, Inr (RsConfirmed, None))]
      \<noteq> Some (Inr ())"
proof -
  let ?a = "[(0, Inr (RsPending, None)), (150, Inr (RsConfirmed, None))] :: (int \<times> (js_exn + relay_status \<times> utext option)) list"
  have "list_all (still_pending 30000) [(0, Inr (RsPending, None))]" "landed 30000 (150, Inr (RsConfirmed, None))"
    by (simp_all add: still_pending_def landed_def)
  then have a: "market_confirmSignature sample_web3 (codes ''s'') 30000 0 ?a = Some (Inr ())"
    using confirmation_ends_truthfully [of sample_web3 "codes ''s''" 30000 0 ?a "Inl (plain_error [])" "\<lambda>s. None"]
    by (metis append_Cons append_Nil int_ops(3) of_nat_numeral add_0)
  then show ?thesis by (simp add: market_confirmSignature_def)
qed

end
