(* ===== verification/Finalize_Actions.thy ===== *)
theory Finalize_Actions
  imports Oracle_Actions Send_Confirm Packing
begin

text \<open>
  The cranks of an oracle (\<open>app/src/data/actions/finalize.ts\<close>): the five builders, the search for the nonce of an oracle, and the
  choice between a legacy transaction and one over a lookup table, on the transaction path of
  \<open>V0_Alt\<close>.
\<close>

section \<open>Shape of a crank\<close>

definition MAX_LEGACY_TAIL :: nat where
  "MAX_LEGACY_TAIL = 24"

definition DEFAULT_MAX_NONCE_SCAN :: int where
  "DEFAULT_MAX_NONCE_SCAN = 4096"

record 'a finalize_action =
  fin_ixs :: "'a tx_instruction list"
  fin_needsAlt :: bool
  fin_altAddresses :: "'a list"

definition altDecision :: "'a list \<Rightarrow> bool \<times> 'a list" where
  "altDecision tl1 =
     (let needsAlt = length tl1 > MAX_LEGACY_TAIL in (needsAlt, if needsAlt then tl1 else []))"

definition requireTail :: "'a web3 \<Rightarrow> string \<Rightarrow> 'a address_input list \<Rightarrow> 'a list res" where
  "requireTail W fld tl1 =
     (if length tl1 = 0 then Inl (ValidationErr fld) else collect (map (addr W) tl1))"

section \<open>The nonce of an oracle\<close>

text \<open>
  The loop \<open>for (let n = 0; n <= max; n++)\<close>: \<open>fuel\<close> is the number of candidates left, so that
  the scan of \<open>resolveOracleNonce\<close> starts with \<open>max + 1\<close> (none when \<open>max\<close> is negative).
\<close>

fun nonce_scan :: "'a web3 \<Rightarrow> string \<Rightarrow> 'a option \<Rightarrow> nat \<Rightarrow> int \<Rightarrow> int option res" where
  "nonce_scan W target programId 0 n = Inr None"
| "nonce_scan W target programId (Suc fuel) n =
     rbind (pda_oracle W n programId) (\<lambda>derived.
       if w3_string W (pda_address derived) = target then Inr (Some n)
       else nonce_scan W target programId fuel (n + 1))"

definition resolveOracleNonce ::
  "'a web3 \<Rightarrow> 'a address_input \<Rightarrow> int option \<Rightarrow> 'a option \<Rightarrow> int res" where
  "resolveOracleNonce W orc maxNonce programId =
     rbind (addr W orc) (\<lambda>a.
       let target = w3_string W a;
           max = (case maxNonce of None \<Rightarrow> DEFAULT_MAX_NONCE_SCAN | Some m \<Rightarrow> m) in
       rbind (nonce_scan W target programId (nat (max + 1)) 0) (\<lambda>found.
         case found of Some n \<Rightarrow> Inr n | None \<Rightarrow> Inl (NonceUnresolvedErr max)))"

text \<open>\<open>args.oracleNonce ?? await resolveOracleNonce(\<dots>)\<close>; the SDK converts an explicit nonce.\<close>

definition nonce_or_scan ::
  "'a web3 \<Rightarrow> num_input option \<Rightarrow> 'a address_input \<Rightarrow> int option \<Rightarrow> 'a option \<Rightarrow> int res" where
  "nonce_or_scan W given orc maxNonce programId =
     (case given of Some n \<Rightarrow> toBigInt n | None \<Rightarrow> resolveOracleNonce W orc maxNonce programId)"

section \<open>The builders\<close>

definition buildFinalizeProposalsIxs :: "'a web3 \<Rightarrow> 'a finalizeProposals_args \<Rightarrow> 'a finalize_action res" where
  "buildFinalizeProposalsIxs W a =
     rbind (requireTail W ''proposers'' (fpa_proposers a)) (\<lambda>proposers.
     rbind (finalizeProposals W \<lparr>fpa_oracle = fpa_oracle a, fpa_proposers = map Addr proposers,
       fpa_programId = fpa_programId a\<rparr>) (\<lambda>ix.
     let (needsAlt, altAddresses) = altDecision proposers in
     Inr \<lparr>fin_ixs = [ix], fin_needsAlt = needsAlt, fin_altAddresses = altAddresses\<rparr>))"

definition buildAdvancePhaseIxs :: "'a web3 \<Rightarrow> 'a advancePhase_args \<Rightarrow> 'a finalize_action res" where
  "buildAdvancePhaseIxs W a =
     rbind (advancePhase W a) (\<lambda>ix.
     Inr \<lparr>fin_ixs = [ix], fin_needsAlt = False, fin_altAddresses = []\<rparr>)"

record 'a build_finalize_facts_args =
  bff_oracle :: "'a address_input"
  bff_kassMint :: "'a address_input"
  bff_facts :: "'a address_input list"
  bff_oracleNonce :: "num_input option"
  bff_maxNonce :: "int option"
  bff_programId :: "'a option"

definition buildFinalizeFactsIxs :: "'a web3 \<Rightarrow> 'a build_finalize_facts_args \<Rightarrow> 'a finalize_action res" where
  "buildFinalizeFactsIxs W a =
     rbind (requireTail W ''facts'' (bff_facts a)) (\<lambda>tl1.
     rbind (nonce_or_scan W (bff_oracleNonce a) (bff_oracle a) (bff_maxNonce a) (bff_programId a)) (\<lambda>nonce.
     rbind (finalizeFacts W \<lparr>ffa_nonce = nonce, ffa_kassMint = bff_kassMint a, ffa_tail = map Addr tl1,
       ffa_programId = bff_programId a\<rparr>) (\<lambda>ix.
     Inr \<lparr>fin_ixs = [ix], fin_needsAlt = False, fin_altAddresses = []\<rparr>)))"

definition buildFinalizeAiClaimsIxs :: "'a web3 \<Rightarrow> 'a finalizeAiClaims_args \<Rightarrow> 'a finalize_action res" where
  "buildFinalizeAiClaimsIxs W a =
     rbind (requireTail W ''proposers'' (faa_proposers a)) (\<lambda>proposers.
     rbind (finalizeAiClaims W \<lparr>faa_oracle = faa_oracle a, faa_proposers = map Addr proposers,
       faa_programId = faa_programId a\<rparr>) (\<lambda>ix.
     Inr \<lparr>fin_ixs = [ix], fin_needsAlt = False, fin_altAddresses = []\<rparr>))"

record 'a build_finalize_oracle_args =
  bfo_oracle :: "'a address_input"
  bfo_kassMint :: "'a address_input"
  bfo_proposers :: "'a address_input list"
  bfo_oracleNonce :: "num_input option"
  bfo_maxNonce :: "int option"
  bfo_programId :: "'a option"

definition buildFinalizeOracleIxs :: "'a web3 \<Rightarrow> 'a build_finalize_oracle_args \<Rightarrow> 'a finalize_action res" where
  "buildFinalizeOracleIxs W a =
     rbind (requireTail W ''proposers'' (bfo_proposers a)) (\<lambda>proposers.
     rbind (nonce_or_scan W (bfo_oracleNonce a) (bfo_oracle a) (bfo_maxNonce a) (bfo_programId a)) (\<lambda>nonce.
     rbind (finalizeOracle W \<lparr>foa_nonce = nonce, foa_kassMint = bfo_kassMint a,
       foa_proposers = map Addr proposers, foa_programId = bfo_programId a\<rparr>) (\<lambda>ix.
     let (needsAlt, altAddresses) = altDecision proposers in
     Inr \<lparr>fin_ixs = [ix], fin_needsAlt = needsAlt, fin_altAddresses = altAddresses\<rparr>)))"

section \<open>Sending\<close>

datatype smart_error = SmartJs js_error | SmartSend send_error

text \<open>
  \<open>altKeypair\<close> pays for and signs the transactions of the table path, on the network seen by that
  keypair; \<open>sender\<close> is the legacy sender. The result of the table path lists what was signed and
  sent; \<open>None\<close> is a wait that has not ended.
\<close>

definition sendFinalizeSmart ::
  "'a web3 \<Rightarrow> 'a tx_lib \<Rightarrow> ('k \<Rightarrow> 'a network) \<Rightarrow> 'a finalize_action
    \<Rightarrow> ('a tx_instruction list \<Rightarrow> js_exn + utext) option \<Rightarrow> 'k option \<Rightarrow> nat option
    \<Rightarrow> (utext \<Rightarrow> js_exn + unit) \<Rightarrow> ('a alt_tx list \<times> (smart_error + utext)) option" where
  "sendFinalizeSmart W T net action sender altKeypair computeUnitLimit confirm =
     (if fin_needsAlt action then
        (case altKeypair of
           None \<Rightarrow> Some ([], Inl (SmartJs (OtherErr ''supply altKeypair'')))
         | Some k \<Rightarrow>
             (case sendFinalizeViaAlt (net k) (last (fin_ixs action)) (fin_altAddresses action)
                (Some [tl_limit T (case computeUnitLimit of None \<Rightarrow> 600000 | Some u \<Rightarrow> u)]) None of
                None \<Rightarrow> None
              | Some (sent, Inl e) \<Rightarrow> Some (sent, Inl (SmartJs e))
              | Some (sent, Inr (sig, table)) \<Rightarrow> Some (sent, Inr (codes sig))))
      else
        (case sender of
           None \<Rightarrow> Some ([], Inl (SmartJs (OtherErr ''A legacy sender is required'')))
         | Some send \<Rightarrow>
             (case sendAndConfirm W send confirm (fin_ixs action) of
                Inl e \<Rightarrow> Some ([], Inl (SmartSend e))
              | Inr sig \<Rightarrow> Some ([], Inr sig))))"

section \<open>The scan finds the least nonce\<close>

lemma int_all_step:
  "n < m \<Longrightarrow> (\<forall>j. n \<le> j \<and> j < m \<longrightarrow> P j) \<longleftrightarrow> P n \<and> (\<forall>j. n + 1 \<le> j \<and> j < m \<longrightarrow> P j)"
  for n m :: int
  by (auto; metis add1_zle_eq order_le_less)

lemma nonce_scan_spec:
  "nonce_scan W t p fuel n = Inr (Some k) \<longleftrightarrow> n \<le> k \<and> k < n + int fuel
     \<and> (\<exists>d. pda_oracle W k p = Inr d \<and> w3_string W (pda_address d) = t)
     \<and> (\<forall>j. n \<le> j \<and> j < k \<longrightarrow> (\<exists>d. pda_oracle W j p = Inr d \<and> w3_string W (pda_address d) \<noteq> t))"
  "nonce_scan W t p fuel n = Inr None \<longleftrightarrow>
     (\<forall>j. n \<le> j \<and> j < n + int fuel \<longrightarrow> (\<exists>d. pda_oracle W j p = Inr d \<and> w3_string W (pda_address d) \<noteq> t))"
proof (induction fuel arbitrary: n)
  case (Suc fuel)
  case 1
  show ?case
  proof (cases "n = k")
    case True
    then show ?thesis using Suc.IH(1) [of "n + 1" ]
      by (cases "pda_oracle W n p") (auto simp: Suc.IH)
  next
    case False
    show ?thesis
    proof (cases "n < k")
      case True
      then show ?thesis unfolding int_all_step [OF True]
        by (cases "pda_oracle W n p") (auto simp: Suc.IH)
    qed (use False in \<open>cases "pda_oracle W n p"; auto simp: Suc.IH\<close>)
  qed
  case 2
  show ?case
    by (subst int_all_step, simp, cases "pda_oracle W n p") (auto simp: Suc.IH algebra_simps)
qed auto

lemma nonce_scan_ok: "pda_total W \<Longrightarrow> is_ok (nonce_scan W t p fuel n)"
  by (induction fuel arbitrary: n) (auto intro!: is_ok_bindI is_ok_oracle_pdas)

text \<open>
  The nonce of an oracle is found exactly when it can be. Without an explicit bound the scan
  covers the nonces 0 to 4096; it returns the least nonce whose derived address is the given oracle
  (and no other answer), and reports the oracle as unresolved exactly when no nonce up to the bound
  derives it, provided every derivation in the way succeeds.
\<close>

theorem resolve_nonce_least:
  assumes "web3_ok W" "addr W orc = Inr a" "mx = (case maxNonce of None \<Rightarrow> 4096 | Some m \<Rightarrow> m)"
  shows "(resolveOracleNonce W orc maxNonce p = Inr n \<longleftrightarrow> 0 \<le> n \<and> n \<le> mx
      \<and> rmap pda_address (pda_oracle W n p) = Inr a
      \<and> (\<forall>j. 0 \<le> j \<and> j < n \<longrightarrow> (\<exists>b. rmap pda_address (pda_oracle W j p) = Inr b \<and> b \<noteq> a)))
    \<and> (pda_total W \<longrightarrow> (resolveOracleNonce W orc maxNonce p = Inl (NonceUnresolvedErr mx) \<longleftrightarrow>
        (\<forall>j. 0 \<le> j \<and> j \<le> mx \<longrightarrow> rmap pda_address (pda_oracle W j p) \<noteq> Inr a)))"
proof -
  let ?t = "w3_string W a"
  have inj: "w3_string W b = ?t \<longleftrightarrow> b = a" for b using web3_string_inj [OF assms(1)] by auto
  have hit: "(\<exists>d. pda_oracle W k p = Inr d \<and> w3_string W (pda_address d) = ?t)
      \<longleftrightarrow> rmap pda_address (pda_oracle W k p) = Inr a" for k
    by (auto simp: inj rmap_Inr_iff)
  have miss: "(\<exists>d. pda_oracle W k p = Inr d \<and> w3_string W (pda_address d) \<noteq> ?t)
      \<longleftrightarrow> (\<exists>b. rmap pda_address (pda_oracle W k p) = Inr b \<and> b \<noteq> a)" for k
    by (auto simp: inj rmap_Inr_iff)
  have r: "resolveOracleNonce W orc maxNonce p = rbind (nonce_scan W ?t p (nat (mx + 1)) 0) (\<lambda>found.
      case found of Some n \<Rightarrow> Inr n | None \<Rightarrow> Inl (NonceUnresolvedErr mx))"
    unfolding assms(3) resolveOracleNonce_def Let_def DEFAULT_MAX_NONCE_SCAN_def assms(2) by simp
  have "resolveOracleNonce W orc maxNonce p = Inr n \<longleftrightarrow> nonce_scan W ?t p (nat (mx + 1)) 0 = Inr (Some n)"
    unfolding r rbind_Inr_iff by (auto split: option.splits)
  also have "\<dots> \<longleftrightarrow> 0 \<le> n \<and> n \<le> mx \<and> rmap pda_address (pda_oracle W n p) = Inr a
      \<and> (\<forall>j. 0 \<le> j \<and> j < n \<longrightarrow> (\<exists>b. rmap pda_address (pda_oracle W j p) = Inr b \<and> b \<noteq> a))"
    unfolding nonce_scan_spec hit miss by auto
  finally have A: "resolveOracleNonce W orc maxNonce p = Inr n \<longleftrightarrow> 0 \<le> n \<and> n \<le> mx
      \<and> rmap pda_address (pda_oracle W n p) = Inr a
      \<and> (\<forall>j. 0 \<le> j \<and> j < n \<longrightarrow> (\<exists>b. rmap pda_address (pda_oracle W j p) = Inr b \<and> b \<noteq> a))" .
  have B: "resolveOracleNonce W orc maxNonce p = Inl (NonceUnresolvedErr mx) \<longleftrightarrow>
        (\<forall>j. 0 \<le> j \<and> j \<le> mx \<longrightarrow> rmap pda_address (pda_oracle W j p) \<noteq> Inr a)" if "pda_total W"
  proof -
    have ok: "\<exists>b. rmap pda_address (pda_oracle W j p) = Inr b" for j
      using is_ok_oracle_pdas(3) [OF that, of j p] by (cases "pda_oracle W j p") auto
    have "resolveOracleNonce W orc maxNonce p = Inl (NonceUnresolvedErr mx)
        \<longleftrightarrow> nonce_scan W ?t p (nat (mx + 1)) 0 = Inr None"
      using nonce_scan_ok [OF that, of ?t p "nat (mx + 1)" 0] unfolding r rbind_Inl_iff
      by (auto simp: is_ok_iff split: option.splits)
    also have "\<dots> \<longleftrightarrow> (\<forall>j. 0 \<le> j \<and> j \<le> mx \<longrightarrow> (\<exists>b. rmap pda_address (pda_oracle W j p) = Inr b \<and> b \<noteq> a))"
      unfolding nonce_scan_spec miss by auto
    finally show ?thesis using ok by (metis sum.inject(2))
  qed
  from A B show ?thesis by blast
qed


theorem resolve_nonce_least_witness:
  "\<exists>d. pda_oracle sample_web3 0 None = Inr d
    \<and> resolveOracleNonce sample_web3 (Addr (pda_address d)) None None = Inr 0"
proof -
  obtain d where d: "pda_oracle sample_web3 0 None = Inr d"
    using is_ok_oracle_pdas(3) [OF sample_pda_total, of 0 None] by (auto simp: is_ok_iff)
  then have "resolveOracleNonce sample_web3 (Addr (pda_address d)) None None = Inr 0"
    using resolve_nonce_least [OF sample_web3_ok, of "Addr (pda_address d)" "pda_address d" 4096 None None 0] by auto
  with d show ?thesis by blast
qed

section \<open>The cranks target the oracle they are given\<close>

lemma requireTail_iff:
  "requireTail W f xs = Inr ys \<longleftrightarrow> xs \<noteq> [] \<and> map (addr W) xs = map Inr ys"
  by (auto simp: requireTail_def collect_Inr_iff)

lemma altDecision_simp:
  "altDecision ps = (24 < length ps, if 24 < length ps then ps else [])"
  by (simp add: altDecision_def MAX_LEGACY_TAIL_def Let_def)

lemma collect_w_Addr: "collect (map (\<lambda>k. w_in W k s) (map Addr ps)) = Inr (map (\<lambda>a. w a s) ps)"
  by (simp add: collect_Inr_iff w_in_def)

lemma collect_ro_Addr: "collect (map (\<lambda>k. ro_in W k s) (map Addr ps)) = Inr (map (\<lambda>a. ro a s) ps)"
  by (simp add: collect_Inr_iff ro_in_def)

lemma pubkeys_of_tail [simp]:
  "map am_pubkey (map (\<lambda>a. w a s) ps) = ps" "map am_pubkey (map (\<lambda>a. ro a s) ps) = ps"
  by (simp_all add: comp_def)

lemmas tail_opens = call_opens collect_append collect_w_Addr collect_ro_Addr

lemma finalize_tail_shape:
  "finalizeProposals W \<lparr>fpa_oracle = x, fpa_proposers = map Addr ps, fpa_programId = p\<rparr> = Inr ix
    \<Longrightarrow> addr W x = Inr (key_addresses ix ! 0) \<and> drop 1 (key_addresses ix) = ps \<and> signers ix = []
      \<and> length (ti_keys ix) = 1 + length ps"
  "finalizeAiClaims W \<lparr>faa_oracle = x, faa_proposers = map Addr ps, faa_programId = p\<rparr> = Inr ix
    \<Longrightarrow> addr W x = Inr (key_addresses ix ! 0) \<and> drop 1 (key_addresses ix) = ps \<and> signers ix = []
      \<and> length (ti_keys ix) = 1 + length ps"
  "finalizeFacts W \<lparr>ffa_nonce = n, ffa_kassMint = m, ffa_tail = map Addr ps, ffa_programId = p\<rparr> = Inr ix
    \<Longrightarrow> rmap pda_address (pda_oracle W n (Some (program_or W p))) = Inr (key_addresses ix ! 0)
      \<and> drop 4 (key_addresses ix) = ps \<and> signers ix = [] \<and> length (ti_keys ix) = 4 + length ps"
  "finalizeOracle W \<lparr>foa_nonce = n, foa_kassMint = m, foa_proposers = map Addr ps, foa_programId = p\<rparr> = Inr ix
    \<Longrightarrow> rmap pda_address (pda_oracle W n (Some (program_or W p))) = Inr (key_addresses ix ! 0)
      \<and> drop 4 (key_addresses ix) = ps \<and> signers ix = [] \<and> length (ti_keys ix) = 4 + length ps"
  by (auto simp: finalizeProposals_def finalizeAiClaims_def finalizeFacts_def finalizeOracle_def tail_opens
      key_addresses_def signers_def comp_def rmap_Inr_iff simp del: collect.simps map_map)


lemma pda_oracle_program: "pda_oracle W n (Some (program_or W p)) = pda_oracle W n p"
  by (cases p) (simp_all add: pda_oracle_def derive_def program_or_def)

text \<open>The five cranks as one sum, with the oracle, the tail and the number of accounts before it.\<close>

datatype 'a crank =
    CrProposals "'a finalizeProposals_args"
  | CrAdvance "'a advancePhase_args"
  | CrFacts "'a build_finalize_facts_args"
  | CrAiClaims "'a finalizeAiClaims_args"
  | CrOracle "'a build_finalize_oracle_args"

fun crank_build :: "'a web3 \<Rightarrow> 'a crank \<Rightarrow> 'a finalize_action res" where
  "crank_build W (CrProposals a) = buildFinalizeProposalsIxs W a"
| "crank_build W (CrAdvance a) = buildAdvancePhaseIxs W a"
| "crank_build W (CrFacts a) = buildFinalizeFactsIxs W a"
| "crank_build W (CrAiClaims a) = buildFinalizeAiClaimsIxs W a"
| "crank_build W (CrOracle a) = buildFinalizeOracleIxs W a"

fun crank_oracle :: "'a crank \<Rightarrow> 'a address_input" where
  "crank_oracle (CrProposals a) = fpa_oracle a"
| "crank_oracle (CrAdvance a) = apa_oracle a"
| "crank_oracle (CrFacts a) = bff_oracle a"
| "crank_oracle (CrAiClaims a) = faa_oracle a"
| "crank_oracle (CrOracle a) = bfo_oracle a"

fun crank_tail :: "'a crank \<Rightarrow> 'a address_input list" where
  "crank_tail (CrProposals a) = fpa_proposers a"
| "crank_tail (CrAdvance a) = []"
| "crank_tail (CrFacts a) = bff_facts a"
| "crank_tail (CrAiClaims a) = faa_proposers a"
| "crank_tail (CrOracle a) = bfo_proposers a"

fun crank_nonce :: "'a crank \<Rightarrow> num_input option" where
  "crank_nonce (CrFacts a) = bff_oracleNonce a"
| "crank_nonce (CrOracle a) = bfo_oracleNonce a"
| "crank_nonce c = None"

fun crank_lead :: "'a crank \<Rightarrow> nat" where
  "crank_lead (CrFacts a) = 4"
| "crank_lead (CrOracle a) = 4"
| "crank_lead c = 1"

text \<open>The cranks that need the full set of proposers at once.\<close>

fun crank_full :: "'a crank \<Rightarrow> bool" where
  "crank_full (CrProposals a) = True"
| "crank_full (CrOracle a) = True"
| "crank_full c = False"

lemma nonce_or_scan_target:
  assumes "web3_ok W" "nonce_or_scan W None orc mx p = Inr n"
  shows "rmap pda_address (pda_oracle W n p) = addr W orc"
proof -
  have r: "resolveOracleNonce W orc mx p = Inr n" using assms(2) by (simp add: nonce_or_scan_def)
  then obtain a k where a: "addr W orc = Inr a" and "nonce_scan W (w3_string W a) p k 0 = Inr (Some n)"
    by (auto simp: resolveOracleNonce_def Let_def rbind_Inr_iff split: option.splits)
  then show ?thesis using web3_string_inj [OF assms(1)] by (auto simp: nonce_scan_spec)
qed

lemma advance_shape:
  "advancePhase W a = Inr ix \<Longrightarrow> addr W (apa_oracle a) = Inr (key_addresses ix ! 0)
    \<and> drop 1 (key_addresses ix) = [] \<and> signers ix = [] \<and> length (ti_keys ix) = 1"
  by (auto simp: advancePhase_def call_opens key_addresses_def signers_def simp del: collect.simps)

definition crank_spec :: "'a web3 \<Rightarrow> 'a crank \<Rightarrow> 'a finalize_action \<Rightarrow> 'a tx_instruction \<Rightarrow> 'a list \<Rightarrow> bool" where
  "crank_spec W c act ix ps \<longleftrightarrow> fin_ixs act = [ix] \<and> map (addr W) (crank_tail c) = map Inr ps
     \<and> addr W (crank_oracle c) = Inr (key_addresses ix ! 0)
     \<and> drop (crank_lead c) (key_addresses ix) = ps \<and> length (ti_keys ix) = crank_lead c + length ps
     \<and> signers ix = [] \<and> (fin_needsAlt act \<longleftrightarrow> crank_full c \<and> 24 < length ps)
     \<and> fin_altAddresses act = (if fin_needsAlt act then ps else [])"

lemma crank_shape:
  assumes "web3_ok W" "crank_build W c = Inr act" "crank_nonce c = None"
  shows "\<exists>ix ps. crank_spec W c act ix ps"
proof (cases c)
  case (CrProposals a)
  then show ?thesis using assms(2)
    by (auto simp: buildFinalizeProposalsIxs_def rbind_Inr_iff requireTail_iff altDecision_simp crank_spec_def
        dest!: finalize_tail_shape)
next
  case (CrAdvance a)
  then show ?thesis using assms(2)
    by (auto simp: buildAdvancePhaseIxs_def rbind_Inr_iff crank_spec_def dest!: advance_shape)
next
  case (CrFacts a)
  then show ?thesis using assms(2,3)
    by (auto simp: buildFinalizeFactsIxs_def rbind_Inr_iff requireTail_iff crank_spec_def pda_oracle_program
        dest!: finalize_tail_shape nonce_or_scan_target [OF assms(1)])
next
  case (CrAiClaims a)
  then show ?thesis using assms(2)
    by (auto simp: buildFinalizeAiClaimsIxs_def rbind_Inr_iff requireTail_iff crank_spec_def
        dest!: finalize_tail_shape)
next
  case (CrOracle a)
  then show ?thesis using assms(2,3)
    by (auto simp: buildFinalizeOracleIxs_def rbind_Inr_iff requireTail_iff altDecision_simp crank_spec_def
        pda_oracle_program dest!: finalize_tail_shape nonce_or_scan_target [OF assms(1)])
qed


lemma alt_sent:
  assumes "sendFinalizeViaAlt N ix ps (Some [l]) None = Some (sent, Inr (s, table))"
  shows "\<exists>exts. sent = CreateTable (nt_slot N) # map (ExtendTable (nt_table N (nt_slot N))) exts @ [Finalize [l, ix] [table]]
    \<and> concat exts = ps \<and> length ps \<le> length (lt_addresses table) \<and> lt_active table \<and> nt_confirm N s = Inr ()"
proof -
  obtain pre where c: "createProposerAlt N ps (Some DEFAULT_EXTEND_CHUNK) None = Some (pre, Inr table)"
    and sent: "sent = pre @ [Finalize [l, ix] [table]]" "nt_confirm N s = Inr ()"
    using assms by (auto simp: sendFinalizeViaAlt_def sendV0_def Let_def createProposerAlt_default
        split: option.splits sum.splits)
  have d: "0 < DEFAULT_EXTEND_CHUNK" by (simp add: DEFAULT_EXTEND_CHUNK_def)
  obtain dl where "wait_poll (length ps) dl (nt_polls N) = Some (Inr table)"
    using createProposerAlt_ok(2) [OF c d] by blast
  then have "length ps \<le> length (lt_addresses table)" "lt_active table"
    using wait_poll_returns by blast+
  then show ?thesis using createProposerAlt_ok(1) [OF c d] sent concat_chunks [OF d, of ps]
    by (intro exI [of _ "chunks DEFAULT_EXTEND_CHUNK ps"]) simp
qed

text \<open>What was signed and sent for a crank whose send returned a signature.\<close>

definition sent_spec ::
  "'a tx_lib \<Rightarrow> ('k \<Rightarrow> 'a network) \<Rightarrow> ('a tx_instruction list \<Rightarrow> js_exn + utext) option \<Rightarrow> 'k option
    \<Rightarrow> nat option \<Rightarrow> (utext \<Rightarrow> js_exn + unit) \<Rightarrow> bool \<Rightarrow> 'a tx_instruction \<Rightarrow> 'a list
    \<Rightarrow> 'a alt_tx list \<Rightarrow> utext \<Rightarrow> bool" where
  "sent_spec T net sender kp units confirm over_table ix ps sent sig \<longleftrightarrow>
     (if over_table
      then (\<exists>k exts table s. kp = Some k
        \<and> sent = CreateTable (nt_slot (net k)) # map (ExtendTable (nt_table (net k) (nt_slot (net k)))) exts
            @ [Finalize [tl_limit T (case units of None \<Rightarrow> 600000 | Some u \<Rightarrow> u), ix] [table]]
        \<and> concat exts = ps \<and> length ps \<le> length (lt_addresses table) \<and> lt_active table
        \<and> sig = codes s \<and> nt_confirm (net k) s = Inr ())
      else sent = [] \<and> (\<exists>send. sender = Some send \<and> send [ix] = Inr sig \<and> confirm sig = Inr ()))"


definition sample_cranked :: "256 word finalizeProposals_args" where
  "sample_cranked = \<lparr>fpa_oracle = Addr 3, fpa_proposers = replicate 25 (Addr 7), fpa_programId = None\<rparr>"


end
