(* ===== verification/Create_Oracle.thy ===== *)
theory Create_Oracle
  imports Finalize_Actions Market_View
begin

text \<open>
  Creating an oracle (\<open>app/src/data/actions/create.ts\<close>): the validation of the form, the metadata
  object and its JSON text, and the instruction list of the one transaction. The clock, the
  random nonce, the digest and the reader of accounts are parameters. Strings are lists of code
  points; \<open>JSON.stringify\<close> is the one of the language, for the shape of object the file builds.
\<close>

section \<open>The metadata object\<close>

definition DEFAULT_TWAP_WINDOW :: int where
  "DEFAULT_TWAP_WINDOW = 3600"

definition MAX_OPTIONS_COUNT :: int where
  "MAX_OPTIONS_COUNT = 255"

definition ORACLE_META_JSON_VERSION :: int where
  "ORACLE_META_JSON_VERSION = 1"

definition defaultPromptTemplate :: "utext \<Rightarrow> utext" where
  "defaultPromptTemplate subject =
     codes ''Resolve the question \"'' @ subject @
     codes ''\" by selecting exactly one of the listed options. '' @
     codes ''Base the decision ONLY on the verified facts provided. If the facts are insufficient '' @
     codes ''to decide, choose the option that best reflects the most likely outcome given those facts.''"

record oracle_metadata_json =
  omj_version :: int
  omj_subject :: utext
  omj_options :: "utext list"
  omj_promptTemplate :: utext
  omj_createdAt :: int
  omj_interpretation :: "utext option"
  omj_category :: "utext option"

text \<open>\<open>x?.trim() || undefined\<close>\<close>

definition trimmed :: "utext option \<Rightarrow> utext option" where
  "trimmed x = (case x of None \<Rightarrow> None | Some s \<Rightarrow> if js_trim s = [] then None else Some (js_trim s))"

record metadata_args =
  mda_subject :: utext
  mda_options :: "utext list"
  mda_promptTemplate :: "utext option"
  mda_interpretation :: "utext option"
  mda_category :: "utext option"
  mda_createdAt :: "int option"

definition buildOracleMetadataJson :: "int \<Rightarrow> metadata_args \<Rightarrow> oracle_metadata_json" where
  "buildOracleMetadataJson now a =
     \<lparr>omj_version = ORACLE_META_JSON_VERSION,
      omj_subject = mda_subject a,
      omj_options = mda_options a,
      omj_promptTemplate = (case trimmed (mda_promptTemplate a) of
          Some t \<Rightarrow> t | None \<Rightarrow> defaultPromptTemplate (mda_subject a)),
      omj_createdAt = (case mda_createdAt a of Some t \<Rightarrow> t | None \<Rightarrow> now),
      omj_interpretation = trimmed (mda_interpretation a),
      omj_category = trimmed (mda_category a)\<rparr>"

definition strip_slash :: "utext \<Rightarrow> utext" where
  "strip_slash s = (if s \<noteq> [] \<and> last s = 47 then butlast s else s)"

definition oracleMetadataUri :: "'a web3 \<Rightarrow> utext \<Rightarrow> 'a \<Rightarrow> utext" where
  "oracleMetadataUri W appOrigin oracle' =
     strip_slash appOrigin @ codes ''/api/oracle/'' @ codes (w3_string W oracle') @ codes ''/metadata.json''"

section \<open>JSON text\<close>

definition hex_code :: "int \<Rightarrow> int" where
  "hex_code d = (if d < 10 then 48 + d else 87 + d)"

text \<open>The well-formed \<open>JSON.stringify\<close>: an unpaired surrogate is escaped as well.\<close>

definition json_char :: "int \<Rightarrow> utext" where
  "json_char c =
     (if c = 34 then [92, 34] else if c = 92 then [92, 92]
      else if c = 8 then [92, 98] else if c = 12 then [92, 102] else if c = 10 then [92, 110]
      else if c = 13 then [92, 114] else if c = 9 then [92, 116]
      else if c < 32 \<or> is_surrogate c then
        [92, 117, hex_code (c div 4096 mod 16), hex_code (c div 256 mod 16),
         hex_code (c div 16 mod 16), hex_code (c mod 16)]
      else [c])"

definition json_string :: "utext \<Rightarrow> utext" where
  "json_string s = 34 # concat (map json_char s) @ [34]"

definition json_int :: "int \<Rightarrow> utext" where
  "json_int n = (if n < 0 then 45 # dec_nat (nat (- n)) else dec_nat (nat n))"

fun json_items :: "utext list \<Rightarrow> utext" where
  "json_items [] = []"
| "json_items [s] = json_string s"
| "json_items (s # t # ss) = json_string s @ 44 # json_items (t # ss)"

definition json_array :: "utext list \<Rightarrow> utext" where
  "json_array ss = 91 # json_items ss @ [93]"

text \<open>A member that is not there is omitted; the keys come in the order of their creation.\<close>

definition json_member :: "string \<Rightarrow> utext option \<Rightarrow> utext" where
  "json_member k v = (case v of None \<Rightarrow> [] | Some s \<Rightarrow> 44 # json_string (codes k) @ 58 # json_string s)"

definition metadata_text :: "oracle_metadata_json \<Rightarrow> utext" where
  "metadata_text j =
     123 # json_string (codes ''version'') @ 58 # json_int (omj_version j) @
     44 # json_string (codes ''subject'') @ 58 # json_string (omj_subject j) @
     44 # json_string (codes ''options'') @ 58 # json_array (omj_options j) @
     44 # json_string (codes ''promptTemplate'') @ 58 # json_string (omj_promptTemplate j) @
     44 # json_string (codes ''createdAt'') @ 58 # json_int (omj_createdAt j) @
     json_member ''interpretation'' (omj_interpretation j) @
     json_member ''category'' (omj_category j) @ [125]"

section \<open>The action\<close>

definition randomNonce :: "64 word \<Rightarrow> int" where
  "randomNonce buf = uint buf"

record 'a build_create_oracle_args =
  bco_question :: utext
  bco_options :: "utext list option"
  bco_optionsCount :: "real option"
  bco_deadline :: num_input
  bco_creator :: "'a address_input"
  bco_kassMint :: "'a address_input"
  bco_usdcMint :: "'a address_input"
  bco_nonce :: "num_input option"
  bco_twapWindow :: "num_input option"
  bco_appOrigin :: "utext option"
  bco_promptTemplate :: "utext option"
  bco_interpretation :: "utext option"
  bco_category :: "utext option"
  bco_programId :: "'a option"

record created_metadata =
  cmd_json :: oracle_metadata_json
  cmd_jsonString :: utext
  cmd_uri :: utext
  cmd_uriHash :: bytes

record 'a create_oracle_build =
  cob_ixs :: "'a tx_instruction list"
  cob_nonce :: int
  cob_oracle :: 'a
  cob_metadata :: "created_metadata option"

text \<open>
  What the browser supplies: the clock in milliseconds at the validation and again when the
  metadata is built, the random word, the digest and the account reader of the connection.
\<close>

record 'a browser =
  br_now :: int
  br_createdAt :: int
  br_random :: "64 word"
  br_sha256 :: "bytes \<Rightarrow> bytes"
  br_getAccountInfo :: "'a \<Rightarrow> bytes option res"

text \<open>The checks before any derivation; the results are count, deadline and window.\<close>

definition create_validate :: "'a browser \<Rightarrow> 'a build_create_oracle_args \<Rightarrow> (int \<times> int \<times> int) res" where
  "create_validate B a =
     (if js_trim (bco_question a) = [] then Inl (ValidationErr ''question'')
      else if (case bco_options a of None \<Rightarrow> False | Some os \<Rightarrow> list_ex (\<lambda>s. js_trim s = []) os)
        then Inl (ValidationErr ''options'')
      else (let optionsCount = (case bco_options a of
              Some os \<Rightarrow> Some (of_nat (length os)) | None \<Rightarrow> bco_optionsCount a) in
       case optionsCount of None \<Rightarrow> Inl (ValidationErr ''optionsCount'')
       | Some c \<Rightarrow>
         if \<not> whole c \<or> c < 2 then Inl (ValidationErr ''optionsCount'')
         else if c > of_int MAX_OPTIONS_COUNT then Inl (ValidationErr ''optionsCount'')
         else rbind (toBigInt (bco_deadline a)) (\<lambda>deadline.
           let nowUnix = br_now B div 1000 in
           if deadline \<le> nowUnix then Inl (ValidationErr ''deadline'')
           else rbind (case bco_twapWindow a of None \<Rightarrow> Inr DEFAULT_TWAP_WINDOW | Some t \<Rightarrow> toBigInt t)
             (\<lambda>twapWindow. if twapWindow \<le> 0 then Inl (ValidationErr ''twapWindow'')
               else Inr (\<lfloor>c\<rfloor>, deadline, twapWindow)))))"

text \<open>The part of the action that needs the labels.\<close>

definition create_metadata ::
  "'a web3 \<Rightarrow> 'a browser \<Rightarrow> 'a build_create_oracle_args \<Rightarrow> 'a \<Rightarrow> 'a \<Rightarrow> utext list
    \<Rightarrow> (created_metadata \<times> 'a tx_instruction) res" where
  "create_metadata W B a creator oracle' options =
     (let json = buildOracleMetadataJson (br_createdAt B)
            \<lparr>mda_subject = bco_question a, mda_options = options,
             mda_promptTemplate = bco_promptTemplate a, mda_interpretation = bco_interpretation a,
             mda_category = bco_category a, mda_createdAt = None\<rparr>;
          jsonString = metadata_text json;
          uriHash = hashToContentHash (br_sha256 B) (UriText jsonString);
          uri = (case bco_appOrigin a of None \<Rightarrow> []
            | Some s \<Rightarrow> if s = [] then [] else oracleMetadataUri W s oracle') in
      rbind (writeOracleMeta W \<lparr>wma_oracle = Addr oracle', wma_creator = Addr creator,
        wma_subject = bco_question a, wma_options = options, wma_uri = uri, wma_uriHash = uriHash,
        wma_programId = bco_programId a\<rparr>) (\<lambda>ix.
      Inr (\<lparr>cmd_json = json, cmd_jsonString = jsonString, cmd_uri = uri, cmd_uriHash = uriHash\<rparr>, ix)))"

definition buildCreateOracleIxs ::
  "'a web3 \<Rightarrow> 'a browser \<Rightarrow> 'a build_create_oracle_args \<Rightarrow> 'a create_oracle_build res" where
  "buildCreateOracleIxs W B a =
     rbind (create_validate B a) (\<lambda>(optionsCount, deadline, twapWindow).
     rbind (field_addr W ''creator'' (bco_creator a)) (\<lambda>creator.
     rbind (field_addr W ''kassMint'' (bco_kassMint a)) (\<lambda>kassMint.
     rbind (field_addr W ''usdcMint'' (bco_usdcMint a)) (\<lambda>usdcMint.
     rbind (case bco_nonce a of None \<Rightarrow> Inr (randomNonce (br_random B)) | Some n \<Rightarrow> toBigInt n) (\<lambda>nonce.
     rbind (pda_oracle W nonce (bco_programId a)) (\<lambda>oracle_pda.
     let oracle' = pda_address oracle_pda in
     rbind (ensureCreatorKassAta W (br_getAccountInfo B) creator kassMint) (\<lambda>(ata, createIx).
     rbind (createOracle W \<lparr>coa_nonce = nonce, coa_optionsCount = optionsCount, coa_deadline = deadline,
       coa_twapWindow = twapWindow, coa_creator = Addr creator, coa_creatorKassToken = Addr ata,
       coa_kassMint = Addr kassMint, coa_usdcMint = Addr usdcMint, coa_programId = bco_programId a\<rparr>) (\<lambda>ix.
     let ixs = with_create createIx ix in
     (case bco_options a of
        None \<Rightarrow> Inr \<lparr>cob_ixs = ixs, cob_nonce = nonce, cob_oracle = oracle', cob_metadata = None\<rparr>
      | Some options \<Rightarrow>
          rbind (create_metadata W B a creator oracle' options) (\<lambda>(m, metaIx).
          Inr \<lparr>cob_ixs = ixs @ [metaIx], cob_nonce = nonce, cob_oracle = oracle',
            cob_metadata = Some m\<rparr>))))))))))"

section \<open>The text determines the object\<close>

lemma hex_code_inj: "0 \<le> a \<Longrightarrow> a < 16 \<Longrightarrow> 0 \<le> b \<Longrightarrow> b < 16 \<Longrightarrow> hex_code a = hex_code b \<longleftrightarrow> a = b"
  by (auto simp: hex_code_def split: if_splits)

lemma hex4_value:
  fixes c :: int
  assumes "0 \<le> c" "c < 65536"
  shows "c = 4096 * (c div 4096 mod 16) + 256 * (c div 256 mod 16) + 16 * (c div 16 mod 16) + c mod 16"
proof -
  have e: "c div 256 = c div 16 div 16" "c div 4096 = c div 256 div 16"
    using zdiv_zmult2_eq [of 16 c 16] zdiv_zmult2_eq [of 16 c 256] by simp_all
  have m: "c div 4096 mod 16 = c div 4096" using assms by (intro mod_pos_pos_trivial) simp_all
  have "c = 16 * (c div 16) + c mod 16" "c div 16 = 16 * (c div 256) + c div 16 mod 16"
    "c div 256 = 16 * (c div 4096) + c div 256 mod 16"
    unfolding e by simp_all
  then show ?thesis unfolding m by linarith
qed

definition json_escape :: "int \<Rightarrow> int option" where
  "json_escape c = (if c = 34 then Some 34 else if c = 92 then Some 92 else if c = 8 then Some 98
     else if c = 12 then Some 102 else if c = 10 then Some 110 else if c = 13 then Some 114
     else if c = 9 then Some 116 else None)"

lemma json_char_cases:
  obtains k where "json_escape c = Some k" "json_char c = [92, k]" "k \<noteq> 117"
  | "json_escape c = None" "c < 32 \<or> is_surrogate c" "json_char c =
      [92, 117, hex_code (c div 4096 mod 16), hex_code (c div 256 mod 16), hex_code (c div 16 mod 16), hex_code (c mod 16)]"
  | "json_escape c = None" "json_char c = [c]" "c \<noteq> 34" "c \<noteq> 92"
proof (cases "json_escape c")
  case (Some k)
  then have "json_char c = [92, k]" "k \<noteq> 117" by (auto simp: json_escape_def json_char_def split: if_splits)
  with Some show ?thesis by (rule that(1))
next
  case None
  then have n: "c \<notin> {34, 92, 8, 12, 10, 13, 9}" by (auto simp: json_escape_def split: if_splits)
  show ?thesis
  proof (cases "c < 32 \<or> is_surrogate c")
    case True
    with None n show ?thesis by (intro that(2)) (simp_all add: json_char_def)
  next
    case False
    with None n show ?thesis by (intro that(3)) (simp_all add: json_char_def)
  qed
qed

lemma json_escape_inj: "json_escape c = Some k \<Longrightarrow> json_escape d = Some k \<Longrightarrow> c = d"
  by (auto simp: json_escape_def split: if_splits)

lemma json_char_prefix:
  assumes "0 \<le> c" "0 \<le> d" "json_char c @ x = json_char d @ y"
  shows "c = d \<and> x = y"
proof (cases rule: json_char_cases [of c])
  case (1 k)
  note c = this
  show ?thesis
  proof (cases rule: json_char_cases [of d])
    case (1 k')
    then have "k = k'" "x = y" using c assms(3) by simp_all
    with c 1 show ?thesis using json_escape_inj [of c k d] by simp
  qed (use c assms(3) in simp_all)
next
  case 2
  show ?thesis
  proof (cases rule: json_char_cases [of d])
    case c2: 2
    have r: "0 \<le> c" "c < 65536" "0 \<le> d" "d < 65536" using assms 2(2) c2(2) by (auto simp: is_surrogate_def)
    have eqs: "c div 4096 mod 16 = d div 4096 mod 16" "c div 256 mod 16 = d div 256 mod 16"
      "c div 16 mod 16 = d div 16 mod 16" "c mod 16 = d mod 16" "x = y"
      using assms(3) 2(3) c2(3) by (simp_all add: hex_code_inj)
    have "c = d"
      by (rule trans [OF hex4_value [OF r(1,2)] trans [OF _ hex4_value [OF r(3,4), symmetric]]]) (simp only: eqs)
    with eqs(5) show ?thesis by simp
  qed (use 2 assms(3) in simp_all)
next
  case 3
  then show ?thesis using assms(3) by (cases rule: json_char_cases [of d]) simp_all
qed

lemma json_char_ne: "json_char c @ x \<noteq> 34 # y"
  by (cases rule: json_char_cases [of c]) auto

definition codes_ok :: "utext \<Rightarrow> bool" where
  "codes_ok s \<longleftrightarrow> list_all (\<lambda>c. 0 \<le> c) s"

lemma codes_ok_codes [simp]: "codes_ok (codes s)"
  by (simp add: codes_ok_def codes_def list_all_iff of_char_def)

lemma json_body_prefix:
  "codes_ok s \<Longrightarrow> codes_ok t \<Longrightarrow> concat (map json_char s) @ 34 # x = concat (map json_char t) @ 34 # y
    \<Longrightarrow> s = t \<and> x = y"
proof (induction s arbitrary: t)
  case Nil
  then show ?case using json_char_ne [symmetric] by (cases t) auto
next
  case (Cons c s)
  then obtain d t' where t: "t = d # t'"
    using json_char_ne [of c "concat (map json_char s) @ 34 # x" y] by (cases t) simp_all
  then have "json_char c @ concat (map json_char s) @ 34 # x = json_char d @ concat (map json_char t') @ 34 # y"
    using Cons.prems by simp
  then show ?case using Cons json_char_prefix [of c d] t by (auto simp: codes_ok_def)
qed

text \<open>Each piece of the text ends where it is: equal texts have equal pieces.\<close>

lemma json_string_prefix:
  assumes "codes_ok s" "codes_ok t"
  shows "json_string s @ x = json_string t @ y \<longleftrightarrow> s = t \<and> x = y"
  using json_body_prefix [OF assms] by (auto simp: json_string_def)

lemma json_int_prefix:
  assumes "\<not> is_digit (hd x)" "x \<noteq> []" "\<not> is_digit (hd y)" "y \<noteq> []"
  shows "json_int m @ x = json_int n @ y \<longleftrightarrow> m = n \<and> x = y"
proof -
  have part: "dec_nat a @ x = dec_nat b @ y \<Longrightarrow> a = b \<and> x = y" for a b
  proof -
    assume e: "dec_nat a @ x = dec_nat b @ y"
    have tw: "takeWhile is_digit (dec_nat k @ z) = dec_nat k" if "\<not> is_digit (hd z)" "z \<noteq> []" for k z
      using dec_nat_digits [of k] that by (cases z) (simp_all add: list_all_iff takeWhile_append2)
    have "dec_nat a = dec_nat b" using arg_cong [OF e, of "takeWhile is_digit"] tw assms by simp
    then show ?thesis using e dec_value_dec_nat by (metis append_same_eq of_nat_eq_iff same_append_eq)
  qed
  have sign: "dec_nat a @ z \<noteq> 45 # z'" for a z z'
    using dec_nat_digits [of a] dec_nat_ne [of a] by (cases "dec_nat a") (auto simp: is_digit_def)
  have part: "dec_nat a @ x = dec_nat b @ y \<longleftrightarrow> a = b \<and> x = y" for a b
    by (rule iffI, erule part, simp)
  have nn: "m < 0 \<Longrightarrow> n < 0 \<Longrightarrow> nat (- m) = nat (- n) \<longleftrightarrow> m = n"
    "0 \<le> m \<Longrightarrow> 0 \<le> n \<Longrightarrow> nat m = nat n \<longleftrightarrow> m = n"
    by (simp_all add: eq_nat_nat_iff)
  consider "m < 0" "n < 0" | "m < 0" "0 \<le> n" | "0 \<le> m" "n < 0" | "0 \<le> m" "0 \<le> n" by linarith
  then show ?thesis
  proof cases
    case 1
    then show ?thesis by (simp only: json_int_def if_True append_Cons list.inject part nn) simp
  next
    case 2
    then show ?thesis using sign [of "nat n" y "dec_nat (nat (- m)) @ x"] by (auto simp: json_int_def)
  next
    case 3
    then show ?thesis using sign [of "nat m" x "dec_nat (nat (- n)) @ y"] by (auto simp: json_int_def)
  next
    case 4
    then show ?thesis by (simp add: json_int_def part nn)
  qed
qed

lemma json_items_Cons:
  "json_items (s # ss) @ 93 # x = json_string s @ (if ss = [] then 93 # x else 44 # json_items ss @ 93 # x)"
  by (cases ss) simp_all

lemma json_items_prefix:
  "list_all codes_ok ss \<Longrightarrow> list_all codes_ok ts
    \<Longrightarrow> json_items ss @ 93 # x = json_items ts @ 93 # y \<longleftrightarrow> ss = ts \<and> x = y"
proof (induction ss arbitrary: ts)
  case Nil
  show ?case by (cases ts) (simp_all add: json_items_Cons, simp add: json_string_def)
next
  case (Cons s ss)
  show ?case
  proof (cases ts)
    case Nil
    then show ?thesis by (simp add: json_items_Cons) (simp add: json_string_def)
  next
    case (Cons t ts')
    then show ?thesis using Cons.IH [of ts'] Cons.prems
      by (auto simp: json_items_Cons json_string_prefix)
  qed
qed

lemma json_member_prefix:
  assumes "pred_option codes_ok v" "pred_option codes_ok v'"
    "\<forall>z. x \<noteq> 44 # json_string (codes k) @ z" "\<forall>z. y \<noteq> 44 # json_string (codes k) @ z"
  shows "json_member k v @ x = json_member k v' @ y \<longleftrightarrow> v = v' \<and> x = y"
  using assms by (cases v; cases v') (auto simp: json_member_def json_string_prefix)

definition metadata_ok :: "oracle_metadata_json \<Rightarrow> bool" where
  "metadata_ok j \<longleftrightarrow> codes_ok (omj_subject j) \<and> list_all codes_ok (omj_options j) \<and>
     codes_ok (omj_promptTemplate j) \<and> pred_option codes_ok (omj_interpretation j) \<and>
     pred_option codes_ok (omj_category j)"

lemma metadata_text_inj:
  assumes "metadata_ok i" "metadata_ok j" "metadata_text i = metadata_text j"
  shows "i = j"
proof -
  note ok = assms(1,2) [unfolded metadata_ok_def]
  have diff: "json_string (codes ''category'') @ z \<noteq> json_string (codes ''interpretation'') @ z'" for z z'
  proof -
    have "codes ''category'' \<noteq> codes ''interpretation''" by (simp add: codes_def)
    then show ?thesis by (simp only: json_string_prefix codes_ok_codes) simp
  qed
  have no: "\<forall>z. json_member ''category'' v @ [125] \<noteq> 44 # json_string (codes ''interpretation'') @ z" for v
    using diff by (auto simp: json_member_def split: option.splits)
  have no': "\<forall>z. [125::int] \<noteq> 44 # json_string (codes ''category'') @ z" by simp
  have nd: "\<not> is_digit 44" "\<not> is_digit 125" by (simp_all add: is_digit_def)
  have hd: "\<not> is_digit (hd (json_member ''interpretation'' v @ json_member ''category'' v' @ [125]))" for v v'
    using nd by (auto simp: json_member_def split: option.splits)
  from assms(3) have "omj_version i = omj_version j \<and> omj_subject i = omj_subject j \<and> omj_options i = omj_options j
    \<and> omj_promptTemplate i = omj_promptTemplate j \<and> omj_createdAt i = omj_createdAt j
    \<and> omj_interpretation i = omj_interpretation j \<and> omj_category i = omj_category j"
    using ok no no' nd
    by (simp add: metadata_text_def json_array_def json_string_prefix json_int_prefix json_items_prefix hd
        json_member_prefix json_member_prefix [of _ _ "[125]" _ "[125]", simplified])
  then show ?thesis by simp
qed

section \<open>What a form means\<close>

text \<open>
  The specification of the validation: a question, at least two and at most 255 options (labels
  that are not blank, or a bare count), a deadline after the second of the clock, a positive window.
\<close>

definition form_means :: "'a browser \<Rightarrow> 'a build_create_oracle_args \<Rightarrow> int \<times> int \<times> int \<Rightarrow> bool" where
  "form_means B a = (\<lambda>(n, d, t).
     js_trim (bco_question a) \<noteq> [] \<and>
     (case bco_options a of Some os \<Rightarrow> (\<forall>s\<in>set os. js_trim s \<noteq> []) \<and> n = int (length os)
        | None \<Rightarrow> bco_optionsCount a = Some (of_int n)) \<and>
     2 \<le> n \<and> n \<le> 255 \<and>
     toBigInt (bco_deadline a) = Inr d \<and> br_now B div 1000 < d \<and>
     (case bco_twapWindow a of Some x \<Rightarrow> toBigInt x = Inr t | None \<Rightarrow> t = 3600) \<and> 0 < t)"

lemma whole_int: "whole c \<longleftrightarrow> (\<exists>n. c = of_int n)"
  by (auto simp: whole_def)

lemma whole_ints [simp]: "whole (of_nat k)" "whole (of_int n)"
  by (simp_all add: whole_def)

lemma if_Inl_Inr: "(if b then Inl e else r) = Inr x \<longleftrightarrow> \<not> b \<and> r = Inr x"
  by simp

lemma create_validate_iff: "create_validate B a = Inr r \<longleftrightarrow> form_means B a r"
proof -
  obtain n d t where r: "r = (n, d, t)" by (cases r)
  have win: "(case bco_twapWindow a of None \<Rightarrow> Inr DEFAULT_TWAP_WINDOW | Some x \<Rightarrow> toBigInt x) = Inr w'
      \<longleftrightarrow> (case bco_twapWindow a of Some x \<Rightarrow> toBigInt x = Inr w' | None \<Rightarrow> w' = 3600)" for w'
    by (auto simp: DEFAULT_TWAP_WINDOW_def split: option.splits)
  define rest where "rest c = (rbind (toBigInt (bco_deadline a)) (\<lambda>deadline.
           let nowUnix = br_now B div 1000 in
           if deadline \<le> nowUnix then Inl (ValidationErr ''deadline'')
           else rbind (case bco_twapWindow a of None \<Rightarrow> Inr DEFAULT_TWAP_WINDOW | Some t \<Rightarrow> toBigInt t)
             (\<lambda>twapWindow. if twapWindow \<le> 0 then Inl (ValidationErr ''twapWindow'')
               else Inr (\<lfloor>c :: real\<rfloor>, deadline, twapWindow))))" for c
  have tail: "rest c = Inr (n, d, t) \<longleftrightarrow> n = \<lfloor>c\<rfloor> \<and> toBigInt (bco_deadline a) = Inr d \<and> br_now B div 1000 < d \<and>
      (case bco_twapWindow a of Some x \<Rightarrow> toBigInt x = Inr t | None \<Rightarrow> t = 3600) \<and> 0 < t" for c
    unfolding win [symmetric] rest_def Let_def rbind_Inr_iff if_Inl_Inr by auto
  show ?thesis
    unfolding create_validate_def rest_def [symmetric] form_means_def r MAX_OPTIONS_COUNT_def
    by (cases "bco_options a"; cases "bco_optionsCount a")
      (simp_all add: tail Let_def list_ex_iff, auto simp: whole_int)
qed

lemma create_metadata_iff:
  "create_metadata W B a c orc os = Inr (m, ix) \<longleftrightarrow>
     cmd_jsonString m = metadata_text (cmd_json m) \<and>
     cmd_uriHash m = br_sha256 B (utf8_encode (cmd_jsonString m)) \<and>
     cmd_json m = buildOracleMetadataJson (br_createdAt B)
       \<lparr>mda_subject = bco_question a, mda_options = os, mda_promptTemplate = bco_promptTemplate a,
        mda_interpretation = bco_interpretation a, mda_category = bco_category a, mda_createdAt = None\<rparr> \<and>
     cmd_uri m = (case bco_appOrigin a of None \<Rightarrow> []
       | Some s \<Rightarrow> if s = [] then [] else oracleMetadataUri W s orc) \<and>
     writeOracleMeta W \<lparr>wma_oracle = Addr orc, wma_creator = Addr c, wma_subject = bco_question a,
       wma_options = os, wma_uri = cmd_uri m, wma_uriHash = cmd_uriHash m, wma_programId = bco_programId a\<rparr> = Inr ix"
  unfolding create_metadata_def Let_def hashToContentHash_def uriBytes.simps rbind_Inr_iff
  by (cases m) auto

text \<open>What the action leaves behind: the inputs that parsed and the two calls.\<close>

definition created_by ::
  "'a web3 \<Rightarrow> 'a browser \<Rightarrow> 'a build_create_oracle_args \<Rightarrow> 'a create_oracle_build
    \<Rightarrow> 'a \<Rightarrow> 'a \<Rightarrow> 'a createOracle_args \<Rightarrow> 'a tx_instruction \<Rightarrow> 'a tx_instruction list \<Rightarrow> bool" where
  "created_by W B a out creator kass call ix pre \<longleftrightarrow>
     addr W (bco_creator a) = Inr creator \<and> addr W (bco_kassMint a) = Inr kass \<and>
     (case bco_nonce a of None \<Rightarrow> cob_nonce out = uint (br_random B) | Some x \<Rightarrow> toBigInt x = Inr (cob_nonce out)) \<and>
     rmap pda_address (pda_oracle W (cob_nonce out) (bco_programId a)) = Inr (cob_oracle out) \<and>
     form_means B a (coa_optionsCount call, coa_deadline call, coa_twapWindow call) \<and>
     coa_nonce call = cob_nonce out \<and> coa_creator call = Addr creator \<and> coa_kassMint call = Addr kass \<and>
     addr W (bco_usdcMint a) = addr W (coa_usdcMint call) \<and> coa_programId call = bco_programId a \<and>
     createOracle W call = Inr ix \<and>
     (\<exists>ata. coa_creatorKassToken call = Addr ata \<and> with_account W (br_getAccountInfo B) creator kass ata ix pre)"

lemma field_addr_Inr: "field_addr W f x = Inr v \<longleftrightarrow> addr W x = Inr v"
  by (rule field_addr_iff)

lemma nonce_case: "(case x of None \<Rightarrow> Inr v | Some y \<Rightarrow> toBigInt y) = Inr n
    \<longleftrightarrow> (case x of None \<Rightarrow> n = v | Some y \<Rightarrow> toBigInt y = Inr n)"
  by (auto split: option.splits)

lemma create_oracle_cases:
  assumes "buildCreateOracleIxs W B a = Inr out"
  obtains creator kass call ix pre where "created_by W B a out creator kass call ix pre"
    and "case bco_options a of None \<Rightarrow> cob_ixs out = pre \<and> cob_metadata out = None
      | Some os \<Rightarrow> (\<exists>m mix. cob_ixs out = pre @ [mix] \<and> cob_metadata out = Some m
          \<and> create_metadata W B a creator (cob_oracle out) os = Inr (m, mix))"
proof -
  obtain n d t creator kass usdc nonce orc ata c ix where
    v: "create_validate B a = Inr (n, d, t)"
    and ad: "addr W (bco_creator a) = Inr creator" "addr W (bco_kassMint a) = Inr kass" "addr W (bco_usdcMint a) = Inr usdc"
    and nn: "(case bco_nonce a of None \<Rightarrow> Inr (randomNonce (br_random B)) | Some n \<Rightarrow> toBigInt n) = Inr nonce"
    and orc: "pda_oracle W nonce (bco_programId a) = Inr orc"
    and ata: "ensureCreatorKassAta W (br_getAccountInfo B) creator kass = Inr (ata, c)"
    and ix: "createOracle W \<lparr>coa_nonce = nonce, coa_optionsCount = n, coa_deadline = d, coa_twapWindow = t,
       coa_creator = Addr creator, coa_creatorKassToken = Addr ata, coa_kassMint = Addr kass, coa_usdcMint = Addr usdc,
       coa_programId = bco_programId a\<rparr> = Inr ix"
    and res: "(case bco_options a of
        None \<Rightarrow> Inr \<lparr>cob_ixs = with_create c ix, cob_nonce = nonce, cob_oracle = pda_address orc, cob_metadata = None\<rparr>
      | Some options \<Rightarrow> rbind (create_metadata W B a creator (pda_address orc) options) (\<lambda>(m, metaIx).
          Inr \<lparr>cob_ixs = with_create c ix @ [metaIx], cob_nonce = nonce, cob_oracle = pda_address orc,
            cob_metadata = Some m\<rparr>)) = Inr out"
    using assms unfolding buildCreateOracleIxs_def Let_def rbind_Inr_iff field_addr_Inr split_paired_Ex prod.case
    by blast
  have o: "cob_nonce out = nonce" "cob_oracle out = pda_address orc"
    using res by (auto simp: rbind_Inr_iff split: option.splits)
  show thesis
  proof (rule that)
    show "created_by W B a out creator kass \<lparr>coa_nonce = nonce, coa_optionsCount = n, coa_deadline = d, coa_twapWindow = t,
       coa_creator = Addr creator, coa_creatorKassToken = Addr ata, coa_kassMint = Addr kass, coa_usdcMint = Addr usdc,
       coa_programId = bco_programId a\<rparr> ix (with_create c ix)"
      using v ad nn orc ix cr.ensure_D [OF ata, of ix]
      by (simp add: created_by_def o create_validate_iff nonce_case randomNonce_def split: option.splits)
    show "case bco_options a of None \<Rightarrow> cob_ixs out = with_create c ix \<and> cob_metadata out = None
      | Some os \<Rightarrow> (\<exists>m mix. cob_ixs out = with_create c ix @ [mix] \<and> cob_metadata out = Some m
          \<and> create_metadata W B a creator (cob_oracle out) os = Inr (m, mix))"
      using res by (auto simp: o rbind_Inr_iff split: option.splits)
  qed
qed

section \<open>Properties\<close>

lemma create_oracle_parts:
  assumes "created_by W B a out creator kass call ix pre"
  shows "well_formed_call W (C_createOracle call) ix" "signers ix = [creator]"
    "key_addresses ix ! 1 = cob_oracle out" "last pre = ix"
proof -
  have ix: "createOracle W call = Inr ix" "coa_creator call = Addr creator" "coa_nonce call = cob_nonce out"
    "rmap pda_address (pda_oracle W (cob_nonce out) (bco_programId a)) = Inr (cob_oracle out)"
    "coa_programId call = bco_programId a"
    using assms by (simp_all add: created_by_def)
  show wf: "well_formed_call W (C_createOracle call) ix" by (rule createOracle_call [OF ix(1)])
  then show "signers ix = [creator]" using ix by (simp add: well_formed_call_def)
  have "rmap pda_address (pda_of W (Some (program_or W (bco_programId a))) (EOracle (cob_nonce out)))
      = Inr (key_addresses ix ! 1)"
    using wf ix(3,5) by (clarsimp simp: well_formed_call_def)
  then show "key_addresses ix ! 1 = cob_oracle out" using ix(4) by (simp add: pda_oracle_program)
  show "last pre = ix" using assms by (auto simp: created_by_def dest!: with_account_last)
qed

lemma create_metadata_parts:
  assumes "create_metadata W B a creator orc os = Inr (m, mix)"
  shows "signers mix = [creator]" "key_addresses mix ! 1 = orc" "ti_programId mix = program_or W (bco_programId a)"
    "ix_of mix = Some Ix_WriteOracleMeta"
proof -
  let ?a = "\<lparr>wma_oracle = Addr orc, wma_creator = Addr creator, wma_subject = bco_question a,
       wma_options = os, wma_uri = cmd_uri m, wma_uriHash = cmd_uriHash m, wma_programId = bco_programId a\<rparr>"
  have w: "writeOracleMeta W ?a = Inr mix" using assms unfolding create_metadata_iff by blast
  then have "well_formed_call W (C_writeOracleMeta ?a) mix" by (rule writeOracleMeta_call)
  then show "signers mix = [creator]" "ti_programId mix = program_or W (bco_programId a)"
    "ix_of mix = Some Ix_WriteOracleMeta" by (simp_all add: well_formed_call_def)
  show "key_addresses mix ! 1 = orc"
    using w by (clarsimp simp: writeOracleMeta_def call_opens key_addresses_def simp del: collect.simps)
qed

text \<open>
  C15: the create form makes exactly the oracle it announces. The returned address is the one
  derived from the returned nonce, which is the given one or the random word; the list is the
  creation of that oracle, preceded by the creation of the creator's KASS account exactly when the
  node has none, and with labels followed by the metadata instruction for the same oracle under
  the same program; the creator alone signs each of them. The call carries the count, the deadline
  and the window of a valid form.
\<close>

theorem create_oracle_exact:
  assumes "buildCreateOracleIxs W B a = Inr out"
  shows "\<exists>creator kass call ix pre. created_by W B a out creator kass call ix pre
    \<and> well_formed_call W (C_createOracle call) ix \<and> last pre = ix
    \<and> signers ix = [creator] \<and> key_addresses ix ! 1 = cob_oracle out
    \<and> (case bco_options a of None \<Rightarrow> cob_ixs out = pre \<and> cob_metadata out = None
       | Some os \<Rightarrow> coa_optionsCount call = int (length os) \<and> cob_metadata out \<noteq> None \<and>
          (\<exists>mix. cob_ixs out = pre @ [mix] \<and> ix_of mix = Some Ix_WriteOracleMeta \<and> signers mix = [creator]
            \<and> key_addresses mix ! 1 = cob_oracle out \<and> ti_programId mix = ti_programId ix))"
proof -
  obtain creator kass call ix pre where c: "created_by W B a out creator kass call ix pre"
    and m: "case bco_options a of None \<Rightarrow> cob_ixs out = pre \<and> cob_metadata out = None
      | Some os \<Rightarrow> (\<exists>m mix. cob_ixs out = pre @ [mix] \<and> cob_metadata out = Some m
          \<and> create_metadata W B a creator (cob_oracle out) os = Inr (m, mix))"
    using create_oracle_cases [OF assms] by blast
  have "ti_programId ix = program_or W (bco_programId a)"
    using create_oracle_parts(1) [OF c] c by (simp add: well_formed_call_def created_by_def)
  moreover have "coa_optionsCount call = int (length os)" if "bco_options a = Some os" for os
    using c that by (simp add: created_by_def form_means_def)
  ultimately show ?thesis using c create_oracle_parts [OF c] m create_metadata_parts
    by (intro exI [of _ creator] exI [of _ kass] exI [of _ call] exI [of _ ix] exI [of _ pre])
      (cases "bco_options a"; auto)
qed

lemma metadata_back:
  assumes "web3_ok W" "writeOracleMeta W a = Inr t"
    and "wma_oracle a = Addr x" "fits16 (wma_subject a)" "list_all fits16 (wma_options a)" "fits16 (wma_uri a)"
    and "length (wma_options a) < 256"
  shows "decodeOracleMeta W (meta_account W bump x (ix_payload t))
    = Inr \<lparr>om_accountType = AT_OracleMeta, om_oracle = x, om_subject = wma_subject a,
        om_options = wma_options a, om_uri = wma_uri a, om_uriHash = wma_uriHash a\<rparr>"
proof -
  have "ix_payload t = meta_body (wma_subject a) (wma_options a) (wma_uri a) (wma_uriHash a)"
    using writeOracleMeta_data(1) [OF assms(2)] by (rule ix_payload_disc)
  then show ?thesis
    using decode_meta_body [OF assms(1)] writeOracleMeta_data(2) [OF assms(2)] assms by simp
qed

text \<open>
  C16: the metadata on the chain is the metadata of the form, and commits to the JSON. The account
  that the program writes from the last instruction decodes to the oracle, the question, the
  labels, the address of the file and the digest of exactly the text that is returned for hosting,
  whatever the texts as long as they fit their length prefixes; and no other metadata object has
  that text.
\<close>

theorem metadata_commitment:
  assumes "web3_ok W" "buildCreateOracleIxs W B a = Inr out" "bco_options a = Some os"
    and "fits16 (bco_question a)" "list_all fits16 os" "\<forall>m. cob_metadata out = Some m \<longrightarrow> fits16 (cmd_uri m)"
  shows "\<exists>m. cob_metadata out = Some m
    \<and> decodeOracleMeta W (meta_account W bump (cob_oracle out) (ix_payload (last (cob_ixs out))))
      = Inr \<lparr>om_accountType = AT_OracleMeta, om_oracle = cob_oracle out, om_subject = bco_question a,
          om_options = os, om_uri = cmd_uri m, om_uriHash = br_sha256 B (utf8_encode (cmd_jsonString m))\<rparr>
    \<and> omj_subject (cmd_json m) = bco_question a \<and> omj_options (cmd_json m) = os
    \<and> (\<forall>j. metadata_ok (cmd_json m) \<and> metadata_ok j \<and> metadata_text j = cmd_jsonString m \<longrightarrow> j = cmd_json m)"
proof -
  obtain creator kass call ix pre where c: "created_by W B a out creator kass call ix pre"
    and "case bco_options a of None \<Rightarrow> cob_ixs out = pre \<and> cob_metadata out = None
      | Some os \<Rightarrow> (\<exists>m mix. cob_ixs out = pre @ [mix] \<and> cob_metadata out = Some m
          \<and> create_metadata W B a creator (cob_oracle out) os = Inr (m, mix))"
    by (rule create_oracle_cases [OF assms(2)])
  then obtain m mix where m: "cob_ixs out = pre @ [mix]" "cob_metadata out = Some m"
      "create_metadata W B a creator (cob_oracle out) os = Inr (m, mix)"
    using assms(3) by auto
  let ?a = "\<lparr>wma_oracle = Addr (cob_oracle out), wma_creator = Addr creator, wma_subject = bco_question a,
       wma_options = os, wma_uri = cmd_uri m, wma_uriHash = cmd_uriHash m, wma_programId = bco_programId a\<rparr>"
  have e: "cmd_jsonString m = metadata_text (cmd_json m)" "cmd_uriHash m = br_sha256 B (utf8_encode (cmd_jsonString m))"
    "omj_subject (cmd_json m) = bco_question a" "omj_options (cmd_json m) = os" "writeOracleMeta W ?a = Inr mix"
    using m(3) unfolding create_metadata_iff buildOracleMetadataJson_def by (blast | simp)+
  have "length os < 256" using c assms(3) by (simp add: created_by_def form_means_def)
  then have "decodeOracleMeta W (meta_account W bump (cob_oracle out) (ix_payload mix))
      = Inr \<lparr>om_accountType = AT_OracleMeta, om_oracle = cob_oracle out, om_subject = bco_question a,
          om_options = os, om_uri = cmd_uri m, om_uriHash = cmd_uriHash m\<rparr>"
    using metadata_back [OF assms(1) e(5)] assms(4-6) m(2) by simp
  then show ?thesis using m e metadata_text_inj by auto
qed

lemma field_addrs:
  "\<forall>x\<in>{bco_creator a, bco_kassMint a, bco_usdcMint a}. is_ok (addr W x) \<Longrightarrow>
    \<exists>creator kass usdc. field_addr W ''creator'' (bco_creator a) = Inr creator
      \<and> field_addr W ''kassMint'' (bco_kassMint a) = Inr kass \<and> field_addr W ''usdcMint'' (bco_usdcMint a) = Inr usdc"
  by (auto simp: is_ok_iff field_addr_Inr)

lemma nonce_ok: "is_ok (case x of None \<Rightarrow> Inr v | Some n \<Rightarrow> toBigInt n) \<longleftrightarrow> (\<forall>n. x = Some n \<longrightarrow> is_ok (toBigInt n))"
  by (cases x) auto

lemma create_form_returns:
  assumes "pda_total W" "\<forall>x. is_ok (br_getAccountInfo B x)" "\<forall>b. length (br_sha256 B b) = 32"
    and "\<forall>x\<in>{bco_creator a, bco_kassMint a, bco_usdcMint a}. is_ok (addr W x)"
    and "form_means B a (n, d, t)" "\<forall>x. bco_nonce a = Some x \<longrightarrow> is_ok (toBigInt x)"
  shows "is_ok (buildCreateOracleIxs W B a)"
proof -
  obtain creator kass usdc where ad: "field_addr W ''creator'' (bco_creator a) = Inr creator"
    "field_addr W ''kassMint'' (bco_kassMint a) = Inr kass" "field_addr W ''usdcMint'' (bco_usdcMint a) = Inr usdc"
    using field_addrs [OF assms(4)] by blast
  have create: "is_ok (createOracle W \<lparr>coa_nonce = n, coa_optionsCount = k, coa_deadline = d, coa_twapWindow = t,
      coa_creator = Addr c, coa_creatorKassToken = Addr ac, coa_kassMint = Addr km, coa_usdcMint = Addr um,
      coa_programId = p\<rparr>)" for n k d t c ac km um p
    unfolding createOracle_def Let_def pda_mintAuthority_def using assms(1)
    by (auto intro!: is_ok_bindI is_ok_oracle_pdas simp del: collect.simps)
  have meta: "is_ok (create_metadata W B a c orc os)" for c orc os
    unfolding create_metadata_def Let_def writeOracleMeta_def hashToContentHash_def using assms(1,3)
    by (auto intro!: is_ok_bindI is_ok_oracle_pdas simp del: collect.simps simp: pda_oracleMeta_def)
  have v: "create_validate B a = Inr (n, d, t)" using assms(5) by (simp add: create_validate_iff)
  show ?thesis
    unfolding buildCreateOracleIxs_def v Let_def using assms(6)
    by (auto simp: ad nonce_ok intro!: is_ok_bindI is_ok_oracle_pdas assms cr.returns create meta split: option.splits)
qed

text \<open>
  Exactly which create forms are accepted, on a network that answers and with addresses that
  parse: those with a question, at least two and at most 255 options without a blank label, a
  deadline that is an integer after the current second, a window that is a positive integer or
  left out, and a nonce that is an integer or left out.
\<close>

theorem create_form_accepts:
  assumes "pda_total W" "\<forall>x. is_ok (br_getAccountInfo B x)" "\<forall>b. length (br_sha256 B b) = 32"
    and "\<forall>x\<in>{bco_creator a, bco_kassMint a, bco_usdcMint a}. is_ok (addr W x)"
  shows "is_ok (buildCreateOracleIxs W B a) \<longleftrightarrow> (\<exists>r. form_means B a r)
    \<and> (\<forall>x. bco_nonce a = Some x \<longrightarrow> is_ok (toBigInt x))"
proof
  assume "is_ok (buildCreateOracleIxs W B a)"
  then obtain out where "buildCreateOracleIxs W B a = Inr out" by (auto simp: is_ok_iff)
  then show "(\<exists>r. form_means B a r) \<and> (\<forall>x. bco_nonce a = Some x \<longrightarrow> is_ok (toBigInt x))"
    by (rule create_oracle_cases) (auto simp: created_by_def)
next
  assume "(\<exists>r. form_means B a r) \<and> (\<forall>x. bco_nonce a = Some x \<longrightarrow> is_ok (toBigInt x))"
  then show "is_ok (buildCreateOracleIxs W B a)" using create_form_returns [OF assms] by auto
qed

section \<open>A concrete oracle\<close>

definition sample_browser :: "256 word browser" where
  "sample_browser = \<lparr>br_now = 1700000000123, br_createdAt = 1700000000456, br_random = 42,
     br_sha256 = (\<lambda>b. replicate 32 (word_of_int (int (length b)))), br_getAccountInfo = no_account\<rparr>"

definition sample_create :: "256 word build_create_oracle_args" where
  "sample_create = \<lparr>bco_question = codes ''Who?'', bco_options = Some [codes ''yes'', codes ''no''],
     bco_optionsCount = None, bco_deadline = NBig 1700003600, bco_creator = Addr 5, bco_kassMint = B58 ''K'',
     bco_usdcMint = Addr 6, bco_nonce = None, bco_twapWindow = None, bco_appOrigin = None,
     bco_promptTemplate = Some [], bco_interpretation = None, bco_category = Some (codes '' sport ''),
     bco_programId = None\<rparr>"

lemma sample_form: "form_means sample_browser sample_create (2, 1700003600, 3600)"
  by (simp add: form_means_def sample_browser_def sample_create_def codes_def js_trim_def js_space_def)

theorem create_form_accepts_witness: "is_ok (buildCreateOracleIxs sample_web3 sample_browser sample_create)"
proof -
  have s: "\<forall>x. is_ok (br_getAccountInfo sample_browser x)" "\<forall>b. length (br_sha256 sample_browser b) = 32"
    using no_account_ok by (simp_all add: sample_browser_def)
  show ?thesis
    using create_form_accepts [OF sample_pda_total s, of sample_create] sample_form sample_addr
    by (auto simp: sample_create_def)
qed

lemma sample_created: "is_ok (buildCreateOracleIxs sample_web3 sample_browser sample_create)"
  using no_account_ok sample_addr
  by (intro create_form_returns [OF sample_pda_total _ _ _ sample_form])
    (auto simp: sample_browser_def sample_create_def)

theorem create_oracle_exact_witness:
  "\<exists>out. buildCreateOracleIxs sample_web3 sample_browser sample_create = Inr out
    \<and> signers (last (cob_ixs out)) = [5] \<and> key_addresses (last (cob_ixs out)) ! 1 = cob_oracle out"
proof -
  obtain out where out: "buildCreateOracleIxs sample_web3 sample_browser sample_create = Inr out"
    using sample_created by (auto simp: is_ok_iff)
  then show ?thesis using create_oracle_exact [OF out] by (auto simp: sample_create_def created_by_def)
qed

theorem metadata_commitment_witness:
  "\<exists>out m. buildCreateOracleIxs sample_web3 sample_browser sample_create = Inr out \<and> cob_metadata out = Some m
    \<and> rmap om_options (decodeOracleMeta sample_web3
        (meta_account sample_web3 255 (cob_oracle out) (ix_payload (last (cob_ixs out)))))
      = Inr [codes ''yes'', codes ''no'']"
proof -
  obtain out where out: "buildCreateOracleIxs sample_web3 sample_browser sample_create = Inr out"
    using sample_created by (auto simp: is_ok_iff)
  have texts: "bco_options sample_create = Some [codes ''yes'', codes ''no'']" "fits16 (bco_question sample_create)"
    "list_all fits16 [codes ''yes'', codes ''no'']"
    by (simp_all add: sample_create_def codes_def fits16_def plain_text_def scalar_def
        is_surrogate_def utf8_encode_def utf8_code_def utf8_scalar_def)
  have "\<forall>m. cob_metadata out = Some m \<longrightarrow> fits16 (cmd_uri m)"
  proof (rule create_oracle_cases [OF out])
    fix creator kass call ix pre
    assume "case bco_options sample_create of None \<Rightarrow> cob_ixs out = pre \<and> cob_metadata out = None
      | Some os \<Rightarrow> (\<exists>m mix. cob_ixs out = pre @ [mix] \<and> cob_metadata out = Some m
          \<and> create_metadata sample_web3 sample_browser sample_create creator (cob_oracle out) os = Inr (m, mix))"
    then show ?thesis unfolding texts create_metadata_iff
      by (auto simp: sample_create_def fits16_def plain_text_def utf8_encode_def)
  qed
  from metadata_commitment [OF sample_web3_ok out texts this, where bump = 255] out show ?thesis by auto
qed

end
