(* ===== verification/Futarchy_Ixs.thy ===== *)
theory Futarchy_Ixs
  imports Metadao_Ixs
begin

text \<open>
  The second set of MetaDAO builders, that of the oracle SDK: \<open>conditional_vault\<close>
  (\<open>sdks/oracles/ts/src/futarchy/\<close>) and the v0.4 AMM (\<open>amm-v04/\<close>), which the challenge flow of the
  app composes with. They are translated from their own files; the last section shows that the
  two SDKs build the same instructions, so that what is known of one holds of the other.
\<close>

section \<open>Constants (futarchy/constants.ts, amm-v04/constants.ts)\<close>

definition fut_DISC_initializeQuestion :: bytes where
  "fut_DISC_initializeQuestion = [0xf5, 0x97, 0x6a, 0xbc, 0x58, 0x2c, 0x41, 0xd4]"

definition fut_DISC_resolveQuestion :: bytes where
  "fut_DISC_resolveQuestion = [0x34, 0x20, 0xe0, 0xb3, 0xb4, 0x08, 0x00, 0xf6]"

definition fut_DISC_initializeConditionalVault :: bytes where
  "fut_DISC_initializeConditionalVault = [0x25, 0x58, 0xfa, 0xd4, 0x36, 0xda, 0xe3, 0xaf]"

definition fut_DISC_splitTokens :: bytes where
  "fut_DISC_splitTokens = [0x4f, 0xc3, 0x74, 0x00, 0x8c, 0xb0, 0x49, 0xb3]"

definition fut_DISC_mergeTokens :: bytes where
  "fut_DISC_mergeTokens = [0xe2, 0x59, 0xfb, 0x79, 0xe1, 0x82, 0xb4, 0x0e]"

definition fut_DISC_redeemTokens :: bytes where
  "fut_DISC_redeemTokens = [0xf6, 0x62, 0x86, 0x29, 0x98, 0x21, 0x78, 0x45]"

definition amm4_DISC_createAmm :: bytes where
  "amm4_DISC_createAmm = [0xf2, 0x5b, 0x15, 0xaa, 0x05, 0x44, 0x7d, 0x40]"

definition amm4_DISC_addLiquidity :: bytes where
  "amm4_DISC_addLiquidity = [0xb5, 0x9d, 0x59, 0x43, 0x8f, 0xb6, 0x34, 0x48]"

definition amm4_DISC_swap :: bytes where
  "amm4_DISC_swap = [0xf8, 0xc6, 0x9e, 0x91, 0xe1, 0x75, 0x87, 0xc8]"

definition amm4_DISC_crankThatTwap :: bytes where
  "amm4_DISC_crankThatTwap = [0xdc, 0x64, 0x19, 0xf9, 0x00, 0x5c, 0xc3, 0xc1]"

section \<open>Addresses (futarchy/pda.ts, amm-v04/pda.ts)\<close>

definition fut_derive :: "'a web3 \<Rightarrow> bytes list \<Rightarrow> 'a \<Rightarrow> 'a pda res" where
  "fut_derive W seeds programId =
     rmap (\<lambda>(address, bump). \<lparr>pda_address = address, pda_bump = bump\<rparr>)
       (lift_web (w3_find_pda W seeds programId))"

definition fut_question :: "'a web3 \<Rightarrow> bytes \<Rightarrow> 'a address_input \<Rightarrow> int \<Rightarrow> 'a pda res" where
  "fut_question W questionId oracle' numOutcomes =
     rbind (pubkeyBytes W oracle') (\<lambda>o1.
       fut_derive W [ascii ''question'', questionId, o1, u8 numOutcomes] (conditionalVault_id W))"

definition fut_conditionalVault ::
  "'a web3 \<Rightarrow> 'a address_input \<Rightarrow> 'a address_input \<Rightarrow> 'a pda res" where
  "fut_conditionalVault W question underlyingMint =
     rbind (pubkeyBytes W question) (\<lambda>q1. rbind (pubkeyBytes W underlyingMint) (\<lambda>u1.
       fut_derive W [ascii ''conditional_vault'', q1, u1] (conditionalVault_id W)))"

definition fut_conditionalTokenMint :: "'a web3 \<Rightarrow> 'a address_input \<Rightarrow> int \<Rightarrow> 'a pda res" where
  "fut_conditionalTokenMint W vault index =
     rbind (pubkeyBytes W vault) (\<lambda>v1.
       fut_derive W [ascii ''conditional_token'', v1, u8 index] (conditionalVault_id W))"

definition fut_vaultEventAuthority :: "'a web3 \<Rightarrow> 'a pda res" where
  "fut_vaultEventAuthority W = fut_derive W [ascii ''__event_authority''] (conditionalVault_id W)"

definition fut_ata :: "'a web3 \<Rightarrow> 'a address_input \<Rightarrow> 'a address_input \<Rightarrow> 'a res" where
  "fut_ata W owner mint =
     rbind (pubkeyBytes W owner) (\<lambda>o1. rbind (pubkeyBytes W mint) (\<lambda>m1.
       rmap fst (lift_web (w3_find_pda W [o1, w3_bytes W (TOKEN_PROGRAM_ID W), m1]
         (ATA_PROGRAM_ID W)))))"

definition amm4_derive :: "'a web3 \<Rightarrow> bytes list \<Rightarrow> 'a \<Rightarrow> 'a pda res" where
  "amm4_derive W seeds programId =
     rmap (\<lambda>(address, bump). \<lparr>pda_address = address, pda_bump = bump\<rparr>)
       (lift_web (w3_find_pda W seeds programId))"

definition amm4_amm :: "'a web3 \<Rightarrow> 'a address_input \<Rightarrow> 'a address_input \<Rightarrow> 'a pda res" where
  "amm4_amm W baseMint quoteMint =
     rbind (pubkeyBytes W baseMint) (\<lambda>b1. rbind (pubkeyBytes W quoteMint) (\<lambda>q1.
       amm4_derive W [ascii ''amm__'', b1, q1] (ammV04_id W)))"

definition amm4_lpMint :: "'a web3 \<Rightarrow> 'a address_input \<Rightarrow> 'a pda res" where
  "amm4_lpMint W ammAddr =
     rbind (pubkeyBytes W ammAddr) (\<lambda>a1. amm4_derive W [ascii ''amm_lp_mint'', a1] (ammV04_id W))"

definition amm4_eventAuthority :: "'a web3 \<Rightarrow> 'a pda res" where
  "amm4_eventAuthority W = amm4_derive W [ascii ''__event_authority''] (ammV04_id W)"

definition amm4_ata :: "'a web3 \<Rightarrow> 'a address_input \<Rightarrow> 'a address_input \<Rightarrow> 'a res" where
  "amm4_ata W owner mint =
     rbind (pubkeyBytes W owner) (\<lambda>o1. rbind (pubkeyBytes W mint) (\<lambda>m1.
       rmap fst (lift_web (w3_find_pda W [o1, w3_bytes W (TOKEN_PROGRAM_ID W), m1]
         (ATA_PROGRAM_ID W)))))"

section \<open>The v0.4 AMM (amm-v04/instructions.ts)\<close>

record 'a amm4_createAmm_args =
  c4_payer :: "'a address_input"
  c4_baseMint :: "'a address_input"
  c4_quoteMint :: "'a address_input"
  c4_twapInitialObservation :: int
  c4_twapMaxObservationChangePerUpdate :: int
  c4_twapStartDelaySlots :: "int option"

definition amm4_createAmm :: "'a web3 \<Rightarrow> 'a amm4_createAmm_args \<Rightarrow> 'a tx_instruction res" where
  "amm4_createAmm W a =
     rbind (amm4_amm W (c4_baseMint a) (c4_quoteMint a)) (\<lambda>ammAddr.
     rbind (amm4_lpMint W (Addr (pda_address ammAddr))) (\<lambda>lpMint.
     rbind (amm4_ata W (Addr (pda_address ammAddr)) (c4_baseMint a)) (\<lambda>vaultBase.
     rbind (amm4_ata W (Addr (pda_address ammAddr)) (c4_quoteMint a)) (\<lambda>vaultQuote.
     rbind (amm4_eventAuthority W) (\<lambda>eventAuthority.
     rbind (collect
       [w_in W (c4_payer a) True,
        Inr (w (pda_address ammAddr) False),
        Inr (w (pda_address lpMint) False),
        ro_in W (c4_baseMint a) False,
        ro_in W (c4_quoteMint a) False,
        Inr (w vaultBase False),
        Inr (w vaultQuote False),
        Inr (ro (ATA_PROGRAM_ID W) False),
        Inr (ro (TOKEN_PROGRAM_ID W) False),
        Inr (ro (SYSTEM_PROGRAM_ID W) False),
        Inr (ro (pda_address eventAuthority) False),
        Inr (ro (ammV04_id W) False)]) (\<lambda>ks.
     rbind (concatBytes
       [amm4_DISC_createAmm,
        u128LE (c4_twapInitialObservation a),
        u128LE (c4_twapMaxObservationChangePerUpdate a),
        u64LE (or_zero (c4_twapStartDelaySlots a))]) (\<lambda>bs.
     Inr \<lparr>ti_programId = ammV04_id W, ti_keys = ks, ti_data = bs\<rparr>)))))))"

record 'a amm4_addLiquidity_args =
  l4_payer :: "'a address_input"
  l4_baseMint :: "'a address_input"
  l4_quoteMint :: "'a address_input"
  l4_quoteAmount :: int
  l4_maxBaseAmount :: int
  l4_minLpTokens :: "int option"

definition amm4_addLiquidity :: "'a web3 \<Rightarrow> 'a amm4_addLiquidity_args \<Rightarrow> 'a tx_instruction res" where
  "amm4_addLiquidity W a =
     rbind (amm4_amm W (l4_baseMint a) (l4_quoteMint a)) (\<lambda>ammAddr.
     rbind (amm4_lpMint W (Addr (pda_address ammAddr))) (\<lambda>lpMint.
     rbind (amm4_ata W (l4_payer a) (Addr (pda_address lpMint))) (\<lambda>userLp.
     rbind (amm4_ata W (l4_payer a) (l4_baseMint a)) (\<lambda>userBase.
     rbind (amm4_ata W (l4_payer a) (l4_quoteMint a)) (\<lambda>userQuote.
     rbind (amm4_ata W (Addr (pda_address ammAddr)) (l4_baseMint a)) (\<lambda>vaultBase.
     rbind (amm4_ata W (Addr (pda_address ammAddr)) (l4_quoteMint a)) (\<lambda>vaultQuote.
     rbind (amm4_eventAuthority W) (\<lambda>eventAuthority.
     rbind (collect
       [w_in W (l4_payer a) True,
        Inr (w (pda_address ammAddr) False),
        Inr (w (pda_address lpMint) False),
        Inr (w userLp False),
        Inr (w userBase False),
        Inr (w userQuote False),
        Inr (w vaultBase False),
        Inr (w vaultQuote False),
        Inr (ro (TOKEN_PROGRAM_ID W) False),
        Inr (ro (pda_address eventAuthority) False),
        Inr (ro (ammV04_id W) False)]) (\<lambda>ks.
     rbind (concatBytes
       [amm4_DISC_addLiquidity,
        u64LE (l4_quoteAmount a),
        u64LE (l4_maxBaseAmount a),
        u64LE (or_zero (l4_minLpTokens a))]) (\<lambda>bs.
     Inr \<lparr>ti_programId = ammV04_id W, ti_keys = ks, ti_data = bs\<rparr>))))))))))"

record 'a amm4_swap_args =
  s4_payer :: "'a address_input"
  s4_baseMint :: "'a address_input"
  s4_quoteMint :: "'a address_input"
  s4_swapType :: SwapType
  s4_inputAmount :: int
  s4_minOutputAmount :: "int option"

definition amm4_swap :: "'a web3 \<Rightarrow> 'a amm4_swap_args \<Rightarrow> 'a tx_instruction res" where
  "amm4_swap W a =
     rbind (amm4_amm W (s4_baseMint a) (s4_quoteMint a)) (\<lambda>ammAddr.
     rbind (amm4_ata W (s4_payer a) (s4_baseMint a)) (\<lambda>userBase.
     rbind (amm4_ata W (s4_payer a) (s4_quoteMint a)) (\<lambda>userQuote.
     rbind (amm4_ata W (Addr (pda_address ammAddr)) (s4_baseMint a)) (\<lambda>vaultBase.
     rbind (amm4_ata W (Addr (pda_address ammAddr)) (s4_quoteMint a)) (\<lambda>vaultQuote.
     rbind (amm4_eventAuthority W) (\<lambda>eventAuthority.
     rbind (collect
       [w_in W (s4_payer a) True,
        Inr (w (pda_address ammAddr) False),
        Inr (w userBase False),
        Inr (w userQuote False),
        Inr (w vaultBase False),
        Inr (w vaultQuote False),
        Inr (ro (TOKEN_PROGRAM_ID W) False),
        Inr (ro (pda_address eventAuthority) False),
        Inr (ro (ammV04_id W) False)]) (\<lambda>ks.
     rbind (concatBytes
       [amm4_DISC_swap,
        u8 (swap_code (s4_swapType a)),
        u64LE (s4_inputAmount a),
        u64LE (or_zero (s4_minOutputAmount a))]) (\<lambda>bs.
     Inr \<lparr>ti_programId = ammV04_id W, ti_keys = ks, ti_data = bs\<rparr>))))))))"

definition amm4_crankThatTwap :: "'a web3 \<Rightarrow> 'a address_input \<Rightarrow> 'a tx_instruction res" where
  "amm4_crankThatTwap W amm =
     rbind (amm4_eventAuthority W) (\<lambda>eventAuthority.
     rbind (collect
       [w_in W amm False,
        Inr (ro (pda_address eventAuthority) False),
        Inr (ro (ammV04_id W) False)]) (\<lambda>ks.
     Inr \<lparr>ti_programId = ammV04_id W, ti_keys = ks, ti_data = amm4_DISC_crankThatTwap\<rparr>))"

section \<open>conditional_vault (futarchy/instructions/conditional-vault.ts)\<close>

record 'a fut_initializeQuestion_args =
  fq_payer :: "'a address_input"
  fq_questionId :: bytes
  fq_oracle :: "'a address_input"
  fq_numOutcomes :: int

definition fut_initializeQuestion :: "'a web3 \<Rightarrow> 'a fut_initializeQuestion_args \<Rightarrow> 'a tx_instruction res" where
  "fut_initializeQuestion W a =
     rbind (fut_question W (fq_questionId a) (fq_oracle a) (fq_numOutcomes a)) (\<lambda>question.
     rbind (fut_vaultEventAuthority W) (\<lambda>eventAuthority.
     rbind (collect
       [Inr (w (pda_address question) False),
        w_in W (fq_payer a) True,
        Inr (ro (SYSTEM_PROGRAM_ID W) False),
        Inr (ro (pda_address eventAuthority) False),
        Inr (ro (conditionalVault_id W) False)]) (\<lambda>ks.
     rbind (addr W (fq_oracle a)) (\<lambda>o1.
     rbind (concatBytes
       [fut_DISC_initializeQuestion, fq_questionId a, w3_bytes W o1, u8 (fq_numOutcomes a)]) (\<lambda>bs.
     Inr \<lparr>ti_programId = conditionalVault_id W, ti_keys = ks, ti_data = bs\<rparr>)))))"

record 'a fut_initializeConditionalVault_args =
  fv_payer :: "'a address_input"
  fv_question :: "'a address_input"
  fv_underlyingMint :: "'a address_input"
  fv_numOutcomes :: "nat option"

text \<open>The loop that pushes the conditional mints of the outcomes \<open>i, i + 1, ..., n - 1\<close>.\<close>

fun fut_cond_mints :: "'a web3 \<Rightarrow> 'a \<Rightarrow> nat \<Rightarrow> nat \<Rightarrow> 'a account_meta list \<Rightarrow> 'a account_meta list res" where
  "fut_cond_mints W vault i 0 acc = Inr acc"
| "fut_cond_mints W vault i (Suc k) acc =
     rbind (fut_conditionalTokenMint W (Addr vault) (int i)) (\<lambda>m.
       fut_cond_mints W vault (Suc i) k (acc @ [w (pda_address m) False]))"

definition fut_initializeConditionalVault ::
  "'a web3 \<Rightarrow> 'a fut_initializeConditionalVault_args \<Rightarrow> 'a tx_instruction res" where
  "fut_initializeConditionalVault W a =
     (let n = (case fv_numOutcomes a of None \<Rightarrow> 2 | Some n \<Rightarrow> n) in
     rbind (fut_conditionalVault W (fv_question a) (fv_underlyingMint a)) (\<lambda>vault.
     rbind (fut_ata W (Addr (pda_address vault)) (fv_underlyingMint a)) (\<lambda>vaultUnderlying.
     rbind (fut_vaultEventAuthority W) (\<lambda>eventAuthority.
     rbind (fut_cond_mints W (pda_address vault) 0 n []) (\<lambda>condMints.
     rbind (collect
       [Inr (w (pda_address vault) False),
        ro_in W (fv_question a) False,
        ro_in W (fv_underlyingMint a) False,
        Inr (w vaultUnderlying False),
        w_in W (fv_payer a) True,
        Inr (ro (TOKEN_PROGRAM_ID W) False),
        Inr (ro (ATA_PROGRAM_ID W) False),
        Inr (ro (SYSTEM_PROGRAM_ID W) False),
        Inr (ro (pda_address eventAuthority) False),
        Inr (ro (conditionalVault_id W) False)]) (\<lambda>ks.
     Inr \<lparr>ti_programId = conditionalVault_id W, ti_keys = ks @ condMints,
       ti_data = fut_DISC_initializeConditionalVault\<rparr>))))))"

record 'a fut_interactWithVault_args =
  fw_question :: "'a address_input"
  fw_vault :: "'a address_input"
  fw_vaultUnderlying :: "'a address_input"
  fw_authority :: "'a address_input"
  fw_userUnderlying :: "'a address_input"
  fw_conditionalMints :: "'a address_input list"
  fw_userConditionalAccounts :: "'a address_input list"

definition fut_interactWithVault ::
  "'a web3 \<Rightarrow> bytes \<Rightarrow> 'a fut_interactWithVault_args \<Rightarrow> 'a tx_instruction res" where
  "fut_interactWithVault W disc a =
     rbind (fut_vaultEventAuthority W) (\<lambda>eventAuthority.
     rbind (collect
       ([ro_in W (fw_question a) False,
         w_in W (fw_vault a) False,
         w_in W (fw_vaultUnderlying a) False,
         ro_in W (fw_authority a) True,
         w_in W (fw_userUnderlying a) False,
         Inr (ro (TOKEN_PROGRAM_ID W) False),
         Inr (ro (pda_address eventAuthority) False),
         Inr (ro (conditionalVault_id W) False)]
        @ map (\<lambda>m. w_in W m False) (fw_conditionalMints a)
        @ map (\<lambda>u. w_in W u False) (fw_userConditionalAccounts a))) (\<lambda>ks.
     Inr \<lparr>ti_programId = conditionalVault_id W, ti_keys = ks, ti_data = disc\<rparr>))"

definition fut_splitTokens :: "'a web3 \<Rightarrow> 'a fut_interactWithVault_args \<Rightarrow> int \<Rightarrow> 'a tx_instruction res" where
  "fut_splitTokens W a amount =
     rbind (concatBytes [fut_DISC_splitTokens, u64LE amount]) (\<lambda>bs. fut_interactWithVault W bs a)"

definition fut_mergeTokens :: "'a web3 \<Rightarrow> 'a fut_interactWithVault_args \<Rightarrow> int \<Rightarrow> 'a tx_instruction res" where
  "fut_mergeTokens W a amount =
     rbind (concatBytes [fut_DISC_mergeTokens, u64LE amount]) (\<lambda>bs. fut_interactWithVault W bs a)"

definition fut_redeemTokens :: "'a web3 \<Rightarrow> 'a fut_interactWithVault_args \<Rightarrow> 'a tx_instruction res" where
  "fut_redeemTokens W a = fut_interactWithVault W fut_DISC_redeemTokens a"

record 'a fut_resolveQuestion_args =
  fr_question :: "'a address_input"
  fr_oracle :: "'a address_input"
  fr_payoutNumerators :: "int \<times> int"

definition fut_resolveQuestion :: "'a web3 \<Rightarrow> 'a fut_resolveQuestion_args \<Rightarrow> 'a tx_instruction res" where
  "fut_resolveQuestion W a =
     rbind (fut_vaultEventAuthority W) (\<lambda>eventAuthority.
     rbind (collect
       [w_in W (fr_question a) False,
        ro_in W (fr_oracle a) True,
        Inr (ro (pda_address eventAuthority) False),
        Inr (ro (conditionalVault_id W) False)]) (\<lambda>ks.
     rbind (concatBytes
       [fut_DISC_resolveQuestion, u32LE 2, u32LE (fst (fr_payoutNumerators a)),
        u32LE (snd (fr_payoutNumerators a))]) (\<lambda>bs.
     Inr \<lparr>ti_programId = conditionalVault_id W, ti_keys = ks, ti_data = bs\<rparr>)))"

section \<open>Two SDKs, one wire\<close>

text \<open>The arguments of the market SDK's builders that correspond to those of the oracle SDK.\<close>

definition to_createAmm :: "'a amm4_createAmm_args \<Rightarrow> 'a createAmm_args" where
  "to_createAmm a = \<lparr>cra_payer = c4_payer a, cra_baseMint = c4_baseMint a, cra_quoteMint = c4_quoteMint a,
     cra_twapInitialObservation = c4_twapInitialObservation a,
     cra_twapMaxObservationChangePerUpdate = c4_twapMaxObservationChangePerUpdate a,
     cra_twapStartDelaySlots = c4_twapStartDelaySlots a\<rparr>"

definition to_addLiquidity :: "'a amm4_addLiquidity_args \<Rightarrow> 'a ammAddLiquidity_args" where
  "to_addLiquidity a = \<lparr>ala_payer = l4_payer a, ala_baseMint = l4_baseMint a, ala_quoteMint = l4_quoteMint a,
     ala_quoteAmount = l4_quoteAmount a, ala_maxBaseAmount = l4_maxBaseAmount a,
     ala_minLpTokens = l4_minLpTokens a\<rparr>"

definition to_swap :: "'a amm4_swap_args \<Rightarrow> 'a swap_args" where
  "to_swap a = \<lparr>swa_payer = s4_payer a, swa_baseMint = s4_baseMint a, swa_quoteMint = s4_quoteMint a,
     swa_swapType = s4_swapType a, swa_inputAmount = s4_inputAmount a,
     swa_outputAmountMin = s4_minOutputAmount a, swa_userBase = None, swa_userQuote = None\<rparr>"

definition to_question :: "'a fut_initializeQuestion_args \<Rightarrow> 'a initializeQuestion_args" where
  "to_question a = \<lparr>iqa_payer = fq_payer a, iqa_questionId = fq_questionId a, iqa_oracle = fq_oracle a,
     iqa_numOutcomes = fq_numOutcomes a\<rparr>"

definition to_vault :: "'a fut_initializeConditionalVault_args \<Rightarrow> 'a initializeConditionalVault_args" where
  "to_vault a = \<lparr>iva_payer = fv_payer a, iva_question = fv_question a,
     iva_underlyingMint = fv_underlyingMint a, iva_numOutcomes = fv_numOutcomes a\<rparr>"

definition to_interact :: "'a fut_interactWithVault_args \<Rightarrow> 'a interactWithVault_args" where
  "to_interact a = \<lparr>iwv_question = fw_question a, iwv_vault = fw_vault a,
     iwv_vaultUnderlyingAta = fw_vaultUnderlying a, iwv_authority = fw_authority a,
     iwv_userUnderlyingAta = fw_userUnderlying a, iwv_conditionalMints = fw_conditionalMints a,
     iwv_userConditionalAtas = fw_userConditionalAccounts a\<rparr>"

lemmas to_defs = to_createAmm_def to_addLiquidity_def to_swap_def to_question_def to_vault_def to_interact_def

lemma fut_derive_md: "fut_derive W = md_derive W" "amm4_derive W = md_derive W"
  by (intro ext; simp add: fut_derive_def amm4_derive_def md_derive_def)+

lemma fut_pdas:
  "fut_question W qid x n = md_question W qid x n"
  "fut_conditionalVault W x y = md_conditionalVault W x y"
  "fut_conditionalTokenMint W x i = md_conditionalTokenMint W x i"
  "fut_vaultEventAuthority W = md_vaultEventAuthority W"
  "fut_ata W x y = md_ata W x y"
  "amm4_amm W x y = md_amm W x y"
  "amm4_lpMint W x = md_ammLpMint W x"
  "amm4_eventAuthority W = md_ammEventAuthority W"
  "amm4_ata W x y = md_ata W x y"
  by (simp_all only: fut_question_def fut_conditionalVault_def fut_conditionalTokenMint_def
      fut_vaultEventAuthority_def fut_ata_def amm4_amm_def amm4_lpMint_def amm4_eventAuthority_def
      amm4_ata_def fut_derive_md md_question_def md_conditionalVault_def md_conditionalTokenMint_def
      md_vaultEventAuthority_def md_ata_def md_amm_def md_ammLpMint_def md_ammEventAuthority_def)

lemma fut_discs:
  "fut_DISC_initializeQuestion = DISC_initializeQuestion" "fut_DISC_resolveQuestion = DISC_resolveQuestion"
  "fut_DISC_initializeConditionalVault = DISC_initializeConditionalVault"
  "fut_DISC_splitTokens = DISC_splitTokens" "fut_DISC_mergeTokens = DISC_mergeTokens"
  "fut_DISC_redeemTokens = DISC_redeemTokens" "amm4_DISC_createAmm = DISC_createAmm"
  "amm4_DISC_addLiquidity = DISC_addLiquidity" "amm4_DISC_swap = DISC_swap"
  "amm4_DISC_crankThatTwap = DISC_crankThatTwap"
  by (simp_all only: fut_DISC_initializeQuestion_def fut_DISC_resolveQuestion_def
      fut_DISC_initializeConditionalVault_def fut_DISC_splitTokens_def fut_DISC_mergeTokens_def
      fut_DISC_redeemTokens_def amm4_DISC_createAmm_def amm4_DISC_addLiquidity_def amm4_DISC_swap_def
      amm4_DISC_crankThatTwap_def DISC_initializeQuestion_def DISC_initializeConditionalVault_def
      DISC_splitTokens_def DISC_mergeTokens_def DISC_redeemTokens_def DISC_resolveQuestion_def
      DISC_createAmm_def DISC_addLiquidity_def DISC_swap_def DISC_crankThatTwap_def)

lemma fut_cond_mints_md: "fut_cond_mints W v i k acc = cond_mints W v i k acc"
  by (induction k arbitrary: i acc) (simp_all add: fut_pdas)

lemma fut_interact_md: "fut_interactWithVault W d a = interactWithVault W d (to_interact a)"
  by (simp only: fut_interactWithVault_def interactWithVault_def fut_pdas to_interact_def
      interactWithVault_args.select_convs)

lemma fut_builders_md:
  "amm4_createAmm W a1 = createAmm W (to_createAmm a1)"
  "amm4_addLiquidity W a2 = ammAddLiquidity W (to_addLiquidity a2)"
  "amm4_swap W a3 = ammSwap W (to_swap a3)"
  "amm4_crankThatTwap W x = crankThatTwap W x"
  "fut_initializeQuestion W a4 = initializeQuestion W (to_question a4)"
  "fut_initializeConditionalVault W a5 = initializeConditionalVault W (to_vault a5)"
  "fut_splitTokens W a6 n = splitTokens W (to_interact a6) n"
  "fut_mergeTokens W a6 n = mergeTokens W (to_interact a6) n"
  "fut_redeemTokens W a6 = redeemTokens W (to_interact a6)"
  "fut_resolveQuestion W a7 = resolveQuestion W (fr_question a7) (fr_oracle a7) (fr_payoutNumerators a7)"
  by (simp_all only: amm4_createAmm_def createAmm_def amm4_addLiquidity_def ammAddLiquidity_def
      amm4_swap_def ammSwap_def amm4_crankThatTwap_def crankThatTwap_def fut_initializeQuestion_def
      initializeQuestion_def fut_initializeConditionalVault_def initializeConditionalVault_def
      fut_splitTokens_def splitTokens_def fut_mergeTokens_def mergeTokens_def fut_redeemTokens_def
      redeemTokens_def fut_resolveQuestion_def resolveQuestion_def fut_pdas fut_discs fut_cond_mints_md
      fut_interact_md to_createAmm_def to_addLiquidity_def to_swap_def to_question_def to_vault_def
      createAmm_args.select_convs ammAddLiquidity_args.select_convs swap_args.select_convs
      initializeQuestion_args.select_convs initializeConditionalVault_args.select_convs option.case simp_thms)

text \<open>
  The two SDKs agree on the MetaDAO wire. Each of the ten builders of the oracle SDK returns,
  for every argument and every failure, exactly what the market SDK's builder of the same
  instruction returns for the corresponding arguments: the same accounts in the same order with the
  same roles, the same discriminator and the same payload.
\<close>

theorem sdk_copies_agree:
  "amm4_createAmm W a1 = createAmm W (to_createAmm a1)
    \<and> amm4_addLiquidity W a2 = ammAddLiquidity W (to_addLiquidity a2)
    \<and> amm4_swap W a3 = ammSwap W (to_swap a3)
    \<and> amm4_crankThatTwap W x = crankThatTwap W x
    \<and> fut_initializeQuestion W a4 = initializeQuestion W (to_question a4)
    \<and> fut_initializeConditionalVault W a5 = initializeConditionalVault W (to_vault a5)
    \<and> fut_splitTokens W a6 n = splitTokens W (to_interact a6) n
    \<and> fut_mergeTokens W a6 n = mergeTokens W (to_interact a6) n
    \<and> fut_redeemTokens W a6 = redeemTokens W (to_interact a6)
    \<and> fut_resolveQuestion W a7 = resolveQuestion W (fr_question a7) (fr_oracle a7) (fr_payoutNumerators a7)"
  by (simp only: fut_builders_md simp_thms)

end
