(* ===== verification/Challenge_Flows.thy ===== *)
theory Challenge_Flows
  imports Futarchy_Ixs Finalize_Actions Market_Trading
begin

text \<open>
  The life of a challenge market in the oracle app: composing the MetaDAO market and opening the
  challenge (\<open>app/src/data/actions/challengeCompose.ts\<close> and \<open>challengeCompose/\<close>), trading and
  cranking its pools (\<open>challengeTrade.ts\<close>), and settling it from the decoded accounts
  (\<open>challengeSettle.ts\<close>). Derivations that the code starts together with \<open>Promise.all\<close> are done in
  the order of the list. \<open>open_market\<close>, \<open>settle_checks\<close> and \<open>open_checks\<close> state what the program's
  \<open>open_challenge\<close> records and what it and \<open>settle_challenge\<close> demand of their account lists
  (\<open>programs/oracles/src/processor/\<close>).
\<close>

section \<open>Seed mathematics (challengeCompose/constants.ts)\<close>

definition compose_PRICE_SCALE :: int where
  "compose_PRICE_SCALE = 1000000000000"

definition MAX_OBSERVATION_CHANGE :: int where
  "MAX_OBSERVATION_CHANGE = (2 ^ 64 - 1) * compose_PRICE_SCALE"

definition DEFAULT_BASE_RESERVE :: int where
  "DEFAULT_BASE_RESERVE = 100000000000"

definition DEFAULT_QUOTE_RESERVE :: int where
  "DEFAULT_QUOTE_RESERVE = 100000000"

definition DEFAULT_QUESTION_ID :: bytes where
  "DEFAULT_QUESTION_ID = replicate 32 0x07"

definition twapInitialObservation :: "int \<Rightarrow> int \<Rightarrow> int res" where
  "twapInitialObservation baseReserve quoteReserve =
     (if baseReserve \<le> 0 then Inl (ValidationErr ''baseReserve'')
      else Inr (quoteReserve * compose_PRICE_SCALE sdiv baseReserve))"

section \<open>Helpers (challengeCompose/helpers.ts, challengeTrade.ts, challengeSettle.ts)\<close>

definition requirePositive :: "string \<Rightarrow> int \<Rightarrow> int res" where
  "requirePositive fld v = (if v \<le> 0 then Inl (ValidationErr fld) else Inr v)"

definition toBig :: "string \<Rightarrow> num_input \<Rightarrow> int res" where
  "toBig fld v = rbind (truncToBigInt v) (requirePositive fld)"

definition compose_createAtaIdempotentIx :: "'a web3 \<Rightarrow> 'a \<Rightarrow> 'a \<Rightarrow> 'a \<Rightarrow> 'a \<Rightarrow> 'a tx_instruction" where
  "compose_createAtaIdempotentIx W payer ataAddr owner mint =
     \<lparr>ti_programId = ATA_PROGRAM_ID W,
       ti_keys =
         [\<lparr>am_pubkey = payer, am_isSigner = True, am_isWritable = True\<rparr>,
          \<lparr>am_pubkey = ataAddr, am_isSigner = False, am_isWritable = True\<rparr>,
          \<lparr>am_pubkey = owner, am_isSigner = False, am_isWritable = False\<rparr>,
          \<lparr>am_pubkey = mint, am_isSigner = False, am_isWritable = False\<rparr>,
          \<lparr>am_pubkey = SYSTEM_PROGRAM_ID W, am_isSigner = False, am_isWritable = False\<rparr>,
          \<lparr>am_pubkey = TOKEN_PROGRAM_ID W, am_isSigner = False, am_isWritable = False\<rparr>],
       ti_data = [1]\<rparr>"

definition settle_createAtaIdempotentIx :: "'a web3 \<Rightarrow> 'a \<Rightarrow> 'a \<Rightarrow> 'a \<Rightarrow> 'a \<Rightarrow> 'a tx_instruction" where
  "settle_createAtaIdempotentIx W payer ataAddr owner mint =
     \<lparr>ti_programId = ATA_PROGRAM_ID W,
       ti_keys =
         [\<lparr>am_pubkey = payer, am_isSigner = True, am_isWritable = True\<rparr>,
          \<lparr>am_pubkey = ataAddr, am_isSigner = False, am_isWritable = True\<rparr>,
          \<lparr>am_pubkey = owner, am_isSigner = False, am_isWritable = False\<rparr>,
          \<lparr>am_pubkey = mint, am_isSigner = False, am_isWritable = False\<rparr>,
          \<lparr>am_pubkey = SYSTEM_PROGRAM_ID W, am_isSigner = False, am_isWritable = False\<rparr>,
          \<lparr>am_pubkey = TOKEN_PROGRAM_ID W, am_isSigner = False, am_isWritable = False\<rparr>],
       ti_data = [1]\<rparr>"

definition conditionalTokenMint :: "'a web3 \<Rightarrow> 'a \<Rightarrow> int \<Rightarrow> 'a res" where
  "conditionalTokenMint W vault index = rmap pda_address (fut_conditionalTokenMint W (Addr vault) index)"

definition ata_of :: "'a web3 \<Rightarrow> 'a \<Rightarrow> 'a \<Rightarrow> 'a res" where
  "ata_of W owner mint = rmap pda_address (associatedTokenAccount W (Addr owner) (Addr mint))"

section \<open>Composition (challengeCompose.ts)\<close>

record 'a compose_step =
  cps_id :: string
  cps_label :: string
  cps_ixs :: "'a tx_instruction list"
  cps_computeUnits :: nat

record 'a composed_market =
  cmk_oracle :: 'a
  cmk_question :: 'a
  cmk_kassVault :: 'a
  cmk_usdcVault :: 'a
  cmk_kassVaultUnderlying :: 'a
  cmk_usdcVaultUnderlying :: 'a
  cmk_passKassMint :: 'a
  cmk_failKassMint :: 'a
  cmk_passUsdcMint :: 'a
  cmk_failUsdcMint :: 'a
  cmk_passAmm :: 'a
  cmk_failAmm :: 'a
  cmk_oraclePassKass :: 'a
  cmk_oracleFailKass :: 'a
  cmk_challengerUsdcSrc :: 'a

record 'a build_compose_args =
  bcm_oracleNonce :: "num_input option"
  bcm_proposer :: "'a address_input"
  bcm_challenger :: "'a address_input"
  bcm_kassMint :: "'a address_input"
  bcm_usdcMint :: "'a address_input"
  bcm_kassDao :: "'a address_input"
  bcm_questionId :: "bytes option"
  bcm_baseReserve :: "num_input option"
  bcm_quoteReserve :: "num_input option"
  bcm_programId :: "'a option"

text \<open>The checks before the derivations: nonce, question id and the two reserves.\<close>

definition compose_nonce :: "num_input option \<Rightarrow> int res" where
  "compose_nonce oracleNonce =
     rbind (case oracleNonce of None \<Rightarrow> Inr (- 1) | Some n \<Rightarrow> truncToBigInt n) (\<lambda>nonce.
       if nonce < 0 then Inl (ValidationErr ''oracleNonce'') else Inr nonce)"

definition compose_question_id :: "bytes option \<Rightarrow> bytes res" where
  "compose_question_id questionId =
     (let q = (case questionId of None \<Rightarrow> DEFAULT_QUESTION_ID | Some q \<Rightarrow> q) in
      if length q \<noteq> 32 then Inl (ValidationErr ''questionId'') else Inr q)"

definition reserve_or :: "string \<Rightarrow> int \<Rightarrow> num_input option \<Rightarrow> int res" where
  "reserve_or fld dflt v = toBig fld (case v of None \<Rightarrow> NBig dflt | Some n \<Rightarrow> n)"

text \<open>The derivation of the accounts of the market.\<close>

definition compose_accounts ::
  "'a web3 \<Rightarrow> int \<Rightarrow> bytes \<Rightarrow> 'a \<Rightarrow> 'a \<Rightarrow> 'a \<Rightarrow> 'a option \<Rightarrow> 'a composed_market res" where
  "compose_accounts W nonce questionId challenger kassMint usdcMint programId =
     rbind (pda_oracle W nonce programId) (\<lambda>oracle_pda. let oracle' = pda_address oracle_pda in
     rbind (fut_question W questionId (Addr oracle') 2) (\<lambda>q. let question = pda_address q in
     rbind (fut_conditionalVault W (Addr question) (Addr kassMint)) (\<lambda>kv. let kassVault = pda_address kv in
     rbind (fut_conditionalVault W (Addr question) (Addr usdcMint)) (\<lambda>uv. let usdcVault = pda_address uv in
     rbind (conditionalTokenMint W kassVault 0) (\<lambda>passKassMint.
     rbind (conditionalTokenMint W kassVault 1) (\<lambda>failKassMint.
     rbind (conditionalTokenMint W usdcVault 0) (\<lambda>passUsdcMint.
     rbind (conditionalTokenMint W usdcVault 1) (\<lambda>failUsdcMint.
     rbind (ata_of W kassVault kassMint) (\<lambda>kassVaultUnderlying.
     rbind (ata_of W usdcVault usdcMint) (\<lambda>usdcVaultUnderlying.
     rbind (amm4_amm W (Addr passKassMint) (Addr passUsdcMint)) (\<lambda>passAmm.
     rbind (amm4_amm W (Addr failKassMint) (Addr failUsdcMint)) (\<lambda>failAmm.
     rbind (ata_of W oracle' passKassMint) (\<lambda>oraclePassKass.
     rbind (ata_of W oracle' failKassMint) (\<lambda>oracleFailKass.
     rbind (ata_of W challenger usdcMint) (\<lambda>challengerUsdcSrc.
     Inr \<lparr>cmk_oracle = oracle', cmk_question = question, cmk_kassVault = kassVault,
       cmk_usdcVault = usdcVault, cmk_kassVaultUnderlying = kassVaultUnderlying,
       cmk_usdcVaultUnderlying = usdcVaultUnderlying, cmk_passKassMint = passKassMint,
       cmk_failKassMint = failKassMint, cmk_passUsdcMint = passUsdcMint, cmk_failUsdcMint = failUsdcMint,
       cmk_passAmm = pda_address passAmm, cmk_failAmm = pda_address failAmm,
       cmk_oraclePassKass = oraclePassKass, cmk_oracleFailKass = oracleFailKass,
       cmk_challengerUsdcSrc = challengerUsdcSrc\<rparr>)))))))))))))))"

text \<open>Step 4: the token accounts, then the two splits.\<close>

definition fund_split_ixs ::
  "'a web3 \<Rightarrow> 'a composed_market \<Rightarrow> 'a \<Rightarrow> 'a \<Rightarrow> int \<Rightarrow> int \<Rightarrow> 'a tx_instruction list res" where
  "fund_split_ixs W c challenger kassMint baseReserve quoteReserve =
     rbind (ata_of W challenger kassMint) (\<lambda>challengerKass.
     rbind (ata_of W challenger (cmk_passKassMint c)) (\<lambda>challengerPassKass.
     rbind (ata_of W challenger (cmk_failKassMint c)) (\<lambda>challengerFailKass.
     rbind (ata_of W challenger (cmk_passUsdcMint c)) (\<lambda>challengerPassUsdc.
     rbind (ata_of W challenger (cmk_failUsdcMint c)) (\<lambda>challengerFailUsdc.
     rbind (fut_splitTokens W \<lparr>fw_question = Addr (cmk_question c), fw_vault = Addr (cmk_kassVault c),
       fw_vaultUnderlying = Addr (cmk_kassVaultUnderlying c), fw_authority = Addr challenger,
       fw_userUnderlying = Addr challengerKass,
       fw_conditionalMints = [Addr (cmk_passKassMint c), Addr (cmk_failKassMint c)],
       fw_userConditionalAccounts = [Addr challengerPassKass, Addr challengerFailKass]\<rparr> baseReserve) (\<lambda>splitKass.
     rbind (fut_splitTokens W \<lparr>fw_question = Addr (cmk_question c), fw_vault = Addr (cmk_usdcVault c),
       fw_vaultUnderlying = Addr (cmk_usdcVaultUnderlying c), fw_authority = Addr challenger,
       fw_userUnderlying = Addr (cmk_challengerUsdcSrc c),
       fw_conditionalMints = [Addr (cmk_passUsdcMint c), Addr (cmk_failUsdcMint c)],
       fw_userConditionalAccounts = [Addr challengerPassUsdc, Addr challengerFailUsdc]\<rparr> quoteReserve) (\<lambda>splitUsdc.
     Inr [compose_createAtaIdempotentIx W challenger (cmk_oraclePassKass c) (cmk_oracle c) (cmk_passKassMint c),
       compose_createAtaIdempotentIx W challenger (cmk_oracleFailKass c) (cmk_oracle c) (cmk_failKassMint c),
       compose_createAtaIdempotentIx W challenger challengerPassKass challenger (cmk_passKassMint c),
       compose_createAtaIdempotentIx W challenger challengerFailKass challenger (cmk_failKassMint c),
       compose_createAtaIdempotentIx W challenger challengerPassUsdc challenger (cmk_passUsdcMint c),
       compose_createAtaIdempotentIx W challenger challengerFailUsdc challenger (cmk_failUsdcMint c),
       splitKass, splitUsdc])))))))"

text \<open>Steps 5 and 6: a pool, the LP account and the deposit.\<close>

definition pool_ixs ::
  "'a web3 \<Rightarrow> 'a \<Rightarrow> 'a \<Rightarrow> 'a \<Rightarrow> 'a \<Rightarrow> 'a \<Rightarrow> int \<Rightarrow> int \<Rightarrow> int \<Rightarrow> 'a tx_instruction list res" where
  "pool_ixs W challenger lpMint challengerLp baseMint quoteMint initialObs baseReserve quoteReserve =
     rbind (amm4_createAmm W \<lparr>c4_payer = Addr challenger, c4_baseMint = Addr baseMint,
       c4_quoteMint = Addr quoteMint, c4_twapInitialObservation = initialObs,
       c4_twapMaxObservationChangePerUpdate = MAX_OBSERVATION_CHANGE,
       c4_twapStartDelaySlots = Some 0\<rparr>) (\<lambda>create.
     rbind (amm4_addLiquidity W \<lparr>l4_payer = Addr challenger, l4_baseMint = Addr baseMint,
       l4_quoteMint = Addr quoteMint, l4_quoteAmount = quoteReserve, l4_maxBaseAmount = baseReserve,
       l4_minLpTokens = Some 0\<rparr>) (\<lambda>add.
     Inr [create, compose_createAtaIdempotentIx W challenger challengerLp challenger lpMint, add]))"

definition buildComposeAndOpenChallengeIxs ::
  "'a web3 \<Rightarrow> 'a build_compose_args \<Rightarrow> ('a compose_step list \<times> 'a composed_market) res" where
  "buildComposeAndOpenChallengeIxs W a =
     rbind (compose_nonce (bcm_oracleNonce a)) (\<lambda>nonce.
     rbind (field_addr W ''challenger'' (bcm_challenger a)) (\<lambda>challenger.
     rbind (field_addr W ''kassMint'' (bcm_kassMint a)) (\<lambda>kassMint.
     rbind (field_addr W ''usdcMint'' (bcm_usdcMint a)) (\<lambda>usdcMint.
     rbind (compose_question_id (bcm_questionId a)) (\<lambda>questionId.
     rbind (reserve_or ''baseReserve'' DEFAULT_BASE_RESERVE (bcm_baseReserve a)) (\<lambda>baseReserve.
     rbind (reserve_or ''quoteReserve'' DEFAULT_QUOTE_RESERVE (bcm_quoteReserve a)) (\<lambda>quoteReserve.
     rbind (compose_accounts W nonce questionId challenger kassMint usdcMint (bcm_programId a)) (\<lambda>c.
     rbind (fut_initializeQuestion W \<lparr>fq_payer = Addr challenger, fq_questionId = questionId,
       fq_oracle = Addr (cmk_oracle c), fq_numOutcomes = 2\<rparr>) (\<lambda>questionIx.
     rbind (fut_initializeConditionalVault W \<lparr>fv_payer = Addr challenger, fv_question = Addr (cmk_question c),
       fv_underlyingMint = Addr kassMint, fv_numOutcomes = Some 2\<rparr>) (\<lambda>kassVaultIx.
     rbind (fut_initializeConditionalVault W \<lparr>fv_payer = Addr challenger, fv_question = Addr (cmk_question c),
       fv_underlyingMint = Addr usdcMint, fv_numOutcomes = Some 2\<rparr>) (\<lambda>usdcVaultIx.
     rbind (fund_split_ixs W c challenger kassMint baseReserve quoteReserve) (\<lambda>fundSplitIxs.
     rbind (twapInitialObservation baseReserve quoteReserve) (\<lambda>initialObs.
     rbind (amm4_lpMint W (Addr (cmk_passAmm c))) (\<lambda>passLp.
     rbind (amm4_lpMint W (Addr (cmk_failAmm c))) (\<lambda>failLp.
     rbind (ata_of W challenger (pda_address passLp)) (\<lambda>challengerPassLp.
     rbind (ata_of W challenger (pda_address failLp)) (\<lambda>challengerFailLp.
     rbind (pool_ixs W challenger (pda_address passLp) challengerPassLp (cmk_passKassMint c) (cmk_passUsdcMint c)
       initialObs baseReserve quoteReserve) (\<lambda>passPoolIxs.
     rbind (pool_ixs W challenger (pda_address failLp) challengerFailLp (cmk_failKassMint c) (cmk_failUsdcMint c)
       initialObs baseReserve quoteReserve) (\<lambda>failPoolIxs.
     rbind (fut_vaultEventAuthority W) (\<lambda>cvEventAuthority.
     rbind (buildOpenChallengeIxs W \<lparr>bch_oracleNonce = Some (NBig nonce), bch_proposer = bcm_proposer a,
       bch_challenger = Addr challenger, bch_question = Addr (cmk_question c),
       bch_kassVault = Addr (cmk_kassVault c), bch_usdcVault = Addr (cmk_usdcVault c),
       bch_passAmm = Addr (cmk_passAmm c), bch_failAmm = Addr (cmk_failAmm c),
       bch_kassVaultUnderlying = Addr (cmk_kassVaultUnderlying c),
       bch_passKassMint = Addr (cmk_passKassMint c), bch_failKassMint = Addr (cmk_failKassMint c),
       bch_oraclePassKass = Addr (cmk_oraclePassKass c), bch_oracleFailKass = Addr (cmk_oracleFailKass c),
       bch_cvEventAuthority = Addr (pda_address cvEventAuthority), bch_kassDao = bcm_kassDao a,
       bch_usdcMint = Addr usdcMint, bch_challengerUsdcSrc = Addr (cmk_challengerUsdcSrc c),
       bch_programId = bcm_programId a\<rparr>) (\<lambda>openIxs.
     Inr ([\<lparr>cps_id = ''question'', cps_label = ''Create question'', cps_ixs = [questionIx], cps_computeUnits = 400000\<rparr>,
        \<lparr>cps_id = ''kass-vault'', cps_label = ''Create KASS vault'', cps_ixs = [kassVaultIx], cps_computeUnits = 400000\<rparr>,
        \<lparr>cps_id = ''usdc-vault'', cps_label = ''Create USDC vault'', cps_ixs = [usdcVaultIx], cps_computeUnits = 400000\<rparr>,
        \<lparr>cps_id = ''fund-split'', cps_label = ''Fund + split conditional tokens'', cps_ixs = fundSplitIxs, cps_computeUnits = 600000\<rparr>,
        \<lparr>cps_id = ''pass-pool'', cps_label = ''Seed pass pool'', cps_ixs = passPoolIxs, cps_computeUnits = 1400000\<rparr>,
        \<lparr>cps_id = ''fail-pool'', cps_label = ''Seed fail pool'', cps_ixs = failPoolIxs, cps_computeUnits = 1400000\<rparr>,
        \<lparr>cps_id = ''open'', cps_label = ''Open challenge'', cps_ixs = openIxs, cps_computeUnits = 1400000\<rparr>], c))))))))))))))))))))))"

section \<open>Settling from the decoded accounts (challengeSettle.ts)\<close>

record 'a build_settle_args =
  bse_connected :: bool
  bse_oracleNonce :: num_input
  bse_market :: "'a market_account"
  bse_oracle :: "'a oracle_account"
  bse_proposerAuthority :: "'a address_input"
  bse_payer :: "'a address_input option"
  bse_programId :: "'a option"

text \<open>\<open>!args.proposerAuthority\<close> and \<open>args.payer\<close>: an empty string is falsy.\<close>

definition js_given :: "'a address_input \<Rightarrow> bool" where
  "js_given x \<longleftrightarrow> x \<noteq> B58 []"

definition buildSettleFromMarketIxs :: "'a web3 \<Rightarrow> 'a build_settle_args \<Rightarrow> 'a tx_instruction list res" where
  "buildSettleFromMarketIxs W a =
     (let market = bse_market a; oracle' = bse_oracle a in
      if mk_settled market then Inl (ValidationErr ''market'')
      else if \<not> js_given (bse_proposerAuthority a) then Inl (ValidationErr ''proposerAuthority'')
      else
     rbind (addr W (bse_proposerAuthority a)) (\<lambda>proposerAuthority.
     rbind (conditionalTokenMint W (mk_kassVault market) 0) (\<lambda>passKassMint.
     rbind (conditionalTokenMint W (mk_kassVault market) 1) (\<lambda>failKassMint.
     rbind (ata_of W (mk_kassVault market) (orc_kassMint oracle')) (\<lambda>kassVaultUnderlying.
     rbind (fut_vaultEventAuthority W) (\<lambda>cvEventAuthority.
     rbind (ata_of W proposerAuthority (orc_usdcMint oracle')) (\<lambda>proposerUsdc.
     rbind (ata_of W (mk_challenger market) (orc_usdcMint oracle')) (\<lambda>challengerUsdcDest.
     rbind (ata_of W (mk_challenger market) (orc_kassMint oracle')) (\<lambda>challengerKass.
     rbind (buildSettleChallengeIxs W \<lparr>bst_oracleNonce = Some (bse_oracleNonce a),
       bst_aiClaim = Addr (mk_aiClaim market), bst_proposer = Addr (mk_proposer market),
       bst_question = Addr (mk_question market), bst_passAmm = Addr (mk_passAmm market),
       bst_failAmm = Addr (mk_failAmm market), bst_cvEventAuthority = Addr (pda_address cvEventAuthority),
       bst_kassVault = Addr (mk_kassVault market), bst_kassVaultUnderlying = Addr kassVaultUnderlying,
       bst_passKassMint = Addr passKassMint, bst_failKassMint = Addr failKassMint,
       bst_oraclePassKass = Addr (mk_oraclePassKass market), bst_oracleFailKass = Addr (mk_oracleFailKass market),
       bst_proposerUsdc = Addr proposerUsdc, bst_challengerUsdcDest = Addr challengerUsdcDest,
       bst_challengerKass = Addr challengerKass, bst_programId = bse_programId a\<rparr>) (\<lambda>settleIxs.
     (case bse_payer a of
        Some p \<Rightarrow>
          if bse_connected a \<and> js_given p then
            rbind (addr W p) (\<lambda>payer.
            Inr ([settle_createAtaIdempotentIx W payer proposerUsdc proposerAuthority (orc_usdcMint oracle'),
              settle_createAtaIdempotentIx W payer challengerUsdcDest (mk_challenger market) (orc_usdcMint oracle'),
              settle_createAtaIdempotentIx W payer challengerKass (mk_challenger market) (orc_kassMint oracle')]
              @ settleIxs))
          else Inr settleIxs
      | None \<Rightarrow> Inr settleIxs)))))))))))"

section \<open>The program's account checks (open_challenge, settle_challenge)\<close>

text \<open>
  What the two processors read of foreign accounts: mint and owner of a token account, resolver
  and outcome count of a question, question, underlying mint and underlying account of a vault,
  and the mints of an AMM. \<open>effect\<close> is what the documentation of the foreign programs says an
  instruction of each kind leaves behind.
\<close>

record 'a ledger =
  ld_token :: "'a \<Rightarrow> ('a \<times> 'a) option"
  ld_question :: "'a \<Rightarrow> (bytes \<times> int) option"
  ld_vault :: "'a \<Rightarrow> ('a \<times> 'a \<times> 'a) option"
  ld_amm :: "'a \<Rightarrow> ('a \<times> 'a) option"

definition effect :: "'a web3 \<Rightarrow> 'a ledger \<Rightarrow> 'a tx_instruction \<Rightarrow> bool" where
  "effect W L t \<longleftrightarrow> (let k = key_addresses t; d = ti_data t in
     (ti_programId t = ATA_PROGRAM_ID W \<and> d = [1] \<longrightarrow> ld_token L (k ! 1) = Some (k ! 3, k ! 2)) \<and>
     (ti_programId t = conditionalVault_id W \<and> take 8 d = DISC_initializeQuestion \<longrightarrow>
       ld_question L (k ! 0) = Some (take 32 (drop 40 d), uint (d ! 72))) \<and>
     (ti_programId t = conditionalVault_id W \<and> d = DISC_initializeConditionalVault \<longrightarrow>
       ld_vault L (k ! 0) = Some (k ! 1, k ! 2, k ! 3)) \<and>
     (ti_programId t = ammV04_id W \<and> take 8 d = DISC_createAmm \<longrightarrow>
       ld_amm L (k ! 1) = Some (k ! 3, k ! 4)))"

definition amm_bound :: "'a web3 \<Rightarrow> 'a ledger \<Rightarrow> 'a \<Rightarrow> 'a \<Rightarrow> 'a \<Rightarrow> int \<Rightarrow> bool" where
  "amm_bound W L amm kassVault usdcVault i \<longleftrightarrow>
     (\<exists>b q. conditionalTokenMint W kassVault i = Inr b \<and> conditionalTokenMint W usdcVault i = Inr q
       \<and> ld_amm L amm = Some (b, q))"

definition open_checks :: "'a web3 \<Rightarrow> 'a ledger \<Rightarrow> 'a \<Rightarrow> 'a oracle_account \<Rightarrow> 'a list \<Rightarrow> bool" where
  "open_checks W L pid orc k \<longleftrightarrow>
     k ! 16 = conditionalVault_id W \<and> k ! 17 = TOKEN_PROGRAM_ID W \<and> k ! 18 = SYSTEM_PROGRAM_ID W \<and>
     k ! 10 = orc_stakeVault orc \<and>
     ld_question L (k ! 5) = Some (w3_bytes W (k ! 0), 2) \<and>
     ld_vault L (k ! 6) = Some (k ! 5, orc_kassMint orc, k ! 11) \<and>
     (\<exists>u. ld_vault L (k ! 7) = Some (k ! 5, orc_usdcMint orc, u)) \<and>
     conditionalTokenMint W (k ! 6) 0 = Inr (k ! 12) \<and> conditionalTokenMint W (k ! 6) 1 = Inr (k ! 13) \<and>
     amm_bound W L (k ! 8) (k ! 6) (k ! 7) 0 \<and> amm_bound W L (k ! 9) (k ! 6) (k ! 7) 1 \<and> k ! 8 \<noteq> k ! 9 \<and>
     ld_token L (k ! 14) = Some (k ! 12, k ! 0) \<and> ld_token L (k ! 15) = Some (k ! 13, k ! 0) \<and>
     rmap pda_address (pda_market W (Addr (k ! 1)) (Some pid)) = Inr (k ! 3) \<and>
     rmap pda_address (fut_vaultEventAuthority W) = Inr (k ! 19) \<and>
     k ! 22 = orc_usdcMint orc \<and>
     rmap pda_address (pda_challengeUsdcVault W (Addr (k ! 3)) (Some pid)) = Inr (k ! 24)"

text \<open>The fields of the \<open>Market\<close> that \<open>open_challenge\<close> writes from its account list.\<close>

definition open_market :: "'a list \<Rightarrow> int \<Rightarrow> int \<Rightarrow> int \<Rightarrow> 'a market_account" where
  "open_market k twap_end challenger_usdc bump =
     \<lparr>mk_accountType = AT_Market, mk_oracle = k ! 0, mk_aiClaim = k ! 1, mk_proposer = k ! 2,
      mk_challenger = k ! 4, mk_question = k ! 5, mk_kassVault = k ! 6, mk_usdcVault = k ! 7,
      mk_passAmm = k ! 8, mk_failAmm = k ! 9, mk_oraclePassKass = k ! 14, mk_oracleFailKass = k ! 15,
      mk_challengerUsdcVault = k ! 24, mk_twapEnd = twap_end, mk_challengerUsdc = challenger_usdc,
      mk_settled = False, mk_bump = bump\<rparr>"

definition settle_checks ::
  "'a web3 \<Rightarrow> 'a ledger \<Rightarrow> 'a oracle_account \<Rightarrow> 'a market_account \<Rightarrow> 'a \<Rightarrow> 'a list \<Rightarrow> bool" where
  "settle_checks W L orc m proposer_authority k \<longleftrightarrow>
     k ! 7 = conditionalVault_id W \<and> k ! 9 = TOKEN_PROGRAM_ID W \<and>
     mk_oracle m = k ! 0 \<and> \<not> mk_settled m \<and>
     k ! 2 = mk_aiClaim m \<and> k ! 3 = mk_proposer m \<and> k ! 4 = mk_question m \<and>
     k ! 5 = mk_passAmm m \<and> k ! 6 = mk_failAmm m \<and> k ! 5 \<noteq> k ! 6 \<and>
     amm_bound W L (k ! 5) (mk_kassVault m) (mk_usdcVault m) 0 \<and>
     amm_bound W L (k ! 6) (mk_kassVault m) (mk_usdcVault m) 1 \<and>
     k ! 10 = orc_stakeVault orc \<and> k ! 11 = mk_kassVault m \<and>
     conditionalTokenMint W (mk_kassVault m) 0 = Inr (k ! 13) \<and>
     conditionalTokenMint W (mk_kassVault m) 1 = Inr (k ! 14) \<and>
     k ! 15 = mk_oraclePassKass m \<and> k ! 16 = mk_oracleFailKass m \<and> k ! 17 = mk_challengerUsdcVault m \<and>
     (\<exists>q u. ld_vault L (k ! 11) = Some (q, u, k ! 12)) \<and>
     ld_token L (k ! 18) = Some (orc_usdcMint orc, proposer_authority) \<and>
     ld_token L (k ! 19) = Some (orc_usdcMint orc, mk_challenger m) \<and>
     ld_token L (k ! 20) = Some (orc_kassMint orc, mk_challenger m) \<and>
     rmap pda_address (fut_vaultEventAuthority W) = Inr (k ! 8)"

section \<open>Shapes\<close>

lemma ch_create_copies:
  "compose_createAtaIdempotentIx W = createAtaIdempotentInstruction W"
  "settle_createAtaIdempotentIx W = createAtaIdempotentInstruction W"
  by (intro ext; simp add: compose_createAtaIdempotentIx_def settle_createAtaIdempotentIx_def
      createAtaIdempotentInstruction_def w_def ro_def)+

lemma ata_of_md: "ata_of W u m = md_ata W (Addr u) (Addr m)"
  by (simp only: ata_of_def md_ata_oracle)

lemma mint_of_md: "conditionalTokenMint W v i = rmap pda_address (md_conditionalTokenMint W (Addr v) i)"
  by (simp add: conditionalTokenMint_def fut_pdas)

lemma create_ata_parts:
  "ti_programId (createAtaIdempotentInstruction W p x u m) = ATA_PROGRAM_ID W"
  "ti_data (createAtaIdempotentInstruction W p x u m) = [1]"
  "key_addresses (createAtaIdempotentInstruction W p x u m) = [p, x, u, m, SYSTEM_PROGRAM_ID W, TOKEN_PROGRAM_ID W]"
  "signers (createAtaIdempotentInstruction W p x u m) = [p]"
  by (simp_all add: createAtaIdempotentInstruction_def key_addresses_def signers_def w_def ro_def)

lemma create_effect:
  "effect W L (createAtaIdempotentInstruction W p x u m) \<longleftrightarrow> ld_token L x = Some (m, u)"
  by (simp add: effect_def Let_def create_ata_parts DISC_initializeQuestion_def
      DISC_initializeConditionalVault_def DISC_createAmm_def)

lemma split_effect: "ti_data t = DISC_splitTokens @ d \<Longrightarrow> length d = 8 \<Longrightarrow> effect W L t"
  by (auto simp: effect_def Let_def DISC_splitTokens_def DISC_initializeQuestion_def
      DISC_initializeConditionalVault_def DISC_createAmm_def)

lemma openChallenge_shape:
  assumes "buildOpenChallengeIxs W \<lparr>bch_oracleNonce = Some (NBig n), bch_proposer = prop, bch_challenger = Addr ch,
      bch_question = Addr q, bch_kassVault = Addr kv, bch_usdcVault = Addr uv, bch_passAmm = Addr pa,
      bch_failAmm = Addr fa, bch_kassVaultUnderlying = Addr kvu, bch_passKassMint = Addr pm,
      bch_failKassMint = Addr fm, bch_oraclePassKass = Addr opk, bch_oracleFailKass = Addr ofk,
      bch_cvEventAuthority = Addr ev, bch_kassDao = kd, bch_usdcMint = Addr um,
      bch_challengerUsdcSrc = Addr src, bch_programId = P\<rparr> = Inr ixs"
  shows "\<exists>t orc p cl mkt sv pr esc dao. ixs = [t] \<and> addr W prop = Inr p \<and> addr W kd = Inr dao
    \<and> pda_oracle W n P = Inr orc
    \<and> pda_aiClaim W (Addr (pda_address orc)) (Addr p) (Some (program_or W P)) = Inr cl
    \<and> pda_market W (Addr (pda_address cl)) (Some (program_or W P)) = Inr mkt
    \<and> pda_stakeVault W (Addr (pda_address orc)) (Some (program_or W P)) = Inr sv
    \<and> pda_challengeUsdcVault W (Addr (pda_address mkt)) (Some (program_or W P)) = Inr esc
    \<and> key_addresses t = [pda_address orc, pda_address cl, p, pda_address mkt, ch, q, kv, uv, pa, fa,
        pda_address sv, kvu, pm, fm, opk, ofk, conditionalVault_id W, TOKEN_PROGRAM_ID W,
        SYSTEM_PROGRAM_ID W, ev, pr, dao, um, src, pda_address esc]
    \<and> signers t = [ch] \<and> ti_programId t = program_or W P"
proof -
  have N: "requireNonce (Some (NBig n)) = Inr m \<longleftrightarrow> 0 \<le> n \<and> m = n" for m by (auto simp: requireNonce_def)
  show ?thesis using assms
    by (auto simp: buildOpenChallengeIxs_def openChallenge_def call_opens field_addr_iff pda_oracle_program
        signers_def key_addresses_def N w_def ro_def simp del: collect.simps)
qed

lemma settleChallenge_shape:
  assumes "buildSettleChallengeIxs W \<lparr>bst_oracleNonce = nn, bst_aiClaim = Addr cl, bst_proposer = Addr p,
      bst_question = Addr q, bst_passAmm = Addr pa, bst_failAmm = Addr fa, bst_cvEventAuthority = Addr ev,
      bst_kassVault = Addr kv, bst_kassVaultUnderlying = Addr kvu, bst_passKassMint = Addr pm,
      bst_failKassMint = Addr fm, bst_oraclePassKass = Addr opk, bst_oracleFailKass = Addr ofk,
      bst_proposerUsdc = Addr pu, bst_challengerUsdcDest = Addr cd, bst_challengerKass = Addr ck,
      bst_programId = P\<rparr> = Inr ixs"
  shows "\<exists>t n orc mkt sv esc. ixs = [t] \<and> requireNonce nn = Inr n \<and> pda_oracle W n P = Inr orc
    \<and> pda_market W (Addr cl) (Some (program_or W P)) = Inr mkt
    \<and> pda_stakeVault W (Addr (pda_address orc)) (Some (program_or W P)) = Inr sv
    \<and> pda_challengeUsdcVault W (Addr (pda_address mkt)) (Some (program_or W P)) = Inr esc
    \<and> key_addresses t = [pda_address orc, pda_address mkt, cl, p, q, pa, fa, conditionalVault_id W, ev,
        TOKEN_PROGRAM_ID W, pda_address sv, kv, kvu, pm, fm, opk, ofk, pda_address esc, pu, cd, ck]
    \<and> signers t = [] \<and> ti_programId t = program_or W P"
  using assms
  by (auto simp: buildSettleChallengeIxs_def settleChallenge_def call_opens field_addr_iff pda_oracle_program
      signers_def key_addresses_def w_def ro_def simp del: collect.simps)

lemma foreign_wire:
  "initializeQuestion W q = Inr t \<Longrightarrow> ti_programId t = conditionalVault_id W"
  "initializeConditionalVault W v = Inr t \<Longrightarrow>
    ti_programId t = conditionalVault_id W \<and> ti_data t = DISC_initializeConditionalVault"
  "createAmm W c = Inr t \<Longrightarrow> ti_programId t = ammV04_id W \<and>
    ti_data t = DISC_createAmm @ u128LE (cra_twapInitialObservation c)
      @ u128LE (cra_twapMaxObservationChangePerUpdate c) @ u64LE (or_zero (cra_twapStartDelaySlots c))"
  "ammAddLiquidity W l = Inr t \<Longrightarrow> ti_programId t = ammV04_id W \<and>
    ti_data t = DISC_addLiquidity @ u64LE (ala_quoteAmount l) @ u64LE (ala_maxBaseAmount l)
      @ u64LE (or_zero (ala_minLpTokens l))"
  by (clarsimp simp: initializeQuestion_def initializeConditionalVault_def createAmm_def ammAddLiquidity_def
      flow_opens)+

lemma split_wire:
  assumes "splitTokens W (to_interact \<lparr>fw_question = Addr q, fw_vault = Addr v, fw_vaultUnderlying = Addr vu,
      fw_authority = Addr u, fw_userUnderlying = Addr uu, fw_conditionalMints = [Addr m0, Addr m1],
      fw_userConditionalAccounts = [Addr a0, Addr a1]\<rparr>) n = Inr t"
  shows "ti_data t = DISC_splitTokens @ u64LE n \<and> signers t = [u] \<and> key_addresses t ! 0 = q
    \<and> key_addresses t ! 1 = v \<and> key_addresses t ! 2 = vu \<and> drop 8 (key_addresses t) = [m0, m1, a0, a1]"
  using assms
  by (clarsimp simp: splitTokens_def interactWithVault_def to_interact_def flow_opens signers_def key_addresses_def)

lemma deposit_wire:
  assumes "ammAddLiquidity W (to_addLiquidity \<lparr>l4_payer = Addr u, l4_baseMint = Addr b, l4_quoteMint = Addr q,
      l4_quoteAmount = x, l4_maxBaseAmount = y, l4_minLpTokens = Some 0\<rparr>) = Inr t"
  shows "\<exists>m l lp ub uq. md_amm W (Addr b) (Addr q) = Inr m \<and> md_ammLpMint W (Addr (pda_address m)) = Inr l
    \<and> md_ata W (Addr u) (Addr (pda_address l)) = Inr lp \<and> md_ata W (Addr u) (Addr b) = Inr ub
    \<and> md_ata W (Addr u) (Addr q) = Inr uq \<and> signers t = [u]
    \<and> take 6 (key_addresses t) = [u, pda_address m, pda_address l, lp, ub, uq]
    \<and> ti_data t = DISC_addLiquidity @ u64LE x @ u64LE y @ u64LE 0"
  using assms
  by (clarsimp simp: ammAddLiquidity_def to_addLiquidity_def flow_opens signers_def key_addresses_def or_zero_def)

lemma compose_accounts_D:
  assumes "compose_accounts W n qid ch km um P = Inr c"
  shows "\<exists>o1 q kv uv pa fa. pda_oracle W n P = Inr o1 \<and> cmk_oracle c = pda_address o1
    \<and> md_question W qid (Addr (cmk_oracle c)) 2 = Inr q \<and> cmk_question c = pda_address q
    \<and> md_conditionalVault W (Addr (cmk_question c)) (Addr km) = Inr kv \<and> cmk_kassVault c = pda_address kv
    \<and> md_conditionalVault W (Addr (cmk_question c)) (Addr um) = Inr uv \<and> cmk_usdcVault c = pda_address uv
    \<and> conditionalTokenMint W (cmk_kassVault c) 0 = Inr (cmk_passKassMint c)
    \<and> conditionalTokenMint W (cmk_kassVault c) 1 = Inr (cmk_failKassMint c)
    \<and> conditionalTokenMint W (cmk_usdcVault c) 0 = Inr (cmk_passUsdcMint c)
    \<and> conditionalTokenMint W (cmk_usdcVault c) 1 = Inr (cmk_failUsdcMint c)
    \<and> md_ata W (Addr (cmk_kassVault c)) (Addr km) = Inr (cmk_kassVaultUnderlying c)
    \<and> md_ata W (Addr (cmk_usdcVault c)) (Addr um) = Inr (cmk_usdcVaultUnderlying c)
    \<and> md_amm W (Addr (cmk_passKassMint c)) (Addr (cmk_passUsdcMint c)) = Inr pa \<and> cmk_passAmm c = pda_address pa
    \<and> md_amm W (Addr (cmk_failKassMint c)) (Addr (cmk_failUsdcMint c)) = Inr fa \<and> cmk_failAmm c = pda_address fa
    \<and> md_ata W (Addr (cmk_oracle c)) (Addr (cmk_passKassMint c)) = Inr (cmk_oraclePassKass c)
    \<and> md_ata W (Addr (cmk_oracle c)) (Addr (cmk_failKassMint c)) = Inr (cmk_oracleFailKass c)
    \<and> md_ata W (Addr ch) (Addr um) = Inr (cmk_challengerUsdcSrc c)"
  using assms by (auto simp: compose_accounts_def Let_def rbind_Inr_iff ata_of_md fut_pdas)

text \<open>Everything a successful composition consists of.\<close>

definition open_args ::
  "'a build_compose_args \<Rightarrow> int \<Rightarrow> 'a \<Rightarrow> 'a \<Rightarrow> 'a composed_market \<Rightarrow> 'a \<Rightarrow> 'a build_open_challenge_args" where
  "open_args a n ch um c ev = \<lparr>bch_oracleNonce = Some (NBig n), bch_proposer = bcm_proposer a,
       bch_challenger = Addr ch, bch_question = Addr (cmk_question c),
       bch_kassVault = Addr (cmk_kassVault c), bch_usdcVault = Addr (cmk_usdcVault c),
       bch_passAmm = Addr (cmk_passAmm c), bch_failAmm = Addr (cmk_failAmm c),
       bch_kassVaultUnderlying = Addr (cmk_kassVaultUnderlying c),
       bch_passKassMint = Addr (cmk_passKassMint c), bch_failKassMint = Addr (cmk_failKassMint c),
       bch_oraclePassKass = Addr (cmk_oraclePassKass c), bch_oracleFailKass = Addr (cmk_oracleFailKass c),
       bch_cvEventAuthority = Addr ev, bch_kassDao = bcm_kassDao a,
       bch_usdcMint = Addr um, bch_challengerUsdcSrc = Addr (cmk_challengerUsdcSrc c),
       bch_programId = bcm_programId a\<rparr>"

definition composed_by ::
  "'a web3 \<Rightarrow> 'a build_compose_args \<Rightarrow> 'a compose_step list \<Rightarrow> 'a composed_market \<Rightarrow> int \<Rightarrow> 'a \<Rightarrow> 'a \<Rightarrow> 'a
    \<Rightarrow> bytes \<Rightarrow> int \<Rightarrow> int \<Rightarrow> 'a tx_instruction \<Rightarrow> 'a tx_instruction \<Rightarrow> 'a tx_instruction \<Rightarrow> 'a tx_instruction list
    \<Rightarrow> int \<Rightarrow> 'a pda \<Rightarrow> 'a pda \<Rightarrow> 'a \<Rightarrow> 'a \<Rightarrow> 'a tx_instruction list \<Rightarrow> 'a tx_instruction list \<Rightarrow> 'a pda
    \<Rightarrow> 'a tx_instruction list \<Rightarrow> bool" where
  "composed_by W a steps c n ch km um qid br qr qix kix uix fs obs passLp failLp pl fl' pp fp ev oix \<longleftrightarrow>
     compose_nonce (bcm_oracleNonce a) = Inr n
     \<and> addr W (bcm_challenger a) = Inr ch
     \<and> addr W (bcm_kassMint a) = Inr km
     \<and> addr W (bcm_usdcMint a) = Inr um
     \<and> compose_question_id (bcm_questionId a) = Inr qid
     \<and> reserve_or ''baseReserve'' DEFAULT_BASE_RESERVE (bcm_baseReserve a) = Inr br
     \<and> reserve_or ''quoteReserve'' DEFAULT_QUOTE_RESERVE (bcm_quoteReserve a) = Inr qr
     \<and> compose_accounts W n qid ch km um (bcm_programId a) = Inr c
     \<and> initializeQuestion W \<lparr>iqa_payer = Addr ch, iqa_questionId = qid, iqa_oracle = Addr (cmk_oracle c),
       iqa_numOutcomes = 2\<rparr> = Inr qix
     \<and> initializeConditionalVault W \<lparr>iva_payer = Addr ch, iva_question = Addr (cmk_question c),
       iva_underlyingMint = Addr km, iva_numOutcomes = Some 2\<rparr> = Inr kix
     \<and> initializeConditionalVault W \<lparr>iva_payer = Addr ch, iva_question = Addr (cmk_question c),
       iva_underlyingMint = Addr um, iva_numOutcomes = Some 2\<rparr> = Inr uix
     \<and> fund_split_ixs W c ch km br qr = Inr fs
     \<and> twapInitialObservation br qr = Inr obs
     \<and> md_ammLpMint W (Addr (cmk_passAmm c)) = Inr passLp
     \<and> md_ammLpMint W (Addr (cmk_failAmm c)) = Inr failLp
     \<and> pool_ixs W ch (pda_address passLp) pl (cmk_passKassMint c) (cmk_passUsdcMint c) obs br qr = Inr pp
     \<and> pool_ixs W ch (pda_address failLp) fl' (cmk_failKassMint c) (cmk_failUsdcMint c) obs br qr = Inr fp
     \<and> md_ata W (Addr ch) (Addr (pda_address passLp)) = Inr pl
     \<and> md_ata W (Addr ch) (Addr (pda_address failLp)) = Inr fl'
     \<and> md_vaultEventAuthority W = Inr ev
     \<and> buildOpenChallengeIxs W (open_args a n ch um c (pda_address ev)) = Inr oix
     \<and> map cps_ixs steps = [[qix], [kix], [uix], fs, pp, fp, oix]"

lemma compose_cases:
  assumes "buildComposeAndOpenChallengeIxs W a = Inr (steps, c)"
  obtains n ch km um qid br qr qix kix uix fs obs passLp failLp pl fl' pp fp ev oix where "composed_by W a steps c n ch km um qid br qr qix kix uix fs obs passLp failLp pl fl' pp fp ev oix"
  using assms
  unfolding buildComposeAndOpenChallengeIxs_def rbind_Inr_iff field_addr_iff fut_builders_md fut_pdas ata_of_md
    to_question_def to_vault_def fut_initializeQuestion_args.simps fut_initializeConditionalVault_args.simps
    composed_by_def open_args_def
  by clarsimp

lemma reserve_pos: "reserve_or f d v = Inr r \<Longrightarrow> 0 < r"
  by (auto simp: reserve_or_def toBig_def requirePositive_def rbind_Inr_iff split: option.splits if_splits)

lemma compose_question_id_length: "compose_question_id q = Inr qid \<Longrightarrow> length qid = 32"
  by (auto simp: compose_question_id_def Let_def split: if_splits)

lemma question_wire:
  assumes "web3_ok W" "initializeQuestion W \<lparr>iqa_payer = Addr p, iqa_questionId = qid, iqa_oracle = Addr o1,
      iqa_numOutcomes = 2\<rparr> = Inr t" "length qid = 32"
  shows "\<exists>q. md_question W qid (Addr o1) 2 = Inr q \<and> key_addresses t ! 0 = pda_address q \<and> signers t = [p]
    \<and> (effect W L t \<longleftrightarrow> ld_question L (pda_address q) = Some (w3_bytes W o1, 2))"
proof -
  have sh: "\<exists>q. md_question W qid (Addr o1) 2 = Inr q \<and> key_addresses t ! 0 = pda_address q \<and> signers t = [p]
    \<and> ti_data t = DISC_initializeQuestion @ qid @ w3_bytes W o1 @ u8 2"
    using initializeQuestion_shape [OF assms(2)] by (auto simp: addr_Addr_iff)
  then have d: "ti_data t = DISC_initializeQuestion @ qid @ w3_bytes W o1 @ u8 2" by auto
  have "length (DISC_initializeQuestion @ qid @ w3_bytes W o1) = 72"
    using assms(3) web3_ok_D(1) [OF assms(1)] by simp
  then have "ti_data t ! 72 = (u8 2 :: bytes) ! 0" unfolding d by (metis append_assoc diff_self_eq_0 less_irrefl nth_append)
  moreover have "take 8 (ti_data t) = DISC_initializeQuestion" "take 32 (drop 40 (ti_data t)) = w3_bytes W o1"
    unfolding d using assms(3) web3_ok_D(1) [OF assms(1)] by simp_all
  moreover have "d' \<noteq> [1] \<and> d' \<noteq> DISC_initializeConditionalVault" if "length d' = 73" for d' :: bytes
    using that by (auto simp: DISC_initializeConditionalVault_def)
  moreover have "length (ti_data t) = 73" unfolding d using assms(3) web3_ok_D(1) [OF assms(1)] by (simp add: u8_def)
  moreover have "DISC_initializeQuestion \<noteq> DISC_createAmm"
    by (simp add: DISC_initializeQuestion_def DISC_createAmm_def)
  ultimately show ?thesis using sh foreign_wire(1) [OF assms(2)] by (auto simp: effect_def Let_def u8_def)
qed

lemma vault_wire:
  assumes "initializeConditionalVault W \<lparr>iva_payer = Addr p, iva_question = Addr q,
       iva_underlyingMint = Addr m, iva_numOutcomes = Some 2\<rparr> = Inr t"
  shows "\<exists>v u. md_conditionalVault W (Addr q) (Addr m) = Inr v \<and> md_ata W (Addr (pda_address v)) (Addr m) = Inr u
    \<and> take 4 (key_addresses t) = [pda_address v, q, m, u] \<and> signers t = [p]
    \<and> conditionalTokenMint W (pda_address v) 0 = Inr (key_addresses t ! 10)
    \<and> conditionalTokenMint W (pda_address v) 1 = Inr (key_addresses t ! 11)
    \<and> (effect W L t \<longleftrightarrow> ld_vault L (pda_address v) = Some (q, m, u))"
proof -
  have "DISC_initializeConditionalVault \<noteq> [1]" "take 8 DISC_initializeConditionalVault \<noteq> DISC_initializeQuestion"
    "take 8 DISC_initializeConditionalVault \<noteq> DISC_createAmm"
    by (simp_all add: DISC_initializeConditionalVault_def DISC_initializeQuestion_def DISC_createAmm_def)
  then show ?thesis using initializeConditionalVault_shape [OF assms] foreign_wire(2) [OF assms]
    by (auto simp: addr_Addr_iff effect_def Let_def mint_of_md)
qed

lemma pool_wire:
  assumes "pool_ixs W u lp lpa b q obs br qr = Inr ixs"
  shows "\<exists>create add m. ixs = [create, createAtaIdempotentInstruction W u lpa u lp, add]
    \<and> md_amm W (Addr b) (Addr q) = Inr m \<and> key_addresses create ! 1 = pda_address m
    \<and> key_addresses create ! 3 = b \<and> key_addresses create ! 4 = q
    \<and> signers create = [u] \<and> signers add = [u]
    \<and> ti_data create = DISC_createAmm @ u128LE obs @ u128LE MAX_OBSERVATION_CHANGE @ u64LE 0
    \<and> ammAddLiquidity W (to_addLiquidity \<lparr>l4_payer = Addr u, l4_baseMint = Addr b, l4_quoteMint = Addr q,
      l4_quoteAmount = qr, l4_maxBaseAmount = br, l4_minLpTokens = Some 0\<rparr>) = Inr add
    \<and> (effect W L create \<longleftrightarrow> ld_amm L (pda_address m) = Some (b, q)) \<and> effect W L add"
proof -
  obtain create add where c: "createAmm W (to_createAmm \<lparr>c4_payer = Addr u, c4_baseMint = Addr b,
       c4_quoteMint = Addr q, c4_twapInitialObservation = obs,
       c4_twapMaxObservationChangePerUpdate = MAX_OBSERVATION_CHANGE,
       c4_twapStartDelaySlots = Some 0\<rparr>) = Inr create"
    and a: "ammAddLiquidity W (to_addLiquidity \<lparr>l4_payer = Addr u, l4_baseMint = Addr b, l4_quoteMint = Addr q,
      l4_quoteAmount = qr, l4_maxBaseAmount = br, l4_minLpTokens = Some 0\<rparr>) = Inr add"
    and i: "ixs = [create, createAtaIdempotentInstruction W u lpa u lp, add]"
    using assms unfolding pool_ixs_def fut_builders_md ch_create_copies rbind_Inr_iff by auto
  have dt: "ti_data create = DISC_createAmm @ u128LE obs @ u128LE MAX_OBSERVATION_CHANGE @ u64LE 0"
    "ti_data add = DISC_addLiquidity @ u64LE qr @ u64LE br @ u64LE 0"
    using foreign_wire(3) [OF c] deposit_wire [OF a] by (auto simp: to_createAmm_def or_zero_def)
  have "\<not> (ti_data x = [1]) \<and> \<not> (take 8 (ti_data x) = DISC_initializeQuestion) \<and> ti_data x \<noteq> DISC_initializeConditionalVault"
    if "x = create \<or> x = add" for x
    using that dt by (auto simp: DISC_createAmm_def DISC_initializeQuestion_def
        DISC_addLiquidity_def DISC_initializeConditionalVault_def)
  moreover have "take 8 (ti_data add) \<noteq> DISC_createAmm" "DISC_createAmm \<noteq> DISC_initializeQuestion"
    using dt by (simp_all add: DISC_createAmm_def DISC_addLiquidity_def DISC_initializeQuestion_def)
  ultimately show ?thesis
    using createAmm_shape [OF c] foreign_wire(3) [OF c] deposit_wire [OF a] i a dt(1)
    by (auto simp: to_createAmm_def addr_Addr_iff effect_def Let_def)
qed

lemma fund_split_wire:
  assumes "fund_split_ixs W c u km br qr = Inr fs"
  shows "\<exists>uk upk ufk upu ufu sk su. md_ata W (Addr u) (Addr km) = Inr uk
    \<and> md_ata W (Addr u) (Addr (cmk_passKassMint c)) = Inr upk \<and> md_ata W (Addr u) (Addr (cmk_failKassMint c)) = Inr ufk
    \<and> md_ata W (Addr u) (Addr (cmk_passUsdcMint c)) = Inr upu \<and> md_ata W (Addr u) (Addr (cmk_failUsdcMint c)) = Inr ufu
    \<and> fs = map (\<lambda>(x, y, m). createAtaIdempotentInstruction W u x y m)
        [(cmk_oraclePassKass c, cmk_oracle c, cmk_passKassMint c), (cmk_oracleFailKass c, cmk_oracle c, cmk_failKassMint c),
         (upk, u, cmk_passKassMint c), (ufk, u, cmk_failKassMint c), (upu, u, cmk_passUsdcMint c), (ufu, u, cmk_failUsdcMint c)]
      @ [sk, su]
    \<and> ti_data sk = DISC_splitTokens @ u64LE br \<and> signers sk = [u]
    \<and> take 3 (key_addresses sk) = [cmk_question c, cmk_kassVault c, cmk_kassVaultUnderlying c]
    \<and> drop 8 (key_addresses sk) = [cmk_passKassMint c, cmk_failKassMint c, upk, ufk]
    \<and> ti_data su = DISC_splitTokens @ u64LE qr \<and> signers su = [u]
    \<and> take 3 (key_addresses su) = [cmk_question c, cmk_usdcVault c, cmk_usdcVaultUnderlying c]
    \<and> drop 8 (key_addresses su) = [cmk_passUsdcMint c, cmk_failUsdcMint c, upu, ufu]"
  using assms
  by (clarsimp simp: fund_split_ixs_def ch_create_copies ata_of_md fut_builders_md splitTokens_def
      interactWithVault_def to_interact_def flow_opens signers_def key_addresses_def)

lemma composition_passes_checks:
  fixes W :: "'a web3"
  assumes "buildComposeAndOpenChallengeIxs W a = Inr (steps, c)" "web3_ok W"
    and "\<forall>s\<in>set (butlast steps). \<forall>t\<in>set (cps_ixs s). effect W L t"
    and "addr W (bcm_kassMint a) = Inr (orc_kassMint orc)" "addr W (bcm_usdcMint a) = Inr (orc_usdcMint orc)"
    and "rmap pda_address (pda_stakeVault W (Addr (cmk_oracle c)) (bcm_programId a)) = Inr (orc_stakeVault orc)"
    and "cmk_passKassMint c \<noteq> cmk_failKassMint c"
  shows "\<exists>t ch. cps_ixs (last steps) = [t] \<and> length steps = 7 \<and> addr W (bcm_challenger a) = Inr ch
    \<and> open_checks W L (program_or W (bcm_programId a)) orc (key_addresses t)
    \<and> key_addresses t ! 0 = cmk_oracle c \<and> key_addresses t ! 4 = ch
    \<and> (\<forall>s\<in>set steps. \<forall>x\<in>set (cps_ixs s). signers x = [ch])"
proof -
  obtain n ch km um qid br qr qix kix uix fs obs passLp failLp pl fl' pp fp ev oix where
    C: "composed_by W a steps c n ch km um qid br qr qix kix uix fs obs passLp failLp pl fl' pp fp ev oix"
    by (rule compose_cases [OF assms(1)])
  note C' = C [unfolded composed_by_def]
  have st: "map cps_ixs steps = [[qix], [kix], [uix], fs, pp, fp, oix]" using C' by blast
  have acc: "compose_accounts W n qid ch km um (bcm_programId a) = Inr c" using C' by blast
  note D = compose_accounts_D [OF acc]
  have "concat (map cps_ixs (butlast steps)) = [qix, kix, uix] @ fs @ pp @ fp"
    unfolding map_butlast st by simp
  then have set: "set ([qix, kix, uix] @ fs @ pp @ fp) = (\<Union>s\<in>set (butlast steps). set (cps_ixs s))"
    using set_concat [of "map cps_ixs (butlast steps)"] by (simp only: set_map image_image)
  have all: "\<forall>t\<in>set ([qix, kix, uix] @ fs @ pp @ fp). effect W L t"
    unfolding set using assms(3) by blast
  have q: "initializeQuestion W \<lparr>iqa_payer = Addr ch, iqa_questionId = qid, iqa_oracle = Addr (cmk_oracle c),
       iqa_numOutcomes = 2\<rparr> = Inr qix" "length qid = 32"
    and k: "initializeConditionalVault W \<lparr>iva_payer = Addr ch, iva_question = Addr (cmk_question c),
       iva_underlyingMint = Addr km, iva_numOutcomes = Some 2\<rparr> = Inr kix"
    and u: "initializeConditionalVault W \<lparr>iva_payer = Addr ch, iva_question = Addr (cmk_question c),
       iva_underlyingMint = Addr um, iva_numOutcomes = Some 2\<rparr> = Inr uix"
    and ad: "addr W (bcm_challenger a) = Inr ch" "km = orc_kassMint orc" "um = orc_usdcMint orc"
    and fs: "fund_split_ixs W c ch km br qr = Inr fs"
    and pp: "pool_ixs W ch (pda_address passLp) pl (cmk_passKassMint c) (cmk_passUsdcMint c) obs br qr = Inr pp"
    and fp: "pool_ixs W ch (pda_address failLp) fl' (cmk_failKassMint c) (cmk_failUsdcMint c) obs br qr = Inr fp"
    and ev: "md_vaultEventAuthority W = Inr ev"
    using C' assms(4,5) compose_question_id_length by auto
  have Q: "ld_question L (cmk_question c) = Some (w3_bytes W (cmk_oracle c), 2)" "signers qix = [ch]"
    using question_wire [OF assms(2) q, where L = L] D all by auto
  have V: "ld_vault L (cmk_kassVault c) = Some (cmk_question c, km, cmk_kassVaultUnderlying c)"
    "ld_vault L (cmk_usdcVault c) = Some (cmk_question c, um, cmk_usdcVaultUnderlying c)"
    "signers kix = [ch]" "signers uix = [ch]"
    using vault_wire [OF k, where L = L] vault_wire [OF u, where L = L] D all by auto
  have A: "ld_amm L (cmk_passAmm c) = Some (cmk_passKassMint c, cmk_passUsdcMint c)"
    "ld_amm L (cmk_failAmm c) = Some (cmk_failKassMint c, cmk_failUsdcMint c)"
    "\<forall>x\<in>set (pp @ fp). signers x = [ch]"
    using pool_wire [OF pp, where L = L] pool_wire [OF fp, where L = L] D all by (auto simp: create_ata_parts)
  have T: "ld_token L (cmk_oraclePassKass c) = Some (cmk_passKassMint c, cmk_oracle c)"
    "ld_token L (cmk_oracleFailKass c) = Some (cmk_failKassMint c, cmk_oracle c)"
    "\<forall>x\<in>set fs. signers x = [ch]"
    using fund_split_wire [OF fs] all by (auto simp: create_ata_parts create_effect)
  have oix: "buildOpenChallengeIxs W (open_args a n ch um c (pda_address ev)) = Inr oix" using C' by blast
  obtain t o1 p mkt sv pr esc dao and cl :: "'a pda" where O: "oix = [t]" "pda_oracle W n (bcm_programId a) = Inr o1"
    "pda_market W (Addr (pda_address cl)) (Some (program_or W (bcm_programId a))) = Inr mkt"
    "pda_stakeVault W (Addr (pda_address o1)) (Some (program_or W (bcm_programId a))) = Inr sv"
    "pda_challengeUsdcVault W (Addr (pda_address mkt)) (Some (program_or W (bcm_programId a))) = Inr esc"
    "signers t = [ch]"
    and kt: "key_addresses t = [pda_address o1, pda_address cl, p, pda_address mkt, ch, cmk_question c, cmk_kassVault c,
        cmk_usdcVault c, cmk_passAmm c, cmk_failAmm c, pda_address sv, cmk_kassVaultUnderlying c, cmk_passKassMint c,
        cmk_failKassMint c, cmk_oraclePassKass c, cmk_oracleFailKass c, conditionalVault_id W, TOKEN_PROGRAM_ID W,
        SYSTEM_PROGRAM_ID W, pda_address ev, pr, dao, um, cmk_challengerUsdcSrc c, pda_address esc]"
    using openChallenge_shape [OF oix [unfolded open_args_def]] by (elim exE conjE) (rule that)
  have o1: "cmk_oracle c = pda_address o1" using D O(2) by auto
  have sv: "orc_stakeVault orc = pda_address sv"
    using assms(6) O(4) o1 by (simp add: pda_stakeVault_def derive_def program_or_def rbind_Inr_iff split: option.splits)
  have ne: "cmk_passAmm c \<noteq> cmk_failAmm c"
    using A(1,2) assms(7) by auto
  have "open_checks W L (program_or W (bcm_programId a)) orc (key_addresses t)"
    unfolding open_checks_def kt amm_bound_def
    using Q V A T D O ne sv o1 ad ev by (auto simp: fut_pdas)
  moreover have "cps_ixs (last steps) = [t]" "length steps = 7"
    using st O(1) by (auto simp: map_eq_Cons_conv)
  moreover have "\<forall>s\<in>set steps. \<forall>x\<in>set (cps_ixs s). signers x = [ch]"
  proof -
    have "set (concat (map cps_ixs steps)) = {qix, kix, uix, t} \<union> set fs \<union> set (pp @ fp)" unfolding st O(1) by auto
    then show ?thesis using Q V A(3) T(3) O(6) by auto
  qed
  ultimately show ?thesis using ad kt o1 by (intro exI [of _ t] exI [of _ ch]) simp
qed

text \<open>
  C5: a composed challenge market opens. The steps before the last one, carried out by the MetaDAO
  and token programs as these are documented, leave accounts that pass every check that
  \<open>open_challenge\<close> makes of the foreign accounts it is handed: the question is resolved by the
  oracle and has two outcomes, both vaults hang on that question with the oracle's mints, the pools
  trade pass against pass and fail against fail, the pools differ, the oracle owns the two holders,
  and the derived addresses match. The last step is that single instruction, and the challenger
  alone signs each instruction of the sequence.
\<close>

theorem composed_market_opens:
  fixes W :: "'a web3"
  assumes "buildComposeAndOpenChallengeIxs W a = Inr (steps, c)" "web3_ok W"
    and "\<forall>s\<in>set (butlast steps). \<forall>t\<in>set (cps_ixs s). effect W L t"
    and "addr W (bcm_kassMint a) = Inr (orc_kassMint orc)" "addr W (bcm_usdcMint a) = Inr (orc_usdcMint orc)"
    and "rmap pda_address (pda_stakeVault W (Addr (cmk_oracle c)) (bcm_programId a)) = Inr (orc_stakeVault orc)"
    and "cmk_passKassMint c \<noteq> cmk_failKassMint c"
  shows "\<exists>t ch. cps_ixs (last steps) = [t] \<and> length steps = 7 \<and> addr W (bcm_challenger a) = Inr ch
    \<and> open_checks W L (program_or W (bcm_programId a)) orc (key_addresses t)
    \<and> key_addresses t ! 0 = cmk_oracle c \<and> key_addresses t ! 4 = ch
    \<and> (\<forall>s\<in>set steps. \<forall>x\<in>set (cps_ixs s). signers x = [ch])"
  using assms by (rule composition_passes_checks)

lemma seed_observation:
  assumes "twapInitialObservation b q = Inr v" "0 < q"
  shows "v * b \<le> q * 1000000000000 \<and> q * 1000000000000 < (v + 1) * b \<and> 0 \<le> v
    \<and> (q < 2 ^ 64 \<longrightarrow> v \<le> MAX_OBSERVATION_CHANGE)"
proof -
  have b: "0 < b" and v: "v = q * 1000000000000 div b"
    using assms by (auto simp: twapInitialObservation_def compose_PRICE_SCALE_def sdiv_div split: if_splits)
  have "q * 1000000000000 = v * b + q * 1000000000000 mod b" unfolding v by simp
  moreover have "0 \<le> q * 1000000000000 mod b" "q * 1000000000000 mod b < b" using b by simp_all
  moreover have v0: "0 \<le> v" unfolding v using b assms(2) by (simp add: pos_imp_zdiv_nonneg_iff)
  moreover have "v \<le> q * 1000000000000"
  proof -
    have "v * 1 \<le> v * b" using b v0 by (intro mult_left_mono) simp_all
    then show ?thesis using calculation by linarith
  qed
  ultimately show ?thesis by (auto simp: MAX_OBSERVATION_CHANGE_def compose_PRICE_SCALE_def algebra_simps)
qed

text \<open>
  C20: composing seeds both pools with exactly what was split for it. The amounts are the given
  reserves, or the defaults, and positive. The splits are for these amounts, each mints into the
  challenger's pass and fail accounts, and the two deposits draw on exactly these accounts, asking
  for no more base or quote than the split has minted there, so that they cannot fall short. Both
  pools open at the observation \<open>quote \<cdot> 10\<^sup>1\<^sup>2 / base\<close>, rounded down, which for 64-bit
  reserves is within the greatest change of one update.
\<close>

theorem compose_seeds_what_it_splits:
  assumes "buildComposeAndOpenChallengeIxs W a = Inr (steps, c)"
  shows "\<exists>br qr obs sk su cp cf dp df.
    reserve_or ''baseReserve'' DEFAULT_BASE_RESERVE (bcm_baseReserve a) = Inr br \<and> 0 < br
    \<and> reserve_or ''quoteReserve'' DEFAULT_QUOTE_RESERVE (bcm_quoteReserve a) = Inr qr \<and> 0 < qr
    \<and> drop 6 (cps_ixs (steps ! 3)) = [sk, su]
    \<and> ti_data sk = DISC_splitTokens @ u64LE br \<and> ti_data su = DISC_splitTokens @ u64LE qr
    \<and> take 2 (drop 8 (key_addresses sk)) = [cmk_passKassMint c, cmk_failKassMint c]
    \<and> take 2 (drop 8 (key_addresses su)) = [cmk_passUsdcMint c, cmk_failUsdcMint c]
    \<and> map cps_ixs [steps ! 4, steps ! 5] = [[cp, cps_ixs (steps ! 4) ! 1, dp], [cf, cps_ixs (steps ! 5) ! 1, df]]
    \<and> map ((!) (key_addresses dp)) [1, 4, 5] = [key_addresses cp ! 1, key_addresses sk ! 10, key_addresses su ! 10]
    \<and> map ((!) (key_addresses df)) [1, 4, 5] = [key_addresses cf ! 1, key_addresses sk ! 11, key_addresses su ! 11]
    \<and> map ti_data [dp, df] = replicate 2 (DISC_addLiquidity @ u64LE qr @ u64LE br @ u64LE 0)
    \<and> map ti_data [cp, cf] = replicate 2 (DISC_createAmm @ u128LE obs @ u128LE MAX_OBSERVATION_CHANGE @ u64LE 0)
    \<and> obs * br \<le> qr * 1000000000000 \<and> qr * 1000000000000 < (obs + 1) * br
    \<and> (qr < 2 ^ 64 \<longrightarrow> 0 \<le> obs \<and> obs \<le> MAX_OBSERVATION_CHANGE \<and> MAX_OBSERVATION_CHANGE < 2 ^ 128)"
proof -
  obtain n ch km um qid br qr qix kix uix fs obs passLp failLp pl fl' pp fp ev oix where
    C: "composed_by W a steps c n ch km um qid br qr qix kix uix fs obs passLp failLp pl fl' pp fp ev oix"
    by (rule compose_cases [OF assms(1)])
  note C' = C [unfolded composed_by_def]
  have st: "map cps_ixs steps = [[qix], [kix], [uix], fs, pp, fp, oix]" using C' by blast
  then have s: "cps_ixs (steps ! 3) = fs" "cps_ixs (steps ! 4) = pp" "cps_ixs (steps ! 5) = fp"
    by (auto simp: map_eq_Cons_conv)
  have R: "reserve_or ''baseReserve'' DEFAULT_BASE_RESERVE (bcm_baseReserve a) = Inr br"
    "reserve_or ''quoteReserve'' DEFAULT_QUOTE_RESERVE (bcm_quoteReserve a) = Inr qr" using C' by blast+
  have fs: "fund_split_ixs W c ch km br qr = Inr fs"
    and pp: "pool_ixs W ch (pda_address passLp) pl (cmk_passKassMint c) (cmk_passUsdcMint c) obs br qr = Inr pp"
    and fp: "pool_ixs W ch (pda_address failLp) fl' (cmk_failKassMint c) (cmk_failUsdcMint c) obs br qr = Inr fp"
    and ob: "twapInitialObservation br qr = Inr obs" using C' by blast+
  obtain uk upk ufk upu ufu sk su where F: "md_ata W (Addr ch) (Addr (cmk_passKassMint c)) = Inr upk"
    "md_ata W (Addr ch) (Addr (cmk_failKassMint c)) = Inr ufk" "md_ata W (Addr ch) (Addr (cmk_passUsdcMint c)) = Inr upu"
    "md_ata W (Addr ch) (Addr (cmk_failUsdcMint c)) = Inr ufu" "drop 6 fs = [sk, su]"
    "ti_data sk = DISC_splitTokens @ u64LE br" "ti_data su = DISC_splitTokens @ u64LE qr"
    "drop 8 (key_addresses sk) = [cmk_passKassMint c, cmk_failKassMint c, upk, ufk]"
    "drop 8 (key_addresses su) = [cmk_passUsdcMint c, cmk_failUsdcMint c, upu, ufu]"
    using fund_split_wire [OF fs] by auto
  have nth: "xs ! 10 = y2 \<and> xs ! 11 = y3" if "drop 8 xs = [y0, y1, y2, y3]" for xs :: "'a list" and y0 y1 y2 y3
    using that nth_drop [of 8 xs 2] nth_drop [of 8 xs 3] by (cases "8 \<le> length xs") auto
  note N = nth [OF F(8)] nth [OF F(9)]
  obtain cp dp m where P: "pp = [cp, createAtaIdempotentInstruction W ch pl ch (pda_address passLp), dp]"
    "md_amm W (Addr (cmk_passKassMint c)) (Addr (cmk_passUsdcMint c)) = Inr m" "key_addresses cp ! 1 = pda_address m"
    "ti_data cp = DISC_createAmm @ u128LE obs @ u128LE MAX_OBSERVATION_CHANGE @ u64LE 0"
    "ammAddLiquidity W (to_addLiquidity \<lparr>l4_payer = Addr ch, l4_baseMint = Addr (cmk_passKassMint c),
      l4_quoteMint = Addr (cmk_passUsdcMint c), l4_quoteAmount = qr, l4_maxBaseAmount = br, l4_minLpTokens = Some 0\<rparr>) = Inr dp"
    using pool_wire [OF pp] by blast
  obtain cf df m' where P': "fp = [cf, createAtaIdempotentInstruction W ch fl' ch (pda_address failLp), df]"
    "md_amm W (Addr (cmk_failKassMint c)) (Addr (cmk_failUsdcMint c)) = Inr m'" "key_addresses cf ! 1 = pda_address m'"
    "ti_data cf = DISC_createAmm @ u128LE obs @ u128LE MAX_OBSERVATION_CHANGE @ u64LE 0"
    "ammAddLiquidity W (to_addLiquidity \<lparr>l4_payer = Addr ch, l4_baseMint = Addr (cmk_failKassMint c),
      l4_quoteMint = Addr (cmk_failUsdcMint c), l4_quoteAmount = qr, l4_maxBaseAmount = br, l4_minLpTokens = Some 0\<rparr>) = Inr df"
    using pool_wire [OF fp] by blast
  have six: "xs ! 1 = b \<and> xs ! 4 = e \<and> xs ! 5 = f" if "take 6 xs = [a, b, d, g, e, f]" for xs :: "'a list" and a b d e f g
    using that nth_take [of 1 6 xs] nth_take [of 4 6 xs] nth_take [of 5 6 xs] by simp
  have dp: "key_addresses dp ! 1 = pda_address m \<and> key_addresses dp ! 4 = upk \<and> key_addresses dp ! 5 = upu"
    "ti_data dp = DISC_addLiquidity @ u64LE qr @ u64LE br @ u64LE 0"
    using deposit_wire [OF P(5)] six P(2) F(1,3) by auto
  have df: "key_addresses df ! 1 = pda_address m' \<and> key_addresses df ! 4 = ufk \<and> key_addresses df ! 5 = ufu"
    "ti_data df = DISC_addLiquidity @ u64LE qr @ u64LE br @ u64LE 0"
    using deposit_wire [OF P'(5)] six P'(2) F(2,4) by auto
  have M: "MAX_OBSERVATION_CHANGE < 2 ^ 128" by (simp add: MAX_OBSERVATION_CHANGE_def compose_PRICE_SCALE_def)
  show ?thesis
    apply (rule exI [of _ br], rule exI [of _ qr], rule exI [of _ obs], rule exI [of _ sk], rule exI [of _ su],
        rule exI [of _ cp], rule exI [of _ cf], rule exI [of _ dp], rule exI [of _ df])
    using R reserve_pos [OF R(1)] reserve_pos [OF R(2)] s F P P' dp df N M seed_observation [OF ob reserve_pos [OF R(2)]]
    by (simp add: numeral_2_eq_2)
qed

lemma settle_cases:
  assumes "buildSettleFromMarketIxs W \<lparr>bse_connected = True, bse_oracleNonce = nn, bse_market = m, bse_oracle = orc,
      bse_proposerAuthority = au, bse_payer = Some py, bse_programId = P\<rparr> = Inr ixs" "js_given py"
  obtains auth pm fm kvu ev pu cd ck payer t where "\<not> mk_settled m" "addr W au = Inr auth" "addr W py = Inr payer"
    "conditionalTokenMint W (mk_kassVault m) 0 = Inr pm" "conditionalTokenMint W (mk_kassVault m) 1 = Inr fm"
    "md_ata W (Addr (mk_kassVault m)) (Addr (orc_kassMint orc)) = Inr kvu" "md_vaultEventAuthority W = Inr ev"
    "md_ata W (Addr auth) (Addr (orc_usdcMint orc)) = Inr pu"
    "md_ata W (Addr (mk_challenger m)) (Addr (orc_usdcMint orc)) = Inr cd"
    "md_ata W (Addr (mk_challenger m)) (Addr (orc_kassMint orc)) = Inr ck"
    "buildSettleChallengeIxs W \<lparr>bst_oracleNonce = Some nn, bst_aiClaim = Addr (mk_aiClaim m), bst_proposer = Addr (mk_proposer m),
      bst_question = Addr (mk_question m), bst_passAmm = Addr (mk_passAmm m), bst_failAmm = Addr (mk_failAmm m),
      bst_cvEventAuthority = Addr (pda_address ev), bst_kassVault = Addr (mk_kassVault m), bst_kassVaultUnderlying = Addr kvu,
      bst_passKassMint = Addr pm, bst_failKassMint = Addr fm, bst_oraclePassKass = Addr (mk_oraclePassKass m),
      bst_oracleFailKass = Addr (mk_oracleFailKass m), bst_proposerUsdc = Addr pu, bst_challengerUsdcDest = Addr cd,
      bst_challengerKass = Addr ck, bst_programId = P\<rparr> = Inr [t]"
    "ixs = [createAtaIdempotentInstruction W payer pu auth (orc_usdcMint orc),
      createAtaIdempotentInstruction W payer cd (mk_challenger m) (orc_usdcMint orc),
      createAtaIdempotentInstruction W payer ck (mk_challenger m) (orc_kassMint orc), t]"
proof -
  have s: "\<exists>t. xs = [t]" if "buildSettleChallengeIxs W q = Inr xs" for q xs
    using that by (auto simp: buildSettleChallengeIxs_def rbind_Inr_iff)
  show thesis
    using assms that s
    by (clarsimp simp: buildSettleFromMarketIxs_def Let_def rbind_Inr_iff ata_of_md fut_pdas ch_create_copies
        split: if_splits) fastforce
qed

text \<open>
  C6: a market that was composed and opened can be settled from its decoded accounts. With the
  nonce of the composition, the oracle it was composed for and the market that \<open>open_challenge\<close>
  recorded, the settle button builds one instruction, without a signer, on the market account of
  the opening, preceded by the creation of the three payout accounts; once these are created it
  passes every check that \<open>settle_challenge\<close> makes of its accounts, payouts to the proposer's wallet
  and to the challenger included.
\<close>

theorem settle_follows_compose:
  fixes W :: "'a web3"
  assumes "buildComposeAndOpenChallengeIxs W a = Inr (steps, c)" "cps_ixs (last steps) = [t]"
    and "open_checks W L (program_or W (bcm_programId a)) orc (key_addresses t)"
    and "addr W (bcm_kassMint a) = Inr (orc_kassMint orc)"
    and "compose_nonce (bcm_oracleNonce a) = truncToBigInt nn" "addr W au = Inr auth" "js_given py"
    and "buildSettleFromMarketIxs W \<lparr>bse_connected = True, bse_oracleNonce = nn,
      bse_market = open_market (key_addresses t) te usdc bump, bse_oracle = orc, bse_proposerAuthority = au,
      bse_payer = Some py, bse_programId = bcm_programId a\<rparr> = Inr ixs"
    and "\<forall>x\<in>set (butlast ixs). effect W L x"
  shows "length ixs = 4 \<and> signers (last ixs) = [] \<and> key_addresses (last ixs) ! 1 = key_addresses t ! 3
    \<and> settle_checks W L orc (open_market (key_addresses t) te usdc bump) auth (key_addresses (last ixs))"
proof -
  obtain n ch km um qid br qr qix kix uix fs obs passLp failLp pl fl' pp fp ev oix where
    C: "composed_by W a steps c n ch km um qid br qr qix kix uix fs obs passLp failLp pl fl' pp fp ev oix"
    by (rule compose_cases [OF assms(1)])
  note C' = C [unfolded composed_by_def]
  have st: "oix = [t]" "km = orc_kassMint orc" using C' assms(2,4) by (auto simp: map_eq_Cons_conv)
  have n: "truncToBigInt nn = Inr n" using C' assms(5) by simp
  have acc: "compose_accounts W n qid ch km um (bcm_programId a) = Inr c" using C' by blast
  have kvu: "md_ata W (Addr (cmk_kassVault c)) (Addr (orc_kassMint orc)) = Inr (cmk_kassVaultUnderlying c)"
    using compose_accounts_D [OF acc] st(2) by auto
  have oix: "buildOpenChallengeIxs W (open_args a n ch um c (pda_address ev)) = Inr [t]"
    using C' unfolding st(1) by blast
  obtain o1 p mkt sv pr esc dao and cl :: "'a pda" where O: "pda_oracle W n (bcm_programId a) = Inr o1"
    "pda_market W (Addr (pda_address cl)) (Some (program_or W (bcm_programId a))) = Inr mkt"
    "pda_stakeVault W (Addr (pda_address o1)) (Some (program_or W (bcm_programId a))) = Inr sv"
    "pda_challengeUsdcVault W (Addr (pda_address mkt)) (Some (program_or W (bcm_programId a))) = Inr esc"
    and kt: "key_addresses t = [pda_address o1, pda_address cl, p, pda_address mkt, ch, cmk_question c, cmk_kassVault c,
        cmk_usdcVault c, cmk_passAmm c, cmk_failAmm c, pda_address sv, cmk_kassVaultUnderlying c, cmk_passKassMint c,
        cmk_failKassMint c, cmk_oraclePassKass c, cmk_oracleFailKass c, conditionalVault_id W, TOKEN_PROGRAM_ID W,
        SYSTEM_PROGRAM_ID W, pda_address ev, pr, dao, um, cmk_challengerUsdcSrc c, pda_address esc]"
    using openChallenge_shape [OF oix [unfolded open_args_def]] by (elim exE conjE) (rule that, simp_all)
  note chk = assms(3) [unfolded open_checks_def kt]
  let ?m = "open_market (key_addresses t) te usdc bump"
  have m: "mk_kassVault ?m = cmk_kassVault c" "mk_challenger ?m = ch" "mk_aiClaim ?m = pda_address cl"
    "mk_oracle ?m = pda_address o1" "mk_proposer ?m = p" "mk_question ?m = cmk_question c" "mk_usdcVault ?m = cmk_usdcVault c"
    "mk_passAmm ?m = cmk_passAmm c" "mk_failAmm ?m = cmk_failAmm c" "mk_oraclePassKass ?m = cmk_oraclePassKass c"
    "mk_oracleFailKass ?m = cmk_oracleFailKass c" "mk_challengerUsdcVault ?m = pda_address esc" "\<not> mk_settled ?m"
    by (simp_all add: open_market_def kt)
  show ?thesis
  proof (rule settle_cases [OF assms(8,7)])
    fix auth' pm fm kvu' ev' pu cd ck payer s
    assume h: "addr W au = Inr auth'"
      "conditionalTokenMint W (mk_kassVault ?m) 0 = Inr pm" "conditionalTokenMint W (mk_kassVault ?m) 1 = Inr fm"
      "md_ata W (Addr (mk_kassVault ?m)) (Addr (orc_kassMint orc)) = Inr kvu'" "md_vaultEventAuthority W = Inr ev'"
    and b: "buildSettleChallengeIxs W \<lparr>bst_oracleNonce = Some nn, bst_aiClaim = Addr (mk_aiClaim ?m), bst_proposer = Addr (mk_proposer ?m),
      bst_question = Addr (mk_question ?m), bst_passAmm = Addr (mk_passAmm ?m), bst_failAmm = Addr (mk_failAmm ?m),
      bst_cvEventAuthority = Addr (pda_address ev'), bst_kassVault = Addr (mk_kassVault ?m), bst_kassVaultUnderlying = Addr kvu',
      bst_passKassMint = Addr pm, bst_failKassMint = Addr fm, bst_oraclePassKass = Addr (mk_oraclePassKass ?m),
      bst_oracleFailKass = Addr (mk_oracleFailKass ?m), bst_proposerUsdc = Addr pu, bst_challengerUsdcDest = Addr cd,
      bst_challengerKass = Addr ck, bst_programId = bcm_programId a\<rparr> = Inr [s]"
    and i: "ixs = [createAtaIdempotentInstruction W payer pu auth' (orc_usdcMint orc),
      createAtaIdempotentInstruction W payer cd (mk_challenger ?m) (orc_usdcMint orc),
      createAtaIdempotentInstruction W payer ck (mk_challenger ?m) (orc_kassMint orc), s]"
    have tok: "ld_token L pu = Some (orc_usdcMint orc, auth)" "ld_token L cd = Some (orc_usdcMint orc, ch)"
      "ld_token L ck = Some (orc_kassMint orc, ch)"
      using assms(6,9) h(1) i m(2) by (auto simp: create_effect)
    have rn: "requireNonce (Some nn) = Inr n'  \<Longrightarrow> n' = n" for n'
      using n by (auto simp: requireNonce_def split: if_splits)
    have ks: "key_addresses s = [pda_address o1, pda_address mkt, pda_address cl, p, cmk_question c, cmk_passAmm c,
        cmk_failAmm c, conditionalVault_id W, pda_address ev', TOKEN_PROGRAM_ID W, pda_address sv, cmk_kassVault c,
        cmk_kassVaultUnderlying c, pm, fm, cmk_oraclePassKass c, cmk_oracleFailKass c, pda_address esc, pu, cd, ck]"
      "signers s = []"
      using settleChallenge_shape [OF b] rn O h(4) kvu m by auto
    show ?thesis
      using chk tok h ks m by (simp add: i settle_checks_def kt fut_pdas)
  qed
qed

section \<open>Two challenges of one oracle\<close>

lemma composed_from:
  fixes W :: "'a web3"
  assumes "buildComposeAndOpenChallengeIxs W a = Inr (steps, c)"
  obtains n ch km um qid where "compose_accounts W n qid ch km um (bcm_programId a) = Inr c"
    "addr W (bcm_challenger a) = Inr ch" "compose_nonce (bcm_oracleNonce a) = Inr n" "addr W (bcm_kassMint a) = Inr km"
    "addr W (bcm_usdcMint a) = Inr um" "compose_question_id (bcm_questionId a) = Inr qid"
proof -
  obtain n ch km um qid br qr qix kix uix fs obs passLp failLp pl fl' pp fp ev oix where
    C: "composed_by W a steps c n ch km um qid br qr qix kix uix fs obs passLp failLp pl fl' pp fp ev oix"
    by (rule compose_cases [OF assms])
  show thesis by (rule that) (use C [unfolded composed_by_def] in blast)+
qed

lemma composed_targets:
  fixes W :: "'a web3"
  assumes "buildComposeAndOpenChallengeIxs W a = Inr (steps, c)"
  shows "map (\<lambda>(i, k). key_addresses (hd (cps_ixs (steps ! i))) ! k) [(0, 0), (1, 0), (2, 0), (4, 1), (5, 1)]
      = [cmk_question c, cmk_kassVault c, cmk_usdcVault c, cmk_passAmm c, cmk_failAmm c]"
proof -
  obtain n ch km um qid br qr qix kix uix fs obs passLp failLp pl fl' pp fp ev oix where
    C: "composed_by W a steps c n ch km um qid br qr qix kix uix fs obs passLp failLp pl fl' pp fp ev oix"
    by (rule compose_cases [OF assms])
  note C' = C [unfolded composed_by_def]
  have st: "map cps_ixs steps = [[qix], [kix], [uix], fs, pp, fp, oix]" using C' by blast
  have acc: "compose_accounts W n qid ch km um (bcm_programId a) = Inr c" using C' by blast
  have q: "initializeQuestion W \<lparr>iqa_payer = Addr ch, iqa_questionId = qid, iqa_oracle = Addr (cmk_oracle c),
       iqa_numOutcomes = 2\<rparr> = Inr qix"
    and k: "initializeConditionalVault W \<lparr>iva_payer = Addr ch, iva_question = Addr (cmk_question c),
       iva_underlyingMint = Addr km, iva_numOutcomes = Some 2\<rparr> = Inr kix"
    and u: "initializeConditionalVault W \<lparr>iva_payer = Addr ch, iva_question = Addr (cmk_question c),
       iva_underlyingMint = Addr um, iva_numOutcomes = Some 2\<rparr> = Inr uix"
    and pp: "pool_ixs W ch (pda_address passLp) pl (cmk_passKassMint c) (cmk_passUsdcMint c) obs br qr = Inr pp"
    and fp: "pool_ixs W ch (pda_address failLp) fl' (cmk_failKassMint c) (cmk_failUsdcMint c) obs br qr = Inr fp"
    using C' by blast+
  have v: "key_addresses t ! 0 = x" if "take 4 (key_addresses t) = [x, y, z, z']" for t :: "'a tx_instruction" and x y z z'
    using that nth_take [of 0 4 "key_addresses t"] by simp
  have "key_addresses qix ! 0 = cmk_question c" "key_addresses kix ! 0 = cmk_kassVault c" "key_addresses uix ! 0 = cmk_usdcVault c"
    using initializeQuestion_shape [OF q] vault_wire [OF k, where L = undefined] vault_wire [OF u, where L = undefined] compose_accounts_D [OF acc] v
    by (auto simp: addr_Addr_iff)
  moreover have "key_addresses (hd pp) ! 1 = cmk_passAmm c" "key_addresses (hd fp) ! 1 = cmk_failAmm c"
    using pool_wire [OF pp, where L = undefined] pool_wire [OF fp, where L = undefined] compose_accounts_D [OF acc]
    by auto
  moreover have "map (\<lambda>i. cps_ixs (steps ! i)) [0, 1, 2, 4, 5] = [[qix], [kix], [uix], pp, fp]"
    using st by (auto simp: map_eq_Cons_conv numeral_2_eq_2)
  ultimately show ?thesis by simp
qed

lemma compose_accounts_challenger:
  fixes W :: "'a web3"
  assumes "compose_accounts W n qid ch km um P = Inr c" "compose_accounts W n qid ch' km um P = Inr c'"
  shows "\<exists>x. c' = c\<lparr>cmk_challengerUsdcSrc := x\<rparr>"
proof -
  obtain o1 q kv uv pa fa where a: "pda_oracle W n P = Inr o1" "cmk_oracle c = pda_address o1"
    "md_question W qid (Addr (cmk_oracle c)) 2 = Inr q" "cmk_question c = pda_address q"
    "md_conditionalVault W (Addr (cmk_question c)) (Addr km) = Inr kv" "cmk_kassVault c = pda_address kv"
    "md_conditionalVault W (Addr (cmk_question c)) (Addr um) = Inr uv" "cmk_usdcVault c = pda_address uv"
    "conditionalTokenMint W (cmk_kassVault c) 0 = Inr (cmk_passKassMint c)"
    "conditionalTokenMint W (cmk_kassVault c) 1 = Inr (cmk_failKassMint c)"
    "conditionalTokenMint W (cmk_usdcVault c) 0 = Inr (cmk_passUsdcMint c)"
    "conditionalTokenMint W (cmk_usdcVault c) 1 = Inr (cmk_failUsdcMint c)"
    "md_ata W (Addr (cmk_kassVault c)) (Addr km) = Inr (cmk_kassVaultUnderlying c)"
    "md_ata W (Addr (cmk_usdcVault c)) (Addr um) = Inr (cmk_usdcVaultUnderlying c)"
    "md_amm W (Addr (cmk_passKassMint c)) (Addr (cmk_passUsdcMint c)) = Inr pa" "cmk_passAmm c = pda_address pa"
    "md_amm W (Addr (cmk_failKassMint c)) (Addr (cmk_failUsdcMint c)) = Inr fa" "cmk_failAmm c = pda_address fa"
    "md_ata W (Addr (cmk_oracle c)) (Addr (cmk_passKassMint c)) = Inr (cmk_oraclePassKass c)"
    "md_ata W (Addr (cmk_oracle c)) (Addr (cmk_failKassMint c)) = Inr (cmk_oracleFailKass c)"
    using compose_accounts_D [OF assms(1)] by (elim exE conjE) (rule that)
  note b = compose_accounts_D [OF assms(2)]
  have o1: "cmk_oracle c' = cmk_oracle c" using a(1,2) b by auto
  have q: "cmk_question c' = cmk_question c" using a(3,4) b unfolding o1 by auto
  have v: "cmk_kassVault c' = cmk_kassVault c" "cmk_usdcVault c' = cmk_usdcVault c"
    using a(5-8) b unfolding q by auto
  have m: "cmk_passKassMint c' = cmk_passKassMint c" "cmk_failKassMint c' = cmk_failKassMint c"
    "cmk_passUsdcMint c' = cmk_passUsdcMint c" "cmk_failUsdcMint c' = cmk_failUsdcMint c"
    using a(9-12) b unfolding v by auto
  have u: "cmk_kassVaultUnderlying c' = cmk_kassVaultUnderlying c" "cmk_usdcVaultUnderlying c' = cmk_usdcVaultUnderlying c"
    using a(13,14) b unfolding v by auto
  have p: "cmk_passAmm c' = cmk_passAmm c" "cmk_failAmm c' = cmk_failAmm c" using a(15-18) b unfolding m by auto
  have h: "cmk_oraclePassKass c' = cmk_oraclePassKass c" "cmk_oracleFailKass c' = cmk_oracleFailKass c"
    using a(19,20) b unfolding m o1 by auto
  have "c' = c\<lparr>cmk_challengerUsdcSrc := cmk_challengerUsdcSrc c'\<rparr>"
    by (rule composed_market.equality) (simp_all add: o1 q v m u p h)
  then show ?thesis ..
qed

text \<open>
  Two challenges of one oracle compose the same market. The proposer and the challenger do not
  enter the question, the vaults or the pools: two compositions with the same nonce, mints, question
  id and program, the form's default question id for both among them, initialise the same five
  accounts, so that the first step of the second finds its account in place.
\<close>

theorem second_challenge_collides:
  fixes W :: "'a web3"
  assumes "buildComposeAndOpenChallengeIxs W a = Inr (steps, c)" "buildComposeAndOpenChallengeIxs W a' = Inr (steps', c')"
    and "compose_nonce (bcm_oracleNonce a) = compose_nonce (bcm_oracleNonce a')"
    and "addr W (bcm_kassMint a) = addr W (bcm_kassMint a')" "addr W (bcm_usdcMint a) = addr W (bcm_usdcMint a')"
    and "bcm_questionId a = bcm_questionId a'" "bcm_programId a = bcm_programId a'"
  shows "c' = c\<lparr>cmk_challengerUsdcSrc := cmk_challengerUsdcSrc c'\<rparr>
    \<and> map (\<lambda>(i, k). key_addresses (hd (cps_ixs (steps' ! i))) ! k) [(0, 0), (1, 0), (2, 0), (4, 1), (5, 1)]
      = [cmk_question c, cmk_kassVault c, cmk_usdcVault c, cmk_passAmm c, cmk_failAmm c]
    \<and> map (\<lambda>(i, k). key_addresses (hd (cps_ixs (steps ! i))) ! k) [(0, 0), (1, 0), (2, 0), (4, 1), (5, 1)]
      = [cmk_question c, cmk_kassVault c, cmk_usdcVault c, cmk_passAmm c, cmk_failAmm c]"
proof -
  obtain n ch km um qid where acc: "compose_accounts W n qid ch km um (bcm_programId a) = Inr c"
    and i: "addr W (bcm_challenger a) = Inr ch" "compose_nonce (bcm_oracleNonce a) = Inr n" "addr W (bcm_kassMint a) = Inr km"
      "addr W (bcm_usdcMint a) = Inr um" "compose_question_id (bcm_questionId a) = Inr qid"
    by (rule composed_from [OF assms(1)])
  obtain n' ch' km' um' qid' where acc': "compose_accounts W n' qid' ch' km' um' (bcm_programId a') = Inr c'"
    and i': "addr W (bcm_challenger a') = Inr ch'" "compose_nonce (bcm_oracleNonce a') = Inr n'" "addr W (bcm_kassMint a') = Inr km'"
      "addr W (bcm_usdcMint a') = Inr um'" "compose_question_id (bcm_questionId a') = Inr qid'"
    by (rule composed_from [OF assms(2)])
  have e: "n' = n" "km' = km" "um' = um" "qid' = qid" using i i' assms(3-7) by simp_all
  obtain x where x: "c' = c\<lparr>cmk_challengerUsdcSrc := x\<rparr>"
    using compose_accounts_challenger [OF acc acc' [unfolded e assms(7) [symmetric]]] by blast
  show ?thesis using composed_targets [OF assms(1)] composed_targets [OF assms(2)] by (simp add: x)
qed

section \<open>A composition, carried out\<close>

text \<open>
  A total instance of the library in which the accounts of one market are pairwise different (the
  hash of \<open>sample_web3\<close> keeps only the first seed that fills 32 bytes).
\<close>

definition first_byte :: "bytes \<Rightarrow> byte" where
  "first_byte s = (case s of [] \<Rightarrow> 0 | b # _ \<Rightarrow> b)"

definition mix_seeds :: "bytes list \<Rightarrow> byte" where
  "mix_seeds seeds = foldl (\<lambda>h s. 3 * h + first_byte s) 0 seeds"

definition sample_mix :: "256 word web3" where
  "sample_mix = sample_web3\<lparr>w3_find_pda := (\<lambda>seeds pid. Some (ucast (mix_seeds seeds), 255))\<rparr>"

lemma sample_mix_ok: "web3_ok sample_mix" and sample_mix_total: "pda_total sample_mix"
  using sample_web3_ok by (simp_all add: sample_mix_def web3_ok_def pda_total_def)

lemma sample_mix_addr: "is_ok (addr sample_mix x)"
  using sample_addr [of x] by (cases x) (simp_all add: sample_mix_def)

lemma sample_mix_find: "w3_find_pda sample_mix s p = Some (ucast (mix_seeds s), 255)"
  by (simp add: sample_mix_def)

lemma first_le_bytes: "first_byte (le_bytes (Suc n) v) = word_of_int v"
  by (simp add: first_byte_def)

lemma first_bytes:
  "first_byte (w3_bytes sample_mix a) = ucast a" "first_byte (u64LE v) = word_of_int v" "first_byte (u8 v) = word_of_int v"
  "first_byte (replicate 32 b) = b"
  "first_byte (ascii ''oracle'') = 111" "first_byte (ascii ''question'') = 113"
  "first_byte (ascii ''conditional_vault'') = 99" "first_byte (ascii ''conditional_token'') = 99"
  "first_byte (ascii ''amm__'') = 97" "first_byte (ascii ''amm_lp_mint'') = 97" "first_byte (ascii ''vault'') = 118"
proof -
  have "le_bytes 32 v = le_bytes (Suc 31) v" "le_bytes 8 v = le_bytes (Suc 7) v" for v
    by (simp_all only: numeral_eq_Suc pred_numeral_simps arith_simps)
  then show "first_byte (w3_bytes sample_mix a) = ucast a" "first_byte (u64LE v) = word_of_int v"
    by (simp_all only: sample_mix_def sample_web3_def u64LE_def first_le_bytes web3.simps) (transfer, simp)+
  show "first_byte (u8 v) = word_of_int v" by (simp add: first_byte_def u8_def word_uint_eq_iff uint_byte_of_int take_bit_eq_mod)
  show "first_byte (replicate 32 b) = b" by (simp add: first_byte_def numeral_eq_Suc)
  show "first_byte (ascii ''oracle'') = 111" "first_byte (ascii ''question'') = 113"
    "first_byte (ascii ''conditional_vault'') = 99" "first_byte (ascii ''conditional_token'') = 99"
    "first_byte (ascii ''amm__'') = 97" "first_byte (ascii ''amm_lp_mint'') = 97" "first_byte (ascii ''vault'') = 118"
    by code_simp+
qed

lemma sample_token_id: "(ucast (TOKEN_PROGRAM_ID sample_mix) :: byte) = 84"
  by code_simp

definition sample_challenge_args :: "256 word build_compose_args" where
  "sample_challenge_args = \<lparr>bcm_oracleNonce = Some (NBig 1), bcm_proposer = Addr 5, bcm_challenger = Addr 6,
     bcm_kassMint = Addr 7, bcm_usdcMint = Addr 8, bcm_kassDao = Addr 9, bcm_questionId = None,
     bcm_baseReserve = None, bcm_quoteReserve = None, bcm_programId = None\<rparr>"

definition sample_composition :: "256 word composed_market" where
  "sample_composition = \<lparr>cmk_oracle = 78, cmk_question = 22, cmk_kassVault = 196, cmk_usdcVault = 197,
     cmk_kassVaultUnderlying = 231, cmk_usdcVaultUnderlying = 241, cmk_passKassMint = 199, cmk_failKassMint = 200,
     cmk_passUsdcMint = 202, cmk_failUsdcMint = 203, cmk_passAmm = 136, cmk_failAmm = 140,
     cmk_oraclePassKass = 129, cmk_oracleFailKass = 130, cmk_challengerUsdcSrc = 58\<rparr>"

lemmas sample_pda = md_question_def md_conditionalVault_def md_conditionalTokenMint_def md_ata_def md_amm_def
  md_ammLpMint_def md_derive_def pda_oracle_def derive_def sample_mix_find mix_seeds_def first_bytes sample_token_id
  lift_web_def

lemma sample_accounts: "compose_accounts sample_mix 1 (replicate 32 7) 6 7 8 None = Inr sample_composition"
  by (simp add: compose_accounts_def ata_of_md mint_of_md fut_pdas sample_pda sample_composition_def)

text \<open>With a total derivation and readable addresses every composition returns.\<close>

lemma is_ok_field_addr: "is_ok (addr W x) \<Longrightarrow> is_ok (field_addr W f x)"
  by (simp add: is_ok_iff field_addr_iff)

lemma is_ok_open_challenge:
  "pda_total W \<Longrightarrow> (\<And>x. is_ok (addr W x)) \<Longrightarrow> is_ok (requireNonce (bch_oracleNonce a)) \<Longrightarrow> is_ok (buildOpenChallengeIxs W a)"
  unfolding buildOpenChallengeIxs_def openChallenge_def Let_def
  by (intro is_ok_bindI is_ok_oracle_pdas is_ok_field_addr is_ok.simps) (simp_all del: collect.simps)

lemma is_ok_compose_accounts:
  "pda_total W \<Longrightarrow> is_ok (compose_accounts W n qid ch km um P)"
  unfolding compose_accounts_def Let_def conditionalTokenMint_def ata_of_def is_ok_rmap fut_pdas
  by (intro is_ok_bindI is_ok_pdas is_ok_oracle_pdas is_ok.simps) (simp_all add: is_ok_pdas is_ok_oracle_pdas)

lemma is_ok_pool: "pda_total W \<Longrightarrow> is_ok (pool_ixs W u lp lpa b q obs br qr)"
  unfolding pool_ixs_def fut_builders_md createAmm_def ammAddLiquidity_def to_createAmm_def to_addLiquidity_def Let_def
  by (intro is_ok_bindI is_ok_pdas is_ok.simps) (simp_all del: collect.simps)

lemma is_ok_fund_split: "pda_total W \<Longrightarrow> is_ok (fund_split_ixs W c u km br qr)"
  unfolding fund_split_ixs_def fut_builders_md ata_of_md splitTokens_def interactWithVault_def to_interact_def Let_def
  by (intro is_ok_bindI is_ok_pdas is_ok.simps) (simp_all del: collect.simps)

lemma compose_market_returns:
  assumes "pda_total W" "\<And>x. is_ok (addr W x)" "is_ok (compose_nonce (bcm_oracleNonce a))"
    "is_ok (compose_question_id (bcm_questionId a))"
    "is_ok (reserve_or ''baseReserve'' DEFAULT_BASE_RESERVE (bcm_baseReserve a))"
    "is_ok (reserve_or ''quoteReserve'' DEFAULT_QUOTE_RESERVE (bcm_quoteReserve a))"
  shows "is_ok (buildComposeAndOpenChallengeIxs W a)"
proof -
  have q: "is_ok (fut_initializeQuestion W q)" "is_ok (fut_initializeConditionalVault W v)" for q v
    unfolding fut_builders_md initializeQuestion_def initializeConditionalVault_def to_question_def to_vault_def Let_def
    using assms(1,2) by (auto intro!: is_ok_bindI is_ok_pdas is_ok_cond_mints simp del: collect.simps)
  have n: "is_ok (requireNonce (Some (NBig n)))" if "compose_nonce x = Inr n" for n x
    using that by (auto simp: compose_nonce_def requireNonce_def rbind_Inr_iff split: if_splits)
  have o: "is_ok (twapInitialObservation b r)" if "0 < b" for b r
    using that by (simp add: twapInitialObservation_def)
  show ?thesis
    unfolding buildComposeAndOpenChallengeIxs_def fut_pdas ata_of_md
    using assms q n
    by (intro is_ok_bindI is_ok_pdas is_ok_field_addr is_ok_compose_accounts is_ok_pool is_ok_fund_split
        is_ok_open_challenge is_ok.simps) (auto intro: o reserve_pos is_ok_pdas)
qed

lemma sample_inputs:
  "compose_nonce (Some (NBig 1)) = Inr 1" "compose_question_id None = Inr (replicate 32 7)"
  by (simp_all add: compose_nonce_def compose_question_id_def DEFAULT_QUESTION_ID_def)

lemma sample_compose_returns:
  "is_ok (buildComposeAndOpenChallengeIxs sample_mix (sample_challenge_args\<lparr>bcm_proposer := p, bcm_challenger := c\<rparr>))"
  by (intro compose_market_returns sample_mix_total sample_mix_addr)
    (simp_all add: sample_challenge_args_def sample_inputs reserve_or_def toBig_def requirePositive_def
      DEFAULT_BASE_RESERVE_def DEFAULT_QUOTE_RESERVE_def)

lemma sample_challenge_composed:
  obtains steps where "buildComposeAndOpenChallengeIxs sample_mix sample_challenge_args = Inr (steps, sample_composition)"
proof -
  have "sample_challenge_args = sample_challenge_args\<lparr>bcm_proposer := Addr 5, bcm_challenger := Addr 6\<rparr>"
    by (simp add: sample_challenge_args_def)
  then have "is_ok (buildComposeAndOpenChallengeIxs sample_mix sample_challenge_args)"
    by (metis sample_compose_returns)
  then obtain steps c where b: "buildComposeAndOpenChallengeIxs sample_mix sample_challenge_args = Inr (steps, c)"
    by (auto simp: is_ok_iff)
  then show thesis
  proof (rule composed_from)
    fix m qid' ch km um
    assume "compose_accounts sample_mix m qid' ch km um (bcm_programId sample_challenge_args) = Inr c"
      "addr sample_mix (bcm_challenger sample_challenge_args) = Inr ch"
      "compose_nonce (bcm_oracleNonce sample_challenge_args) = Inr m" "addr sample_mix (bcm_kassMint sample_challenge_args) = Inr km"
      "addr sample_mix (bcm_usdcMint sample_challenge_args) = Inr um"
      "compose_question_id (bcm_questionId sample_challenge_args) = Inr qid'"
    then have "c = sample_composition"
      using sample_accounts sample_inputs
      by (simp add: sample_challenge_args_def)
    then show thesis using that b by blast
  qed
qed

text \<open>The accounts after the composition, and the payout accounts of a settlement.\<close>

definition sample_ledger :: "256 word ledger" where
  "sample_ledger =
     \<lparr>ld_token = map_of [(129, 199, 78), (130, 200, 78), (249, 199, 6), (250, 200, 6), (252, 202, 6), (253, 203, 6),
        (221, 171, 6), (225, 175, 6), (94, 8, 10), (58, 8, 6), (57, 7, 6)],
      ld_question = map_of [(22, w3_bytes sample_mix 78, 2)],
      ld_vault = map_of [(196, 22, 7, 231), (197, 22, 8, 241)],
      ld_amm = map_of [(136, 199, 202), (140, 200, 203)]\<rparr>"

definition sample_challenged :: "256 word oracle_account" where
  "sample_challenged = sample_oracle\<lparr>orc_kassMint := 7, orc_usdcMint := 8, orc_stakeVault := 176\<rparr>"

lemma sample_effects:
  assumes "buildComposeAndOpenChallengeIxs sample_mix sample_challenge_args = Inr (steps, sample_composition)"
  shows "\<forall>s\<in>set (butlast steps). \<forall>t\<in>set (cps_ixs s). effect sample_mix sample_ledger t"
proof -
  obtain n ch km um qid br qr qix kix uix fs obs passLp failLp pl fl' pp fp ev oix where
    C: "composed_by sample_mix sample_challenge_args steps sample_composition n ch km um qid br qr qix kix uix fs obs passLp failLp
      pl fl' pp fp ev oix" by (rule compose_cases [OF assms])
  note C' = C [unfolded composed_by_def]
  have st: "map cps_ixs steps = [[qix], [kix], [uix], fs, pp, fp, oix]" using C' by blast
  have i: "ch = 6" "km = 7" "um = 8" using C' by (simp_all add: sample_challenge_args_def)
  have q: "initializeQuestion sample_mix \<lparr>iqa_payer = Addr ch, iqa_questionId = qid,
       iqa_oracle = Addr (cmk_oracle sample_composition), iqa_numOutcomes = 2\<rparr> = Inr qix" "length qid = 32"
    and k: "initializeConditionalVault sample_mix \<lparr>iva_payer = Addr ch, iva_question = Addr (cmk_question sample_composition),
       iva_underlyingMint = Addr km, iva_numOutcomes = Some 2\<rparr> = Inr kix"
    and u: "initializeConditionalVault sample_mix \<lparr>iva_payer = Addr ch, iva_question = Addr (cmk_question sample_composition),
       iva_underlyingMint = Addr um, iva_numOutcomes = Some 2\<rparr> = Inr uix"
    and fs: "fund_split_ixs sample_mix sample_composition ch km br qr = Inr fs"
    and pp: "pool_ixs sample_mix ch (pda_address passLp) pl (cmk_passKassMint sample_composition)
      (cmk_passUsdcMint sample_composition) obs br qr = Inr pp"
    and fp: "pool_ixs sample_mix ch (pda_address failLp) fl' (cmk_failKassMint sample_composition)
      (cmk_failUsdcMint sample_composition) obs br qr = Inr fp"
    and lp: "md_ammLpMint sample_mix (Addr (cmk_passAmm sample_composition)) = Inr passLp"
      "md_ammLpMint sample_mix (Addr (cmk_failAmm sample_composition)) = Inr failLp"
      "md_ata sample_mix (Addr ch) (Addr (pda_address passLp)) = Inr pl"
      "md_ata sample_mix (Addr ch) (Addr (pda_address failLp)) = Inr fl'"
    and acc: "compose_accounts sample_mix n qid ch km um (bcm_programId sample_challenge_args) = Inr sample_composition"
    using C' compose_question_id_length by blast+
  note D = compose_accounts_D [OF acc]
  have e: "effect sample_mix sample_ledger qix" "effect sample_mix sample_ledger kix" "effect sample_mix sample_ledger uix"
    using question_wire [OF sample_mix_ok q, where L = sample_ledger] vault_wire [OF k, where L = sample_ledger]
      vault_wire [OF u, where L = sample_ledger] D i
    by (auto simp: sample_ledger_def sample_composition_def)
  have l: "pda_address passLp = 171" "pda_address failLp = 175" "pl = 221" "fl' = 225"
    using lp by (auto simp: i sample_pda sample_composition_def)
  have p: "\<forall>t\<in>set (pp @ fp). effect sample_mix sample_ledger t"
    using pool_wire [OF pp, where L = sample_ledger] pool_wire [OF fp, where L = sample_ledger] D
    by (auto simp: create_effect l i) (simp_all add: sample_ledger_def sample_composition_def)
  have f: "\<forall>t\<in>set fs. effect sample_mix sample_ledger t"
    using fund_split_wire [OF fs] by (auto simp: create_effect split_effect i sample_pda sample_composition_def sample_ledger_def)
  have "set (concat (map cps_ixs (butlast steps))) = {qix, kix, uix} \<union> set fs \<union> set (pp @ fp)"
    unfolding map_butlast st by auto
  then show ?thesis using e p f by auto
qed

lemma sample_opens:
  obtains steps t where "buildComposeAndOpenChallengeIxs sample_mix sample_challenge_args = Inr (steps, sample_composition)"
    "cps_ixs (last steps) = [t]"
    "rmap pda_address (pda_stakeVault sample_mix (Addr (cmk_oracle sample_composition)) (bcm_programId sample_challenge_args))
      = Inr (orc_stakeVault sample_challenged)"
    "open_checks sample_mix sample_ledger (KASSANDRA_PROGRAM_ID sample_mix) sample_challenged (key_addresses t)"
    "key_addresses t ! 4 = 6"
proof -
  obtain steps where s: "buildComposeAndOpenChallengeIxs sample_mix sample_challenge_args = Inr (steps, sample_composition)"
    by (rule sample_challenge_composed)
  have v: "rmap pda_address (pda_stakeVault sample_mix (Addr (cmk_oracle sample_composition)) (bcm_programId sample_challenge_args))
    = Inr (orc_stakeVault sample_challenged)"
    by (simp add: pda_stakeVault_def sample_pda sample_composition_def sample_challenge_args_def sample_challenged_def)
  show thesis
    using composition_passes_checks [OF s sample_mix_ok sample_effects [OF s] _ _ v] that s v
    by (auto simp: sample_challenge_args_def sample_challenged_def sample_composition_def program_or_def)
qed

theorem composed_market_opens_witness:
  "\<exists>steps t. buildComposeAndOpenChallengeIxs sample_mix sample_challenge_args = Inr (steps, sample_composition)
    \<and> cps_ixs (last steps) = [t] \<and> open_checks sample_mix sample_ledger (KASSANDRA_PROGRAM_ID sample_mix)
      sample_challenged (key_addresses t)"
proof -
  obtain steps where s: "buildComposeAndOpenChallengeIxs sample_mix sample_challenge_args = Inr (steps, sample_composition)"
    and v: "rmap pda_address (pda_stakeVault sample_mix (Addr (cmk_oracle sample_composition)) (bcm_programId sample_challenge_args))
      = Inr (orc_stakeVault sample_challenged)"
    by (rule sample_opens)
  from composed_market_opens [OF s sample_mix_ok sample_effects [OF s] _ _ v] s show ?thesis
    by (auto simp: sample_challenge_args_def sample_challenged_def sample_composition_def program_or_def)
qed

theorem compose_seeds_what_it_splits_witness:
  "\<exists>steps. buildComposeAndOpenChallengeIxs sample_mix sample_challenge_args = Inr (steps, sample_composition)
    \<and> (\<exists>cp dp. cps_ixs (steps ! 4) = [cp, cps_ixs (steps ! 4) ! 1, dp] \<and> key_addresses dp ! 1 = key_addresses cp ! 1)"
proof -
  obtain steps where s: "buildComposeAndOpenChallengeIxs sample_mix sample_challenge_args = Inr (steps, sample_composition)"
    by (rule sample_challenge_composed)
  from compose_seeds_what_it_splits [OF s] s show ?thesis by (simp, blast)
qed

theorem second_challenge_collides_witness:
  "\<exists>steps steps' c'. buildComposeAndOpenChallengeIxs sample_mix sample_challenge_args = Inr (steps, sample_composition)
    \<and> buildComposeAndOpenChallengeIxs sample_mix (sample_challenge_args\<lparr>bcm_proposer := Addr 11, bcm_challenger := Addr 12\<rparr>)
      = Inr (steps', c') \<and> cmk_question c' = 22 \<and> key_addresses (hd (cps_ixs (steps' ! 0))) ! 0 = 22"
proof -
  obtain steps where s: "buildComposeAndOpenChallengeIxs sample_mix sample_challenge_args = Inr (steps, sample_composition)"
    by (rule sample_challenge_composed)
  obtain steps' c' where s': "buildComposeAndOpenChallengeIxs sample_mix
      (sample_challenge_args\<lparr>bcm_proposer := Addr 11, bcm_challenger := Addr 12\<rparr>) = Inr (steps', c')"
    using sample_compose_returns [where p = "Addr 11" and c = "Addr 12"] by (auto simp: is_ok_iff)
  have e: "\<exists>x. c' = sample_composition\<lparr>cmk_challengerUsdcSrc := x\<rparr>"
    and k: "key_addresses (hd (cps_ixs (steps' ! 0))) ! 0 = cmk_question sample_composition"
    using second_challenge_collides [OF s s'] by (simp_all add: sample_challenge_args_def) blast
  from e have "cmk_question c' = 22" by (auto simp: sample_composition_def)
  moreover have "key_addresses (hd (cps_ixs (steps' ! 0))) ! 0 = 22" using k by (simp add: sample_composition_def)
  ultimately show ?thesis using s s' by blast
qed

lemma is_ok_settle:
  "pda_total W \<Longrightarrow> (\<And>x. is_ok (addr W x)) \<Longrightarrow> is_ok (requireNonce (bst_oracleNonce a)) \<Longrightarrow> is_ok (buildSettleChallengeIxs W a)"
  unfolding buildSettleChallengeIxs_def settleChallenge_def Let_def
  by (intro is_ok_bindI is_ok_oracle_pdas is_ok_field_addr is_ok.simps) (simp_all del: collect.simps)

lemma settle_returns:
  assumes "pda_total W" "\<And>x. is_ok (addr W x)" "is_ok (requireNonce (Some (bse_oracleNonce a)))"
    "\<not> mk_settled (bse_market a)" "js_given (bse_proposerAuthority a)"
  shows "is_ok (buildSettleFromMarketIxs W a)"
proof -
  have m: "is_ok (conditionalTokenMint W v i)" for v i
    by (simp add: mint_of_md is_ok_pdas assms)
  show ?thesis
    unfolding buildSettleFromMarketIxs_def Let_def fut_pdas ata_of_md
    using assms(4,5)
    by (auto intro!: is_ok_bindI is_ok_pdas is_ok_settle m assms(1,2,3) split: option.splits)
qed

theorem settle_follows_compose_witness:
  "\<exists>steps t ixs. buildComposeAndOpenChallengeIxs sample_mix sample_challenge_args = Inr (steps, sample_composition)
    \<and> cps_ixs (last steps) = [t] \<and> buildSettleFromMarketIxs sample_mix \<lparr>bse_connected = True, bse_oracleNonce = NBig 1,
      bse_market = open_market (key_addresses t) 0 0 0, bse_oracle = sample_challenged, bse_proposerAuthority = Addr 10,
      bse_payer = Some (Addr 6), bse_programId = None\<rparr> = Inr ixs
    \<and> settle_checks sample_mix sample_ledger sample_challenged (open_market (key_addresses t) 0 0 0) 10 (key_addresses (last ixs))"
proof -
  obtain steps t where s: "buildComposeAndOpenChallengeIxs sample_mix sample_challenge_args = Inr (steps, sample_composition)"
    "cps_ixs (last steps) = [t]"
    and ch: "open_checks sample_mix sample_ledger (program_or sample_mix (bcm_programId sample_challenge_args))
      sample_challenged (key_addresses t)"
    and c: "key_addresses t ! 4 = 6"
    by (rule sample_opens) (simp add: sample_challenge_args_def program_or_def)
  let ?a = "\<lparr>bse_connected = True, bse_oracleNonce = NBig 1, bse_market = open_market (key_addresses t) 0 0 0,
    bse_oracle = sample_challenged, bse_proposerAuthority = Addr 10, bse_payer = Some (Addr 6),
    bse_programId = bcm_programId sample_challenge_args\<rparr>"
  have "is_ok (buildSettleFromMarketIxs sample_mix ?a)"
    by (rule settle_returns) (simp_all add: sample_mix_total sample_mix_addr requireNonce_def open_market_def js_given_def)
  then obtain ixs where x: "buildSettleFromMarketIxs sample_mix ?a = Inr ixs" by (auto simp: is_ok_iff)
  have "\<forall>x\<in>set (butlast ixs). effect sample_mix sample_ledger x"
    by (rule settle_cases [OF x])
      (auto simp: js_given_def open_market_def c create_effect sample_pda sample_ledger_def sample_challenged_def)
  from settle_follows_compose [OF s ch _ _ _ _ x this, of 10] s x show ?thesis
    by (auto simp: sample_challenge_args_def sample_challenged_def compose_nonce_def js_given_def)
qed

end
