(* ===== verification/Challenge_Trading.thy ===== *)
theory Challenge_Trading
  imports Challenge_Flows
begin

text \<open>
  Trading and cranking the pools of a challenge market (\<open>app/src/data/actions/challengeTrade.ts\<close>),
  and what the trades have to do with the market that \<open>Challenge_Flows\<close> composes.
\<close>

section \<open>Trading the pools (challengeTrade.ts)\<close>

datatype pool = PassPool | FailPool
datatype side = SideBuy | SideSell

definition poolIndex :: "pool \<Rightarrow> int" where
  "poolIndex pool = (if pool = PassPool then 0 else 1)"

definition ch_requirePositiveAmount :: "string \<Rightarrow> int \<Rightarrow> int res" where
  "ch_requirePositiveAmount fld amount = (if amount \<le> 0 then Inl (ValidationErr fld) else Inr amount)"

record 'a pool_mints =
  pm_base :: 'a
  pm_quote :: 'a

definition poolMints :: "'a web3 \<Rightarrow> 'a market_account \<Rightarrow> pool \<Rightarrow> 'a pool_mints res" where
  "poolMints W market pool =
     (let idx = poolIndex pool in
      rbind (conditionalTokenMint W (mk_kassVault market) idx) (\<lambda>base.
      rbind (conditionalTokenMint W (mk_usdcVault market) idx) (\<lambda>quote.
      Inr \<lparr>pm_base = base, pm_quote = quote\<rparr>)))"

definition ch_constantProductOut :: "int \<Rightarrow> int \<Rightarrow> int \<Rightarrow> int" where
  "ch_constantProductOut amountIn inReserve outReserve =
     (if amountIn \<le> 0 \<or> inReserve \<le> 0 \<or> outReserve \<le> 0 then 0
      else amountIn * outReserve div (inReserve + amountIn))"

record swap_estimate =
  se_expectedOut :: int
  se_impact :: real

definition swapEstimate :: "'a AmmV04 option \<Rightarrow> side \<Rightarrow> int \<Rightarrow> swap_estimate" where
  "swapEstimate amm side amountIn =
     (case amm of
        None \<Rightarrow> \<lparr>se_expectedOut = 0, se_impact = 0\<rparr>
      | Some a \<Rightarrow>
          if amountIn \<le> 0 then \<lparr>se_expectedOut = 0, se_impact = 0\<rparr>
          else (let inReserve = (if side = SideBuy then av_quoteAmount a else av_baseAmount a);
                    outReserve = (if side = SideBuy then av_baseAmount a else av_quoteAmount a);
                    expectedOut = ch_constantProductOut amountIn inReserve outReserve
            in if inReserve \<le> 0 \<or> outReserve \<le> 0 \<or> expectedOut \<le> 0
               then \<lparr>se_expectedOut = expectedOut, se_impact = 0\<rparr>
               else (let spot = fl (Number outReserve / Number inReserve);
                         effective = fl (Number expectedOut / Number amountIn);
                         impact = (if spot > 0 then min (max (fl (1 - fl (effective / spot))) 0) 1 else 0)
                 in \<lparr>se_expectedOut = expectedOut, se_impact = impact\<rparr>)))"

definition ch_minOutFromSlippage :: "int \<Rightarrow> real \<Rightarrow> int" where
  "ch_minOutFromSlippage estimateOut slippageBps =
     (if estimateOut \<le> 0 then 0
      else (let bps = min (max (js_trunc slippageBps) 0) 10000 in
        estimateOut * (10000 - bps) div 10000))"

record 'a build_swap_args =
  bsp_market :: "'a market_account"
  bsp_pool :: pool
  bsp_side :: side
  bsp_amountIn :: num_input
  bsp_user :: "'a address_input"
  bsp_slippageBps :: "real option"
  bsp_minAmountOut :: "num_input option"
  bsp_amm :: "'a AmmV04 option"

definition swap_floor :: "'a build_swap_args \<Rightarrow> int \<Rightarrow> int res" where
  "swap_floor a amountIn =
     (case bsp_minAmountOut a of
        Some m \<Rightarrow> truncToBigInt m
      | None \<Rightarrow> Inr (ch_minOutFromSlippage (se_expectedOut (swapEstimate (bsp_amm a) (bsp_side a) amountIn))
          (case bsp_slippageBps a of None \<Rightarrow> 0 | Some b \<Rightarrow> b)))"

definition buildSwapIxs ::
  "'a web3 \<Rightarrow> ('a \<Rightarrow> bytes option res) \<Rightarrow> 'a build_swap_args \<Rightarrow> 'a tx_instruction list res" where
  "buildSwapIxs W getAccountInfo a =
     rbind (truncToBigInt (bsp_amountIn a)) (\<lambda>v.
     rbind (ch_requirePositiveAmount ''amountIn'' v) (\<lambda>amountIn.
     rbind (field_addr W ''user'' (bsp_user a)) (\<lambda>user.
     rbind (poolMints W (bsp_market a) (bsp_pool a)) (\<lambda>mints.
     let base = pm_base mints; quote = pm_quote mints in
     rbind (amm4_ata W (Addr user) (Addr base)) (\<lambda>userBase.
     rbind (amm4_ata W (Addr user) (Addr quote)) (\<lambda>userQuote.
     rbind (getAccountInfo userBase) (\<lambda>baseInfo.
     rbind (getAccountInfo userQuote) (\<lambda>quoteInfo.
     let pre = (if baseInfo = None then [createAtaIdempotentInstruction W user userBase user base] else [])
          @ (if quoteInfo = None then [createAtaIdempotentInstruction W user userQuote user quote] else []) in
     rbind (swap_floor a amountIn) (\<lambda>minAmountOut.
     rbind (amm4_swap W \<lparr>s4_payer = Addr user, s4_baseMint = Addr base, s4_quoteMint = Addr quote,
       s4_swapType = (if bsp_side a = SideBuy then Buy else Sell), s4_inputAmount = amountIn,
       s4_minOutputAmount = Some minAmountOut\<rparr>) (\<lambda>swapIx.
     Inr (pre @ [swapIx])))))))))))"

definition CRANK_MIN_SLOTS :: int where
  "CRANK_MIN_SLOTS = 150"

definition buildCrankTwapIxs :: "'a web3 \<Rightarrow> 'a market_account \<Rightarrow> pool \<Rightarrow> 'a tx_instruction list res" where
  "buildCrankTwapIxs W market pool =
     rbind (poolMints W market pool) (\<lambda>mints.
     rbind (amm4_amm W (Addr (pm_base mints)) (Addr (pm_quote mints))) (\<lambda>amm.
     rbind (amm4_crankThatTwap W (Addr (pda_address amm))) (\<lambda>ix. Inr [ix])))"

definition crankRateLimited :: "'a AmmV04 option \<Rightarrow> int option \<Rightarrow> bool" where
  "crankRateLimited amm currentSlot =
     (case (amm, currentSlot) of
        (Some a, Some s) \<Rightarrow> s - av_lastUpdatedSlot a < CRANK_MIN_SLOTS
      | _ \<Rightarrow> False)"

section \<open>Trading a composed market\<close>

lemma ch_cp_eq: "ch_constantProductOut a x y = constantProductOut a x y"
  by (simp add: ch_constantProductOut_def constantProductOut_def)

lemma ch_minOut_eq: "ch_minOutFromSlippage e s = minOutFromSlippage e s"
  by (simp only: ch_minOutFromSlippage_def minOutFromSlippage_def)

text \<open>The reserves that a trade pays into and takes from.\<close>

definition trade_reserves :: "'a AmmV04 \<Rightarrow> side \<Rightarrow> int \<times> int" where
  "trade_reserves a side = (if side = SideBuy then (av_quoteAmount a, av_baseAmount a)
     else (av_baseAmount a, av_quoteAmount a))"

lemma estimate_eq:
  "se_expectedOut (swapEstimate (Some p) sd n) = (let (x, y) = trade_reserves p sd in constantProductOut n x y)"
  by (auto simp: swapEstimate_def trade_reserves_def Let_def ch_cp_eq constantProductOut_def)

text \<open>The user's token accounts that a trade creates first: those that do not exist yet.\<close>

definition missing_atas ::
  "'a web3 \<Rightarrow> ('a \<Rightarrow> bytes option res) \<Rightarrow> 'a \<Rightarrow> ('a \<times> 'a) list \<Rightarrow> 'a tx_instruction list" where
  "missing_atas W info user xs =
     map (\<lambda>(x, m). createAtaIdempotentInstruction W user x user m) (filter (\<lambda>(x, m). info x = Inr None) xs)"

lemma swap_wire:
  assumes "ammSwap W (to_swap \<lparr>s4_payer = Addr u, s4_baseMint = Addr b, s4_quoteMint = Addr q, s4_swapType = d,
      s4_inputAmount = v, s4_minOutputAmount = Some mn\<rparr>) = Inr t"
    "md_ata W (Addr u) (Addr b) = Inr ub" "md_ata W (Addr u) (Addr q) = Inr uq"
    "md_amm W (Addr b) (Addr q) = Inr m"
  shows "take 4 (key_addresses t) = [u, pda_address m, ub, uq] \<and> signers t = [u] \<and> ti_programId t = ammV04_id W
    \<and> ti_data t = DISC_swap @ u8 (swap_code d) @ u64LE v @ u64LE mn"
  using assms
  by (clarsimp simp: ammSwap_def to_swap_def flow_opens signers_def key_addresses_def or_zero_def)

lemma swap_cases:
  assumes "buildSwapIxs W info s = Inr ixs"
  obtains v user b q ub uq mn t where "truncToBigInt (bsp_amountIn s) = Inr v" "0 < v" "addr W (bsp_user s) = Inr user"
    "conditionalTokenMint W (mk_kassVault (bsp_market s)) (poolIndex (bsp_pool s)) = Inr b"
    "conditionalTokenMint W (mk_usdcVault (bsp_market s)) (poolIndex (bsp_pool s)) = Inr q"
    "md_ata W (Addr user) (Addr b) = Inr ub" "md_ata W (Addr user) (Addr q) = Inr uq" "swap_floor s v = Inr mn"
    "ammSwap W (to_swap \<lparr>s4_payer = Addr user, s4_baseMint = Addr b, s4_quoteMint = Addr q,
      s4_swapType = (if bsp_side s = SideBuy then Buy else Sell), s4_inputAmount = v,
      s4_minOutputAmount = Some mn\<rparr>) = Inr t"
    "ixs = missing_atas W info user [(ub, b), (uq, q)] @ [t]"
proof -
  have c: "ch_requirePositiveAmount f v = Inr r \<longleftrightarrow> 0 < v \<and> v = r" for f v r
    by (auto simp: ch_requirePositiveAmount_def)
  obtain v user b q ub uq bi qi mn t where h: "truncToBigInt (bsp_amountIn s) = Inr v" "0 < v"
    "addr W (bsp_user s) = Inr user"
    "conditionalTokenMint W (mk_kassVault (bsp_market s)) (poolIndex (bsp_pool s)) = Inr b"
    "conditionalTokenMint W (mk_usdcVault (bsp_market s)) (poolIndex (bsp_pool s)) = Inr q"
    "md_ata W (Addr user) (Addr b) = Inr ub" "md_ata W (Addr user) (Addr q) = Inr uq" "swap_floor s v = Inr mn"
    "ammSwap W (to_swap \<lparr>s4_payer = Addr user, s4_baseMint = Addr b, s4_quoteMint = Addr q,
      s4_swapType = (if bsp_side s = SideBuy then Buy else Sell), s4_inputAmount = v,
      s4_minOutputAmount = Some mn\<rparr>) = Inr t" "info ub = Inr bi" "info uq = Inr qi"
    "ixs = ((if bi = None then [createAtaIdempotentInstruction W user ub user b] else [])
      @ (if qi = None then [createAtaIdempotentInstruction W user uq user q] else [])) @ [t]"
    using assms
    unfolding buildSwapIxs_def poolMints_def Let_def rbind_Inr_iff field_addr_iff fut_pdas fut_builders_md c sum.inject
    by (elim exE conjE, hypsubst) (simp only: pool_mints.select_convs)
  show thesis by (rule that [OF h(1-9)]) (simp add: h missing_atas_def)
qed

lemma swap_floor_bounds:
  assumes "swap_floor s v = Inr mn" "bsp_minAmountOut s = None" "bsp_amm s = Some p" "0 < v"
    "trade_reserves p (bsp_side s) = (x, y)" "0 < x" "0 < y"
  shows "0 \<le> mn \<and> mn \<le> constantProductOut v x y \<and> mn < y"
proof -
  have "mn = minOutFromSlippage (constantProductOut v x y) (case bsp_slippageBps s of None \<Rightarrow> 0 | Some b \<Rightarrow> b)"
    using assms(1,2,3,5) by (simp add: swap_floor_def estimate_eq ch_minOut_eq)
  moreover note constantProductOut_bounds [OF assms(7), of v x]
  ultimately show ?thesis using minOut_bounds [of "constantProductOut v x y"] by (metis order.strict_trans1)
qed

text \<open>
  A trade reaches the pool that was composed. For a market that records the vaults of the
  composition, the swap button of either pool builds one swap on the pool that was seeded for that
  outcome, for a positive amount in the direction chosen, between the user's two accounts of its
  mints; just before it the accounts that are missing are created, and nobody but the user signs.
  Without an explicit floor the swap asks for something between nothing and the quoted output, which
  the pool's reserve exceeds. The crank button of the pool names the same account.
\<close>

theorem swap_trades_the_composed_pool:
  assumes "buildComposeAndOpenChallengeIxs W a = Inr (steps, c)"
    and "mk_kassVault (bsp_market s) = cmk_kassVault c" "mk_usdcVault (bsp_market s) = cmk_usdcVault c"
    and "buildSwapIxs W info s = Inr ixs"
    and "(pool_amm, b, q) = (if bsp_pool s = PassPool then (cmk_passAmm c, cmk_passKassMint c, cmk_passUsdcMint c)
      else (cmk_failAmm c, cmk_failKassMint c, cmk_failUsdcMint c))"
  shows "\<exists>v user ub uq mn t. ixs = missing_atas W info user [(ub, b), (uq, q)] @ [t]
    \<and> addr W (bsp_user s) = Inr user \<and> md_ata W (Addr user) (Addr b) = Inr ub \<and> md_ata W (Addr user) (Addr q) = Inr uq
    \<and> take 4 (key_addresses t) = [user, pool_amm, ub, uq] \<and> ti_programId t = ammV04_id W
    \<and> truncToBigInt (bsp_amountIn s) = Inr v \<and> 0 < v
    \<and> ti_data t = DISC_swap @ u8 (swap_code (if bsp_side s = SideBuy then Buy else Sell)) @ u64LE v @ u64LE mn
    \<and> (\<forall>x\<in>set ixs. signers x = [user])
    \<and> (\<forall>p x y. bsp_minAmountOut s = None \<and> bsp_amm s = Some p \<and> trade_reserves p (bsp_side s) = (x, y) \<and> 0 < x \<and> 0 < y
        \<longrightarrow> 0 \<le> mn \<and> mn \<le> constantProductOut v x y \<and> mn < y)
    \<and> (\<forall>k. buildCrankTwapIxs W (bsp_market s) (bsp_pool s) = Inr k
        \<longrightarrow> map key_addresses k \<noteq> [] \<and> hd (map key_addresses k) ! 0 = pool_amm)"
proof -
  obtain n ch km um qid where acc: "compose_accounts W n qid ch km um (bcm_programId a) = Inr c"
    by (rule composed_from [OF assms(1)])
  note D = compose_accounts_D [OF acc]
  have bq: "conditionalTokenMint W (mk_kassVault (bsp_market s)) (poolIndex (bsp_pool s)) = Inr b"
    "conditionalTokenMint W (mk_usdcVault (bsp_market s)) (poolIndex (bsp_pool s)) = Inr q"
    and m: "\<exists>m. md_amm W (Addr b) (Addr q) = Inr m \<and> pool_amm = pda_address m"
    using D assms(2,3,5) by (auto simp: poolIndex_def split: if_splits)
  then obtain m where m: "md_amm W (Addr b) (Addr q) = Inr m" "pool_amm = pda_address m" by blast
  have crank: "map key_addresses k \<noteq> [] \<and> hd (map key_addresses k) ! 0 = pool_amm"
    if "buildCrankTwapIxs W (bsp_market s) (bsp_pool s) = Inr k" for k
    using that bq m
    by (clarsimp simp: buildCrankTwapIxs_def poolMints_def Let_def fut_pdas fut_builders_md crankThatTwap_def
        flow_opens key_addresses_def)
  show ?thesis
  proof (rule swap_cases [OF assms(4)])
    fix v user b' q' ub uq mn t
    assume h: "truncToBigInt (bsp_amountIn s) = Inr v" "0 < v" "addr W (bsp_user s) = Inr user"
      "conditionalTokenMint W (mk_kassVault (bsp_market s)) (poolIndex (bsp_pool s)) = Inr b'"
      "conditionalTokenMint W (mk_usdcVault (bsp_market s)) (poolIndex (bsp_pool s)) = Inr q'"
      "md_ata W (Addr user) (Addr b') = Inr ub" "md_ata W (Addr user) (Addr q') = Inr uq" "swap_floor s v = Inr mn"
      and t: "ammSwap W (to_swap \<lparr>s4_payer = Addr user, s4_baseMint = Addr b', s4_quoteMint = Addr q',
        s4_swapType = (if bsp_side s = SideBuy then Buy else Sell), s4_inputAmount = v,
        s4_minOutputAmount = Some mn\<rparr>) = Inr t"
      and i: "ixs = missing_atas W info user [(ub, b'), (uq, q')] @ [t]"
    have e: "b' = b" "q' = q" using h(4,5) bq by simp_all
    note w' = swap_wire [OF t h(6,7) m(1) [folded e]]
    have sg: "\<forall>x\<in>set ixs. signers x = [user]" using w' by (auto simp: i missing_atas_def create_ata_parts)
    have fl: "\<forall>p x y. bsp_minAmountOut s = None \<and> bsp_amm s = Some p \<and> trade_reserves p (bsp_side s) = (x, y) \<and> 0 < x \<and> 0 < y
        \<longrightarrow> 0 \<le> mn \<and> mn \<le> constantProductOut v x y \<and> mn < y"
      using swap_floor_bounds [OF h(8) _ _ h(2)] by blast
    show ?thesis
      by (intro exI [of _ v] exI [of _ user] exI [of _ ub] exI [of _ uq] exI [of _ mn] exI [of _ t] conjI)
        (use i e h w' m sg fl crank in simp_all)
  qed
qed

text \<open>A loss of one percent before the curve outweighs half a percent after it.\<close>

lemma fee_beats_tolerance:
  fixes a x y e k mn g :: int
  assumes "e = a * y div (x + a)" "k \<le> 50" "mn = e * (10000 - k) div 10000"
    and "g * (10000 * x + 9900 * a) \<le> 9900 * a * y" "0 < a" "2 * a \<le> x" "1181 \<le> e"
  shows "g < mn"
proof (rule ccontr)
  let ?d = "10000 * x + 9900 * a"
  assume "\<not> g < mn"
  then have "mn * ?d \<le> 9900 * a * y"
    using mult_right_mono [of mn g ?d] assms(4,5,6) by linarith
  moreover have "9950 * e - 9999 \<le> 10000 * mn"
  proof -
    have "e * 9950 \<le> e * (10000 - k)" using assms(2,7) by (intro mult_left_mono) simp_all
    also have "\<dots> = 10000 * mn + e * (10000 - k) mod 10000" by (simp add: assms(3))
    also have "\<dots> \<le> 10000 * mn + 9999" using pos_mod_bound [of 10000 "e * (10000 - k)"] by simp
    finally show ?thesis by simp
  qed
  moreover have "(9950 * e - 9999) * ?d \<le> 10000 * mn * ?d"
    using calculation(2) assms(5,6) by (intro mult_right_mono) simp_all
  ultimately have "(9950 * e - 9999) * ?d \<le> 10000 * (9900 * (a * y))" by linarith
  moreover have "a * y \<le> (e + 1) * (x + a)"
  proof -
    have "a * y = e * (x + a) + a * y mod (x + a)" by (simp only: assms(1) div_mult_mod_eq)
    moreover have "a * y mod (x + a) \<le> x + a" using assms(5,6) by (intro less_imp_le pos_mod_bound) simp
    ultimately show ?thesis by (simp add: distrib_right)
  qed
  ultimately have "(9950 * e - 9999) * ?d \<le> 99000000 * ((e + 1) * (x + a))" by linarith
  then have *: "500000 * (e * x) - 495000 * (e * a) \<le> 198990000 * x + 197990100 * a"
    by (simp add: algebra_simps)
  have "e * (2 * a) \<le> e * x" using assms(6,7) by (intro mult_left_mono) simp_all
  moreover have "1181 * x \<le> e * x" using assms(5,6,7) by (intro mult_right_mono) simp_all
  ultimately show False using * assms(5,6) by linarith
qed

text \<open>
  C40: the floor of a swap on a challenge pool leaves out the fee. With the tolerance that the swap
  form starts from, half a percent, or a smaller one, an amount of at most half the reserve it is
  paid into, and a quote of at least 1181 units, the floor that the builder computes exceeds what a
  pool with the one percent fee of the market app pays for it, so that the swap can only fail.
\<close>

theorem challenge_floor_exceeds_payout:
  assumes "swap_floor s amount = Inr mn" "bsp_minAmountOut s = None" "bsp_amm s = Some p"
    and "bsp_slippageBps s = None \<or> (\<exists>b. bsp_slippageBps s = Some b \<and> b < 51)"
    and "trade_reserves p (bsp_side s) = (x, y)" "0 < amount" "2 * amount \<le> x" "0 < y"
    and "1181 \<le> constantProductOut amount x y"
  shows "ammSwapOut amount x y < mn"
proof -
  let ?e = "constantProductOut amount x y"
  have x: "0 < x" using assms(6,7) by simp
  obtain k where k: "k \<le> 50" "mn = ?e * (10000 - k) div 10000"
  proof
    let ?b = "case bsp_slippageBps s of None \<Rightarrow> 0 | Some b \<Rightarrow> b"
    have "?b < 51" using assms(4) by auto
    then have "js_trunc ?b \<le> 50" by (auto simp: js_trunc_def floor_less_iff ceiling_le_iff split: if_splits)
    then show "min (max (js_trunc ?b) 0) 10000 \<le> 50" by simp
    show "mn = ?e * (10000 - min (max (js_trunc ?b) 0) 10000) div 10000"
      using assms(1,2,3,5,9) by (simp add: swap_floor_def estimate_eq ch_minOutFromSlippage_def Let_def)
  qed
  have "?e = amount * y div (x + amount)" using assms(6,8) x by (simp add: constantProductOut_def)
  then show ?thesis
    using fee_beats_tolerance [OF _ k ammSwapOut_exact [OF assms(6) x assms(8)] assms(6,7)] assms(9) by simp
qed

section \<open>Trading the sample market\<close>

definition sample_pool :: "256 word AmmV04" where
  "sample_pool = \<lparr>av_baseMint = 199, av_quoteMint = 202, av_baseDecimals = 9, av_quoteDecimals = 6,
     av_baseAmount = 100000000000, av_quoteAmount = 100000000, av_createdAtSlot = 0, av_lastUpdatedSlot = 0,
     av_startDelaySlots = 0, av_aggregator = 0\<rparr>"

definition sample_swap :: "256 word build_swap_args" where
  "sample_swap = \<lparr>bsp_market = open_market (replicate 6 0 @ [196, 197] @ replicate 20 0) 0 0 0, bsp_pool = FailPool,
     bsp_side = SideBuy, bsp_amountIn = NBig 1000000, bsp_user = Addr 6, bsp_slippageBps = Some 50,
     bsp_minAmountOut = None, bsp_amm = Some sample_pool\<rparr>"

lemma swap_returns:
  assumes "pda_total W" "\<And>x. is_ok (addr W x)" "is_ok (truncToBigInt (bsp_amountIn s))"
    "\<And>v. truncToBigInt (bsp_amountIn s) = Inr v \<Longrightarrow> 0 < v" "\<And>v. is_ok (swap_floor s v)"
  shows "is_ok (buildSwapIxs W (\<lambda>_. Inr None) s)"
proof -
  have t: "is_ok (amm4_swap W \<lparr>s4_payer = Addr u, s4_baseMint = Addr b, s4_quoteMint = Addr q, s4_swapType = d,
      s4_inputAmount = v, s4_minOutputAmount = mn\<rparr>)" for u b q d v mn
    unfolding fut_builders_md to_swap_def ammSwap_def Let_def
    by (intro is_ok_bindI is_ok_pdas assms(1)) (auto simp: is_ok_pdas assms(1) simp del: collect.simps)
  show ?thesis
    unfolding buildSwapIxs_def poolMints_def Let_def fut_pdas
    by (intro is_ok_bindI is_ok_field_addr is_ok_pdas t assms(1,2,3,5))
      (use assms(4) in \<open>auto simp: ch_requirePositiveAmount_def mint_of_md is_ok_pdas assms(1)\<close>)
qed

theorem swap_trades_the_composed_pool_witness:
  "\<exists>ixs t. buildSwapIxs sample_mix (\<lambda>_. Inr None) sample_swap = Inr ixs \<and> last ixs = t \<and> length ixs = 3
    \<and> key_addresses t ! 1 = 140"
proof -
  obtain steps where s: "buildComposeAndOpenChallengeIxs sample_mix sample_challenge_args = Inr (steps, sample_composition)"
    by (rule sample_challenge_composed)
  have "is_ok (buildSwapIxs sample_mix (\<lambda>_. Inr None) sample_swap)"
    by (rule swap_returns) (simp_all add: sample_mix_total sample_mix_addr sample_swap_def swap_floor_def)
  then obtain ixs where x: "buildSwapIxs sample_mix (\<lambda>_. Inr None) sample_swap = Inr ixs" by (auto simp: is_ok_iff)
  have m: "mk_kassVault (bsp_market sample_swap) = cmk_kassVault sample_composition"
    "mk_usdcVault (bsp_market sample_swap) = cmk_usdcVault sample_composition"
    by (simp_all add: sample_swap_def open_market_def sample_composition_def nth_append)
  have "(140, 200, 203) = (if bsp_pool sample_swap = PassPool
      then (cmk_passAmm sample_composition, cmk_passKassMint sample_composition, cmk_passUsdcMint sample_composition)
      else (cmk_failAmm sample_composition, cmk_failKassMint sample_composition, cmk_failUsdcMint sample_composition))"
    by (simp add: sample_swap_def sample_composition_def)
  from swap_trades_the_composed_pool [OF s m x this] obtain ub uq user t where
    "ixs = missing_atas sample_mix (\<lambda>_. Inr None) user [(ub, 200), (uq, 203)] @ [t]"
    "take 4 (key_addresses t) = [user, 140, ub, uq]" by blast
  then have "length ixs = 3" "last ixs = t" "key_addresses t ! 1 = 140"
    using nth_take [of 1 4 "key_addresses t"] by (simp_all add: missing_atas_def)
  then show ?thesis using x by blast
qed

theorem challenge_floor_exceeds_payout_witness:
  "\<exists>mn. swap_floor sample_swap 1000000 = Inr mn \<and> ammSwapOut 1000000 100000000 100000000000 < mn"
proof -
  obtain mn where mn: "swap_floor sample_swap 1000000 = Inr mn" by (simp add: swap_floor_def sample_swap_def)
  from challenge_floor_exceeds_payout [OF mn, of sample_pool 100000000 100000000000] mn show ?thesis
    by (simp add: sample_swap_def sample_pool_def trade_reserves_def constantProductOut_def)
qed

end
