(* ===== verification/Oracle_View.thy ===== *)
theory Oracle_View
  imports Market_View Send_Confirm "HOL-Library.Multiset"
begin

text \<open>
  What the oracle pages show: labels, hashes, amounts and durations (\<open>app/src/lib/oracleView.ts\<close>),
  the dashboard figures, filters and orders (\<open>oracleStats.ts\<close>), and the lifecycle strip with the
  verdict (\<open>phaseTimeline.ts\<close>), beside the phase transitions of the oracle program
  (\<open>programs/oracles/src/processor\<close>). \<open>Date.now()\<close> is a parameter. A text is a list of code units.
\<close>

section \<open>Array.prototype.sort\<close>

text \<open>
  The sort of the language is stable (ECMAScript 2019), so that for a comparator that is a total
  preorder its result is the one of the insertion sort below.
\<close>

fun js_insert :: "('a \<Rightarrow> 'a \<Rightarrow> int) \<Rightarrow> 'a \<Rightarrow> 'a list \<Rightarrow> 'a list" where
  "js_insert cmp x [] = [x]"
| "js_insert cmp x (y # ys) = (if cmp x y \<le> 0 then x # y # ys else y # js_insert cmp x ys)"

definition js_sort :: "('a \<Rightarrow> 'a \<Rightarrow> int) \<Rightarrow> 'a list \<Rightarrow> 'a list" where
  "js_sort cmp xs = foldr (js_insert cmp) xs []"

lemma js_insert_key: "(\<And>a b. cmp a b \<le> 0 \<longleftrightarrow> k a \<le> k b) \<Longrightarrow> js_insert cmp x xs = insort_key k x xs"
  by (induction xs) auto

lemma js_sort_key: "(\<And>a b. cmp a b \<le> 0 \<longleftrightarrow> k a \<le> k b) \<Longrightarrow> js_sort cmp xs = sort_key k xs"
  by (induction xs) (simp_all add: js_sort_def js_insert_key)

section \<open>Presentation (oracleView.ts)\<close>

definition RESOLVED_OPTION_NONE :: int where
  "RESOLVED_OPTION_NONE = 0xff"

datatype ov_tone = ToneNeutral | ToneInfo | ToneAccent | ToneEmber | ToneConfirmed | ToneMuted

record phase_view =
  pv_label :: utext
  pv_tone :: ov_tone

definition phaseView :: "Phase option \<Rightarrow> phase_view" where
  "phaseView phase =
     (case phase of
        Some Ph_Created \<Rightarrow> \<lparr>pv_label = codes ''Created'', pv_tone = ToneNeutral\<rparr>
      | Some Ph_Proposal \<Rightarrow> \<lparr>pv_label = codes ''Proposal'', pv_tone = ToneNeutral\<rparr>
      | Some Ph_FactProposal \<Rightarrow> \<lparr>pv_label = codes ''Fact proposal'', pv_tone = ToneInfo\<rparr>
      | Some Ph_FactVoting \<Rightarrow> \<lparr>pv_label = codes ''Fact voting'', pv_tone = ToneInfo\<rparr>
      | Some Ph_AiClaim \<Rightarrow> \<lparr>pv_label = codes ''AI claim'', pv_tone = ToneAccent\<rparr>
      | Some Ph_Challenge \<Rightarrow> \<lparr>pv_label = codes ''Challenged'', pv_tone = ToneEmber\<rparr>
      | Some Ph_FinalRecompute \<Rightarrow> \<lparr>pv_label = codes ''Final recompute'', pv_tone = ToneAccent\<rparr>
      | Some Ph_Resolved \<Rightarrow> \<lparr>pv_label = codes ''Resolved'', pv_tone = ToneConfirmed\<rparr>
      | Some Ph_InvalidDeadend \<Rightarrow> \<lparr>pv_label = codes ''Dead end'', pv_tone = ToneMuted\<rparr>
      | None \<Rightarrow> \<lparr>pv_label = codes ''Unknown'', pv_tone = ToneMuted\<rparr>)"

text \<open>\<open>slice(-n)\<close>: the whole string for 0.\<close>

definition slice_last :: "utext \<Rightarrow> nat \<Rightarrow> utext" where
  "slice_last s n = (if n = 0 then s else drop (length s - n) s)"

definition ov_truncateMiddle :: "utext \<Rightarrow> nat \<Rightarrow> nat \<Rightarrow> utext" where
  "ov_truncateMiddle value hd_len tl_len =
     (if length value \<le> hd_len + tl_len + 1 then value
      else take hd_len value @ [8230] @ slice_last value tl_len)"

definition hex_char :: "int \<Rightarrow> int" where
  "hex_char d = (if d < 10 then 48 + d else 87 + d)"

definition byte_toString16 :: "byte \<Rightarrow> utext" where
  "byte_toString16 b =
     (let v = uint b in if v < 16 then [hex_char v] else [hex_char (v div 16), hex_char (v mod 16)])"

definition toHex :: "bytes \<Rightarrow> utext" where
  "toHex bs = fold (\<lambda>b out. out @ padStart (byte_toString16 b) 2 48) bs []"

definition hashPreview :: "bytes \<Rightarrow> nat \<Rightarrow> nat \<Rightarrow> utext" where
  "hashPreview bs hd_len tl_len =
     (let hx = toHex bs in codes ''0x'' @ take hd_len hx @ [8230] @ slice_last hx tl_len)"

definition hashHex :: "bytes \<Rightarrow> utext" where
  "hashHex bs = codes ''0x'' @ toHex bs"

definition groupDigits :: "int \<Rightarrow> utext" where
  "groupDigits n =
     (let neg = n < 0; s = group_digits (dec_nat (nat (if neg then - n else n))) in if neg then 45 # s else s)"

definition ov_KASS_DECIMALS :: nat where "ov_KASS_DECIMALS = 9"

definition USDC_DECIMALS :: nat where "USDC_DECIMALS = 6"

definition formatUnits :: "int \<Rightarrow> nat \<Rightarrow> utext" where
  "formatUnits amount decimals =
     (let neg = amount < 0;
          ab = (if neg then - amount else amount);
          scale = 10 ^ decimals;
          whole = ab div scale;
          fr = ab mod scale;
          wholeStr = groupDigits whole;
          out = (if fr > 0 then wholeStr @ [46] @ strip_zeros (padStart (dec_nat (nat fr)) decimals 48) else wholeStr)
      in if neg then 45 # out else out)"

definition ov_formatKass :: "int \<Rightarrow> utext" where
  "ov_formatKass amount = formatUnits amount ov_KASS_DECIMALS"

definition formatUsdc :: "int \<Rightarrow> utext" where
  "formatUsdc amount = formatUnits amount USDC_DECIMALS"

text \<open>The callers pass a non-negative whole number; a 64-bit count of days prints without exponent.\<close>

definition coarseDuration :: "real \<Rightarrow> utext" where
  "coarseDuration seconds =
     (if seconds \<ge> 86400 then dec_nat (nat \<lfloor>fl (seconds / 86400)\<rfloor>) @ codes ''d''
      else if seconds \<ge> 3600 then dec_nat (nat \<lfloor>fl (seconds / 3600)\<rfloor>) @ codes ''h''
      else if seconds \<ge> 60 then dec_nat (nat \<lfloor>fl (seconds / 60)\<rfloor>) @ codes ''m''
      else dec_nat (nat \<lfloor>seconds\<rfloor>) @ codes ''s'')"

definition relativeDeadline :: "int \<Rightarrow> int \<Rightarrow> utext" where
  "relativeDeadline date_now unixSeconds =
     (let now = \<lfloor>fl (of_int date_now / 1000)\<rfloor>;
          diff = unixSeconds - now;
          ab = (if diff < 0 then - diff else diff);
          label = coarseDuration (Number ab)
      in if diff \<ge> 0 then codes ''ends in '' @ label else codes ''ended '' @ label @ codes '' ago'')"

definition windowLabel :: "int \<Rightarrow> utext" where
  "windowLabel seconds = coarseDuration (Number (if seconds < 0 then - seconds else seconds))"

section \<open>Dashboard (oracleStats.ts)\<close>

record 'a oracle_summary =
  os_pubkey :: string
  os_oracle :: "'a oracle_account"

datatype PhaseGroup = PgProposal | PgInDispute | PgAiClaim | PgChallenge | PgResolved | PgInvalidDeadend

datatype PhaseFilter = FilterAll | FilterGroup PhaseGroup

datatype SortBy = ByDeadline | ByBondsAtRisk

definition phaseGroup :: "Phase option \<Rightarrow> PhaseGroup" where
  "phaseGroup phase =
     (case phase of
        Some Ph_Created \<Rightarrow> PgProposal | Some Ph_Proposal \<Rightarrow> PgProposal
      | Some Ph_FactProposal \<Rightarrow> PgInDispute | Some Ph_FactVoting \<Rightarrow> PgInDispute
      | Some Ph_AiClaim \<Rightarrow> PgAiClaim | Some Ph_FinalRecompute \<Rightarrow> PgAiClaim
      | Some Ph_Challenge \<Rightarrow> PgChallenge | Some Ph_Resolved \<Rightarrow> PgResolved
      | Some Ph_InvalidDeadend \<Rightarrow> PgInvalidDeadend | None \<Rightarrow> PgInvalidDeadend)"

definition isTerminal :: "Phase option \<Rightarrow> bool" where
  "isTerminal phase \<longleftrightarrow> phase = Some Ph_Resolved \<or> phase = Some Ph_InvalidDeadend"

definition oracleBonds :: "'a oracle_account \<Rightarrow> int" where
  "oracleBonds orc = orc_bondPool orc + orc_disputeBondTotal orc + orc_totalOracleStake orc"

record phase_counts =
  pc_proposal :: nat
  pc_inDispute :: nat
  pc_aiClaim :: nat
  pc_challenge :: nat
  pc_resolved :: nat
  pc_invalidDeadend :: nat
  pc_total :: nat

definition count_of :: "PhaseGroup \<Rightarrow> phase_counts \<Rightarrow> nat" where
  "count_of g c =
     (case g of PgProposal \<Rightarrow> pc_proposal c | PgInDispute \<Rightarrow> pc_inDispute c | PgAiClaim \<Rightarrow> pc_aiClaim c
      | PgChallenge \<Rightarrow> pc_challenge c | PgResolved \<Rightarrow> pc_resolved c | PgInvalidDeadend \<Rightarrow> pc_invalidDeadend c)"

definition count_group :: "PhaseGroup \<Rightarrow> phase_counts \<Rightarrow> phase_counts" where
  "count_group g c =
     (case g of
        PgProposal \<Rightarrow> c\<lparr>pc_proposal := pc_proposal c + 1\<rparr>
      | PgInDispute \<Rightarrow> c\<lparr>pc_inDispute := pc_inDispute c + 1\<rparr>
      | PgAiClaim \<Rightarrow> c\<lparr>pc_aiClaim := pc_aiClaim c + 1\<rparr>
      | PgChallenge \<Rightarrow> c\<lparr>pc_challenge := pc_challenge c + 1\<rparr>
      | PgResolved \<Rightarrow> c\<lparr>pc_resolved := pc_resolved c + 1\<rparr>
      | PgInvalidDeadend \<Rightarrow> c\<lparr>pc_invalidDeadend := pc_invalidDeadend c + 1\<rparr>)"

record oracle_stats =
  st_counts :: phase_counts
  st_bondsAtRisk :: int
  st_bondPoolActive :: int
  st_disputeBondsActive :: int
  st_stakedActive :: int
  st_resolvedCount :: nat
  st_recentResolved :: "(string \<times> int) list"

definition RECENT_RESOLVED_LIMIT :: nat where
  "RECENT_RESOLVED_LIMIT = 3"

definition cmpDeadlineDesc :: "'a oracle_summary \<Rightarrow> 'a oracle_summary \<Rightarrow> int" where
  "cmpDeadlineDesc a b =
     (if orc_deadline (os_oracle b) > orc_deadline (os_oracle a) then 1
      else if orc_deadline (os_oracle b) < orc_deadline (os_oracle a) then - 1 else 0)"

definition cmpBondsDesc :: "'a oracle_summary \<Rightarrow> 'a oracle_summary \<Rightarrow> int" where
  "cmpBondsDesc a b =
     (let da = oracleBonds (os_oracle a); db = oracleBonds (os_oracle b) in
      if db > da then 1 else if db < da then - 1 else 0)"

text \<open>One iteration of the loop: the counts and the four sums.\<close>

definition stats_step ::
  "'a oracle_summary \<Rightarrow> phase_counts \<times> int \<times> int \<times> int \<times> int \<Rightarrow> phase_counts \<times> int \<times> int \<times> int \<times> int" where
  "stats_step s acc =
     (let (counts, bondsAtRisk, bondPoolActive, disputeBondsActive, stakedActive) = acc;
          orc = os_oracle s;
          counts = count_group (phaseGroup (orc_phase orc)) counts;
          counts = counts\<lparr>pc_total := pc_total counts + 1\<rparr>
      in if isTerminal (orc_phase orc)
         then (counts, bondsAtRisk, bondPoolActive, disputeBondsActive, stakedActive)
         else (counts, bondsAtRisk + oracleBonds orc, bondPoolActive + orc_bondPool orc,
           disputeBondsActive + orc_disputeBondTotal orc, stakedActive + orc_totalOracleStake orc))"

definition no_counts :: phase_counts where
  "no_counts = \<lparr>pc_proposal = 0, pc_inDispute = 0, pc_aiClaim = 0, pc_challenge = 0, pc_resolved = 0,
     pc_invalidDeadend = 0, pc_total = 0\<rparr>"

definition deriveStats :: "'a oracle_summary list \<Rightarrow> oracle_stats" where
  "deriveStats summaries =
     (let (counts, bondsAtRisk, bondPoolActive, disputeBondsActive, stakedActive) =
            fold stats_step summaries (no_counts, 0, 0, 0, 0);
          recentResolved = map (\<lambda>s. (os_pubkey s, orc_resolvedOption (os_oracle s)))
            (take RECENT_RESOLVED_LIMIT (js_sort cmpDeadlineDesc
              (filter (\<lambda>s. orc_phase (os_oracle s) = Some Ph_Resolved) summaries)))
      in \<lparr>st_counts = counts, st_bondsAtRisk = bondsAtRisk, st_bondPoolActive = bondPoolActive,
          st_disputeBondsActive = disputeBondsActive, st_stakedActive = stakedActive,
          st_resolvedCount = pc_resolved counts, st_recentResolved = recentResolved\<rparr>)"

definition filterByPhaseGroup :: "'a oracle_summary list \<Rightarrow> PhaseFilter \<Rightarrow> 'a oracle_summary list" where
  "filterByPhaseGroup summaries flt =
     (case flt of
        FilterAll \<Rightarrow> summaries
      | FilterGroup g \<Rightarrow> filter (\<lambda>s. phaseGroup (orc_phase (os_oracle s)) = g) summaries)"

definition sortOracles :: "'a oracle_summary list \<Rightarrow> SortBy \<Rightarrow> 'a oracle_summary list" where
  "sortOracles summaries by_key =
     js_sort (if by_key = ByBondsAtRisk then cmpBondsDesc else cmpDeadlineDesc) summaries"

section \<open>Lifecycle strip and verdict (phaseTimeline.ts)\<close>

datatype StepStatus = StepDone | StepCurrent | StepFuture

record timeline_step =
  ts_key :: string
  ts_label :: utext
  ts_status :: StepStatus
  ts_terminal :: bool
  ts_deadend :: bool

record stage =
  sg_key :: string
  sg_label :: utext
  sg_phases :: "Phase list"
  sg_terminal :: bool

definition STAGES :: "stage list" where
  "STAGES =
     [\<lparr>sg_key = ''proposal'', sg_label = codes ''Proposal'', sg_phases = [Ph_Proposal], sg_terminal = False\<rparr>,
      \<lparr>sg_key = ''factProposal'', sg_label = codes ''Fact proposal'', sg_phases = [Ph_FactProposal], sg_terminal = False\<rparr>,
      \<lparr>sg_key = ''factVoting'', sg_label = codes ''Fact voting'', sg_phases = [Ph_FactVoting], sg_terminal = False\<rparr>,
      \<lparr>sg_key = ''aiClaim'', sg_label = codes ''AI claim'', sg_phases = [Ph_AiClaim], sg_terminal = False\<rparr>,
      \<lparr>sg_key = ''settlement'', sg_label = codes ''Settlement'', sg_phases = [Ph_Challenge, Ph_FinalRecompute],
        sg_terminal = False\<rparr>,
      \<lparr>sg_key = ''resolution'', sg_label = codes ''Resolved'', sg_phases = [Ph_Resolved, Ph_InvalidDeadend],
        sg_terminal = True\<rparr>]"

fun findIndex :: "('a \<Rightarrow> bool) \<Rightarrow> 'a list \<Rightarrow> int" where
  "findIndex P [] = - 1"
| "findIndex P (x # xs) = (if P x then 0 else let i = findIndex P xs in if i < 0 then - 1 else i + 1)"

definition stageIndexOf :: "Phase option \<Rightarrow> int" where
  "stageIndexOf phase =
     (case phase of None \<Rightarrow> - 1 | Some p \<Rightarrow> findIndex (\<lambda>s. p \<in> set (sg_phases s)) STAGES)"

definition phaseTimelineModel :: "Phase option \<Rightarrow> timeline_step list" where
  "phaseTimelineModel phase =
     (let currentIndex = stageIndexOf phase in
      map (\<lambda>(i, stage).
        \<lparr>ts_key = sg_key stage,
          ts_label =
            (if sg_key stage = ''settlement''
             then (if phase = Some Ph_Challenge then codes ''Challenge''
                   else if phase = Some Ph_FinalRecompute then codes ''Final recompute'' else sg_label stage)
             else if sg_terminal stage \<and> phase = Some Ph_InvalidDeadend then codes ''Dead end'' else sg_label stage),
          ts_status =
            (if currentIndex < 0 \<or> int i > currentIndex then StepFuture
             else if int i = currentIndex then StepCurrent else StepDone),
          ts_terminal = sg_terminal stage,
          ts_deadend = (sg_terminal stage \<and> phase = Some Ph_InvalidDeadend)\<rparr>)
        (List.enumerate 0 STAGES))"

datatype VerdictKind = VkResolved | VkDeadend | VkInFlight

record verdict =
  vd_kind :: VerdictKind
  vd_title :: utext
  vd_detail :: utext
  vd_tone :: ov_tone

definition NEXT_HINT :: "Phase \<Rightarrow> utext option" where
  "NEXT_HINT p =
     (case p of
        Ph_Created \<Rightarrow> Some (codes ''Proposals open once the deadline passes.'')
      | Ph_Proposal \<Rightarrow> Some (codes ''Proposers stake bonds until the proposal window closes.'')
      | Ph_FactProposal \<Rightarrow> Some (codes ''Supporting facts are submitted for the options.'')
      | Ph_FactVoting \<Rightarrow> Some (codes ''Finalize the facts when the voting window closes.'')
      | Ph_AiClaim \<Rightarrow> Some (codes ''An AI claim settles the winning option unless challenged.'')
      | Ph_Challenge \<Rightarrow> Some (codes ''A challenge market resolves via TWAP, then recomputes.'')
      | Ph_FinalRecompute \<Rightarrow> Some (codes ''Finalize the oracle to record the resolved option.'')
      | _ \<Rightarrow> None)"

definition verdictFor :: "Phase option \<Rightarrow> int \<Rightarrow> verdict" where
  "verdictFor phase resolvedOption =
     (if phase = Some Ph_Resolved then
        (let hasOption = resolvedOption \<noteq> RESOLVED_OPTION_NONE in
         \<lparr>vd_kind = VkResolved,
          vd_title = (if hasOption then codes ''Resolved '' @ [183] @ codes '' Option '' @ dec_nat (nat resolvedOption)
            else codes ''Resolved''),
          vd_detail = (if hasOption
            then codes ''The dispute settled on this option '' @ [8212] @ codes '' participants can claim their payouts.''
            else codes ''The dispute resolved with no single valid option.''),
          vd_tone = ToneConfirmed\<rparr>)
      else if phase = Some Ph_InvalidDeadend then
        \<lparr>vd_kind = VkDeadend, vd_title = codes ''No resolution '' @ [183] @ codes '' dead-ended'',
         vd_detail = codes ''The dispute could not reach a valid option; bonds are returned or swept.'',
         vd_tone = ToneMuted\<rparr>
      else
        \<lparr>vd_kind = VkInFlight, vd_title = codes ''In '' @ js_lower (pv_label (phaseView phase)),
         vd_detail = (case NEXT_HINT (case phase of None \<Rightarrow> Ph_Created | Some p \<Rightarrow> p) of
             Some h \<Rightarrow> h | None \<Rightarrow> codes ''The dispute is progressing through its lifecycle.''),
         vd_tone = pv_tone (phaseView phase)\<rparr>)"

section \<open>Phase transitions of the program\<close>

text \<open>
  What the processors make of the stored phase: \<open>require_phase\<close>, then the assignment on the branch
  taken. \<open>None\<close> is the rejected instruction.
\<close>

definition finalize_proposals_phase :: "bool \<Rightarrow> Phase \<Rightarrow> Phase option" where
  "finalize_proposals_phase all_agree p =
     (if p \<noteq> Ph_Proposal then None else Some (if all_agree then Ph_Resolved else Ph_FactProposal))"

definition advance_phase_phase :: "Phase \<Rightarrow> Phase option" where
  "advance_phase_phase p = (if p \<noteq> Ph_FactProposal then None else Some Ph_FactVoting)"

definition finalize_no_facts_phase :: "nat \<Rightarrow> Phase \<Rightarrow> Phase" where
  "finalize_no_facts_phase surviving_count p = (if surviving_count = 0 then Ph_InvalidDeadend else p)"

definition finalize_with_facts_phase :: "nat \<Rightarrow> nat \<Rightarrow> Phase \<Rightarrow> Phase" where
  "finalize_with_facts_phase settled_count fact_count p = (if settled_count = fact_count then Ph_AiClaim else p)"

definition finalize_facts_phase :: "nat \<Rightarrow> nat \<Rightarrow> nat \<Rightarrow> Phase \<Rightarrow> Phase option" where
  "finalize_facts_phase fact_count surviving_count settled_count p =
     (if p \<noteq> Ph_FactVoting then None
      else Some (if fact_count = 0 then finalize_no_facts_phase surviving_count p
        else finalize_with_facts_phase settled_count fact_count p))"

definition finalize_ai_claims_phase :: "nat \<Rightarrow> nat \<Rightarrow> Phase \<Rightarrow> Phase option" where
  "finalize_ai_claims_phase ai_finalized_count proposer_count p =
     (if p \<noteq> Ph_AiClaim then None
      else Some (if ai_finalized_count = proposer_count then Ph_Challenge else p))"

definition finalize_oracle_phase :: "bool \<Rightarrow> Phase \<Rightarrow> Phase option" where
  "finalize_oracle_phase winner p =
     (if p \<noteq> Ph_Challenge then None else Some (if winner then Ph_Resolved else Ph_InvalidDeadend))"

definition resolve_deadend_phase :: "Phase \<Rightarrow> Phase option" where
  "resolve_deadend_phase p = (if p \<noteq> Ph_InvalidDeadend then None else Some Ph_Resolved)"

lemmas facts_phase_defs = finalize_facts_phase_def finalize_no_facts_phase_def finalize_with_facts_phase_def

inductive phase_step :: "Phase \<Rightarrow> Phase \<Rightarrow> bool" where
  proposals: "finalize_proposals_phase all_agree p = Some q \<Longrightarrow> phase_step p q"
| advance: "advance_phase_phase p = Some q \<Longrightarrow> phase_step p q"
| facts: "finalize_facts_phase fc sc tc p = Some q \<Longrightarrow> phase_step p q"
| ai_claims: "finalize_ai_claims_phase ac pc p = Some q \<Longrightarrow> phase_step p q"
| finalize: "finalize_oracle_phase winner p = Some q \<Longrightarrow> phase_step p q"
| deadend: "resolve_deadend_phase p = Some q \<Longrightarrow> phase_step p q"

text \<open>The phases an oracle goes through: \<open>create_oracle\<close> stores \<open>Proposal\<close>.\<close>

definition reached :: "Phase \<Rightarrow> bool" where
  "reached p \<longleftrightarrow> phase_step\<^sup>*\<^sup>* Ph_Proposal p"

section \<open>Facts: the dashboard\<close>

lemma cmp_keys:
  "cmpDeadlineDesc a b \<le> 0 \<longleftrightarrow> - orc_deadline (os_oracle a) \<le> - orc_deadline (os_oracle b)"
  "cmpBondsDesc a b \<le> 0 \<longleftrightarrow> - oracleBonds (os_oracle a) \<le> - oracleBonds (os_oracle b)"
  by (simp_all add: cmpDeadlineDesc_def cmpBondsDesc_def Let_def)

definition sort_value :: "SortBy \<Rightarrow> 'a oracle_summary \<Rightarrow> int" where
  "sort_value by_key s = (if by_key = ByBondsAtRisk then oracleBonds (os_oracle s) else orc_deadline (os_oracle s))"

lemma sortOracles_key: "sortOracles xs by_key = sort_key (\<lambda>s. - sort_value by_key s) xs"
  by (auto simp: sortOracles_def sort_value_def cmp_keys intro!: js_sort_key)

definition group_size :: "PhaseGroup \<Rightarrow> 'a oracle_summary list \<Rightarrow> nat" where
  "group_size g xs = length (filterByPhaseGroup xs (FilterGroup g))"

definition active :: "'a oracle_summary list \<Rightarrow> 'a oracle_account list" where
  "active xs = filter (\<lambda>x. \<not> isTerminal (orc_phase x)) (map os_oracle xs)"

lemma stats_fold:
  "fold stats_step xs (c, r, b, d, t) =
    (\<lparr>pc_proposal = pc_proposal c + group_size PgProposal xs, pc_inDispute = pc_inDispute c + group_size PgInDispute xs,
      pc_aiClaim = pc_aiClaim c + group_size PgAiClaim xs, pc_challenge = pc_challenge c + group_size PgChallenge xs,
      pc_resolved = pc_resolved c + group_size PgResolved xs,
      pc_invalidDeadend = pc_invalidDeadend c + group_size PgInvalidDeadend xs, pc_total = pc_total c + length xs\<rparr>,
     r + sum_list (map oracleBonds (active xs)), b + sum_list (map orc_bondPool (active xs)),
     d + sum_list (map orc_disputeBondTotal (active xs)), t + sum_list (map orc_totalOracleStake (active xs)))"
proof (induction xs arbitrary: c r b d t)
  case Nil
  show ?case by (simp add: group_size_def filterByPhaseGroup_def active_def)
next
  case (Cons x xs)
  obtain c' r' b' d' t' where s: "stats_step x (c, r, b, d, t) = (c', r', b', d', t')" by (metis prod_cases5)
  have "c' = (let c = count_group (phaseGroup (orc_phase (os_oracle x))) c in c\<lparr>pc_total := pc_total c + 1\<rparr>)"
    "r' = r + sum_list (map oracleBonds (active [x]))" "b' = b + sum_list (map orc_bondPool (active [x]))"
    "d' = d + sum_list (map orc_disputeBondTotal (active [x]))" "t' = t + sum_list (map orc_totalOracleStake (active [x]))"
    using s by (auto simp: stats_step_def Let_def active_def split: if_splits)
  then show ?case
    using Cons.IH [of c' r' b' d' t'] s
    by (cases "phaseGroup (orc_phase (os_oracle x))")
      (simp_all add: count_group_def Let_def group_size_def filterByPhaseGroup_def active_def)
qed

lemma phaseGroup_resolved: "phaseGroup p = PgResolved \<longleftrightarrow> p = Some Ph_Resolved"
  by (auto simp: phaseGroup_def split: option.splits Phase.splits)

lemma groups_partition: "length xs = (\<Sum>g\<leftarrow>[PgProposal, PgInDispute, PgAiClaim, PgChallenge, PgResolved, PgInvalidDeadend]. group_size g xs)"
proof (induction xs)
  case (Cons x xs)
  then show ?case
    by (cases "phaseGroup (orc_phase (os_oracle x))") (simp_all add: group_size_def filterByPhaseGroup_def)
qed (simp add: group_size_def filterByPhaseGroup_def)

text \<open>
  The dashboard adds up. Each count is the number of oracles that the filter chip of its group
  keeps, and the six counts sum to the total, the length of the list. The capital at risk is the
  sum of the bonds of the oracles that are not terminal and splits exactly into its three parts. The
  number of resolved oracles is the size of their group, and the strip of recent resolutions shows
  the first three of them in the stable order of the latest deadline. An oracle with an unknown
  phase is counted as a dead end, but its bonds are counted as at risk.
\<close>

theorem dashboard_adds_up:
  assumes "st = deriveStats xs"
  shows "(\<forall>g. count_of g (st_counts st) = length (filterByPhaseGroup xs (FilterGroup g)))
    \<and> pc_total (st_counts st) = length xs
    \<and> pc_total (st_counts st) = (\<Sum>g\<leftarrow>[PgProposal, PgInDispute, PgAiClaim, PgChallenge, PgResolved, PgInvalidDeadend].
        count_of g (st_counts st))
    \<and> st_bondsAtRisk st = sum_list (map oracleBonds (active xs))
    \<and> st_bondsAtRisk st = st_bondPoolActive st + st_disputeBondsActive st + st_stakedActive st
    \<and> st_resolvedCount st = length (filter (\<lambda>s. orc_phase (os_oracle s) = Some Ph_Resolved) xs)
    \<and> st_recentResolved st = map (\<lambda>s. (os_pubkey s, orc_resolvedOption (os_oracle s)))
        (take 3 (sortOracles (filterByPhaseGroup xs (FilterGroup PgResolved)) ByDeadline))
    \<and> (\<forall>x. orc_phase (os_oracle x) = None \<longrightarrow> st_bondsAtRisk (deriveStats (x # xs)) = oracleBonds (os_oracle x) + st_bondsAtRisk st
        \<and> pc_invalidDeadend (st_counts (deriveStats (x # xs))) = pc_invalidDeadend (st_counts st) + 1)"
proof -
  have bonds: "sum_list (map oracleBonds ys)
      = sum_list (map orc_bondPool ys) + sum_list (map orc_disputeBondTotal ys) + sum_list (map orc_totalOracleStake ys)"
    for ys :: "'a oracle_account list"
    by (induction ys) (simp_all add: oracleBonds_def)
  have st: "st_counts (deriveStats ys) = \<lparr>pc_proposal = group_size PgProposal ys, pc_inDispute = group_size PgInDispute ys,
      pc_aiClaim = group_size PgAiClaim ys, pc_challenge = group_size PgChallenge ys, pc_resolved = group_size PgResolved ys,
      pc_invalidDeadend = group_size PgInvalidDeadend ys, pc_total = length ys\<rparr>"
    "st_bondsAtRisk (deriveStats ys) = sum_list (map oracleBonds (active ys))"
    "st_resolvedCount (deriveStats ys) = group_size PgResolved ys" for ys :: "'a oracle_summary list"
    by (simp_all add: deriveStats_def stats_fold no_counts_def)
  have cnt: "count_of g (st_counts (deriveStats ys)) = group_size g ys" for g and ys :: "'a oracle_summary list"
    by (cases g) (simp_all add: count_of_def st)
  have resolved: "filterByPhaseGroup xs (FilterGroup PgResolved) = filter (\<lambda>s. orc_phase (os_oracle s) = Some Ph_Resolved) xs"
    by (simp add: filterByPhaseGroup_def phaseGroup_resolved)
  have res: "group_size PgResolved xs = length (filter (\<lambda>s. orc_phase (os_oracle s) = Some Ph_Resolved) xs)"
    by (simp add: group_size_def resolved)
  have parts: "st_bondPoolActive (deriveStats xs) = sum_list (map orc_bondPool (active xs))"
    "st_disputeBondsActive (deriveStats xs) = sum_list (map orc_disputeBondTotal (active xs))"
    "st_stakedActive (deriveStats xs) = sum_list (map orc_totalOracleStake (active xs))"
    by (simp_all add: deriveStats_def stats_fold)
  have recent: "st_recentResolved (deriveStats xs) = map (\<lambda>s. (os_pubkey s, orc_resolvedOption (os_oracle s)))
      (take 3 (sortOracles (filterByPhaseGroup xs (FilterGroup PgResolved)) ByDeadline))"
    unfolding resolved by (simp add: deriveStats_def stats_fold sortOracles_def RECENT_RESOLVED_LIMIT_def)
  have unknown: "active (x # xs) = os_oracle x # active xs"
    "group_size PgInvalidDeadend (x # xs) = group_size PgInvalidDeadend xs + 1" if "orc_phase (os_oracle x) = None" for x
    using that by (simp_all add: active_def isTerminal_def group_size_def filterByPhaseGroup_def phaseGroup_def)
  show ?thesis
    unfolding assms
  proof (intro conjI allI impI)
    show "pc_total (st_counts (deriveStats xs))
      = (\<Sum>g\<leftarrow>[PgProposal, PgInDispute, PgAiClaim, PgChallenge, PgResolved, PgInvalidDeadend]. count_of g (st_counts (deriveStats xs)))"
      unfolding cnt using groups_partition [of xs] by (simp add: st(1))
    show "count_of g (st_counts (deriveStats xs)) = length (filterByPhaseGroup xs (FilterGroup g))" for g
      by (simp only: cnt group_size_def)
  qed (simp_all add: cnt parts recent st unknown res bonds [of "active xs"] flip: group_size_def)
qed

text \<open>
  Sorting and filtering the list of oracles commute, and neither loses a row. The sorted list
  holds the same rows, in decreasing order of the chosen figure, rows with the same figure keep the
  order in which they came, and the filter of a group may be applied before or after.
\<close>

theorem sort_and_filter_stable:
  "mset (sortOracles xs by_key) = mset xs
    \<and> sorted_wrt (\<lambda>a b. sort_value by_key a \<ge> sort_value by_key b) (sortOracles xs by_key)
    \<and> (\<forall>v. filter (\<lambda>s. sort_value by_key s = v) (sortOracles xs by_key) = filter (\<lambda>s. sort_value by_key s = v) xs)
    \<and> sortOracles (filterByPhaseGroup xs flt) by_key = filterByPhaseGroup (sortOracles xs by_key) flt"
proof (intro conjI allI)
  show "sorted_wrt (\<lambda>a b. sort_value by_key a \<ge> sort_value by_key b) (sortOracles xs by_key)"
    using sorted_sort_key [of "\<lambda>s. - sort_value by_key s" xs]
    by (simp add: sortOracles_key sorted_map)
  show "filter (\<lambda>s. sort_value by_key s = v) (sortOracles xs by_key) = filter (\<lambda>s. sort_value by_key s = v) xs" for v
    using sort_key_stable [of "\<lambda>s. - sort_value by_key s" "- v" xs] by (simp add: sortOracles_key)
  show "sortOracles (filterByPhaseGroup xs flt) by_key = filterByPhaseGroup (sortOracles xs by_key) flt"
    by (cases flt) (simp_all add: sortOracles_key filterByPhaseGroup_def filter_sort)
qed (simp add: sortOracles_key)

section \<open>Facts: the lifecycle strip\<close>

lemma length_timeline [simp]: "length (phaseTimelineModel p) = 6"
  by (simp add: phaseTimelineModel_def STAGES_def Let_def)

fun status_rank :: "StepStatus \<Rightarrow> nat" where
  "status_rank StepFuture = 0"
| "status_rank StepCurrent = 1"
| "status_rank StepDone = 2"

lemma timeline_statuses:
  "map ts_status (phaseTimelineModel p) = map (\<lambda>i. if stageIndexOf p < 0 \<or> int i > stageIndexOf p then StepFuture
    else if int i = stageIndexOf p then StepCurrent else StepDone) [0..<6]"
  by (simp add: phaseTimelineModel_def STAGES_def Let_def upt_rec)

lemma stage_indices:
  "stageIndexOf (Some q) = (case q of Ph_Created \<Rightarrow> - 1 | Ph_Proposal \<Rightarrow> 0 | Ph_FactProposal \<Rightarrow> 1 | Ph_FactVoting \<Rightarrow> 2
    | Ph_AiClaim \<Rightarrow> 3 | Ph_Challenge \<Rightarrow> 4 | Ph_FinalRecompute \<Rightarrow> 4 | Ph_Resolved \<Rightarrow> 5 | Ph_InvalidDeadend \<Rightarrow> 5)"
  by (cases q) (simp_all add: stageIndexOf_def STAGES_def)

inductive_cases phase_stepE: "phase_step p q"

lemma phase_step_index:
  assumes "phase_step p q" "p \<notin> {Ph_Created, Ph_FinalRecompute}"
  shows "q \<notin> {Ph_Created, Ph_FinalRecompute} \<and> 0 \<le> stageIndexOf (Some p)
    \<and> stageIndexOf (Some p) \<le> stageIndexOf (Some q) \<and> stageIndexOf (Some q) \<le> 5"
  using assms
  by (elim phase_stepE)
    (auto simp: finalize_proposals_phase_def advance_phase_phase_def facts_phase_defs
      finalize_ai_claims_phase_def finalize_oracle_phase_def resolve_deadend_phase_def stage_indices split: if_splits)

lemma reached_phases: "reached p \<Longrightarrow> p \<notin> {Ph_Created, Ph_FinalRecompute} \<and> 0 \<le> stageIndexOf (Some p)
    \<and> stageIndexOf (Some p) \<le> 5"
  unfolding reached_def
proof (induction rule: rtranclp_induct)
  case base
  show ?case by (simp add: stage_indices)
next
  case (step y z)
  then show ?case using phase_step_index [of y z] by linarith
qed


fun phase_rank :: "Phase \<Rightarrow> nat" where
  "phase_rank Ph_Created = 0"
| "phase_rank Ph_Proposal = 0"
| "phase_rank Ph_FactProposal = 1"
| "phase_rank Ph_FactVoting = 2"
| "phase_rank Ph_AiClaim = 3"
| "phase_rank Ph_Challenge = 4"
| "phase_rank Ph_FinalRecompute = 4"
| "phase_rank Ph_InvalidDeadend = 5"
| "phase_rank Ph_Resolved = 6"

lemma phase_step_rank: "phase_step p q \<Longrightarrow> q = p \<or> phase_rank p < phase_rank q"
  by (elim phase_stepE)
    (auto simp: finalize_proposals_phase_def advance_phase_phase_def facts_phase_defs
      finalize_ai_claims_phase_def finalize_oracle_phase_def resolve_deadend_phase_def split: if_splits)

lemma phase_steps:
  "phase_step Ph_Proposal Ph_FactProposal" "phase_step Ph_FactProposal Ph_FactVoting" "phase_step Ph_FactVoting Ph_AiClaim"
  "phase_step Ph_AiClaim Ph_Challenge" "phase_step Ph_Challenge Ph_Resolved" "phase_step Ph_InvalidDeadend Ph_Resolved"
  "phase_step Ph_FactVoting Ph_InvalidDeadend"
  using phase_step.proposals [of False] phase_step.advance phase_step.facts [of 1 0 1] phase_step.ai_claims [of 0 0]
    phase_step.finalize [of True] phase_step.deadend phase_step.facts [of 0 0]
  by (simp_all add: finalize_proposals_phase_def advance_phase_phase_def facts_phase_defs
      finalize_ai_claims_phase_def finalize_oracle_phase_def resolve_deadend_phase_def)

lemma reaches_resolved: "p \<notin> {Ph_Created, Ph_FinalRecompute} \<Longrightarrow> phase_step\<^sup>*\<^sup>* p Ph_Resolved"
  using phase_steps by (cases p) (meson rtranclp.rtrancl_refl converse_rtranclp_into_rtranclp | simp)+

lemma resolved_final: "\<not> phase_step Ph_Resolved q"
  by (auto elim!: phase_stepE simp: finalize_proposals_phase_def advance_phase_phase_def facts_phase_defs
      finalize_ai_claims_phase_def finalize_oracle_phase_def resolve_deadend_phase_def)

lemma phase_run_bound:
  "successively (\<lambda>p q. phase_step p q \<and> p \<noteq> q) (p # ps) \<Longrightarrow> length ps + phase_rank p \<le> 6"
proof (induction ps arbitrary: p)
  case Nil
  show ?case by (cases p) simp_all
next
  case (Cons q ps)
  then have "phase_rank p < phase_rank q" using phase_step_rank by auto
  then show ?case using Cons.IH [of q] Cons.prems by simp
qed


section \<open>Witnesses\<close>


definition sample_summaries :: "256 word oracle_summary list" where
  "sample_summaries = [\<lparr>os_pubkey = ''A'', os_oracle = sample_oracle\<lparr>orc_phase := Some Ph_Resolved\<rparr>\<rparr>,
     \<lparr>os_pubkey = ''B'', os_oracle = sample_oracle\<lparr>orc_phase := Some Ph_Challenge\<rparr>\<rparr>]"

theorem dashboard_adds_up_witness:
  "st_bondsAtRisk (deriveStats (\<lparr>os_pubkey = ''C'', os_oracle = sample_oracle\<lparr>orc_phase := None\<rparr>\<rparr> # sample_summaries))
    = 2 * oracleBonds sample_oracle
   \<and> pc_total (st_counts (deriveStats sample_summaries)) = 2"
  using dashboard_adds_up [OF refl, of sample_summaries]
  by (simp add: sample_summaries_def active_def isTerminal_def oracleBonds_def)


end
