(* ===== verification/Directory.thy ===== *)
theory Directory
  imports Oracle_View Market_State Create_Oracle
begin

text \<open>
  The read layer of the two apps: enumerating and assembling oracles from the indexer's account
  mirror or from an RPC scan (\<open>app/src/data/oracles.ts\<close>), and mapping, ordering and grouping the
  indexer's market records (\<open>app/src/market/data/markets.ts\<close>). What the indexer and the RPC node
  answer is a parameter; a rejected request is \<open>Inl\<close>.
\<close>

section \<open>Enumeration (oracles.ts)\<close>

definition CHILD_ORACLE_OFFSET :: nat where
  "CHILD_ORACLE_OFFSET = 8"

datatype gpa_filter = Memcmp nat string | DataSize nat

definition tagBytes :: "(bytes \<Rightarrow> string) \<Rightarrow> AccountType \<Rightarrow> string" where
  "tagBytes bs58 ty = bs58 [word_of_int (type_code ty)]"

definition typeFilters :: "(bytes \<Rightarrow> string) \<Rightarrow> AccountType \<Rightarrow> nat \<Rightarrow> gpa_filter list" where
  "typeFilters bs58 ty sz = [Memcmp 0 (tagBytes bs58 ty), DataSize sz]"

definition enumerate_accounts ::
  "'a web3 \<Rightarrow> (bytes \<Rightarrow> string) \<Rightarrow> ('a \<Rightarrow> gpa_filter list \<Rightarrow> ('a \<times> bytes) list res) \<Rightarrow> AccountType \<Rightarrow> nat
    \<Rightarrow> (bytes \<Rightarrow> 'b res) \<Rightarrow> gpa_filter list \<Rightarrow> (string \<times> 'b) list res" where
  "enumerate_accounts W bs58 getProgramAccounts ty sz decode extraFilters =
     rbind (getProgramAccounts (KASSANDRA_PROGRAM_ID W) (typeFilters bs58 ty sz @ extraFilters)) (\<lambda>accounts.
     Inr (fold (\<lambda>(pubkey, account) out.
       case decode account of Inr v \<Rightarrow> out @ [(w3_string W pubkey, v)] | Inl _ \<Rightarrow> out) accounts []))"

record indexed_account =
  ia_pubkey :: string
  ia_data :: bytes

definition fetchOracles ::
  "'a web3 \<Rightarrow> (bytes \<Rightarrow> string) \<Rightarrow> indexed_account list option \<Rightarrow> ('a \<Rightarrow> gpa_filter list \<Rightarrow> ('a \<times> bytes) list res)
    \<Rightarrow> 'a oracle_summary list res" where
  "fetchOracles W bs58 indexed getProgramAccounts =
     rbind
       (case indexed of
          Some (r # rs) \<Rightarrow>
            Inr (concat (map (\<lambda>a. case decodeOracle W (ia_data a) of
              Inr x \<Rightarrow> [\<lparr>os_pubkey = ia_pubkey a, os_oracle = x\<rparr>] | Inl _ \<Rightarrow> []) (r # rs)))
        | _ \<Rightarrow>
            rmap (map (\<lambda>(k, v). \<lparr>os_pubkey = k, os_oracle = v\<rparr>))
              (enumerate_accounts W bs58 getProgramAccounts AT_Oracle (the (ACCOUNT_SIZES AT_Oracle)) (decodeOracle W) []))
       (\<lambda>summaries. Inr (js_sort cmpDeadlineDesc summaries))"

section \<open>Detail (oracles.ts)\<close>

record 'a oracle_detail =
  od_pubkey :: string
  od_oracle :: "'a oracle_account"
  od_facts :: "(string \<times> 'a fact_account) list"
  od_proposers :: "(string \<times> 'a proposer_account) list"
  od_aiClaims :: "(string \<times> 'a aiclaim_account) list"
  od_market :: "(string \<times> 'a market_account) option"

text \<open>
  One iteration of the loop over the children: the switch on the type tag inside the \<open>try\<close>. An
  empty account has no tag.
\<close>

definition child_step ::
  "'a web3 \<Rightarrow> string \<Rightarrow> int option \<Rightarrow> bytes \<Rightarrow> 'a oracle_detail \<Rightarrow> 'a oracle_detail" where
  "child_step W key tag data d =
     (if tag = Some (type_code AT_Fact) then
        (case decodeFact W data of Inr x \<Rightarrow> d\<lparr>od_facts := od_facts d @ [(key, x)]\<rparr> | Inl _ \<Rightarrow> d)
      else if tag = Some (type_code AT_Proposer) then
        (case decodeProposer W data of Inr x \<Rightarrow> d\<lparr>od_proposers := od_proposers d @ [(key, x)]\<rparr> | Inl _ \<Rightarrow> d)
      else if tag = Some (type_code AT_AiClaim) then
        (case decodeAiClaim W data of Inr x \<Rightarrow> d\<lparr>od_aiClaims := od_aiClaims d @ [(key, x)]\<rparr> | Inl _ \<Rightarrow> d)
      else if tag = Some (type_code AT_Market) then
        (if od_market d = None
         then (case decodeMarket W data of Inr x \<Rightarrow> d\<lparr>od_market := Some (key, x)\<rparr> | Inl _ \<Rightarrow> d) else d)
      else d)"

definition no_children :: "string \<Rightarrow> 'a oracle_account \<Rightarrow> 'a oracle_detail" where
  "no_children pubkey orc = \<lparr>od_pubkey = pubkey, od_oracle = orc, od_facts = [], od_proposers = [],
     od_aiClaims = [], od_market = None\<rparr>"

record indexed_child = indexed_account +
  ic_accountType :: int

definition assembleDetailFromIndexed :: "'a web3 \<Rightarrow> string \<Rightarrow> indexed_child list \<Rightarrow> 'a oracle_detail option" where
  "assembleDetailFromIndexed W oraclePubkey accounts =
     (case find (\<lambda>a. ic_accountType a = type_code AT_Oracle \<and> ia_pubkey a = oraclePubkey) accounts of
        None \<Rightarrow> None
      | Some oracleAcct \<Rightarrow>
          (case decodeOracle W (ia_data oracleAcct) of
             Inl _ \<Rightarrow> None
           | Inr orc \<Rightarrow> Some (fold (\<lambda>a. child_step W (ia_pubkey a) (Some (ic_accountType a)) (ia_data a))
               accounts (no_children oraclePubkey orc))))"

definition data_tag :: "bytes \<Rightarrow> int option" where
  "data_tag data = (case data of [] \<Rightarrow> None | b # _ \<Rightarrow> Some (uint b))"

definition fetchOracleDetail ::
  "'a web3 \<Rightarrow> indexed_child list option \<Rightarrow> ('a \<Rightarrow> bytes option res) \<Rightarrow> ('a \<Rightarrow> gpa_filter list \<Rightarrow> ('a \<times> bytes) list res)
    \<Rightarrow> string \<Rightarrow> 'a oracle_detail res" where
  "fetchOracleDetail W indexedChildren getAccountInfo getProgramAccounts oraclePubkey =
     (case (case indexedChildren of Some (r # rs) \<Rightarrow> assembleDetailFromIndexed W oraclePubkey (r # rs) | _ \<Rightarrow> None) of
        Some detail \<Rightarrow> Inr detail
      | None \<Rightarrow>
          rbind (lift_web (w3_of_string W oraclePubkey)) (\<lambda>a.
          rbind (getAccountInfo a) (\<lambda>info.
          case info of
            None \<Rightarrow> Inl (OtherErr ''OracleNotFoundError'')
          | Some data \<Rightarrow>
              if data = [] then Inl (OtherErr ''OracleNotFoundError'')
              else (case decodeOracle W data of
                 Inl _ \<Rightarrow> Inl (OtherErr ''OracleNotFoundError'')
               | Inr orc \<Rightarrow>
                   rbind (getProgramAccounts (KASSANDRA_PROGRAM_ID W) [Memcmp CHILD_ORACLE_OFFSET oraclePubkey]) (\<lambda>children.
                   Inr (fold (\<lambda>(pubkey, account). child_step W (w3_string W pubkey) (data_tag account) account)
                     children (no_children oraclePubkey orc)))))))"

section \<open>Market records (markets.ts)\<close>

text \<open>
  \<open>BigInt\<close> of a string: surrounding white space is ignored, the empty string is 0, a decimal may
  have a sign, a hexadecimal, octal or binary literal may not; anything else throws.
\<close>

definition radix_value :: "int \<Rightarrow> utext \<Rightarrow> int option" where
  "radix_value r ds =
     (if ds = [] then None
      else foldl (\<lambda>acc c. case (acc, hex_digit c) of
        (Some v, Some d) \<Rightarrow> if d < r then Some (r * v + d) else None | _ \<Rightarrow> None) (Some 0) ds)"

definition js_BigInt :: "utext \<Rightarrow> int res" where
  "js_BigInt s =
     (let t = js_trim s;
          bad = (\<lambda>r. case r of Some v \<Rightarrow> Inr v | None \<Rightarrow> Inl (OtherErr ''SyntaxError'')) in
      case t of
        [] \<Rightarrow> Inr 0
      | [c] \<Rightarrow> bad (radix_value 10 [c])
      | c # x # ds \<Rightarrow>
          if c = 48 \<and> (x = 120 \<or> x = 88) then bad (radix_value 16 ds)
          else if c = 48 \<and> (x = 111 \<or> x = 79) then bad (radix_value 8 ds)
          else if c = 48 \<and> (x = 98 \<or> x = 66) then bad (radix_value 2 ds)
          else if c = 45 then bad (map_option uminus (radix_value 10 (x # ds)))
          else if c = 43 then bad (radix_value 10 (x # ds))
          else bad (radix_value 10 t))"

record market_dto =
  md_address :: string
  md_status :: int
  md_oracle :: string
  md_creator :: string
  md_kassMint :: string
  md_escrowVault :: string
  md_minLiquidity :: utext
  md_totalContributed :: utext
  md_openContributions :: int
  md_bump :: int
  md_escrowBump :: int
  md_outcomeIndex :: int
  md_feeBps :: int
  md_feeCollected :: int
  md_settled :: int
  md_question :: string
  md_vault :: string
  md_yesMint :: string
  md_noMint :: string
  md_amm :: string
  md_lpMint :: string
  md_lpVault :: string
  md_lpTotal :: utext
  md_activationLp :: utext
  md_activationContributed :: utext
  md_grossLpTotal :: utext

definition mapMarketDto :: "'a web3 \<Rightarrow> market_dto \<Rightarrow> 'a mmarket_account res" where
  "mapMarketDto W dto =
     (let address = (\<lambda>s. lift_web (w3_of_string W s)) in
      rbind (address (md_oracle dto)) (\<lambda>orc.
      rbind (address (md_creator dto)) (\<lambda>creator.
      rbind (address (md_kassMint dto)) (\<lambda>kassMint.
      rbind (address (md_escrowVault dto)) (\<lambda>escrowVault.
      rbind (js_BigInt (md_minLiquidity dto)) (\<lambda>minLiquidity.
      rbind (js_BigInt (md_totalContributed dto)) (\<lambda>totalContributed.
      rbind (address (md_question dto)) (\<lambda>question.
      rbind (address (md_vault dto)) (\<lambda>vault.
      rbind (address (md_yesMint dto)) (\<lambda>yesMint.
      rbind (address (md_noMint dto)) (\<lambda>noMint.
      rbind (address (md_amm dto)) (\<lambda>amm.
      rbind (address (md_lpMint dto)) (\<lambda>lpMint.
      rbind (address (md_lpVault dto)) (\<lambda>lpVault.
      rbind (js_BigInt (md_lpTotal dto)) (\<lambda>lpTotal.
      rbind (js_BigInt (md_activationLp dto)) (\<lambda>activationLp.
      rbind (js_BigInt (md_activationContributed dto)) (\<lambda>activationContributed.
      rbind (js_BigInt (md_grossLpTotal dto)) (\<lambda>grossLpTotal.
      Inr \<lparr>mm_accountType = MAT_Market, mm_oracle = orc, mm_creator = creator, mm_kassMint = kassMint,
        mm_escrowVault = escrowVault, mm_minLiquidity = minLiquidity, mm_totalContributed = totalContributed,
        mm_openContributions = md_openContributions dto, mm_status = md_status dto, mm_bump = md_bump dto,
        mm_escrowBump = md_escrowBump dto, mm_question = question, mm_vault = vault, mm_yesMint = yesMint,
        mm_noMint = noMint, mm_amm = amm, mm_lpMint = lpMint, mm_lpVault = lpVault, mm_lpTotal = lpTotal,
        mm_settled = (md_settled dto \<noteq> 0), mm_feeBps = md_feeBps dto, mm_feeCollected = (md_feeCollected dto \<noteq> 0),
        mm_outcomeIndex = md_outcomeIndex dto, mm_activationLp = activationLp,
        mm_activationContributed = activationContributed, mm_grossLpTotal = grossLpTotal\<rparr>))))))))))))))))))"

record contribution_dto =
  cd_market :: string
  cd_contributor :: string
  cd_amount :: utext
  cd_claimed :: bool
  cd_bump :: int
  cd_lateLp :: utext
  cd_slot :: "utext option"

definition mapContributionDto :: "'a web3 \<Rightarrow> contribution_dto \<Rightarrow> 'a mcontribution_account res" where
  "mapContributionDto W dto =
     rbind (lift_web (w3_of_string W (cd_market dto))) (\<lambda>market.
     rbind (lift_web (w3_of_string W (cd_contributor dto))) (\<lambda>contributor.
     rbind (js_BigInt (cd_amount dto)) (\<lambda>amount.
     rbind (js_BigInt (cd_lateLp dto)) (\<lambda>lateLp.
     Inr \<lparr>mcn_accountType = MAT_Contribution, mcn_market = market, mcn_contributor = contributor, mcn_amount = amount,
       mcn_claimed = cd_claimed dto, mcn_bump = cd_bump dto, mcn_lateLp = lateLp\<rparr>))))"

record config_dto =
  cf_authority :: string
  cf_kassMint :: string
  cf_minLiquidity :: utext
  cf_bump :: int
  cf_feeBps :: int
  cf_feeDestination :: string

definition mapConfigDto :: "'a web3 \<Rightarrow> config_dto \<Rightarrow> 'a mconfig_account res" where
  "mapConfigDto W dto =
     rbind (lift_web (w3_of_string W (cf_authority dto))) (\<lambda>authority.
     rbind (lift_web (w3_of_string W (cf_kassMint dto))) (\<lambda>kassMint.
     rbind (js_BigInt (cf_minLiquidity dto)) (\<lambda>minLiquidity.
     rbind (lift_web (w3_of_string W (cf_feeDestination dto))) (\<lambda>feeDestination.
     Inr \<lparr>mcc_accountType = MAT_Config, mcc_authority = authority, mcc_kassMint = kassMint,
       mcc_minLiquidity = minLiquidity, mcc_bump = cf_bump dto, mcc_feeBps = cf_feeBps dto,
       mcc_feeDestination = feeDestination\<rparr>))))"

definition mapReservesDto :: "utext \<times> utext \<Rightarrow> amm_reserves res" where
  "mapReservesDto dto =
     rbind (js_BigInt (fst dto)) (\<lambda>base. rbind (js_BigInt (snd dto)) (\<lambda>quote.
       Inr \<lparr>ar_base = base, ar_quote = quote\<rparr>))"

record market_detail_dto =
  dd_market :: market_dto
  dd_contributions :: "contribution_dto list"
  dd_oracle :: "market_oracle option"
  dd_reserves :: "(utext \<times> utext) option"

record 'a market_summary =
  ms_pubkey :: string
  ms_market :: "'a mmarket_account"
  ms_reserves :: "amm_reserves option"
  ms_oracleOptionsCount :: "int option"

text \<open>The reads of the indexer client: the list, one market (\<open>None\<close> for 404) and the config.\<close>

record indexer_reads =
  ir_getMarkets :: "market_dto list res"
  ir_getMarket :: "string \<Rightarrow> market_detail_dto option res"
  ir_getConfig :: "config_dto option res"

definition summarize :: "'a web3 \<Rightarrow> indexer_reads \<Rightarrow> market_dto \<Rightarrow> 'a market_summary res" where
  "summarize W indexer dto =
     (let detail = (case ir_getMarket indexer (md_address dto) of Inr d \<Rightarrow> d | Inl _ \<Rightarrow> None) in
      rbind (mapMarketDto W dto) (\<lambda>market.
      rbind (case map_option dd_reserves detail of
          Some (Some r) \<Rightarrow> rmap Some (mapReservesDto r) | _ \<Rightarrow> Inr None) (\<lambda>reserves.
      Inr \<lparr>ms_pubkey = md_address dto, ms_market = market, ms_reserves = reserves,
        ms_oracleOptionsCount = (case map_option dd_oracle detail of
          Some (Some x) \<Rightarrow> Some (mo_optionsCount x) | _ \<Rightarrow> None)\<rparr>)))"

definition cmpContributedDesc :: "'a market_summary \<Rightarrow> 'a market_summary \<Rightarrow> int" where
  "cmpContributedDesc a b =
     (if mm_totalContributed (ms_market b) > mm_totalContributed (ms_market a) then 1
      else if mm_totalContributed (ms_market b) < mm_totalContributed (ms_market a) then - 1 else 0)"

definition fetchMarkets :: "'a web3 \<Rightarrow> indexer_reads \<Rightarrow> 'a market_summary list res" where
  "fetchMarkets W indexer =
     rbind (ir_getMarkets indexer) (\<lambda>markets.
     rbind (collect (map (summarize W indexer) markets)) (\<lambda>summaries.
     Inr (js_sort cmpContributedDesc summaries)))"

record 'a contribution_row =
  cr_pubkey :: string
  cr_slot :: int
  cr_contribution :: "'a mcontribution_account"

record 'a market_detail =
  mt_pubkey :: string
  mt_market :: "'a mmarket_account"
  mt_contributions :: "'a contribution_row list"
  mt_oracle :: "market_oracle option"
  mt_reserves :: "amm_reserves option"

definition contribution_row_of :: "'a web3 \<Rightarrow> string \<Rightarrow> contribution_dto \<Rightarrow> 'a contribution_row res" where
  "contribution_row_of W marketPubkey c =
     rbind (mkt_contribution W (B58 marketPubkey) (B58 (cd_contributor c)) None) (\<lambda>pda.
     rbind (case cd_slot c of Some s \<Rightarrow> js_BigInt s | None \<Rightarrow> Inr 0) (\<lambda>slot.
     rbind (mapContributionDto W c) (\<lambda>contribution.
     Inr \<lparr>cr_pubkey = w3_string W (pda_address pda), cr_slot = slot, cr_contribution = contribution\<rparr>)))"

definition cmpSlotDesc :: "'a contribution_row \<Rightarrow> 'a contribution_row \<Rightarrow> int" where
  "cmpSlotDesc a b = (if cr_slot a > cr_slot b then - 1 else if cr_slot a < cr_slot b then 1 else 0)"

definition fetchMarketDetail :: "'a web3 \<Rightarrow> indexer_reads \<Rightarrow> string \<Rightarrow> 'a market_detail res" where
  "fetchMarketDetail W indexer marketPubkey =
     rbind (ir_getMarket indexer marketPubkey) (\<lambda>found.
     case found of
       None \<Rightarrow> Inl (OtherErr ''MarketNotFoundError'')
     | Some detail \<Rightarrow>
         rbind (collect (map (contribution_row_of W marketPubkey) (dd_contributions detail))) (\<lambda>rows.
         rbind (mapMarketDto W (dd_market detail)) (\<lambda>market.
         rbind (case dd_reserves detail of Some r \<Rightarrow> rmap Some (mapReservesDto r) | None \<Rightarrow> Inr None) (\<lambda>reserves.
         Inr \<lparr>mt_pubkey = marketPubkey, mt_market = market, mt_contributions = js_sort cmpSlotDesc rows,
           mt_oracle = dd_oracle detail, mt_reserves = reserves\<rparr>))))"

definition fetchConfig :: "'a web3 \<Rightarrow> indexer_reads \<Rightarrow> 'a mconfig_account option res" where
  "fetchConfig W indexer =
     rbind (ir_getConfig indexer) (\<lambda>dto.
     case dto of None \<Rightarrow> Inr None | Some d \<Rightarrow> rmap Some (mapConfigDto W d))"

section \<open>Grouping (markets.ts)\<close>

record 'a oracle_group =
  og_oracle :: string
  og_optionsCount :: "int option"
  og_markets :: "'a market_summary list"

text \<open>A \<open>Map\<close> keeps its keys in the order in which they were first set.\<close>

fun add_to_group ::
  "string \<Rightarrow> 'a market_summary \<Rightarrow> (string \<times> 'a market_summary list) list \<Rightarrow> (string \<times> 'a market_summary list) list" where
  "add_to_group k x [] = [(k, [x])]"
| "add_to_group k x ((k', xs) # m) = (if k' = k then (k', xs @ [x]) # m else (k', xs) # add_to_group k x m)"

definition by_oracle :: "'a web3 \<Rightarrow> 'a market_summary list \<Rightarrow> (string \<times> 'a market_summary list) list" where
  "by_oracle W summaries = fold (\<lambda>s. add_to_group (w3_string W (mm_oracle (ms_market s))) s) summaries []"

definition cmpOutcome :: "'a market_summary \<Rightarrow> 'a market_summary \<Rightarrow> int" where
  "cmpOutcome a b = mm_outcomeIndex (ms_market a) - mm_outcomeIndex (ms_market b)"

definition groupByOracle :: "'a web3 \<Rightarrow> 'a market_summary list \<Rightarrow> 'a oracle_group list" where
  "groupByOracle W summaries =
     map (\<lambda>(k, xs). let markets = js_sort cmpOutcome xs in
       \<lparr>og_oracle = k,
         og_optionsCount = (case find (\<lambda>m. ms_oracleOptionsCount m \<noteq> None) markets of
           Some m \<Rightarrow> ms_oracleOptionsCount m | None \<Rightarrow> None),
         og_markets = markets\<rparr>)
       (by_oracle W summaries)"

definition isCategorical :: "'a oracle_group \<Rightarrow> bool" where
  "isCategorical g =
     (case og_optionsCount g of Some n \<Rightarrow> n > 2 | None \<Rightarrow> length (og_markets g) > 1)"

section \<open>The other end: the indexer and the RPC node\<close>

text \<open>
  The indexer's decoder of an account (\<open>indexer/src/oracle_accounts.rs\<close>): the tag, and the base58 parent
  of a child; \<open>None\<close> when the account is not mirrored.
\<close>

definition decode_account :: "(bytes \<Rightarrow> string) \<Rightarrow> bytes \<Rightarrow> (int \<times> string option) option" where
  "decode_account bs58 data =
     (case data of
        [] \<Rightarrow> None
      | b # _ \<Rightarrow>
          (let tag = uint b in
           if tag = 1 then Some (tag, None)
           else if tag \<in> {2, 3, 4, 5, 6} then
             (if length data < CHILD_ORACLE_OFFSET + 32 then None
              else Some (tag, Some (bs58 (take 32 (drop CHILD_ORACLE_OFFSET data)))))
           else None))"

text \<open>A row of the table \<open>oracle_accounts\<close>: an Oracle is its own parent.\<close>

record stored_row = indexed_child +
  sr_oracle_ref :: string

definition persist_row :: "(bytes \<Rightarrow> string) \<Rightarrow> string \<Rightarrow> bytes \<Rightarrow> stored_row option" where
  "persist_row bs58 pubkey data =
     (case decode_account bs58 data of
        None \<Rightarrow> None
      | Some (tag, child_oracle) \<Rightarrow>
          Some \<lparr>ia_pubkey = pubkey, ia_data = data, ic_accountType = tag,
            sr_oracle_ref = (case child_oracle of Some p \<Rightarrow> p | None \<Rightarrow> pubkey)\<rparr>)"

text \<open>The mirror of the accounts of the program, and the two queries, up to the order of the rows.\<close>

definition mirror :: "'a web3 \<Rightarrow> (bytes \<Rightarrow> string) \<Rightarrow> ('a \<times> bytes) list \<Rightarrow> stored_row list" where
  "mirror W bs58 accounts = List.map_filter (\<lambda>(k, data). persist_row bs58 (w3_string W k) data) accounts"

definition list_oracles :: "stored_row list \<Rightarrow> indexed_account list" where
  "list_oracles rows = map (\<lambda>r. \<lparr>ia_pubkey = ia_pubkey r, ia_data = ia_data r\<rparr>) (filter (\<lambda>r. ic_accountType r = 1) rows)"

definition list_by_oracle :: "stored_row list \<Rightarrow> string \<Rightarrow> indexed_child list" where
  "list_by_oracle rows orc =
     map (\<lambda>r. \<lparr>ia_pubkey = ia_pubkey r, ia_data = ia_data r, ic_accountType = ic_accountType r\<rparr>)
       (filter (\<lambda>r. sr_oracle_ref r = orc) rows)"

text \<open>
  What the RPC methods promise: \<open>getProgramAccounts\<close> returns the program's accounts that pass every
  filter, \<open>getAccountInfo\<close> one account; a \<open>memcmp\<close> compares the decoded base58 bytes at its offset.
\<close>

definition filter_holds :: "(string \<Rightarrow> bytes) \<Rightarrow> gpa_filter \<Rightarrow> bytes \<Rightarrow> bool" where
  "filter_holds unb58 f data =
     (case f of
        Memcmp off s \<Rightarrow> take (length (unb58 s)) (drop off data) = unb58 s
      | DataSize n \<Rightarrow> length data = n)"

definition node_serves ::
  "'a web3 \<Rightarrow> (string \<Rightarrow> bytes) \<Rightarrow> ('a \<times> bytes) list \<Rightarrow> ('a \<Rightarrow> bytes option res)
    \<Rightarrow> ('a \<Rightarrow> gpa_filter list \<Rightarrow> ('a \<times> bytes) list res) \<Rightarrow> bool" where
  "node_serves W unb58 accounts getAccountInfo getProgramAccounts \<longleftrightarrow>
     distinct (map fst accounts) \<and>
     (\<forall>a. getAccountInfo a = Inr (map_of accounts a)) \<and>
     (\<forall>fs. getProgramAccounts (KASSANDRA_PROGRAM_ID W) fs
        = Inr (filter (\<lambda>(k, data). \<forall>f\<in>set fs. filter_holds unb58 f data) accounts))"

definition base58_ok :: "'a web3 \<Rightarrow> (bytes \<Rightarrow> string) \<Rightarrow> (string \<Rightarrow> bytes) \<Rightarrow> bool" where
  "base58_ok W bs58 unb58 \<longleftrightarrow> (\<forall>bs. unb58 (bs58 bs) = bs) \<and> (\<forall>a. bs58 (w3_bytes W a) = w3_string W a)"

text \<open>The records of the indexer's market API (\<open>indexer/src/market/json.rs\<close>): u64 as decimal text.\<close>

definition u64_string :: "int \<Rightarrow> utext" where
  "u64_string n = dec_nat (nat n)"

definition marketDto_new :: "(bytes \<Rightarrow> string) \<Rightarrow> 'a web3 \<Rightarrow> bytes \<Rightarrow> 'a mmarket_account \<Rightarrow> market_dto" where
  "marketDto_new b58 W address m =
     (let key = (\<lambda>a. b58 (w3_bytes W a)) in
      \<lparr>md_address = b58 address, md_status = mm_status m, md_oracle = key (mm_oracle m),
       md_creator = key (mm_creator m), md_kassMint = key (mm_kassMint m), md_escrowVault = key (mm_escrowVault m),
       md_minLiquidity = u64_string (mm_minLiquidity m), md_totalContributed = u64_string (mm_totalContributed m),
       md_openContributions = mm_openContributions m, md_bump = mm_bump m, md_escrowBump = mm_escrowBump m,
       md_outcomeIndex = mm_outcomeIndex m, md_feeBps = mm_feeBps m,
       md_feeCollected = (if mm_feeCollected m then 1 else 0), md_settled = (if mm_settled m then 1 else 0),
       md_question = key (mm_question m), md_vault = key (mm_vault m), md_yesMint = key (mm_yesMint m),
       md_noMint = key (mm_noMint m), md_amm = key (mm_amm m), md_lpMint = key (mm_lpMint m),
       md_lpVault = key (mm_lpVault m), md_lpTotal = u64_string (mm_lpTotal m),
       md_activationLp = u64_string (mm_activationLp m),
       md_activationContributed = u64_string (mm_activationContributed m),
       md_grossLpTotal = u64_string (mm_grossLpTotal m)\<rparr>)"

definition configDto_new :: "(bytes \<Rightarrow> string) \<Rightarrow> 'a web3 \<Rightarrow> 'a mconfig_account \<Rightarrow> config_dto" where
  "configDto_new b58 W c =
     \<lparr>cf_authority = b58 (w3_bytes W (mcc_authority c)), cf_kassMint = b58 (w3_bytes W (mcc_kassMint c)),
      cf_minLiquidity = u64_string (mcc_minLiquidity c), cf_bump = mcc_bump c, cf_feeBps = mcc_feeBps c,
      cf_feeDestination = b58 (w3_bytes W (mcc_feeDestination c))\<rparr>"

definition contributionDto_new :: "(bytes \<Rightarrow> string) \<Rightarrow> 'a web3 \<Rightarrow> 'a mcontribution_account \<Rightarrow> int \<Rightarrow> contribution_dto" where
  "contributionDto_new b58 W c slot =
     \<lparr>cd_market = b58 (w3_bytes W (mcn_market c)), cd_contributor = b58 (w3_bytes W (mcn_contributor c)),
      cd_amount = u64_string (mcn_amount c), cd_claimed = mcn_claimed c, cd_bump = mcn_bump c,
      cd_lateLp = u64_string (mcn_lateLp c), cd_slot = Some (u64_string slot)\<rparr>"

section \<open>A concrete instance\<close>

definition sample_b58 :: "bytes \<Rightarrow> string" where
  "sample_b58 bs = map (\<lambda>b. char_of (uint b)) bs"

definition sample_unb58 :: "string \<Rightarrow> bytes" where
  "sample_unb58 s = map (\<lambda>c. word_of_int (of_char c)) s"

lemma sample_b58_ok: "base58_ok sample_web3 sample_b58 sample_unb58"
proof -
  have "(word_of_int (of_char (char_of (uint b) :: char)) :: byte) = b" for b :: byte
    by (simp add: uint_byte_bounds take_bit_int_eq_self)
  then show ?thesis by (simp add: base58_ok_def sample_b58_def sample_unb58_def sample_web3_def comp_def)
qed

end
