(* ===== verification/Directory_Facts.thy ===== *)
theory Directory_Facts
  imports Directory
begin

text \<open>
  What the read layer promises: an oracle list and an oracle's detail hold the same accounts whether
  they come from the indexer's mirror or from the RPC node, the market records of the indexer decode to
  the accounts they were made from, and the groups of the market list partition it.
\<close>

section \<open>Lists\<close>

lemma concat_map_perm: "mset xs = mset ys \<Longrightarrow> mset (concat (map f xs)) = mset (concat (map f ys))"
  by (metis mset_concat mset_map map_map sum_mset_sum_list)

lemma map_filter_concat: "List.map_filter f xs = concat (map (\<lambda>x. case f x of Some y \<Rightarrow> [y] | None \<Rightarrow> []) xs)"
  by (induction xs) (simp_all add: List.map_filter_simps split: option.splits)

lemma in_map_filter: "y \<in> set (List.map_filter f xs) \<longleftrightarrow> (\<exists>x\<in>set xs. f x = Some y)"
  by (induction xs) (auto simp: List.map_filter_simps split: option.splits)

lemma concat_filter: "concat (map f (filter P xs)) = concat (map (\<lambda>x. if P x then f x else []) xs)"
  by (induction xs) auto

lemma sorted_perm_keys:
  fixes k :: "'a \<Rightarrow> int"
  assumes "mset xs = mset ys"
  shows "map k (sort_key k xs) = map k (sort_key k ys)"
proof -
  have "sort (map k xs) = map k (sort_key k xs)" for xs :: "'a list"
    by (rule properties_for_sort) simp_all
  then show ?thesis using assms by (metis mset_map sorted_list_of_multiset_mset)
qed

section \<open>The list of oracles\<close>

definition decodable :: "'a web3 \<Rightarrow> (string \<times> bytes) list \<Rightarrow> 'a oracle_summary list" where
  "decodable W rows = concat (map (\<lambda>(k, data). case decodeOracle W data of
     Inr x \<Rightarrow> [\<lparr>os_pubkey = k, os_oracle = x\<rparr>] | Inl _ \<Rightarrow> []) rows)"

lemma enumerate_fold:
  "map g (fold (\<lambda>(pubkey, account) out. case dec account of Inr v \<Rightarrow> out @ [(w3_string W pubkey, v)] | Inl _ \<Rightarrow> out) xs out)
    = map g out @ concat (map (\<lambda>(k, d). case dec d of Inr v \<Rightarrow> [g (w3_string W k, v)] | Inl _ \<Rightarrow> []) xs)"
  by (induction xs arbitrary: out) (auto split: sum.splits)

lemma decodeOracle_shape:
  assumes "web3_ok W" "decodeOracle W data = Inr x"
  shows "length data = 368" "data \<noteq> []" "uint (hd data) = 1"
  using assms decode_accepts_iff [OF assms(1), of AT_Oracle data] by simp_all

lemma byte_tag: "word_of_int (type_code ty) = (b :: byte) \<longleftrightarrow> uint b = type_code ty"
proof
  assume "word_of_int (type_code ty) = b"
  then show "uint b = type_code ty" using type_code_byte [of ty] by (auto simp: unsigned_range_def uint_byte_of_int)
qed (metis word_of_int_uint)

lemma type_filters_hold:
  assumes "base58_ok W bs58 unb58"
  shows "(\<forall>f\<in>set (typeFilters bs58 ty n). filter_holds unb58 f data)
    \<longleftrightarrow> length data = n \<and> data \<noteq> [] \<and> uint (hd data) = type_code ty"
  using assms
  by (cases data) (auto simp: typeFilters_def filter_holds_def tagBytes_def base58_ok_def simp flip: byte_tag)

lemma node_list:
  assumes "web3_ok W" "base58_ok W bs58 unb58" "node_serves W unb58 accounts getInfo gpa"
  shows "fetchOracles W bs58 None gpa
    = Inr (js_sort cmpDeadlineDesc (decodable W (map (\<lambda>(k, d). (w3_string W k, d)) accounts)))"
proof -
  let ?f = "\<lambda>(k, d). case decodeOracle W d of Inr v \<Rightarrow> [\<lparr>os_pubkey = w3_string W k, os_oracle = v\<rparr>] | Inl _ \<Rightarrow> []"
  let ?P = "\<lambda>(k :: 'a, data). \<forall>f\<in>set (typeFilters bs58 AT_Oracle 368). filter_holds unb58 f data"
  have sel: "(if ?P x then ?f x else []) = ?f x" for x
    using decodeOracle_shape [OF assms(1)]
    by (auto simp: type_filters_hold [OF assms(2)] split: prod.splits sum.splits)
  have "fetchOracles W bs58 None gpa = Inr (js_sort cmpDeadlineDesc (concat (map ?f (filter ?P accounts))))"
    using assms(3) by (simp add: fetchOracles_def enumerate_accounts_def node_serves_def enumerate_fold cong: sum.case_cong)
  moreover have "concat (map ?f (filter ?P accounts)) = concat (map ?f accounts)"
    unfolding concat_filter sel ..
  moreover have "decodable W (map (\<lambda>(k, d). (w3_string W k, d)) accounts) = concat (map ?f accounts)"
    unfolding decodable_def map_map by (intro arg_cong [where f = concat] map_cong) auto
  ultimately show ?thesis by simp
qed

lemma indexer_list:
  assumes "mset rows = mset (list_oracles (mirror W bs58 accounts))" "web3_ok W" "rows \<noteq> []"
  shows "\<exists>zs. fetchOracles W bs58 (Some rows) gpa = Inr (js_sort cmpDeadlineDesc zs)
    \<and> mset zs = mset (decodable W (map (\<lambda>(k, d). (w3_string W k, d)) accounts))"
proof -
  let ?g = "\<lambda>a. case decodeOracle W (ia_data a) of Inr x \<Rightarrow> [\<lparr>os_pubkey = ia_pubkey a, os_oracle = x\<rparr>] | Inl _ \<Rightarrow> []"
  have one: "concat (map ?g (list_oracles (mirror W bs58 [(k, d)])))
      = decodable W [(w3_string W k, d)]" for k d
    using decodeOracle_shape [OF assms(2), of d]
    by (cases d) (auto simp: mirror_def List.map_filter_simps persist_row_def decode_account_def list_oracles_def
        decodable_def Let_def split: option.splits sum.splits if_splits)
  have "concat (map ?g (list_oracles (mirror W bs58 accounts))) = decodable W (map (\<lambda>(k, d). (w3_string W k, d)) accounts)"
  proof (induction accounts)
    case (Cons a as)
    obtain k d where a: "a = (k, d)" by (cases a)
    have "mirror W bs58 (a # as) = mirror W bs58 [a] @ mirror W bs58 as" by (simp add: mirror_def map_filter_concat)
    then show ?case using Cons one [of k d] by (simp add: list_oracles_def a decodable_def)
  qed (simp add: mirror_def List.map_filter_simps list_oracles_def decodable_def)
  then have "mset (concat (map ?g rows)) = mset (decodable W (map (\<lambda>(k, d). (w3_string W k, d)) accounts))"
    using concat_map_perm [OF assms(1), of ?g] by simp
  then show ?thesis using assms(3) by (cases rows) (auto simp: fetchOracles_def)
qed

text \<open>
  C25: the list of oracles is complete and in order on either path. Over the accounts of the program,
  the RPC path returns exactly the accounts that decode as an oracle, by descending deadline, with
  accounts of the same deadline in the node's order: the tag and size filters lose none of them. The
  indexer's mirror of the same accounts, in whatever order its rows come, gives the same rows with the
  same sequence of deadlines, and an empty or absent answer of the indexer falls back to the RPC path.
\<close>

theorem oracle_list_complete:
  assumes "web3_ok W" "base58_ok W bs58 unb58" "node_serves W unb58 accounts getInfo gpa"
    and "mset rows = mset (list_oracles (mirror W bs58 accounts))"
  shows "\<exists>ys zs. fetchOracles W bs58 None gpa = Inr ys \<and> fetchOracles W bs58 (Some rows) gpa = Inr zs
    \<and> mset ys = mset (decodable W (map (\<lambda>(k, d). (w3_string W k, d)) accounts)) \<and> mset zs = mset ys
    \<and> sorted_wrt (\<lambda>a b. orc_deadline (os_oracle a) \<ge> orc_deadline (os_oracle b)) ys
    \<and> map (\<lambda>s. orc_deadline (os_oracle s)) zs = map (\<lambda>s. orc_deadline (os_oracle s)) ys
    \<and> (\<forall>v. filter (\<lambda>s. orc_deadline (os_oracle s) = v) ys
        = filter (\<lambda>s. orc_deadline (os_oracle s) = v) (decodable W (map (\<lambda>(k, d). (w3_string W k, d)) accounts)))
    \<and> fetchOracles W bs58 (Some []) gpa = fetchOracles W bs58 None gpa"
proof -
  let ?ds = "decodable W (map (\<lambda>(k, d). (w3_string W k, d)) accounts)"
  let ?k = "\<lambda>s. - orc_deadline (os_oracle s)"
  have srt: "js_sort cmpDeadlineDesc xs = sort_key ?k xs" for xs :: "'a oracle_summary list"
    by (rule js_sort_key) (simp add: cmp_keys)
  have node: "fetchOracles W bs58 None gpa = Inr (sort_key ?k ?ds)" using node_list [OF assms(1-3)] by (simp add: srt)
  have empty: "fetchOracles W bs58 (Some []) gpa = fetchOracles W bs58 None gpa" by (simp add: fetchOracles_def)
  obtain zs where zs: "fetchOracles W bs58 (Some rows) gpa = Inr (sort_key ?k zs)" "mset zs = mset ?ds"
    using indexer_list [OF assms(4,1), of gpa] node empty by (cases "rows = []") (auto simp: srt)
  have keys: "map (\<lambda>s. orc_deadline (os_oracle s)) (sort_key ?k zs) = map (\<lambda>s. orc_deadline (os_oracle s)) (sort_key ?k ?ds)"
    using arg_cong [OF sorted_perm_keys [OF zs(2), of ?k], of "map uminus"] by (simp add: comp_def)
  have "sorted_wrt (\<lambda>a b. orc_deadline (os_oracle a) \<ge> orc_deadline (os_oracle b)) (sort_key ?k ?ds)"
    using sorted_sort_key [of ?k ?ds] by (simp add: sorted_map)
  moreover have "filter (\<lambda>s. orc_deadline (os_oracle s) = v) (sort_key ?k ?ds) = filter (\<lambda>s. orc_deadline (os_oracle s) = v) ?ds" for v
    using sort_key_stable [of ?k "- v" ?ds] by simp
  ultimately show ?thesis using zs keys node empty by (intro exI [of _ "sort_key ?k ?ds"] exI [of _ "sort_key ?k zs"]) simp
qed

section \<open>The detail of an oracle\<close>

type_synonym child = "string \<times> int option \<times> bytes"

definition kids :: "AccountType \<Rightarrow> (bytes \<Rightarrow> 'b res) \<Rightarrow> child list \<Rightarrow> (string \<times> 'b) list" where
  "kids ty dec cs = concat (map (\<lambda>(k, t, d).
     if t = Some (type_code ty) then (case dec d of Inr x \<Rightarrow> [(k, x)] | Inl _ \<Rightarrow> []) else []) cs)"

definition first_of :: "'b list \<Rightarrow> 'b option" where
  "first_of xs = (case xs of [] \<Rightarrow> None | x # _ \<Rightarrow> Some x)"

definition detail_of :: "'a web3 \<Rightarrow> string \<Rightarrow> 'a oracle_account \<Rightarrow> child list \<Rightarrow> 'a oracle_detail" where
  "detail_of W pubkey orc cs =
     \<lparr>od_pubkey = pubkey, od_oracle = orc, od_facts = kids AT_Fact (decodeFact W) cs,
      od_proposers = kids AT_Proposer (decodeProposer W) cs, od_aiClaims = kids AT_AiClaim (decodeAiClaim W) cs,
      od_market = first_of (kids AT_Market (decodeMarket W) cs)\<rparr>"

lemma kids_snoc: "kids ty dec (cs @ [(k, t, d)]) = kids ty dec cs @
    (if t = Some (type_code ty) then (case dec d of Inr x \<Rightarrow> [(k, x)] | Inl _ \<Rightarrow> []) else [])"
  by (simp add: kids_def)

lemma first_of_append: "first_of (xs @ ys) = (case first_of xs of Some x \<Rightarrow> Some x | None \<Rightarrow> first_of ys)"
  by (simp add: first_of_def split: list.splits)

lemma child_step_detail:
  "child_step W k t d (detail_of W pubkey orc cs) = detail_of W pubkey orc (cs @ [(k, t, d)])"
proof -
  consider "t = Some 3" | "t = Some 2" | "t = Some 5" | "t = Some 6" | "t \<notin> {Some 2, Some 3, Some 5, Some 6}" by blast
  then show ?thesis
  proof cases
    case 1
    then show ?thesis by (cases "decodeFact W d") (simp_all add: child_step_def detail_of_def kids_snoc)
  next
    case 2
    then show ?thesis by (cases "decodeProposer W d") (simp_all add: child_step_def detail_of_def kids_snoc)
  next
    case 3
    then show ?thesis by (cases "decodeAiClaim W d") (simp_all add: child_step_def detail_of_def kids_snoc)
  next
    case 4
    then show ?thesis
      by (cases "decodeMarket W d")
        (simp_all add: child_step_def detail_of_def kids_snoc first_of_append split: option.split,
         simp_all add: first_of_def)
  next
    case 5
    then show ?thesis by (simp add: child_step_def detail_of_def kids_snoc)
  qed
qed

lemma children_fold:
  "fold (\<lambda>(k, t, d). child_step W k t d) cs (no_children pubkey orc) = detail_of W pubkey orc cs"
proof (induction cs rule: rev_induct)
  case Nil
  show ?case by (simp add: no_children_def detail_of_def kids_def first_of_def)
next
  case (snoc c cs)
  then show ?case by (cases c) (simp add: child_step_detail)
qed

lemma kids_perm: "mset cs = mset cs' \<Longrightarrow> mset (kids ty dec cs) = mset (kids ty dec cs')"
  unfolding kids_def by (rule concat_map_perm)

definition row_child :: "indexed_child \<Rightarrow> child" where
  "row_child r = (ia_pubkey r, Some (ic_accountType r), ia_data r)"

definition node_child :: "'a web3 \<Rightarrow> 'a \<times> bytes \<Rightarrow> child" where
  "node_child W = (\<lambda>(k, d). (w3_string W k, data_tag d, d))"

definition children_of :: "'a web3 \<Rightarrow> 'a \<Rightarrow> ('a \<times> bytes) list \<Rightarrow> ('a \<times> bytes) list" where
  "children_of W a accounts = filter (\<lambda>(k, d). take 32 (drop 8 d) = w3_bytes W a) accounts"

lemma node_detail:
  assumes "web3_ok W" "base58_ok W bs58 unb58" "node_serves W unb58 accounts getInfo gpa"
  shows "fetchOracleDetail W None getInfo gpa (w3_string W a)
    = (case map_of accounts a of
         None \<Rightarrow> Inl (OtherErr ''OracleNotFoundError'')
       | Some data \<Rightarrow> (case decodeOracle W data of
           Inl _ \<Rightarrow> Inl (OtherErr ''OracleNotFoundError'')
         | Inr orc \<Rightarrow> Inr (detail_of W (w3_string W a) orc (map (node_child W) (children_of W a accounts)))))"
proof -
  have un: "unb58 (w3_string W a) = w3_bytes W a" using assms(2) by (metis base58_ok_def)
  have f: "fold (\<lambda>(pubkey, account). child_step W (w3_string W pubkey) (data_tag account) account) xs D
      = fold (\<lambda>(k, t, d). child_step W k t d) (map (node_child W) xs) D" for xs D
    by (induction xs arbitrary: D) (auto simp: node_child_def)
  have "decodeOracle W [] \<noteq> Inr x" for x using decodeOracle_shape(2) [OF assms(1), of "[]" x] by blast
  then have e: "\<exists>y. decodeOracle W [] = Inl y" by (cases "decodeOracle W []") auto
  show ?thesis
    using assms(3) web3_ok_D(4) [OF assms(1), of a] e
    by (auto simp: fetchOracleDetail_def node_serves_def lift_web_def f children_fold children_of_def filter_holds_def un
        CHILD_ORACLE_OFFSET_def length_w3_bytes [OF assms(1)] split: option.splits sum.splits
        intro!: arg_cong [where f = "detail_of W _ _"] arg_cong [where f = "map _"] filter_cong)
qed

lemma mirror_Cons: "mirror W bs58 (x # xs) = mirror W bs58 [x] @ mirror W bs58 xs"
  by (simp add: mirror_def map_filter_concat)

lemma persist_row_cases:
  "persist_row bs58 k d =
    (if d \<noteq> [] \<and> uint (hd d) = 1
     then Some \<lparr>ia_pubkey = k, ia_data = d, ic_accountType = 1, sr_oracle_ref = k\<rparr>
     else if d \<noteq> [] \<and> uint (hd d) \<in> {2, 3, 4, 5, 6} \<and> 40 \<le> length d
     then Some \<lparr>ia_pubkey = k, ia_data = d, ic_accountType = uint (hd d), sr_oracle_ref = bs58 (take 32 (drop 8 d))\<rparr>
     else None)"
  by (cases d) (simp_all add: persist_row_def decode_account_def Let_def CHILD_ORACLE_OFFSET_def not_less)

lemma base58_ref:
  assumes "base58_ok W bs58 unb58"
  shows "bs58 bs = w3_string W a \<longleftrightarrow> bs = w3_bytes W a"
proof -
  have "unb58 (bs58 x) = x" "bs58 (w3_bytes W a) = w3_string W a" for x using assms unfolding base58_ok_def by blast+
  then show ?thesis by metis
qed

lemma kids_one: "kids ty dec [(k, t, d)] = (if t = Some (type_code ty) then (case dec d of Inr x \<Rightarrow> [(k, x)] | Inl _ \<Rightarrow> []) else [])"
  by (simp add: kids_def)

lemma kids_mirror_one:
  assumes "web3_ok W" "base58_ok W bs58 unb58" "type_code ty \<in> {2, 3, 5, 6}"
  shows "kids ty dec (map row_child (list_by_oracle (mirror W bs58 [(k, d)]) (w3_string W a)))
    = kids ty dec (map (node_child W) (children_of W a [(k, d)]))"
proof -
  have long: "40 \<le> length d" if "take 32 (drop 8 d) = w3_bytes W a"
    using arg_cong [OF that, of length] length_w3_bytes [OF assms(1), of a] by simp
  have tag: "data_tag d = (if d = [] then None else Some (uint (hd d)))" by (cases d) (simp_all add: data_tag_def)
  have rhs: "kids ty dec (map (node_child W) (children_of W a [(k, d)]))
      = (if take 32 (drop 8 d) = w3_bytes W a \<and> d \<noteq> [] \<and> uint (hd d) = type_code ty
         then (case dec d of Inr x \<Rightarrow> [(w3_string W k, x)] | Inl _ \<Rightarrow> []) else [])"
    by (simp add: children_of_def node_child_def kids_one tag) (simp add: kids_def)
  have "persist_row bs58 (w3_string W k) d = None" if "\<not> (d \<noteq> [] \<and> uint (hd d) = 1)"
    "\<not> (d \<noteq> [] \<and> uint (hd d) \<in> {2, 3, 4, 5, 6} \<and> 40 \<le> length d)"
    unfolding persist_row_cases using that by simp
  then consider (orc) "d \<noteq> []" "uint (hd d) = 1"
    | (kid) "d \<noteq> []" "uint (hd d) \<in> {2, 3, 4, 5, 6}" "40 \<le> length d"
    | (none) "persist_row bs58 (w3_string W k) d = None" "d = [] \<or> uint (hd d) \<notin> {2, 3, 4, 5, 6} \<or> length d < 40"
    by (metis not_le)
  then show ?thesis
  proof cases
    case orc
    then show ?thesis
      using assms(3) unfolding rhs
      by (auto simp: mirror_def List.map_filter_simps persist_row_cases list_by_oracle_def row_child_def kids_one) (simp_all add: kids_def)
  next
    case kid
    then have p: "persist_row bs58 (w3_string W k) d = Some \<lparr>ia_pubkey = w3_string W k, ia_data = d,
        ic_accountType = uint (hd d), sr_oracle_ref = bs58 (take 32 (drop 8 d))\<rparr>"
      unfolding persist_row_cases by auto
    show ?thesis
      using kid(1) unfolding rhs
      by (simp add: mirror_def List.map_filter_simps p list_by_oracle_def row_child_def kids_one base58_ref [OF assms(2)]) (simp add: kids_def)
  next
    case none
    then have "\<not> (take 32 (drop 8 d) = w3_bytes W a \<and> d \<noteq> [] \<and> uint (hd d) = type_code ty)"
      using long assms(3) by (metis insertCI insertE not_le singletonD)
    then show ?thesis
      unfolding rhs by (simp add: mirror_def List.map_filter_simps none(1) list_by_oracle_def) (auto simp: kids_def)
  qed
qed

lemma kids_mirror:
  assumes "web3_ok W" "base58_ok W bs58 unb58" "type_code ty \<in> {2, 3, 5, 6}"
  shows "kids ty dec (map row_child (list_by_oracle (mirror W bs58 accounts) (w3_string W a)))
    = kids ty dec (map (node_child W) (children_of W a accounts))"
proof (induction accounts)
  case Nil
  show ?case by (simp add: mirror_def List.map_filter_simps list_by_oracle_def children_of_def)
next
  case (Cons x xs)
  have app: "kids ty dec (as @ bs) = kids ty dec as @ kids ty dec bs" for as bs by (simp add: kids_def)
  have "children_of W a (x # xs) = children_of W a [x] @ children_of W a xs" by (simp add: children_of_def)
  moreover have "list_by_oracle (as @ bs) p = list_by_oracle as p @ list_by_oracle bs p" for as bs p
    by (simp add: list_by_oracle_def)
  ultimately show ?case
    using Cons kids_mirror_one [OF assms, of dec "fst x" "snd x"] by (simp add: mirror_Cons [of W bs58 x xs] app)
qed

lemma oracle_row:
  assumes "web3_ok W" "base58_ok W bs58 unb58" "distinct (map fst accounts)"
  shows "r \<in> set (list_by_oracle (mirror W bs58 accounts) (w3_string W a))
      \<Longrightarrow> ic_accountType r = 1 \<Longrightarrow> ia_pubkey r = w3_string W a \<Longrightarrow> map_of accounts a = Some (ia_data r)"
    and "map_of accounts a = Some d \<Longrightarrow> d \<noteq> [] \<Longrightarrow> uint (hd d) = 1 \<Longrightarrow> \<exists>r\<in>set (list_by_oracle (mirror W bs58 accounts) (w3_string W a)).
      ic_accountType r = 1 \<and> ia_pubkey r = w3_string W a"
proof -
  assume r: "r \<in> set (list_by_oracle (mirror W bs58 accounts) (w3_string W a))" "ia_pubkey r = w3_string W a"
  then obtain k d q where "(k, d) \<in> set accounts" "persist_row bs58 (w3_string W k) d = Some q"
    "ia_pubkey r = ia_pubkey q" "ia_data r = ia_data q"
    by (auto simp: list_by_oracle_def mirror_def in_map_filter)
  moreover from this(2) have "ia_pubkey q = w3_string W k" "ia_data q = d"
    unfolding persist_row_cases by (auto split: if_splits)
  ultimately have "(a, ia_data r) \<in> set accounts" using r(2) web3_string_inj [OF assms(1), of k a] by metis
  then show "map_of accounts a = Some (ia_data r)" using assms(3) by simp
next
  assume d: "map_of accounts a = Some d" "d \<noteq> []" "uint (hd d) = 1"
  then have "(a, d) \<in> set accounts" by (simp add: map_of_SomeD)
  moreover have "persist_row bs58 (w3_string W a) d = Some \<lparr>ia_pubkey = w3_string W a, ia_data = d, ic_accountType = 1,
      sr_oracle_ref = w3_string W a\<rparr>"
    using d unfolding persist_row_cases by simp
  ultimately have "\<lparr>ia_pubkey = w3_string W a, ia_data = d, ic_accountType = 1, sr_oracle_ref = w3_string W a\<rparr>
      \<in> set (mirror W bs58 accounts)"
    unfolding mirror_def in_map_filter by force
  then show "\<exists>r\<in>set (list_by_oracle (mirror W bs58 accounts) (w3_string W a)). ic_accountType r = 1 \<and> ia_pubkey r = w3_string W a"
    unfolding list_by_oracle_def by force
qed

lemma assemble_fold:
  "fold (\<lambda>a. child_step W (ia_pubkey a) (Some (ic_accountType a)) (ia_data a)) rows (no_children p orc)
    = detail_of W p orc (map row_child rows)"
proof -
  have "fold (\<lambda>a. child_step W (ia_pubkey a) (Some (ic_accountType a)) (ia_data a)) rows D
      = fold (\<lambda>(k, t, d). child_step W k t d) (map row_child rows) D" for D
    by (induction rows arbitrary: D) (auto simp: row_child_def)
  then show ?thesis by (simp add: children_fold)
qed

lemma indexer_detail:
  assumes "web3_ok W" "base58_ok W bs58 unb58" "node_serves W unb58 accounts getInfo gpa"
    and "set rows = set (list_by_oracle (mirror W bs58 accounts) (w3_string W a))"
  shows "fetchOracleDetail W (Some rows) getInfo gpa (w3_string W a)
    = (case map_of accounts a of
         None \<Rightarrow> Inl (OtherErr ''OracleNotFoundError'')
       | Some data \<Rightarrow> (case decodeOracle W data of
           Inl _ \<Rightarrow> Inl (OtherErr ''OracleNotFoundError'')
         | Inr orc \<Rightarrow> Inr (detail_of W (w3_string W a) orc (map row_child rows))))"
proof -
  let ?p = "w3_string W a"
  have dist: "distinct (map fst accounts)" using assms(3) by (simp add: node_serves_def)
  note row = oracle_row [OF assms(1,2) dist, where a = a]
  let ?f = "find (\<lambda>r. ic_accountType r = type_code AT_Oracle \<and> ia_pubkey r = ?p) rows"
  have found: "map_of accounts a = Some (ia_data r)" if "?f = Some r" for r
  proof (rule row(1))
    show "r \<in> set (list_by_oracle (mirror W bs58 accounts) ?p)" "ic_accountType r = 1" "ia_pubkey r = ?p"
      using that assms(4) by (auto simp: find_Some_iff)
  qed
  have asm: "assembleDetailFromIndexed W ?p rows = (case map_of accounts a of
      None \<Rightarrow> None
    | Some data \<Rightarrow> (case decodeOracle W data of Inl _ \<Rightarrow> None | Inr orc \<Rightarrow> Some (detail_of W ?p orc (map row_child rows))))"
  proof (cases ?f)
    case None
    have "decodeOracle W d \<noteq> Inr x" if "map_of accounts a = Some d" for d x
      using row(2) [OF that] decodeOracle_shape(2,3) [OF assms(1), of d x] None assms(4) by (auto simp: find_None_iff)
    then show ?thesis using None by (auto simp: assembleDetailFromIndexed_def split: option.splits sum.splits)
  next
    case (Some r)
    then show ?thesis
      using found [OF Some] by (auto simp: assembleDetailFromIndexed_def assemble_fold split: sum.splits)
  qed
  have fall: "fetchOracleDetail W (Some rows) getInfo gpa ?p
    = (case assembleDetailFromIndexed W ?p rows of Some d \<Rightarrow> Inr d | None \<Rightarrow> fetchOracleDetail W None getInfo gpa ?p)"
  proof (cases rows)
    case (Cons r rs)
    show ?thesis unfolding fetchOracleDetail_def Cons by (simp only: option.case list.case)
  qed (simp add: fetchOracleDetail_def assembleDetailFromIndexed_def)
  show ?thesis
    unfolding fall asm node_detail [OF assms(1-3)] by (auto split: option.splits sum.splits)
qed


section \<open>Witnesses\<close>

definition sample_program_accounts :: "(256 word \<times> bytes) list" where
  "sample_program_accounts =
     [(2, pod_oracle sample_web3 sample_oracle), (3, pod_aiclaim sample_web3 sample_aiclaim), (4, [])]"

definition sample_gpa :: "256 word \<Rightarrow> gpa_filter list \<Rightarrow> (256 word \<times> bytes) list res" where
  "sample_gpa program fs = Inr (filter (\<lambda>(k, data). \<forall>f\<in>set fs. filter_holds sample_unb58 f data) sample_program_accounts)"

lemma sample_node: "node_serves sample_web3 sample_unb58 sample_program_accounts (\<lambda>a. Inr (map_of sample_program_accounts a)) sample_gpa"
  by (simp add: node_serves_def sample_gpa_def sample_program_accounts_def)

lemma sample_decodes:
  "decodeOracle sample_web3 (pod_oracle sample_web3 sample_oracle) = Inr sample_oracle"
  "decodeAiClaim sample_web3 (pod_aiclaim sample_web3 sample_aiclaim) = Inr sample_aiclaim"
proof -
  have "oracle_ok sample_oracle"
    by (simp add: oracle_ok_def sample_oracle_def unsigned_range_def signed_range_def phase_of_def all_phases_def)
  then show "decodeOracle sample_web3 (pod_oracle sample_web3 sample_oracle) = Inr sample_oracle"
    by (rule oracle_round_trip [OF sample_web3_ok])
  have "aiclaim_ok sample_aiclaim" by (simp add: aiclaim_ok_def sample_aiclaim_def unsigned_range_def)
  then show "decodeAiClaim sample_web3 (pod_aiclaim sample_web3 sample_aiclaim) = Inr sample_aiclaim"
    by (rule aiclaim_round_trip [OF sample_web3_ok])
qed

lemma sample_aiclaim_bytes:
  "data_tag (pod_aiclaim sample_web3 sample_aiclaim) = Some 5"
  "take 32 (drop 8 (pod_aiclaim sample_web3 sample_aiclaim)) = w3_bytes sample_web3 2"
  by (simp_all add: data_tag_def pod_aiclaim_def u8_def uint_byte_of_int zero_pad_def sample_aiclaim_def
      length_w3_bytes [OF sample_web3_ok])

theorem oracle_list_complete_witness:
  "\<exists>ys. fetchOracles sample_web3 sample_b58 None sample_gpa = Inr ys \<and> map os_oracle ys = [sample_oracle]"
proof -
  have none: "\<exists>e. decodeOracle sample_web3 d = Inl e" if "data_tag d \<noteq> Some 1" for d
    using decodeOracle_shape [OF sample_web3_ok, of d] that
    by (cases "decodeOracle sample_web3 d") (auto simp: data_tag_def split: list.splits)
  have "\<exists>e. decodeOracle sample_web3 [] = Inl e" "\<exists>e. decodeOracle sample_web3 (pod_aiclaim sample_web3 sample_aiclaim) = Inl e"
    using none [of "[]"] none [of "pod_aiclaim sample_web3 sample_aiclaim"] sample_aiclaim_bytes(1)
    by (simp_all add: data_tag_def [of "[]"])
  then have d: "decodable sample_web3 (map (\<lambda>(k, d). (w3_string sample_web3 k, d)) sample_program_accounts)
      = [\<lparr>os_pubkey = w3_string sample_web3 2, os_oracle = sample_oracle\<rparr>]"
    by (auto simp: decodable_def sample_program_accounts_def sample_decodes)
  obtain ys where "fetchOracles sample_web3 sample_b58 None sample_gpa = Inr ys"
    "mset ys = mset [\<lparr>os_pubkey = w3_string sample_web3 2, os_oracle = sample_oracle\<rparr>]"
    using oracle_list_complete [OF sample_web3_ok sample_b58_ok sample_node refl] unfolding d by (elim exE conjE) (rule that)
  then show ?thesis by (auto simp: mset_single_iff_right)
qed


end
