(* ===== verification/Directory_Markets.thy ===== *)
theory Directory_Markets
  imports Directory
begin

text \<open>
  What the market list promises (\<open>app/src/market/data/markets.ts\<close>): the indexer's records decode to the
  accounts they were made from, the list shows every market, most funded first, whatever the detail
  reads answer, and its groups partition it by oracle.
\<close>

section \<open>BigInt and the records\<close>

lemma radix_value_digits:
  assumes "list_all is_digit s" "s \<noteq> []"
  shows "radix_value 10 s = Some (dec_value s)"
proof -
  have "foldl (\<lambda>acc c. case (acc, hex_digit c) of (Some v, Some d) \<Rightarrow> if d < 10 then Some (10 * v + d) else None | _ \<Rightarrow> None) (Some a) s
      = Some (foldl (\<lambda>v c. 10 * v + (c - 48)) a s)" for a
    using assms(1) by (induction s arbitrary: a) (auto simp: is_digit_def hex_digit_def)
  then show ?thesis using assms(2) by (simp add: radix_value_def dec_value_def)
qed

lemma js_BigInt_digits:
  assumes "list_all is_digit s" "s \<noteq> []"
  shows "js_BigInt s = Inr (dec_value s)"
proof -
  have dig: "is_digit c" if "c \<in> set s" for c using assms(1) that by (simp add: list_all_iff)
  have t: "js_trim s = s" using assms(2) dig by (intro js_trim_id) (auto simp: digit_not_space)
  show ?thesis
  proof (cases s)
    case (Cons c cs)
    then show ?thesis
      using radix_value_digits [OF assms] t dig [of c] dig [of "hd cs"]
      by (cases cs) (auto simp: js_BigInt_def Let_def is_digit_def)
  qed (use assms in simp)
qed

lemma js_BigInt_u64 [simp]: "0 \<le> n \<Longrightarrow> js_BigInt (u64_string n) = Inr n"
  by (simp add: u64_string_def js_BigInt_digits dec_nat_digits)

lemma market_accounts_round_trip_inst:
  assumes "web3_ok W" "mconfig_account_ok c" "mmarket_account_ok m" "mcontribution_account_ok n"
  shows "decodeConfig W (pod_mconfig W c) = Inr c" "decodeMarketAccount W (pod_mmarket W m) = Inr m"
    "decodeContribution W (pod_mcontribution W n) = Inr n"
  using assms mconfig_account_round_trip mmarket_account_round_trip mcontribution_account_round_trip by blast+

lemma market_dto_decodes:
  assumes "web3_ok W" "base58_ok W bs58 unb58" "mmarket_account_ok m"
  shows "mapMarketDto W (marketDto_new bs58 W pk m) = Inr m"
proof -
  have "w3_of_string W (bs58 (w3_bytes W a)) = Some a" for a
    using assms(1,2) web3_ok_D(4) [OF assms(1)] by (simp add: base58_ok_def)
  then show ?thesis
    using assms(3) by (cases m) (simp add: mapMarketDto_def marketDto_new_def lift_web_def mmarket_account_ok_def unsigned_range_def)
qed

text \<open>
  C26: the market API loses nothing. For every state of the market program's accounts, mapping the
  record that the indexer makes of a Market, a Config or a Contribution gives the very value that the
  SDK's decoder reads from the bytes of the account: a u64 survives the decimal text in which it
  travels, and a key its base58 text.
\<close>

theorem market_api_round_trip:
  assumes "web3_ok W" "base58_ok W bs58 unb58"
    and "mmarket_account_ok m" "mconfig_account_ok c" "mcontribution_account_ok n" "unsigned_range 64 slot"
  shows "mapMarketDto W (marketDto_new bs58 W pk m) = decodeMarketAccount W (pod_mmarket W m)
    \<and> mapConfigDto W (configDto_new bs58 W c) = decodeConfig W (pod_mconfig W c)
    \<and> mapContributionDto W (contributionDto_new bs58 W n slot) = decodeContribution W (pod_mcontribution W n)
    \<and> rmap (\<lambda>r. (cr_slot r, cr_pubkey r, cr_contribution r)) (contribution_row_of W mk (contributionDto_new bs58 W n slot))
        = rmap (\<lambda>a. (slot, w3_string W (pda_address a), n)) (mkt_contribution W (B58 mk) (Addr (mcn_contributor n)) None)"
proof -
  have key: "w3_of_string W (bs58 (w3_bytes W a)) = Some a" for a
    using assms(1,2) web3_ok_D(4) [OF assms(1)] by (simp add: base58_ok_def)
  note m = market_dto_decodes [OF assms(1,2,3), of pk]
  have c: "mapConfigDto W (configDto_new bs58 W c) = Inr c"
    using assms(4) by (cases c) (simp add: mapConfigDto_def configDto_new_def key lift_web_def mconfig_account_ok_def unsigned_range_def)
  have n: "mapContributionDto W (contributionDto_new bs58 W n slot) = Inr n"
    using assms(5) by (cases n) (simp add: mapContributionDto_def contributionDto_new_def key lift_web_def
        mcontribution_account_ok_def unsigned_range_def)
  have d: "mkt_contribution W (B58 mk) (B58 (bs58 (w3_bytes W (mcn_contributor n)))) None
      = mkt_contribution W (B58 mk) (Addr (mcn_contributor n)) None"
    by (simp add: mkt_contribution_def pubkeyBytes_def key lift_web_def)
  have sl: "cd_contributor (contributionDto_new bs58 W n slot) = bs58 (w3_bytes W (mcn_contributor n))"
    "cd_slot (contributionDto_new bs58 W n slot) = Some (u64_string slot)" by (simp_all add: contributionDto_new_def)
  show ?thesis
    using m c n assms(6) market_accounts_round_trip_inst [OF assms(1,4,3,5)]
    by (cases "mkt_contribution W (B58 mk) (Addr (mcn_contributor n)) None")
      (simp_all add: contribution_row_of_def sl d unsigned_range_def)
qed

section \<open>The list and its groups\<close>

definition market_key :: "'a web3 \<Rightarrow> 'a market_summary \<Rightarrow> string" where
  "market_key W s = w3_string W (mm_oracle (ms_market s))"

definition first_seen :: "'b list \<Rightarrow> 'b list" where
  "first_seen xs = rev (remdups (rev xs))"

lemma first_seen_snoc: "first_seen (xs @ [x]) = (if x \<in> set xs then first_seen xs else first_seen xs @ [x])"
  by (simp add: first_seen_def)

lemma first_seen_props: "distinct (first_seen xs)" "set (first_seen xs) = set xs"
  by (simp_all add: first_seen_def)

lemma add_to_group_map:
  assumes "distinct ks" "k \<notin> set ks \<Longrightarrow> F k = []"
  shows "add_to_group k x (map (\<lambda>k. (k, F k)) ks)
    = map (\<lambda>j. (j, F j @ (if j = k then [x] else []))) (if k \<in> set ks then ks else ks @ [k])"
  using assms by (induction ks) auto

lemma by_oracle_groups:
  "by_oracle W xs = map (\<lambda>k. (k, filter (\<lambda>s. market_key W s = k) xs)) (first_seen (map (market_key W) xs))"
proof (induction xs rule: rev_induct)
  case (snoc x xs)
  have "by_oracle W (xs @ [x]) = add_to_group (market_key W x) x (by_oracle W xs)"
    by (simp add: by_oracle_def market_key_def)
  also have "\<dots> = map (\<lambda>j. (j, filter (\<lambda>s. market_key W s = j) xs @ (if j = market_key W x then [x] else [])))
      (first_seen (map (market_key W) (xs @ [x])))"
    unfolding snoc using first_seen_props [of "map (market_key W) xs"]
    by (subst add_to_group_map) (auto simp: first_seen_snoc filter_empty_conv image_iff)
  finally show ?case by (simp cong: if_cong)
qed (simp add: by_oracle_def first_seen_def)

lemma concat_groups:
  assumes "distinct ks" "\<And>x. x \<in> set xs \<Longrightarrow> f x \<in> set ks"
  shows "mset (concat (map (\<lambda>k. filter (\<lambda>x. f x = k) xs) ks)) = mset xs"
proof (rule multiset_eqI)
  fix x
  have "count (mset (concat (map (\<lambda>k. filter (\<lambda>x. f x = k) xs) ks))) x
      = (\<Sum>k\<leftarrow>ks. if k = f x then count (mset xs) x else 0)"
    by (induction ks) auto
  also have "\<dots> = (if f x \<in> set ks then count (mset xs) x else 0)"
    using assms(1) by (induction ks) auto
  also have "\<dots> = count (mset xs) x" using assms(2) [of x] by (auto simp: not_in_iff)
  finally show "count (mset (concat (map (\<lambda>k. filter (\<lambda>x. f x = k) xs) ks))) x = count (mset xs) x" .
qed

lemma first_known:
  "(case find (\<lambda>m. f m \<noteq> None) ms of Some m \<Rightarrow> f m | None \<Rightarrow> None) = None \<longleftrightarrow> (\<forall>m\<in>set ms. f m = None)"
  "(case find (\<lambda>m. f m \<noteq> None) ms of Some m \<Rightarrow> f m | None \<Rightarrow> None) = Some n \<Longrightarrow> \<exists>m\<in>set ms. f m = Some n"
  by (induction ms) (auto split: if_splits)

lemma outcome_sort: "js_sort cmpOutcome xs = sort_key (\<lambda>s. mm_outcomeIndex (ms_market s)) xs"
  by (rule js_sort_key) (simp add: cmpOutcome_def)

text \<open>
  C36: the groups partition the market list. There is one group for each oracle, in the order of first
  appearance, and together the groups hold every market exactly once. A group holds exactly the markets
  of its oracle, by ascending outcome index (markets of the same index in the order of the list), its
  number of options is the one of the first market that knows it, and a group whose number is known is
  categorical exactly when that number is more than two.
\<close>

theorem groups_partition_markets:
  "map og_oracle (groupByOracle W xs) = first_seen (map (market_key W) xs)
    \<and> distinct (map og_oracle (groupByOracle W xs))
    \<and> mset (concat (map og_markets (groupByOracle W xs))) = mset xs
    \<and> (\<forall>g\<in>set (groupByOracle W xs).
        mset (og_markets g) = mset (filter (\<lambda>s. market_key W s = og_oracle g) xs) \<and> og_markets g \<noteq> []
        \<and> sorted (map (\<lambda>s. mm_outcomeIndex (ms_market s)) (og_markets g))
        \<and> (\<forall>i. filter (\<lambda>s. mm_outcomeIndex (ms_market s) = i) (og_markets g)
            = filter (\<lambda>s. market_key W s = og_oracle g \<and> mm_outcomeIndex (ms_market s) = i) xs)
        \<and> (og_optionsCount g = None \<longleftrightarrow> (\<forall>s\<in>set (og_markets g). ms_oracleOptionsCount s = None))
        \<and> (\<forall>n. og_optionsCount g = Some n \<longrightarrow>
            (\<exists>s\<in>set (og_markets g). ms_oracleOptionsCount s = Some n) \<and> (isCategorical g \<longleftrightarrow> n > 2)))"
proof -
  let ?key = "market_key W" and ?out = "\<lambda>s :: 'a market_summary. mm_outcomeIndex (ms_market s)"
  let ?ks = "first_seen (map ?key xs)"
  let ?g = "\<lambda>k. \<lparr>og_oracle = k,
      og_optionsCount = (case find (\<lambda>m. ms_oracleOptionsCount m \<noteq> None) (sort_key ?out (filter (\<lambda>s. ?key s = k) xs)) of
        Some m \<Rightarrow> ms_oracleOptionsCount m | None \<Rightarrow> None),
      og_markets = sort_key ?out (filter (\<lambda>s. ?key s = k) xs)\<rparr>"
  have gs: "groupByOracle W xs = map ?g ?ks"
    by (simp add: groupByOracle_def by_oracle_groups outcome_sort Let_def comp_def)
  have ks: "distinct ?ks" "set ?ks = ?key ` set xs" using first_seen_props [of "map ?key xs"] by simp_all
  have "mset (concat (map (\<lambda>k. sort_key ?out (filter (\<lambda>s. ?key s = k) xs)) ?ks))
      = mset (concat (map (\<lambda>k. filter (\<lambda>s. ?key s = k) xs) ?ks))"
    by (simp add: mset_concat comp_def)
  also have "\<dots> = mset xs" by (rule concat_groups) (simp_all add: ks)
  finally have all: "mset (concat (map og_markets (groupByOracle W xs))) = mset xs" by (simp add: gs comp_def)
  have one: "og_optionsCount (?g k) = None \<longleftrightarrow> (\<forall>s\<in>set (og_markets (?g k)). ms_oracleOptionsCount s = None)"
    "og_optionsCount (?g k) = Some n \<Longrightarrow> (\<exists>s\<in>set (og_markets (?g k)). ms_oracleOptionsCount s = Some n) \<and> (isCategorical (?g k) \<longleftrightarrow> n > 2)"
    for k n
    using first_known [of ms_oracleOptionsCount "og_markets (?g k)"]
    unfolding isCategorical_def oracle_group.simps by (blast, metis option.case(2))
  have stable: "filter (\<lambda>s. ?out s = i) (sort_key ?out ys) = filter (\<lambda>s. ?out s = i) ys" for i ys
    using sort_key_stable [of ?out i ys] by simp
  have ne: "sort_key ?out (filter (\<lambda>s. ?key s = k) xs) \<noteq> []" if "k \<in> set ?ks" for k
    using that by (auto simp: ks filter_empty_conv simp flip: set_empty)
  show ?thesis
  proof (intro conjI ballI)
    show "map og_oracle (groupByOracle W xs) = ?ks" "distinct (map og_oracle (groupByOracle W xs))"
      using ks by (simp_all add: gs comp_def)
  next
    fix g assume "g \<in> set (groupByOracle W xs)"
    then obtain k where k: "k \<in> set ?ks" "g = ?g k" by (auto simp: gs)
    show "og_markets g \<noteq> []" using ne k by simp
    show "\<forall>i. filter (\<lambda>s. ?out s = i) (og_markets g) = filter (\<lambda>s. ?key s = og_oracle g \<and> ?out s = i) xs"
      by (simp add: k(2) stable conj_commute)
    show "og_optionsCount g = None \<longleftrightarrow> (\<forall>s\<in>set (og_markets g). ms_oracleOptionsCount s = None)"
      unfolding k(2) by (rule one)
    show "\<forall>n. og_optionsCount g = Some n \<longrightarrow>
        (\<exists>s\<in>set (og_markets g). ms_oracleOptionsCount s = Some n) \<and> (isCategorical g \<longleftrightarrow> n > 2)"
      unfolding k(2) using one(2) by blast
  qed (use all in \<open>simp_all add: gs image_iff, auto\<close>)
qed

text \<open>The list entry of a market: what the list itself says of it, and what its detail adds.\<close>

definition entry_of :: "(bytes \<Rightarrow> string) \<Rightarrow> indexer_reads \<Rightarrow> bytes \<times> 'a mmarket_account \<Rightarrow> 'a market_summary" where
  "entry_of bs58 indexer am =
     (let detail = (case ir_getMarket indexer (bs58 (fst am)) of Inr d \<Rightarrow> d | Inl _ \<Rightarrow> None) in
      \<lparr>ms_pubkey = bs58 (fst am), ms_market = snd am,
       ms_reserves = (case map_option dd_reserves detail of
         Some (Some (x, y)) \<Rightarrow> Some \<lparr>ar_base = dec_value x, ar_quote = dec_value y\<rparr> | _ \<Rightarrow> None),
       ms_oracleOptionsCount = (case map_option dd_oracle detail of
         Some (Some x) \<Rightarrow> Some (mo_optionsCount x) | _ \<Rightarrow> None)\<rparr>)"

definition decimal_text :: "utext \<Rightarrow> bool" where
  "decimal_text s \<longleftrightarrow> s \<noteq> [] \<and> list_all is_digit s"

lemma summarize_entry:
  assumes "web3_ok W" "base58_ok W bs58 unb58" "mmarket_account_ok m"
    and "\<And>d x y. ir_getMarket indexer (bs58 a) = Inr (Some d) \<Longrightarrow> dd_reserves d = Some (x, y) \<Longrightarrow> decimal_text x \<and> decimal_text y"
  shows "summarize W indexer (marketDto_new bs58 W a m) = Inr (entry_of bs58 indexer (a, m))"
proof -
  have m: "mapMarketDto W (marketDto_new bs58 W a m) = Inr m" "md_address (marketDto_new bs58 W a m) = bs58 a"
    using market_dto_decodes [OF assms(1-3)] by (simp_all add: marketDto_new_def)
  show ?thesis
    using assms(4)
    by (auto simp: summarize_def entry_of_def m Let_def mapReservesDto_def decimal_text_def js_BigInt_digits
        split: sum.splits option.splits)
qed

lemma collect_all: "(\<And>x. x \<in> set xs \<Longrightarrow> f x = Inr (g x)) \<Longrightarrow> collect (map f xs) = Inr (map g xs)"
  by (induction xs) auto

text \<open>
  The market list is complete. When the indexer lists the markets of the program, every one of them
  is on the page with its account as decoded, most funded first, markets with the same funding in the
  indexer's order. A market whose detail read fails or is missing is still listed, without reserves and
  without the number of options; a market whose detail was read shows the reserves and the number of
  options of that detail. Only a failure of the list itself fails the page.
\<close>

theorem market_list_complete:
  assumes "web3_ok W" "base58_ok W bs58 unb58" "\<And>m. m \<in> snd ` set ms \<Longrightarrow> mmarket_account_ok m"
    and "\<And>a d x y. ir_getMarket indexer a = Inr (Some d) \<Longrightarrow> dd_reserves d = Some (x, y) \<Longrightarrow> decimal_text x \<and> decimal_text y"
    and "ir_getMarkets indexer = (if up then Inr (map (\<lambda>(a, m). marketDto_new bs58 W a m) ms) else Inl e)"
  shows "(\<not> up \<longrightarrow> fetchMarkets W indexer = Inl e)
    \<and> (up \<longrightarrow> (\<exists>ys. fetchMarkets W indexer = Inr ys \<and> mset ys = mset (map (entry_of bs58 indexer) ms)
        \<and> sorted_wrt (\<lambda>x y. mm_totalContributed (ms_market x) \<ge> mm_totalContributed (ms_market y)) ys
        \<and> (\<forall>v. filter (\<lambda>s. mm_totalContributed (ms_market s) = v) ys
            = filter (\<lambda>s. mm_totalContributed (ms_market s) = v) (map (entry_of bs58 indexer) ms))
        \<and> (\<forall>s\<in>set ys. \<not> is_ok (ir_getMarket indexer (ms_pubkey s)) \<longrightarrow> ms_reserves s = None \<and> ms_oracleOptionsCount s = None)))"
proof -
  let ?k = "\<lambda>s :: 'a market_summary. - mm_totalContributed (ms_market s)" and ?es = "map (entry_of bs58 indexer) ms"
  have srt: "js_sort cmpContributedDesc xs = sort_key ?k xs" for xs
    by (rule js_sort_key) (simp add: cmpContributedDesc_def)
  have "collect (map (summarize W indexer) (map (\<lambda>(a, m). marketDto_new bs58 W a m) ms)) = Inr ?es"
    unfolding map_map comp_def
    by (rule collect_all) (use assms(3,4) in \<open>force intro!: summarize_entry [OF assms(1,2)]\<close>)
  then have f: "fetchMarkets W indexer = (if up then Inr (sort_key ?k ?es) else Inl e)"
    using assms(5) by (simp add: fetchMarkets_def srt)
  have "sorted_wrt (\<lambda>x y. mm_totalContributed (ms_market x) \<ge> mm_totalContributed (ms_market y)) (sort_key ?k ?es)"
    using sorted_sort_key [of ?k ?es] by (simp add: sorted_map)
  moreover have "filter (\<lambda>s. mm_totalContributed (ms_market s) = v) (sort_key ?k ?es)
      = filter (\<lambda>s. mm_totalContributed (ms_market s) = v) ?es" for v
    using sort_key_stable [of ?k "- v" ?es] by simp
  moreover have "ms_reserves s = None \<and> ms_oracleOptionsCount s = None"
    if "s \<in> set (sort_key ?k ?es)" "\<not> is_ok (ir_getMarket indexer (ms_pubkey s))" for s
    using that by (auto simp: entry_of_def Let_def split: sum.splits)
  ultimately show ?thesis unfolding f by (intro conjI impI exI [of _ "sort_key ?k ?es"]) simp_all
qed

section \<open>Witnesses\<close>

lemma sample_market_accounts_ok:
  "mconfig_account_ok sample_mconfig" "mmarket_account_ok sample_mmarket" "mcontribution_account_ok sample_mcontribution"
  by (simp_all add: mconfig_account_ok_def sample_mconfig_def mmarket_account_ok_def sample_mmarket_def
      mcontribution_account_ok_def sample_mcontribution_def unsigned_range_def)

theorem market_api_round_trip_witness:
  "mapConfigDto sample_web3 (configDto_new sample_b58 sample_web3 sample_mconfig) = Inr sample_mconfig"
  using market_api_round_trip [OF sample_web3_ok sample_b58_ok sample_market_accounts_ok(2,1,3), of 0]
    mconfig_account_round_trip [OF sample_web3_ok sample_market_accounts_ok(1)]
  by (simp add: unsigned_range_def)

definition sample_reads :: indexer_reads where
  "sample_reads = \<lparr>ir_getMarkets = Inr [marketDto_new sample_b58 sample_web3 (replicate 32 1) sample_mmarket],
     ir_getMarket = (\<lambda>_. Inl (OtherErr ''503'')), ir_getConfig = Inr None\<rparr>"

theorem market_list_complete_witness:
  "\<exists>ys. fetchMarkets sample_web3 sample_reads = Inr ys \<and> map ms_market ys = [sample_mmarket] \<and> ms_reserves (hd ys) = None"
proof -
  obtain ys where ys: "fetchMarkets sample_web3 sample_reads = Inr ys"
    "mset ys = mset [entry_of sample_b58 sample_reads (replicate 32 1, sample_mmarket)]"
    using market_list_complete [OF sample_web3_ok sample_b58_ok, of "[(replicate 32 1, sample_mmarket)]" sample_reads True]
      sample_market_accounts_ok(2)
    by (auto simp: sample_reads_def)
  then have "ys = [entry_of sample_b58 sample_reads (replicate 32 1, sample_mmarket)]" by (simp add: mset_single_iff_right)
  then show ?thesis using ys(1) by (simp add: entry_of_def sample_reads_def)
qed

definition sample_market_rows :: "256 word market_summary list" where
  "sample_market_rows = map (\<lambda>(o1, i). \<lparr>ms_pubkey = ''m'', ms_market = sample_mmarket\<lparr>mm_oracle := o1, mm_outcomeIndex := i\<rparr>,
     ms_reserves = None, ms_oracleOptionsCount = Some 3\<rparr>) [(1, 2), (2, 0), (1, 0)]"

theorem groups_partition_markets_witness:
  "length (groupByOracle sample_web3 sample_market_rows) = 2
   \<and> (\<exists>g\<in>set (groupByOracle sample_web3 sample_market_rows). isCategorical g)"
proof -
  let ?gs = "groupByOracle sample_web3 sample_market_rows"
  have keys: "market_key sample_web3 \<lparr>ms_pubkey = p, ms_market = m, ms_reserves = r, ms_oracleOptionsCount = c\<rparr>
      = w3_string sample_web3 (mm_oracle m)" for p m r c by (simp add: market_key_def)
  have ne: "w3_string sample_web3 1 \<noteq> w3_string sample_web3 2" using web3_string_inj [OF sample_web3_ok, of 1 2] by auto
  have os: "map og_oracle ?gs = [w3_string sample_web3 1, w3_string sample_web3 2]"
    using groups_partition_markets [of sample_web3 sample_market_rows] ne
    by (simp add: first_seen_def sample_market_rows_def keys)
  then obtain g where g: "g \<in> set ?gs" by (cases ?gs) auto
  have *: "mset (og_markets g) = mset (filter (\<lambda>s. market_key sample_web3 s = og_oracle g) sample_market_rows)"
      "og_markets g \<noteq> []" "og_optionsCount g = None \<longleftrightarrow> (\<forall>s\<in>set (og_markets g). ms_oracleOptionsCount s = None)"
      "\<And>n. og_optionsCount g = Some n \<Longrightarrow>
        (\<exists>s\<in>set (og_markets g). ms_oracleOptionsCount s = Some n) \<and> (isCategorical g \<longleftrightarrow> n > 2)"
    using groups_partition_markets [of sample_web3 sample_market_rows] g by blast+
  have three: "ms_oracleOptionsCount s = Some 3" if "s \<in> set (og_markets g)" for s
  proof -
    have "s \<in> set sample_market_rows" using arg_cong [OF *(1), of set_mset] that by auto
    then show ?thesis by (auto simp: sample_market_rows_def)
  qed
  have "og_optionsCount g \<noteq> None" using *(2,3) three by (cases "og_markets g") auto
  then have "isCategorical g" using *(4) three by fastforce
  then show ?thesis using g os by (metis length_map length_Cons list.size(3) One_nat_def Suc_1)
qed

end
