(* ===== verification/Decoder_Types.thy ===== *)
theory Decoder_Types
  imports Market_State
begin

text \<open>
  The types of what the decoders return (\<open>sdks/*/ts/src/accounts\<close>): whatever the bytes of an account,
  a decoded value lies in the ranges of the program's struct, and is the decoding of its own image.
\<close>

lemma read_ranges:
  "readU8 data off = Inr v \<Longrightarrow> unsigned_range 8 v"
  "readU16LE data off = Inr v \<Longrightarrow> unsigned_range 16 v"
  "readU64LE data off = Inr v \<Longrightarrow> unsigned_range 64 v"
  "readI64LE data off = Inr v \<Longrightarrow> signed_range 64 v"
  by (rule c8.dec_range c16.dec_range c64.dec_range ci64.dec_range, assumption)+

lemma length_readBytes: "off + n \<le> length data \<Longrightarrow> length (readBytes data off n) = n"
  by (simp add: readBytes_def js_slice_def)

lemmas typed = read_ranges length_readBytes

lemma typed_proposer: "decodeProposer W data = Inr p \<Longrightarrow> proposer_ok p"
  by (auto simp: decodeProposer_def rbind_Inr_iff proposer_ok_def typed)

lemma typed_fact: "decodeFact W data = Inr f \<Longrightarrow> fact_ok f"
  by (auto simp: decodeFact_def rbind_Inr_iff fact_ok_def typed assertAccount_iff Let_def URI_OFFSET_def URI_CAP_def js_slice_def)

lemma typed_factvote: "decodeFactVote W data = Inr v \<Longrightarrow> factvote_ok v"
  by (auto simp: decodeFactVote_def rbind_Inr_iff factvote_ok_def typed)

lemma typed_aiclaim: "decodeAiClaim W data = Inr c \<Longrightarrow> aiclaim_ok c"
  by (auto simp: decodeAiClaim_def rbind_Inr_iff aiclaim_ok_def typed assertAccount_iff)

lemma typed_market: "decodeMarket W data = Inr k \<Longrightarrow> market_ok k"
  by (auto simp: decodeMarket_def rbind_Inr_iff market_ok_def typed)

lemma typed_oracle: "decodeOracle W data = Inr x \<Longrightarrow> oracle_ok x"
  by (auto simp: decodeOracle_def rbind_Inr_iff oracle_ok_def typed Let_def)

lemma typed_protocol: "decodeProtocol W data = Inr q \<Longrightarrow> protocol_ok q"
  by (auto simp: decodeProtocol_def rbind_Inr_iff protocol_ok_def typed)

lemma typed_mconfig: "decodeConfig W data = Inr g \<Longrightarrow> mconfig_account_ok g"
  by (auto simp: decodeConfig_def rbind_Inr_iff mconfig_account_ok_def typed)

lemma typed_mcontribution: "decodeContribution W data = Inr n \<Longrightarrow> mcontribution_account_ok n"
  by (auto simp: decodeContribution_def rbind_Inr_iff mcontribution_account_ok_def typed)

lemma typed_mmarket: "decodeMarketAccount W data = Inr m \<Longrightarrow> mmarket_account_ok m"
  by (auto simp: decodeMarketAccount_def rbind_Inr_iff mmarket_account_ok_def typed)

text \<open>
  C22: the decoders of both SDKs are well typed. Whatever the bytes of an account, a decoded Proposer,
  Fact, FactVote, AiClaim, Market, Oracle or Protocol of the oracle program, or a Config, Contribution
  or Market of the market program, has every number in the range of its field in the Rust struct, every
  hash and buffer of its fixed length, and its derived fields equal to what their raw fields say; and it
  is the decoding of its own image, so that padding and non-canonical flags are all that a decoder drops.
\<close>

theorem decoded_values_typed:
  assumes "web3_ok W"
  shows "(decodeProposer W data = Inr p \<longrightarrow> proposer_ok p \<and> decodeProposer W (pod_proposer W p) = Inr p)
    \<and> (decodeFact W data = Inr f \<longrightarrow> fact_ok f \<and> decodeFact W (pod_fact W f) = Inr f)
    \<and> (decodeFactVote W data = Inr v \<longrightarrow> factvote_ok v \<and> decodeFactVote W (pod_factvote W v) = Inr v)
    \<and> (decodeAiClaim W data = Inr c \<longrightarrow> aiclaim_ok c \<and> decodeAiClaim W (pod_aiclaim W c) = Inr c)
    \<and> (decodeMarket W data = Inr k \<longrightarrow> market_ok k \<and> decodeMarket W (pod_market W k) = Inr k)
    \<and> (decodeOracle W data = Inr x \<longrightarrow> oracle_ok x \<and> decodeOracle W (pod_oracle W x) = Inr x)
    \<and> (decodeProtocol W data = Inr q \<longrightarrow> protocol_ok q \<and> decodeProtocol W (pod_protocol W q) = Inr q)
    \<and> (decodeConfig W data = Inr g \<longrightarrow> mconfig_account_ok g \<and> decodeConfig W (pod_mconfig W g) = Inr g)
    \<and> (decodeContribution W data = Inr n \<longrightarrow> mcontribution_account_ok n \<and> decodeContribution W (pod_mcontribution W n) = Inr n)
    \<and> (decodeMarketAccount W data = Inr m \<longrightarrow> mmarket_account_ok m \<and> decodeMarketAccount W (pod_mmarket W m) = Inr m)"
  by (intro conjI impI)
    (auto intro: typed_proposer typed_fact typed_factvote typed_aiclaim typed_market typed_oracle typed_protocol
      typed_mconfig typed_mcontribution typed_mmarket round_trips [OF assms] mconfig_account_round_trip [OF assms]
      mcontribution_account_round_trip [OF assms] mmarket_account_round_trip [OF assms])

theorem decoded_values_typed_witness:
  "\<exists>p. decodeProposer sample_web3 (u8 2 @ replicate 95 255) = Inr p \<and> proposer_ok p"
proof -
  have "decode_accepts sample_web3 AT_Proposer (u8 2 @ replicate 95 255)"
    unfolding decode_accepts_iff [OF sample_web3_ok] by (simp add: u8_def uint_byte_of_int)
  then obtain p where "decodeProposer sample_web3 (u8 2 @ replicate 95 255) = Inr p" by (auto simp: is_ok_iff)
  then show ?thesis using decoded_values_typed [OF sample_web3_ok, of "u8 2 @ replicate 95 255" p] by blast
qed

end
