(* ===== verification/Governance.thy ===== *)
theory Governance
  imports Processor_Payloads Futarchy_Ixs Oracle_Actions Challenge_Amm
begin

text \<open>
  The governance of the oracle program: the builders of the admin page
  (\<open>app/src/data/actions/admin.ts\<close>), the price read of the app (\<open>app/src/data/kassPrice.ts\<close>), and on the
  program's side the handoff, the configuration, the resolution of a dead end and the price
  (\<open>processor/set_governance.rs\<close>, \<open>set_config.rs\<close>, \<open>resolve_deadend.rs\<close>, \<open>init_protocol.rs\<close>, \<open>price.rs\<close>,
  \<open>cpi/metadao_v06/layout.rs\<close>).
\<close>

section \<open>Squads addresses (futarchy/pda.ts)\<close>

definition squadsV4_id :: "'a web3 \<Rightarrow> 'a" where
  "squadsV4_id W = known_id W ''SQDS4ep65T869zMMBKyuUq6aD6EgTu8psMjkvj52pCf''"

definition fut_squadsMultisig :: "'a web3 \<Rightarrow> 'a address_input \<Rightarrow> 'a pda res" where
  "fut_squadsMultisig W createKey =
     rbind (pubkeyBytes W createKey) (\<lambda>c.
       fut_derive W [ascii ''multisig'', ascii ''multisig'', c] (squadsV4_id W))"

definition fut_squadsVault :: "'a web3 \<Rightarrow> 'a address_input \<Rightarrow> int \<Rightarrow> 'a pda res" where
  "fut_squadsVault W multisig vaultIndex =
     rbind (pubkeyBytes W multisig) (\<lambda>m1.
       fut_derive W [ascii ''multisig'', m1, ascii ''vault'', u8 vaultIndex] (squadsV4_id W))"

section \<open>The admin actions (admin.ts)\<close>

definition admin_addr :: "'a web3 \<Rightarrow> string \<Rightarrow> 'a address_input \<Rightarrow> 'a res" where
  "admin_addr W name v =
     (case v of Addr x \<Rightarrow> Inr x
      | B58 s \<Rightarrow> (case w3_of_string W s of Some x \<Rightarrow> Inr x | None \<Rightarrow> Inl (ValidationErr name)))"

definition DEFAULT_CONFIG :: set_config_params where
  "DEFAULT_CONFIG = \<lparr>cfg_emissionNum = 0, cfg_emissionDen = 1, cfg_totalSupplyCap = 0,
     cfg_feeEmaHalflife = 86400, cfg_feePerEmaUnit = 0, cfg_feeEmaIncrement = 0,
     cfg_thresholdNum = 2, cfg_thresholdDen = 3, cfg_marketThresholdNum = 1, cfg_marketThresholdDen = 10,
     cfg_flipSlashNum = 1, cfg_flipSlashDen = 2, cfg_phaseWindow = 7201, cfg_proposalWindow = 3600,
     cfg_factVoteSlashNum = 0, cfg_factVoteSlashDen = 1, cfg_rewardProposerWeight = 1,
     cfg_rewardFactWeight = 1, cfg_challengeFailUsdcFeeNum = 1, cfg_challengeFailUsdcFeeDen = 100,
     cfg_challengeSuccessKassFeeNum = 1, cfg_challengeSuccessKassFeeDen = 100,
     cfg_stakeFloorEmaThreshold = 15000000000, cfg_stakeFloorEmaCap = 1443000000000, cfg_stakeFloorMax = 0\<rparr>"

text \<open>
  The option is a number: \<open>None\<close> is NaN or an infinity. \<open>value & 0xff\<close> first makes it a 32-bit integer:
  0 for those, the truncation otherwise.
\<close>

definition js_to_int :: "real option \<Rightarrow> int" where
  "js_to_int x = (case x of None \<Rightarrow> 0 | Some r \<Rightarrow> Oracle_Actions.js_trunc r)"

definition buildResolveDeadendIxs ::
  "'a web3 \<Rightarrow> 'a address_input \<Rightarrow> 'a address_input \<Rightarrow> real option \<Rightarrow> 'a tx_instruction list res" where
  "buildResolveDeadendIxs W orc authority option =
     rbind (admin_addr W ''oracle'' orc) (\<lambda>o1.
     rbind (admin_addr W ''authority'' authority) (\<lambda>a1.
     rbind (resolveDeadend W \<lparr>rda_oracle = Addr o1, rda_authority = Addr a1, rda_option = js_to_int option,
       rda_programId = None\<rparr>) (\<lambda>ix. Inr [ix])))"

definition buildSetConfigIxs ::
  "'a web3 \<Rightarrow> 'a address_input \<Rightarrow> set_config_params option \<Rightarrow> 'a tx_instruction list res" where
  "buildSetConfigIxs W authority params =
     rbind (admin_addr W ''authority'' authority) (\<lambda>a1.
     rbind (setConfig W \<lparr>sca_authority = Addr a1,
       sca_params = (case params of Some p \<Rightarrow> p | None \<Rightarrow> DEFAULT_CONFIG), sca_programId = None\<rparr>) (\<lambda>ix. Inr [ix]))"

definition buildSetGovernanceIxs :: "'a web3 \<Rightarrow> 'a address_input \<Rightarrow> 'a address_input \<Rightarrow> 'a tx_instruction list res" where
  "buildSetGovernanceIxs W authority kassDao =
     rbind (admin_addr W ''kassDao'' kassDao) (\<lambda>dao.
     rbind (fut_squadsMultisig W (Addr dao)) (\<lambda>multisig.
     rbind (fut_squadsVault W (Addr (pda_address multisig)) 0) (\<lambda>daoAuthority.
     rbind (admin_addr W ''authority'' authority) (\<lambda>a1.
     rbind (setGovernance W \<lparr>sga_authority = Addr a1, sga_daoAuthority = Addr (pda_address daoAuthority),
       sga_kassDao = Addr dao, sga_programId = None\<rparr>) (\<lambda>ix. Inr [ix])))))"

definition buildKassPriceIxs :: "'a web3 \<Rightarrow> 'a address_input \<Rightarrow> 'a tx_instruction list res" where
  "buildKassPriceIxs W kassDao =
     rbind (admin_addr W ''kassDao'' kassDao) (\<lambda>dao.
     rbind (kassPrice W \<lparr>kpa_kassDao = Addr dao, kpa_programId = None\<rparr>) (\<lambda>ix. Inr [ix]))"

section \<open>The price (kassPrice.ts)\<close>

definition PRICE_SCALE :: int where "PRICE_SCALE = 1000000000000"

definition SPOT_AGGREGATOR_OFFSET :: nat where "SPOT_AGGREGATOR_OFFSET = 9"
definition SPOT_LAST_UPDATED_TS_OFFSET :: nat where "SPOT_LAST_UPDATED_TS_OFFSET = 25"
definition SPOT_CREATED_AT_TS_OFFSET :: nat where "SPOT_CREATED_AT_TS_OFFSET = 33"
definition SPOT_START_DELAY_SECONDS_OFFSET :: nat where "SPOT_START_DELAY_SECONDS_OFFSET = 105"
definition SPOT_MIN_LEN :: nat where "SPOT_MIN_LEN = SPOT_START_DELAY_SECONDS_OFFSET + 4"
definition ZERO_ADDRESS :: string where "ZERO_ADDRESS = ''11111111111111111111111111111111''"

definition spot_readU128LE :: "bytes \<Rightarrow> nat \<Rightarrow> int res" where
  "spot_readU128LE dv off =
     rbind (get_le dv off 8) (\<lambda>lo. rbind (get_le dv (off + 8) 8) (\<lambda>hi. Inr (or lo (push_bit 64 hi))))"

definition decodeFutarchySpotTwap :: "bytes \<Rightarrow> int option res" where
  "decodeFutarchySpotTwap data =
     (if length data < SPOT_MIN_LEN then Inr None
      else rbind (spot_readU128LE data SPOT_AGGREGATOR_OFFSET) (\<lambda>aggregator.
        rbind (readI64LE data SPOT_LAST_UPDATED_TS_OFFSET) (\<lambda>lastUpdated.
        rbind (readI64LE data SPOT_CREATED_AT_TS_OFFSET) (\<lambda>createdAt.
        rbind (readU32LE data SPOT_START_DELAY_SECONDS_OFFSET) (\<lambda>startDelay.
        (let elapsed = lastUpdated - (createdAt + startDelay) in
         Inr (if aggregator \<le> 0 \<or> elapsed \<le> 0 then None else Some (aggregator div elapsed))))))))"

text \<open>A u128 is far from the largest double, so that the price of a TWAP is always finite.\<close>

definition usdcPerKass :: "int \<Rightarrow> real" where
  "usdcPerKass twap = fl (fl (Number twap / Number PRICE_SCALE) * 1000)"

definition kass_price_read :: "'a web3 \<Rightarrow> ('a \<Rightarrow> bytes option res) \<Rightarrow> real option res" where
  "kass_price_read W getAccountInfo =
     rbind (pda_protocol W None) (\<lambda>protocolPda.
     rbind (getAccountInfo (pda_address protocolPda)) (\<lambda>info.
     case info of
       None \<Rightarrow> Inr None
     | Some data \<Rightarrow>
         if data = [] then Inr None
         else rbind (decodeProtocol W data) (\<lambda>protocol.
           if \<not> pc_governanceSet protocol \<or> w3_string W (pc_kassDao protocol) = ZERO_ADDRESS then Inr None
           else rbind (getAccountInfo (pc_kassDao protocol)) (\<lambda>daoInfo.
             case daoInfo of
               None \<Rightarrow> Inr None
             | Some dao \<Rightarrow>
                 if dao = [] then Inr None
                 else rbind (decodeFutarchySpotTwap dao) (\<lambda>twap.
                   case twap of
                     None \<Rightarrow> Inr None
                   | Some t \<Rightarrow> (let price = usdcPerKass t in Inr (if price > 0 then Some price else None)))))))"

definition fetchKassUsdcPrice :: "'a web3 \<Rightarrow> ('a \<Rightarrow> bytes option res) \<Rightarrow> real option" where
  "fetchKassUsdcPrice W getAccountInfo = (case kass_price_read W getAccountInfo of Inr p \<Rightarrow> p | Inl _ \<Rightarrow> None)"

section \<open>The program: the price (layout.rs, price.rs)\<close>

definition read_signed :: "bytes \<Rightarrow> nat \<Rightarrow> fault + int" where
  "read_signed data off = fbind (read_uint 8 data off) (\<lambda>v. Inr (to_signed 64 v))"

definition futarchy_spot_twap :: "bytes \<Rightarrow> fault + int" where
  "futarchy_spot_twap data =
     fbind (read_uint 16 data 9) (\<lambda>aggregator.
     fbind (read_signed data 25) (\<lambda>last_updated.
     fbind (read_signed data 33) (\<lambda>created_at.
     fbind (read_uint 4 data 105) (\<lambda>start_delay.
     (let start = created_at + start_delay; seconds_passed = last_updated - start in
      if \<not> signed_range 64 start then Inl InvalidAccount
      else if \<not> signed_range 64 seconds_passed \<or> seconds_passed \<le> 0 then Inl InvalidAccount
      else if aggregator = 0 then Inl InvalidAccount
      else Inr (aggregator div seconds_passed))))))"

definition kass_price :: "'a protocol_account \<Rightarrow> 'a \<Rightarrow> bool \<Rightarrow> bytes \<Rightarrow> fault + int" where
  "kass_price protocol kass_dao_ai owned_by_futarchy data =
     (if kass_dao_ai \<noteq> pc_kassDao protocol then Inl InvalidAccount
      else if \<not> owned_by_futarchy then Inl InvalidAccount
      else futarchy_spot_twap data)"

section \<open>The program: governance\<close>

datatype gov_fault = InvalidInstructionData | GovernanceAlreadySet | Unauthorized
  | GovInvalidAccount | InvalidFutarchyDao | DaoAuthorityMismatch | InvalidConfig | Overflow_Panic
  | WrongPhase | InvalidOptionsCount

definition DAO_ACCOUNT_DISCRIMINATOR :: bytes where
  "DAO_ACCOUNT_DISCRIMINATOR = [0xa3, 0x09, 0x2f, 0x1f, 0x34, 0x55, 0xc5, 0x31]"

text \<open>\<open>squads_multisig_pda\<close> and \<open>squads_vault_pda\<close> with index 0.\<close>

definition dao_vault :: "'a web3 \<Rightarrow> 'a \<Rightarrow> 'a option" where
  "dao_vault W kass_dao =
     (case w3_find_pda W [ascii ''multisig'', ascii ''multisig'', w3_bytes W kass_dao] (squadsV4_id W) of
        None \<Rightarrow> None
      | Some (multisig, _) \<Rightarrow>
          map_option fst (w3_find_pda W [ascii ''multisig'', w3_bytes W multisig, ascii ''vault'', [0]] (squadsV4_id W)))"

text \<open>An account of the instruction: its key, whether it signed, its owner and data.\<close>

record 'a gov_account =
  ga_key :: 'a
  ga_signed :: bool
  ga_owned_by_futarchy :: bool
  ga_data :: bytes

definition set_governance ::
  "'a web3 \<Rightarrow> 'a protocol_account \<Rightarrow> 'a gov_account \<Rightarrow> 'a gov_account \<Rightarrow> bytes \<Rightarrow> gov_fault + 'a protocol_account" where
  "set_governance W protocol authority kass_dao_ai payload =
     (case parse_set_governance payload of
        Some (PGovernance dao_authority kass_dao) \<Rightarrow>
          if \<not> ga_signed authority then Inl Unauthorized
          else if pc_governanceSet protocol \<and> ga_key authority \<noteq> pc_daoAuthority protocol then Inl GovernanceAlreadySet
          else if \<not> pc_governanceSet protocol \<and> ga_key authority \<noteq> pc_admin protocol then Inl Unauthorized
          else if w3_bytes W (ga_key kass_dao_ai) \<noteq> kass_dao then Inl GovInvalidAccount
          else if \<not> ga_owned_by_futarchy kass_dao_ai then Inl InvalidFutarchyDao
          else if length (ga_data kass_dao_ai) < 8 \<or> take 8 (ga_data kass_dao_ai) \<noteq> DAO_ACCOUNT_DISCRIMINATOR
            then Inl InvalidFutarchyDao
          else (case dao_vault W (ga_key kass_dao_ai) of
              Some vault \<Rightarrow>
                if dao_authority \<noteq> w3_bytes W vault then Inl DaoAuthorityMismatch
                else Inr (protocol\<lparr>pc_daoAuthority := vault, pc_kassDao := ga_key kass_dao_ai, pc_governanceSet := True\<rparr>)
            | None \<Rightarrow> Inl DaoAuthorityMismatch)
      | _ \<Rightarrow> Inl (if length payload < 64 then InvalidInstructionData else GovInvalidAccount))"

definition config_bounds :: "set_config_params \<Rightarrow> gov_fault + unit" where
  "config_bounds p =
     (if cfg_thresholdDen p = 0 \<or> cfg_marketThresholdDen p = 0 \<or> cfg_flipSlashDen p = 0 \<or> cfg_factVoteSlashDen p = 0
        \<or> cfg_emissionDen p = 0 \<or> cfg_challengeFailUsdcFeeDen p = 0 \<or> cfg_challengeSuccessKassFeeDen p = 0
      then Inl InvalidConfig
      else if cfg_thresholdNum p > cfg_thresholdDen p \<or> cfg_flipSlashNum p > cfg_flipSlashDen p
        \<or> cfg_factVoteSlashNum p > cfg_factVoteSlashDen p \<or> cfg_emissionNum p > cfg_emissionDen p
        \<or> cfg_marketThresholdNum p > cfg_marketThresholdDen p
        \<or> cfg_challengeFailUsdcFeeNum p > cfg_challengeFailUsdcFeeDen p
        \<or> cfg_challengeSuccessKassFeeNum p > cfg_challengeSuccessKassFeeDen p
      then Inl InvalidConfig
      else if cfg_phaseWindow p \<le> 0 \<or> cfg_proposalWindow p \<le> 0 \<or> cfg_feeEmaHalflife p \<le> 0 then Inl InvalidConfig
      else if cfg_rewardProposerWeight p = 0 \<and> cfg_rewardFactWeight p = 0 then Inl InvalidConfig
      else (let x = cfg_flipSlashNum p * cfg_challengeSuccessKassFeeDen p;
                y = cfg_challengeSuccessKassFeeNum p * cfg_flipSlashDen p;
                z = cfg_flipSlashDen p * cfg_challengeSuccessKassFeeDen p in
        if x \<ge> 2 ^ 128 \<or> y \<ge> 2 ^ 128 \<or> x + y \<ge> 2 ^ 128 \<or> z \<ge> 2 ^ 128 then Inl Overflow_Panic
        else if x + y > z then Inl InvalidConfig else Inr ()))"

definition apply_config :: "set_config_params \<Rightarrow> 'a protocol_account \<Rightarrow> 'a protocol_account" where
  "apply_config p protocol = protocol\<lparr>
     pc_emissionNum := cfg_emissionNum p, pc_emissionDen := cfg_emissionDen p,
     pc_totalSupplyCap := cfg_totalSupplyCap p, pc_feeEmaHalflife := cfg_feeEmaHalflife p,
     pc_feePerEmaUnit := cfg_feePerEmaUnit p, pc_feeEmaIncrement := cfg_feeEmaIncrement p,
     pc_thresholdNum := cfg_thresholdNum p, pc_thresholdDen := cfg_thresholdDen p,
     pc_marketThresholdNum := cfg_marketThresholdNum p, pc_marketThresholdDen := cfg_marketThresholdDen p,
     pc_flipSlashNum := cfg_flipSlashNum p, pc_flipSlashDen := cfg_flipSlashDen p,
     pc_phaseWindow := cfg_phaseWindow p, pc_proposalWindow := cfg_proposalWindow p,
     pc_factVoteSlashNum := cfg_factVoteSlashNum p, pc_factVoteSlashDen := cfg_factVoteSlashDen p,
     pc_rewardProposerWeight := cfg_rewardProposerWeight p, pc_rewardFactWeight := cfg_rewardFactWeight p,
     pc_challengeFailUsdcFeeNum := cfg_challengeFailUsdcFeeNum p,
     pc_challengeFailUsdcFeeDen := cfg_challengeFailUsdcFeeDen p,
     pc_challengeSuccessKassFeeNum := cfg_challengeSuccessKassFeeNum p,
     pc_challengeSuccessKassFeeDen := cfg_challengeSuccessKassFeeDen p,
     pc_stakeFloorEmaThreshold := cfg_stakeFloorEmaThreshold p,
     pc_stakeFloorEmaCap := cfg_stakeFloorEmaCap p, pc_stakeFloorMax := cfg_stakeFloorMax p\<rparr>"

text \<open>\<open>assert_dao_authority\<close>.\<close>

definition assert_dao_authority :: "'a protocol_account \<Rightarrow> 'a gov_account \<Rightarrow> gov_fault + unit" where
  "assert_dao_authority protocol signer =
     (if \<not> ga_signed signer then Inl Unauthorized
      else if ga_key signer \<noteq> pc_daoAuthority protocol then Inl Unauthorized else Inr ())"

definition set_config ::
  "'a protocol_account \<Rightarrow> 'a gov_account \<Rightarrow> bytes \<Rightarrow> gov_fault + 'a protocol_account" where
  "set_config protocol dao_authority payload =
     (case parse_set_config payload of
        Some (PConfig p) \<Rightarrow>
          (case assert_dao_authority protocol dao_authority of
             Inl e \<Rightarrow> Inl e
           | Inr _ \<Rightarrow> (case config_bounds p of Inl e \<Rightarrow> Inl e | Inr _ \<Rightarrow> Inr (apply_config p protocol)))
      | _ \<Rightarrow> Inl InvalidInstructionData)"

definition resolve_deadend ::
  "'a protocol_account \<Rightarrow> 'a gov_account \<Rightarrow> 'a oracle_account \<Rightarrow> bytes \<Rightarrow> gov_fault + 'a oracle_account" where
  "resolve_deadend protocol dao_authority orc payload =
     (case parse_resolve_deadend payload of
        Some (PDeadend option) \<Rightarrow>
          (case assert_dao_authority protocol dao_authority of
             Inl e \<Rightarrow> Inl e
           | Inr _ \<Rightarrow>
               if orc_phase orc \<noteq> Some Ph_InvalidDeadend then Inl WrongPhase
               else if option \<ge> orc_optionsCount orc then Inl InvalidOptionsCount
               else Inr (orc\<lparr>orc_resolvedOption := option, orc_phaseRaw := 7, orc_phase := Some Ph_Resolved\<rparr>))
      | _ \<Rightarrow> Inl InvalidInstructionData)"

text \<open>The governable parameters that \<open>init_protocol\<close> stores (\<open>config.rs\<close>), and the account it makes.\<close>

definition INIT_CONFIG :: set_config_params where
  "INIT_CONFIG = \<lparr>cfg_emissionNum = 1, cfg_emissionDen = 1000000, cfg_totalSupplyCap = 1000000000 * 1000000000,
     cfg_feeEmaHalflife = 86400, cfg_feePerEmaUnit = 1000000000, cfg_feeEmaIncrement = 1000000000,
     cfg_thresholdNum = 2, cfg_thresholdDen = 3, cfg_marketThresholdNum = 1, cfg_marketThresholdDen = 10,
     cfg_flipSlashNum = 1, cfg_flipSlashDen = 2, cfg_phaseWindow = 3600, cfg_proposalWindow = 3600,
     cfg_factVoteSlashNum = 1, cfg_factVoteSlashDen = 2, cfg_rewardProposerWeight = 2,
     cfg_rewardFactWeight = 1, cfg_challengeFailUsdcFeeNum = 1, cfg_challengeFailUsdcFeeDen = 100,
     cfg_challengeSuccessKassFeeNum = 1, cfg_challengeSuccessKassFeeDen = 100,
     cfg_stakeFloorEmaThreshold = 15000000000, cfg_stakeFloorEmaCap = 1443000000000, cfg_stakeFloorMax = 0\<rparr>"

definition init_protocol :: "'a \<Rightarrow> 'a \<Rightarrow> 'a \<Rightarrow> 'a \<Rightarrow> int \<Rightarrow> 'a protocol_account" where
  "init_protocol zero admin kass_mint usdc_mint bump =
     apply_config INIT_CONFIG \<lparr>pc_accountType = AT_Protocol, pc_admin = admin, pc_kassMint = kass_mint,
       pc_usdcMint = usdc_mint, pc_feeEma = 0, pc_lastCreationUnix = 0, pc_bump = bump,
       pc_governanceSet = False, pc_daoAuthority = zero, pc_kassDao = zero,
       pc_emissionNum = 0, pc_emissionDen = 0, pc_totalSupplyCap = 0, pc_feeEmaHalflife = 0,
       pc_feePerEmaUnit = 0, pc_feeEmaIncrement = 0, pc_thresholdNum = 0, pc_thresholdDen = 0,
       pc_marketThresholdNum = 0, pc_marketThresholdDen = 0, pc_flipSlashNum = 0, pc_flipSlashDen = 0,
       pc_phaseWindow = 0, pc_proposalWindow = 0, pc_factVoteSlashNum = 0, pc_factVoteSlashDen = 0,
       pc_rewardProposerWeight = 0, pc_rewardFactWeight = 0, pc_challengeFailUsdcFeeNum = 0,
       pc_challengeFailUsdcFeeDen = 0, pc_challengeSuccessKassFeeNum = 0, pc_challengeSuccessKassFeeDen = 0,
       pc_stakeFloorEmaThreshold = 0, pc_stakeFloorEmaCap = 0, pc_stakeFloorMax = 0\<rparr>"

end
