(* ===== verification/Governance_Facts.thy ===== *)
theory Governance_Facts
  imports Governance
begin

text \<open>
  What the governance of the oracle program keeps, and what the admin page sends it: the handoff of the
  page is the one the program admits, the configuration stays sound, and a resolved dead end has the option
  that was sent.
\<close>

section \<open>The handoff\<close>

lemma admin_addr_Inr: "admin_addr W name x = Inr a \<Longrightarrow> addr W x = Inr a"
  by (auto simp: admin_addr_def lift_web_def split: address_input.splits option.splits)

lemma vault_of_dao:
  assumes "fut_squadsMultisig W (Addr dao) = Inr ms" "fut_squadsVault W (Addr (pda_address ms)) 0 = Inr v"
  shows "dao_vault W dao = Some (pda_address v)"
  using assms
  by (auto simp: fut_squadsMultisig_def fut_squadsVault_def pubkeyBytes_def fut_derive_def dao_vault_def lift_web_def
      u8_def rbind_Inr_iff rmap_Inr_iff split: option.splits)

lemma payload_linkage:
  assumes "web3_ok W" "setGovernance W \<lparr>sga_authority = x, sga_daoAuthority = Addr v, sga_kassDao = Addr d,
      sga_programId = pid\<rparr> = Inr ix" "w3_bytes W v \<noteq> zero_pad 32" "w3_bytes W d \<noteq> zero_pad 32"
  shows "parse_set_governance (ix_payload ix) = Some (PGovernance (w3_bytes W v) (w3_bytes W d))"
  using setGovernance_payload [OF assms(2)] parse_governance_back [of "w3_bytes W v" "w3_bytes W d"] assms(3,4)
    length_w3_bytes [OF assms(1)]
  by (simp add: key_of_def)

text \<open>What the program does with a handoff that names a DAO and the vault derived for it.\<close>

lemma handoff_admitted:
  assumes "web3_ok W" "setGovernance W \<lparr>sga_authority = x, sga_daoAuthority = Addr v, sga_kassDao = Addr d,
      sga_programId = pid\<rparr> = Inr ix" "w3_bytes W v \<noteq> zero_pad 32" "w3_bytes W d \<noteq> zero_pad 32"
    and "dao_vault W d = Some v" "ga_key acct = d"
  shows "set_governance W protocol who acct (ix_payload ix) = Inr p \<longleftrightarrow>
      ga_signed who \<and> ga_key who = (if pc_governanceSet protocol then pc_daoAuthority protocol else pc_admin protocol)
      \<and> ga_owned_by_futarchy acct \<and> take 8 (ga_data acct) = DAO_ACCOUNT_DISCRIMINATOR
      \<and> p = protocol\<lparr>pc_daoAuthority := v, pc_kassDao := d, pc_governanceSet := True\<rparr>"
proof -
  have "length (ga_data acct) < 8 \<Longrightarrow> take 8 (ga_data acct) \<noteq> DAO_ACCOUNT_DISCRIMINATOR"
    by (auto simp: DAO_ACCOUNT_DISCRIMINATOR_def)
  then have "set_governance W protocol who acct (ix_payload ix) =
      (if \<not> ga_signed who then Inl Unauthorized
       else if pc_governanceSet protocol \<and> ga_key who \<noteq> pc_daoAuthority protocol then Inl GovernanceAlreadySet
       else if \<not> pc_governanceSet protocol \<and> ga_key who \<noteq> pc_admin protocol then Inl Unauthorized
       else if \<not> ga_owned_by_futarchy acct then Inl InvalidFutarchyDao
       else if take 8 (ga_data acct) \<noteq> DAO_ACCOUNT_DISCRIMINATOR then Inl InvalidFutarchyDao
       else Inr (protocol\<lparr>pc_daoAuthority := v, pc_kassDao := d, pc_governanceSet := True\<rparr>))"
    using payload_linkage [OF assms(1-4)] assms(5,6) by (simp add: set_governance_def)
  then show ?thesis by (simp split: if_split) blast
qed

text \<open>
  C18: the handoff of the admin page is the one the program admits. The page sends one instruction that
  names the given DAO and the Squads vault that the program derives for it. The program links a
  protocol to it exactly when the right authority signs (the admin before the first handoff, the vault
  of the linked DAO afterwards) and the account is a DAO of the futarchy program, and then records the
  DAO and its vault and nothing else.
\<close>

theorem governance_handoff_accepted:
  assumes "web3_ok W" "buildSetGovernanceIxs W authority kassDao = Inr ixs"
  shows "\<exists>ix a dao vault. ixs = [ix] \<and> addr W authority = Inr a \<and> addr W kassDao = Inr dao
    \<and> dao_vault W dao = Some vault
    \<and> (\<forall>protocol who acct. w3_bytes W vault \<noteq> zero_pad 32 \<longrightarrow> w3_bytes W dao \<noteq> zero_pad 32 \<longrightarrow> ga_key acct = dao \<longrightarrow>
        (\<forall>p. set_governance W protocol who acct (ix_payload ix) = Inr p \<longleftrightarrow>
          ga_signed who \<and> ga_key who = (if pc_governanceSet protocol then pc_daoAuthority protocol else pc_admin protocol)
          \<and> ga_owned_by_futarchy acct \<and> take 8 (ga_data acct) = DAO_ACCOUNT_DISCRIMINATOR
          \<and> p = protocol\<lparr>pc_daoAuthority := vault, pc_kassDao := dao, pc_governanceSet := True\<rparr>))"
proof -
  obtain a dao ms v ix where d: "admin_addr W ''kassDao'' kassDao = Inr dao" "fut_squadsMultisig W (Addr dao) = Inr ms"
    "fut_squadsVault W (Addr (pda_address ms)) 0 = Inr v" "admin_addr W ''authority'' authority = Inr a"
    and ix: "setGovernance W \<lparr>sga_authority = Addr a, sga_daoAuthority = Addr (pda_address v), sga_kassDao = Addr dao,
        sga_programId = None\<rparr> = Inr ix" "ixs = [ix]"
    using assms(2) by (auto simp: buildSetGovernanceIxs_def rbind_Inr_iff)
  note vault = vault_of_dao [OF d(2,3)]
  show ?thesis
  proof (intro exI conjI allI impI)
    show "ixs = [ix]" "dao_vault W dao = Some (pda_address v)" by (rule ix vault)+
    show "addr W authority = Inr a" "addr W kassDao = Inr dao" using admin_addr_Inr d(1,4) by metis+
  qed (rule handoff_admitted [OF assms(1) ix(1) _ _ vault])
qed

section \<open>The configuration\<close>

text \<open>
  What a configuration has to be: fractions with positive denominators that are at most 1, positive
  windows, some reward, and a flip slash and a success fee that together do not exceed the bond.
\<close>

definition config_fractions :: "set_config_params \<Rightarrow> (int \<times> int) list" where
  "config_fractions p =
     [(cfg_thresholdNum p, cfg_thresholdDen p), (cfg_flipSlashNum p, cfg_flipSlashDen p),
      (cfg_factVoteSlashNum p, cfg_factVoteSlashDen p), (cfg_emissionNum p, cfg_emissionDen p),
      (cfg_marketThresholdNum p, cfg_marketThresholdDen p),
      (cfg_challengeFailUsdcFeeNum p, cfg_challengeFailUsdcFeeDen p),
      (cfg_challengeSuccessKassFeeNum p, cfg_challengeSuccessKassFeeDen p)]"

definition config_shape :: "set_config_params \<Rightarrow> bool" where
  "config_shape p \<longleftrightarrow>
     list_all (\<lambda>(n, d). 0 \<le> n \<and> n \<le> d \<and> 0 < d) (config_fractions p) \<and>
     0 < cfg_phaseWindow p \<and> 0 < cfg_proposalWindow p \<and> 0 < cfg_feeEmaHalflife p \<and>
     0 < cfg_rewardProposerWeight p + cfg_rewardFactWeight p"

definition config_sound :: "set_config_params \<Rightarrow> bool" where
  "config_sound p \<longleftrightarrow> config_shape p \<and>
     real_of_int (cfg_flipSlashNum p) / real_of_int (cfg_flipSlashDen p)
       + real_of_int (cfg_challengeSuccessKassFeeNum p) / real_of_int (cfg_challengeSuccessKassFeeDen p) \<le> 1"

lemma joint_bound:
  fixes a b c d :: int
  assumes "0 < b" "0 < d"
  shows "real_of_int a / real_of_int b + real_of_int c / real_of_int d \<le> 1 \<longleftrightarrow> a * d + c * b \<le> b * d"
proof -
  have "real_of_int a / real_of_int b + real_of_int c / real_of_int d = real_of_int (a * d + c * b) / real_of_int (b * d)"
    using assms by (simp add: add_frac_eq)
  also have "\<dots> \<le> 1 \<longleftrightarrow> real_of_int (a * d + c * b) \<le> real_of_int (b * d)"
    using assms by (simp add: divide_le_eq mult_pos_pos)
  finally show ?thesis by linarith
qed

lemma u64_product: "unsigned_range 64 a \<Longrightarrow> unsigned_range 64 b \<Longrightarrow> a * b < 2 ^ 128"
  unfolding unsigned_range_def using mult_strict_mono' [of a "2 ^ 64" b "2 ^ 64"] by simp

lemma config_products:
  assumes "config_in_range p"
  shows "cfg_flipSlashNum p * cfg_challengeSuccessKassFeeDen p < 2 ^ 128"
    "cfg_challengeSuccessKassFeeNum p * cfg_flipSlashDen p < 2 ^ 128"
    "cfg_flipSlashDen p * cfg_challengeSuccessKassFeeDen p < 2 ^ 128"
  by (rule u64_product; use assms in \<open>simp add: config_in_range_def\<close>)+

lemma if_or4: "(if a then x else if b then x else if c then x else if d then x else y) = (if a \<or> b \<or> c \<or> d then x else y)"
  by simp

lemma config_bounds_shape:
  assumes "config_in_range p"
  shows "config_bounds p =
    (let x = cfg_flipSlashNum p * cfg_challengeSuccessKassFeeDen p;
         y = cfg_challengeSuccessKassFeeNum p * cfg_flipSlashDen p;
         z = cfg_flipSlashDen p * cfg_challengeSuccessKassFeeDen p in
     if \<not> config_shape p then Inl InvalidConfig
     else if x + y \<ge> 2 ^ 128 then Inl Overflow_Panic else if x + y > z then Inl InvalidConfig else Inr ())"
proof -
  have r: "list_all (\<lambda>(n, d). 0 \<le> n \<and> 0 \<le> d) (config_fractions p)"
    "0 \<le> cfg_rewardProposerWeight p" "0 \<le> cfg_rewardFactWeight p"
    using assms by (simp_all add: config_in_range_def unsigned_range_def config_fractions_def)
  have "(cfg_thresholdDen p = 0 \<or> cfg_marketThresholdDen p = 0 \<or> cfg_flipSlashDen p = 0 \<or> cfg_factVoteSlashDen p = 0
      \<or> cfg_emissionDen p = 0 \<or> cfg_challengeFailUsdcFeeDen p = 0 \<or> cfg_challengeSuccessKassFeeDen p = 0)
    \<or> (cfg_thresholdNum p > cfg_thresholdDen p \<or> cfg_flipSlashNum p > cfg_flipSlashDen p
      \<or> cfg_factVoteSlashNum p > cfg_factVoteSlashDen p \<or> cfg_emissionNum p > cfg_emissionDen p
      \<or> cfg_marketThresholdNum p > cfg_marketThresholdDen p
      \<or> cfg_challengeFailUsdcFeeNum p > cfg_challengeFailUsdcFeeDen p
      \<or> cfg_challengeSuccessKassFeeNum p > cfg_challengeSuccessKassFeeDen p)
    \<or> (cfg_phaseWindow p \<le> 0 \<or> cfg_proposalWindow p \<le> 0 \<or> cfg_feeEmaHalflife p \<le> 0)
    \<or> (cfg_rewardProposerWeight p = 0 \<and> cfg_rewardFactWeight p = 0) \<longleftrightarrow> \<not> config_shape p" (is "?g1 \<or> ?g2 \<or> ?g3 \<or> ?g4 \<longleftrightarrow> _")
  proof -
    have frac: "list_all (\<lambda>(n, d). 0 \<le> n \<and> n \<le> d \<and> 0 < d) (config_fractions p)
        \<longleftrightarrow> list_all (\<lambda>(n, d). d \<noteq> 0 \<and> \<not> d < n) (config_fractions p)"
      using r(1) by (fastforce simp: list_all_iff)
    have "0 < cfg_rewardProposerWeight p + cfg_rewardFactWeight p
        \<longleftrightarrow> \<not> (cfg_rewardProposerWeight p = 0 \<and> cfg_rewardFactWeight p = 0)" using r(2,3) by auto
    then show ?thesis
      unfolding config_shape_def frac unfolding config_fractions_def list.pred_inject prod.case not_less [symmetric]
      by (simp only: list.pred_inject simp_thms de_Morgan_conj disj_assoc) (simp only: disj_ac conj_commute de_Morgan_disj not_not)
  qed
  then have "config_bounds p = (if \<not> config_shape p then Inl InvalidConfig
      else (let x = cfg_flipSlashNum p * cfg_challengeSuccessKassFeeDen p;
                y = cfg_challengeSuccessKassFeeNum p * cfg_flipSlashDen p;
                z = cfg_flipSlashDen p * cfg_challengeSuccessKassFeeDen p in
        if x \<ge> 2 ^ 128 \<or> y \<ge> 2 ^ 128 \<or> x + y \<ge> 2 ^ 128 \<or> z \<ge> 2 ^ 128 then Inl Overflow_Panic
        else if x + y > z then Inl InvalidConfig else Inr ()))"
    unfolding config_bounds_def if_or4 by (simp only:)
  then show ?thesis using config_products [OF assms] by (simp add: Let_def)
qed

lemma config_bounds_iff:
  assumes "config_in_range p"
  shows "config_bounds p = Inr () \<longleftrightarrow> config_sound p"
    and "config_bounds p \<in> {Inr (), Inl InvalidConfig, Inl Overflow_Panic}"
proof -
  let ?x = "cfg_flipSlashNum p * cfg_challengeSuccessKassFeeDen p" and ?y = "cfg_challengeSuccessKassFeeNum p * cfg_flipSlashDen p"
    and ?z = "cfg_flipSlashDen p * cfg_challengeSuccessKassFeeDen p"
  have z: "?z < 2 ^ 128"
    by (rule config_products [OF assms])
  have "config_shape p \<Longrightarrow> config_sound p \<longleftrightarrow> ?x + ?y \<le> ?z"
    using joint_bound [of "cfg_flipSlashDen p" "cfg_challengeSuccessKassFeeDen p"]
    by (simp add: config_sound_def config_shape_def config_fractions_def)
  moreover have "config_sound p \<Longrightarrow> config_shape p" by (simp add: config_sound_def)
  ultimately show "config_bounds p = Inr () \<longleftrightarrow> config_sound p"
    "config_bounds p \<in> {Inr (), Inl InvalidConfig, Inl Overflow_Panic}"
    using z unfolding config_bounds_shape [OF assms] Let_def by (auto split: if_splits)
qed

lemma config_bounds_safe:
  assumes "config_sound p" "0 \<le> bond"
  shows "bond * cfg_flipSlashNum p div cfg_flipSlashDen p
    + bond * cfg_challengeSuccessKassFeeNum p div cfg_challengeSuccessKassFeeDen p \<le> bond"
proof -
  have d: "real_of_int (bond * n div d) \<le> real_of_int bond * (real_of_int n / real_of_int d)" for n d
    using floor_divide_of_int_eq [of "bond * n" d, where ?'a = real] of_int_floor_le [of "real_of_int (bond * n) / real_of_int d"]
    by simp
  have "real_of_int (bond * cfg_flipSlashNum p div cfg_flipSlashDen p
      + bond * cfg_challengeSuccessKassFeeNum p div cfg_challengeSuccessKassFeeDen p)
    \<le> real_of_int bond * (real_of_int (cfg_flipSlashNum p) / real_of_int (cfg_flipSlashDen p)
      + real_of_int (cfg_challengeSuccessKassFeeNum p) / real_of_int (cfg_challengeSuccessKassFeeDen p))"
    using add_mono [OF d d] by (simp add: distrib_left)
  also have "\<dots> \<le> real_of_int bond * 1"
    using assms by (intro mult_left_mono) (simp_all add: config_sound_def)
  finally show ?thesis by linarith
qed

definition config_of :: "'a protocol_account \<Rightarrow> set_config_params" where
  "config_of x = \<lparr>cfg_emissionNum = pc_emissionNum x, cfg_emissionDen = pc_emissionDen x,
     cfg_totalSupplyCap = pc_totalSupplyCap x, cfg_feeEmaHalflife = pc_feeEmaHalflife x,
     cfg_feePerEmaUnit = pc_feePerEmaUnit x, cfg_feeEmaIncrement = pc_feeEmaIncrement x,
     cfg_thresholdNum = pc_thresholdNum x, cfg_thresholdDen = pc_thresholdDen x,
     cfg_marketThresholdNum = pc_marketThresholdNum x, cfg_marketThresholdDen = pc_marketThresholdDen x,
     cfg_flipSlashNum = pc_flipSlashNum x, cfg_flipSlashDen = pc_flipSlashDen x,
     cfg_phaseWindow = pc_phaseWindow x, cfg_proposalWindow = pc_proposalWindow x,
     cfg_factVoteSlashNum = pc_factVoteSlashNum x, cfg_factVoteSlashDen = pc_factVoteSlashDen x,
     cfg_rewardProposerWeight = pc_rewardProposerWeight x, cfg_rewardFactWeight = pc_rewardFactWeight x,
     cfg_challengeFailUsdcFeeNum = pc_challengeFailUsdcFeeNum x,
     cfg_challengeFailUsdcFeeDen = pc_challengeFailUsdcFeeDen x,
     cfg_challengeSuccessKassFeeNum = pc_challengeSuccessKassFeeNum x,
     cfg_challengeSuccessKassFeeDen = pc_challengeSuccessKassFeeDen x,
     cfg_stakeFloorEmaThreshold = pc_stakeFloorEmaThreshold x, cfg_stakeFloorEmaCap = pc_stakeFloorEmaCap x,
     cfg_stakeFloorMax = pc_stakeFloorMax x\<rparr>"

lemma config_of_apply [simp]: "config_of (apply_config p x) = p"
  by (cases p) (simp add: config_of_def apply_config_def)

lemma apply_config_idem [simp]: "apply_config (config_of x) x = x"
  by (cases x) (simp add: config_of_def apply_config_def)

lemma apply_config_keeps [simp]:
  "pc_admin (apply_config p x) = pc_admin x" "pc_daoAuthority (apply_config p x) = pc_daoAuthority x"
  "pc_kassDao (apply_config p x) = pc_kassDao x" "pc_governanceSet (apply_config p x) = pc_governanceSet x"
  "pc_kassMint (apply_config p x) = pc_kassMint x" "pc_usdcMint (apply_config p x) = pc_usdcMint x"
  by (simp_all add: apply_config_def)

lemma protocol_ok_apply: "protocol_ok x \<Longrightarrow> config_in_range p \<Longrightarrow> protocol_ok (apply_config p x)"
  by (simp add: protocol_ok_def config_in_range_def apply_config_def)

lemma defaults_sound: "config_sound DEFAULT_CONFIG" "config_sound INIT_CONFIG"
  by (simp_all add: config_sound_def config_shape_def config_fractions_def DEFAULT_CONFIG_def INIT_CONFIG_def)

lemma defaults_in_range: "config_in_range DEFAULT_CONFIG" "config_in_range INIT_CONFIG"
  by (simp_all add: config_in_range_def DEFAULT_CONFIG_def INIT_CONFIG_def unsigned_range_def signed_range_def)

lemma ok_or_none_Some: "ok_or_none r = Some x \<longleftrightarrow> r = Inr x"
  by (cases r) auto

lemma parsed_config_typed: "parse_set_config payload = Some (PConfig p) \<Longrightarrow> config_in_range p"
  by (auto simp: parse_set_config_def ok_or_none_Some rbind_Inr_iff u64_at_def i64_at_def config_in_range_def
      dest: c64.dec_range ci64.dec_range split: if_splits sum.splits)

lemma set_config_result:
  assumes "parse_set_config payload = Some (PConfig p)"
  shows "set_config protocol who payload = Inr q \<longleftrightarrow>
    ga_signed who \<and> ga_key who = pc_daoAuthority protocol \<and> config_sound p \<and> q = apply_config p protocol"
  using config_bounds_iff [OF parsed_config_typed [OF assms]]
  by (auto simp: set_config_def assms assert_dao_authority_def split: sum.splits if_splits)

text \<open>
  C13: the configuration form installs what it shows. For parameters in the ranges of their types the
  page sends one instruction, and the program installs exactly those parameters, and changes nothing
  else of the protocol, when the authority of the linked DAO signs and the parameters are sound: positive
  denominators, fractions of at most 1, positive windows, some reward, and a flip slash and a success
  fee that together take at most the whole bond; otherwise it refuses, and the checked arithmetic of the
  joint bound overflows for no parameters that are sound. The account then decodes to them. The default
  of the page is sound, but it is not the baseline of a new protocol: it turns the emission, the
  creation fee and the slash of fact voters off.
\<close>

theorem config_form_installs:
  fixes W :: "'a web3"
  assumes "web3_ok W" "buildSetConfigIxs W authority params = Inr ixs"
    and "p = (case params of Some c \<Rightarrow> c | None \<Rightarrow> DEFAULT_CONFIG)" "config_in_range p"
  shows "\<exists>ix. ixs = [ix]
    \<and> (\<forall>(protocol :: 'a protocol_account) who q. set_config protocol who (ix_payload ix) = Inr q \<longleftrightarrow>
        ga_signed who \<and> ga_key who = pc_daoAuthority protocol \<and> config_sound p \<and> q = apply_config p protocol)
    \<and> (\<forall>protocol. protocol_ok protocol \<longrightarrow>
        decodeProtocol W (pod_protocol W (apply_config p protocol)) = Inr (apply_config p protocol)
        \<and> config_of (apply_config p protocol) = p \<and> apply_config (config_of protocol) (apply_config p protocol) = protocol)
    \<and> (params = None \<longrightarrow> config_sound p)
    \<and> DEFAULT_CONFIG = INIT_CONFIG\<lparr>cfg_emissionNum := 0, cfg_emissionDen := 1, cfg_totalSupplyCap := 0,
        cfg_feePerEmaUnit := 0, cfg_feeEmaIncrement := 0, cfg_phaseWindow := 7201, cfg_factVoteSlashNum := 0,
        cfg_factVoteSlashDen := 1, cfg_rewardProposerWeight := 1\<rparr>
    \<and> cfg_emissionNum INIT_CONFIG > 0 \<and> cfg_feePerEmaUnit INIT_CONFIG > 0 \<and> cfg_factVoteSlashNum INIT_CONFIG > 0"
proof -
  obtain a ix where ix: "setConfig W \<lparr>sca_authority = Addr a, sca_params = p, sca_programId = None\<rparr> = Inr ix" "ixs = [ix]"
    using assms(2,3) by (auto simp: buildSetConfigIxs_def rbind_Inr_iff)
  have "parse_set_config (ix_payload ix) = Some (PConfig p)"
    using setConfig_payload [OF ix(1)] parse_config_back [OF assms(4)] by simp
  note installs = set_config_result [OF this]
  have undo: "apply_config (config_of x) (apply_config p x) = x" for x :: "'a protocol_account"
    using apply_config_idem [of x] by (simp add: apply_config_def)
  have "decodeProtocol W (pod_protocol W (apply_config p x)) = Inr (apply_config p x)" if "protocol_ok x" for x
    by (rule protocol_round_trip [OF assms(1) protocol_ok_apply [OF that assms(4)]])
  then show ?thesis
    using installs ix(2) undo defaults_sound(1) assms(3)
    by (intro exI [of _ ix] conjI allI impI) (simp_all add: DEFAULT_CONFIG_def INIT_CONFIG_def)
qed

section \<open>What governance keeps\<close>

text \<open>The instructions that change the protocol after its creation; nobody signs for the zero key.\<close>

inductive gov_step :: "'a web3 \<Rightarrow> 'a \<Rightarrow> 'a protocol_account \<Rightarrow> 'a protocol_account \<Rightarrow> bool" for W zero where
  handoff: "set_governance W p who acct payload = Inr q \<Longrightarrow> ga_key who \<noteq> zero \<Longrightarrow> gov_step W zero p q"
| config: "set_config p who payload = Inr q \<Longrightarrow> ga_key who \<noteq> zero \<Longrightarrow> gov_step W zero p q"

inductive_cases gov_stepE: "gov_step W zero p q"

lemma set_governance_result:
  assumes "set_governance W p who acct payload = Inr q"
  obtains v where "dao_vault W (ga_key acct) = Some v" "ga_signed who"
    "ga_key who = (if pc_governanceSet p then pc_daoAuthority p else pc_admin p)"
    "q = p\<lparr>pc_daoAuthority := v, pc_kassDao := ga_key acct, pc_governanceSet := True\<rparr>"
  using assms by (auto simp: set_governance_def split: option.splits parsed.splits if_splits)

lemma config_of_linked [simp]:
  "config_of (p\<lparr>pc_daoAuthority := v, pc_kassDao := d, pc_governanceSet := g\<rparr>) = config_of p"
  by (simp add: config_of_def)

lemma set_config_accepted:
  assumes "set_config p who payload = Inr q"
  obtains c where "config_sound c" "config_in_range c" "ga_signed who" "ga_key who = pc_daoAuthority p" "q = apply_config c p"
proof -
  obtain c where c: "parse_set_config payload = Some (PConfig c)"
    using assms by (auto simp: set_config_def split: option.splits parsed.splits)
  then show ?thesis using that set_config_result [OF c, of p who q] parsed_config_typed [OF c] assms by blast
qed

definition governed :: "'a web3 \<Rightarrow> 'a \<Rightarrow> 'a \<Rightarrow> 'a protocol_account \<Rightarrow> bool" where
  "governed W zero admin p \<longleftrightarrow>
     config_sound (config_of p) \<and> config_in_range (config_of p) \<and> pc_admin p = admin \<and>
     (if pc_governanceSet p then dao_vault W (pc_kassDao p) = Some (pc_daoAuthority p)
      else config_of p = INIT_CONFIG \<and> pc_daoAuthority p = zero \<and> pc_kassDao p = zero)"

lemma governed_step:
  assumes "governed W zero admin p" "gov_step W zero p q"
  shows "governed W zero admin q"
  using assms(2)
proof cases
  case (handoff who acct payload)
  then show ?thesis using assms(1) by (elim set_governance_result) (auto simp: governed_def)
next
  case (config who payload)
  then show ?thesis using assms(1) by (elim set_config_accepted) (auto simp: governed_def split: if_splits)
qed


section \<open>Resolving a dead end\<close>

definition accepted :: "gov_fault + 'b \<Rightarrow> bool" where
  "accepted r = (case r of Inr _ \<Rightarrow> True | Inl _ \<Rightarrow> False)"

lemma js_u8: "u8 (k mod 256) = u8 k"
proof -
  have "uint (word_of_int (k mod 256) :: byte) = uint (word_of_int k :: byte)" by (simp only: uint_byte_of_int mod_mod_trivial)
  then have "(word_of_int (k mod 256) :: byte) = word_of_int k" by (metis word_of_int_uint)
  then show ?thesis unfolding u8_le_bytes by simp
qed

lemma u8_same: "js_to_int x mod 256 = js_to_int y mod 256 \<Longrightarrow> u8 (js_to_int x) = u8 (js_to_int y)"
  by (metis js_u8)

text \<open>
  C31: the resolution form resolves with what was sent, modulo 256. The page sends one instruction for
  every value of the option field, also for a text that is no number and for a value outside the range,
  and the program resolves a dead-ended oracle to the low byte of it exactly when the authority of the
  linked DAO signs and that byte is an option of the oracle: a field that is not a number resolves to
  option 0, as do 256 and every other multiple. The resolution is final.
\<close>

theorem deadend_option_truncated:
  fixes W :: "'a web3"
  assumes "buildResolveDeadendIxs W orc authority option = Inr ixs"
  shows "\<exists>ix. ixs = [ix]
    \<and> (\<forall>(protocol :: 'a protocol_account) who x q. resolve_deadend protocol who x (ix_payload ix) = Inr q \<longleftrightarrow>
        ga_signed who \<and> ga_key who = pc_daoAuthority protocol \<and> orc_phase x = Some Ph_InvalidDeadend
        \<and> js_to_int option mod 256 < orc_optionsCount x
        \<and> q = x\<lparr>orc_resolvedOption := js_to_int option mod 256, orc_phaseRaw := 7, orc_phase := Some Ph_Resolved\<rparr>)
    \<and> (\<forall>(protocol :: 'a protocol_account) who x q. resolve_deadend protocol who x (ix_payload ix) = Inr q \<longrightarrow>
        (\<forall>(protocol' :: 'a protocol_account) who' payload. \<not> accepted (resolve_deadend protocol' who' q payload)))
    \<and> (\<forall>other. js_to_int other mod 256 = js_to_int option mod 256 \<longrightarrow>
        buildResolveDeadendIxs W orc authority other = Inr ixs)
    \<and> js_to_int None = 0 \<and> js_to_int (Some 256) mod 256 = 0"
proof -
  obtain o1 a1 ix where b: "admin_addr W ''oracle'' orc = Inr o1" "admin_addr W ''authority'' authority = Inr a1"
    and ix: "resolveDeadend W \<lparr>rda_oracle = Addr o1, rda_authority = Addr a1, rda_option = js_to_int option,
      rda_programId = None\<rparr> = Inr ix" "ixs = [ix]"
    using assms by (auto simp: buildResolveDeadendIxs_def rbind_Inr_iff)
  have "parse_resolve_deadend (ix_payload ix) = Some (PDeadend (js_to_int option mod 256))"
    using resolveDeadend_payload [OF ix(1)] parse_deadend_back [of "js_to_int option mod 256"]
    by (simp add: js_u8 unsigned_range_def)
  then have run: "resolve_deadend protocol who x (ix_payload ix) = Inr q \<longleftrightarrow>
        ga_signed who \<and> ga_key who = pc_daoAuthority protocol \<and> orc_phase x = Some Ph_InvalidDeadend
        \<and> js_to_int option mod 256 < orc_optionsCount x
        \<and> q = x\<lparr>orc_resolvedOption := js_to_int option mod 256, orc_phaseRaw := 7, orc_phase := Some Ph_Resolved\<rparr>"
    for protocol :: "'a protocol_account" and who x q
    by (auto simp: resolve_deadend_def assert_dao_authority_def)
  have once: "\<not> accepted (resolve_deadend protocol who x payload)"
    if "orc_phase x = Some Ph_Resolved" for protocol who x and payload :: bytes
    using that by (auto simp: resolve_deadend_def accepted_def split: option.splits parsed.splits sum.splits)
  have same: "buildResolveDeadendIxs W orc authority other = Inr ixs"
    if "js_to_int other mod 256 = js_to_int option mod 256" for other
    using ix b u8_same [OF that] by (simp add: buildResolveDeadendIxs_def resolveDeadend_def)
  have zero: "js_to_int None = 0" "js_to_int (Some 256) mod 256 = 0"
    by (simp_all add: js_to_int_def Oracle_Actions.js_trunc_def)
  have final: "\<not> accepted (resolve_deadend protocol' who' q payload)"
    if "resolve_deadend protocol who x (ix_payload ix) = Inr q" for protocol :: "'a protocol_account" and who x q and protocol' :: "'a protocol_account" and who' payload
    using that unfolding run by (intro once) simp
  show ?thesis by (intro exI [of _ ix] conjI allI impI) (rule ix(2) run final same zero | assumption)+
qed

section \<open>Witnesses\<close>

definition sample_vault :: "256 word" where
  "sample_vault = the (dao_vault sample_web3 10)"

definition sample_signer :: "256 word \<Rightarrow> 256 word gov_account" where
  "sample_signer a = \<lparr>ga_key = a, ga_signed = True, ga_owned_by_futarchy = False, ga_data = []\<rparr>"

definition sample_dao :: "256 word gov_account" where
  "sample_dao = \<lparr>ga_key = 10, ga_signed = False, ga_owned_by_futarchy = True, ga_data = DAO_ACCOUNT_DISCRIMINATOR\<rparr>"

lemma sample_vault_some: "dao_vault sample_web3 10 = Some sample_vault"
  by (simp add: sample_vault_def dao_vault_def sample_web3_def)

lemma sample_keys: "w3_bytes sample_web3 sample_vault \<noteq> zero_pad 32" "w3_bytes sample_web3 10 \<noteq> zero_pad 32"
  by code_simp+

theorem governance_handoff_accepted_witness:
  "\<exists>ix. buildSetGovernanceIxs sample_web3 (Addr 2) (Addr 10) = Inr [ix]
    \<and> set_governance sample_web3 (init_protocol 0 2 3 4 255) (sample_signer 2) sample_dao (ix_payload ix)
      = Inr ((init_protocol 0 2 3 4 255)\<lparr>pc_daoAuthority := sample_vault, pc_kassDao := 10, pc_governanceSet := True\<rparr>)"
proof -
  have "is_ok (buildSetGovernanceIxs sample_web3 (Addr 2) (Addr 10))"
    by (simp add: buildSetGovernanceIxs_def admin_addr_def fut_squadsMultisig_def fut_squadsVault_def fut_derive_def
        setGovernance_def pda_protocol_def derive_def program_or_def sample_web3_def Let_def)
  then obtain ixs where ixs: "buildSetGovernanceIxs sample_web3 (Addr 2) (Addr 10) = Inr ixs" by (auto simp: is_ok_iff)
  show ?thesis
    using governance_handoff_accepted [OF sample_web3_ok ixs] ixs sample_keys
    by (auto simp: sample_vault_some sample_signer_def sample_dao_def init_protocol_def DAO_ACCOUNT_DISCRIMINATOR_def)
qed

lemma sample_linked: "pc_daoAuthority sample_protocol = 9" "pc_kassDao sample_protocol = 10" "pc_governanceSet sample_protocol"
  by (simp_all add: sample_protocol_def)

theorem config_form_installs_witness:
  "\<exists>ix. buildSetConfigIxs sample_web3 (Addr 9) None = Inr [ix]
    \<and> set_config sample_protocol (sample_signer 9) (ix_payload ix) = Inr (apply_config DEFAULT_CONFIG sample_protocol)"
proof -
  have "is_ok (buildSetConfigIxs sample_web3 (Addr 9) None)"
    by (simp add: buildSetConfigIxs_def admin_addr_def setConfig_def pda_protocol_def derive_def program_or_def
        sample_web3_def Let_def encodeSetConfigParams_def)
  then obtain ixs where ixs: "buildSetConfigIxs sample_web3 (Addr 9) None = Inr ixs" by (auto simp: is_ok_iff)
  have default: "DEFAULT_CONFIG = (case None of Some c \<Rightarrow> c | None \<Rightarrow> DEFAULT_CONFIG)" by simp
  obtain ix where ix: "ixs = [ix]" and installs: "\<And>(protocol :: 256 word protocol_account) who q. set_config protocol who (ix_payload ix) = Inr q \<longleftrightarrow>
      ga_signed who \<and> ga_key who = pc_daoAuthority protocol \<and> config_sound DEFAULT_CONFIG
      \<and> q = apply_config DEFAULT_CONFIG protocol"
    using config_form_installs [OF sample_web3_ok ixs default defaults_in_range(1)] by blast
  have "set_config sample_protocol (sample_signer 9) (ix_payload ix) = Inr (apply_config DEFAULT_CONFIG sample_protocol)"
    unfolding installs by (simp add: sample_signer_def sample_linked defaults_sound)
  then show ?thesis using ixs ix by blast
qed

lemma sample_handoff:
  "set_governance sample_web3 (init_protocol 0 2 3 4 255) (sample_signer 2) sample_dao
      (w3_bytes sample_web3 sample_vault @ w3_bytes sample_web3 10)
    = Inr ((init_protocol 0 2 3 4 255)\<lparr>pc_daoAuthority := sample_vault, pc_kassDao := 10, pc_governanceSet := True\<rparr>)"
  using parse_governance_back [OF _ _ sample_keys] length_w3_bytes [OF sample_web3_ok]
  by (simp add: set_governance_def sample_vault_some sample_signer_def sample_dao_def init_protocol_def
      DAO_ACCOUNT_DISCRIMINATOR_def)


theorem deadend_option_truncated_witness:
  "\<exists>ix x. buildResolveDeadendIxs sample_web3 (Addr 1) (Addr 9) None = Inr [ix]
    \<and> resolve_deadend sample_protocol (sample_signer 9) x (ix_payload ix)
      = Inr (x\<lparr>orc_resolvedOption := 0, orc_phaseRaw := 7, orc_phase := Some Ph_Resolved\<rparr>)"
proof -
  have "is_ok (buildResolveDeadendIxs sample_web3 (Addr 1) (Addr 9) None)"
    by (simp add: buildResolveDeadendIxs_def admin_addr_def resolveDeadend_def pda_protocol_def derive_def
        program_or_def sample_web3_def Let_def)
  then obtain ixs where ixs: "buildResolveDeadendIxs sample_web3 (Addr 1) (Addr 9) None = Inr ixs" by (auto simp: is_ok_iff)
  obtain x :: "256 word oracle_account" where dead: "orc_phase x = Some Ph_InvalidDeadend" "0 < orc_optionsCount x"
    using that [of "sample_oracle\<lparr>orc_phase := Some Ph_InvalidDeadend\<rparr>"] by (simp add: sample_oracle_def)
  obtain ix where ix: "ixs = [ix]" and resolves: "\<And>(protocol :: 256 word protocol_account) who x q. resolve_deadend protocol who x (ix_payload ix) = Inr q \<longleftrightarrow>
        ga_signed who \<and> ga_key who = pc_daoAuthority protocol \<and> orc_phase x = Some Ph_InvalidDeadend
        \<and> js_to_int None mod 256 < orc_optionsCount x
        \<and> q = x\<lparr>orc_resolvedOption := js_to_int None mod 256, orc_phaseRaw := 7, orc_phase := Some Ph_Resolved\<rparr>"
    using deadend_option_truncated [OF ixs] by blast
  have final: "resolve_deadend sample_protocol (sample_signer 9) x (ix_payload ix)
      = Inr (x\<lparr>orc_resolvedOption := 0, orc_phaseRaw := 7, orc_phase := Some Ph_Resolved\<rparr>)"
    unfolding resolves by (simp add: sample_signer_def sample_linked dead js_to_int_def)
  show ?thesis
    using ix ixs final by blast
qed

end
