(* ===== verification/Kass_Price.thy ===== *)
theory Kass_Price
  imports Governance_Facts
begin

text \<open>
  The price of KASS: the app's read of the spot oracle in the account of the linked DAO
  (\<open>app/src/data/kassPrice.ts\<close>) against the program's (\<open>cpi/metadao_v06/layout.rs\<close>, \<open>price.rs\<close>).
\<close>

section \<open>The price\<close>

text \<open>The time the spot oracle was created, as both sides read it.\<close>

definition spot_created_at :: "bytes \<Rightarrow> int" where
  "spot_created_at data = to_signed 64 (field data 33 8)"

lemma spot_reads:
  assumes "109 \<le> length data"
  shows "spot_readU128LE data 9 = Inr (field data 9 16)" "readI64LE data 25 = Inr (to_signed 64 (field data 25 8))"
    "readI64LE data 33 = Inr (spot_created_at data)" "readU32LE data 105 = Inr (field data 105 4)"
    "read_uint 16 data 9 = Inr (field data 9 16)" "read_signed data 25 = Inr (to_signed 64 (field data 25 8))"
    "read_signed data 33 = Inr (spot_created_at data)" "read_uint 4 data 105 = Inr (field data 105 4)"
proof -
  have "spot_readU128LE data 9 = get_le data 9 16"
    using amm_readU128LE_get_le [of data 9] by (simp add: amm_readU128LE_def spot_readU128LE_def)
  then show "spot_readU128LE data 9 = Inr (field data 9 16)" using assms by (simp add: get_le_field field_def)
qed (use assms in \<open>simp_all add: readI64LE_def readU32LE_def get_le_field read_uint_def field_def read_signed_def spot_created_at_def\<close>)

lemma spot_ranges:
  assumes "109 \<le> length data"
  shows "- (2 ^ 63) \<le> to_signed 64 (field data 25 8)" "to_signed 64 (field data 25 8) < 2 ^ 63"
    "- (2 ^ 63) \<le> spot_created_at data" "0 \<le> field data 105 4" "0 \<le> field data 9 16"
  using assms to_signed_range [of "field data 25 8"] to_signed_range [of "field data 33 8"] field_range(2) [of 25 8 data]
    field_range(2) [of 33 8 data] field_range(1)
  by (auto simp: signed_range_def spot_created_at_def)

lemma spot_cases:
  assumes "109 \<le> length data"
  defines "e \<equiv> to_signed 64 (field data 25 8) - (spot_created_at data + field data 105 4)"
  shows "decodeFutarchySpotTwap data = Inr (if field data 9 16 \<le> 0 \<or> e \<le> 0 then None else Some (field data 9 16 div e))"
    and "futarchy_spot_twap data = (if field data 9 16 \<le> 0 \<or> e \<le> 0 \<or> e \<ge> 2 ^ 63 then Inl InvalidAccount else Inr (field data 9 16 div e))"
proof -
  show "decodeFutarchySpotTwap data = Inr (if field data 9 16 \<le> 0 \<or> e \<le> 0 then None else Some (field data 9 16 div e))"
    using assms(1)
    by (simp add: decodeFutarchySpotTwap_def SPOT_MIN_LEN_def SPOT_START_DELAY_SECONDS_OFFSET_def SPOT_AGGREGATOR_OFFSET_def
        SPOT_LAST_UPDATED_TS_OFFSET_def SPOT_CREATED_AT_TS_OFFSET_def spot_reads e_def Let_def)
  have r: "- (2 ^ 63) \<le> to_signed 64 (field data 25 8)" "to_signed 64 (field data 25 8) < 2 ^ 63"
    "- (2 ^ 63) \<le> spot_created_at data" "0 \<le> field data 105 4" "0 \<le> field data 9 16"
    using assms(1) spot_ranges [of data] by simp_all
  have start: "e \<le> 0" if "spot_created_at data + field data 105 4 \<ge> 2 ^ 63" using r(2) that by (simp add: e_def)
  have low: "- (2 ^ 63) \<le> spot_created_at data + field data 105 4" using r(3,4) by linarith
  have "futarchy_spot_twap data =
     (if \<not> signed_range 64 (spot_created_at data + field data 105 4) then Inl InvalidAccount
      else if \<not> signed_range 64 e \<or> e \<le> 0 then Inl InvalidAccount
      else if field data 9 16 = 0 then Inl InvalidAccount else Inr (field data 9 16 div e))"
    using assms(1) by (simp add: futarchy_spot_twap_def spot_reads e_def Let_def)
  then show "futarchy_spot_twap data = (if field data 9 16 \<le> 0 \<or> e \<le> 0 \<or> e \<ge> 2 ^ 63 then Inl InvalidAccount else Inr (field data 9 16 div e))"
    using start low r(5) by (auto simp: signed_range_def)
qed

lemma spot_short:
  assumes "length data < 109"
  shows "decodeFutarchySpotTwap data = Inr None" "futarchy_spot_twap data = Inl InvalidAccount"
  using assms
  by (auto simp: decodeFutarchySpotTwap_def SPOT_MIN_LEN_def SPOT_START_DELAY_SECONDS_OFFSET_def futarchy_spot_twap_def
      read_uint_def read_signed_def)

lemma spot_agree:
  "futarchy_spot_twap data = Inr t \<Longrightarrow> decodeFutarchySpotTwap data = Inr (Some t)"
  "0 \<le> spot_created_at data \<Longrightarrow> decodeFutarchySpotTwap data = Inr (Some t) \<Longrightarrow> futarchy_spot_twap data = Inr t"
  "is_ok (decodeFutarchySpotTwap data)"
proof -
  have e: "to_signed 64 (field data 25 8) - (spot_created_at data + field data 105 4) < 2 ^ 63"
    if "0 \<le> spot_created_at data" "109 \<le> length data"
    using that spot_ranges [of data] by linarith
  show "futarchy_spot_twap data = Inr t \<Longrightarrow> decodeFutarchySpotTwap data = Inr (Some t)"
    "0 \<le> spot_created_at data \<Longrightarrow> decodeFutarchySpotTwap data = Inr (Some t) \<Longrightarrow> futarchy_spot_twap data = Inr t"
    "is_ok (decodeFutarchySpotTwap data)"
    using spot_cases [of data] spot_short [of data] e
    by (cases "109 \<le> length data"; auto split: if_splits)+
qed

lemma spot_nonneg: "decodeFutarchySpotTwap data = Inr (Some t) \<Longrightarrow> 0 \<le> t"
  using spot_cases [of data] spot_short [of data]
  by (cases "109 \<le> length data") (auto split: if_splits intro!: pos_imp_zdiv_nonneg_iff [THEN iffD2])

lemma usdcPerKass_pos: "0 \<le> t \<Longrightarrow> 0 < usdcPerKass t \<longleftrightarrow> 0 < t"
  by (cases "t = 0") (auto simp: usdcPerKass_def PRICE_SCALE_def Number_def intro!: fl_pos divide_pos_pos mult_pos_pos)

lemma usdcPerKass_mono: "0 \<le> s \<Longrightarrow> s \<le> t \<Longrightarrow> usdcPerKass s \<le> usdcPerKass t"
  by (auto simp: usdcPerKass_def PRICE_SCALE_def
      intro!: fl_mono mult_right_mono divide_right_mono Number_mono Number_nonneg fl_nonneg mult_nonneg_nonneg divide_nonneg_nonneg)

text \<open>What the app shows for the account of a DAO.\<close>

definition shown_price :: "fault + int \<Rightarrow> real option" where
  "shown_price r = (case r of Inr t \<Rightarrow> if 0 < t then Some (usdcPerKass t) else None | Inl _ \<Rightarrow> None)"

lemma decodeProtocol_nil: "decodeProtocol W [] \<noteq> Inr p"
proof
  assume "decodeProtocol W [] = Inr p"
  then have "\<exists>x. assertAccount [] AT_Protocol (the (ACCOUNT_SIZES AT_Protocol)) ''Protocol'' = Inr x"
    unfolding decodeProtocol_def rbind_Inr_iff by (elim exE conjE) (rule exI)
  then show False by (simp add: assertAccount_def Let_def)
qed

lemma fetch_price:
  assumes "pda_protocol W None = Inr pp" "getInfo (pda_address pp) = Inr (Some raw)" "decodeProtocol W raw = Inr p"
    "pc_governanceSet p" "w3_string W (pc_kassDao p) \<noteq> ZERO_ADDRESS" "getInfo (pc_kassDao p) = Inr (Some dao)"
  shows "fetchKassUsdcPrice W getInfo = (case decodeFutarchySpotTwap dao of Inr (Some t) \<Rightarrow> shown_price (Inr t) | _ \<Rightarrow> None)"
proof -
  have raw: "raw \<noteq> []" using assms(3) decodeProtocol_nil [of W p] by auto
  show ?thesis
  proof (cases "dao = []")
    case True
    then show ?thesis using assms raw spot_short [of dao] by (simp add: fetchKassUsdcPrice_def kass_price_read_def)
  next
    case False
    obtain r where r: "decodeFutarchySpotTwap dao = Inr r" using spot_agree(3) [of dao] by (cases "decodeFutarchySpotTwap dao") auto
    have "fetchKassUsdcPrice W getInfo =
      (case r of None \<Rightarrow> None | Some t \<Rightarrow> if usdcPerKass t > 0 then Some (usdcPerKass t) else None)"
      using assms raw False r by (simp add: fetchKassUsdcPrice_def kass_price_read_def Let_def split: option.splits)
    then show ?thesis using r spot_nonneg [of dao] usdcPerKass_pos by (auto simp: shown_price_def split: option.splits)
  qed
qed

lemma only_Some:
  "(case x of None \<Rightarrow> Inr None | Some y \<Rightarrow> f y) = Inr (Some z) \<longleftrightarrow> (\<exists>y. x = Some y \<and> f y = Inr (Some z))"
  "(if b then Inr None else r) = Inr (Some z) \<longleftrightarrow> \<not> b \<and> r = Inr (Some z)"
  "(if b then Some y else None) = Some z \<longleftrightarrow> b \<and> y = z"
  by (auto split: option.split)

lemma fetch_price_only:
  assumes "fetchKassUsdcPrice W getInfo = Some price"
  obtains pp raw p dao t where "pda_protocol W None = Inr pp" "getInfo (pda_address pp) = Inr (Some raw)"
    "decodeProtocol W raw = Inr p" "pc_governanceSet p" "getInfo (pc_kassDao p) = Inr (Some dao)"
    "decodeFutarchySpotTwap dao = Inr (Some t)" "price = usdcPerKass t" "0 < usdcPerKass t"
proof -
  have "kass_price_read W getInfo = Inr (Some price)"
    using assms by (auto simp: fetchKassUsdcPrice_def split: sum.splits)
  then show ?thesis
    using that by (auto simp: kass_price_read_def rbind_Inr_iff only_Some Let_def split del: if_split)
qed

text \<open>
  C19: the price of the app is the price of the program. The app decodes the spot oracle of a DAO without
  ever failing, gives the TWAP of the program whenever the program has one, and has one only when the
  program has, provided the oracle was created at a time that is not negative (the program refuses an
  elapsed time of more than 63 bits, the app divides by it). For a protocol that is linked and a node
  that serves its DAO, the price of the app is the one of the program's TWAP, shown only when it is
  positive; whatever the node serves, a price that is shown is positive and that of the linked DAO of the
  decoded protocol, and a higher TWAP is never shown as a lower price.
\<close>

theorem kass_price_agrees:
  assumes "web3_ok W"
  shows "is_ok (decodeFutarchySpotTwap data)
    \<and> (futarchy_spot_twap data = Inr t \<longrightarrow> decodeFutarchySpotTwap data = Inr (Some t))
    \<and> (0 \<le> spot_created_at data \<longrightarrow> decodeFutarchySpotTwap data = Inr (Some t) \<longrightarrow> futarchy_spot_twap data = Inr t)
    \<and> (\<forall>p pp dao. protocol_ok p \<longrightarrow> pc_governanceSet p \<longrightarrow> w3_string W (pc_kassDao p) \<noteq> ZERO_ADDRESS \<longrightarrow>
        pda_protocol W None = Inr pp \<longrightarrow> getInfo (pda_address pp) = Inr (Some (pod_protocol W p)) \<longrightarrow>
        getInfo (pc_kassDao p) = Inr (Some dao) \<longrightarrow> 0 \<le> spot_created_at dao \<longrightarrow>
        fetchKassUsdcPrice W getInfo = shown_price (kass_price p (pc_kassDao p) True dao))
    \<and> (\<forall>price. fetchKassUsdcPrice W getInfo = Some price \<longrightarrow> 0 < price
        \<and> (\<exists>pp raw p dao u. pda_protocol W None = Inr pp \<and> getInfo (pda_address pp) = Inr (Some raw)
          \<and> decodeProtocol W raw = Inr p \<and> pc_governanceSet p \<and> getInfo (pc_kassDao p) = Inr (Some dao)
          \<and> decodeFutarchySpotTwap dao = Inr (Some u) \<and> price = usdcPerKass u))
    \<and> (0 \<le> s \<longrightarrow> s \<le> t \<longrightarrow> usdcPerKass s \<le> usdcPerKass t)"
proof -
  have shown: "fetchKassUsdcPrice W getInfo = shown_price (kass_price p (pc_kassDao p) True dao)"
    if "protocol_ok p" "pc_governanceSet p" "w3_string W (pc_kassDao p) \<noteq> ZERO_ADDRESS" "pda_protocol W None = Inr pp"
      "getInfo (pda_address pp) = Inr (Some (pod_protocol W p))" "getInfo (pc_kassDao p) = Inr (Some dao)"
      "0 \<le> spot_created_at dao" for p pp dao
  proof (cases "futarchy_spot_twap dao")
    case (Inr u)
    then show ?thesis
      using fetch_price [OF that(4,5) protocol_round_trip [OF assms that(1)] that(2,3,6)] spot_agree(1) [OF Inr]
      by (simp add: kass_price_def)
  next
    case (Inl e)
    then have no: "decodeFutarchySpotTwap dao \<noteq> Inr (Some u)" for u using spot_agree(2) [OF that(7), of u] by auto
    obtain r where "decodeFutarchySpotTwap dao = Inr r" using spot_agree(3) [of dao] by (cases "decodeFutarchySpotTwap dao") auto
    then have "decodeFutarchySpotTwap dao = Inr None" using no by (cases r) simp_all
    then show ?thesis
      using fetch_price [OF that(4,5) protocol_round_trip [OF assms that(1)] that(2,3,6)] Inl
      by (simp add: kass_price_def shown_price_def)
  qed
  show ?thesis
  proof (intro conjI allI impI)
    show "is_ok (decodeFutarchySpotTwap data)" by (rule spot_agree(3))
    fix price
    assume "fetchKassUsdcPrice W getInfo = Some price"
    then obtain pp raw p dao u where "pda_protocol W None = Inr pp" "getInfo (pda_address pp) = Inr (Some raw)"
      "decodeProtocol W raw = Inr p" "pc_governanceSet p" "getInfo (pc_kassDao p) = Inr (Some dao)"
      "decodeFutarchySpotTwap dao = Inr (Some u)" "price = usdcPerKass u" "0 < usdcPerKass u" by (rule fetch_price_only)
    then show "0 < price" "\<exists>pp raw p dao u. pda_protocol W None = Inr pp \<and> getInfo (pda_address pp) = Inr (Some raw)
          \<and> decodeProtocol W raw = Inr p \<and> pc_governanceSet p \<and> getInfo (pc_kassDao p) = Inr (Some dao)
          \<and> decodeFutarchySpotTwap dao = Inr (Some u) \<and> price = usdcPerKass u" by blast+
  qed (rule spot_agree shown usdcPerKass_mono; assumption)+
qed

definition sample_spot :: bytes where
  "sample_spot = replicate 9 0 @ u128LE 60000000000 @ u64LE 130 @ u64LE 50 @ replicate 64 0 @ u32LE 20"

definition sample_price_node :: "256 word \<Rightarrow> bytes option res" where
  "sample_price_node a = Inr (if a = 10 then Some sample_spot else Some (pod_protocol sample_web3 sample_protocol))"

theorem kass_price_agrees_witness:
  "fetchKassUsdcPrice sample_web3 sample_price_node = Some (usdcPerKass 1000000000)"
proof -
  have t: "futarchy_spot_twap sample_spot = Inr 1000000000" by code_simp
  have c: "0 \<le> spot_created_at sample_spot" by code_simp
  obtain pp where pp: "pda_protocol sample_web3 None = Inr pp" by (simp add: pda_protocol_def derive_def sample_web3_def)
  have "word_of_int (le_val (ascii ''protocol'')) \<noteq> (10 :: 256 word)" by code_simp
  then have other: "pda_address pp \<noteq> 10" using pp by (auto simp: pda_protocol_def derive_def sample_web3_def)
  have ok: "protocol_ok sample_protocol"
    by (simp add: protocol_ok_def sample_protocol_def unsigned_range_def signed_range_def)
  note linked = sample_linked(2,3)
  have named: "w3_string sample_web3 (pc_kassDao sample_protocol) \<noteq> ZERO_ADDRESS" unfolding linked by code_simp
  note agree = kass_price_agrees [OF sample_web3_ok, THEN conjunct2, THEN conjunct2, THEN conjunct2, THEN conjunct1]
  have "fetchKassUsdcPrice sample_web3 sample_price_node
      = shown_price (kass_price sample_protocol (pc_kassDao sample_protocol) True sample_spot)"
    by (rule agree [rule_format, OF ok linked(2) named pp _ _ c])
      (simp_all add: sample_price_node_def other linked)
  then show ?thesis using t linked by (simp add: kass_price_def shown_price_def)
qed

end
