(* ===== verification/Spec2Isabelle.thy ===== *)
theory Spec2Isabelle
  imports Processor_Payloads Runner_Bridge V0_Alt Challenge_Amm Market_Actions Create_Oracle Challenge_Trading
    Oracle_View Directory_Facts Directory_Markets Decoder_Types Kass_Price
begin

text \<open>
  Kassandra: the TypeScript SDKs and the client logic of the oracle and prediction-market
  programs.
\<close>

end
